(* ===== verification/Prelude.thy ===== *)
theory Prelude
  imports Main "HOL-Library.State_Monad" "HOL-Library.AList" "HOL-Library.Char_ord"
    "HOL-Library.List_Lexorder"
begin

text \<open>
  What the components share: Go values (byte strings, maps that may be nil), namespaced
  object keys, the frame calculus for state-passing code, and the collections of hints that
  the component theories extend.

  \<^item> Go \<open>string\<close> and \<open>[]byte\<close> are both byte sequences, so both are \<open>string\<close> (a list of
    8-bit characters) here; \<open>[]byte(s)\<close> and \<open>string(b)\<close> are the identity.
  \<^item> A Go map is an association list with an optional nil: \<open>None\<close> is the nil map. Reading a
    nil map gives the zero value; writing to it panics, which \<open>gm_put\<close> reports as \<open>None\<close>.
  \<^item> Effects are \<open>State_Monad\<close> computations. \<open>state_io_rel R m\<close> (from the library) says that
    every run of \<open>m\<close> relates its first and last state by \<open>R\<close>; the lemmas below make it
    compositional for a reflexive and transitive \<open>R\<close>.
\<close>

named_theorems frame_intros
  "introduction rules that walk through a state-passing program for a frame relation"

type_synonym bytes = "char list"

section \<open>Namespaced keys\<close>

text \<open>\<open>client.ObjectKey\<close>: the namespace and name of an object.\<close>

datatype objkey = ObjectKey (ok_namespace: string) (ok_name: string)

instantiation objkey :: linorder
begin

definition less_eq_objkey :: "objkey \<Rightarrow> objkey \<Rightarrow> bool" where
  "less_eq_objkey a b \<longleftrightarrow>
     ok_namespace a < ok_namespace b \<or> (ok_namespace a = ok_namespace b \<and> ok_name a \<le> ok_name b)"

definition less_objkey :: "objkey \<Rightarrow> objkey \<Rightarrow> bool" where
  "less_objkey a b \<longleftrightarrow>
     ok_namespace a < ok_namespace b \<or> (ok_namespace a = ok_namespace b \<and> ok_name a < ok_name b)"

instance
  by standard (auto simp: less_eq_objkey_def less_objkey_def intro: objkey.expand)

end

section \<open>Go maps\<close>

type_synonym 'v gomap = "(string \<times> 'v) list option"

definition gm_entries :: "'v gomap \<Rightarrow> (string \<times> 'v) list" where
  "gm_entries m = (case m of None \<Rightarrow> [] | Some xs \<Rightarrow> xs)"

definition gm_lookup :: "'v gomap \<Rightarrow> string \<Rightarrow> 'v option" where
  "gm_lookup m k = map_of (gm_entries m) k"

text \<open>\<open>m[k]\<close> on a map of strings (or of byte slices): the empty value when absent.\<close>

definition gm_get :: "string gomap \<Rightarrow> string \<Rightarrow> string" where
  "gm_get m k = (case gm_lookup m k of None \<Rightarrow> [] | Some v \<Rightarrow> v)"

text \<open>\<open>if m == nil { m = map[string]T{} }\<close>\<close>

definition gm_make :: "'v gomap \<Rightarrow> 'v gomap" where
  "gm_make m = (case m of None \<Rightarrow> Some [] | Some xs \<Rightarrow> Some xs)"

text \<open>\<open>m[k] = v\<close>: a nil map panics.\<close>

definition gm_put :: "'v gomap \<Rightarrow> string \<Rightarrow> 'v \<Rightarrow> 'v gomap option" where
  "gm_put m k v = (case m of None \<Rightarrow> None | Some xs \<Rightarrow> Some (Some (AList.update k v xs)))"

text \<open>A sequence of assignments, and \<open>maps.Copy(dst, src)\<close>, which assigns every entry of \<open>src\<close>.\<close>

fun gm_puts :: "'v gomap \<Rightarrow> (string \<times> 'v) list \<Rightarrow> 'v gomap option" where
  "gm_puts m [] = Some m"
| "gm_puts m ((k, v) # kvs) =
     (case gm_put m k v of None \<Rightarrow> None | Some m' \<Rightarrow> gm_puts m' kvs)"

definition gm_copy :: "'v gomap \<Rightarrow> 'v gomap \<Rightarrow> 'v gomap option" where
  "gm_copy dst src = gm_puts dst (gm_entries src)"

lemma gm_lookup_simps [simp]:
  "gm_lookup None k = None"
  "gm_lookup (Some xs) k = map_of xs k"
  by (simp_all add: gm_lookup_def gm_entries_def)

lemma gm_entries_simps [simp]:
  "gm_entries None = []"
  "gm_entries (Some xs) = xs"
  by (simp_all add: gm_entries_def)

lemma gm_make_simps [simp]:
  "gm_make None = Some []"
  "gm_make (Some xs) = Some xs"
  by (simp_all add: gm_make_def)

lemma gm_lookup_make [simp]: "gm_lookup (gm_make m) k = gm_lookup m k"
  by (cases m) simp_all

lemma gm_put_simps [simp]:
  "gm_put None k v = None"
  "gm_put (Some xs) k v = Some (Some (AList.update k v xs))"
  by (simp_all add: gm_put_def)

text \<open>Assignments to a map that exists never panic, and the last one to a key wins.\<close>

lemma gm_puts_Some:
  "\<exists>ys. gm_puts (Some xs) kvs = Some (Some ys) \<and> map_of ys = map_of xs ++ map_of (rev kvs)"
proof (induction kvs arbitrary: xs)
  case Nil
  then show ?case by simp
next
  case (Cons kv kvs)
  obtain k v where kv: "kv = (k, v)" by (cases kv)
  obtain ys where ys: "gm_puts (Some (AList.update k v xs)) kvs = Some (Some ys)"
      "map_of ys = map_of (AList.update k v xs) ++ map_of (rev kvs)"
    using Cons.IH [of "AList.update k v xs"] by blast
  have "map_of xs ++ map_of (rev (kv # kvs)) = map_of (AList.update k v xs) ++ map_of (rev kvs)"
    by (simp add: kv update_conv' map_add_assoc)
  with ys show ?case by (simp add: kv)
qed

lemma gm_copy_Some:
  "\<exists>ys. gm_copy (Some xs) src = Some (Some ys)
     \<and> map_of ys = map_of xs ++ map_of (rev (gm_entries src))"
  unfolding gm_copy_def by (rule gm_puts_Some)

lemma gm_puts_make_not_None: "gm_puts (gm_make m) kvs \<noteq> None"
  using gm_puts_Some [of "gm_entries m" kvs] by (cases m) auto

section \<open>The frame calculus\<close>

text \<open>
  A frame relation \<open>R\<close> is reflexive and transitive. The intended reading of
  \<open>state_io_rel R m\<close> is ``whatever \<open>m\<close> does, it respects \<open>R\<close>''.
\<close>

definition frame_rel :: "('s \<Rightarrow> 's \<Rightarrow> bool) \<Rightarrow> bool" where
  "frame_rel R \<longleftrightarrow> reflp R \<and> transp R"

lemma frame_relI: "(\<And>s. R s s) \<Longrightarrow> (\<And>s t u. R s t \<Longrightarrow> R t u \<Longrightarrow> R s u) \<Longrightarrow> frame_rel R"
  unfolding frame_rel_def by (blast intro: reflpI transpI)

lemma frame_relD: "frame_rel R \<Longrightarrow> R s s" "frame_rel R \<Longrightarrow> R s t \<Longrightarrow> R t u \<Longrightarrow> R s u"
  unfolding frame_rel_def by (blast dest: reflpD transpD)+

lemma frame_return [frame_intros]:
  "frame_rel R \<Longrightarrow> state_io_rel R (State_Monad.return x)"
  by (auto simp: state_io_rel_def intro: frame_relD(1))

lemma frame_bind:
  assumes "frame_rel R" and "state_io_rel R m" and "\<And>a. state_io_rel R (f a)"
  shows "state_io_rel R (State_Monad.bind m f)"
proof (rule state_io_relI)
  fix a s s'
  assume run: "run_state (State_Monad.bind m f) s = (a, s')"
  obtain b t where m: "run_state m s = (b, t)" by (cases "run_state m s")
  with run have f: "run_state (f b) t = (a, s')" by simp
  from assms(2) m have "R s t" by blast
  moreover from assms(3) f have "R t s'" by blast
  ultimately show "R s s'" using assms(1) by (blast intro: frame_relD(2))
qed

text \<open>A bind whose second part only has to respect \<open>R\<close> for the values the first can return.\<close>

lemma frame_bind_pred:
  assumes "frame_rel R" and "state_io_rel R m" and "pred_state P m"
    and "\<And>a. P a \<Longrightarrow> state_io_rel R (f a)"
  shows "state_io_rel R (State_Monad.bind m f)"
proof (rule state_io_relI)
  fix a s s'
  assume run: "run_state (State_Monad.bind m f) s = (a, s')"
  obtain b t where m: "run_state m s = (b, t)" by (cases "run_state m s")
  with run have f: "run_state (f b) t = (a, s')" by simp
  from assms(3) m have "P b" by blast
  from assms(2) m have "R s t" by blast
  moreover from assms(4) [OF \<open>P b\<close>] f have "R t s'" by blast
  ultimately show "R s s'" using assms(1) by (blast intro: frame_relD(2))
qed

lemma frame_if [frame_intros]:
  "(b \<Longrightarrow> state_io_rel R m) \<Longrightarrow> (\<not> b \<Longrightarrow> state_io_rel R n) \<Longrightarrow> state_io_rel R (if b then m else n)"
  by simp

lemma frame_case_sum [frame_intros]:
  "(\<And>a. x = Inl a \<Longrightarrow> state_io_rel R (f a)) \<Longrightarrow> (\<And>b. x = Inr b \<Longrightarrow> state_io_rel R (g b))
    \<Longrightarrow> state_io_rel R (case x of Inl a \<Rightarrow> f a | Inr b \<Rightarrow> g b)"
  by (cases x) auto

lemma frame_case_option [frame_intros]:
  "(x = None \<Longrightarrow> state_io_rel R m) \<Longrightarrow> (\<And>b. x = Some b \<Longrightarrow> state_io_rel R (g b))
    \<Longrightarrow> state_io_rel R (case x of None \<Rightarrow> m | Some b \<Rightarrow> g b)"
  by (cases x) auto

lemma frame_case_prod [frame_intros]:
  "(\<And>a b. x = (a, b) \<Longrightarrow> state_io_rel R (f a b)) \<Longrightarrow> state_io_rel R (case x of (a, b) \<Rightarrow> f a b)"
  by (cases x) auto

text \<open>Reading and updating the state.\<close>

definition gets :: "('s \<Rightarrow> 'a) \<Rightarrow> ('s, 'a) state" where
  "gets f = State (\<lambda>s. (f s, s))"

definition modify :: "('s \<Rightarrow> 's) \<Rightarrow> ('s, unit) state" where
  "modify f = State (\<lambda>s. ((), f s))"

lemma run_gets [simp]: "run_state (gets f) s = (f s, s)"
  by (simp add: gets_def)

lemma run_modify [simp]: "run_state (modify f) s = ((), f s)"
  by (simp add: modify_def)

lemma frame_gets [frame_intros]: "frame_rel R \<Longrightarrow> state_io_rel R (gets f)"
  by (auto simp: state_io_rel_def intro: frame_relD(1))

lemma frame_modify: "(\<And>s. R s (f s)) \<Longrightarrow> state_io_rel R (modify f)"
  by (simp add: state_io_rel_def)

lemma state_io_rel_run: "state_io_rel R m \<Longrightarrow> R s (snd (run_state m s))"
  by (simp add: state_io_rel_def)

end
