(* ===== verification/GoLib.thy ===== *)
theory GoLib
  imports Prelude
begin

text \<open>
  The part of Go's standard library the operator uses on strings and paths, on bytes:
  \<open>strings\<close> (HasPrefix, TrimPrefix, TrimSpace, Cut, Split, Join, ToLower), \<open>path/filepath\<close>
  on a Unix system (Clean, Ext, IsAbs, Join), \<open>strconv.FormatInt\<close> and \<open>encoding/hex\<close>.
\<close>

section \<open>strings\<close>

definition has_prefix :: "string \<Rightarrow> string \<Rightarrow> bool" where
  "has_prefix s p \<longleftrightarrow> take (length p) s = p"

definition trim_prefix :: "string \<Rightarrow> string \<Rightarrow> string" where
  "trim_prefix s p = (if has_prefix s p then drop (length p) s else s)"

lemma has_prefix_append [simp]: "has_prefix (p @ s) p"
  by (simp add: has_prefix_def)

lemma has_prefix_iff: "has_prefix s p \<longleftrightarrow> (\<exists>r. s = p @ r)"
  by (metis append_eq_conv_conj append_take_drop_id has_prefix_def)

lemma has_prefix_Cons [simp]:
  "has_prefix s []"
  "has_prefix (x # s) (y # p) \<longleftrightarrow> x = y \<and> has_prefix s p"
  "\<not> has_prefix [] (y # p)"
  by (auto simp: has_prefix_def)

text \<open>
  \<open>strings.TrimSpace\<close> removes the runes of \<open>unicode.IsSpace\<close> at both ends. Their UTF-8
  encodings are listed; at either end of a string a rune of the list is decoded exactly when its
  encoding stands there.
\<close>

definition ascii_spaces :: "string list" where
  "ascii_spaces = [[CHR 0x09], [CHR 0x0A], [CHR 0x0B], [CHR 0x0C], [CHR 0x0D], [CHR 0x20]]"

definition unicode_spaces :: "string list" where
  "unicode_spaces =
    [[CHR 0xC2, CHR 0x85], [CHR 0xC2, CHR 0xA0], [CHR 0xE1, CHR 0x9A, CHR 0x80],
     [CHR 0xE2, CHR 0x80, CHR 0x80], [CHR 0xE2, CHR 0x80, CHR 0x81],
     [CHR 0xE2, CHR 0x80, CHR 0x82], [CHR 0xE2, CHR 0x80, CHR 0x83],
     [CHR 0xE2, CHR 0x80, CHR 0x84], [CHR 0xE2, CHR 0x80, CHR 0x85],
     [CHR 0xE2, CHR 0x80, CHR 0x86], [CHR 0xE2, CHR 0x80, CHR 0x87],
     [CHR 0xE2, CHR 0x80, CHR 0x88], [CHR 0xE2, CHR 0x80, CHR 0x89],
     [CHR 0xE2, CHR 0x80, CHR 0x8A], [CHR 0xE2, CHR 0x80, CHR 0xA8],
     [CHR 0xE2, CHR 0x80, CHR 0xA9], [CHR 0xE2, CHR 0x80, CHR 0xAF],
     [CHR 0xE2, CHR 0x81, CHR 0x9F], [CHR 0xE3, CHR 0x80, CHR 0x80]]"

definition go_spaces :: "string list" where
  "go_spaces = ascii_spaces @ unicode_spaces"

text \<open>Strip any of the given non-empty encodings from the front, repeatedly.\<close>

function trim_left_of :: "string list \<Rightarrow> string \<Rightarrow> string" where
  "trim_left_of sps s =
     (case find (\<lambda>p. p \<noteq> [] \<and> has_prefix s p) sps of
        None \<Rightarrow> s
      | Some p \<Rightarrow> trim_left_of sps (drop (length p) s))"
  by pat_completeness auto
termination
  by (relation "measure (\<lambda>(sps, s). length s)")
    (auto simp: find_Some_iff has_prefix_iff)

declare trim_left_of.simps [simp del]

definition trim_left :: "string \<Rightarrow> string" where
  "trim_left s = trim_left_of go_spaces s"

definition trim_right :: "string \<Rightarrow> string" where
  "trim_right s = rev (trim_left_of (map rev go_spaces) (rev s))"

definition trim_space :: "string \<Rightarrow> string" where
  "trim_space s = trim_right (trim_left s)"

lemma length_trim_left_of: "length (trim_left_of sps s) \<le> length s"
proof (induction sps s rule: trim_left_of.induct)
  case (1 sps s)
  then show ?case by (subst trim_left_of.simps) (auto split: option.split intro: le_trans)
qed

text \<open>A string that is already trimmed starts with none of the listed encodings.\<close>

lemma trim_left_of_fix_iff:
  "trim_left_of sps s = s \<longleftrightarrow> (\<forall>p \<in> set sps. p \<noteq> [] \<longrightarrow> \<not> has_prefix s p)"
proof (cases "find (\<lambda>p. p \<noteq> [] \<and> has_prefix s p) sps")
  case None
  then have "trim_left_of sps s = s" by (subst trim_left_of.simps) simp
  with None show ?thesis by (auto simp: find_None_iff)
next
  case (Some p)
  then have p: "p \<in> set sps" "p \<noteq> []" "has_prefix s p" by (auto simp: find_Some_iff)
  then have "length (drop (length p) s) < length s" by (auto simp: has_prefix_iff)
  with length_trim_left_of [of sps "drop (length p) s"]
  have "trim_left_of sps (drop (length p) s) \<noteq> s" by force
  with p Some show ?thesis by (subst trim_left_of.simps) auto
qed

lemma has_prefix_cut:
  "c \<notin> set p \<Longrightarrow> has_prefix (a @ c # b) p \<longleftrightarrow> has_prefix a p"
proof (induction p arbitrary: a)
  case Nil
  then show ?case by simp
next
  case (Cons x p)
  then show ?case by (cases a) auto
qed

lemma go_spaces_no_slash: "p \<in> set go_spaces \<Longrightarrow> CHR ''/'' \<notin> set p"
proof -
  have "list_all (\<lambda>p. CHR ''/'' \<notin> set p) go_spaces" by code_simp
  then show "p \<in> set go_spaces \<Longrightarrow> CHR ''/'' \<notin> set p" by (auto simp: list_all_iff)
qed

lemma trim_space_fix_iff: "trim_space s = s \<longleftrightarrow> trim_left s = s \<and> trim_right s = s"
proof
  assume fixed: "trim_space s = s"
  have "length (trim_right t) \<le> length t" for t
    using length_trim_left_of [of "map rev go_spaces" "rev t"] by (simp add: trim_right_def)
  moreover have left: "length (trim_left s) \<le> length s"
    by (simp add: trim_left_def length_trim_left_of)
  ultimately have len: "length (trim_left s) = length s"
    using fixed by (metis le_antisym trim_space_def)
  have "trim_left s = s"
  proof (rule ccontr)
    assume "trim_left s \<noteq> s"
    then obtain p where p: "find (\<lambda>p. p \<noteq> [] \<and> has_prefix s p) go_spaces = Some p"
      unfolding trim_left_def by (subst (asm) trim_left_of.simps) (auto split: option.splits)
    then have "p \<noteq> []" "has_prefix s p" by (auto simp: find_Some_iff)
    then have "length (drop (length p) s) < length s" by (auto simp: has_prefix_iff)
    moreover have "trim_left s = trim_left_of go_spaces (drop (length p) s)"
      unfolding trim_left_def by (subst trim_left_of.simps) (simp add: p)
    ultimately show False using len length_trim_left_of [of go_spaces "drop (length p) s"] by simp
  qed
  with fixed show "trim_left s = s \<and> trim_right s = s" by (simp add: trim_space_def)
qed (simp add: trim_space_def)

text \<open>Joining two trimmed words by a slash gives a trimmed string: no space contains a slash.\<close>

lemma trim_space_slash:
  assumes "trim_space a = a" and "trim_space b = b"
  shows "trim_space (a @ CHR ''/'' # b) = a @ CHR ''/'' # b"
proof -
  have "trim_left (a @ CHR ''/'' # b) = a @ CHR ''/'' # b"
    using assms(1) go_spaces_no_slash
    by (auto simp: trim_space_fix_iff trim_left_def trim_left_of_fix_iff has_prefix_cut)
  moreover have "trim_right (a @ CHR ''/'' # b) = a @ CHR ''/'' # b"
  proof -
    have "trim_left_of (map rev go_spaces) (rev b) = rev b"
      using assms(2) by (metis rev_rev_ident trim_right_def trim_space_fix_iff)
    then have "trim_left_of (map rev go_spaces) (rev b @ CHR ''/'' # rev a) = rev b @ CHR ''/'' # rev a"
      using go_spaces_no_slash by (auto simp: trim_left_of_fix_iff has_prefix_cut)
    then show ?thesis by (simp add: trim_right_def)
  qed
  ultimately show ?thesis by (simp add: trim_space_fix_iff)
qed

text \<open>\<open>strings.Cut(s, sep)\<close>, \<open>strings.Split(s, sep)\<close> and \<open>strings.Join\<close> for a one-byte separator.\<close>

fun cut :: "char \<Rightarrow> string \<Rightarrow> (string \<times> string) option" where
  "cut c [] = None"
| "cut c (x # xs) =
     (if x = c then Some ([], xs)
      else (case cut c xs of None \<Rightarrow> None | Some (a, b) \<Rightarrow> Some (x # a, b)))"

fun split_on :: "char \<Rightarrow> string \<Rightarrow> string list" where
  "split_on c [] = [[]]"
| "split_on c (x # xs) =
     (if x = c then [] # split_on c xs
      else (case split_on c xs of [] \<Rightarrow> [[x]] | y # ys \<Rightarrow> (x # y) # ys))"

fun go_join :: "string \<Rightarrow> string list \<Rightarrow> string" where
  "go_join sep [] = []"
| "go_join sep [x] = x"
| "go_join sep (x # y # ys) = x @ sep @ go_join sep (y # ys)"

lemma cut_None_iff: "cut c s = None \<longleftrightarrow> c \<notin> set s"
  by (induction s) (auto split: option.splits)

lemma cut_Some_iff: "cut c s = Some (a, b) \<longleftrightarrow> s = a @ c # b \<and> c \<notin> set a"
proof (induction s arbitrary: a)
  case Nil
  then show ?case by simp
next
  case (Cons x s)
  show ?case
  proof (cases "x = c")
    case True
    then show ?thesis by (cases a) auto
  next
    case False
    show ?thesis
    proof (cases a)
      case Nil
      with False show ?thesis by (auto split: option.split)
    next
      case (Cons y ys)
      have "cut c (x # s) = Some (a, b) \<longleftrightarrow> x = y \<and> cut c s = Some (ys, b)"
        using False by (auto simp: Cons split: option.split)
      then show ?thesis using Cons.IH False by (auto simp: \<open>a = y # ys\<close>)
    qed
  qed
qed

lemma split_on_not_Nil [simp]: "split_on c s \<noteq> []"
  by (cases s) (auto split: list.splits)

lemma join_split_on: "go_join [c] (split_on c s) = s"
proof (induction s)
  case Nil
  then show ?case by simp
next
  case (Cons x s)
  obtain y ys where "split_on c s = y # ys" by (cases "split_on c s") auto
  with Cons show ?case by (cases ys) auto
qed

lemma split_on_no_sep: "w \<in> set (split_on c s) \<Longrightarrow> c \<notin> set w"
proof (induction s arbitrary: w)
  case Nil
  then show ?case by simp
next
  case (Cons x s)
  obtain y ys where ys: "split_on c s = y # ys" by (cases "split_on c s") auto
  with Cons show ?case by (auto split: if_splits)
qed

lemma split_on_append:
  "c \<notin> set a \<Longrightarrow> split_on c (a @ c # b) = a # split_on c b"
  by (induction a) auto

lemma split_on_single: "c \<notin> set a \<Longrightarrow> split_on c a = [a]"
  by (induction a) auto

text \<open>
  \<open>strings.ToLower\<close>. The ASCII letters, and the two runes outside ASCII that Unicode lowers into
  ASCII: U+0130 to \<open>i\<close> and U+212A to \<open>k\<close>. Other runes are left alone here; Go may map them
  to other runes outside ASCII, which no caller can tell from this (they compare with ASCII).
\<close>

definition lower_ascii :: "char \<Rightarrow> char" where
  "lower_ascii c = (let n = of_char c :: nat in if 65 \<le> n \<and> n \<le> 90 then char_of (n + 32) else c)"

function to_lower :: "string \<Rightarrow> string" where
  "to_lower s =
     (if s = [] then []
      else if has_prefix s [CHR 0xC4, CHR 0xB0] then CHR ''i'' # to_lower (drop 2 s)
      else if has_prefix s [CHR 0xE2, CHR 0x84, CHR 0xAA]
        then CHR ''k'' # to_lower (drop 3 s)
      else lower_ascii (hd s) # to_lower (tl s))"
  by pat_completeness auto
termination
  by (relation "measure length") auto

declare to_lower.simps [simp del]

section \<open>strconv and hex\<close>

function dec_digits :: "int \<Rightarrow> string" where
  "dec_digits n = (if n < 10 then [char_of (48 + n)] else dec_digits (n div 10) @ [char_of (48 + n mod 10)])"
  by pat_completeness auto
termination
  by (relation "measure nat") auto

declare dec_digits.simps [simp del]

definition format_int :: "int \<Rightarrow> string" where
  "format_int i = (if i < 0 then CHR ''-'' # dec_digits (- i) else dec_digits i)"

definition format_bool :: "bool \<Rightarrow> string" where
  "format_bool b = (if b then ''true'' else ''false'')"

definition hex_digit :: "nat \<Rightarrow> char" where
  "hex_digit n = (if n < 10 then char_of (48 + n) else char_of (87 + n))"

definition hex_encode :: "bytes \<Rightarrow> string" where
  "hex_encode bs = concat (map (\<lambda>c. let n = of_char c :: nat in [hex_digit (n div 16), hex_digit (n mod 16)]) bs)"

lemma length_hex_encode [simp]: "length (hex_encode bs) = 2 * length bs"
  by (induction bs) (simp_all add: hex_encode_def Let_def)

text \<open>Reading a decimal back, for the round trip.\<close>

definition digit_val :: "char \<Rightarrow> int" where
  "digit_val c = of_char c - 48"

definition read_dec :: "string \<Rightarrow> int" where
  "read_dec s = foldl (\<lambda>n c. 10 * n + digit_val c) 0 s"

lemma of_char_digit: "0 \<le> n \<Longrightarrow> n < 10 \<Longrightarrow> of_char (char_of (48 + n)) = (48 + n :: int)"
  by (simp add: of_char_of)

lemma digit_val_char_of: "0 \<le> n \<Longrightarrow> n < 10 \<Longrightarrow> digit_val (char_of (48 + n)) = n"
  by (simp add: digit_val_def of_char_digit)

lemma read_dec_digits: "0 \<le> n \<Longrightarrow> read_dec (dec_digits n) = n"
proof (induction n rule: dec_digits.induct)
  case (1 n)
  show ?case
  proof (cases "n < 10")
    case True
    then show ?thesis
      using digit_val_char_of [of n] 1(2) by (simp add: dec_digits.simps read_dec_def)
  next
    case False
    with 1 have "read_dec (dec_digits (n div 10)) = n div 10" by simp
    moreover have "digit_val (char_of (48 + n mod 10)) = n mod 10" by (simp add: digit_val_char_of)
    ultimately show ?thesis
      using False by (simp add: dec_digits.simps [of n] read_dec_def)
  qed
qed

lemma dec_digits_not_Nil: "dec_digits n \<noteq> []"
  by (subst dec_digits.simps) simp

lemma dec_digits_are_digits:
  "0 \<le> n \<Longrightarrow> c \<in> set (dec_digits n) \<Longrightarrow> 48 \<le> (of_char c :: int) \<and> (of_char c :: int) < 58"
proof (induction n rule: dec_digits.induct)
  case (1 n)
  show ?case
  proof (cases "n < 10")
    case True
    with 1 have "c = char_of (48 + n)" by (simp add: dec_digits.simps [of n])
    with True 1(2) show ?thesis by (simp add: of_char_digit)
  next
    case False
    with 1 have IH: "c \<in> set (dec_digits (n div 10)) \<Longrightarrow> 48 \<le> (of_char c :: int) \<and> (of_char c :: int) < 58"
      by simp
    from False 1(3) consider "c \<in> set (dec_digits (n div 10))" | "c = char_of (48 + n mod 10)"
      by (auto simp: dec_digits.simps [of n])
    then show ?thesis
    proof cases
      case 1
      with IH show ?thesis by simp
    next
      case 2
      then show ?thesis by (simp add: of_char_digit)
    qed
  qed
qed

definition read_int :: "string \<Rightarrow> int" where
  "read_int s = (case s of [] \<Rightarrow> 0 | c # cs \<Rightarrow>
     if c = CHR ''-'' then - read_dec cs else read_dec s)"

lemma read_format_int: "read_int (format_int i) = i"
proof (cases "i < 0")
  case True
  then show ?thesis by (simp add: read_int_def format_int_def read_dec_digits)
next
  case False
  obtain c cs where d: "dec_digits i = c # cs"
    using dec_digits_not_Nil by (cases "dec_digits i") auto
  then have "48 \<le> (of_char c :: int)" using dec_digits_are_digits [of i c] False by simp
  then have "c \<noteq> CHR ''-''" by auto
  moreover have "read_dec (c # cs) = i" using read_dec_digits [of i] d False by simp
  ultimately show ?thesis using False d by (simp add: read_int_def format_int_def)
qed

section \<open>filepath\<close>

text \<open>\<open>filepath.Ext\<close>: scan from the end, stop at a slash, return from the last dot on.\<close>

fun ext_scan :: "string \<Rightarrow> string \<Rightarrow> string" where
  "ext_scan [] acc = []"
| "ext_scan (c # cs) acc =
     (if c = CHR ''/'' then [] else if c = CHR ''.'' then c # acc else ext_scan cs (c # acc))"

definition filepath_ext :: "string \<Rightarrow> string" where
  "filepath_ext path = ext_scan (rev path) []"

definition filepath_is_abs :: "string \<Rightarrow> bool" where
  "filepath_is_abs path = has_prefix path ''/''"

text \<open>
  \<open>filepath.Clean\<close>, as its documentation states it on the slash-separated elements: empty and
  \<open>.\<close> elements go, a \<open>..\<close> removes the element before it, a \<open>..\<close> at the root is dropped, and a
  relative path keeps its leading \<open>..\<close> elements; the empty result is \<open>.\<close> (or \<open>/\<close>). The stack
  is kept reversed.
\<close>

fun clean_elems :: "bool \<Rightarrow> string list \<Rightarrow> string list \<Rightarrow> string list" where
  "clean_elems rooted stk [] = rev stk"
| "clean_elems rooted stk (e # es) =
     (if e = [] \<or> e = ''.'' then clean_elems rooted stk es
      else if e = ''..'' then
        (case stk of
           [] \<Rightarrow> clean_elems rooted (if rooted then [] else [e]) es
         | t # ts \<Rightarrow> if t = ''..'' then clean_elems rooted (e # stk) es
                    else clean_elems rooted ts es)
      else clean_elems rooted (e # stk) es)"

definition path_elems :: "string \<Rightarrow> string list" where
  "path_elems path = clean_elems (filepath_is_abs path) [] (split_on CHR ''/'' path)"

definition filepath_clean :: "string \<Rightarrow> string" where
  "filepath_clean path =
     (let es = path_elems path; body = go_join ''/'' es in
      if filepath_is_abs path then ''/'' @ body
      else if es = [] then ''.'' else body)"

text \<open>\<open>filepath.Join\<close> skips empty elements and cleans the rest.\<close>

definition filepath_join :: "string list \<Rightarrow> string" where
  "filepath_join parts =
     (case filter (\<lambda>p. p \<noteq> []) parts of [] \<Rightarrow> [] | ps \<Rightarrow> filepath_clean (go_join ''/'' ps))"

end
