(* ===== verification/SecretRef.thy ===== *)
theory SecretRef
  imports GoLib
begin

text \<open>
  \<open>internal/secretref/secretref.go\<close>: which Secret a custom resource's reference means, under the
  operator's cross-namespace policy and its operator-level defaults.

  The contract the controllers rely on is the locale \<open>credential_resolver\<close>; the interpretation
  at the end proves it for \<open>resolve\<close>. Error messages are constructors that carry the values the
  message prints.
\<close>

section \<open>Data\<close>

datatype origin =
    OriginNone  \<comment> \<open>the empty Origin\<close>
  | OriginLocal | OriginCrossNamespace | OriginGlobal

datatype resolve_error =
    ErrNoReference
  | CrossNamespaceRefused string string string  \<comment> \<open>namespace, name, what is allowed\<close>

datatype global_error = ExpectedNamespaceName string

record global_ref =
  g_namespace :: string
  g_name :: string
  g_key :: string

record secret_ref =
  r_namespace :: string
  r_name :: string
  r_key :: string

record resolved =
  rs_object_key :: objkey
  rs_data_key :: string
  rs_origin :: origin

text \<open>\<open>allowed map[string]struct{}\<close>: nil in the zero resolver.\<close>

record resolver =
  allowed :: "unit gomap"

definition zero_resolver :: resolver where
  "zero_resolver = \<lparr>allowed = None\<rparr>"

definition zero_ref :: secret_ref where
  "zero_ref = \<lparr>r_namespace = [], r_name = [], r_key = []\<rparr>"

section \<open>Operations\<close>

definition parse_global :: "string \<Rightarrow> string \<Rightarrow> global_error + global_ref option" where
  "parse_global value0 data_key =
     (let value = trim_space value0 in
      if value = [] then Inr None
      else case cut CHR ''/'' value of
          None \<Rightarrow> Inl (ExpectedNamespaceName value)
        | Some (ns0, name0) \<Rightarrow>
            (let ns = trim_space ns0; name = trim_space name0 in
             if ns = [] \<or> name = [] then Inl (ExpectedNamespaceName value)
             else Inr (Some \<lparr>g_namespace = ns, g_name = name, g_key = data_key\<rparr>)))"

fun new_resolver_loop :: "resolver \<Rightarrow> string list \<Rightarrow> resolver" where
  "new_resolver_loop r [] = r"
| "new_resolver_loop r (ns0 # nss) =
     (let ns = trim_space ns0 in
      if ns = [] then new_resolver_loop r nss
      else case gm_put (gm_make (allowed r)) ns () of
          None \<Rightarrow> r  \<comment> \<open>a write to a nil map: excluded by the \<open>gm_make\<close>\<close>
        | Some m \<Rightarrow> new_resolver_loop (r\<lparr>allowed := m\<rparr>) nss)"

definition new_resolver :: "string list \<Rightarrow> resolver" where
  "new_resolver namespaces = new_resolver_loop zero_resolver namespaces"

definition allowed_namespaces :: "resolver \<Rightarrow> string list" where
  "allowed_namespaces r = sort (map fst (gm_entries (allowed r)))"

definition describe_allowed :: "string list \<Rightarrow> string" where
  "describe_allowed nss = (if nss = [] then ''none'' else go_join '','' nss)"

definition resolve ::
  "resolver \<Rightarrow> string \<Rightarrow> secret_ref \<Rightarrow> global_ref option \<Rightarrow> resolve_error + resolved" where
  "resolve r cr_namespace ref global =
     (if r_name ref = [] then
        (case global of
           None \<Rightarrow> Inl ErrNoReference
         | Some g \<Rightarrow> Inr \<lparr>rs_object_key = ObjectKey (g_namespace g) (g_name g),
                          rs_data_key = g_key g, rs_origin = OriginGlobal\<rparr>)
      else
        (let ns = r_namespace ref in
         if ns = [] \<or> ns = cr_namespace then
           Inr \<lparr>rs_object_key = ObjectKey cr_namespace (r_name ref),
                rs_data_key = r_key ref, rs_origin = OriginLocal\<rparr>
         else if gm_lookup (allowed r) ns = None then
           Inl (CrossNamespaceRefused ns (r_name ref) (describe_allowed (allowed_namespaces r)))
         else
           Inr \<lparr>rs_object_key = ObjectKey ns (r_name ref),
                rs_data_key = r_key ref, rs_origin = OriginCrossNamespace\<rparr>))"

definition index_key :: "string \<Rightarrow> string \<Rightarrow> string" where
  "index_key namespace name = namespace @ ''/'' @ name"

definition index_values ::
  "resolver \<Rightarrow> string \<Rightarrow> secret_ref \<Rightarrow> global_ref option \<Rightarrow> string list" where
  "index_values r cr_namespace ref global =
     (case resolve r cr_namespace ref global of
        Inr res \<Rightarrow> [index_key (ok_namespace (rs_object_key res)) (ok_name (rs_object_key res))]
      | Inl ErrNoReference \<Rightarrow> []
      | Inl _ \<Rightarrow> [index_key (r_namespace ref) (r_name ref)])"

text \<open>The namespaces a resolver permits, as a predicate.\<close>

definition permits :: "resolver \<Rightarrow> string \<Rightarrow> bool" where
  "permits r ns \<longleftrightarrow> gm_lookup (allowed r) ns \<noteq> None"

section \<open>The policy a list of namespaces stands for\<close>

lemma permits_loop:
  "permits (new_resolver_loop r nss) ns \<longleftrightarrow> permits r ns \<or> (ns \<noteq> [] \<and> ns \<in> trim_space ` set nss)"
proof (induction r nss rule: new_resolver_loop.induct)
  case (1 r)
  then show ?case by simp
next
  case (2 r ns0 nss)
  obtain xs where xs: "gm_make (allowed r) = Some xs" by (cases "allowed r") auto
  have upd: "permits (r\<lparr>allowed := Some (AList.update k () xs)\<rparr>) ns \<longleftrightarrow> ns = k \<or> permits r ns" for k
    using arg_cong [OF xs, of "\<lambda>m. gm_lookup m ns"] by (simp add: permits_def update_conv')
  show ?case
  proof (cases "trim_space ns0 = []")
    case True
    with 2 show ?thesis by auto
  next
    case False
    with 2 xs upd show ?thesis by (auto simp: Let_def)
  qed
qed

lemma permits_new_resolver: "permits (new_resolver nss) ns \<longleftrightarrow> ns \<noteq> [] \<and> ns \<in> trim_space ` set nss"
  by (simp add: new_resolver_def permits_loop) (simp add: permits_def zero_resolver_def)

lemma set_allowed_namespaces: "ns \<in> set (allowed_namespaces r) \<longleftrightarrow> permits r ns"
  by (cases "allowed r")
    (auto simp: allowed_namespaces_def permits_def map_of_eq_None_iff)

lemma sorted_allowed_namespaces: "sorted (allowed_namespaces r)"
  by (simp add: allowed_namespaces_def)

section \<open>The contract of a resolver\<close>

text \<open>
  What a controller may assume of the function that turns a reference into a Secret: a result
  names the resource's own namespace, or the operator's default (only when the resource names
  nothing), or a permitted namespace the resource asked for.
\<close>

locale credential_resolver =
  fixes res :: "string \<Rightarrow> secret_ref \<Rightarrow> global_ref option \<Rightarrow> resolve_error + resolved"
    and ok_ns :: "string \<Rightarrow> bool"
  assumes res_default:
      "r_name ref = [] \<Longrightarrow> res ns ref g =
         (case g of None \<Rightarrow> Inl ErrNoReference
          | Some d \<Rightarrow> Inr \<lparr>rs_object_key = ObjectKey (g_namespace d) (g_name d),
                          rs_data_key = g_key d, rs_origin = OriginGlobal\<rparr>)"
    and res_own:
      "r_name ref \<noteq> [] \<Longrightarrow> r_namespace ref = [] \<or> r_namespace ref = ns \<Longrightarrow>
         res ns ref g = Inr \<lparr>rs_object_key = ObjectKey ns (r_name ref),
                             rs_data_key = r_key ref, rs_origin = OriginLocal\<rparr>"
    and res_cross:
      "r_name ref \<noteq> [] \<Longrightarrow> r_namespace ref \<noteq> [] \<Longrightarrow> r_namespace ref \<noteq> ns \<Longrightarrow>
         res ns ref g = Inr x \<Longrightarrow>
         ok_ns (r_namespace ref) \<and>
         x = \<lparr>rs_object_key = ObjectKey (r_namespace ref) (r_name ref),
              rs_data_key = r_key ref, rs_origin = OriginCrossNamespace\<rparr>"
begin

lemma confined:
  assumes "res ns ref g = Inr x"
  shows "ok_namespace (rs_object_key x) = ns
    \<or> (r_name ref = [] \<and> (\<exists>d. g = Some d \<and> rs_object_key x = ObjectKey (g_namespace d) (g_name d)))
    \<or> (rs_origin x = OriginCrossNamespace \<and> ok_ns (ok_namespace (rs_object_key x)))"
proof (cases "r_name ref = []")
  case True
  with assms show ?thesis by (auto simp: res_default split: option.splits)
next
  case False
  show ?thesis
  proof (cases "r_namespace ref = [] \<or> r_namespace ref = ns")
    case True
    with False assms show ?thesis by (auto simp: res_own)
  next
    case other: False
    with False assms res_cross [of ref ns g x] show ?thesis by auto
  qed
qed

lemma origin_tells:
  assumes "res ns ref g = Inr x"
  shows "rs_origin x = OriginGlobal \<longleftrightarrow> r_name ref = []"
    and "rs_origin x = OriginLocal \<Longrightarrow> ok_namespace (rs_object_key x) = ns"
    and "rs_origin x \<noteq> OriginNone"
proof -
  consider "r_name ref = []" | "r_name ref \<noteq> []" "r_namespace ref = [] \<or> r_namespace ref = ns"
    | "r_name ref \<noteq> []" "r_namespace ref \<noteq> []" "r_namespace ref \<noteq> ns" by blast
  then have "(rs_origin x = OriginGlobal \<longleftrightarrow> r_name ref = [])
      \<and> (rs_origin x = OriginLocal \<longrightarrow> ok_namespace (rs_object_key x) = ns)
      \<and> rs_origin x \<noteq> OriginNone"
  proof cases
    case 1
    with assms show ?thesis by (auto simp: res_default split: option.splits)
  next
    case 2
    with assms show ?thesis by (auto simp: res_own)
  next
    case 3
    with assms res_cross [of ref ns g x] show ?thesis by auto
  qed
  then show "rs_origin x = OriginGlobal \<longleftrightarrow> r_name ref = []"
    and "rs_origin x = OriginLocal \<Longrightarrow> ok_namespace (rs_object_key x) = ns"
    and "rs_origin x \<noteq> OriginNone" by auto
qed

end

interpretation policy: credential_resolver "resolve r" "permits r" for r
  by unfold_locales
    (auto simp: resolve_def permits_def Let_def split: option.splits if_splits)

section \<open>Properties\<close>

text \<open>
C13: A reference only ever resolves to the resource's own namespace, to the operator's default
(and only when the resource names no Secret), or, marked as cross-namespace, to a namespace the
operator was configured to permit.
\<close>

theorem resolve_confined:
  assumes "resolve (new_resolver nss) ns ref g = Inr x"
  shows "ok_namespace (rs_object_key x) = ns
    \<or> (r_name ref = [] \<and> (\<exists>d. g = Some d \<and> rs_object_key x = ObjectKey (g_namespace d) (g_name d)))
    \<or> (rs_origin x = OriginCrossNamespace \<and> ok_namespace (rs_object_key x) \<in> trim_space ` set nss)"
  using policy.confined [OF assms] by (auto simp: permits_new_resolver)

theorem resolve_confined_witness:
  "resolve (new_resolver [''shared '']) ''apps'' \<lparr>r_namespace = ''shared'', r_name = ''age'', r_key = ''k''\<rparr> None
     = Inr \<lparr>rs_object_key = ObjectKey ''shared'' ''age'', rs_data_key = ''k'', rs_origin = OriginCrossNamespace\<rparr>
   \<and> ''shared'' \<in> trim_space ` set [''shared '']"
proof -
  let ?ref = "\<lparr>r_namespace = ''shared'', r_name = ''age'', r_key = ''k''\<rparr>"
  let ?x = "\<lparr>rs_object_key = ObjectKey ''shared'' ''age'', rs_data_key = ''k'', rs_origin = OriginCrossNamespace\<rparr>"
  have r: "resolve (new_resolver [''shared '']) ''apps'' ?ref None = Inr ?x" by code_simp
  from resolve_confined [OF r] r show ?thesis by simp
qed

text \<open>
The field index does not depend on the operator's policy, and it always holds the Secret a
reference resolves to under any policy: a reference refused today is already indexed under the
Secret it will resolve to once its namespace is permitted, so granting it wakes the resource.
\<close>

theorem index_values_cover:
  assumes "resolve r ns ref g = Inr x"
  shows "index_values r' ns ref g
    = [index_key (ok_namespace (rs_object_key x)) (ok_name (rs_object_key x))]"
  using assms by (auto simp: index_values_def resolve_def Let_def split: option.splits if_splits)

theorem index_values_cover_witness:
  "index_values zero_resolver ''apps'' \<lparr>r_namespace = ''shared'', r_name = ''age'', r_key = ''k''\<rparr> None
     = [''shared/age'']"
proof -
  have "resolve (new_resolver [''shared'']) ''apps''
      \<lparr>r_namespace = ''shared'', r_name = ''age'', r_key = ''k''\<rparr> None
    = Inr \<lparr>rs_object_key = ObjectKey ''shared'' ''age'', rs_data_key = ''k'',
           rs_origin = OriginCrossNamespace\<rparr>" by code_simp
  from index_values_cover [OF this, of zero_resolver] show ?thesis by (simp add: index_key_def)
qed

text \<open>
Parsing a default that prints as namespace, slash, name gives it back, with the given data key,
if neither part is empty or has surrounding white space and the namespace has no slash.
\<close>

theorem parse_global_index_key:
  assumes "ns \<noteq> []" and "name \<noteq> []" and "CHR ''/'' \<notin> set ns"
    and "trim_space ns = ns" and "trim_space name = name"
  shows "parse_global (index_key ns name) dk
    = Inr (Some \<lparr>g_namespace = ns, g_name = name, g_key = dk\<rparr>)"
proof -
  have t: "trim_space (index_key ns name) = index_key ns name"
    using trim_space_slash [OF assms(4,5)] by (simp add: index_key_def)
  have c: "cut CHR ''/'' (index_key ns name) = Some (ns, name)"
    using assms(3) by (simp add: cut_Some_iff index_key_def)
  have "index_key ns name \<noteq> []" by (simp add: index_key_def)
  with assms show ?thesis by (simp add: parse_global_def t c)
qed

theorem parse_global_index_key_witness:
  "parse_global (index_key ''ops'' ''age'') ''age.agekey''
    = Inr (Some \<lparr>g_namespace = ''ops'', g_name = ''age'', g_key = ''age.agekey''\<rparr>)"
proof (rule parse_global_index_key)
  show "trim_space ''ops'' = ''ops''" by code_simp
  show "trim_space ''age'' = ''age''" by code_simp
qed simp_all

end
