(* ===== verification/ApiTypes.thy ===== *)
theory ApiTypes
  imports GoLib
begin

text \<open>
  The data of the operator's API: the fields of the Kubernetes types it reads and writes
  (\<open>metav1.ObjectMeta\<close>, \<open>metav1.Condition\<close>, \<open>corev1.Secret\<close>), and the custom resources of
  \<open>api/v1alpha1\<close> (prefix \<open>v1_\<close>) and \<open>api/v1alpha2\<close> (prefix \<open>v2_\<close>). A Go pointer or a slice
  whose nil matters is an \<open>option\<close>; a string enumeration stays a string, as in Go, where any
  value may arrive; a time is \<open>None\<close> (nil) or a number, 0 being the zero time. Type metadata
  (\<open>TypeMeta\<close>) carries no behaviour and is left out.
\<close>

section \<open>Kubernetes types\<close>

record object_meta =
  om_name :: string
  om_namespace :: string
  om_uid :: string
  om_resource_version :: string
  om_generation :: int
  om_deletion_timestamp :: "int option"
  om_finalizers :: "string list"
  om_labels :: "string gomap"
  om_annotations :: "string gomap"

definition time_is_zero :: "int option \<Rightarrow> bool" where
  "time_is_zero t = (case t of None \<Rightarrow> True | Some n \<Rightarrow> n = 0)"

definition meta_key :: "object_meta \<Rightarrow> objkey" where
  "meta_key m = ObjectKey (om_namespace m) (om_name m)"

definition empty_meta :: object_meta where
  "empty_meta = \<lparr>om_name = [], om_namespace = [], om_uid = [], om_resource_version = [],
     om_generation = 0, om_deletion_timestamp = None, om_finalizers = [], om_labels = None,
     om_annotations = None\<rparr>"

record condition =
  c_type :: string
  c_status :: string
  c_reason :: string
  c_message :: string

abbreviation condition_true :: string where "condition_true \<equiv> ''True''"
abbreviation condition_false :: string where "condition_false \<equiv> ''False''"

record secret =
  sec_meta :: object_meta
  sec_type :: string
  sec_data :: "bytes gomap"
  sec_string_data :: "string gomap"
  sec_immutable :: "bool option"

definition secret_key_of :: "secret \<Rightarrow> objkey" where
  "secret_key_of s = meta_key (sec_meta s)"

text \<open>\<open>&corev1.Secret{}\<close> with name and namespace set.\<close>

definition new_secret :: "string \<Rightarrow> string \<Rightarrow> secret" where
  "new_secret name namespace =
     \<lparr>sec_meta = empty_meta\<lparr>om_name := name, om_namespace := namespace\<rparr>, sec_type = [],
      sec_data = None, sec_string_data = None, sec_immutable = None\<rparr>"

abbreviation secret_type_opaque :: string where "secret_type_opaque \<equiv> ''Opaque''"

section \<open>v1alpha1\<close>

record v1_local_object_reference =
  v1_lor_name :: string

record v1_secret_reference =
  v1_sr_name :: string
  v1_sr_namespace :: string

record v1_secret_key_ref =
  v1_skr_name :: string
  v1_skr_key :: string
  v1_skr_namespace :: string

definition GitAuthBasic :: string where "GitAuthBasic = ''basic''"
definition GitAuthSSH :: string where "GitAuthSSH = ''ssh''"

record v1_git_auth =
  v1_ga_type :: string
  v1_ga_secret_ref :: "v1_secret_reference option"

record v1_git_repository_spec =
  v1_grs_url :: string
  v1_grs_branch :: string
  v1_grs_revision :: string
  v1_grs_interval :: int
  v1_grs_auth :: "v1_git_auth option"

record v1_git_repository_status =
  v1_grt_last_synced_commit :: string
  v1_grt_cache_ready :: bool
  v1_grt_last_token :: string
  v1_grt_observed_generation :: int
  v1_grt_conditions :: "condition list"

definition ConditionSourceReady :: string where "ConditionSourceReady = ''SourceReady''"
definition ConditionAuthResolved :: string where "ConditionAuthResolved = ''AuthResolved''"

record v1_git_repository =
  v1_gr_meta :: object_meta
  v1_gr_spec :: v1_git_repository_spec
  v1_gr_status :: v1_git_repository_status

record v1_source_ref =
  v1_src_repository_ref :: v1_local_object_reference
  v1_src_path :: string

record v1_decryption_spec =
  v1_dec_key_ref :: v1_secret_key_ref

record v1_mapping_target =
  v1_mt_name :: string
  v1_mt_namespace :: string
  v1_mt_type :: string
  v1_mt_adopt :: bool

record v1_data_mapping =
  v1_dm_key :: string
  v1_dm_from :: string

record v1_sops_secret_spec =
  v1_sss_source :: v1_source_ref
  v1_sss_decryption :: "v1_decryption_spec option"
  v1_sss_target :: v1_mapping_target
  v1_sss_data :: "v1_data_mapping list option"

record v1_sops_secret_status =
  v1_sst_last_applied_hash :: string
  v1_sst_last_synced_commit :: string
  v1_sst_last_token :: string
  v1_sst_observed_generation :: int
  v1_sst_conditions :: "condition list"

definition ConditionDecrypted :: string where "ConditionDecrypted = ''Decrypted''"
definition ConditionApplied :: string where "ConditionApplied = ''Applied''"

record v1_sops_secret =
  v1_ss_meta :: object_meta
  v1_ss_spec :: v1_sops_secret_spec
  v1_ss_status :: v1_sops_secret_status

record v1_manifest_target =
  v1_mft_namespace :: string
  v1_mft_name_override :: string
  v1_mft_adopt :: bool

record v1_sops_secret_manifest_spec =
  v1_sms_source :: v1_source_ref
  v1_sms_decryption :: "v1_decryption_spec option"
  v1_sms_target :: v1_manifest_target

record v1_sops_secret_manifest_status =
  v1_smt_last_applied_hash :: string
  v1_smt_last_synced_commit :: string
  v1_smt_last_token :: string
  v1_smt_observed_generation :: int
  v1_smt_conditions :: "condition list"

record v1_sops_secret_manifest =
  v1_sm_meta :: object_meta
  v1_sm_spec :: v1_sops_secret_manifest_spec
  v1_sm_status :: v1_sops_secret_manifest_status

definition InlineModeMapping :: string where "InlineModeMapping = ''Mapping''"
definition InlineModeManifest :: string where "InlineModeManifest = ''Manifest''"

record v1_inline_target =
  v1_it_name :: string
  v1_it_namespace :: string
  v1_it_type :: string
  v1_it_adopt :: bool

record v1_inline_sops_secret_spec =
  v1_iss_mode :: string
  v1_iss_encrypted_yaml :: string
  v1_iss_decryption :: "v1_decryption_spec option"
  v1_iss_target :: v1_inline_target
  v1_iss_data :: "v1_data_mapping list option"

record v1_inline_sops_secret_status =
  v1_ist_last_applied_hash :: string
  v1_ist_last_token :: string
  v1_ist_observed_generation :: int
  v1_ist_conditions :: "condition list"

record v1_inline_sops_secret =
  v1_is_meta :: object_meta
  v1_is_spec :: v1_inline_sops_secret_spec
  v1_is_status :: v1_inline_sops_secret_status

section \<open>v1alpha2\<close>

record v2_local_object_reference =
  v2_lor_name :: string

record v2_secret_reference =
  v2_sr_name :: string
  v2_sr_namespace :: string

record v2_secret_key_ref =
  v2_skr_name :: string
  v2_skr_key :: string
  v2_skr_namespace :: string

definition SourceKindGitRepository :: string where "SourceKindGitRepository = ''GitRepository''"
definition SourceKindObjectSource :: string where "SourceKindObjectSource = ''ObjectSource''"

record v2_source_kind_ref =
  v2_skf_kind :: string
  v2_skf_name :: string

record v2_git_auth =
  v2_ga_type :: string
  v2_ga_secret_ref :: "v2_secret_reference option"

record v2_git_repository_spec =
  v2_grs_url :: string
  v2_grs_branch :: string
  v2_grs_revision :: string
  v2_grs_interval :: int
  v2_grs_auth :: "v2_git_auth option"

record v2_git_repository_status =
  v2_grt_last_synced_commit :: string
  v2_grt_cache_ready :: bool
  v2_grt_last_token :: string
  v2_grt_observed_generation :: int
  v2_grt_conditions :: "condition list"

record v2_git_repository =
  v2_gr_meta :: object_meta
  v2_gr_spec :: v2_git_repository_spec
  v2_gr_status :: v2_git_repository_status

record v2_source_ref =
  v2_src_source_ref :: v2_source_kind_ref
  v2_src_path :: string

record v2_decryption_spec =
  v2_dec_key_ref :: v2_secret_key_ref

record v2_mapping_target =
  v2_mt_name :: string
  v2_mt_namespace :: string
  v2_mt_type :: string
  v2_mt_adopt :: bool

record v2_data_mapping =
  v2_dm_key :: string
  v2_dm_from :: string

record v2_sops_secret_spec =
  v2_sss_source :: v2_source_ref
  v2_sss_decryption :: "v2_decryption_spec option"
  v2_sss_target :: v2_mapping_target
  v2_sss_data :: "v2_data_mapping list option"

record v2_sops_secret_status =
  v2_sst_last_applied_hash :: string
  v2_sst_last_synced_commit :: string
  v2_sst_last_token :: string
  v2_sst_observed_generation :: int
  v2_sst_conditions :: "condition list"

record v2_sops_secret =
  v2_ss_meta :: object_meta
  v2_ss_spec :: v2_sops_secret_spec
  v2_ss_status :: v2_sops_secret_status

record v2_manifest_target =
  v2_mft_namespace :: string
  v2_mft_name_override :: string
  v2_mft_adopt :: bool

record v2_sops_secret_manifest_spec =
  v2_sms_source :: v2_source_ref
  v2_sms_decryption :: "v2_decryption_spec option"
  v2_sms_target :: v2_manifest_target

record v2_sops_secret_manifest_status =
  v2_smt_last_applied_hash :: string
  v2_smt_last_synced_commit :: string
  v2_smt_last_token :: string
  v2_smt_observed_generation :: int
  v2_smt_conditions :: "condition list"

record v2_sops_secret_manifest =
  v2_sm_meta :: object_meta
  v2_sm_spec :: v2_sops_secret_manifest_spec
  v2_sm_status :: v2_sops_secret_manifest_status

record v2_inline_target =
  v2_it_name :: string
  v2_it_namespace :: string
  v2_it_type :: string
  v2_it_adopt :: bool

record v2_inline_sops_secret_spec =
  v2_iss_mode :: string
  v2_iss_encrypted_yaml :: string
  v2_iss_decryption :: "v2_decryption_spec option"
  v2_iss_target :: v2_inline_target
  v2_iss_data :: "v2_data_mapping list option"

record v2_inline_sops_secret_status =
  v2_ist_last_applied_hash :: string
  v2_ist_last_token :: string
  v2_ist_observed_generation :: int
  v2_ist_conditions :: "condition list"

record v2_inline_sops_secret =
  v2_is_meta :: object_meta
  v2_is_spec :: v2_inline_sops_secret_spec
  v2_is_status :: v2_inline_sops_secret_status

definition ObjectAuthNone :: string where "ObjectAuthNone = ''none''"
definition ObjectAuthBearer :: string where "ObjectAuthBearer = ''bearer''"
definition ObjectAuthBasic :: string where "ObjectAuthBasic = ''basic''"
definition ObjectAuthS3 :: string where "ObjectAuthS3 = ''s3''"

lemmas object_auth_defs = ObjectAuthNone_def ObjectAuthBearer_def ObjectAuthBasic_def ObjectAuthS3_def

record v2_object_auth =
  v2_oa_type :: string
  v2_oa_secret_ref :: "v2_secret_reference option"

record v2_bucket_spec =
  v2_b_endpoint :: string
  v2_b_name :: string
  v2_b_region :: string
  v2_b_insecure :: bool

record v2_object_source_spec =
  v2_oss_url :: string
  v2_oss_bucket :: "v2_bucket_spec option"
  v2_oss_interval :: int
  v2_oss_auth :: "v2_object_auth option"

record v2_object_source_status =
  v2_ost_last_synced_etag :: string
  v2_ost_last_synced_at :: "int option"
  v2_ost_cache_ready :: bool
  v2_ost_last_token :: string
  v2_ost_observed_generation :: int
  v2_ost_conditions :: "condition list"

record v2_object_source =
  v2_os_meta :: object_meta
  v2_os_spec :: v2_object_source_spec
  v2_os_status :: v2_object_source_status

end
