(* ===== verification/Conversion.thy ===== *)
theory Conversion
  imports ApiTypes
begin

text \<open>
  The conversion webhook's functions, \<open>api/v1alpha1/*_conversion.go\<close>: \<open>ConvertTo\<close> turns a
  v1alpha1 resource into the v1alpha2 hub, \<open>ConvertFrom\<close> turns it back. \<open>ConvertFrom\<close> overwrites
  every field of its receiver, so it is a function of the hub object alone.

  The contract of a spoke version is the locale \<open>hub_spoke\<close>; it is interpreted for the four kinds.
\<close>

section \<open>Shared helpers (sopssecret_conversion.go)\<close>

definition convert_decryption_to :: "v1_decryption_spec option \<Rightarrow> v2_decryption_spec option" where
  "convert_decryption_to d = (case d of None \<Rightarrow> None | Some s \<Rightarrow>
     Some \<lparr>v2_dec_key_ref =
       \<lparr>v2_skr_name = v1_skr_name (v1_dec_key_ref s),
        v2_skr_key = v1_skr_key (v1_dec_key_ref s),
        v2_skr_namespace = v1_skr_namespace (v1_dec_key_ref s)\<rparr>\<rparr>)"

definition convert_decryption_from :: "v2_decryption_spec option \<Rightarrow> v1_decryption_spec option" where
  "convert_decryption_from d = (case d of None \<Rightarrow> None | Some s \<Rightarrow>
     Some \<lparr>v1_dec_key_ref =
       \<lparr>v1_skr_name = v2_skr_name (v2_dec_key_ref s),
        v1_skr_key = v2_skr_key (v2_dec_key_ref s),
        v1_skr_namespace = v2_skr_namespace (v2_dec_key_ref s)\<rparr>\<rparr>)"

definition convert_data_mappings_to :: "v1_data_mapping list option \<Rightarrow> v2_data_mapping list option" where
  "convert_data_mappings_to ms = (case ms of None \<Rightarrow> None | Some xs \<Rightarrow>
     Some (map (\<lambda>m. \<lparr>v2_dm_key = v1_dm_key m, v2_dm_from = v1_dm_from m\<rparr>) xs))"

definition convert_data_mappings_from :: "v2_data_mapping list option \<Rightarrow> v1_data_mapping list option" where
  "convert_data_mappings_from ms = (case ms of None \<Rightarrow> None | Some xs \<Rightarrow>
     Some (map (\<lambda>m. \<lparr>v1_dm_key = v2_dm_key m, v1_dm_from = v2_dm_from m\<rparr>) xs))"

lemma convert_decryption_inverse [simp]:
  "convert_decryption_from (convert_decryption_to d) = d"
  "convert_decryption_to (convert_decryption_from e) = e"
  by (auto simp: convert_decryption_from_def convert_decryption_to_def split: option.splits)

lemma convert_data_mappings_inverse [simp]:
  "convert_data_mappings_from (convert_data_mappings_to ms) = ms"
  "convert_data_mappings_to (convert_data_mappings_from ns) = ns"
  by (auto simp: convert_data_mappings_from_def convert_data_mappings_to_def map_idI
    split: option.splits)

section \<open>GitRepository\<close>

definition git_repository_convert_to :: "v1_git_repository \<Rightarrow> v2_git_repository" where
  "git_repository_convert_to src =
     (let spec = v1_gr_spec src; st = v1_gr_status src in
      \<lparr>v2_gr_meta = v1_gr_meta src,
       v2_gr_spec =
         \<lparr>v2_grs_url = v1_grs_url spec, v2_grs_branch = v1_grs_branch spec,
          v2_grs_revision = v1_grs_revision spec, v2_grs_interval = v1_grs_interval spec,
          v2_grs_auth = (case v1_grs_auth spec of None \<Rightarrow> None | Some a \<Rightarrow>
            Some \<lparr>v2_ga_type = v1_ga_type a,
                  v2_ga_secret_ref = (case v1_ga_secret_ref a of None \<Rightarrow> None | Some r \<Rightarrow>
                    Some \<lparr>v2_sr_name = v1_sr_name r, v2_sr_namespace = v1_sr_namespace r\<rparr>)\<rparr>)\<rparr>,
       v2_gr_status =
         \<lparr>v2_grt_last_synced_commit = v1_grt_last_synced_commit st,
          v2_grt_cache_ready = v1_grt_cache_ready st,
          v2_grt_last_token = v1_grt_last_token st,
          v2_grt_observed_generation = v1_grt_observed_generation st,
          v2_grt_conditions = v1_grt_conditions st\<rparr>\<rparr>)"

definition git_repository_convert_from :: "v2_git_repository \<Rightarrow> v1_git_repository" where
  "git_repository_convert_from src =
     (let spec = v2_gr_spec src; st = v2_gr_status src in
      \<lparr>v1_gr_meta = v2_gr_meta src,
       v1_gr_spec =
         \<lparr>v1_grs_url = v2_grs_url spec, v1_grs_branch = v2_grs_branch spec,
          v1_grs_revision = v2_grs_revision spec, v1_grs_interval = v2_grs_interval spec,
          v1_grs_auth = (case v2_grs_auth spec of None \<Rightarrow> None | Some a \<Rightarrow>
            Some \<lparr>v1_ga_type = v2_ga_type a,
                  v1_ga_secret_ref = (case v2_ga_secret_ref a of None \<Rightarrow> None | Some r \<Rightarrow>
                    Some \<lparr>v1_sr_name = v2_sr_name r, v1_sr_namespace = v2_sr_namespace r\<rparr>)\<rparr>)\<rparr>,
       v1_gr_status =
         \<lparr>v1_grt_last_synced_commit = v2_grt_last_synced_commit st,
          v1_grt_cache_ready = v2_grt_cache_ready st,
          v1_grt_last_token = v2_grt_last_token st,
          v1_grt_observed_generation = v2_grt_observed_generation st,
          v1_grt_conditions = v2_grt_conditions st\<rparr>\<rparr>)"

section \<open>SopsSecret\<close>

datatype convert_error = CannotConvertSourceKind string string  \<comment> \<open>resource kind, source kind\<close>

definition sops_secret_convert_to :: "v1_sops_secret \<Rightarrow> v2_sops_secret" where
  "sops_secret_convert_to src =
     (let spec = v1_ss_spec src; tgt = v1_sss_target spec; st = v1_ss_status src in
      \<lparr>v2_ss_meta = v1_ss_meta src,
       v2_ss_spec =
         \<lparr>v2_sss_source =
            \<lparr>v2_src_source_ref =
               \<lparr>v2_skf_kind = SourceKindGitRepository,
                v2_skf_name = v1_lor_name (v1_src_repository_ref (v1_sss_source spec))\<rparr>,
             v2_src_path = v1_src_path (v1_sss_source spec)\<rparr>,
          v2_sss_decryption = convert_decryption_to (v1_sss_decryption spec),
          v2_sss_target =
            \<lparr>v2_mt_name = v1_mt_name tgt, v2_mt_namespace = v1_mt_namespace tgt,
             v2_mt_type = v1_mt_type tgt, v2_mt_adopt = v1_mt_adopt tgt\<rparr>,
          v2_sss_data = convert_data_mappings_to (v1_sss_data spec)\<rparr>,
       v2_ss_status =
         \<lparr>v2_sst_last_applied_hash = v1_sst_last_applied_hash st,
          v2_sst_last_synced_commit = v1_sst_last_synced_commit st,
          v2_sst_last_token = v1_sst_last_token st,
          v2_sst_observed_generation = v1_sst_observed_generation st,
          v2_sst_conditions = v1_sst_conditions st\<rparr>\<rparr>)"

definition sops_secret_convert_from :: "v2_sops_secret \<Rightarrow> convert_error + v1_sops_secret" where
  "sops_secret_convert_from src =
     (let spec = v2_ss_spec src; ref = v2_src_source_ref (v2_sss_source spec);
          tgt = v2_sss_target spec; st = v2_ss_status src in
      if v2_skf_kind ref \<noteq> [] \<and> v2_skf_kind ref \<noteq> SourceKindGitRepository then
        Inl (CannotConvertSourceKind ''SopsSecret'' (v2_skf_kind ref))
      else Inr
      \<lparr>v1_ss_meta = v2_ss_meta src,
       v1_ss_spec =
         \<lparr>v1_sss_source =
            \<lparr>v1_src_repository_ref = \<lparr>v1_lor_name = v2_skf_name ref\<rparr>,
             v1_src_path = v2_src_path (v2_sss_source spec)\<rparr>,
          v1_sss_decryption = convert_decryption_from (v2_sss_decryption spec),
          v1_sss_target =
            \<lparr>v1_mt_name = v2_mt_name tgt, v1_mt_namespace = v2_mt_namespace tgt,
             v1_mt_type = v2_mt_type tgt, v1_mt_adopt = v2_mt_adopt tgt\<rparr>,
          v1_sss_data = convert_data_mappings_from (v2_sss_data spec)\<rparr>,
       v1_ss_status =
         \<lparr>v1_sst_last_applied_hash = v2_sst_last_applied_hash st,
          v1_sst_last_synced_commit = v2_sst_last_synced_commit st,
          v1_sst_last_token = v2_sst_last_token st,
          v1_sst_observed_generation = v2_sst_observed_generation st,
          v1_sst_conditions = v2_sst_conditions st\<rparr>\<rparr>)"

section \<open>SopsSecretManifest\<close>

definition manifest_convert_to :: "v1_sops_secret_manifest \<Rightarrow> v2_sops_secret_manifest" where
  "manifest_convert_to src =
     (let spec = v1_sm_spec src; tgt = v1_sms_target spec; st = v1_sm_status src in
      \<lparr>v2_sm_meta = v1_sm_meta src,
       v2_sm_spec =
         \<lparr>v2_sms_source =
            \<lparr>v2_src_source_ref =
               \<lparr>v2_skf_kind = SourceKindGitRepository,
                v2_skf_name = v1_lor_name (v1_src_repository_ref (v1_sms_source spec))\<rparr>,
             v2_src_path = v1_src_path (v1_sms_source spec)\<rparr>,
          v2_sms_decryption = convert_decryption_to (v1_sms_decryption spec),
          v2_sms_target =
            \<lparr>v2_mft_namespace = v1_mft_namespace tgt,
             v2_mft_name_override = v1_mft_name_override tgt, v2_mft_adopt = v1_mft_adopt tgt\<rparr>\<rparr>,
       v2_sm_status =
         \<lparr>v2_smt_last_applied_hash = v1_smt_last_applied_hash st,
          v2_smt_last_synced_commit = v1_smt_last_synced_commit st,
          v2_smt_last_token = v1_smt_last_token st,
          v2_smt_observed_generation = v1_smt_observed_generation st,
          v2_smt_conditions = v1_smt_conditions st\<rparr>\<rparr>)"

definition manifest_convert_from ::
  "v2_sops_secret_manifest \<Rightarrow> convert_error + v1_sops_secret_manifest" where
  "manifest_convert_from src =
     (let spec = v2_sm_spec src; ref = v2_src_source_ref (v2_sms_source spec);
          tgt = v2_sms_target spec; st = v2_sm_status src in
      if v2_skf_kind ref \<noteq> [] \<and> v2_skf_kind ref \<noteq> SourceKindGitRepository then
        Inl (CannotConvertSourceKind ''SopsSecretManifest'' (v2_skf_kind ref))
      else Inr
      \<lparr>v1_sm_meta = v2_sm_meta src,
       v1_sm_spec =
         \<lparr>v1_sms_source =
            \<lparr>v1_src_repository_ref = \<lparr>v1_lor_name = v2_skf_name ref\<rparr>,
             v1_src_path = v2_src_path (v2_sms_source spec)\<rparr>,
          v1_sms_decryption = convert_decryption_from (v2_sms_decryption spec),
          v1_sms_target =
            \<lparr>v1_mft_namespace = v2_mft_namespace tgt,
             v1_mft_name_override = v2_mft_name_override tgt, v1_mft_adopt = v2_mft_adopt tgt\<rparr>\<rparr>,
       v1_sm_status =
         \<lparr>v1_smt_last_applied_hash = v2_smt_last_applied_hash st,
          v1_smt_last_synced_commit = v2_smt_last_synced_commit st,
          v1_smt_last_token = v2_smt_last_token st,
          v1_smt_observed_generation = v2_smt_observed_generation st,
          v1_smt_conditions = v2_smt_conditions st\<rparr>\<rparr>)"

section \<open>InlineSopsSecret\<close>

definition inline_convert_to :: "v1_inline_sops_secret \<Rightarrow> v2_inline_sops_secret" where
  "inline_convert_to src =
     (let spec = v1_is_spec src; tgt = v1_iss_target spec; st = v1_is_status src in
      \<lparr>v2_is_meta = v1_is_meta src,
       v2_is_spec =
         \<lparr>v2_iss_mode = v1_iss_mode spec,
          v2_iss_encrypted_yaml = v1_iss_encrypted_yaml spec,
          v2_iss_decryption = convert_decryption_to (v1_iss_decryption spec),
          v2_iss_target =
            \<lparr>v2_it_name = v1_it_name tgt, v2_it_namespace = v1_it_namespace tgt,
             v2_it_type = v1_it_type tgt, v2_it_adopt = v1_it_adopt tgt\<rparr>,
          v2_iss_data = convert_data_mappings_to (v1_iss_data spec)\<rparr>,
       v2_is_status =
         \<lparr>v2_ist_last_applied_hash = v1_ist_last_applied_hash st,
          v2_ist_last_token = v1_ist_last_token st,
          v2_ist_observed_generation = v1_ist_observed_generation st,
          v2_ist_conditions = v1_ist_conditions st\<rparr>\<rparr>)"

definition inline_convert_from :: "v2_inline_sops_secret \<Rightarrow> v1_inline_sops_secret" where
  "inline_convert_from src =
     (let spec = v2_is_spec src; tgt = v2_iss_target spec; st = v2_is_status src in
      \<lparr>v1_is_meta = v2_is_meta src,
       v1_is_spec =
         \<lparr>v1_iss_mode = v2_iss_mode spec,
          v1_iss_encrypted_yaml = v2_iss_encrypted_yaml spec,
          v1_iss_decryption = convert_decryption_from (v2_iss_decryption spec),
          v1_iss_target =
            \<lparr>v1_it_name = v2_it_name tgt, v1_it_namespace = v2_it_namespace tgt,
             v1_it_type = v2_it_type tgt, v1_it_adopt = v2_it_adopt tgt\<rparr>,
          v1_iss_data = convert_data_mappings_from (v2_iss_data spec)\<rparr>,
       v1_is_status =
         \<lparr>v1_ist_last_applied_hash = v2_ist_last_applied_hash st,
          v1_ist_last_token = v2_ist_last_token st,
          v1_ist_observed_generation = v2_ist_observed_generation st,
          v1_ist_conditions = v2_ist_conditions st\<rparr>\<rparr>)"

section \<open>The contract of a spoke version\<close>

text \<open>
  \<open>ok h\<close> says that the hub object is one the spoke version can express, \<open>norm\<close> is what a trip
  through the spoke version makes of it. The laws are the two round trips and the error.
\<close>

locale hub_spoke =
  fixes to_hub :: "'s \<Rightarrow> 'h"
    and from_hub :: "'h \<Rightarrow> 'e + 's"
    and ok :: "'h \<Rightarrow> bool"
    and norm :: "'h \<Rightarrow> 'h"
  assumes from_to: "from_hub (to_hub s) = Inr s"
    and to_from: "from_hub h = Inr s \<Longrightarrow> to_hub s = norm h"
    and rejects: "(\<exists>e. from_hub h = Inl e) \<longleftrightarrow> \<not> ok h"
begin

lemma to_hub_inj: "to_hub s = to_hub t \<Longrightarrow> s = t"
  by (metis from_to Inr_inject)

lemma to_hub_ok: "ok (to_hub s)"
  using from_to [of s] rejects [of "to_hub s"] by auto

lemma norm_to_hub: "norm (to_hub s) = to_hub s"
  using to_from [OF from_to] by simp

lemma accepted_iff: "ok h \<longleftrightarrow> (\<exists>s. from_hub h = Inr s)"
  using rejects [of h] by (cases "from_hub h") auto

text \<open>Storing through the spoke a second time changes nothing more.\<close>

lemma second_trip: "from_hub h = Inr s \<Longrightarrow> from_hub (norm h) = Inr s"
  by (metis from_to to_from)

end

definition git_kind_ok :: "string \<Rightarrow> bool" where
  "git_kind_ok k \<longleftrightarrow> k = [] \<or> k = SourceKindGitRepository"

definition sops_secret_norm :: "v2_sops_secret \<Rightarrow> v2_sops_secret" where
  "sops_secret_norm h =
     h\<lparr>v2_ss_spec := (v2_ss_spec h)\<lparr>v2_sss_source := (v2_sss_source (v2_ss_spec h))\<lparr>v2_src_source_ref :=
       (v2_src_source_ref (v2_sss_source (v2_ss_spec h)))\<lparr>v2_skf_kind := SourceKindGitRepository\<rparr>\<rparr>\<rparr>\<rparr>"

definition manifest_norm :: "v2_sops_secret_manifest \<Rightarrow> v2_sops_secret_manifest" where
  "manifest_norm h =
     h\<lparr>v2_sm_spec := (v2_sm_spec h)\<lparr>v2_sms_source := (v2_sms_source (v2_sm_spec h))\<lparr>v2_src_source_ref :=
       (v2_src_source_ref (v2_sms_source (v2_sm_spec h)))\<lparr>v2_skf_kind := SourceKindGitRepository\<rparr>\<rparr>\<rparr>\<rparr>"

text \<open>The round trips, one per kind and direction.\<close>

lemma git_from_to: "git_repository_convert_from (git_repository_convert_to s) = s"
proof (cases "v1_grs_auth (v1_gr_spec s)")
  case None
  then show ?thesis
    by (intro v1_git_repository.equality v1_git_repository_spec.equality)
      (simp_all add: git_repository_convert_to_def git_repository_convert_from_def Let_def)
next
  case (Some a)
  then show ?thesis
    by (intro v1_git_repository.equality v1_git_repository_spec.equality; cases "v1_ga_secret_ref a")
      (simp_all add: git_repository_convert_to_def git_repository_convert_from_def Let_def)
qed

lemma git_to_from: "git_repository_convert_to (git_repository_convert_from h) = h"
proof (cases "v2_grs_auth (v2_gr_spec h)")
  case None
  then show ?thesis
    by (intro v2_git_repository.equality v2_git_repository_spec.equality)
      (simp_all add: git_repository_convert_to_def git_repository_convert_from_def Let_def)
next
  case (Some a)
  then show ?thesis
    by (intro v2_git_repository.equality v2_git_repository_spec.equality; cases "v2_ga_secret_ref a")
      (simp_all add: git_repository_convert_to_def git_repository_convert_from_def Let_def)
qed

lemma sops_secret_from_to: "sops_secret_convert_from (sops_secret_convert_to s) = Inr s"
  by (simp add: sops_secret_convert_to_def sops_secret_convert_from_def Let_def)

lemma sops_secret_to_from:
  "sops_secret_convert_from h = Inr s \<Longrightarrow> sops_secret_convert_to s = sops_secret_norm h"
  by (clarsimp simp: sops_secret_convert_to_def sops_secret_convert_from_def sops_secret_norm_def
      Let_def split: if_splits)

lemma sops_secret_rejects:
  "(\<exists>e. sops_secret_convert_from h = Inl e)
    \<longleftrightarrow> \<not> git_kind_ok (v2_skf_kind (v2_src_source_ref (v2_sss_source (v2_ss_spec h))))"
  by (simp add: sops_secret_convert_from_def git_kind_ok_def Let_def)

lemma manifest_rejects:
  "(\<exists>e. manifest_convert_from h = Inl e)
    \<longleftrightarrow> \<not> git_kind_ok (v2_skf_kind (v2_src_source_ref (v2_sms_source (v2_sm_spec h))))"
  by (simp add: manifest_convert_from_def git_kind_ok_def Let_def)

lemma manifest_from_to: "manifest_convert_from (manifest_convert_to s) = Inr s"
  by (simp add: manifest_convert_to_def manifest_convert_from_def Let_def)

lemma manifest_to_from:
  "manifest_convert_from h = Inr s \<Longrightarrow> manifest_convert_to s = manifest_norm h"
  by (clarsimp simp: manifest_convert_to_def manifest_convert_from_def manifest_norm_def
      Let_def split: if_splits)

lemma inline_from_to: "inline_convert_from (inline_convert_to s) = s"
  by (simp add: inline_convert_to_def inline_convert_from_def Let_def)

lemma inline_to_from: "inline_convert_to (inline_convert_from h) = h"
  by (simp add: inline_convert_to_def inline_convert_from_def Let_def)

interpretation git_spoke: hub_spoke git_repository_convert_to
  "\<lambda>h. (Inr (git_repository_convert_from h) :: convert_error + _)" "\<lambda>_. True" "\<lambda>h. h"
  by unfold_locales (auto simp: git_from_to git_to_from)

interpretation sops_secret_spoke: hub_spoke sops_secret_convert_to sops_secret_convert_from
  "\<lambda>h. git_kind_ok (v2_skf_kind (v2_src_source_ref (v2_sss_source (v2_ss_spec h))))"
  sops_secret_norm
  by unfold_locales (rule sops_secret_from_to, erule sops_secret_to_from, rule sops_secret_rejects)

interpretation manifest_spoke: hub_spoke manifest_convert_to manifest_convert_from
  "\<lambda>h. git_kind_ok (v2_skf_kind (v2_src_source_ref (v2_sms_source (v2_sm_spec h))))"
  manifest_norm
  by unfold_locales (rule manifest_from_to, erule manifest_to_from, rule manifest_rejects)

interpretation inline_spoke: hub_spoke inline_convert_to
  "\<lambda>h. (Inr (inline_convert_from h) :: convert_error + _)" "\<lambda>_. True" "\<lambda>h. h"
  by unfold_locales (auto simp: inline_from_to inline_to_from)

section \<open>Properties\<close>

text \<open>
C25: No v1alpha1 resource loses anything on its way through the v1alpha2 hub: for each of the
four kinds, converting to the hub and back gives the same resource, with no error.
\<close>

theorem conversion_roundtrip:
  "git_repository_convert_from (git_repository_convert_to g) = g
   \<and> sops_secret_convert_from (sops_secret_convert_to s) = Inr s
   \<and> manifest_convert_from (manifest_convert_to m) = Inr m
   \<and> inline_convert_from (inline_convert_to i) = i"
  using git_spoke.from_to [of g] sops_secret_spoke.from_to [of s] manifest_spoke.from_to [of m]
    inline_spoke.from_to [of i] by simp

text \<open>
C26: A hub SopsSecret or SopsSecretManifest is refused by v1alpha1 exactly when its source is
neither unset nor a GitRepository; an accepted one comes back with only the unset source kind
filled in as GitRepository.
\<close>

theorem conversion_from_hub:
  "(\<exists>e. sops_secret_convert_from h = Inl e)
     = (\<not> git_kind_ok (v2_skf_kind (v2_src_source_ref (v2_sss_source (v2_ss_spec h)))))
   \<and> (\<exists>e. manifest_convert_from m = Inl e)
     = (\<not> git_kind_ok (v2_skf_kind (v2_src_source_ref (v2_sms_source (v2_sm_spec m)))))
   \<and> (case sops_secret_convert_from h of Inl _ \<Rightarrow> True | Inr s \<Rightarrow> sops_secret_convert_to s = sops_secret_norm h)
   \<and> (case manifest_convert_from m of Inl _ \<Rightarrow> True | Inr s \<Rightarrow> manifest_convert_to s = manifest_norm m)"
  using sops_secret_spoke.rejects [of h] manifest_spoke.rejects [of m]
    sops_secret_spoke.to_from [of h] manifest_spoke.to_from [of m]
  by (auto split: sum.split)

end
