(* ===== verification/GoFloat.thy ===== *)
theory GoFloat
  imports GoLib Complex_Main
begin

text \<open>
  Go's \<open>float64\<close> as far as \<open>internal/transform\<close> uses it: values come out of a JSON decoder, so
  they are finite, and a finite double is a rational number. \<open>round_double\<close> rounds a rational to
  the nearest double (ties to even; overflow does not occur, as the decoder refuses such numbers),
  \<open>int64_of_float\<close> is the conversion \<open>int64(x)\<close>, and \<open>format_float\<close> is
  \<open>strconv.FormatFloat(x, 'f', -1, 64)\<close>: the shortest decimal that reads back as \<open>x\<close>.

  Go leaves \<open>int64(x)\<close> to the implementation when \<open>x\<close> is out of range. That choice is a parameter
  (\<open>oob\<close>), with the two that compilers make: \<open>oob_amd64\<close> and \<open>oob_arm64\<close>.
\<close>

section \<open>Rounding to a double\<close>

function bit_len :: "int \<Rightarrow> int" where
  "bit_len n = (if n \<le> 0 then 0 else 1 + bit_len (n div 2))"
  by pat_completeness auto
termination
  by (relation "measure nat") auto

declare bit_len.simps [simp del]

definition pow_int :: "nat \<Rightarrow> int \<Rightarrow> rat" where
  "pow_int b e = (if e \<ge> 0 then of_nat b ^ nat e else 1 / of_nat b ^ nat (- e))"

definition floor_log2 :: "rat \<Rightarrow> int" where
  "floor_log2 q = (case quotient_of q of (a, b) \<Rightarrow>
     let e = bit_len a - bit_len b in if q < pow_int 2 e then e - 1 else e)"

definition round_half_even :: "rat \<Rightarrow> int" where
  "round_half_even q =
     (let f = \<lfloor>q\<rfloor>; d = q - of_int f in
      if d < 1 / 2 then f else if d > 1 / 2 then f + 1 else if even f then f else f + 1)"

definition double_exp :: "rat \<Rightarrow> int" where
  "double_exp q = max (floor_log2 q - 52) (- 1074)"

definition round_pos :: "rat \<Rightarrow> rat" where
  "round_pos q = of_int (round_half_even (q / pow_int 2 (double_exp q))) * pow_int 2 (double_exp q)"

definition round_double :: "rat \<Rightarrow> rat" where
  "round_double q = (if q = 0 then 0 else if q > 0 then round_pos q else - round_pos (- q))"

definition is_double :: "rat \<Rightarrow> bool" where
  "is_double x \<longleftrightarrow> round_double x = x"

section \<open>int64(x)\<close>

definition rat_trunc :: "rat \<Rightarrow> int" where
  "rat_trunc x = (if x \<ge> 0 then \<lfloor>x\<rfloor> else \<lceil>x\<rceil>)"

definition int64_of_float :: "(rat \<Rightarrow> int) \<Rightarrow> rat \<Rightarrow> int" where
  "int64_of_float oob x =
     (let n = rat_trunc x in if - (2 ^ 63) \<le> n \<and> n < 2 ^ 63 then n else oob x)"

definition oob_amd64 :: "rat \<Rightarrow> int" where
  "oob_amd64 x = - (2 ^ 63)"

definition oob_arm64 :: "rat \<Rightarrow> int" where
  "oob_arm64 x = (if x > 0 then 2 ^ 63 - 1 else - (2 ^ 63))"

section \<open>FormatFloat(x, 'f', -1, 64)\<close>

text \<open>The decimal exponent of the leading digit of a positive number.\<close>

definition floor_log10 :: "rat \<Rightarrow> int" where
  "floor_log10 x =
     (if x \<ge> 1 then int (length (dec_digits \<lfloor>x\<rfloor>)) - 1
      else - int (length (dec_digits (\<lceil>1 / x\<rceil> - 1))))"

text \<open>
  The two decimals of \<open>n\<close> digits around \<open>x\<close>, the nearer one first, as digits and exponent; the
  first that rounds to \<open>x\<close> (written with one digit when it is a power of ten), for the least \<open>n\<close> up to 17, is the result. (17 digits always suffice
  for a double; the exact expansion stands behind the search so that the function is total.)
\<close>

definition carry_digits :: "nat \<Rightarrow> int \<Rightarrow> int \<Rightarrow> int \<times> int" where
  "carry_digits n c p = (if c = 10 ^ n then (1, p + int n) else (c, p))"

definition decimals_at :: "rat \<Rightarrow> int \<Rightarrow> nat \<Rightarrow> (int \<times> int) list" where
  "decimals_at x l n =
     (let p = l + 1 - int n; y = x / pow_int 10 p; lo = \<lfloor>y\<rfloor> in
      if y - of_int lo \<le> 1 / 2 then [(lo, p), carry_digits n (lo + 1) p]
      else [carry_digits n (lo + 1) p, (lo, p)])"

definition decimal_value :: "int \<times> int \<Rightarrow> rat" where
  "decimal_value d = of_int (fst d) * pow_int 10 (snd d)"

definition exact_decimal :: "rat \<Rightarrow> int \<times> int" where
  "exact_decimal x =
     (let e = double_exp x; m = \<lfloor>x / pow_int 2 e\<rfloor> in
      if e \<ge> 0 then (m * 2 ^ nat e, 0) else (m * 5 ^ nat (- e), e))"

definition shortest_decimal :: "rat \<Rightarrow> int \<times> int" where
  "shortest_decimal x =
     (case find (\<lambda>d. round_double (decimal_value d) = x) (concat (map (decimals_at x (floor_log10 x)) [1..<18])) of
        Some d \<Rightarrow> d
      | None \<Rightarrow> exact_decimal x)"

definition pad_zeros :: "nat \<Rightarrow> string \<Rightarrow> string" where
  "pad_zeros k s = replicate (k - length s) CHR ''0'' @ s"

fun render_decimal :: "int \<times> int \<Rightarrow> string" where
  "render_decimal (c, p) =
     (if p \<ge> 0 then dec_digits (c * 10 ^ nat p)
      else let k = nat (- p) in
        dec_digits (c div 10 ^ k) @ CHR ''.'' # pad_zeros k (dec_digits (c mod 10 ^ k)))"

definition format_float :: "rat \<Rightarrow> string" where
  "format_float x =
     (if x = 0 then ''0''
      else if x < 0 then CHR ''-'' # render_decimal (shortest_decimal (- x))
      else render_decimal (shortest_decimal x))"

section \<open>Reading it back\<close>

definition read_unsigned :: "string \<Rightarrow> rat" where
  "read_unsigned s =
     (let i = takeWhile (\<lambda>c. c \<noteq> CHR ''.'') s; f = drop (Suc (length i)) s in
      of_int (read_dec i) + of_int (read_dec f) / 10 ^ length f)"

definition read_decimal :: "string \<Rightarrow> rat" where
  "read_decimal s = (case s of [] \<Rightarrow> 0 | c # cs \<Rightarrow> if c = CHR ''-'' then - read_unsigned cs else read_unsigned s)"

lemma read_dec_zeros: "read_dec (replicate k CHR ''0'' @ s) = read_dec s"
  by (induction k) (simp_all add: read_dec_def digit_val_def)

lemma read_dec_pad: "read_dec (pad_zeros k s) = read_dec s"
  by (simp add: pad_zeros_def read_dec_zeros)

lemma length_dec_digits: "0 < k \<Longrightarrow> n < 10 ^ k \<Longrightarrow> length (dec_digits n) \<le> k"
proof (induction n arbitrary: k rule: dec_digits.induct)
  case (1 n)
  show ?case
  proof (cases "n < 10")
    case True
    with 1 show ?thesis by (subst dec_digits.simps) simp
  next
    case False
    then obtain j where k: "k = Suc j" "0 < j"
      using 1 by (cases k; cases "k - 1") auto
    have "n div 10 < 10 ^ j" using 1(3) k by simp
    with False 1(1) k have "length (dec_digits (n div 10)) \<le> j" by simp
    with False k show ?thesis by (subst dec_digits.simps) simp
  qed
qed

lemma dec_digits_no_dot: "0 \<le> n \<Longrightarrow> c \<in> set (dec_digits n) \<Longrightarrow> c \<noteq> CHR ''.'' \<and> c \<noteq> CHR ''-''"
  using dec_digits_are_digits [of n c] by auto

lemma takeWhile_digits: "0 \<le> n \<Longrightarrow> takeWhile (\<lambda>c. c \<noteq> CHR ''.'') (dec_digits n) = dec_digits n"
  using dec_digits_no_dot by (auto simp: takeWhile_eq_all_conv)

lemma takeWhile_digits_dot:
  "0 \<le> n \<Longrightarrow> takeWhile (\<lambda>c. c \<noteq> CHR ''.'') (dec_digits n @ CHR ''.'' # s) = dec_digits n"
  using dec_digits_no_dot by (simp add: takeWhile_append takeWhile_digits)

lemma read_render:
  assumes "0 \<le> fst d"
  shows "read_unsigned (render_decimal d) = decimal_value d"
proof (cases d)
  case (Pair c p)
  with assms have c: "0 \<le> c" by simp
  show ?thesis
  proof (cases "p \<ge> 0")
    case True
    have "0 \<le> c * 10 ^ nat p" using c by simp
    with True show ?thesis
      by (simp add: Pair read_unsigned_def takeWhile_digits read_dec_digits decimal_value_def pow_int_def)
        (simp add: read_dec_def)
  next
    case False
    define k where "k = nat (- p)"
    have k: "0 < k" using False by (simp add: k_def)
    have "length (dec_digits (c mod 10 ^ k)) \<le> k"
      using k by (intro length_dec_digits) auto
    then have len: "length (pad_zeros k (dec_digits (c mod 10 ^ k))) = k"
      by (simp add: pad_zeros_def)
    have "(of_int c :: rat) = of_int (c div 10 ^ k * 10 ^ k + c mod 10 ^ k)"
      by (simp only: div_mult_mod_eq)
    also have "\<dots> = of_int (c div 10 ^ k) * 10 ^ k + of_int (c mod 10 ^ k)"
      by (simp only: of_int_add of_int_mult of_int_power of_int_numeral)
    finally have split: "(of_int c :: rat) / 10 ^ k = of_int (c div 10 ^ k) + of_int (c mod 10 ^ k) / 10 ^ k"
      by (simp add: add_divide_distrib)
    have "0 \<le> c div 10 ^ k" using c by (simp add: pos_imp_zdiv_nonneg_iff)
    with False split len show ?thesis
      by (simp add: Pair read_unsigned_def takeWhile_digits_dot read_dec_digits read_dec_pad
          decimal_value_def pow_int_def k_def [symmetric] Let_def)
  qed
qed

lemma exact_decimal_value:
  assumes "0 < x" and "round_pos x = x"
  shows "decimal_value (exact_decimal x) = x"
proof -
  define e where "e = double_exp x"
  have pos: "pow_int 2 e > 0" by (simp add: pow_int_def)
  then have "x / pow_int 2 e = of_int (round_half_even (x / pow_int 2 e))"
    using assms(2) by (simp add: round_pos_def e_def [symmetric] field_simps)
  then have int: "of_int \<lfloor>x / pow_int 2 e\<rfloor> = x / pow_int 2 e"
    by (metis floor_of_int)
  show ?thesis
  proof (cases "e \<ge> 0")
    case True
    then show ?thesis
      using int pos
      by (simp add: exact_decimal_def e_def [symmetric] decimal_value_def pow_int_def del: of_int_floor_cancel)
  next
    case False
    have "(5 :: rat) ^ nat (- e) / 10 ^ nat (- e) = 1 / 2 ^ nat (- e)"
      by (simp flip: power_divide) (simp add: power_divide)
    then show ?thesis
      using int False pos
      by (simp add: exact_decimal_def e_def [symmetric] decimal_value_def pow_int_def field_simps)
  qed
qed

lemma pow_int_pos: "0 < b \<Longrightarrow> 0 < pow_int b e"
  by (simp add: pow_int_def)

lemma shortest_decimal_nonneg:
  assumes "0 < x"
  shows "0 \<le> fst (shortest_decimal x)"
proof -
  have dec: "0 \<le> fst d" if "d \<in> set (decimals_at x l n)" for d l n
  proof -
    have "0 \<le> \<lfloor>x / pow_int 10 (l + 1 - int n)\<rfloor>"
      using assms pow_int_pos [of 10 "l + 1 - int n"] by simp
    with that show ?thesis by (auto simp: decimals_at_def carry_digits_def Let_def split: if_splits)
  qed
  have exact: "0 \<le> fst (exact_decimal x)"
    using assms pow_int_pos [of 2 "double_exp x"] by (simp add: exact_decimal_def Let_def)
  show ?thesis
  proof (cases "find (\<lambda>d. round_double (decimal_value d) = x) (concat (map (decimals_at x (floor_log10 x)) [1..<18]))")
    case None
    then show ?thesis using exact by (simp add: shortest_decimal_def)
  next
    case (Some d)
    then have "d \<in> set (concat (map (decimals_at x (floor_log10 x)) [1..<18]))"
      unfolding find_Some_iff by (metis nth_mem)
    then obtain n where "d \<in> set (decimals_at x (floor_log10 x) n)" by auto
    with dec Some show ?thesis by (simp add: shortest_decimal_def)
  qed
qed

lemma shortest_decimal_rounds:
  assumes "0 < x" and "is_double x"
  shows "round_double (decimal_value (shortest_decimal x)) = x"
proof (cases "find (\<lambda>d. round_double (decimal_value d) = x) (concat (map (decimals_at x (floor_log10 x)) [1..<18]))")
  case None
  have "round_pos x = x" using assms by (simp add: is_double_def round_double_def)
  with assms None show ?thesis
    by (simp add: shortest_decimal_def exact_decimal_value is_double_def)
next
  case (Some d)
  then have "round_double (decimal_value d) = x" unfolding find_Some_iff by blast
  with Some show ?thesis by (simp add: shortest_decimal_def)
qed

lemma round_double_minus: "round_double (- q) = - round_double q"
  by (simp add: round_double_def)

lemma render_no_sign:
  assumes "0 \<le> fst d"
  shows "\<exists>c cs. render_decimal d = c # cs \<and> c \<noteq> CHR ''-''"
proof -
  obtain c p where d: "d = (c, p)" by (cases d)
  have *: "\<exists>x xs. dec_digits n @ s = x # xs \<and> x \<noteq> CHR ''-''" if "0 \<le> n" for n s
    using that dec_digits_not_Nil [of n] dec_digits_no_dot [of n "hd (dec_digits n)"]
    by (cases "dec_digits n") auto
  have "0 \<le> c * 10 ^ nat p" "0 \<le> c div 10 ^ nat (- p)"
    using assms d by (simp_all add: pos_imp_zdiv_nonneg_iff)
  then show ?thesis
    using * [of _ "[]"] * by (auto simp: d Let_def)
qed

text \<open>What \<open>format_float\<close> prints reads back, as a decimal and then as a double, as the same number.\<close>

lemma read_format_float:
  assumes "is_double x"
  shows "round_double (read_decimal (format_float x)) = x"
proof -
  consider "x = 0" | "x > 0" | "x < 0" by linarith
  then show ?thesis
  proof cases
    case 1
    then show ?thesis
      by (simp add: format_float_def read_decimal_def read_unsigned_def read_dec_def digit_val_def
          round_double_def)
  next
    case 2
    obtain c cs where r: "render_decimal (shortest_decimal x) = c # cs" "c \<noteq> CHR ''-''"
      using render_no_sign [OF shortest_decimal_nonneg [OF 2]] by blast
    then have "read_decimal (format_float x) = decimal_value (shortest_decimal x)"
      using 2 read_render [OF shortest_decimal_nonneg [OF 2]] by (simp add: format_float_def read_decimal_def)
    with 2 assms show ?thesis by (simp add: shortest_decimal_rounds)
  next
    case 3
    then have "is_double (- x)" using assms by (simp add: is_double_def round_double_minus)
    with 3 have "round_double (decimal_value (shortest_decimal (- x))) = - x"
      by (intro shortest_decimal_rounds) auto
    moreover have "read_decimal (format_float x) = - decimal_value (shortest_decimal (- x))"
      using 3 by (simp add: format_float_def read_decimal_def read_render shortest_decimal_nonneg)
    ultimately show ?thesis by (simp add: round_double_minus)
  qed
qed

end
