(* ===== verification/Transform.thy ===== *)
theory Transform
  imports ApiTypes Sha256 GoFloat
begin

text \<open>
  \<open>internal/transform\<close>: what a decrypted file becomes. \<open>flat.go\<close> reads a flat YAML map and selects
  keys from it, \<open>manifest.go\<close> validates a whole Secret manifest; both end in a SHA-256 over the data.

  The YAML parser (\<open>sigs.k8s.io/yaml\<close>) is not part of the repository: its two decoders are fields
  of the record \<open>yaml_lib\<close>, along with the platform's \<open>int64(x)\<close> out of range. A decoded map is
  an association list in the order in which \<open>range\<close> visits it, which Go leaves open; the theorems
  hold for every order.
\<close>

section \<open>Decoded YAML\<close>

text \<open>The dynamic types of an \<open>any\<close>; \<open>YOther\<close> is any type the switch does not name.\<close>

datatype yaml =
    YStr string
  | YBool bool
  | YFloat rat
  | YInt int
  | YInt64 int
  | YNull
  | YMap "(string \<times> yaml) list"
  | YSeq "yaml list"
  | YOther string

record yaml_lib =
  unmarshal_map :: "bytes \<Rightarrow> string + yaml gomap"
  unmarshal_secret :: "bytes \<Rightarrow> string + secret"
  float_oob :: "rat \<Rightarrow> int"

datatype scalar_error = ValueIsNull | ValueNonScalar | UnsupportedValueType string

datatype transform_error =
    ParseDecryptedYaml string
  | KeyValue string scalar_error
  | MissingSourceKey string string  \<comment> \<open>source key, target key\<close>
  | ParseDecryptedManifest string
  | UnsupportedTopLevelField string
  | NotACoreSecret string string
  | UnsupportedMetadataField string
  | DecodeManifest string

section \<open>flat.go\<close>

record data_mapping =
  dm_key :: string
  dm_from :: string

definition scalar_to_string :: "(rat \<Rightarrow> int) \<Rightarrow> yaml \<Rightarrow> scalar_error + string" where
  "scalar_to_string oob v =
     (case v of
        YStr x \<Rightarrow> Inr x
      | YBool x \<Rightarrow> Inr (format_bool x)
      | YFloat x \<Rightarrow>
          (let n = int64_of_float oob x in
           if x = round_double (of_int n) then Inr (format_int n) else Inr (format_float x))
      | YInt x \<Rightarrow> Inr (format_int x)
      | YInt64 x \<Rightarrow> Inr (format_int x)
      | YNull \<Rightarrow> Inl ValueIsNull
      | YMap _ \<Rightarrow> Inl ValueNonScalar
      | YSeq _ \<Rightarrow> Inl ValueNonScalar
      | YOther t \<Rightarrow> Inl (UnsupportedValueType t))"

fun parse_flat_loop ::
  "(rat \<Rightarrow> int) \<Rightarrow> (string \<times> string) list \<Rightarrow> (string \<times> yaml) list \<Rightarrow> transform_error + string gomap" where
  "parse_flat_loop oob out [] = Inr (Some out)"
| "parse_flat_loop oob out ((k, v) # raw) =
     (case scalar_to_string oob v of
        Inl e \<Rightarrow> Inl (KeyValue k e)
      | Inr s \<Rightarrow> parse_flat_loop oob (AList.update k s out) raw)"

definition parse_flat_yaml :: "yaml_lib \<Rightarrow> bytes \<Rightarrow> transform_error + string gomap" where
  "parse_flat_yaml Y plaintext =
     (case unmarshal_map Y plaintext of
        Inl e \<Rightarrow> Inl (ParseDecryptedYaml e)
      | Inr raw \<Rightarrow> parse_flat_loop (float_oob Y) [] (gm_entries raw))"

fun apply_mapping_loop ::
  "string gomap \<Rightarrow> (string \<times> bytes) list \<Rightarrow> data_mapping list \<Rightarrow> transform_error + bytes gomap" where
  "apply_mapping_loop source out [] = Inr (Some out)"
| "apply_mapping_loop source out (m # ms) =
     (case gm_lookup source (dm_from m) of
        None \<Rightarrow> Inl (MissingSourceKey (dm_from m) (dm_key m))
      | Some val \<Rightarrow> apply_mapping_loop source (AList.update (dm_key m) val out) ms)"

definition apply_mapping ::
  "string gomap \<Rightarrow> data_mapping list \<Rightarrow> transform_error + bytes gomap" where
  "apply_mapping source mappings = apply_mapping_loop source [] mappings"

text \<open>The loop over the sorted keys: key, NUL, value, NUL.\<close>

definition encode_entries :: "bytes gomap \<Rightarrow> string list \<Rightarrow> bytes" where
  "encode_entries data keys =
     concat (map (\<lambda>k. k @ [CHR 0x00] @ (case gm_lookup data k of None \<Rightarrow> [] | Some v \<Rightarrow> v) @ [CHR 0x00]) keys)"

definition secret_data_preimage :: "bytes gomap \<Rightarrow> bytes" where
  "secret_data_preimage data = encode_entries data (sort (map fst (gm_entries data)))"

definition hash_secret_data :: "bytes gomap \<Rightarrow> string" where
  "hash_secret_data data = ''sha256:'' @ hex_encode (sha256 (secret_data_preimage data))"

section \<open>manifest.go\<close>

definition allowed_top_level_manifest_keys :: "string list" where
  "allowed_top_level_manifest_keys =
     [''apiVersion'', ''kind'', ''metadata'', ''type'', ''data'', ''stringData'']"

definition allowed_metadata_keys :: "string list" where
  "allowed_metadata_keys = [''name'', ''namespace'', ''labels'', ''annotations'']"

definition yaml_string :: "yaml option \<Rightarrow> string" where
  "yaml_string v = (case v of Some (YStr s) \<Rightarrow> s | _ \<Rightarrow> [])"

definition metadata_offender :: "yaml option \<Rightarrow> string option" where
  "metadata_offender v =
     (case v of
        Some (YMap m) \<Rightarrow> find (\<lambda>k. k \<notin> set allowed_metadata_keys) (map fst m)
      | _ \<Rightarrow> None)"

definition parse_manifest :: "yaml_lib \<Rightarrow> bytes \<Rightarrow> transform_error + secret" where
  "parse_manifest Y plaintext =
     (case unmarshal_map Y plaintext of
        Inl e \<Rightarrow> Inl (ParseDecryptedManifest e)
      | Inr raw \<Rightarrow>
          (case find (\<lambda>k. k \<notin> set allowed_top_level_manifest_keys) (map fst (gm_entries raw)) of
             Some k \<Rightarrow> Inl (UnsupportedTopLevelField k)
           | None \<Rightarrow>
               (let api_version = yaml_string (gm_lookup raw ''apiVersion'');
                    kind = yaml_string (gm_lookup raw ''kind'') in
                if api_version \<noteq> ''v1'' \<or> kind \<noteq> ''Secret'' then Inl (NotACoreSecret api_version kind)
                else case metadata_offender (gm_lookup raw ''metadata'') of
                    Some k \<Rightarrow> Inl (UnsupportedMetadataField k)
                  | None \<Rightarrow>
                      (case unmarshal_secret Y plaintext of
                         Inl e \<Rightarrow> Inl (DecodeManifest e)
                       | Inr sec \<Rightarrow> Inr sec))))"

text \<open>\<open>None\<close> would be the panic of a write to a nil map.\<close>

definition normalize_secret_data :: "secret \<Rightarrow> secret option" where
  "normalize_secret_data sec =
     (let data0 = (if sec_data sec = None \<and> gm_entries (sec_string_data sec) \<noteq> []
                   then Some [] else sec_data sec) in
      case gm_puts data0 (gm_entries (sec_string_data sec)) of
        None \<Rightarrow> None
      | Some data \<Rightarrow> Some (sec\<lparr>sec_data := data, sec_string_data := None\<rparr>))"

definition manifest_preimage :: "secret \<Rightarrow> bytes" where
  "manifest_preimage sec =
     ''type='' @ sec_type sec @ [CHR 0x00]
     @ encode_entries (sec_data sec) (sort (map fst (gm_entries (sec_data sec))))"

definition hash_manifest_secret :: "secret \<Rightarrow> string" where
  "hash_manifest_secret sec = ''sha256:'' @ hex_encode (sha256 (manifest_preimage sec))"

section \<open>The flat file\<close>

lemma parse_flat_loop_Inr:
  "parse_flat_loop oob out raw = Inr m \<longleftrightarrow>
     (\<forall>kv \<in> set raw. \<exists>s. scalar_to_string oob (snd kv) = Inr s)
     \<and> m = Some (fold (\<lambda>(k, v). AList.update k (projr (scalar_to_string oob v))) raw out)"
proof (induction raw arbitrary: out)
  case Nil
  then show ?case by auto
next
  case (Cons kv raw)
  obtain k v where kv: "kv = (k, v)" by (cases kv)
  show ?case
  proof (cases "scalar_to_string oob v")
    case (Inl e)
    then show ?thesis by (simp add: kv)
  next
    case (Inr s)
    with Cons.IH [of "AList.update k s out"] show ?thesis by (simp add: kv)
  qed
qed

lemma map_of_update_add: "map_of (AList.update k v xs) ++ m = map_of xs ++ ([k \<mapsto> v] ++ m)"
  by (simp add: update_conv' map_add_assoc)

lemma map_of_fold_update:
  "map_of (fold (\<lambda>(k, v). AList.update k (f v)) raw out) = map_of out ++ map_of (rev (map (\<lambda>(k, v). (k, f v)) raw))"
proof (induction raw arbitrary: out)
  case Nil
  then show ?case by simp
next
  case (Cons kv raw)
  then show ?case by (cases kv) (simp add: map_of_update_add del: AList.update_conv)
qed

lemma map_of_rev_distinct: "distinct (map fst xs) \<Longrightarrow> map_of (rev xs) = map_of xs"
  by (intro map_of_eqI) (auto simp: rev_map [symmetric] map_of_eq_Some_iff)

lemma parse_flat_loop_lookup:
  assumes "parse_flat_loop oob [] raw = Inr m" and "distinct (map fst raw)"
  shows "gm_lookup m k = map_option (projr \<circ> scalar_to_string oob) (map_of raw k)"
proof -
  have m: "m = Some (fold (\<lambda>(k, v). AList.update k (projr (scalar_to_string oob v))) raw [])"
    using assms(1) by (simp add: parse_flat_loop_Inr)
  have "distinct (map fst (map (\<lambda>(k, v). (k, projr (scalar_to_string oob v))) raw))"
    using assms(2) by (simp add: case_prod_unfold comp_def)
  then have "gm_lookup m k = map_of (map (\<lambda>(k, v). (k, projr (scalar_to_string oob v))) raw) k"
    by (simp add: m map_of_fold_update map_of_rev_distinct)
  then show ?thesis by (simp add: map_of_map comp_def)
qed

lemma apply_mapping_loop_Inr:
  "apply_mapping_loop source out ms = Inr m \<longleftrightarrow>
     (\<forall>x \<in> set ms. gm_lookup source (dm_from x) \<noteq> None)
     \<and> m = Some (fold (\<lambda>x. AList.update (dm_key x) (the (gm_lookup source (dm_from x)))) ms out)"
proof (induction ms arbitrary: out)
  case Nil
  then show ?case by auto
next
  case (Cons x ms)
  show ?case
  proof (cases "gm_lookup source (dm_from x)")
    case None
    then show ?thesis by simp
  next
    case (Some v)
    with Cons.IH [of "AList.update (dm_key x) v out"] show ?thesis by simp
  qed
qed

lemma map_of_fold_mapping:
  "map_of (fold (\<lambda>x. AList.update (dm_key x) (f x)) ms out)
     = map_of out ++ map_of (rev (map (\<lambda>x. (dm_key x, f x)) ms))"
proof (induction ms arbitrary: out)
  case Nil
  then show ?case by simp
next
  case (Cons x ms)
  then show ?case by (simp add: map_of_update_add del: AList.update_conv)
qed

lemma apply_mapping_lookup:
  assumes "apply_mapping source ms = Inr m"
  shows "gm_lookup m k = map_of (rev (map (\<lambda>x. (dm_key x, the (gm_lookup source (dm_from x)))) ms)) k"
  using assms by (auto simp: apply_mapping_def apply_mapping_loop_Inr map_of_fold_mapping)

lemma distinct_fold_update: "distinct (map fst out) \<Longrightarrow> distinct (map fst (fold (\<lambda>x. AList.update (f x) (g x)) ms out))"
  by (induction ms arbitrary: out) (auto simp: distinct_update)

lemma apply_mapping_distinct:
  "apply_mapping source ms = Inr m \<Longrightarrow> distinct (map fst (gm_entries m))"
  by (auto simp: apply_mapping_def apply_mapping_loop_Inr intro!: distinct_fold_update)

section \<open>The hash\<close>

text \<open>The encoding depends on the contents of the map only.\<close>

lemma encode_entries_cong: "gm_lookup d = gm_lookup e \<Longrightarrow> encode_entries d ks = encode_entries e ks"
  by (simp add: encode_entries_def)

lemma sorted_keys_cong:
  assumes "gm_lookup d = gm_lookup e"
    and "distinct (map fst (gm_entries d))" and "distinct (map fst (gm_entries e))"
  shows "sort (map fst (gm_entries d)) = sort (map fst (gm_entries e))"
proof -
  have "map_of (gm_entries d) = map_of (gm_entries e)"
    using assms(1) by (simp add: gm_lookup_def fun_eq_iff)
  then have "set (map fst (gm_entries d)) = set (map fst (gm_entries e))"
    by (metis dom_map_of_conv_image_fst set_map)
  with assms(2,3) show ?thesis
    by (simp add: sorted_list_of_set_sort_remdups [symmetric] distinct_remdups_id
        sorted_distinct_set_unique)
qed

text \<open>Keys and values without a NUL can be read back from the encoding.\<close>

definition nul_free :: "bytes \<Rightarrow> bool" where
  "nul_free s \<longleftrightarrow> CHR 0x00 \<notin> set s"

lemma nul_split:
  assumes "nul_free a" and "nul_free b"
  shows "a @ CHR 0x00 # r = b @ CHR 0x00 # s \<longleftrightarrow> a = b \<and> r = s"
  using assms by (metis cut_Some_iff nul_free_def option.inject prod.inject)

lemma encode_inj:
  assumes "\<And>k v. (k, v) \<in> set xs \<union> set ys \<Longrightarrow> nul_free k \<and> nul_free v"
    and "concat (map (\<lambda>(k, v). k @ CHR 0x00 # v @ [CHR 0x00]) xs)
       = concat (map (\<lambda>(k, v). k @ CHR 0x00 # v @ [CHR 0x00]) ys)"
  shows "xs = ys"
  using assms
proof (induction xs arbitrary: ys)
  case Nil
  then show ?case by (cases ys) auto
next
  case (Cons x xs)
  obtain k v where x: "x = (k, v)" by (cases x)
  obtain y ys' where ys: "ys = y # ys'" using Cons.prems(2) x by (cases ys) auto
  obtain l w where y: "y = (l, w)" by (cases y)
  have free: "nul_free k" "nul_free v" "nul_free l" "nul_free w"
    using Cons.prems(1) by (auto simp: x y ys)
  let ?enc = "\<lambda>zs. concat (map (\<lambda>(k, v). k @ CHR 0x00 # v @ [CHR 0x00]) zs)"
  have "k @ CHR 0x00 # v @ CHR 0x00 # ?enc xs = l @ CHR 0x00 # w @ CHR 0x00 # ?enc ys'"
    using Cons.prems(2) by (simp add: x y ys)
  with free have "k = l" "v = w" "?enc xs = ?enc ys'" by (simp_all add: nul_split)
  moreover have "xs = ys'"
    using Cons.prems(1) \<open>?enc xs = ?enc ys'\<close> by (intro Cons.IH) (auto simp: ys)
  ultimately show ?case by (simp add: x y ys)
qed

definition gm_nul_free :: "bytes gomap \<Rightarrow> bool" where
  "gm_nul_free d \<longleftrightarrow> (\<forall>(k, v) \<in> set (gm_entries d). nul_free k \<and> nul_free v)"

lemma encode_entries_pairs:
  "encode_entries d ks
     = concat (map (\<lambda>(k, v). k @ CHR 0x00 # v @ [CHR 0x00])
         (map (\<lambda>k. (k, case gm_lookup d k of None \<Rightarrow> [] | Some v \<Rightarrow> v)) ks))"
  by (simp add: encode_entries_def comp_def)

text \<open>The pairs that the hash covers, in the order of the keys; they determine the contents.\<close>

definition sorted_pairs :: "bytes gomap \<Rightarrow> (string \<times> bytes) list" where
  "sorted_pairs d =
     map (\<lambda>k. (k, case gm_lookup d k of None \<Rightarrow> [] | Some v \<Rightarrow> v)) (sort (map fst (gm_entries d)))"

lemma map_of_sorted_pairs: "map_of (sorted_pairs d) = gm_lookup d"
proof
  fix k :: string
  have tabulate: "map_of (map (\<lambda>k. (k, f k)) ks) k = (if k \<in> set ks then Some (f k) else None)"
    for f :: "string \<Rightarrow> bytes" and ks
    by (induction ks) auto
  show "map_of (sorted_pairs d) k = gm_lookup d k"
  proof (cases "map_of (gm_entries d) k")
    case None
    then have "k \<notin> set (map fst (gm_entries d))" by (simp add: map_of_eq_None_iff)
    with None show ?thesis by (simp add: sorted_pairs_def gm_lookup_def tabulate)
  next
    case (Some v)
    then have "k \<in> set (map fst (gm_entries d))" by (metis map_of_eq_None_iff option.distinct(1) set_map)
    with Some show ?thesis by (simp add: sorted_pairs_def gm_lookup_def tabulate)
  qed
qed

lemma sorted_pairs_nul_free:
  assumes "gm_nul_free d" and "(k, v) \<in> set (sorted_pairs d)"
  shows "nul_free k \<and> nul_free v"
proof -
  have k: "k \<in> fst ` set (gm_entries d)" using assms(2) by (auto simp: sorted_pairs_def)
  then obtain w where w: "map_of (gm_entries d) k = Some w"
    by (metis map_of_eq_None_iff not_None_eq)
  then have "(k, w) \<in> set (gm_entries d)" by (rule map_of_SomeD)
  moreover have "v = w" using assms(2) w by (auto simp: sorted_pairs_def gm_lookup_def)
  ultimately show ?thesis using assms(1) by (auto simp: gm_nul_free_def)
qed

lemma encode_sorted_inj:
  assumes "gm_nul_free d" and "gm_nul_free e"
    and "encode_entries d (sort (map fst (gm_entries d))) = encode_entries e (sort (map fst (gm_entries e)))"
  shows "gm_lookup d = gm_lookup e"
proof -
  have "sorted_pairs d = sorted_pairs e"
  proof (rule encode_inj)
    show "nul_free k \<and> nul_free v" if "(k, v) \<in> set (sorted_pairs d) \<union> set (sorted_pairs e)" for k v
      using that sorted_pairs_nul_free [OF assms(1)] sorted_pairs_nul_free [OF assms(2)] by blast
    show "concat (map (\<lambda>(k, v). k @ CHR 0x00 # v @ [CHR 0x00]) (sorted_pairs d))
        = concat (map (\<lambda>(k, v). k @ CHR 0x00 # v @ [CHR 0x00]) (sorted_pairs e))"
      using assms(3) unfolding encode_entries_pairs sorted_pairs_def .
  qed
  then show ?thesis by (metis map_of_sorted_pairs)
qed

section \<open>Properties\<close>

lemma read_decimal_format_int: "read_decimal (format_int n) = of_int n"
proof -
  have dig: "read_unsigned (dec_digits m) = of_int m" if "0 \<le> m" for m
    using that by (simp add: read_unsigned_def takeWhile_digits read_dec_digits) (simp add: read_dec_def)
  have hd: "\<exists>c cs. dec_digits m = c # cs \<and> c \<noteq> CHR ''-''" if "0 \<le> m" for m
    using that dec_digits_not_Nil [of m] dec_digits_no_dot [of m "hd (dec_digits m)"]
    by (cases "dec_digits m") auto
  show ?thesis
  proof (cases "0 \<le> n")
    case True
    with hd [OF True] dig [OF True] show ?thesis
      by (auto simp: format_int_def read_decimal_def)
  next
    case False
    with dig [of "- n"] show ?thesis by (simp add: format_int_def read_decimal_def)
  qed
qed

lemma hex_digit_inj: "a < 16 \<Longrightarrow> b < 16 \<Longrightarrow> hex_digit a = hex_digit b \<Longrightarrow> a = b"
proof -
  assume ab: "a < 16" "b < 16" and eq: "hex_digit a = hex_digit b"
  from eq have "of_char (hex_digit a) = (of_char (hex_digit b) :: nat)" by simp
  with ab show ?thesis by (simp add: hex_digit_def of_char_of split: if_splits)
qed

lemma hex_encode_inj: "hex_encode as = hex_encode bs \<longleftrightarrow> as = bs"
proof
  show "hex_encode as = hex_encode bs \<Longrightarrow> as = bs"
  proof (induction as arbitrary: bs)
    case Nil
    then show ?case by (cases bs) (simp_all add: hex_encode_def Let_def)
  next
    case (Cons a as)
    obtain b bs' where bs: "bs = b # bs'"
      using Cons.prems by (cases bs) (simp_all add: hex_encode_def Let_def)
    let ?n = "\<lambda>c. of_char c :: nat"
    have small: "?n c div 16 < 16" "?n c mod 16 < 16" for c
      using nat_of_char_less_256 [of c] by (simp_all add: less_mult_imp_div_less)
    have "hex_digit (?n a div 16) = hex_digit (?n b div 16)"
      "hex_digit (?n a mod 16) = hex_digit (?n b mod 16)" "hex_encode as = hex_encode bs'"
      using Cons.prems by (simp_all add: bs hex_encode_def Let_def)
    then have "?n a div 16 = ?n b div 16" "?n a mod 16 = ?n b mod 16" and tl: "as = bs'"
      using small hex_digit_inj Cons.IH by blast+
    then have "?n a = ?n b" by (metis div_mult_mod_eq)
    with tl show ?case by (simp add: bs)
  qed
qed simp

text \<open>
C22: A mapping fails closed: it fails exactly when some mapping names a key the file does not
have, and reports the first such mapping; when it succeeds the Secret has a key for each mapping
and no other, holding the file's value for it, the last mapping winning if a key is mapped twice.
\<close>

theorem apply_mapping_spec:
  "case apply_mapping source ms of
     Inl e \<Rightarrow> \<exists>x. find (\<lambda>x. gm_lookup source (dm_from x) = None) ms = Some x
                 \<and> e = MissingSourceKey (dm_from x) (dm_key x)
   | Inr m \<Rightarrow> (\<forall>k. gm_lookup m k = (case find (\<lambda>x. dm_key x = k) (rev ms) of
                         None \<Rightarrow> None | Some x \<Rightarrow> gm_lookup source (dm_from x)))
       \<and> dom (gm_lookup m) = dm_key ` set ms
       \<and> dm_from ` set ms \<subseteq> dom (gm_lookup source)"
proof (cases "apply_mapping source ms")
  case (Inl e)
  have "apply_mapping_loop source out ms = Inl e \<Longrightarrow>
      \<exists>x. find (\<lambda>x. gm_lookup source (dm_from x) = None) ms = Some x
          \<and> e = MissingSourceKey (dm_from x) (dm_key x)" for out
    by (induction ms arbitrary: out) (auto split: option.splits)
  with Inl show ?thesis by (simp add: apply_mapping_def)
next
  case (Inr m)
  then have all: "gm_lookup source (dm_from x) \<noteq> None" if "x \<in> set ms" for x
    using that by (auto simp: apply_mapping_def apply_mapping_loop_Inr)
  have find: "map_of (map (\<lambda>x. (dm_key x, f x)) xs) k = map_option f (find (\<lambda>x. dm_key x = k) xs)"
    for f :: "data_mapping \<Rightarrow> bytes" and xs k
    by (induction xs) auto
  have look: "gm_lookup m k = (case find (\<lambda>x. dm_key x = k) (rev ms) of
      None \<Rightarrow> None | Some x \<Rightarrow> gm_lookup source (dm_from x))" for k
  proof (cases "find (\<lambda>x. dm_key x = k) (rev ms)")
    case None
    then show ?thesis by (simp add: apply_mapping_lookup [OF Inr] rev_map find)
  next
    case (Some x)
    then have "x \<in> set ms" by (metis find_Some_iff nth_mem set_rev)
    with all Some show ?thesis by (auto simp: apply_mapping_lookup [OF Inr] rev_map find)
  qed
  have "gm_lookup m = map_of (map (\<lambda>x. (dm_key x, the (gm_lookup source (dm_from x)))) (rev ms))"
    by (rule ext) (simp add: apply_mapping_lookup [OF Inr] rev_map)
  then have "dom (gm_lookup m) = dm_key ` set ms"
    by (simp add: dom_map_of_conv_image_fst image_image)
  with look all Inr show ?thesis by auto
qed

text \<open>
Both content hashes depend on the contents only, not on the order in which Go happens to visit
the maps: equal contents (and, for a manifest, an equal type) give equal hashes.
\<close>

theorem hash_order_independent:
  assumes "gm_lookup d = gm_lookup e"
    and "distinct (map fst (gm_entries d))" and "distinct (map fst (gm_entries e))"
  shows "hash_secret_data d = hash_secret_data e
    \<and> hash_manifest_secret (s\<lparr>sec_data := d\<rparr>) = hash_manifest_secret (s\<lparr>sec_data := e\<rparr>)"
  using sorted_keys_cong [OF assms] encode_entries_cong [OF assms(1)]
  by (simp add: hash_secret_data_def secret_data_preimage_def hash_manifest_secret_def
      manifest_preimage_def)

theorem hash_order_independent_witness:
  "hash_secret_data (Some [(''a'', ''1''), (''b'', ''2'')])
     = hash_secret_data (Some [(''b'', ''2''), (''a'', ''1'')])"
proof -
  have "gm_lookup (Some [(''a'', ''1''), (''b'', ''2'')])
      = gm_lookup (Some [(''b'', ''2''), (''a'', ''1'')])"
    by (auto simp: fun_eq_iff)
  from hash_order_independent [OF this, of "new_secret ''n'' ''x''"] show ?thesis by simp
qed

text \<open>
C38: The content hashes stand for the contents: as long as no key, value or type contains a NUL byte,
two data maps have the same hash exactly if they map the same keys to the same values, and two
Secrets of a manifest exactly if moreover their types are equal, unless SHA-256 itself collides on
the two encodings.
\<close>

theorem hash_determines_contents:
  assumes "gm_nul_free d" and "gm_nul_free e" and "nul_free (sec_type s)" and "nul_free (sec_type t)"
    and "distinct (map fst (gm_entries d))" and "distinct (map fst (gm_entries e))"
  shows "((hash_secret_data d = hash_secret_data e \<longleftrightarrow> gm_lookup d = gm_lookup e)
      \<or> (secret_data_preimage d \<noteq> secret_data_preimage e
          \<and> sha256 (secret_data_preimage d) = sha256 (secret_data_preimage e)))
    \<and> ((hash_manifest_secret (s\<lparr>sec_data := d\<rparr>) = hash_manifest_secret (t\<lparr>sec_data := e\<rparr>)
        \<longleftrightarrow> sec_type s = sec_type t \<and> gm_lookup d = gm_lookup e)
      \<or> (manifest_preimage (s\<lparr>sec_data := d\<rparr>) \<noteq> manifest_preimage (t\<lparr>sec_data := e\<rparr>)
          \<and> sha256 (manifest_preimage (s\<lparr>sec_data := d\<rparr>)) = sha256 (manifest_preimage (t\<lparr>sec_data := e\<rparr>))))"
proof -
  have data: "secret_data_preimage d = secret_data_preimage e \<longleftrightarrow> gm_lookup d = gm_lookup e"
  proof
    show "gm_lookup d = gm_lookup e" if "secret_data_preimage d = secret_data_preimage e"
      by (rule encode_sorted_inj [OF assms(1,2)]) (use that in \<open>simp only: secret_data_preimage_def\<close>)
    show "secret_data_preimage d = secret_data_preimage e" if same: "gm_lookup d = gm_lookup e"
      unfolding secret_data_preimage_def sorted_keys_cong [OF same assms(5,6)] by (rule encode_entries_cong [OF same])
  qed
  have "manifest_preimage (s\<lparr>sec_data := d\<rparr>) = manifest_preimage (t\<lparr>sec_data := e\<rparr>)
      \<longleftrightarrow> sec_type s @ CHR 0x00 # secret_data_preimage d = sec_type t @ CHR 0x00 # secret_data_preimage e"
    by (simp add: manifest_preimage_def secret_data_preimage_def)
  also have "\<dots> \<longleftrightarrow> sec_type s = sec_type t \<and> gm_lookup d = gm_lookup e"
    using assms(3,4) data by (simp add: nul_split)
  finally have manifest: "manifest_preimage (s\<lparr>sec_data := d\<rparr>) = manifest_preimage (t\<lparr>sec_data := e\<rparr>)
      \<longleftrightarrow> sec_type s = sec_type t \<and> gm_lookup d = gm_lookup e" .
  have hash: "hash_secret_data d = hash_secret_data e \<longleftrightarrow> sha256 (secret_data_preimage d) = sha256 (secret_data_preimage e)"
    "hash_manifest_secret x = hash_manifest_secret y \<longleftrightarrow> sha256 (manifest_preimage x) = sha256 (manifest_preimage y)"
    for x y by (simp_all add: hash_secret_data_def hash_manifest_secret_def hex_encode_inj)
  show ?thesis unfolding hash manifest [symmetric] unfolding data [symmetric]
    by (cases "secret_data_preimage d = secret_data_preimage e";
        cases "manifest_preimage (s\<lparr>sec_data := d\<rparr>) = manifest_preimage (t\<lparr>sec_data := e\<rparr>)") simp_all
qed

theorem hash_determines_contents_witness:
  "hash_secret_data (Some [(''a'', ''1''), (''b'', ''2'')]) = hash_secret_data (Some [(''b'', ''2''), (''a'', ''1'')])
    \<and> hash_manifest_secret ((new_secret ''n'' ''x'')\<lparr>sec_data := Some [(''a'', ''1'')]\<rparr>)
        \<noteq> hash_manifest_secret ((new_secret ''n'' ''x'')\<lparr>sec_data := Some [(''a'', ''2'')]\<rparr>)"
proof
  let ?d = "Some [(''a'', ''1''), (''b'', ''2'')]" and ?e = "Some [(''b'', ''2''), (''a'', ''1'')]"
  let ?s = "new_secret ''n'' ''x''"
  have "secret_data_preimage ?d = secret_data_preimage ?e" by code_simp
  moreover have "gm_lookup ?d = gm_lookup ?e" by (auto simp: fun_eq_iff)
  ultimately show "hash_secret_data ?d = hash_secret_data ?e"
    using hash_determines_contents [of ?d ?e ?s ?s]
    by (simp add: new_secret_def gm_nul_free_def nul_free_def)
  let ?x = "Some [(''a'', ''1'')]" and ?y = "Some [(''a'', ''2'')]"
  have "sha256 (manifest_preimage (?s\<lparr>sec_data := ?x\<rparr>)) \<noteq> sha256 (manifest_preimage (?s\<lparr>sec_data := ?y\<rparr>))"
    by code_simp
  moreover have "gm_lookup ?x \<noteq> gm_lookup ?y" by (auto simp: fun_eq_iff)
  ultimately show "hash_manifest_secret (?s\<lparr>sec_data := ?x\<rparr>) \<noteq> hash_manifest_secret (?s\<lparr>sec_data := ?y\<rparr>)"
    using hash_determines_contents [of ?x ?y ?s ?s]
    by (simp add: new_secret_def gm_nul_free_def nul_free_def)
qed

text \<open>
With NUL bytes in values the encoding is ambiguous: a Secret with one key and a Secret with
two keys get the same hash, so a recorded hash does not identify the contents.
\<close>

theorem hash_ambiguous_with_nul:
  "hash_secret_data (Some [(''a'', ''x'' @ [CHR 0x00] @ ''b'' @ [CHR 0x00] @ ''y'')])
     = hash_secret_data (Some [(''a'', ''x''), (''b'', ''y'')])
   \<and> gm_lookup (Some [(''a'', ''x'' @ [CHR 0x00] @ ''b'' @ [CHR 0x00] @ ''y'')]) ''b''
     \<noteq> gm_lookup (Some [(''a'', ''x''), (''b'', ''y'')]) ''b''"
proof -
  have "secret_data_preimage (Some [(''a'', ''x'' @ [CHR 0x00] @ ''b'' @ [CHR 0x00] @ ''y'')])
      = secret_data_preimage (Some [(''a'', ''x''), (''b'', ''y'')])"
    by code_simp
  then show ?thesis by (simp add: hash_secret_data_def)
qed

text \<open>
Normalisation never panics, whatever maps are nil, and leaves a Secret whose data is the old
data overridden by the string data, without string data; doing it again changes nothing.
\<close>

theorem normalize_secret_data_merges:
  assumes "distinct (map fst (gm_entries (sec_string_data sec)))"
  shows "\<exists>d. normalize_secret_data sec = Some (sec\<lparr>sec_data := d, sec_string_data := None\<rparr>)
    \<and> gm_lookup d = gm_lookup (sec_data sec) ++ gm_lookup (sec_string_data sec)
    \<and> normalize_secret_data (sec\<lparr>sec_data := d, sec_string_data := None\<rparr>)
        = Some (sec\<lparr>sec_data := d, sec_string_data := None\<rparr>)"
proof (cases "gm_entries (sec_string_data sec) = []")
  case True
  have "gm_lookup (sec_string_data sec) = Map.empty" by (simp add: gm_lookup_def True fun_eq_iff)
  with True show ?thesis by (intro exI [of _ "sec_data sec"]) (simp add: normalize_secret_data_def)
next
  case False
  obtain xs where xs: "(if sec_data sec = None then Some [] else sec_data sec) = Some xs"
    by (cases "sec_data sec") auto
  have look: "gm_lookup (sec_data sec) = map_of xs"
    using xs by (rule_tac ext) (auto split: if_splits)
  obtain ys where ys: "gm_puts (Some xs) (gm_entries (sec_string_data sec)) = Some (Some ys)"
      "map_of ys = map_of xs ++ map_of (rev (gm_entries (sec_string_data sec)))"
    using gm_puts_Some by blast
  have str: "map_of (gm_entries (sec_string_data sec)) = gm_lookup (sec_string_data sec)"
    by (rule ext) (simp add: gm_lookup_def)
  have "gm_lookup (Some ys) = map_of ys" by (rule ext) simp
  also have "\<dots> = gm_lookup (sec_data sec) ++ gm_lookup (sec_string_data sec)"
    unfolding ys(2) map_of_rev_distinct [OF assms] look str ..
  finally have "gm_lookup (Some ys) = gm_lookup (sec_data sec) ++ gm_lookup (sec_string_data sec)" .
  moreover have "normalize_secret_data sec = Some (sec\<lparr>sec_data := Some ys, sec_string_data := None\<rparr>)"
    using False xs ys by (cases "sec_data sec") (simp_all add: normalize_secret_data_def)
  ultimately show ?thesis
    by (intro exI [of _ "Some ys"]) (simp add: normalize_secret_data_def)
qed

theorem normalize_secret_data_merges_witness:
  "\<exists>d. normalize_secret_data ((new_secret ''n'' ''x'')\<lparr>sec_string_data := Some [(''k'', ''v'')]\<rparr>)
      = Some ((new_secret ''n'' ''x'')\<lparr>sec_data := d\<rparr>) \<and> gm_lookup d ''k'' = Some ''v''"
proof -
  let ?s = "(new_secret ''n'' ''x'')\<lparr>sec_string_data := Some [(''k'', ''v'')]\<rparr>"
  have "distinct (map fst (gm_entries (sec_string_data ?s)))" by simp
  from normalize_secret_data_merges [OF this] show ?thesis by (auto simp: new_secret_def)
qed

text \<open>
C23: A manifest is accepted only if every top-level field and every metadata field is on its
whitelist and it is a core/v1 Secret, and then the decoder's Secret is returned unchanged. An
unknown field is refused whatever else the document holds.
\<close>

theorem parse_manifest_whitelist:
  assumes "unmarshal_map Y txt = Inr raw"
  shows "(\<forall>sec. parse_manifest Y txt = Inr sec \<longrightarrow>
        set (map fst (gm_entries raw)) \<subseteq> set allowed_top_level_manifest_keys
        \<and> gm_lookup raw ''apiVersion'' = Some (YStr ''v1'')
        \<and> gm_lookup raw ''kind'' = Some (YStr ''Secret'')
        \<and> (\<forall>meta. gm_lookup raw ''metadata'' = Some (YMap meta) \<longrightarrow>
              set (map fst meta) \<subseteq> set allowed_metadata_keys)
        \<and> unmarshal_secret Y txt = Inr sec)
    \<and> (\<forall>k \<in> set (map fst (gm_entries raw)) - set allowed_top_level_manifest_keys.
          \<exists>k'. parse_manifest Y txt = Inl (UnsupportedTopLevelField k'))"
proof (intro conjI allI impI ballI)
  fix k assume "k \<in> set (map fst (gm_entries raw)) - set allowed_top_level_manifest_keys"
  then have "find (\<lambda>k. k \<notin> set allowed_top_level_manifest_keys) (map fst (gm_entries raw)) \<noteq> None"
    unfolding find_None_iff by blast
  with assms show "\<exists>k'. parse_manifest Y txt = Inl (UnsupportedTopLevelField k')"
    by (auto simp: parse_manifest_def)
next
  fix sec assume ok: "parse_manifest Y txt = Inr sec"
  have top: "find (\<lambda>k. k \<notin> set allowed_top_level_manifest_keys) (map fst (gm_entries raw)) = None"
    using ok assms by (auto simp: parse_manifest_def split: option.splits)
  then show "set (map fst (gm_entries raw)) \<subseteq> set allowed_top_level_manifest_keys"
    unfolding find_None_iff by blast
  have av: "yaml_string (gm_lookup raw ''apiVersion'') = ''v1''"
    and kd: "yaml_string (gm_lookup raw ''kind'') = ''Secret''"
    and md: "metadata_offender (gm_lookup raw ''metadata'') = None"
    and um: "unmarshal_secret Y txt = Inr sec"
    using ok assms top
    by (auto simp: parse_manifest_def Let_def split: if_splits option.splits sum.splits)
  show "gm_lookup raw ''apiVersion'' = Some (YStr ''v1'')"
    using av by (auto simp: yaml_string_def split: option.splits yaml.splits)
  show "gm_lookup raw ''kind'' = Some (YStr ''Secret'')"
    using kd by (auto simp: yaml_string_def split: option.splits yaml.splits)
  show "set (map fst meta) \<subseteq> set allowed_metadata_keys"
    if "gm_lookup raw ''metadata'' = Some (YMap meta)" for meta
    using md that unfolding metadata_offender_def by (simp add: find_None_iff) blast
  show "unmarshal_secret Y txt = Inr sec" by (rule um)
qed

text \<open>A decoder for the witnesses: one document, whose raw and typed readings are given.\<close>

definition one_doc :: "(string \<times> yaml) list \<Rightarrow> secret \<Rightarrow> yaml_lib" where
  "one_doc raw sec =
     \<lparr>unmarshal_map = (\<lambda>_. Inr (Some raw)), unmarshal_secret = (\<lambda>_. Inr sec), float_oob = oob_amd64\<rparr>"

theorem parse_manifest_whitelist_witness:
  "\<exists>k. parse_manifest
     (one_doc [(''apiVersion'', YStr ''v1''), (''immutable'', YBool True)] (new_secret ''n'' ''x'')) []
     = Inl (UnsupportedTopLevelField k)"
proof -
  let ?raw = "[(''apiVersion'', YStr ''v1''), (''immutable'', YBool True)]"
  have "unmarshal_map (one_doc ?raw (new_secret ''n'' ''x'')) [] = Inr (Some ?raw)"
    by (simp add: one_doc_def)
  from parse_manifest_whitelist [OF this]
  show ?thesis by (auto simp: allowed_top_level_manifest_keys_def)
qed

text \<open>
C24: A flat file is read completely or not at all: the reading succeeds exactly when every
top-level value is a scalar, and then it has the same keys, each with its rendered value.
\<close>

theorem parse_flat_yaml_complete:
  assumes "unmarshal_map Y txt = Inr raw" and "distinct (map fst (gm_entries raw))"
  shows "(\<forall>m. parse_flat_yaml Y txt = Inr m \<longrightarrow>
        (\<forall>k. map_option Inr (gm_lookup m k) = map_option (scalar_to_string (float_oob Y)) (gm_lookup raw k)))
    \<and> ((\<exists>m. parse_flat_yaml Y txt = Inr m) \<longleftrightarrow>
        (\<forall>k v. gm_lookup raw k = Some v \<longrightarrow>
           (case v of YNull \<Rightarrow> False | YMap _ \<Rightarrow> False | YSeq _ \<Rightarrow> False | YOther _ \<Rightarrow> False | _ \<Rightarrow> True)))"
proof -
  have pf: "parse_flat_yaml Y txt = parse_flat_loop (float_oob Y) [] (gm_entries raw)"
    using assms(1) by (simp add: parse_flat_yaml_def)
  have mem: "(k, v) \<in> set (gm_entries raw) \<longleftrightarrow> gm_lookup raw k = Some v" for k v
    using assms(2) by (simp add: gm_lookup_def)
  have scalar: "(\<exists>s. scalar_to_string oob v = Inr s) \<longleftrightarrow>
      (case v of YNull \<Rightarrow> False | YMap _ \<Rightarrow> False | YSeq _ \<Rightarrow> False | YOther _ \<Rightarrow> False | _ \<Rightarrow> True)" for oob v
    by (cases v) (simp_all add: scalar_to_string_def Let_def)
  have iff: "(\<exists>m. parse_flat_yaml Y txt = Inr m) \<longleftrightarrow>
      (\<forall>k v. gm_lookup raw k = Some v \<longrightarrow> (\<exists>s. scalar_to_string (float_oob Y) v = Inr s))"
    by (force simp: pf parse_flat_loop_Inr mem [symmetric])
  moreover have "map_option Inr (gm_lookup m k) = map_option (scalar_to_string (float_oob Y)) (gm_lookup raw k)"
    if m: "parse_flat_yaml Y txt = Inr m" for m k
  proof -
    have "gm_lookup m k = map_option (projr \<circ> scalar_to_string (float_oob Y)) (gm_lookup raw k)"
      using parse_flat_loop_lookup [OF m [unfolded pf] assms(2)] by (simp add: gm_lookup_def)
    moreover have "\<exists>s. scalar_to_string (float_oob Y) v = Inr s" if "gm_lookup raw k = Some v" for v
      using iff m that by blast
    ultimately show ?thesis by (cases "gm_lookup raw k") force+
  qed
  ultimately show ?thesis using scalar by simp
qed

theorem parse_flat_yaml_complete_witness:
  "\<exists>m. parse_flat_yaml (one_doc [(''host'', YStr ''db''), (''on'', YBool True)] (new_secret ''n'' ''x'')) []
      = Inr m \<and> gm_lookup m ''on'' = Some ''true''"
proof -
  let ?raw = "[(''host'', YStr ''db''), (''on'', YBool True)]"
  let ?Y = "one_doc ?raw (new_secret ''n'' ''x'')"
  have 1: "unmarshal_map ?Y [] = Inr (Some ?raw)" by (simp add: one_doc_def)
  have 2: "distinct (map fst (gm_entries (Some ?raw)))" by simp
  have m: "parse_flat_yaml ?Y [] = Inr (Some [(''host'', ''db''), (''on'', ''true'')])" by code_simp
  have "map_option Inr (gm_lookup (Some [(''host'', ''db''), (''on'', ''true'')]) ''on'')
      = map_option (scalar_to_string (float_oob ?Y)) (gm_lookup (Some ?raw) ''on'')"
    using parse_flat_yaml_complete [OF 1 2] m by blast
  then have "gm_lookup (Some [(''host'', ''db''), (''on'', ''true'')]) ''on'' = Some ''true''"
    by (simp add: scalar_to_string_def format_bool_def)
  with m show ?thesis by blast
qed

text \<open>
C39: A number between -2^63 and 2^63 is rendered without loss: reading the text as a decimal and
rounding to a double gives the number back, and an integer is rendered as plain digits.
\<close>

theorem scalar_float_lossless:
  assumes "is_double x" and "- (2 ^ 63) \<le> x" and "x < 2 ^ 63"
  shows "\<exists>s. scalar_to_string oob (YFloat x) = Inr s
    \<and> round_double (read_decimal s) = x
    \<and> (\<forall>n. x = of_int n \<longrightarrow> s = format_int n)"
proof -
  define n where "n = int64_of_float oob x"
  have "- (2 ^ 63) \<le> rat_trunc x" and "rat_trunc x < 2 ^ 63"
    using assms(2,3) by (auto simp: rat_trunc_def le_floor_iff floor_less_iff le_ceiling_iff ceiling_less_iff)
  then have n: "n = rat_trunc x" by (simp add: n_def int64_of_float_def)
  have int: "n = m \<and> x = round_double (of_int n)" if "x = of_int m" for m
    using that assms(1) by (simp add: n rat_trunc_def is_double_def)
  show ?thesis
  proof (cases "x = round_double (of_int n)")
    case True
    have "read_decimal (format_int n) = of_int n" by (rule read_decimal_format_int)
    moreover have "scalar_to_string oob (YFloat x) = Inr (format_int n)"
      unfolding scalar_to_string_def yaml.case n_def [symmetric] Let_def using True by simp
    moreover have "round_double (read_decimal (format_int n)) = x"
      unfolding \<open>read_decimal (format_int n) = of_int n\<close> by (rule True [symmetric])
    ultimately show ?thesis using int by blast
  next
    case False
    then have "scalar_to_string oob (YFloat x) = Inr (format_float x)"
      unfolding scalar_to_string_def yaml.case n_def [symmetric] Let_def by simp
    with False int read_format_float [OF assms(1)] show ?thesis by blast
  qed
qed

theorem scalar_float_lossless_witness:
  "\<exists>s. scalar_to_string oob_amd64 (YFloat 5432) = Inr s \<and> s = format_int 5432"
proof -
  have "is_double 5432" by code_simp
  from scalar_float_lossless [OF this, of oob_amd64] show ?thesis by auto
qed

lemma shortest_2_63: "shortest_decimal 9223372036854775808 = (9223372036854776, 3)"
proof -
  have "floor_log10 9223372036854775808 = 18" by code_simp
  moreover have "find (\<lambda>d. round_double (decimal_value d) = 9223372036854775808)
      (concat (map (decimals_at 9223372036854775808 18) [1..<18])) = Some (9223372036854776, 3)"
    by code_simp
  ultimately show ?thesis by (simp only: shortest_decimal_def option.case)
qed

lemma format_2_63: "format_float (2 ^ 63) = ''9223372036854776000''"
proof -
  have "render_decimal (9223372036854776, 3) = ''9223372036854776000''" by code_simp
  then show ?thesis by (simp add: format_float_def shortest_2_63 del: render_decimal.simps)
qed

text \<open>
Beyond 2^63 the text depends on the processor the operator was compiled for, and on neither is
it the number in the file: 9223372036854775808 becomes 9223372036854776000 on amd64 and
9223372036854775807 on arm64.
\<close>

theorem scalar_float_beyond_int64:
  "scalar_to_string oob_amd64 (YFloat (2 ^ 63)) = Inr ''9223372036854776000''
   \<and> scalar_to_string oob_arm64 (YFloat (2 ^ 63)) = Inr ''9223372036854775807''"
proof
  have "int64_of_float oob_amd64 (2 ^ 63) = - (2 ^ 63)" by code_simp
  moreover have "round_double (of_int (- (2 ^ 63))) \<noteq> 2 ^ 63" by code_simp
  ultimately show "scalar_to_string oob_amd64 (YFloat (2 ^ 63)) = Inr ''9223372036854776000''"
    unfolding scalar_to_string_def yaml.case Let_def format_2_63 by simp
  have "int64_of_float oob_arm64 (2 ^ 63) = 9223372036854775807" by code_simp
  moreover have "round_double (of_int 9223372036854775807) = 2 ^ 63" by code_simp
  moreover have "format_int 9223372036854775807 = ''9223372036854775807''" by code_simp
  ultimately show "scalar_to_string oob_arm64 (YFloat (2 ^ 63)) = Inr ''9223372036854775807''"
    unfolding scalar_to_string_def yaml.case Let_def by simp
qed

end
