(* ===== verification/OsModel.thy ===== *)
theory OsModel
  imports Prelude GoLib "HOL-Library.Sublist"
begin

text \<open>
  What the operator sees of its process: the file system below \<open>os.MkdirAll\<close>, \<open>os.Stat\<close>,
  \<open>os.RemoveAll\<close> and \<open>os.ReadFile\<close>, and the environment variables. Everything outside the
  process (API server, remotes, clocks) is the opaque \<open>world\<close>.

  The record is extended by the components that keep state of their own; their operations are
  polymorphic in that extension. A path is resolved as the kernel does it: element by element,
  following symbolic links (at most 40 of them), \<open>..\<close> going to the parent of the directory
  reached. Relative paths start at the root, the working directory of the operator's image.
  The OS may refuse to create a directory, to change its mode, and to remove any part of a tree
  (the code ignores the error of every \<open>os.RemoveAll\<close>). \<open>os.Remove\<close> of a temporary file that the
  operator has just made is taken to succeed.
\<close>

datatype node = Dir | File bytes | Symlink string

type_synonym fs = "string list \<Rightarrow> node option"

record 'w os_state =
  world :: 'w
  fsys :: fs
  penv :: "string \<Rightarrow> string option"

type_synonym ('w, 'x, 'a) os_prog = "(('w, 'x) os_state_scheme, 'a) state"

section \<open>Lifting\<close>

lemma frame_run: "state_io_rel R m \<Longrightarrow> run_state m s = (a, s') \<Longrightarrow> R s s'"
  by (metis snd_conv state_io_rel_run)

definition on_world :: "('w, 'a) state \<Rightarrow> ('w, 'x, 'a) os_prog" where
  "on_world m = State (\<lambda>s. case run_state m (world s) of (a, w) \<Rightarrow> (a, s\<lparr>world := w\<rparr>))"

definition on_world_fs :: "('w \<times> fs, 'a) state \<Rightarrow> ('w, 'x, 'a) os_prog" where
  "on_world_fs m =
     State (\<lambda>s. case run_state m (world s, fsys s) of (a, (w, f)) \<Rightarrow> (a, s\<lparr>world := w, fsys := f\<rparr>))"

lemma run_on_world:
  "run_state (on_world m) s = (fst (run_state m (world s)), s\<lparr>world := snd (run_state m (world s))\<rparr>)"
  by (simp add: on_world_def split: prod.split)

lemma run_on_world_fs:
  "run_state (on_world_fs m) s =
     (fst (run_state m (world s, fsys s)),
      s\<lparr>world := fst (snd (run_state m (world s, fsys s))),
        fsys := snd (snd (run_state m (world s, fsys s)))\<rparr>)"
  by (simp add: on_world_fs_def split: prod.split)

text \<open>\<open>os.Getenv\<close>: empty when unset.\<close>

definition getenv :: "(string \<Rightarrow> string option) \<Rightarrow> string \<Rightarrow> string" where
  "getenv env k = (case env k of None \<Rightarrow> [] | Some v \<Rightarrow> v)"

section \<open>Path resolution\<close>

text \<open>The elements of a path as the kernel reads them: no cleaning of \<open>..\<close>.\<close>

definition raw_elems :: "string \<Rightarrow> string list" where
  "raw_elems path = filter (\<lambda>e. e \<noteq> [] \<and> e \<noteq> ''.'') (split_on CHR ''/'' path)"

fun fs_walk :: "nat \<Rightarrow> fs \<Rightarrow> string list \<Rightarrow> string list \<Rightarrow> string + string list" where
  "fs_walk fuel fs cur [] = Inr cur"
| "fs_walk fuel fs cur (e # es) =
     (if e = ''..'' then fs_walk fuel fs (butlast cur) es
      else case fs (cur @ [e]) of
          None \<Rightarrow> Inl ''no such file or directory''
        | Some Dir \<Rightarrow> fs_walk fuel fs (cur @ [e]) es
        | Some (File _) \<Rightarrow> (if es = [] then Inr (cur @ [e]) else Inl ''not a directory'')
        | Some (Symlink t) \<Rightarrow>
            (case fuel of
               0 \<Rightarrow> Inl ''too many levels of symbolic links''
             | Suc n \<Rightarrow>
                 fs_walk n fs (if filepath_is_abs t then [] else cur) (raw_elems t @ es)))"

definition fs_real :: "fs \<Rightarrow> string \<Rightarrow> string + string list" where
  "fs_real fs path = fs_walk 40 fs [] (raw_elems path)"

definition fs_exists :: "fs \<Rightarrow> string \<Rightarrow> bool" where
  "fs_exists fs path = (case fs_real fs path of Inl _ \<Rightarrow> False | Inr _ \<Rightarrow> True)"

definition fs_read_file :: "fs \<Rightarrow> string \<Rightarrow> string + bytes" where
  "fs_read_file fs path =
     (case fs_real fs path of
        Inl e \<Rightarrow> Inl e
      | Inr p \<Rightarrow> (case fs p of Some (File b) \<Rightarrow> Inr b | _ \<Rightarrow> Inl ''is a directory''))"

text \<open>\<open>os.MkdirAll\<close>: what was created before an error stays.\<close>

fun fs_mkdirs :: "fs \<Rightarrow> string list \<Rightarrow> string list \<Rightarrow> fs \<times> string option" where
  "fs_mkdirs fs cur [] = (fs, None)"
| "fs_mkdirs fs cur (e # es) =
     (if e = ''..'' then fs_mkdirs fs (butlast cur) es
      else case fs (cur @ [e]) of
          None \<Rightarrow> fs_mkdirs (fs(cur @ [e] \<mapsto> Dir)) (cur @ [e]) es
        | Some Dir \<Rightarrow> fs_mkdirs fs (cur @ [e]) es
        | Some (File _) \<Rightarrow> (fs, Some ''not a directory'')
        | Some (Symlink t) \<Rightarrow>
            (case fs_walk 40 fs cur [e] of
               Inl err \<Rightarrow> (fs, Some err)
             | Inr p \<Rightarrow> (if p = [] \<or> fs p = Some Dir then fs_mkdirs fs p es
                         else (fs, Some ''not a directory''))))"

text \<open>
  \<open>os.RemoveAll\<close> removes the entry itself (a link is not followed) and all below it, but what the OS
  refuses to remove: \<open>refused p\<close> says so of each path.
\<close>

definition fs_remove_tree :: "(string list \<Rightarrow> bool) \<Rightarrow> fs \<Rightarrow> string list \<Rightarrow> fs" where
  "fs_remove_tree refused fs d = (\<lambda>p. if prefix d p \<and> \<not> refused p then None else fs p)"

definition fs_remove_all :: "(string list \<Rightarrow> bool) \<Rightarrow> fs \<Rightarrow> string \<Rightarrow> fs" where
  "fs_remove_all refused fs path =
     (let es = raw_elems path in
      if es = [] then fs
      else case fs_walk 40 fs [] (butlast es) of
          Inl _ \<Rightarrow> fs
        | Inr p \<Rightarrow> fs_remove_tree refused fs (p @ [last es]))"

text \<open>\<open>os.Remove\<close>, for what is not a directory.\<close>

definition fs_remove_file :: "fs \<Rightarrow> string \<Rightarrow> fs" where
  "fs_remove_file fs path =
     (let es = raw_elems path in
      if es = [] then fs
      else case fs_walk 40 fs [] (butlast es) of
          Inl _ \<Rightarrow> fs
        | Inr p \<Rightarrow> (if fs (p @ [last es]) = Some Dir then fs else fs(p @ [last es] := None)))"

definition fs_write_file :: "fs \<Rightarrow> string \<Rightarrow> bytes \<Rightarrow> fs" where
  "fs_write_file fs path data =
     (case fs_real fs path of Inl _ \<Rightarrow> fs | Inr p \<Rightarrow> fs(p \<mapsto> File data))"

section \<open>Cleaned paths\<close>

lemma split_on_join:
  "xs \<noteq> [] \<Longrightarrow> \<forall>x \<in> set xs. c \<notin> set x \<Longrightarrow> split_on c (go_join [c] xs) = xs"
proof (induction xs rule: induct_list012)
  case (3 x y zs)
  then show ?case by (simp add: split_on_append split_on_single)
qed (simp_all add: split_on_single)

lemma clean_elems_append:
  "clean_elems r stk (xs @ ys) = clean_elems r (rev (clean_elems r stk xs)) ys"
proof (induction xs arbitrary: stk)
  case (Cons e xs)
  then show ?case by (cases stk) auto
qed simp

lemma clean_elems_proper:
  "\<forall>e \<in> set es. e \<noteq> [] \<and> e \<noteq> ''.'' \<and> e \<noteq> ''..'' \<Longrightarrow> clean_elems r stk es = rev stk @ es"
  by (induction es arbitrary: stk) auto

text \<open>A cleaned relative path has its \<open>..\<close> elements at the front, a rooted one has none.\<close>

definition clean_stack :: "bool \<Rightarrow> string list \<Rightarrow> bool" where
  "clean_stack r es \<longleftrightarrow>
     (\<forall>e \<in> set es. e \<noteq> [] \<and> e \<noteq> ''.'' \<and> CHR ''/'' \<notin> set e)
     \<and> (\<exists>n ys. es = replicate n ''..'' @ ys \<and> ''..'' \<notin> set ys \<and> (r \<longrightarrow> n = 0))"

lemma clean_stack_plain:
  "\<forall>e \<in> set es. e \<noteq> [] \<and> e \<noteq> ''.'' \<and> CHR ''/'' \<notin> set e \<Longrightarrow> ''..'' \<notin> set es \<Longrightarrow> clean_stack r es"
  unfolding clean_stack_def by (metis append_Nil replicate_0)

lemma clean_stack_snoc:
  "clean_stack r es \<Longrightarrow> e \<noteq> [] \<Longrightarrow> e \<noteq> ''.'' \<Longrightarrow> e \<noteq> ''..'' \<Longrightarrow> CHR ''/'' \<notin> set e
    \<Longrightarrow> clean_stack r (es @ [e])"
proof -
  assume es: "clean_stack r es" and e: "e \<noteq> []" "e \<noteq> ''.''" "e \<noteq> ''..''" "CHR ''/'' \<notin> set e"
  from es obtain n ys where "es = replicate n ''..'' @ ys" "''..'' \<notin> set ys" "r \<longrightarrow> n = 0"
    unfolding clean_stack_def by blast
  then have "es @ [e] = replicate n ''..'' @ (ys @ [e]) \<and> ''..'' \<notin> set (ys @ [e]) \<and> (r \<longrightarrow> n = 0)"
    using e(3) by auto
  with es e show ?thesis unfolding clean_stack_def by (metis Un_iff set_append set_ConsD singletonD list.set(1,2) empty_iff insert_iff)
qed

lemma clean_stack_dots: "clean_stack False (replicate n ''..'')"
  unfolding clean_stack_def by (rule conjI) (simp, metis append_Nil2 empty_iff empty_set)

lemma clean_stack_butlast:
  assumes "clean_stack r (es @ [t])" and "t \<noteq> ''..''"
  shows "clean_stack r es"
proof -
  from assms(1) obtain n ys where ys: "es @ [t] = replicate n ''..'' @ ys" "''..'' \<notin> set ys" "r \<longrightarrow> n = 0"
    unfolding clean_stack_def by blast
  have "ys \<noteq> []"
  proof
    assume "ys = []"
    with ys(1) have "t \<in> set (replicate n ''..'')" by (metis append_Nil2 in_set_conv_decomp)
    with assms(2) show False by (simp split: if_splits)
  qed
  then have "es = replicate n ''..'' @ butlast ys"
    using ys(1) by (metis butlast_append butlast_snoc)
  moreover have "''..'' \<notin> set (butlast ys)" using ys(2) by (meson in_set_butlastD)
  ultimately show ?thesis using assms(1) ys(3) unfolding clean_stack_def
    by (metis Un_iff set_append)
qed

lemma clean_stack_all_dots:
  assumes "clean_stack r (es @ [''..''])"
  shows "\<not> r \<and> es @ [''..''] = replicate (Suc (length es)) ''..''"
proof -
  from assms obtain n ys where ys: "es @ [''..''] = replicate n ''..'' @ ys" "''..'' \<notin> set ys" "r \<longrightarrow> n = 0"
    unfolding clean_stack_def by blast
  have "ys = []"
  proof (rule ccontr)
    assume "ys \<noteq> []"
    then have "last (replicate n ''..'' @ ys) = last ys" "last ys \<in> set ys" by simp_all
    with ys show False by (metis last_snoc)
  qed
  with ys have "es @ [''..''] = replicate n ''..''" by simp
  moreover from this have "n = Suc (length es)" by (metis length_append_singleton length_replicate)
  ultimately show ?thesis using ys(3) by auto
qed

lemma clean_elems_shape:
  assumes "clean_stack r (rev stk)" and "\<forall>e \<in> set es. CHR ''/'' \<notin> set e"
  shows "clean_stack r (clean_elems r stk es)"
  using assms
proof (induction es arbitrary: stk)
  case Nil
  then show ?case by simp
next
  case (Cons e es)
  have tl: "\<forall>e \<in> set es. CHR ''/'' \<notin> set e" and e: "CHR ''/'' \<notin> set e" using Cons.prems(2) by simp_all
  consider "e = [] \<or> e = ''.''" | "e = ''..''" "stk = []"
    | ts where "e = ''..''" "stk = ''..'' # ts"
    | t ts where "e = ''..''" "stk = t # ts" "t \<noteq> ''..''"
    | "e \<noteq> [] \<and> e \<noteq> ''.'' \<and> e \<noteq> ''..''" by (cases stk) auto
  then show ?case
  proof cases
    case 1
    then show ?thesis using Cons.IH [OF Cons.prems(1) tl] by (auto simp del: clean_elems.simps simp: clean_elems.simps(2))
  next
    case 2
    have "clean_stack False [''..'']" using clean_stack_dots [of 1] by simp
    moreover have "clean_stack True []" by (rule clean_stack_plain) simp_all
    ultimately have "clean_stack r (rev (if r then [] else [''..'']))" by simp
    from Cons.IH [OF this tl] 2 show ?thesis by simp
  next
    case 3
    from clean_stack_all_dots [of r "rev ts"] Cons.prems(1) 3
    have "\<not> r" and "rev stk = replicate (Suc (length ts)) ''..''" by simp_all
    then have "clean_stack r (rev (e # stk))"
      using clean_stack_dots [of "Suc (Suc (length ts))"] 3(1) by (simp add: replicate_append_same)
    from Cons.IH [OF this tl] 3 show ?thesis by simp
  next
    case 4
    from clean_stack_butlast [of r "rev ts" t] Cons.prems(1) 4 have "clean_stack r (rev ts)" by simp
    from Cons.IH [OF this tl] 4 show ?thesis by simp
  next
    case 5
    then have "clean_stack r (rev (e # stk))" using clean_stack_snoc [OF Cons.prems(1)] e by simp
    from Cons.IH [OF this tl] 5 show ?thesis by simp
  qed
qed

lemma path_elems_clean: "clean_stack (filepath_is_abs p) (path_elems p)"
  unfolding path_elems_def
  by (rule clean_elems_shape) (auto intro: clean_stack_plain dest: split_on_no_sep)

lemma clean_stack_rooted: "clean_stack r es \<Longrightarrow> r \<Longrightarrow> ''..'' \<notin> set es"
  by (auto simp: clean_stack_def)

lemma raw_elems_join:
  assumes "clean_stack r es" and "es \<noteq> []"
  shows "raw_elems (go_join ''/'' es) = es"
proof -
  have "split_on CHR ''/'' (go_join [CHR ''/''] es) = es"
    using assms by (intro split_on_join) (auto simp: clean_stack_def)
  then show ?thesis using assms by (auto simp: raw_elems_def clean_stack_def intro!: filter_True)
qed

lemma raw_elems_slash: "raw_elems (CHR ''/'' # s) = raw_elems s"
  by (simp add: raw_elems_def)

text \<open>The kernel reads a cleaned path as its cleaned elements.\<close>

lemma raw_elems_clean: "raw_elems (filepath_clean p) = path_elems p"
proof (cases "path_elems p = []")
  case True
  then show ?thesis by (simp add: filepath_clean_def raw_elems_def)
next
  case False
  then show ?thesis
    using raw_elems_join [OF path_elems_clean] by (simp add: filepath_clean_def raw_elems_slash Let_def)
qed

lemma path_elems_append:
  assumes "filepath_is_abs d"
  shows "path_elems (d @ ''/'' @ p) = clean_elems True (rev (path_elems d)) (split_on CHR ''/'' p)"
proof -
  have split: "split_on c (a @ c # b) = split_on c a @ split_on c b" for c a b
  proof (induction a)
    case (Cons x a)
    obtain y ys where "split_on c a = y # ys" by (cases "split_on c a") auto
    with Cons show ?case by simp
  qed simp
  have "filepath_is_abs (d @ ''/'' @ p)" using assms by (auto simp: filepath_is_abs_def has_prefix_iff)
  with assms show ?thesis by (simp add: path_elems_def split clean_elems_append)
qed

text \<open>
  Joining a rooted directory and a cleaned relative path that does not start with \<open>..\<close> stays below
  the directory, element for element.
\<close>

lemma raw_elems_filepath_join:
  assumes "filepath_is_abs d" and "\<not> filepath_is_abs p" and "''..'' \<notin> set (path_elems p)"
  shows "raw_elems (filepath_join [d, filepath_clean p]) = path_elems d @ path_elems p"
proof -
  have "d \<noteq> []" using assms(1) by (auto simp: filepath_is_abs_def has_prefix_iff)
  have ne: "filepath_clean p \<noteq> []"
  proof (cases "path_elems p")
    case (Cons e es)
    then have "e \<noteq> []" using path_elems_clean [of p] by (auto simp: clean_stack_def)
    then show ?thesis using assms(2) Cons by (cases es) (simp_all add: filepath_clean_def Let_def)
  qed (simp add: filepath_clean_def)
  have "filepath_join [d, filepath_clean p] = filepath_clean (d @ ''/'' @ filepath_clean p)"
    using \<open>d \<noteq> []\<close> ne by (simp add: filepath_join_def)
  then have "raw_elems (filepath_join [d, filepath_clean p])
      = clean_elems True (rev (path_elems d)) (split_on CHR ''/'' (filepath_clean p))"
    using path_elems_append [OF assms(1)] by (simp add: raw_elems_clean)
  also have "\<dots> = path_elems d @ path_elems p"
  proof (cases "path_elems p = []")
    case True
    then show ?thesis using assms(2) by (simp add: filepath_clean_def)
  next
    case False
    have "split_on CHR ''/'' (go_join [CHR ''/''] (path_elems p)) = path_elems p"
      using False path_elems_clean [of p] by (intro split_on_join) (auto simp: clean_stack_def)
    then have "split_on CHR ''/'' (filepath_clean p) = path_elems p"
      using False assms(2) by (simp add: filepath_clean_def)
    moreover have "\<forall>e \<in> set (path_elems p). e \<noteq> [] \<and> e \<noteq> ''.'' \<and> e \<noteq> ''..''"
      using path_elems_clean [of p] assms(3) by (auto simp: clean_stack_def)
    ultimately show ?thesis by (simp add: clean_elems_proper)
  qed
  finally show ?thesis .
qed

section \<open>Resolution without links\<close>

text \<open>Directories all the way down to \<open>d\<close>.\<close>

definition real_dir :: "fs \<Rightarrow> string list \<Rightarrow> bool" where
  "real_dir fs d \<longleftrightarrow> (\<forall>n \<in> {1..length d}. fs (take n d) = Some Dir)"

lemma real_dir_Nil [simp]: "real_dir fs []"
  by (simp add: real_dir_def)

lemma real_dir_snoc: "real_dir fs (d @ [e]) \<longleftrightarrow> real_dir fs d \<and> fs (d @ [e]) = Some Dir"
proof -
  have "{1..length (d @ [e])} = insert (Suc (length d)) {1..length d}" by auto
  then show ?thesis by (auto simp: real_dir_def)
qed

lemma real_dir_append: "real_dir fs (a @ b) \<Longrightarrow> real_dir fs a"
proof (unfold real_dir_def, rule ballI)
  fix n assume all: "\<forall>n \<in> {1..length (a @ b)}. fs (take n (a @ b)) = Some Dir" and n: "n \<in> {1..length a}"
  have "n \<in> {1..length (a @ b)}" using n by auto
  with all have "fs (take n (a @ b)) = Some Dir" by blast
  moreover have "take n (a @ b) = take n a" using n by simp
  ultimately show "fs (take n a) = Some Dir" by (simp only:)
qed

lemma fs_walk_dirs:
  "''..'' \<notin> set d \<Longrightarrow> real_dir fs (cur @ d) \<Longrightarrow> fs_walk fuel fs cur (d @ es) = fs_walk fuel fs (cur @ d) es"
proof (induction d arbitrary: cur)
  case Nil
  then show ?case by simp
next
  case (Cons e d)
  have "real_dir fs ((cur @ [e]) @ d)" using Cons.prems(2) by simp
  then have "real_dir fs (cur @ [e])" by (rule real_dir_append)
  then have "fs (cur @ [e]) = Some Dir" by (simp add: real_dir_snoc)
  moreover have "e \<noteq> ''..''" using Cons.prems(1) by auto
  ultimately show ?case using Cons by simp
qed

text \<open>Below a directory without links, a path without \<open>..\<close> resolves to itself.\<close>

lemma fs_walk_below:
  assumes "\<And>q t. fs (d @ q) \<noteq> Some (Symlink t)" and "''..'' \<notin> set es"
    and "fs_walk fuel fs (d @ cur) es = Inr p"
  shows "p = d @ cur @ es"
  using assms(2,3)
proof (induction es arbitrary: cur)
  case Nil
  then show ?case by simp
next
  case (Cons e es)
  then have ne: "e \<noteq> ''..''" by auto
  show ?case
  proof (cases "fs (d @ cur @ [e])")
    case None
    with Cons.prems ne show ?thesis by simp
  next
    case (Some n)
    show ?thesis
    proof (cases n)
      case Dir
      with Some ne Cons.prems have "fs_walk fuel fs (d @ (cur @ [e])) es = Inr p" by simp
      with Cons.IH [of "cur @ [e]"] Cons.prems(1) show ?thesis by simp
    next
      case (File b)
      with Some ne Cons.prems show ?thesis by (simp split: if_splits)
    next
      case (Symlink t)
      with Some assms(1) [of "cur @ [e]" t] show ?thesis by simp
    qed
  qed
qed

text \<open>Everything but what is at or below \<open>d\<close> is as it was.\<close>

definition outside :: "string list \<Rightarrow> fs \<Rightarrow> fs \<Rightarrow> bool" where
  "outside d f f' \<longleftrightarrow> (\<forall>p. \<not> prefix d p \<longrightarrow> f' p = f p)"

lemma outside_refl [simp]: "outside d f f"
  by (simp add: outside_def)

lemma outside_trans: "outside d f g \<Longrightarrow> outside d g h \<Longrightarrow> outside d f h"
  by (simp add: outside_def)

lemma outside_remove_tree: "outside d f (fs_remove_tree refused f d)"
  by (simp add: outside_def fs_remove_tree_def)

lemma outside_real_dir:
  assumes "outside d f g" and "\<not> prefix d e"
  shows "real_dir g e \<longleftrightarrow> real_dir f e"
proof -
  have "\<not> prefix d (take n e)" for n
    using assms(2) by (meson prefix_order.trans take_is_prefix)
  with assms(1) show ?thesis by (simp add: real_dir_def outside_def)
qed

lemma not_prefix_butlast: "d \<noteq> [] \<Longrightarrow> \<not> prefix d (butlast d)"
  by (metis append_butlast_last_id not_Cons_self2 prefixeq_butlast prefix_order.antisym append_self_conv)

text \<open>Removing what a cleaned, link-free path names.\<close>

lemma fs_walk_real: "real_dir f d \<Longrightarrow> ''..'' \<notin> set d \<Longrightarrow> fs_walk fuel f [] d = Inr d"
  using fs_walk_dirs [of d f "[]" fuel "[]"] by simp

lemma fs_remove_all_tree:
  assumes "raw_elems path = d" and "d \<noteq> []" and "''..'' \<notin> set d" and "real_dir f (butlast d)"
  shows "fs_remove_all refused f path = fs_remove_tree refused f d"
proof -
  have "''..'' \<notin> set (butlast d)" using assms(3) by (meson in_set_butlastD)
  with assms show ?thesis by (simp add: fs_remove_all_def fs_walk_real)
qed

lemma fs_mkdirs_real:
  "real_dir f (cur @ es) \<Longrightarrow> ''..'' \<notin> set es \<Longrightarrow> fs_mkdirs f cur es = (f, None)"
proof (induction es arbitrary: cur)
  case (Cons e es)
  have "real_dir f ((cur @ [e]) @ es)" using Cons.prems(1) by simp
  then have "f (cur @ [e]) = Some Dir" and "real_dir f ((cur @ [e]) @ es)"
    using real_dir_append real_dir_snoc by blast+
  moreover have "e \<noteq> ''..''" using Cons.prems(2) by auto
  ultimately show ?case using Cons.IH [of "cur @ [e]"] Cons.prems(2) by simp
qed simp

text \<open>A new file at the end of a link-free path: written, read and removed again.\<close>

lemma fs_walk_file:
  assumes "real_dir f d" and "''..'' \<notin> set (d @ [e])" and "f (d @ [e]) = Some (File b)"
  shows "fs_walk fuel f [] (d @ [e]) = Inr (d @ [e])"
  using assms fs_walk_dirs [of d f "[]" fuel "[e]"] by auto

lemma fs_real_file:
  assumes "raw_elems path = d @ [e]" and "real_dir f d" and "''..'' \<notin> set (d @ [e])"
    and "f (d @ [e]) = Some (File b)"
  shows "fs_real f path = Inr (d @ [e])" and "fs_read_file f path = Inr b"
    and "fs_write_file f path c = f(d @ [e] \<mapsto> File c)"
    and "fs_remove_file f path = f(d @ [e] := None)"
proof -
  show r: "fs_real f path = Inr (d @ [e])"
    using assms by (simp add: fs_real_def fs_walk_file)
  with assms(4) show "fs_read_file f path = Inr b" by (simp add: fs_read_file_def)
  from r show "fs_write_file f path c = f(d @ [e] \<mapsto> File c)" by (simp add: fs_write_file_def)
  have "fs_walk 40 f [] d = Inr d" using assms(2,3) by (simp add: fs_walk_real)
  with assms show "fs_remove_file f path = f(d @ [e] := None)" by (simp add: fs_remove_file_def)
qed

end
