(* ===== verification/Git.thy ===== *)
theory Git
  imports OsModel Sha256
begin

text \<open>
  \<open>internal/git/git.go\<close>: one clone of a remote repository in a cache directory.

  go-git and the SSH libraries are fields of \<open>git_ext\<close>: they act on the world and, below the
  directory they are given, on the file system (\<open>go_git_ok\<close> says so; a repository handle is its
  directory). The per-directory mutex makes \<open>EnsureCloned\<close> of one directory sequential
  (\<open>RepoMutex\<close>), so it is one computation here. Access times and the context are not modelled.
\<close>

section \<open>Data\<close>

record basic_auth =
  ba_username :: string
  ba_password :: string

record ssh_auth =
  sa_user :: string
  sa_private_key :: bytes
  sa_passphrase :: bytes
  sa_known_hosts :: bytes

record git_auth =
  auth_basic :: "basic_auth option"
  auth_ssh :: "ssh_auth option"

record git_config =
  cfg_url :: string
  cfg_branch :: string
  cfg_revision :: string
  cfg_auth :: git_auth
  cfg_cache_root :: string

record repo =
  repo_cfg :: git_config
  repo_cache_dir :: string

datatype git_error =
    UrlRequired
  | CreateCacheRoot string string
  | ChmodCacheRoot string string
  | CreateCacheParent string
  | CloneFailed string string
  | OpenCacheFailed string
  | FetchFailed string
  | WorktreeFailed string
  | PullFailed string
  | ResolveRevisionFailed string string
  | CheckoutFailed string
  | HeadFailed string
  | SSHNeedsKnownHosts
  | ParseSSHKey string
  | TempKnownHosts string
  | WriteKnownHosts string
  | CloseKnownHosts string
  | KnownHostsInvalid string
  | InvalidPath string
  | ReadFailed string

text \<open>A transport's authentication: the signer and the host-key callback are opaque values.\<close>

datatype transport_auth =
    HttpBasic string string
  | PublicKeys string string string  \<comment> \<open>user, signer, host-key callback\<close>

record clone_options =
  co_url :: string
  co_auth :: "transport_auth option"
  co_reference_name :: string
  co_single_branch :: bool
  co_depth :: int

record pull_options =
  po_reference_name :: string
  po_auth :: "transport_auth option"

datatype update_result = Updated | AlreadyUpToDate | UpdateFailed string

record 'w git_ext =
  mkdir_fault :: "string \<Rightarrow> ('w, string option) state"
  chmod_fault :: "string \<Rightarrow> ('w, string option) state"
  remove_refused :: "'w \<Rightarrow> string \<Rightarrow> string list \<Rightarrow> bool"  \<comment> \<open>what \<open>os.RemoveAll\<close> of a path leaves\<close>
  create_temp :: "('w \<times> fs, string + string) state"
  write_fault :: "string \<Rightarrow> ('w, string option) state"
  close_fault :: "string \<Rightarrow> ('w, string option) state"
  new_public_keys :: "string \<Rightarrow> bytes \<Rightarrow> string \<Rightarrow> string + string"
  parse_known_hosts :: "bytes \<Rightarrow> string + string"
  plain_clone :: "string \<Rightarrow> clone_options \<Rightarrow> ('w \<times> fs, string option) state"
  plain_open :: "string \<Rightarrow> ('w \<times> fs, string option) state"
  fetch_origin :: "string \<Rightarrow> transport_auth option \<Rightarrow> ('w \<times> fs, update_result) state"
  open_worktree :: "string \<Rightarrow> ('w \<times> fs, string option) state"
  pull_origin :: "string \<Rightarrow> pull_options \<Rightarrow> ('w \<times> fs, update_result) state"
  resolve_revision :: "string \<Rightarrow> string \<Rightarrow> ('w \<times> fs, string + string) state"
  checkout_hash :: "string \<Rightarrow> string \<Rightarrow> ('w \<times> fs, string option) state"
  head_hash :: "string \<Rightarrow> ('w \<times> fs, string + string) state"

section \<open>Operations\<close>

text \<open>\<open>os.UserCacheDir\<close> on Unix.\<close>

definition user_cache_dir :: "(string \<Rightarrow> string option) \<Rightarrow> string + string" where
  "user_cache_dir env =
     (let xdg = getenv env ''XDG_CACHE_HOME''; home = getenv env ''HOME'' in
      if xdg = [] then
        (if home = [] then Inl ''neither $XDG_CACHE_HOME nor $HOME are defined''
         else Inr (home @ ''/.cache''))
      else if filepath_is_abs xdg then Inr xdg
      else Inl ''path in $XDG_CACHE_HOME is relative'')"

definition mkdir_all :: "'w git_ext \<Rightarrow> string \<Rightarrow> ('w, 'x, string option) os_prog" where
  "mkdir_all G path = do {
     fault \<leftarrow> on_world (mkdir_fault G path);
     case fault of
       Some e \<Rightarrow> State_Monad.return (Some e)
     | None \<Rightarrow> State (\<lambda>s. case fs_mkdirs (fsys s) [] (raw_elems path) of
                          (f, e) \<Rightarrow> (e, s\<lparr>fsys := f\<rparr>))
   }"

text \<open>\<open>_ = os.RemoveAll(path)\<close>\<close>

definition remove_all :: "'w git_ext \<Rightarrow> string \<Rightarrow> ('w, 'x, unit) os_prog" where
  "remove_all G path = modify (\<lambda>s. s\<lparr>fsys := fs_remove_all (remove_refused G (world s) path) (fsys s) path\<rparr>)"

definition resolve_cache_root :: "'w git_ext \<Rightarrow> string \<Rightarrow> ('w, 'x, git_error + string) os_prog" where
  "resolve_cache_root G override = do {
     env \<leftarrow> gets penv;
     let candidate =
       (if override \<noteq> [] then override
        else case user_cache_dir env of
            Inr ucd \<Rightarrow> filepath_join [ucd, ''sops-secrets-operator'']
          | Inl _ \<Rightarrow> ''/var/cache/sops-secrets-operator'');
     made \<leftarrow> mkdir_all G candidate;
     case made of
       Some e \<Rightarrow> State_Monad.return (Inl (CreateCacheRoot candidate e))
     | None \<Rightarrow> do {
         modded \<leftarrow> on_world (chmod_fault G candidate);
         case modded of
           Some e \<Rightarrow> State_Monad.return (Inl (ChmodCacheRoot candidate e))
         | None \<Rightarrow> State_Monad.return (Inr candidate)
       }
   }"

definition default_branch :: "git_config \<Rightarrow> git_config" where
  "default_branch cfg =
     (if cfg_branch cfg = [] \<and> cfg_revision cfg = [] then cfg\<lparr>cfg_branch := ''main''\<rparr> else cfg)"

definition cache_key :: "git_config \<Rightarrow> string" where
  "cache_key cfg = cfg_url cfg @ ''@'' @ cfg_branch cfg @ ''#'' @ cfg_revision cfg"

definition cache_hash :: "git_config \<Rightarrow> string" where
  "cache_hash cfg = take 16 (hex_encode (sha256 (cache_key cfg)))"

definition git_new :: "'w git_ext \<Rightarrow> git_config \<Rightarrow> ('w, 'x, git_error + repo) os_prog" where
  "git_new G cfg0 =
     (if cfg_url cfg0 = [] then State_Monad.return (Inl UrlRequired)
      else do {
        let cfg = default_branch cfg0;
        root \<leftarrow> resolve_cache_root G (cfg_cache_root cfg);
        case root of
          Inl e \<Rightarrow> State_Monad.return (Inl e)
        | Inr dir \<Rightarrow> State_Monad.return
            (Inr \<lparr>repo_cfg = cfg, repo_cache_dir = filepath_join [dir, cache_hash cfg]\<rparr>)
      })"

definition known_hosts_callback :: "'w git_ext \<Rightarrow> bytes \<Rightarrow> ('w, 'x, git_error + string) os_prog" where
  "known_hosts_callback G data = do {
     temp \<leftarrow> on_world_fs (create_temp G);
     case temp of
       Inl e \<Rightarrow> State_Monad.return (Inl (TempKnownHosts e))
     | Inr name \<Rightarrow> do {
         written \<leftarrow> on_world (write_fault G name);
         r \<leftarrow> (case written of
           Some e \<Rightarrow> State_Monad.return (Inl (WriteKnownHosts e))
         | None \<Rightarrow> do {
             modify (\<lambda>s. s\<lparr>fsys := fs_write_file (fsys s) name data\<rparr>);
             closed \<leftarrow> on_world (close_fault G name);
             (case closed of
               Some e \<Rightarrow> State_Monad.return (Inl (CloseKnownHosts e))
             | None \<Rightarrow> gets (\<lambda>s. case fs_read_file (fsys s) name of
                   Inl e \<Rightarrow> Inl (KnownHostsInvalid e)
                 | Inr content \<Rightarrow> (case parse_known_hosts G content of
                       Inl e \<Rightarrow> Inl (KnownHostsInvalid e)
                     | Inr cb \<Rightarrow> Inr cb)))
           });
         modify (\<lambda>s. s\<lparr>fsys := fs_remove_file (fsys s) name\<rparr>);
         State_Monad.return r
       }
   }"

definition ssh_auth_method :: "'w git_ext \<Rightarrow> ssh_auth \<Rightarrow> ('w, 'x, git_error + transport_auth) os_prog" where
  "ssh_auth_method G a =
     (if sa_known_hosts a = [] then State_Monad.return (Inl SSHNeedsKnownHosts)
      else (let user = (if sa_user a = [] then ''git'' else sa_user a) in
        case new_public_keys G user (sa_private_key a) (sa_passphrase a) of
          Inl e \<Rightarrow> State_Monad.return (Inl (ParseSSHKey e))
        | Inr signer \<Rightarrow> do {
            cb \<leftarrow> known_hosts_callback G (sa_known_hosts a);
            case cb of
              Inl e \<Rightarrow> State_Monad.return (Inl e)
            | Inr c \<Rightarrow> State_Monad.return (Inr (PublicKeys user signer c))
          }))"

definition auth_method :: "'w git_ext \<Rightarrow> repo \<Rightarrow> ('w, 'x, git_error + transport_auth option) os_prog" where
  "auth_method G r =
     (case auth_basic (cfg_auth (repo_cfg r)) of
        Some b \<Rightarrow> State_Monad.return (Inr (Some (HttpBasic (ba_username b) (ba_password b))))
      | None \<Rightarrow>
          (case auth_ssh (cfg_auth (repo_cfg r)) of
             Some a \<Rightarrow> do {
               m \<leftarrow> ssh_auth_method G a;
               case m of Inl e \<Rightarrow> State_Monad.return (Inl e)
               | Inr am \<Rightarrow> State_Monad.return (Inr (Some am))
             }
           | None \<Rightarrow> State_Monad.return (Inr None)))"

definition checkout_revision :: "'w git_ext \<Rightarrow> string \<Rightarrow> string \<Rightarrow> ('w, 'x, git_error option) os_prog" where
  "checkout_revision G dir revision = do {
     h \<leftarrow> on_world_fs (resolve_revision G dir revision);
     case h of
       Inl e \<Rightarrow> State_Monad.return (Some (ResolveRevisionFailed revision e))
     | Inr hash \<Rightarrow> do {
         wt \<leftarrow> on_world_fs (open_worktree G dir);
         case wt of
           Some e \<Rightarrow> State_Monad.return (Some (WorktreeFailed e))
         | None \<Rightarrow> do {
             co \<leftarrow> on_world_fs (checkout_hash G dir hash);
             State_Monad.return (map_option CheckoutFailed co)
           }
       }
   }"

definition resolve_head :: "'w git_ext \<Rightarrow> string \<Rightarrow> ('w, 'x, git_error + string) os_prog" where
  "resolve_head G dir = do {
     h \<leftarrow> on_world_fs (head_hash G dir);
     State_Monad.return (map_sum HeadFailed id h)
   }"

text \<open>\<open>plumbing.NewBranchReferenceName\<close>\<close>

definition branch_reference :: "string \<Rightarrow> string" where
  "branch_reference b = ''refs/heads/'' @ b"

definition update_and_resolve ::
  "'w git_ext \<Rightarrow> repo \<Rightarrow> transport_auth option \<Rightarrow> ('w, 'x, git_error + string) os_prog" where
  "update_and_resolve G r am = do {
     opened \<leftarrow> on_world_fs (plain_open G (repo_cache_dir r));
     case opened of
       Some e \<Rightarrow> State_Monad.return (Inl (OpenCacheFailed e))
     | None \<Rightarrow> do {
         fetched \<leftarrow> on_world_fs (fetch_origin G (repo_cache_dir r) am);
         case fetched of
           UpdateFailed e \<Rightarrow> State_Monad.return (Inl (FetchFailed e))
         | _ \<Rightarrow>
             if cfg_revision (repo_cfg r) \<noteq> [] then do {
               co \<leftarrow> checkout_revision G (repo_cache_dir r) (cfg_revision (repo_cfg r));
               case co of
                 Some e \<Rightarrow> State_Monad.return (Inl e)
               | None \<Rightarrow> resolve_head G (repo_cache_dir r)
             }
             else do {
               wt \<leftarrow> on_world_fs (open_worktree G (repo_cache_dir r));
               case wt of
                 Some e \<Rightarrow> State_Monad.return (Inl (WorktreeFailed e))
               | None \<Rightarrow> do {
                   pulled \<leftarrow> on_world_fs (pull_origin G (repo_cache_dir r)
                     \<lparr>po_reference_name = branch_reference (cfg_branch (repo_cfg r)), po_auth = am\<rparr>);
                   case pulled of
                     UpdateFailed e \<Rightarrow> State_Monad.return (Inl (PullFailed e))
                   | _ \<Rightarrow> resolve_head G (repo_cache_dir r)
                 }
             }
       }
   }"

definition clone_opts :: "repo \<Rightarrow> transport_auth option \<Rightarrow> clone_options" where
  "clone_opts r am =
     (let opts = \<lparr>co_url = cfg_url (repo_cfg r), co_auth = am, co_reference_name = [],
                  co_single_branch = False, co_depth = 0\<rparr> in
      if cfg_revision (repo_cfg r) = []
      then opts\<lparr>co_reference_name := branch_reference (cfg_branch (repo_cfg r)),
                co_single_branch := True, co_depth := 1\<rparr>
      else opts)"

definition filepath_dir :: "string \<Rightarrow> string" where
  "filepath_dir path = filepath_clean (rev (dropWhile (\<lambda>c. c \<noteq> CHR ''/'') (rev path)))"

text \<open>The second half of \<open>EnsureCloned\<close>: a fresh clone.\<close>

definition clone_fresh ::
  "'w git_ext \<Rightarrow> repo \<Rightarrow> transport_auth option \<Rightarrow> ('w, 'x, git_error + string) os_prog" where
  "clone_fresh G r am = do {
     made \<leftarrow> mkdir_all G (filepath_dir (repo_cache_dir r));
     case made of
       Some e \<Rightarrow> State_Monad.return (Inl (CreateCacheParent e))
     | None \<Rightarrow> do {
         cloned \<leftarrow> on_world_fs (plain_clone G (repo_cache_dir r) (clone_opts r am));
         case cloned of
           Some e \<Rightarrow> do {
             remove_all G (repo_cache_dir r);
             State_Monad.return (Inl (CloneFailed (cfg_url (repo_cfg r)) e))
           }
         | None \<Rightarrow>
             if cfg_revision (repo_cfg r) \<noteq> [] then do {
               co \<leftarrow> checkout_revision G (repo_cache_dir r) (cfg_revision (repo_cfg r));
               case co of
                 Some e \<Rightarrow> do {
                   remove_all G (repo_cache_dir r);
                   State_Monad.return (Inl e)
                 }
               | None \<Rightarrow> resolve_head G (repo_cache_dir r)
             }
             else resolve_head G (repo_cache_dir r)
       }
   }"

definition ensure_cloned :: "'w git_ext \<Rightarrow> repo \<Rightarrow> ('w, 'x, git_error + string) os_prog" where
  "ensure_cloned G r = do {
     m \<leftarrow> auth_method G r;
     case m of
       Inl e \<Rightarrow> State_Monad.return (Inl e)
     | Inr am \<Rightarrow> do {
         present \<leftarrow> gets (\<lambda>s. fs_exists (fsys s) (filepath_join [repo_cache_dir r, ''.git'']));
         if present then do {
           u \<leftarrow> update_and_resolve G r am;
           case u of
             Inr sha \<Rightarrow> State_Monad.return (Inr sha)
           | Inl _ \<Rightarrow> do {
               remove_all G (repo_cache_dir r);
               clone_fresh G r am
             }
         }
         else clone_fresh G r am
       }
   }"

definition git_read_file :: "repo \<Rightarrow> string \<Rightarrow> ('w, 'x, git_error + bytes) os_prog" where
  "git_read_file r relative_path =
     (let clean = filepath_clean relative_path in
      if has_prefix clean ''..'' \<or> filepath_is_abs clean then
        State_Monad.return (Inl (InvalidPath relative_path))
      else gets (\<lambda>s. map_sum ReadFailed id
             (fs_read_file (fsys s) (filepath_join [repo_cache_dir r, clean]))))"

section \<open>What is assumed of the libraries\<close>

text \<open>
  go-git leaves everything outside the directory it is given alone, and a temporary file is a new
  file at a link-free path.
\<close>

definition stays_below :: "string \<Rightarrow> ('w \<times> fs, 'a) state \<Rightarrow> bool" where
  "stays_below dir m \<longleftrightarrow> (\<forall>w f. outside (raw_elems dir) f (snd (snd (run_state m (w, f)))))"

definition go_git_ok :: "'w git_ext \<Rightarrow> bool" where
  "go_git_ok G \<longleftrightarrow> (\<forall>dir.
     (\<forall>opts. stays_below dir (plain_clone G dir opts))
     \<and> stays_below dir (plain_open G dir)
     \<and> (\<forall>am. stays_below dir (fetch_origin G dir am))
     \<and> stays_below dir (open_worktree G dir)
     \<and> (\<forall>opts. stays_below dir (pull_origin G dir opts))
     \<and> (\<forall>rev. stays_below dir (resolve_revision G dir rev))
     \<and> (\<forall>h. stays_below dir (checkout_hash G dir h))
     \<and> stays_below dir (head_hash G dir))"

definition create_temp_ok :: "'w git_ext \<Rightarrow> bool" where
  "create_temp_ok G \<longleftrightarrow> (\<forall>w f r w' f'. run_state (create_temp G) (w, f) = (r, (w', f')) \<longrightarrow>
     (case r of
        Inl _ \<Rightarrow> f' = f
      | Inr name \<Rightarrow> (\<exists>d e. raw_elems name = d @ [e] \<and> ''..'' \<notin> set (d @ [e]) \<and> real_dir f d
                      \<and> f (d @ [e]) = None \<and> f' = f(d @ [e] \<mapsto> File []))))"

definition git_ok :: "'w git_ext \<Rightarrow> bool" where
  "git_ok G \<longleftrightarrow> go_git_ok G \<and> create_temp_ok G"

text \<open>The path of a clone: absolute and cleaned, as \<open>git_new\<close> makes it.\<close>

abbreviation clone_path :: "repo \<Rightarrow> string list" where
  "clone_path r \<equiv> path_elems (repo_cache_dir r)"

definition repo_ok :: "repo \<Rightarrow> bool" where
  "repo_ok r \<longleftrightarrow> filepath_is_abs (repo_cache_dir r)
     \<and> filepath_clean (repo_cache_dir r) = repo_cache_dir r \<and> clone_path r \<noteq> []"

lemma repo_ok_path:
  assumes "repo_ok r"
  shows "raw_elems (repo_cache_dir r) = clone_path r" and "''..'' \<notin> set (clone_path r)"
    and "clone_path r \<noteq> []"
proof -
  have "filepath_clean (repo_cache_dir r) = repo_cache_dir r" using assms by (simp add: repo_ok_def)
  with raw_elems_clean [of "repo_cache_dir r"] show "raw_elems (repo_cache_dir r) = clone_path r"
    by simp
  show "''..'' \<notin> set (clone_path r)"
    using assms clean_stack_rooted [OF path_elems_clean] by (simp add: repo_ok_def)
  show "clone_path r \<noteq> []" using assms by (simp add: repo_ok_def)
qed

lemma split_on_append_sep: "split_on c (a @ c # b) = split_on c a @ split_on c b"
proof (induction a)
  case (Cons x a)
  obtain y ys where "split_on c a = y # ys" by (cases "split_on c a") auto
  with Cons show ?case by simp
qed simp

lemma go_join_snoc: "go_join [c] (es @ [e]) = (if es = [] then e else go_join [c] es @ c # e)"
  by (induction es rule: induct_list012) simp_all

text \<open>The parent directory of a clone.\<close>

lemma raw_elems_parent:
  assumes "repo_ok r"
  shows "raw_elems (filepath_dir (repo_cache_dir r)) = butlast (clone_path r)"
proof -
  obtain es h where eh: "clone_path r = es @ [h]" using repo_ok_path(3) [OF assms] by (metis rev_exhaust)
  have stack: "clean_stack True (es @ [h])"
    using path_elems_clean [of "repo_cache_dir r"] assms eh by (simp add: repo_ok_def)
  then have h: "CHR ''/'' \<notin> set h" by (simp add: clean_stack_def)
  have abs: "filepath_is_abs (repo_cache_dir r)" and clean: "filepath_clean (repo_cache_dir r) = repo_cache_dir r"
    using assms by (simp_all add: repo_ok_def)
  have "filepath_clean (repo_cache_dir r) = CHR ''/'' # go_join [CHR ''/''] (es @ [h])"
    unfolding filepath_clean_def eh using abs by simp
  with clean have body: "repo_cache_dir r = CHR ''/'' # go_join [CHR ''/''] (es @ [h])" by simp
  define pre where "pre = (if es = [] then [] else CHR ''/'' # go_join [CHR ''/''] es)"
  have cd: "repo_cache_dir r = pre @ CHR ''/'' # h"
    by (simp add: body go_join_snoc pre_def)
  have "dropWhile (\<lambda>c. c \<noteq> CHR ''/'') (rev h @ CHR ''/'' # rev pre) = CHR ''/'' # rev pre"
    using h by (subst dropWhile_append2) auto
  then have dir: "filepath_dir (repo_cache_dir r) = filepath_clean (pre @ [CHR ''/''])"
    by (simp add: filepath_dir_def cd)
  have split: "split_on CHR ''/'' (pre @ [CHR ''/'']) = (if es = [] then [[], []] else [] # es @ [[]])"
  proof (cases "es = []")
    case False
    have "split_on CHR ''/'' (go_join [CHR ''/''] es) = es"
      using False stack by (intro split_on_join) (auto simp: clean_stack_def)
    with False show ?thesis by (simp add: pre_def split_on_append_sep [where b = "[]"])
  qed (simp add: pre_def)
  have "\<forall>e \<in> set es. e \<noteq> [] \<and> e \<noteq> ''.'' \<and> e \<noteq> ''..''"
    using stack repo_ok_path(2) [OF assms] eh by (auto simp: clean_stack_def)
  then have "clean_elems True [] (es @ [[]]) = es"
    by (simp add: clean_elems_append clean_elems_proper)
  moreover have "filepath_is_abs (pre @ [CHR ''/''])"
    by (simp add: pre_def filepath_is_abs_def)
  ultimately have "path_elems (pre @ [CHR ''/'']) = es"
    by (simp add: path_elems_def split)
  then show ?thesis by (simp add: dir raw_elems_clean eh)
qed

section \<open>What a clone touches\<close>

text \<open>Nothing outside the clone's directory, as long as its parent is a real directory.\<close>

definition clone_frame :: "string list \<Rightarrow> ('w, 'x) os_state_scheme \<Rightarrow> ('w, 'x) os_state_scheme \<Rightarrow> bool" where
  "clone_frame d s s' \<longleftrightarrow>
     (real_dir (fsys s) (butlast d) \<longrightarrow> outside d (fsys s) (fsys s'))"

lemma frame_rel_clone: "d \<noteq> [] \<Longrightarrow> frame_rel (clone_frame d)"
  by (rule frame_relI)
    (auto simp: clone_frame_def outside_real_dir not_prefix_butlast intro: outside_trans)

lemma frame_on_world: "state_io_rel (clone_frame d) (on_world m)"
  by (auto simp: state_io_rel_def run_on_world clone_frame_def)

lemma frame_on_world_fs: "stays_below dir m \<Longrightarrow> raw_elems dir = d \<Longrightarrow> state_io_rel (clone_frame d) (on_world_fs m)"
  by (auto simp: state_io_rel_def run_on_world_fs clone_frame_def stays_below_def)

text \<open>The errors that come out of a fresh clone.\<close>

fun clone_stage :: "git_error \<Rightarrow> bool" where
  "clone_stage (CloneFailed _ _) = True"
| "clone_stage (ResolveRevisionFailed _ _) = True"
| "clone_stage (WorktreeFailed _) = True"
| "clone_stage (CheckoutFailed _) = True"
| "clone_stage _ = False"

lemma run_mkdir_all_real:
  assumes "real_dir (fsys s) (raw_elems path)" and "''..'' \<notin> set (raw_elems path)"
  shows "\<exists>w e. run_state (mkdir_all G path) s = (e, s\<lparr>world := w\<rparr>)"
proof -
  obtain e w where e: "run_state (mkdir_fault G path) (world s) = (e, w)"
    by (cases "run_state (mkdir_fault G path) (world s)")
  have "fs_mkdirs (fsys s) [] (raw_elems path) = (fsys s, None)"
    using fs_mkdirs_real [of "fsys s" "[]"] assms by simp
  with e show ?thesis by (cases e) (auto simp: mkdir_all_def run_on_world)
qed

lemma run_remove_all_real:
  assumes "repo_ok r" and "real_dir (fsys s) (butlast (clone_path r))"
  shows "run_state (remove_all G (repo_cache_dir r)) s
    = ((), s\<lparr>fsys := fs_remove_tree (remove_refused G (world s) (repo_cache_dir r)) (fsys s) (clone_path r)\<rparr>)"
  using fs_remove_all_tree [OF repo_ok_path(1) [OF assms(1)] repo_ok_path(3) [OF assms(1)]
      repo_ok_path(2) [OF assms(1)] assms(2)]
  by (simp add: remove_all_def)

text \<open>Reading the known hosts back from the temporary file leaves the file system as it was.\<close>

lemma run_known_hosts:
  assumes "create_temp_ok G"
  obtains res w where "run_state (known_hosts_callback G data) s = (res, s\<lparr>world := w\<rparr>)"
    and "\<And>cb. res = Inr cb \<Longrightarrow> parse_known_hosts G data = Inr cb"
    and "\<And>e. res = Inl e \<Longrightarrow> \<not> clone_stage e"
proof -
  obtain temp w1 f1 where temp: "run_state (create_temp G) (world s, fsys s) = (temp, (w1, f1))"
    by (metis surj_pair)
  note ok = assms [unfolded create_temp_ok_def, rule_format, OF temp]
  show thesis
  proof (cases temp)
    case (Inl e)
    with ok temp have "run_state (known_hosts_callback G data) s = (Inl (TempKnownHosts e), s\<lparr>world := w1\<rparr>)"
      by (simp add: known_hosts_callback_def run_on_world_fs)
    then show thesis by (rule that) simp_all
  next
    case (Inr name)
    with ok obtain d e where n: "raw_elems name = d @ [e]" "''..'' \<notin> set (d @ [e])"
        "real_dir (fsys s) d" "fsys s (d @ [e]) = None" "f1 = (fsys s)(d @ [e] \<mapsto> File [])" by auto
    have keep: "real_dir ((fsys s)(d @ [e] := x)) d" for x
    proof -
      have "take k d \<noteq> d @ [e]" for k
      proof
        assume "take k d = d @ [e]"
        then have "length (take k d) = Suc (length d)" by simp
        then show False by simp
      qed
      with n(3) show ?thesis by (simp add: real_dir_def)
    qed
    have fil: "fs_read_file ((fsys s)(d @ [e] \<mapsto> File b)) name = Inr b"
        "fs_write_file ((fsys s)(d @ [e] \<mapsto> File b)) name c = (fsys s)(d @ [e] \<mapsto> File c)"
        "fs_remove_file ((fsys s)(d @ [e] \<mapsto> File b)) name = fsys s" for b c
      using fs_real_file [OF n(1) keep n(2)] n(4) by (simp_all add: fun_upd_idem)
    obtain wr w2 where wr: "run_state (write_fault G name) w1 = (wr, w2)" by fastforce
    show thesis
    proof (cases wr)
      case (Some err)
      have "run_state (known_hosts_callback G data) s = (Inl (WriteKnownHosts err), s\<lparr>world := w2\<rparr>)"
        using temp wr Inr Some n(5) fil by (simp add: known_hosts_callback_def run_on_world_fs run_on_world)
      then show thesis by (rule that) simp_all
    next
      case None
      obtain cl w3 where cl: "run_state (close_fault G name) w2 = (cl, w3)" by fastforce
      let ?res = "case cl of Some e \<Rightarrow> Inl (CloseKnownHosts e)
        | None \<Rightarrow> (case parse_known_hosts G data of Inl e \<Rightarrow> Inl (KnownHostsInvalid e) | Inr cb \<Rightarrow> Inr cb)"
      have "run_state (known_hosts_callback G data) s = (?res, s\<lparr>world := w3\<rparr>)"
        using temp wr Inr None cl n(5) fil
        by (cases cl) (simp_all add: known_hosts_callback_def run_on_world_fs run_on_world)
      then show thesis by (rule that) (auto split: option.splits sum.splits)
    qed
  qed
qed

lemma run_auth_method:
  assumes "create_temp_ok G"
  obtains res w where "run_state (auth_method G r) s = (res, s\<lparr>world := w\<rparr>)"
    and "\<And>u k c. res = Inr (Some (PublicKeys u k c)) \<Longrightarrow>
      \<exists>a. auth_ssh (cfg_auth (repo_cfg r)) = Some a \<and> sa_known_hosts a \<noteq> []
        \<and> parse_known_hosts G (sa_known_hosts a) = Inr c"
    and "\<And>e. res = Inl e \<Longrightarrow> \<not> clone_stage e"
proof (cases "auth_basic (cfg_auth (repo_cfg r))")
  case (Some b)
  then show thesis by (intro that [of _ "world s"]) (auto simp: auth_method_def)
next
  case basic: None
  show thesis
  proof (cases "auth_ssh (cfg_auth (repo_cfg r))")
    case None
    with basic show thesis by (intro that [of _ "world s"]) (auto simp: auth_method_def)
  next
    case (Some a)
    let ?user = "if sa_user a = [] then ''git'' else sa_user a"
    show thesis
    proof (cases "sa_known_hosts a = []")
      case True
      with basic Some show thesis
        by (intro that [of _ "world s"]) (auto simp: auth_method_def ssh_auth_method_def)
    next
      case known: False
      show thesis
      proof (cases "new_public_keys G ?user (sa_private_key a) (sa_passphrase a)")
        case (Inl e)
        with basic Some known show thesis
          by (intro that [of _ "world s"]) (auto simp: auth_method_def ssh_auth_method_def Let_def)
      next
        case (Inr k)
        obtain res w where kh: "run_state (known_hosts_callback G (sa_known_hosts a)) s = (res, s\<lparr>world := w\<rparr>)"
            "\<And>cb. res = Inr cb \<Longrightarrow> parse_known_hosts G (sa_known_hosts a) = Inr cb"
            "\<And>e. res = Inl e \<Longrightarrow> \<not> clone_stage e"
          using run_known_hosts [OF assms] by blast
        have "run_state (auth_method G r) s
            = (map_sum id (\<lambda>c. Some (PublicKeys ?user k c)) res, s\<lparr>world := w\<rparr>)"
          using basic Some known Inr kh(1)
          by (cases res) (simp_all add: auth_method_def ssh_auth_method_def Let_def)
        then show thesis
          by (rule that) (use kh(2,3) known Some in \<open>cases res; auto simp: map_sum_def\<close>)+
      qed
    qed
  qed
qed

lemma go_git_below:
  assumes "go_git_ok G"
  shows "stays_below dir (plain_clone G dir opts)" and "stays_below dir (plain_open G dir)"
    and "stays_below dir (fetch_origin G dir am)" and "stays_below dir (open_worktree G dir)"
    and "stays_below dir (pull_origin G dir po)" and "stays_below dir (resolve_revision G dir rv)"
    and "stays_below dir (checkout_hash G dir h)" and "stays_below dir (head_hash G dir)"
  using assms by (simp_all add: go_git_ok_def)

lemma clone_frame_rel: "repo_ok r \<Longrightarrow> frame_rel (clone_frame (clone_path r))"
  by (rule frame_rel_clone) (rule repo_ok_path(3))

lemma clone_frame_step:
  "repo_ok r \<Longrightarrow> stays_below (repo_cache_dir r) m \<Longrightarrow> state_io_rel (clone_frame (clone_path r)) (on_world_fs m)"
  by (erule frame_on_world_fs) (rule repo_ok_path(1))

lemma clone_frame_remove:
  "repo_ok r \<Longrightarrow> state_io_rel (clone_frame (clone_path r)) (remove_all G (repo_cache_dir r))"
  by (rule state_io_relI)
    (auto simp: clone_frame_def run_remove_all_real outside_remove_tree)

lemma clone_frame_mkdir:
  assumes "repo_ok r"
  shows "state_io_rel (clone_frame (clone_path r)) (mkdir_all G (filepath_dir (repo_cache_dir r)))"
proof (rule state_io_relI)
  fix a s s'
  assume run: "run_state (mkdir_all G (filepath_dir (repo_cache_dir r))) s = (a, s')"
  have "''..'' \<notin> set (butlast (clone_path r))"
    using repo_ok_path(2) [OF assms] by (meson in_set_butlastD)
  then show "clone_frame (clone_path r) s s'"
    using run run_mkdir_all_real [of s "filepath_dir (repo_cache_dir r)" G] raw_elems_parent [OF assms]
    by (auto simp: clone_frame_def)
qed

lemma clone_frame_auth: "git_ok G \<Longrightarrow> state_io_rel (clone_frame (clone_path r)) (auth_method G r)"
proof (rule state_io_relI)
  fix a s s'
  assume git: "git_ok G" and run: "run_state (auth_method G r) s = (a, s')"
  obtain res w where "run_state (auth_method G r) s = (res, s\<lparr>world := w\<rparr>)"
    using git by (metis git_ok_def run_auth_method)
  with run show "clone_frame (clone_path r) s s'" by (auto simp: clone_frame_def)
qed

lemma frame_case_update:
  "(\<And>e. state_io_rel R (f e)) \<Longrightarrow> state_io_rel R m
    \<Longrightarrow> state_io_rel R (case x of UpdateFailed e \<Rightarrow> f e | _ \<Rightarrow> m)"
  by (cases x) auto

lemmas clone_frame_intros =
  frame_bind [OF clone_frame_rel] frame_return [OF clone_frame_rel] frame_gets [OF clone_frame_rel]
  frame_if frame_case_sum frame_case_option frame_case_update
  clone_frame_step clone_frame_remove clone_frame_mkdir clone_frame_auth

lemma clone_frame_parts:
  assumes "git_ok G" and "repo_ok r"
  shows clone_frame_checkout:
      "state_io_rel (clone_frame (clone_path r)) (checkout_revision G (repo_cache_dir r) rv)"
    and clone_frame_head: "state_io_rel (clone_frame (clone_path r)) (resolve_head G (repo_cache_dir r))"
  using assms unfolding checkout_revision_def resolve_head_def git_ok_def
  by (auto intro!: clone_frame_intros go_git_below)

lemma clone_frame_fresh:
  assumes "git_ok G" and "repo_ok r"
  shows "state_io_rel (clone_frame (clone_path r)) (clone_fresh G r am)"
  using assms clone_frame_parts [OF assms] go_git_below [of G] unfolding clone_fresh_def git_ok_def
  by (auto intro!: clone_frame_intros)

lemma clone_frame_update:
  assumes "git_ok G" and "repo_ok r"
  shows "state_io_rel (clone_frame (clone_path r)) (update_and_resolve G r am)"
  using assms clone_frame_parts [OF assms] go_git_below [of G]
  unfolding update_and_resolve_def git_ok_def
  by (auto intro!: clone_frame_intros)

lemma clone_frame_ensure:
  assumes "git_ok G" and "repo_ok r"
  shows "state_io_rel (clone_frame (clone_path r)) (ensure_cloned G r)"
  using assms clone_frame_fresh [OF assms] clone_frame_update [OF assms] unfolding ensure_cloned_def
  by (auto intro!: clone_frame_intros)

lemma clone_fresh_failed:
  assumes "git_ok G" and "repo_ok r" and "real_dir (fsys s) (butlast (clone_path r))"
    and run: "run_state (clone_fresh G r am) s = (Inl e, s')" and "clone_stage e"
  shows "\<forall>p. prefix (clone_path r) p \<and> \<not> remove_refused G (world s') (repo_cache_dir r) p \<longrightarrow> fsys s' p = None"
proof -
  note P = assms(2)
  obtain m s1 where m: "run_state (mkdir_all G (filepath_dir (repo_cache_dir r))) s = (m, s1)" by fastforce
  have made: "m = None"
    using m run assms(5) by (cases m) (auto simp: clone_fresh_def)
  obtain c s2 where c: "run_state (on_world_fs (plain_clone G (repo_cache_dir r) (clone_opts r am))) s1 = (c, s2)"
    by fastforce
  have frame1: "clone_frame (clone_path r) s s1"
    using frame_run [OF clone_frame_mkdir [OF P] m] .
  have "state_io_rel (clone_frame (clone_path r)) (on_world_fs (plain_clone G (repo_cache_dir r) (clone_opts r am)))"
    using assms(1) by (intro clone_frame_step [OF P] go_git_below) (simp add: git_ok_def)
  from frame_run [OF this c] have frame2: "clone_frame (clone_path r) s1 s2" .
  have gone: "\<forall>p. prefix (clone_path r) p \<and> \<not> remove_refused G (world s') (repo_cache_dir r) p \<longrightarrow> fsys s' p = None"
    if "clone_frame (clone_path r) s t" and "run_state (remove_all G (repo_cache_dir r)) t = ((), s')" for t
  proof -
    have "real_dir (fsys t) (butlast (clone_path r))"
      using that(1) assms(3) outside_real_dir not_prefix_butlast [OF repo_ok_path(3) [OF P]]
      unfolding clone_frame_def by blast
    from run_remove_all_real [OF P this] that(2) show ?thesis by (auto simp: fs_remove_tree_def)
  qed
  note trans = frame_relD(2) [OF clone_frame_rel [OF P]]
  show ?thesis
  proof (cases c)
    case (Some err)
    then have "run_state (remove_all G (repo_cache_dir r)) s2 = ((), s')"
      using run m made c by (auto simp: clone_fresh_def remove_all_def)
    with gone trans frame1 frame2 show ?thesis by blast
  next
    case None
    have head: "\<not> clone_stage e'" if "run_state (resolve_head G (repo_cache_dir r)) t = (Inl e', t')" for t e' t'
      using that by (auto simp: resolve_head_def run_on_world_fs map_sum_def split: sum.splits)
    show ?thesis
    proof (cases "cfg_revision (repo_cfg r) = []")
      case True
      with run m made c None head assms(5) show ?thesis by (auto simp: clone_fresh_def)
    next
      case False
      obtain k s3 where k: "run_state (checkout_revision G (repo_cache_dir r) (cfg_revision (repo_cfg r))) s2 = (k, s3)"
        by fastforce
      have frame3: "clone_frame (clone_path r) s2 s3"
        using frame_run [OF clone_frame_checkout [OF assms(1) P] k] .
      show ?thesis
      proof (cases k)
        case None
        with run m made c \<open>c = None\<close> False k head assms(5) show ?thesis by (auto simp: clone_fresh_def)
      next
        case (Some err)
        then have "run_state (remove_all G (repo_cache_dir r)) s3 = ((), s')"
          using run m made c None False k by (auto simp: clone_fresh_def remove_all_def)
        with gone trans frame1 frame2 frame3 show ?thesis by blast
      qed
    qed
  qed
qed

text \<open>What \<open>git_read_file\<close> accepts has no \<open>..\<close> element left.\<close>

lemma accepted_path:
  assumes "\<not> (has_prefix (filepath_clean p) ''..'' \<or> filepath_is_abs (filepath_clean p))"
  shows "\<not> filepath_is_abs p" and "''..'' \<notin> set (path_elems p)"
proof -
  show abs: "\<not> filepath_is_abs p"
    using assms by (auto simp: filepath_clean_def filepath_is_abs_def Let_def)
  obtain n ys where ys: "path_elems p = replicate n ''..'' @ ys" "''..'' \<notin> set ys"
    using path_elems_clean [of p] by (auto simp: clean_stack_def)
  have "n = 0"
  proof (rule ccontr)
    assume "n \<noteq> 0"
    then obtain k where "path_elems p = ''..'' # (replicate k ''..'' @ ys)" using ys(1) by (cases n) auto
    then have "has_prefix (filepath_clean p) ''..''"
      using abs by (cases "replicate k ''..'' @ ys") (simp_all add: filepath_clean_def Let_def has_prefix_iff)
    with assms show False by simp
  qed
  with ys show "''..'' \<notin> set (path_elems p)" by simp
qed

section \<open>A remote in memory\<close>

text \<open>
  An instance of the libraries for the witnesses: a remote with the given files at commit
  \<open>c0\<close>, which may be out of reach.
\<close>

definition mem_clone :: "(string list \<times> node) list \<Rightarrow> string list \<Rightarrow> fs \<Rightarrow> fs" where
  "mem_clone files d f =
     (\<lambda>p. if prefix d p then
            (if p = d \<or> p = d @ [''.git''] then Some Dir else map_of files (drop (length d) p))
          else f p)"

definition mem_temp :: "('w \<times> fs, string + string) state" where
  "mem_temp = State (\<lambda>(w, f).
     if f [''tmp''] = Some Dir \<and> f [''tmp'', ''kh''] = None
     then (Inr ''/tmp/kh'', (w, f([''tmp'', ''kh''] \<mapsto> File [])))
     else (Inl ''no temporary file'', (w, f)))"

definition mem_git :: "bool \<Rightarrow> (string list \<times> node) list \<Rightarrow> 'w git_ext" where
  "mem_git up files =
     \<lparr>mkdir_fault = (\<lambda>_. State_Monad.return None),
      chmod_fault = (\<lambda>_. State_Monad.return None),
      remove_refused = (\<lambda>_ _ _. False),
      create_temp = mem_temp,
      write_fault = (\<lambda>_. State_Monad.return None),
      close_fault = (\<lambda>_. State_Monad.return None),
      new_public_keys = (\<lambda>_ pem _. if pem = [] then Inl ''ssh: no key found'' else Inr pem),
      parse_known_hosts = Inr,
      plain_clone = (\<lambda>dir _. if up
        then State (\<lambda>(w, f). (None, (w, mem_clone files (raw_elems dir) f)))
        else State_Monad.return (Some ''remote unreachable'')),
      plain_open = (\<lambda>_. State_Monad.return None),
      fetch_origin = (\<lambda>_ _. State_Monad.return (if up then AlreadyUpToDate else UpdateFailed ''remote unreachable'')),
      open_worktree = (\<lambda>_. State_Monad.return None),
      pull_origin = (\<lambda>_ _. State_Monad.return (if up then AlreadyUpToDate else UpdateFailed ''remote unreachable'')),
      resolve_revision = (\<lambda>_ rv. State_Monad.return (Inr rv)),
      checkout_hash = (\<lambda>_ _. State_Monad.return None),
      head_hash = (\<lambda>_. State_Monad.return (Inr ''c0''))\<rparr>"

lemma mem_git_ok: "git_ok (mem_git up files)"
proof -
  have "go_git_ok (mem_git up files)"
    by (simp add: go_git_ok_def mem_git_def stays_below_def)
      (simp add: outside_def mem_clone_def)
  moreover have "create_temp_ok (mem_git up files)"
    unfolding create_temp_ok_def
  proof (intro allI impI)
    fix w f r w' f'
    assume run: "run_state (create_temp (mem_git up files)) (w, f) = (r, (w', f'))"
    show "case r of Inl _ \<Rightarrow> f' = f
      | Inr name \<Rightarrow> (\<exists>d e. raw_elems name = d @ [e] \<and> ''..'' \<notin> set (d @ [e]) \<and> real_dir f d
                      \<and> f (d @ [e]) = None \<and> f' = f(d @ [e] \<mapsto> File []))"
    proof (cases "f [''tmp''] = Some Dir \<and> f [''tmp'', ''kh''] = None")
      case True
      have "raw_elems ''/tmp/kh'' = [''tmp''] @ [''kh'']" by code_simp
      moreover have "real_dir f [''tmp'']" using True real_dir_snoc [of f "[]" "''tmp''"] by simp
      moreover have "r = Inr ''/tmp/kh''" "f' = f([''tmp''] @ [''kh''] \<mapsto> File [])"
        using run True by (simp_all add: mem_git_def mem_temp_def)
      ultimately show ?thesis using True by fastforce
    next
      case False
      then have "r = Inl ''no temporary file''" "f' = f"
        using run by (auto simp: mem_git_def mem_temp_def split: if_splits)
      then show ?thesis by simp
    qed
  qed
  ultimately show ?thesis by (simp add: git_ok_def)
qed

definition plain_config :: "string \<Rightarrow> git_config" where
  "plain_config url = \<lparr>cfg_url = url, cfg_branch = ''main'', cfg_revision = [],
     cfg_auth = \<lparr>auth_basic = None, auth_ssh = None\<rparr>, cfg_cache_root = ''/c''\<rparr>"

definition plain_repo :: "string \<Rightarrow> string \<Rightarrow> repo" where
  "plain_repo url dir = \<lparr>repo_cfg = plain_config url, repo_cache_dir = dir\<rparr>"

definition fs_of :: "(string list \<times> node) list \<Rightarrow> fs" where
  "fs_of files = map_of files"

definition start_state :: "(string list \<times> node) list \<Rightarrow> unit os_state" where
  "start_state files = \<lparr>world = (), fsys = fs_of files, penv = (\<lambda>_. None)\<rparr>"

lemma plain_repo_ok: "repo_ok (plain_repo url ''/c/a'')" "clone_path (plain_repo url ''/c/a'') = [''c'', ''a'']"
proof -
  have "filepath_is_abs ''/c/a''" "filepath_clean ''/c/a'' = ''/c/a''" "path_elems ''/c/a'' = [''c'', ''a'']"
    by code_simp+
  then show "repo_ok (plain_repo url ''/c/a'')" "clone_path (plain_repo url ''/c/a'') = [''c'', ''a'']"
    by (simp_all add: repo_ok_def plain_repo_def)
qed

section \<open>Properties\<close>

text \<open>
C33: A clone or checkout that fails leaves nothing behind but what the OS refuses to remove: after
\<open>ensure_cloned\<close> reports such an error, every path at or below the cache directory that still exists is
one that \<open>os.RemoveAll\<close> of that directory could not remove just then. Outside of it nothing has changed.
\<close>

theorem failed_clone_leaves_nothing:
  assumes "git_ok G" and "repo_ok r" and "real_dir (fsys s) (butlast (clone_path r))"
    and "run_state (ensure_cloned G r) s = (Inl e, s')" and "clone_stage e"
  shows "(\<forall>p. prefix (clone_path r) p \<and> \<not> remove_refused G (world s') (repo_cache_dir r) p \<longrightarrow> fsys s' p = None)
    \<and> outside (clone_path r) (fsys s) (fsys s')"
proof
  from state_io_rel_run [OF clone_frame_ensure [OF assms(1,2)], of s] assms(3,4)
  show "outside (clone_path r) (fsys s) (fsys s')" by (simp add: clone_frame_def)
  note P = assms(2)
  obtain a w where a: "run_state (auth_method G r) s = (a, s\<lparr>world := w\<rparr>)"
      "\<And>e. a = Inl e \<Longrightarrow> \<not> clone_stage e"
    using assms(1) by (metis git_ok_def run_auth_method)
  obtain am where am: "a = Inr am"
    using a assms(4,5) by (cases a) (auto simp: ensure_cloned_def)
  let ?s1 = "s\<lparr>world := w\<rparr>"
  have dir1: "real_dir (fsys ?s1) (butlast (clone_path r))" using assms(3) by simp
  show "\<forall>p. prefix (clone_path r) p \<and> \<not> remove_refused G (world s') (repo_cache_dir r) p \<longrightarrow> fsys s' p = None"
  proof (cases "fs_exists (fsys s) (filepath_join [repo_cache_dir r, ''.git''])")
    case False
    with assms(4) a am have "run_state (clone_fresh G r am) ?s1 = (Inl e, s')"
      by (simp add: ensure_cloned_def)
    from clone_fresh_failed [OF assms(1) P dir1 this assms(5)] show ?thesis .
  next
    case True
    obtain u s2 where u: "run_state (update_and_resolve G r am) ?s1 = (u, s2)" by fastforce
    obtain eu where eu: "u = Inl eu"
      using assms(4) a am True u by (cases u) (auto simp: ensure_cloned_def)
    let ?s3 = "snd (run_state (remove_all G (repo_cache_dir r)) s2)"
    have "run_state (clone_fresh G r am) ?s3 = (Inl e, s')"
      using assms(4) a am True u eu by (simp add: ensure_cloned_def remove_all_def)
    moreover have "clone_frame (clone_path r) ?s1 s2"
      using frame_run [OF clone_frame_update [OF assms(1) P] u] .
    then have "clone_frame (clone_path r) ?s1 ?s3"
      using frame_relD(2) [OF clone_frame_rel [OF P]] state_io_rel_run [OF clone_frame_remove [OF P]] by blast
    then have "real_dir (fsys ?s3) (butlast (clone_path r))"
      using dir1 outside_real_dir not_prefix_butlast [OF repo_ok_path(3) [OF P]]
      unfolding clone_frame_def by blast
    ultimately show ?thesis using clone_fresh_failed [OF assms(1) P _ _ assms(5)] by blast
  qed
qed

theorem failed_clone_leaves_nothing_witness:
  "\<exists>s'. run_state (ensure_cloned (mem_git False []) (plain_repo ''u'' ''/c/a''))
      (start_state [([''c''], Dir), ([''c'', ''a''], Dir), ([''c'', ''a'', ''x''], File ''half'')])
      = (Inl (CloneFailed ''u'' ''remote unreachable''), s')
    \<and> fsys s' [''c'', ''a'', ''x''] = None"
proof -
  let ?s = "start_state [([''c''], Dir), ([''c'', ''a''], Dir), ([''c'', ''a'', ''x''], File ''half'')]"
  let ?r = "plain_repo ''u'' ''/c/a''"
  have "fst (run_state (ensure_cloned (mem_git False []) ?r) ?s)
      = Inl (CloneFailed ''u'' ''remote unreachable'')" by code_simp
  then obtain s' where run: "run_state (ensure_cloned (mem_git False []) ?r) ?s
      = (Inl (CloneFailed ''u'' ''remote unreachable''), s')" by (metis prod.collapse)
  have dir: "real_dir (fsys ?s) (butlast (clone_path ?r))"
    using real_dir_snoc [of "fsys ?s" "[]" "''c''"] by (simp add: plain_repo_ok start_state_def fs_of_def)
  from failed_clone_leaves_nothing [OF mem_git_ok plain_repo_ok(1) dir run] run
  show ?thesis by (simp add: plain_repo_ok) (simp add: mem_git_def)
qed

text \<open>
Refreshing one repository never disturbs another: when neither cache directory lies in the
other, every read from the second gives after \<open>ensure_cloned\<close> of the first exactly what it gave
before, whether the refresh succeeds or fails.
\<close>

theorem clone_does_not_disturb:
  assumes "git_ok G" and "repo_ok r" and "real_dir (fsys s) (butlast (clone_path r))"
    and "filepath_is_abs (repo_cache_dir q)" and "real_dir (fsys s) (clone_path q)"
    and "\<forall>p t. fsys s (clone_path q @ p) \<noteq> Some (Symlink t)"
    and "\<not> prefix (clone_path r) (clone_path q)" and "\<not> prefix (clone_path q) (clone_path r)"
  shows "fst (run_state (git_read_file q path) (snd (run_state (ensure_cloned G r) s)))
    = fst (run_state (git_read_file q path) s)"
proof -
  let ?s' = "snd (run_state (ensure_cloned G r) s)"
  have out: "outside (clone_path r) (fsys s) (fsys ?s')"
    using state_io_rel_run [OF clone_frame_ensure [OF assms(1,2)], of s] assms(3)
    by (simp add: clone_frame_def)
  have same: "fsys ?s' (clone_path q @ p) = fsys s (clone_path q @ p)" for p
    using out assms(7,8) unfolding outside_def by (metis prefix_same_cases prefix_def)
  have dir': "real_dir (fsys ?s') (clone_path q)"
    using outside_real_dir [OF out assms(7)] assms(5) by simp
  show ?thesis
  proof (cases "has_prefix (filepath_clean path) ''..'' \<or> filepath_is_abs (filepath_clean path)")
    case True
    then show ?thesis by (simp add: git_read_file_def Let_def)
  next
    case False
    note els = accepted_path [OF False]
    have "fs_real f (filepath_join [repo_cache_dir q, filepath_clean path])
        = fs_walk 40 f (clone_path q) (path_elems path)" if "real_dir f (clone_path q)" for f
      using that els assms(4) fs_walk_dirs [of "clone_path q" f "[]" 40 "path_elems path"]
        clean_stack_rooted [OF path_elems_clean assms(4)]
      by (simp add: fs_real_def raw_elems_filepath_join)
    moreover have "fs_walk 40 (fsys ?s') (clone_path q @ cur) es = fs_walk 40 (fsys s) (clone_path q @ cur) es"
      if "''..'' \<notin> set es" for cur es
      using that
    proof (induction es arbitrary: cur)
      case (Cons e es)
      have "fs_walk 40 (fsys ?s') (clone_path q @ cur @ [e]) es = fs_walk 40 (fsys s) (clone_path q @ cur @ [e]) es"
        using Cons.IH [of "cur @ [e]"] Cons.prems by simp
      moreover have "e \<noteq> ''..''" using Cons.prems by auto
      ultimately show ?case
        using same [of "cur @ [e]"] assms(6) by (auto split: option.split node.split)
    qed simp
    then have "fs_walk 40 (fsys ?s') (clone_path q) (path_elems path)
        = fs_walk 40 (fsys s) (clone_path q) (path_elems path)"
      using els(2) by (metis append_Nil2)
    moreover have "fsys ?s' p = fsys s p"
      if "fs_walk 40 (fsys s) (clone_path q) (path_elems path) = Inr p" for p
      using fs_walk_below [of "fsys s" "clone_path q" "path_elems path" 40 "[]" p] that assms(6) els(2) same
      by simp
    ultimately show ?thesis
      using False dir' assms(5)
      by (simp add: git_read_file_def Let_def fs_read_file_def split: sum.split)
  qed
qed

lemma start_dirs:
  "fs_of files [''c''] = Some Dir \<Longrightarrow> fs_of files [''c'', x] = Some Dir \<Longrightarrow>
    real_dir (fs_of files) [''c''] \<and> real_dir (fs_of files) [''c'', x]"
  using real_dir_snoc [of "fs_of files" "[]" "''c''"] real_dir_snoc [of "fs_of files" "[''c'']" x] by simp

lemma plain_paths:
  "filepath_is_abs (repo_cache_dir (plain_repo url ''/c/b''))"
  "clone_path (plain_repo url ''/c/b'') = [''c'', ''b'']"
proof -
  have "filepath_is_abs ''/c/b''" "path_elems ''/c/b'' = [''c'', ''b'']" by code_simp+
  then show "filepath_is_abs (repo_cache_dir (plain_repo url ''/c/b''))"
    "clone_path (plain_repo url ''/c/b'') = [''c'', ''b'']" by (simp_all add: plain_repo_def)
qed

definition two_clones :: "(string list \<times> node) list" where
  "two_clones = [([''c''], Dir), ([''c'', ''a''], Dir), ([''c'', ''b''], Dir),
     ([''c'', ''b'', ''s.yaml''], File ''B''), ([''c'', ''a'', ''s.yaml''], File ''A'')]"

lemma two_clones_no_link: "fs_of two_clones p \<noteq> Some (Symlink t)"
  by (auto simp: two_clones_def fs_of_def dest!: map_of_SomeD)

theorem clone_does_not_disturb_witness:
  "fst (run_state (git_read_file (plain_repo ''v'' ''/c/b'') ''s.yaml'')
      (snd (run_state (ensure_cloned (mem_git False []) (plain_repo ''u'' ''/c/a'')) (start_state two_clones))))
    = Inr ''B''"
proof -
  have "fst (run_state (git_read_file (plain_repo ''v'' ''/c/b'') ''s.yaml'') (start_state two_clones)) = Inr ''B''"
    by code_simp
  moreover have "fst (run_state (git_read_file (plain_repo ''v'' ''/c/b'') ''s.yaml'')
      (snd (run_state (ensure_cloned (mem_git False []) (plain_repo ''u'' ''/c/a'')) (start_state two_clones))))
    = fst (run_state (git_read_file (plain_repo ''v'' ''/c/b'') ''s.yaml'') (start_state two_clones))"
  proof (rule clone_does_not_disturb [OF mem_git_ok plain_repo_ok(1) _ plain_paths(1)])
    show "real_dir (fsys (start_state two_clones)) (butlast (clone_path (plain_repo ''u'' ''/c/a'')))"
      and "real_dir (fsys (start_state two_clones)) (clone_path (plain_repo ''v'' ''/c/b''))"
      using start_dirs [of two_clones "''b''"]
      by (simp_all add: plain_repo_ok plain_paths start_state_def fs_of_def two_clones_def)
    show "\<forall>p t. fsys (start_state two_clones) (clone_path (plain_repo ''v'' ''/c/b'') @ p) \<noteq> Some (Symlink t)"
      by (simp add: start_state_def two_clones_no_link)
  qed (simp_all add: plain_repo_ok plain_paths)
  ultimately show ?thesis by simp
qed

text \<open>
C34: In a clone without symbolic links, whatever path is asked for, a successful read returns the
content of a file below the cache directory, reached without any \<open>..\<close>; nothing is changed.
\<close>

theorem git_read_file_confined:
  assumes "run_state (git_read_file r path) s = (Inr content, s')"
    and "filepath_is_abs (repo_cache_dir r)" and "real_dir (fsys s) (clone_path r)"
    and "\<forall>p t. fsys s (clone_path r @ p) \<noteq> Some (Symlink t)"
  shows "s' = s \<and> ''..'' \<notin> set (path_elems path)
    \<and> fsys s (clone_path r @ path_elems path) = Some (File content)"
proof -
  have ok: "\<not> (has_prefix (filepath_clean path) ''..'' \<or> filepath_is_abs (filepath_clean path))"
    using assms(1) by (auto simp: git_read_file_def Let_def split: if_splits)
  note els = accepted_path [OF ok]
  have read: "fs_read_file (fsys s) (filepath_join [repo_cache_dir r, filepath_clean path]) = Inr content"
    and "s' = s"
    using assms(1) ok by (auto simp: git_read_file_def Let_def map_sum_def split: sum.splits)
  have "fs_real (fsys s) (filepath_join [repo_cache_dir r, filepath_clean path])
      = fs_walk 40 (fsys s) (clone_path r @ []) (path_elems path)"
    using els assms(2,3) fs_walk_dirs [of "clone_path r" "fsys s" "[]" 40 "path_elems path"]
      clean_stack_rooted [OF path_elems_clean assms(2)]
    by (simp add: fs_real_def raw_elems_filepath_join)
  with read fs_walk_below [of "fsys s" "clone_path r" "path_elems path" 40 "[]"] assms(4) els(2)
  have "fsys s (clone_path r @ path_elems path) = Some (File content)"
    by (auto simp: fs_read_file_def split: sum.splits option.splits node.splits)
  with \<open>s' = s\<close> els(2) show ?thesis by simp
qed

theorem git_read_file_confined_witness:
  "fsys (start_state two_clones) ([''c'', ''b''] @ path_elems ''x/../s.yaml'') = Some (File ''B'')"
proof -
  let ?s = "start_state two_clones" and ?r = "plain_repo ''v'' ''/c/b''"
  have run: "run_state (git_read_file ?r ''x/../s.yaml'') ?s = (Inr ''B'', ?s)"
  proof -
    have "fst (run_state (git_read_file ?r ''x/../s.yaml'') ?s) = Inr ''B''" by code_simp
    then show ?thesis by (auto simp: git_read_file_def Let_def split: if_splits)
  qed
  have dir: "real_dir (fsys ?s) (clone_path ?r)"
    using start_dirs [of two_clones "''b''"]
    by (simp add: plain_paths start_state_def fs_of_def two_clones_def)
  have links: "\<forall>p t. fsys ?s (clone_path ?r @ p) \<noteq> Some (Symlink t)"
    by (simp add: start_state_def two_clones_no_link)
  from git_read_file_confined [OF run plain_paths(1) dir links] show ?thesis by (simp add: plain_paths)
qed

text \<open>
The check is lexical only: with a symbolic link in the clone, an accepted path without any
\<open>..\<close> reads a file outside the cache directory.
\<close>

theorem git_read_file_follows_links:
  "fst (run_state (git_read_file (plain_repo ''u'' ''/c/a'') ''leak'')
     (start_state [([''c''], Dir), ([''c'', ''a''], Dir), ([''c'', ''a'', ''leak''], Symlink ''/etc/token''),
        ([''etc''], Dir), ([''etc'', ''token''], File ''t0'')])) = Inr ''t0''"
  by code_simp

text \<open>
The check also refuses paths that do not escape: \<open>..data/s.yaml\<close> has no \<open>..\<close> element and names
an existing file of the clone, and is refused.
\<close>

theorem git_read_file_refuses_dotted_names:
  "fst (run_state (git_read_file (plain_repo ''u'' ''/c/a'') ''..data/s.yaml'')
     (start_state [([''c''], Dir), ([''c'', ''a''], Dir), ([''c'', ''a'', ''..data''], Dir),
        ([''c'', ''a'', ''..data'', ''s.yaml''], File ''A'')])) = Inl (InvalidPath ''..data/s.yaml'')
   \<and> ''..'' \<notin> set (path_elems ''..data/s.yaml'')"
proof
  show "''..'' \<notin> set (path_elems ''..data/s.yaml'')" by code_simp
qed code_simp

text \<open>
  Credentials that make go-git check host keys against the known hosts of \<open>a\<close>; and the libraries \<open>G\<close>
  with everything that go-git does over the network with other credentials, or none, replaced by
  what \<open>B\<close> does.
\<close>

definition host_checked :: "'w git_ext \<Rightarrow> ssh_auth \<Rightarrow> transport_auth option \<Rightarrow> bool" where
  "host_checked G a am = (case am of
       Some (PublicKeys u k c) \<Rightarrow> sa_known_hosts a \<noteq> [] \<and> parse_known_hosts G (sa_known_hosts a) = Inr c
     | _ \<Rightarrow> False)"

definition unchecked_as :: "'w git_ext \<Rightarrow> ssh_auth \<Rightarrow> 'w git_ext \<Rightarrow> 'w git_ext" where
  "unchecked_as B a G = G
     \<lparr>plain_clone := (\<lambda>dir opts. if host_checked G a (co_auth opts) then plain_clone G dir opts else plain_clone B dir opts),
      fetch_origin := (\<lambda>dir am. if host_checked G a am then fetch_origin G dir am else fetch_origin B dir am),
      pull_origin := (\<lambda>dir po. if host_checked G a (po_auth po) then pull_origin G dir po else pull_origin B dir po)\<rparr>"

lemma unchecked_as_fields:
  "mkdir_fault (unchecked_as B a G) = mkdir_fault G" "remove_refused (unchecked_as B a G) = remove_refused G"
  "create_temp (unchecked_as B a G) = create_temp G" "write_fault (unchecked_as B a G) = write_fault G"
  "close_fault (unchecked_as B a G) = close_fault G" "new_public_keys (unchecked_as B a G) = new_public_keys G"
  "parse_known_hosts (unchecked_as B a G) = parse_known_hosts G" "plain_open (unchecked_as B a G) = plain_open G"
  "open_worktree (unchecked_as B a G) = open_worktree G" "resolve_revision (unchecked_as B a G) = resolve_revision G"
  "checkout_hash (unchecked_as B a G) = checkout_hash G" "head_hash (unchecked_as B a G) = head_hash G"
  by (simp_all add: unchecked_as_def)

lemma unchecked_as_local:
  "mkdir_all (unchecked_as B a G) = mkdir_all G" "remove_all (unchecked_as B a G) = remove_all G"
  "checkout_revision (unchecked_as B a G) = checkout_revision G" "resolve_head (unchecked_as B a G) = resolve_head G"
  "auth_method (unchecked_as B a G) = auth_method G"
  unfolding fun_eq_iff mkdir_all_def remove_all_def checkout_revision_def resolve_head_def
    auth_method_def ssh_auth_method_def known_hosts_callback_def unchecked_as_fields
  by blast+

lemma unchecked_as_network:
  "host_checked G a (co_auth opts) \<Longrightarrow> plain_clone (unchecked_as B a G) dir opts = plain_clone G dir opts"
  "host_checked G a am \<Longrightarrow> fetch_origin (unchecked_as B a G) dir am = fetch_origin G dir am"
  "host_checked G a (po_auth po) \<Longrightarrow> pull_origin (unchecked_as B a G) dir po = pull_origin G dir po"
  by (simp_all add: unchecked_as_def)

lemma unchecked_as_clone:
  assumes "host_checked G a am"
  shows "clone_fresh (unchecked_as B a G) r am = clone_fresh G r am"
    and "update_and_resolve (unchecked_as B a G) r am = update_and_resolve G r am"
proof -
  have "host_checked G a (co_auth (clone_opts r am))" using assms by (simp add: clone_opts_def Let_def)
  then show "clone_fresh (unchecked_as B a G) r am = clone_fresh G r am"
    unfolding clone_fresh_def unchecked_as_local by (simp only: unchecked_as_network)
  show "update_and_resolve (unchecked_as B a G) r am = update_and_resolve G r am"
    unfolding update_and_resolve_def unchecked_as_local unchecked_as_fields
      unchecked_as_network(2) [OF assms] unchecked_as_network(3) [of G a "\<lparr>po_reference_name = n, po_auth = am\<rparr>" for n, simplified, OF assms]
    by (rule refl)
qed

lemma ssh_auth_checked:
  assumes "create_temp_ok G" and "auth_basic (cfg_auth (repo_cfg r)) = None" and "auth_ssh (cfg_auth (repo_cfg r)) = Some a"
    and run: "run_state (auth_method G r) s = (Inr am, s')"
  shows "host_checked G a am"
proof -
  have "\<exists>u k c. am = Some (PublicKeys u k c)"
    using run assms(2,3)
    by (auto simp: auth_method_def ssh_auth_method_def Let_def split: sum.splits if_splits prod.splits)
  then obtain u k c where am: "am = Some (PublicKeys u k c)" by blast
  show ?thesis
  proof (rule run_auth_method [OF assms(1), of r s])
    fix res w
    assume res: "run_state (auth_method G r) s = (res, s\<lparr>world := w\<rparr>)"
      and ssh: "\<And>u k c. res = Inr (Some (PublicKeys u k c)) \<Longrightarrow>
        \<exists>a. auth_ssh (cfg_auth (repo_cfg r)) = Some a \<and> sa_known_hosts a \<noteq> []
          \<and> parse_known_hosts G (sa_known_hosts a) = Inr c"
    from res run am have "res = Inr (Some (PublicKeys u k c))" by simp
    from ssh [OF this] assms(3) am show ?thesis by (simp add: host_checked_def)
  qed
qed

text \<open>
C35: With SSH credentials configured, go-git is never asked to reach the remote without a check of the
host key against the configured known hosts, which are not empty: whatever it might do when asked to
clone, fetch or pull with other credentials, or with none, makes no difference to a refresh.
\<close>

theorem ssh_checks_host_keys:
  assumes "create_temp_ok G" and "auth_basic (cfg_auth (repo_cfg r)) = None" and "auth_ssh (cfg_auth (repo_cfg r)) = Some a"
  shows "run_state (ensure_cloned (unchecked_as B a G) r) s = run_state (ensure_cloned G r) s"
proof -
  obtain m s1 where m: "run_state (auth_method G r) s = (m, s1)" by fastforce
  show ?thesis
  proof (cases m)
    case (Inl e)
    with m show ?thesis by (simp add: ensure_cloned_def unchecked_as_local)
  next
    case (Inr am)
    note same = unchecked_as_clone [OF ssh_auth_checked [OF assms m [unfolded Inr]]]
    show ?thesis
      using m Inr by (simp add: ensure_cloned_def unchecked_as_local same cong: sum.case_cong if_cong)
  qed
qed

text \<open>
The check depends on \<open>spec.auth\<close>, not on the URL: an \<open>ssh://\<close> URL without credentials is cloned with no
authentication method, so go-git's defaults decide and no known hosts of the operator are used.
\<close>

lemma ssh_url_without_auth:
  "auth_basic (cfg_auth (repo_cfg r)) = None \<Longrightarrow> auth_ssh (cfg_auth (repo_cfg r)) = None
    \<Longrightarrow> run_state (ensure_cloned G r) s =
      (if fs_exists (fsys s) (filepath_join [repo_cache_dir r, ''.git''])
       then (case run_state (update_and_resolve G r None) s of
           (Inr sha, t) \<Rightarrow> (Inr sha, t)
         | (Inl _, t) \<Rightarrow> run_state (clone_fresh G r None) (snd (run_state (remove_all G (repo_cache_dir r)) t)))
       else run_state (clone_fresh G r None) s)"
  by (auto simp: ensure_cloned_def auth_method_def split: prod.splits sum.splits)

definition ssh_credentials :: ssh_auth where
  "ssh_credentials = \<lparr>sa_user = [], sa_private_key = ''pem'', sa_passphrase = [], sa_known_hosts = ''h k''\<rparr>"

definition ssh_repo :: repo where
  "ssh_repo = \<lparr>repo_cfg = (plain_config ''ssh://h/r'')\<lparr>cfg_auth := \<lparr>auth_basic = None, auth_ssh = Some ssh_credentials\<rparr>\<rparr>,
    repo_cache_dir = ''/c/a''\<rparr>"

theorem ssh_checks_host_keys_witness:
  "fst (run_state (ensure_cloned (unchecked_as (mem_git False []) ssh_credentials (mem_git True [])) ssh_repo)
      (start_state [([''tmp''], Dir), ([''c''], Dir)])) = Inr ''c0''"
proof -
  have "git_ok (mem_git True [] :: unit git_ext)" by (rule mem_git_ok)
  then have ok: "create_temp_ok (mem_git True [] :: unit git_ext)" by (simp add: git_ok_def)
  have "fst (run_state (ensure_cloned (mem_git True []) ssh_repo) (start_state [([''tmp''], Dir), ([''c''], Dir)]))
      = Inr ''c0''" by code_simp
  moreover have "auth_basic (cfg_auth (repo_cfg ssh_repo)) = None" "auth_ssh (cfg_auth (repo_cfg ssh_repo)) = Some ssh_credentials"
    by (simp_all add: ssh_repo_def)
  ultimately show ?thesis using ssh_checks_host_keys [OF ok] by metis
qed

text \<open>
Pins of a repository get different cache keys as long as no branch and no revision contains
\<open>@\<close> or \<open>#\<close>.
\<close>

theorem cache_key_separates:
  assumes "set (cfg_branch a) \<inter> {CHR ''@'', CHR ''#''} = {}" and "set (cfg_branch b) \<inter> {CHR ''@'', CHR ''#''} = {}"
    and "set (cfg_revision a) \<inter> {CHR ''@'', CHR ''#''} = {}" and "set (cfg_revision b) \<inter> {CHR ''@'', CHR ''#''} = {}"
  shows "cache_key a = cache_key b \<longleftrightarrow>
    cfg_url a = cfg_url b \<and> cfg_branch a = cfg_branch b \<and> cfg_revision a = cfg_revision b"
proof -
  have split: "x @ c # r = y @ c # s \<longleftrightarrow> x = y \<and> r = s" if "c \<notin> set r" "c \<notin> set s"
    for x y r s :: string and c
  proof -
    have rx: "cut c (rev (x @ c # r)) = Some (rev r, rev x)" using that(1) by (simp add: cut_Some_iff)
    have ry: "cut c (rev (y @ c # s)) = Some (rev s, rev y)" using that(2) by (simp add: cut_Some_iff)
    show ?thesis
    proof
      assume "x @ c # r = y @ c # s"
      then have "Some (rev r, rev x) = Some (rev s, rev y)" unfolding rx [symmetric] ry [symmetric] by (rule arg_cong)
      then show "x = y \<and> r = s" by simp
    qed simp
  qed
  have "cache_key c = (cfg_url c @ CHR ''@'' # cfg_branch c) @ CHR ''#'' # cfg_revision c" for c
    by (simp add: cache_key_def)
  then show ?thesis using assms by (auto simp: split)
qed

theorem cache_key_separates_witness:
  "cache_key (plain_config ''u'') \<noteq> cache_key ((plain_config ''u'')\<lparr>cfg_branch := [], cfg_revision := ''v1''\<rparr>)"
  using cache_key_separates [of "plain_config ''u''" "(plain_config ''u'')\<lparr>cfg_branch := [], cfg_revision := ''v1''\<rparr>"]
  by (simp add: plain_config_def)

text \<open>
With \<open>@\<close> in a branch name, which git allows, two different repositories share a cache
directory: branch \<open>feat@main\<close> of one URL and branch \<open>main\<close> of the URL extended by \<open>@feat\<close>.
\<close>

theorem cache_key_collides:
  "cache_hash ((plain_config url)\<lparr>cfg_branch := ''feat@main''\<rparr>) = cache_hash (plain_config (url @ ''@feat''))"
  by (simp add: cache_hash_def cache_key_def plain_config_def)

end
