(* ===== verification/Fetcher.thy ===== *)
theory Fetcher
  imports OsModel
begin

text \<open>
  \<open>internal/object/fetcher.go\<close>: fetching one object over HTTPS or from an S3-compatible bucket.

  The remote ends are fields of \<open>remote_ext\<close>: what a request is answered, and what minio-go's
  client answers. A client is the configuration it was made from. The contract of the \<open>Fetcher\<close>
  interface that the registry relies on is the locale \<open>conditional_fetcher\<close>.
\<close>

section \<open>Data\<close>

record https_auth =
  ha_bearer_token :: string
  ha_username :: string
  ha_password :: string

datatype authorization = Bearer string | BasicAuthorization string string

record http_request =
  hq_method :: string
  hq_url :: string
  hq_authorization :: "authorization option"
  hq_if_none_match :: "string option"

text \<open>The body is read after the status was seen, and reading may fail.\<close>

record http_response =
  hr_status :: int
  hr_body :: "string + bytes"
  hr_etag :: string

record https_fetcher =
  hf_url :: string
  hf_auth :: https_auth

record s3_config =
  s3_endpoint :: string
  s3_bucket :: string
  s3_region :: string
  s3_insecure :: bool
  s3_access_key :: string
  s3_secret_key :: string

record minio_client =
  mc_endpoint :: string
  mc_secure :: bool
  mc_region :: string
  mc_creds :: "(string \<times> string) option"

record s3_fetcher =
  sf_cfg :: s3_config
  sf_client :: minio_client

datatype fetcher = HTTPSFetcher https_fetcher | S3Fetcher s3_fetcher

datatype fetch_error =
    ErrNotModified string  \<comment> \<open>with the ETag returned beside it\<close>
  | RequestInvalid string
  | RequestFailed string
  | ReadBody string
  | UnexpectedStatus int
  | ProbeStatus int
  | NewMinioClient string
  | EmptyObjectKey
  | StatFailed string string string
  | GetFailed string string string
  | ReadObjectFailed string string string
  | BucketExistsFailed string
  | BucketNotFound string

text \<open>\<open>errors.Is(err, ErrNotModified)\<close>\<close>

definition is_not_modified :: "fetch_error \<Rightarrow> bool" where
  "is_not_modified err = (case err of ErrNotModified _ \<Rightarrow> True | _ \<Rightarrow> False)"

record 'w remote_ext =
  request_invalid :: "string \<Rightarrow> string \<Rightarrow> string option"  \<comment> \<open>method, URL\<close>
  http_do :: "http_request \<Rightarrow> ('w, string + http_response) state"
  minio_invalid :: "minio_client \<Rightarrow> string option"
  stat_object :: "minio_client \<Rightarrow> string \<Rightarrow> string \<Rightarrow> ('w, string + string) state"
  get_object :: "minio_client \<Rightarrow> string \<Rightarrow> string \<Rightarrow> ('w, string option) state"
  read_object_body :: "minio_client \<Rightarrow> string \<Rightarrow> string \<Rightarrow> ('w, string + bytes) state"
  bucket_exists :: "minio_client \<Rightarrow> string \<Rightarrow> ('w, string + bool) state"
  now :: "('w, int) state"

type_synonym ('w, 'x) fetch_prog = "('w, 'x, fetch_error + bytes \<times> string) os_prog"

section \<open>HTTPS\<close>

definition new_https_fetcher :: "string \<Rightarrow> https_auth \<Rightarrow> https_fetcher" where
  "new_https_fetcher url auth = \<lparr>hf_url = url, hf_auth = auth\<rparr>"

definition apply_auth :: "https_auth \<Rightarrow> http_request \<Rightarrow> http_request" where
  "apply_auth a req =
     (if ha_bearer_token a \<noteq> [] then req\<lparr>hq_authorization := Some (Bearer (ha_bearer_token a))\<rparr>
      else if ha_username a \<noteq> [] \<and> ha_password a \<noteq> [] then
        req\<lparr>hq_authorization := Some (BasicAuthorization (ha_username a) (ha_password a))\<rparr>
      else req)"

definition https_fetch :: "'w remote_ext \<Rightarrow> https_fetcher \<Rightarrow> string \<Rightarrow> string \<Rightarrow> ('w, 'x) fetch_prog" where
  "https_fetch X f path if_none_match =
     (case request_invalid X ''GET'' (hf_url f) of
        Some e \<Rightarrow> State_Monad.return (Inl (RequestInvalid e))
      | None \<Rightarrow>
          (let req0 = \<lparr>hq_method = ''GET'', hq_url = hf_url f, hq_authorization = None,
                       hq_if_none_match = None\<rparr>;
               req1 = apply_auth (hf_auth f) req0;
               req = (if if_none_match \<noteq> [] then req1\<lparr>hq_if_none_match := Some if_none_match\<rparr> else req1) in
           do {
             resp \<leftarrow> on_world (http_do X req);
             State_Monad.return (case resp of
                 Inl e \<Rightarrow> Inl (RequestFailed e)
               | Inr r \<Rightarrow>
                   if hr_status r = 304 then Inl (ErrNotModified if_none_match)
                   else if hr_status r = 200 then
                     (case hr_body r of Inl e \<Rightarrow> Inl (ReadBody e) | Inr body \<Rightarrow> Inr (body, hr_etag r))
                   else Inl (UnexpectedStatus (hr_status r)))
           }))"

definition https_probe :: "'w remote_ext \<Rightarrow> https_fetcher \<Rightarrow> ('w, 'x, fetch_error option) os_prog" where
  "https_probe X f =
     (case request_invalid X ''HEAD'' (hf_url f) of
        Some e \<Rightarrow> State_Monad.return (Some (RequestInvalid e))
      | None \<Rightarrow> do {
          resp \<leftarrow> on_world (http_do X (apply_auth (hf_auth f)
            \<lparr>hq_method = ''HEAD'', hq_url = hf_url f, hq_authorization = None, hq_if_none_match = None\<rparr>));
          State_Monad.return (case resp of
              Inl e \<Rightarrow> Some (RequestFailed e)
            | Inr r \<Rightarrow> if 200 \<le> hr_status r \<and> hr_status r < 400 then None
                      else Some (ProbeStatus (hr_status r)))
        })"

section \<open>S3\<close>

definition new_s3_fetcher :: "'w remote_ext \<Rightarrow> s3_config \<Rightarrow> fetch_error + s3_fetcher" where
  "new_s3_fetcher X cfg =
     (let cli = \<lparr>mc_endpoint = s3_endpoint cfg, mc_secure = (\<not> s3_insecure cfg), mc_region = s3_region cfg,
                 mc_creds = (if s3_access_key cfg \<noteq> [] then Some (s3_access_key cfg, s3_secret_key cfg)
                             else None)\<rparr> in
      case minio_invalid X cli of
        Some e \<Rightarrow> Inl (NewMinioClient e)
      | None \<Rightarrow> Inr \<lparr>sf_cfg = cfg, sf_client = cli\<rparr>)"

definition s3_fetch :: "'w remote_ext \<Rightarrow> s3_fetcher \<Rightarrow> string \<Rightarrow> string \<Rightarrow> ('w, 'x) fetch_prog" where
  "s3_fetch X f path if_none_match =
     (let key = trim_prefix path ''/''; bucket = s3_bucket (sf_cfg f) in
      if key = [] then State_Monad.return (Inl EmptyObjectKey)
      else do {
        stat \<leftarrow> on_world (stat_object X (sf_client f) bucket key);
        case stat of
          Inl e \<Rightarrow> State_Monad.return (Inl (StatFailed bucket key e))
        | Inr etag \<Rightarrow>
            if if_none_match \<noteq> [] \<and> etag \<noteq> [] \<and> if_none_match = etag then
              State_Monad.return (Inl (ErrNotModified etag))
            else do {
              obj \<leftarrow> on_world (get_object X (sf_client f) bucket key);
              case obj of
                Some e \<Rightarrow> State_Monad.return (Inl (GetFailed bucket key e))
              | None \<Rightarrow> do {
                  body \<leftarrow> on_world (read_object_body X (sf_client f) bucket key);
                  State_Monad.return (case body of
                      Inl e \<Rightarrow> Inl (ReadObjectFailed bucket key e)
                    | Inr b \<Rightarrow> Inr (b, etag))
                }
            }
      })"

definition s3_probe :: "'w remote_ext \<Rightarrow> s3_fetcher \<Rightarrow> ('w, 'x, fetch_error option) os_prog" where
  "s3_probe X f = do {
     ok \<leftarrow> on_world (bucket_exists X (sf_client f) (s3_bucket (sf_cfg f)));
     State_Monad.return (case ok of
         Inl e \<Rightarrow> Some (BucketExistsFailed e)
       | Inr b \<Rightarrow> if b then None else Some (BucketNotFound (s3_bucket (sf_cfg f))))
   }"

section \<open>The interface\<close>

definition fetch :: "'w remote_ext \<Rightarrow> fetcher \<Rightarrow> string \<Rightarrow> string \<Rightarrow> ('w, 'x) fetch_prog" where
  "fetch X f = (case f of HTTPSFetcher h \<Rightarrow> https_fetch X h | S3Fetcher s \<Rightarrow> s3_fetch X s)"

definition probe :: "'w remote_ext \<Rightarrow> fetcher \<Rightarrow> ('w, 'x, fetch_error option) os_prog" where
  "probe X f = (case f of HTTPSFetcher h \<Rightarrow> https_probe X h | S3Fetcher s \<Rightarrow> s3_probe X s)"

text \<open>Only the world changes.\<close>

definition only_world :: "('w, 'x) os_state_scheme \<Rightarrow> ('w, 'x) os_state_scheme \<Rightarrow> bool" where
  "only_world s s' \<longleftrightarrow> (\<exists>w. s' = s\<lparr>world := w\<rparr>)"

lemma frame_rel_only_world: "frame_rel only_world"
proof (rule frame_relI)
  fix s :: "('w, 'x) os_state_scheme"
  have "s = s\<lparr>world := world s\<rparr>" by simp
  then show "only_world s s" unfolding only_world_def by blast
qed (auto simp: only_world_def)

lemma only_world_on_world: "state_io_rel only_world (on_world m)"
  by (auto simp: state_io_rel_def run_on_world only_world_def)

lemmas only_world_intros =
  frame_bind [OF frame_rel_only_world] frame_return [OF frame_rel_only_world]
  frame_if frame_case_sum frame_case_option only_world_on_world

text \<open>
  What a caller of \<open>Fetch\<close> may rely on: nothing but the outside world is touched, and
  \<open>ErrNotModified\<close> comes with the very ETag that was sent.
\<close>

locale conditional_fetcher =
  fixes fetch_op :: "string \<Rightarrow> string \<Rightarrow> ('w, 'x) fetch_prog"
    and probe_op :: "('w, 'x, fetch_error option) os_prog"
  assumes fetch_world: "state_io_rel only_world (fetch_op path etag)"
    and probe_world: "state_io_rel only_world probe_op"
    and not_modified: "pred_state (\<lambda>r. \<forall>e. r = Inl (ErrNotModified e) \<longrightarrow> e = etag) (fetch_op path etag)"
begin

lemma run_fetch:
  obtains r w where "run_state (fetch_op path etag) s = (r, s\<lparr>world := w\<rparr>)"
    and "\<And>e. r = Inl (ErrNotModified e) \<Longrightarrow> e = etag"
proof -
  obtain r s' where run: "run_state (fetch_op path etag) s = (r, s')" by fastforce
  from frame_run [OF fetch_world run] obtain w where "s' = s\<lparr>world := w\<rparr>" by (auto simp: only_world_def)
  moreover have "\<forall>e. r = Inl (ErrNotModified e) \<longrightarrow> e = etag"
    using not_modified run by (rule pred_stateD)
  ultimately show thesis using that run by blast
qed

lemma run_probe:
  obtains r w where "run_state probe_op s = (r, s\<lparr>world := w\<rparr>)"
proof -
  obtain r s' where run: "run_state probe_op s = (r, s')" by fastforce
  from frame_run [OF probe_world run] obtain w where "s' = s\<lparr>world := w\<rparr>" by (auto simp: only_world_def)
  with that run show thesis by blast
qed

end

lemma pred_state_bind_all:
  "(\<And>a. pred_state P (f a)) \<Longrightarrow> pred_state P (State_Monad.bind m f)"
proof (rule pred_stateI)
  fix x s s'
  assume all: "\<And>a. pred_state P (f a)" and run: "run_state (State_Monad.bind m f) s = (x, s')"
  obtain a t where "run_state m s = (a, t)" by fastforce
  with run have "run_state (f a) t = (x, s')" by simp
  with all show "P x" by (rule pred_stateD)
qed

lemma pred_state_ret: "P x \<Longrightarrow> pred_state P (State_Monad.return x)"
  by (rule pred_stateI) simp

interpretation https: conditional_fetcher "https_fetch X f" "https_probe X f" for X f
proof
  fix path etag
  show "state_io_rel only_world (https_fetch X f path etag)"
    unfolding https_fetch_def Let_def by (intro only_world_intros)
  show "state_io_rel only_world (https_probe X f)"
    unfolding https_probe_def by (intro only_world_intros)
  show "pred_state (\<lambda>r. \<forall>e. r = Inl (ErrNotModified e) \<longrightarrow> e = etag) (https_fetch X f path etag)"
    unfolding https_fetch_def Let_def
    by (cases "request_invalid X ''GET'' (hf_url f)")
      (auto intro!: pred_state_bind_all pred_state_ret split: sum.splits if_splits)
qed

interpretation s3: conditional_fetcher "s3_fetch X f" "s3_probe X f" for X f
proof
  fix path etag
  show "state_io_rel only_world (s3_fetch X f path etag)"
    unfolding s3_fetch_def Let_def by (intro only_world_intros)
  show "state_io_rel only_world (s3_probe X f)"
    unfolding s3_probe_def by (intro only_world_intros)
  show "pred_state (\<lambda>r. \<forall>e. r = Inl (ErrNotModified e) \<longrightarrow> e = etag) (s3_fetch X f path etag)"
    unfolding s3_fetch_def Let_def
    by (auto intro!: pred_state_bind_all pred_state_ret split: sum.splits option.splits if_splits)
qed

interpretation any_fetcher: conditional_fetcher "fetch X f" "probe X f" for X f
proof (cases f)
  case (HTTPSFetcher h)
  then show "conditional_fetcher (fetch X f) (probe X f)"
    using https.conditional_fetcher_axioms by (simp add: fetch_def probe_def)
next
  case (S3Fetcher c)
  then show "conditional_fetcher (fetch X f) (probe X f)"
    using s3.conditional_fetcher_axioms by (simp add: fetch_def probe_def)
qed

section \<open>Remotes in memory\<close>

text \<open>
  For the witnesses: documents by URL (body and ETag) that answer a matching \<open>If-None-Match\<close> with
  304, and one bucket object whose version moves on at each \<open>stat_object\<close>; the world counts them.
\<close>

definition mem_http :: "(string \<times> bytes \<times> string) list \<Rightarrow> http_request \<Rightarrow> string + http_response" where
  "mem_http docs req =
     (case map_of docs (hq_url req) of
        None \<Rightarrow> Inr \<lparr>hr_status = 404, hr_body = Inr [], hr_etag = []\<rparr>
      | Some (body, etag) \<Rightarrow>
          if hq_if_none_match req = Some etag then Inr \<lparr>hr_status = 304, hr_body = Inr [], hr_etag = etag\<rparr>
          else Inr \<lparr>hr_status = 200, hr_body = Inr body, hr_etag = etag\<rparr>)"

definition version_at :: "(string \<times> bytes) list \<Rightarrow> nat \<Rightarrow> string \<times> bytes" where
  "version_at versions t = hd (drop t versions @ [([], [])])"

definition mem_remote :: "(string \<times> bytes \<times> string) list \<Rightarrow> (string \<times> bytes) list \<Rightarrow> nat remote_ext" where
  "mem_remote docs versions =
     \<lparr>request_invalid = (\<lambda>_ _. None),
      http_do = (\<lambda>req. State_Monad.return (mem_http docs req)),
      minio_invalid = (\<lambda>_. None),
      stat_object = (\<lambda>_ _ _. State (\<lambda>t. (Inr (fst (version_at versions t)), Suc t))),
      get_object = (\<lambda>_ _ _. State_Monad.return None),
      read_object_body = (\<lambda>_ _ _. State (\<lambda>t. (Inr (snd (version_at versions t)), t))),
      bucket_exists = (\<lambda>_ _. State_Monad.return (Inr True)),
      now = State (\<lambda>t. (int t, t))\<rparr>"

definition remote_start :: "nat os_state" where
  "remote_start = \<lparr>world = 0, fsys = Map.empty, penv = Map.empty\<rparr>"

definition sample_s3 :: s3_fetcher where
  "sample_s3 =
     \<lparr>sf_cfg = \<lparr>s3_endpoint = ''s3'', s3_bucket = ''b'', s3_region = [], s3_insecure = False,
                s3_access_key = [], s3_secret_key = []\<rparr>,
      sf_client = \<lparr>mc_endpoint = ''s3'', mc_secure = True, mc_region = [], mc_creds = None\<rparr>\<rparr>"

section \<open>Properties\<close>

text \<open>
An S3 fetch takes the ETag from one request and the content from a later one: when the object
is overwritten in between, the new content is returned under the old ETag.
\<close>

theorem s3_etag_of_older_version:
  "fst (run_state (s3_fetch (mem_remote [] [(''e1'', ''old''), (''e2'', ''new'')]) sample_s3 ''k'' [])
     remote_start) = Inr (''new'', ''e1'')"
  by code_simp

text \<open>
Credentials are sent only as configured: a bearer token is used whenever there is one, basic
authentication only when there is no token and both its parts are present, nothing otherwise;
nothing else of the request depends on them.
\<close>

theorem apply_auth_precedence:
  "hq_authorization (apply_auth a (req\<lparr>hq_authorization := None\<rparr>)) =
     (if ha_bearer_token a \<noteq> [] then Some (Bearer (ha_bearer_token a))
      else if ha_username a = [] \<or> ha_password a = [] then None
      else Some (BasicAuthorization (ha_username a) (ha_password a)))
   \<and> (apply_auth a req)\<lparr>hq_authorization := None\<rparr> = req\<lparr>hq_authorization := None\<rparr>"
  by (simp add: apply_auth_def)

end
