(* ===== verification/Telemetry.thy ===== *)
theory Telemetry
  imports Prelude
begin

text \<open>
  The metrics of \<open>internal/metrics/metrics.go\<close> and the data of the tracker in \<open>internal/controller/labels.go\<close>:
  what is counted, observed and traced, as events. Durations and timestamps are left out; a span
  is known by its name.
\<close>

definition ResultSuccess :: string where "ResultSuccess = ''success''"
definition ResultError :: string where "ResultError = ''error''"

definition StageAuth :: string where "StageAuth = ''auth''"
definition StageFetch :: string where "StageFetch = ''fetch''"
definition StageDecrypt :: string where "StageDecrypt = ''decrypt''"
definition StageApply :: string where "StageApply = ''apply''"

text \<open>The histograms of the fetches and of decryption, by their result label.\<close>

datatype observed = GitFetchDuration | ObjectFetchDuration | SopsDecryptDuration

datatype event =
    Observed observed string
  | ReconcileErrorCounted string string  \<comment> \<open>kind, stage\<close>
  | ReconcileCounted string string  \<comment> \<open>kind, result\<close>
  | ReconcileObserved string string
  | SpanStarted string "(string \<times> string) list"
  | SpanAttributes string "(string \<times> string) list"
  | SpanErrorRecorded string string
  | SpanStatusError string string
  | SpanEnded string

text \<open>\<open>reconcileTracker\<close>: no failed stage is the empty string, a span that is nil is \<open>None\<close>.\<close>

record tracker =
  tk_metric_kind :: string
  tk_fail_stage :: string
  tk_root_span :: "string option"
  tk_stage_span :: "string option"

definition no_tracker :: tracker where
  "no_tracker = \<lparr>tk_metric_kind = [], tk_fail_stage = [], tk_root_span = None, tk_stage_span = None\<rparr>"

text \<open>The result label of a deferred observation: error when the named return value is set.\<close>

definition result_label :: "'e + 'a \<Rightarrow> string" where
  "result_label r = (case r of Inl _ \<Rightarrow> ResultError | Inr _ \<Rightarrow> ResultSuccess)"

section \<open>The metrics\<close>

text \<open>
  A counter or histogram vector: its name, its labels, and a histogram's bucket bounds in
  milliseconds (the code has seconds). \<open>prometheus.ExponentialBuckets\<close> panics on a count below 1, a
  start of 0 or a factor of at most 1; the calls here are far from that.
\<close>

record metric =
  mt_name :: string
  mt_labels :: "string list"
  mt_buckets :: "nat list option"

fun exponential_buckets :: "nat \<Rightarrow> nat \<Rightarrow> nat \<Rightarrow> nat list" where
  "exponential_buckets start factor 0 = []"
| "exponential_buckets start factor (Suc n) = start # exponential_buckets (start * factor) factor n"

definition ReconcileTotal :: metric where
  "ReconcileTotal = \<lparr>mt_name = ''sops_reconcile_total'', mt_labels = [''kind'', ''result''], mt_buckets = None\<rparr>"

definition ReconcileErrorsTotal :: metric where
  "ReconcileErrorsTotal =
     \<lparr>mt_name = ''sops_reconcile_errors_total'', mt_labels = [''kind'', ''stage''], mt_buckets = None\<rparr>"

definition ReconcileDurationSeconds :: metric where
  "ReconcileDurationSeconds =
     \<lparr>mt_name = ''sops_reconcile_duration_seconds'', mt_labels = [''kind'', ''result''],
      mt_buckets = Some (exponential_buckets 5 2 12)\<rparr>"

definition GitFetchDurationSeconds :: metric where
  "GitFetchDurationSeconds =
     \<lparr>mt_name = ''sops_git_fetch_duration_seconds'', mt_labels = [''result''],
      mt_buckets = Some (exponential_buckets 10 2 12)\<rparr>"

definition ObjectFetchDurationSeconds :: metric where
  "ObjectFetchDurationSeconds =
     \<lparr>mt_name = ''sops_object_fetch_duration_seconds'', mt_labels = [''result''],
      mt_buckets = Some (exponential_buckets 10 2 12)\<rparr>"

definition SopsDecryptDurationSeconds :: metric where
  "SopsDecryptDurationSeconds =
     \<lparr>mt_name = ''sops_decrypt_duration_seconds'', mt_labels = [''result''],
      mt_buckets = Some (exponential_buckets 1 2 12)\<rparr>"

definition registered_metrics :: "metric list" where
  "registered_metrics =
     [ReconcileTotal, ReconcileErrorsTotal, ReconcileDurationSeconds, GitFetchDurationSeconds,
      ObjectFetchDurationSeconds, SopsDecryptDurationSeconds]"

lemmas metric_defs = ReconcileTotal_def ReconcileErrorsTotal_def ReconcileDurationSeconds_def
  GitFetchDurationSeconds_def ObjectFetchDurationSeconds_def SopsDecryptDurationSeconds_def

text \<open>\<open>MustRegister\<close> panics on a name that is registered twice, and \<open>NewHistogramVec\<close> on bounds that do not increase.\<close>

lemma registration_succeeds:
  "distinct (map mt_name registered_metrics)"
  "m \<in> set registered_metrics \<Longrightarrow> mt_buckets m = Some bs \<Longrightarrow> sorted_wrt (<) bs"
proof -
  show "distinct (map mt_name registered_metrics)"
    by (simp add: registered_metrics_def metric_defs)
  have "sorted_wrt (<) (exponential_buckets start 2 n)" if "0 < start" for start n
  proof -
    have ge: "\<forall>b \<in> set (exponential_buckets s 2 k). s \<le> b" for s k
      by (induction k arbitrary: s) (auto intro: le_trans [of s "s * 2" for s])
    show ?thesis using that
    proof (induction n arbitrary: start)
      case (Suc n)
      with ge [of "start * 2" n] show ?case by fastforce
    qed simp
  qed
  then show "sorted_wrt (<) bs" if "m \<in> set registered_metrics" "mt_buckets m = Some bs"
    using that by (auto simp: registered_metrics_def metric_defs simp del: exponential_buckets.simps)
qed

text \<open>Which metric an event updates, with the values of its labels.\<close>

fun updated_metric :: "event \<Rightarrow> (metric \<times> string list) option" where
  "updated_metric (Observed GitFetchDuration result) = Some (GitFetchDurationSeconds, [result])"
| "updated_metric (Observed ObjectFetchDuration result) = Some (ObjectFetchDurationSeconds, [result])"
| "updated_metric (Observed SopsDecryptDuration result) = Some (SopsDecryptDurationSeconds, [result])"
| "updated_metric (ReconcileErrorCounted kind stage) = Some (ReconcileErrorsTotal, [kind, stage])"
| "updated_metric (ReconcileCounted kind result) = Some (ReconcileTotal, [kind, result])"
| "updated_metric (ReconcileObserved kind result) = Some (ReconcileDurationSeconds, [kind, result])"
| "updated_metric _ = None"

text \<open>\<open>WithLabelValues\<close> panics when the number of values is not that of the labels.\<close>

lemma labels_match:
  "updated_metric e = Some (m, values) \<Longrightarrow> m \<in> set registered_metrics \<and> length values = length (mt_labels m)"
  by (cases e rule: updated_metric.cases) (auto simp: registered_metrics_def metric_defs)

end
