(* ===== verification/Registry.thy ===== *)
theory Registry
  imports Git Fetcher Telemetry
begin

text \<open>
  \<open>internal/source\<close> (\<open>registry.go\<close>, \<open>object_entry.go\<close>): the caches of all sources, by the key of
  the \<open>GitRepository\<close> or \<open>ObjectSource\<close>.

  The operator's state extends the process state by the registry and the events emitted. Each
  operation is one step here; \<open>Locking\<close> and \<open>GitLocking\<close> take it apart at the registry's locks.
\<close>

section \<open>State\<close>

record entry =
  en_repo :: repo
  en_cache_dir :: string
  en_commit_sha :: string

datatype object_mode = ObjectModeURL | ObjectModeBucket | ObjectModeOther int

record object_entry =
  oe_mode :: object_mode
  oe_fetcher :: "fetcher option"
  oe_etag :: string
  oe_content :: bytes
  oe_last_synced :: int  \<comment> \<open>0 is the zero time\<close>

record 'w op_state = "'w os_state" +
  entries :: "objkey \<Rightarrow> entry option"
  objects :: "objkey \<Rightarrow> object_entry option"
  events :: "event list"  \<comment> \<open>latest first\<close>
  tracker :: tracker  \<comment> \<open>of the reconcile that is running\<close>

type_synonym ('w, 'x, 'a) op_prog = "(('w, 'x) op_state_scheme, 'a) state"

definition emit :: "event \<Rightarrow> ('w, 'x, unit) op_prog" where
  "emit e = modify (\<lambda>s. s\<lparr>events := e # events s\<rparr>)"

text \<open>\<open>NewRegistry\<close>\<close>

definition new_registry :: "'w os_state \<Rightarrow> 'w op_state" where
  "new_registry s = os_state.extend s (op_state.fields Map.empty Map.empty [] no_tracker)"

datatype source_error =
    GitError git_error
  | NoGitCache objkey
  | ObjectError fetch_error
  | NoObjectCache objkey
  | NotYetFetched objkey
  | NoFetcher objkey
  | UnknownObjectMode object_mode

section \<open>Git caches\<close>

definition set_entry :: "objkey \<Rightarrow> entry option \<Rightarrow> ('w, 'x, unit) op_prog" where
  "set_entry k e = modify (\<lambda>s. s\<lparr>entries := (entries s)(k := e)\<rparr>)"

definition fresh_entry :: "repo \<Rightarrow> entry" where
  "fresh_entry repo = \<lparr>en_repo = repo, en_cache_dir = repo_cache_dir repo, en_commit_sha = []\<rparr>"

definition ensure_cached_body ::
  "'w git_ext \<Rightarrow> objkey \<Rightarrow> git_config \<Rightarrow> ('w, 'x, source_error + string) op_prog" where
  "ensure_cached_body G key cfg = do {
     made \<leftarrow> git_new G cfg;
     case made of
       Inl e \<Rightarrow> State_Monad.return (Inl (GitError e))
     | Inr repo \<Rightarrow> do {
         old \<leftarrow> gets (\<lambda>s. entries s key);
         e \<leftarrow> (case old of
             None \<Rightarrow> do {
               set_entry key (Some (fresh_entry repo));
               State_Monad.return (fresh_entry repo)
             }
           | Some e \<Rightarrow>
               if en_cache_dir e \<noteq> repo_cache_dir repo then do {
                 remove_all G (en_cache_dir e);
                 set_entry key (Some (fresh_entry repo));
                 State_Monad.return (fresh_entry repo)
               }
               else State_Monad.return e);
         sha \<leftarrow> ensure_cloned G (en_repo e);
         case sha of
           Inl err \<Rightarrow> State_Monad.return (Inl (GitError err))
         | Inr c \<Rightarrow> do {
             set_entry key (Some (e\<lparr>en_commit_sha := c\<rparr>));
             State_Monad.return (Inr c)
           }
       }
   }"

definition ensure_cached ::
  "'w git_ext \<Rightarrow> objkey \<Rightarrow> git_config \<Rightarrow> ('w, 'x, source_error + string) op_prog" where
  "ensure_cached G key cfg = do {
     r \<leftarrow> ensure_cached_body G key cfg;
     emit (Observed GitFetchDuration (result_label r));
     State_Monad.return r
   }"

definition registry_read :: "objkey \<Rightarrow> string \<Rightarrow> ('w, 'x, source_error + bytes \<times> string) op_prog" where
  "registry_read key path = do {
     e \<leftarrow> gets (\<lambda>s. entries s key);
     case e of
       None \<Rightarrow> State_Monad.return (Inl (NoGitCache key))
     | Some en \<Rightarrow> do {
         content \<leftarrow> git_read_file (en_repo en) path;
         State_Monad.return (case content of
             Inl err \<Rightarrow> Inl (GitError err)
           | Inr c \<Rightarrow> Inr (c, en_commit_sha en))
       }
   }"

definition registry_forget :: "'w git_ext \<Rightarrow> objkey \<Rightarrow> ('w, 'x, unit) op_prog" where
  "registry_forget G key = do {
     e \<leftarrow> gets (\<lambda>s. entries s key);
     set_entry key None;
     case e of None \<Rightarrow> State_Monad.return () | Some en \<Rightarrow> remove_all G (en_cache_dir en)
   }"

section \<open>Object caches\<close>

definition set_object :: "objkey \<Rightarrow> object_entry option \<Rightarrow> ('w, 'x, unit) op_prog" where
  "set_object k e = modify (\<lambda>s. s\<lparr>objects := (objects s)(k := e)\<rparr>)"

definition new_object_entry :: "object_mode \<Rightarrow> object_entry" where
  "new_object_entry mode =
     \<lparr>oe_mode = mode, oe_fetcher = None, oe_etag = [], oe_content = [], oe_last_synced = 0\<rparr>"

definition ensure_object_cached_body ::
  "'w remote_ext \<Rightarrow> objkey \<Rightarrow> object_mode \<Rightarrow> fetcher \<Rightarrow> ('w, 'x, source_error + string) op_prog" where
  "ensure_object_cached_body X key mode f = do {
     old \<leftarrow> gets (\<lambda>s. objects s key);
     let e = (case old of
                None \<Rightarrow> new_object_entry mode
              | Some o' \<Rightarrow> if oe_mode o' \<noteq> mode then new_object_entry mode else o')\<lparr>oe_fetcher := Some f\<rparr>;
     set_object key (Some e);
     case mode of
       ObjectModeBucket \<Rightarrow> do {
         p \<leftarrow> probe X f;
         case p of
           Some err \<Rightarrow> State_Monad.return (Inl (ObjectError err))
         | None \<Rightarrow> do {
             t \<leftarrow> on_world (now X);
             set_object key (Some (e\<lparr>oe_last_synced := t\<rparr>));
             State_Monad.return (Inr [])
           }
       }
     | ObjectModeURL \<Rightarrow> do {
         r \<leftarrow> fetch X f [] (oe_etag e);
         case r of
           Inl err \<Rightarrow>
             if is_not_modified err then do {
               t \<leftarrow> on_world (now X);
               set_object key (Some (e\<lparr>oe_last_synced := t\<rparr>));
               State_Monad.return (Inr (oe_etag e))
             }
             else State_Monad.return (Inl (ObjectError err))
         | Inr (body, etag) \<Rightarrow> do {
             t \<leftarrow> on_world (now X);
             set_object key (Some (e\<lparr>oe_etag := etag, oe_content := body, oe_last_synced := t\<rparr>));
             State_Monad.return (Inr etag)
           }
       }
     | ObjectModeOther n \<Rightarrow> State_Monad.return (Inl (UnknownObjectMode mode))
   }"

definition ensure_object_cached ::
  "'w remote_ext \<Rightarrow> objkey \<Rightarrow> object_mode \<Rightarrow> fetcher \<Rightarrow> ('w, 'x, source_error + string) op_prog" where
  "ensure_object_cached X key mode f = do {
     r \<leftarrow> ensure_object_cached_body X key mode f;
     emit (Observed ObjectFetchDuration (result_label r));
     State_Monad.return r
   }"

definition read_object ::
  "'w remote_ext \<Rightarrow> objkey \<Rightarrow> string \<Rightarrow> ('w, 'x, source_error + bytes \<times> string) op_prog" where
  "read_object X key path = do {
     e \<leftarrow> gets (\<lambda>s. objects s key);
     case e of
       None \<Rightarrow> State_Monad.return (Inl (NoObjectCache key))
     | Some en \<Rightarrow>
         (case oe_mode en of
            ObjectModeURL \<Rightarrow>
              if oe_content en = [] then State_Monad.return (Inl (NotYetFetched key))
              else State_Monad.return (Inr (oe_content en, oe_etag en))
          | ObjectModeBucket \<Rightarrow>
              (case oe_fetcher en of
                 None \<Rightarrow> State_Monad.return (Inl (NoFetcher key))
               | Some f \<Rightarrow> do {
                   r \<leftarrow> fetch X f path [];
                   State_Monad.return (case r of Inl err \<Rightarrow> Inl (ObjectError err) | Inr (b, etag) \<Rightarrow> Inr (b, etag))
                 })
          | ObjectModeOther n \<Rightarrow> State_Monad.return (Inl (UnknownObjectMode (oe_mode en))))
   }"

definition forget_object :: "objkey \<Rightarrow> ('w, 'x, unit) op_prog" where
  "forget_object key = set_object key None"

section \<open>What process-level operations leave alone\<close>

text \<open>Programs over the process state do not touch what the operator adds to it.\<close>

definition same_more :: "('w, 'x) os_state_scheme \<Rightarrow> ('w, 'x) os_state_scheme \<Rightarrow> bool" where
  "same_more s s' \<longleftrightarrow> os_state.more s' = os_state.more s"

lemma same_more_op:
  fixes s :: "('w, 'x) op_state_scheme"
  assumes "same_more s s'"
  shows "entries s' = entries s" and "objects s' = objects s" and "events s' = events s"
    and "tracker s' = tracker s"
  using assms by (cases s, cases s', simp add: same_more_def)+

lemma frame_rel_same_more: "frame_rel same_more"
  by (rule frame_relI) (auto simp: same_more_def)

lemma same_more_steps:
  "state_io_rel same_more (on_world m)" "state_io_rel same_more (on_world_fs n)"
  "state_io_rel same_more (modify (\<lambda>s. s\<lparr>fsys := f s\<rparr>))"
  "state_io_rel same_more (State (\<lambda>s. case g s of (f, e) \<Rightarrow> (e, s\<lparr>fsys := f\<rparr>)))"
  by (auto simp: state_io_rel_def run_on_world run_on_world_fs same_more_def split: prod.split)

lemmas same_more_intros =
  frame_bind [OF frame_rel_same_more] frame_return [OF frame_rel_same_more]
  frame_gets [OF frame_rel_same_more] frame_if frame_case_sum frame_case_option frame_case_update
  same_more_steps

lemma same_more_remove: "state_io_rel same_more (remove_all G d)"
  unfolding remove_all_def by (rule same_more_steps)

lemma same_more_mkdir: "state_io_rel same_more (mkdir_all G d)"
  unfolding mkdir_all_def by (intro same_more_intros)

lemma same_more_new: "state_io_rel same_more (git_new G cfg)"
  unfolding git_new_def resolve_cache_root_def Let_def by (intro same_more_intros same_more_mkdir)

lemma same_more_auth: "state_io_rel same_more (auth_method G r)"
  unfolding auth_method_def ssh_auth_method_def known_hosts_callback_def Let_def
  by (intro same_more_intros)

lemma same_more_ensure_cloned: "state_io_rel same_more (ensure_cloned G r)"
  unfolding ensure_cloned_def update_and_resolve_def clone_fresh_def checkout_revision_def
    resolve_head_def Let_def
  by (intro same_more_intros same_more_auth same_more_remove same_more_mkdir)

lemma same_more_only_world: "state_io_rel only_world m \<Longrightarrow> state_io_rel same_more m"
  by (auto simp: state_io_rel_def only_world_def same_more_def) (metis os_state.select_convs(4) os_state.surjective os_state.update_convs(1))

section \<open>One refresh of a git cache\<close>

text \<open>The entry a refresh works with: the one on record, unless the cache directory has changed.\<close>

definition entry_for :: "entry option \<Rightarrow> repo \<Rightarrow> entry" where
  "entry_for old repo =
     (case old of
        None \<Rightarrow> fresh_entry repo
      | Some e \<Rightarrow> if en_cache_dir e = repo_cache_dir repo then e else fresh_entry repo)"

lemma run_set_entry [simp]: "run_state (set_entry k e) s = ((), s\<lparr>entries := (entries s)(k := e)\<rparr>)"
  by (simp add: set_entry_def)

lemma run_emit [simp]: "run_state (emit e) s = ((), s\<lparr>events := e # events s\<rparr>)"
  by (simp add: emit_def)

lemma run_remove_all [simp]:
  "run_state (remove_all G d) s = ((), s\<lparr>fsys := fs_remove_all (remove_refused G (world s) d) (fsys s) d\<rparr>)"
  by (simp add: remove_all_def)

lemma run_ensure_cached:
  fixes s :: "('w, 'x) op_state_scheme"
  assumes run: "run_state (ensure_cached G key cfg) s = (r, s')"
  obtains (refused) err where "r = Inl (GitError err)"
      and "entries s' = entries s" and "objects s' = objects s"
      and "events s' = Observed GitFetchDuration (result_label r) # events s"
  | (cached) repo x res and t u :: "('w, 'x) op_state_scheme" where
      "fst (run_state (git_new G cfg) s) = Inr repo"
      and "x = entry_for (entries s key) repo"
      and "run_state (ensure_cloned G (en_repo x)) t = (res, u)"
      and "r = map_sum GitError id res"
      and "entries s' = (entries s)(key \<mapsto> (case res of Inl _ \<Rightarrow> x | Inr c \<Rightarrow> x\<lparr>en_commit_sha := c\<rparr>))"
      and "fsys s' = fsys u" and "objects s' = objects s"
      and "events s' = Observed GitFetchDuration (result_label r) # events s"
proof -
  obtain made s1 where made: "run_state (git_new G cfg) s = (made, s1)" by fastforce
  note same1 = same_more_op [OF frame_run [OF same_more_new made]]
  show thesis
  proof (cases made)
    case (Inl err)
    with run made same1 show thesis
      by (intro refused) (auto simp: ensure_cached_def ensure_cached_body_def)
  next
    case (Inr repo)
    define x where "x = entry_for (entries s key) repo"
    define t where "t = (case entries s key of
        None \<Rightarrow> s1\<lparr>entries := (entries s1)(key \<mapsto> x)\<rparr>
      | Some e \<Rightarrow> if en_cache_dir e = repo_cache_dir repo then s1
          else s1\<lparr>fsys := fs_remove_all (remove_refused G (world s1) (en_cache_dir e)) (fsys s1) (en_cache_dir e),
                  entries := (entries s1)(key \<mapsto> x)\<rparr>)"
    obtain res u where res: "run_state (ensure_cloned G (en_repo x)) t = (res, u)" by fastforce
    note same2 = same_more_op [OF frame_run [OF same_more_ensure_cloned res]]
    have t: "entries t = (entries s)(key \<mapsto> x)" "objects t = objects s" "events t = events s"
      using same1 by (auto simp: t_def x_def entry_for_def split: option.split)
    have "run_state (ensure_cached G key cfg) s =
      (case res of
         Inl err \<Rightarrow> (Inl (GitError err), u\<lparr>events := Observed GitFetchDuration ResultError # events u\<rparr>)
       | Inr c \<Rightarrow> (Inr c, u\<lparr>entries := (entries u)(key \<mapsto> x\<lparr>en_commit_sha := c\<rparr>),
                         events := Observed GitFetchDuration ResultSuccess # events u\<rparr>))"
      using made Inr same1 res
      by (cases "entries s key")
        (auto simp: ensure_cached_def ensure_cached_body_def t_def x_def entry_for_def result_label_def
          split: sum.split)
    with run same2 t Inr made res show thesis
      by (intro cached [OF _ x_def res]) (cases res; auto simp: result_label_def)+
  qed
qed

section \<open>One refresh of an object cache\<close>

lemma run_set_object [simp]: "run_state (set_object k e) s = ((), s\<lparr>objects := (objects s)(k := e)\<rparr>)"
  by (simp add: set_object_def)

text \<open>The entry a refresh starts from.\<close>

definition object_for :: "object_entry option \<Rightarrow> object_mode \<Rightarrow> object_entry" where
  "object_for old mode =
     (case old of
        None \<Rightarrow> new_object_entry mode
      | Some e \<Rightarrow> if oe_mode e = mode then e else new_object_entry mode)"

lemma object_for_mode [simp]: "oe_mode (object_for old mode) = mode"
  by (auto simp: object_for_def new_object_entry_def split: option.split)

lemma ensure_object_cached_body_alt:
  "ensure_object_cached_body X key mode f = do {
     old \<leftarrow> gets (\<lambda>s. objects s key);
     let e = (object_for old mode)\<lparr>oe_fetcher := Some f\<rparr>;
     set_object key (Some e);
     case mode of
       ObjectModeBucket \<Rightarrow> do {
         p \<leftarrow> probe X f;
         case p of
           Some err \<Rightarrow> State_Monad.return (Inl (ObjectError err))
         | None \<Rightarrow> do {
             t \<leftarrow> on_world (now X);
             set_object key (Some (e\<lparr>oe_last_synced := t\<rparr>));
             State_Monad.return (Inr [])
           }
       }
     | ObjectModeURL \<Rightarrow> do {
         r \<leftarrow> fetch X f [] (oe_etag e);
         case r of
           Inl err \<Rightarrow>
             if is_not_modified err then do {
               t \<leftarrow> on_world (now X);
               set_object key (Some (e\<lparr>oe_last_synced := t\<rparr>));
               State_Monad.return (Inr (oe_etag e))
             }
             else State_Monad.return (Inl (ObjectError err))
         | Inr (body, etag) \<Rightarrow> do {
             t \<leftarrow> on_world (now X);
             set_object key (Some (e\<lparr>oe_etag := etag, oe_content := body, oe_last_synced := t\<rparr>));
             State_Monad.return (Inr etag)
           }
       }
     | ObjectModeOther n \<Rightarrow> State_Monad.return (Inl (UnknownObjectMode mode))
   }"
proof -
  have "(case old of None \<Rightarrow> new_object_entry mode
      | Some o' \<Rightarrow> if oe_mode o' \<noteq> mode then new_object_entry mode else o') = object_for old mode" for old
    by (auto simp: object_for_def split: option.split)
  then show ?thesis by (simp only: ensure_object_cached_body_def)
qed

text \<open>
  A refresh of a URL: the entry afterwards, against what the fetch gave. A failed fetch and a 304
  both leave content and ETag alone.
\<close>

lemma run_ensure_url:
  fixes s :: "('w, 'x) op_state_scheme"
  assumes run: "run_state (ensure_object_cached X key ObjectModeURL f) s = (r, s')"
  obtains e' fr w e where "e = object_for (objects s key) ObjectModeURL"
    and "run_state (fetch X f [] (oe_etag e)) (s\<lparr>objects := (objects s)(key \<mapsto> e\<lparr>oe_fetcher := Some f\<rparr>)\<rparr>)
      = (fr, s\<lparr>objects := (objects s)(key \<mapsto> e\<lparr>oe_fetcher := Some f\<rparr>), world := w\<rparr>)"
    and "objects s' = (objects s)(key \<mapsto> e')"
    and "oe_mode e' = ObjectModeURL" and "oe_fetcher e' = Some f"
    and "case fr of
        Inl err \<Rightarrow> r = (if is_not_modified err then Inr (oe_etag e) else Inl (ObjectError err))
          \<and> oe_etag e' = oe_etag e \<and> oe_content e' = oe_content e
      | Inr (body, etag) \<Rightarrow> r = Inr etag \<and> oe_etag e' = etag \<and> oe_content e' = body"
    and "entries s' = entries s" and "fsys s' = fsys s"
    and "events s' = Observed ObjectFetchDuration (result_label r) # events s"
proof -
  define e where "e = object_for (objects s key) ObjectModeURL"
  let ?s1 = "s\<lparr>objects := (objects s)(key \<mapsto> e\<lparr>oe_fetcher := Some f\<rparr>)\<rparr>"
  obtain fr w where fr: "run_state (fetch X f [] (oe_etag e)) ?s1 = (fr, ?s1\<lparr>world := w\<rparr>)"
    using any_fetcher.run_fetch by blast
  define tm where "tm = fst (run_state (now X) w)"
  define w' where "w' = snd (run_state (now X) w)"
  have now: "run_state (now X) w = (tm, w')" by (simp add: tm_def w'_def)
  define e0 where "e0 = e\<lparr>oe_fetcher := Some f\<rparr>"
  have e0: "oe_mode e0 = ObjectModeURL" "oe_fetcher e0 = Some f" "oe_etag e0 = oe_etag e" "oe_content e0 = oe_content e"
    by (simp_all add: e0_def e_def)
  define e' where "e' = (case fr of
      Inl err \<Rightarrow> if is_not_modified err then e0\<lparr>oe_last_synced := tm\<rparr> else e0
    | Inr (body, etag) \<Rightarrow> e0\<lparr>oe_etag := etag, oe_content := body, oe_last_synced := tm\<rparr>)"
  define r' where "r' = (case fr of
      Inl err \<Rightarrow> if is_not_modified err then Inr (oe_etag e) else Inl (ObjectError err)
    | Inr (body, etag) \<Rightarrow> Inr etag)"
  define w2 where "w2 = (case fr of Inl err \<Rightarrow> if is_not_modified err then w' else w | Inr _ \<Rightarrow> w')"
  have body: "run_state (ensure_object_cached_body X key ObjectModeURL f) s
      = (r', s\<lparr>objects := (objects s)(key \<mapsto> e'), world := w2\<rparr>)"
  proof (cases fr)
    case (Inl err)
    then show ?thesis
      using fr [folded e0_def] now e0
      by (simp add: ensure_object_cached_body_alt e_def [symmetric] e0_def [symmetric] Let_def
          run_on_world r'_def e'_def w2_def)
  next
    case (Inr be)
    obtain body etag where be: "be = (body, etag)" by (cases be)
    then show ?thesis
      using fr [folded e0_def] now e0 Inr
      by (simp add: ensure_object_cached_body_alt e_def [symmetric] e0_def [symmetric] Let_def
          run_on_world r'_def e'_def w2_def)
  qed
  then have r: "r = r'" and s': "s' = s\<lparr>objects := (objects s)(key \<mapsto> e'), world := w2,
      events := Observed ObjectFetchDuration (result_label r') # events s\<rparr>"
    using run by (auto simp: ensure_object_cached_def)
  show thesis
  proof (rule that [OF e_def])
    show "run_state (fetch X f [] (oe_etag e)) (s\<lparr>objects := (objects s)(key \<mapsto> e\<lparr>oe_fetcher := Some f\<rparr>)\<rparr>)
      = (fr, s\<lparr>objects := (objects s)(key \<mapsto> e\<lparr>oe_fetcher := Some f\<rparr>), world := w\<rparr>)"
      using fr by simp
    show "objects s' = (objects s)(key \<mapsto> e')" by (simp add: s')
    show "oe_mode e' = ObjectModeURL" "oe_fetcher e' = Some f"
      by (auto simp: e'_def e0 split: sum.split)
    show "case fr of
        Inl err \<Rightarrow> r = (if is_not_modified err then Inr (oe_etag e) else Inl (ObjectError err))
          \<and> oe_etag e' = oe_etag e \<and> oe_content e' = oe_content e
      | Inr (body, etag) \<Rightarrow> r = Inr etag \<and> oe_etag e' = etag \<and> oe_content e' = body"
      by (auto simp: r r'_def e'_def e0 split: sum.split)
  qed (simp_all add: s' r)
qed

lemma url_refresh_entry:
  fixes s :: "('w, 'x) op_state_scheme"
  assumes "run_state (ensure_object_cached X key ObjectModeURL f) s = (r, s')"
  shows "\<exists>e'. objects s' = (objects s)(key \<mapsto> e') \<and> oe_mode e' = ObjectModeURL \<and> entries s' = entries s"
  by (rule run_ensure_url [OF assms]) blast

lemma url_refresh_entries:
  fixes s :: "('w, 'x) op_state_scheme"
  assumes run: "run_state (ensure_object_cached X key ObjectModeURL f) s = (r, s')"
  shows "\<exists>e'. objects s' = (objects s)(key \<mapsto> e') \<and> oe_mode e' = ObjectModeURL \<and>
    ((oe_content e' = oe_content (object_for (objects s key) ObjectModeURL)
        \<and> oe_etag e' = oe_etag (object_for (objects s key) ObjectModeURL))
     \<or> (\<exists>(t :: ('w, 'x) op_state_scheme) t'.
          run_state (fetch X f [] (oe_etag (object_for (objects s key) ObjectModeURL))) t
            = (Inr (oe_content e', oe_etag e'), t')))"
proof (rule run_ensure_url [OF run])
  fix e' fr w e
  assume e: "e = object_for (objects s key) ObjectModeURL"
    and fr: "run_state (fetch X f [] (oe_etag e)) (s\<lparr>objects := (objects s)(key \<mapsto> e\<lparr>oe_fetcher := Some f\<rparr>)\<rparr>)
      = (fr, s\<lparr>objects := (objects s)(key \<mapsto> e\<lparr>oe_fetcher := Some f\<rparr>), world := w\<rparr>)"
    and objs: "objects s' = (objects s)(key \<mapsto> e')" "oe_mode e' = ObjectModeURL"
    and res: "case fr of
        Inl err \<Rightarrow> r = (if is_not_modified err then Inr (oe_etag e) else Inl (ObjectError err))
          \<and> oe_etag e' = oe_etag e \<and> oe_content e' = oe_content e
      | Inr (body, etag) \<Rightarrow> r = Inr etag \<and> oe_etag e' = etag \<and> oe_content e' = body"
  show ?thesis
  proof (cases fr)
    case (Inl err)
    with objs res show ?thesis unfolding e [symmetric] by auto
  next
    case (Inr be)
    with res have "fr = Inr (oe_content e', oe_etag e')" by auto
    with objs fr show ?thesis unfolding e [symmetric] by blast
  qed
qed

text \<open>Bucket mode keeps whatever content and ETag its entry starts with.\<close>

lemma run_ensure_not_url:
  fixes s :: "('w, 'x) op_state_scheme"
  assumes "mode \<noteq> ObjectModeURL" and run: "run_state (ensure_object_cached X key mode f) s = (r, s')"
  shows "\<exists>e'. objects s' = (objects s)(key \<mapsto> e') \<and> oe_mode e' = mode
    \<and> oe_etag e' = oe_etag (object_for (objects s key) mode)
    \<and> oe_content e' = oe_content (object_for (objects s key) mode) \<and> entries s' = entries s"
proof (cases mode)
  case ObjectModeURL
  with assms(1) show ?thesis by simp
next
  case (ObjectModeOther n)
  let ?e = "(object_for (objects s key) mode)\<lparr>oe_fetcher := Some f\<rparr>"
  have "objects s' = (objects s)(key \<mapsto> ?e)" "entries s' = entries s"
    using run ObjectModeOther by (auto simp: ensure_object_cached_def ensure_object_cached_body_alt Let_def)
  then show ?thesis by (intro exI [of _ ?e]) simp
next
  case ObjectModeBucket
  define e where "e = (object_for (objects s key) ObjectModeBucket)\<lparr>oe_fetcher := Some f\<rparr>"
  obtain p w where p: "run_state (probe X f) (s\<lparr>objects := (objects s)(key \<mapsto> e)\<rparr>)
      = (p, s\<lparr>objects := (objects s)(key \<mapsto> e), world := w\<rparr>)"
    using any_fetcher.run_probe [of X f "s\<lparr>objects := (objects s)(key \<mapsto> e)\<rparr>"] by auto
  define e' where "e' = (case p of None \<Rightarrow> e\<lparr>oe_last_synced := fst (run_state (now X) w)\<rparr> | Some _ \<Rightarrow> e)"
  have "objects s' = (objects s)(key \<mapsto> e') \<and> entries s' = entries s"
  proof (cases p)
    case None
    with run p ObjectModeBucket show ?thesis
      by (auto simp: ensure_object_cached_def ensure_object_cached_body_alt Let_def e_def [symmetric] run_on_world e'_def)
  next
    case (Some err)
    with run p ObjectModeBucket show ?thesis
      by (auto simp: ensure_object_cached_def ensure_object_cached_body_alt Let_def e_def [symmetric] e'_def)
  qed
  moreover have "oe_mode e' = mode" "oe_etag e' = oe_etag (object_for (objects s key) mode)"
    "oe_content e' = oe_content (object_for (objects s key) mode)"
    by (auto simp: e'_def e_def ObjectModeBucket split: option.split)
  ultimately show ?thesis by blast
qed

section \<open>Sequences of registry operations\<close>

datatype registry_op =
    EnsureCachedOp objkey git_config
  | ReadOp objkey string
  | ForgetOp objkey
  | EnsureObjectOp objkey object_mode fetcher
  | ReadObjectOp objkey string
  | ForgetObjectOp objkey

fun registry_step :: "'w git_ext \<Rightarrow> 'w remote_ext \<Rightarrow> registry_op \<Rightarrow> 'w op_state \<Rightarrow> 'w op_state" where
  "registry_step G X (EnsureCachedOp k cfg) s = snd (run_state (ensure_cached G k cfg) s)"
| "registry_step G X (ReadOp k path) s = snd (run_state (registry_read k path) s)"
| "registry_step G X (ForgetOp k) s = snd (run_state (registry_forget G k) s)"
| "registry_step G X (EnsureObjectOp k mode f) s = snd (run_state (ensure_object_cached X k mode f) s)"
| "registry_step G X (ReadObjectOp k path) s = snd (run_state (read_object X k path) s)"
| "registry_step G X (ForgetObjectOp k) s = snd (run_state (forget_object k) s)"

text \<open>An entry's directory is its repository's, and only URL entries hold content.\<close>

definition registry_ok :: "('w, 'x) op_state_scheme \<Rightarrow> bool" where
  "registry_ok s \<longleftrightarrow>
     (\<forall>k e. entries s k = Some e \<longrightarrow> en_cache_dir e = repo_cache_dir (en_repo e))
     \<and> (\<forall>k e. objects s k = Some e \<and> oe_mode e \<noteq> ObjectModeURL \<longrightarrow> oe_etag e = [] \<and> oe_content e = [])"

lemma registry_ok_same:
  "registry_ok s \<Longrightarrow> entries s' = entries s \<Longrightarrow> objects s' = objects s \<Longrightarrow> registry_ok s'"
  by (simp only: registry_ok_def)

lemma same_more_read: "state_io_rel same_more (registry_read k path)"
proof (rule state_io_relI)
  fix a and s s' :: "('w, 'x) op_state_scheme"
  assume "run_state (registry_read k path) s = (a, s')"
  then have "s' = s"
    by (auto simp: registry_read_def git_read_file_def Let_def split: option.splits if_splits)
  then show "same_more s s'" by (simp add: same_more_def)
qed

lemma same_more_read_object: "state_io_rel same_more (read_object X k path)"
  unfolding read_object_def
  apply (rule frame_bind [OF frame_rel_same_more] frame_gets [OF frame_rel_same_more])+
  apply (rule frame_case_option, rule frame_return [OF frame_rel_same_more])
  subgoal for a b
    by (cases "oe_mode b")
      (auto intro!: same_more_intros same_more_only_world [OF any_fetcher.fetch_world])
  done

lemma registry_step_ok:
  fixes s :: "'w op_state"
  assumes "registry_ok s"
  shows "registry_ok (registry_step G X op s)"
proof (cases op)
  case (EnsureCachedOp k cfg)
  obtain r s' where run: "run_state (ensure_cached G k cfg) s = (r, s')" by fastforce
  have "registry_ok s'"
    using run
  proof (cases rule: run_ensure_cached)
    case (refused err)
    show ?thesis using registry_ok_same [OF assms refused(2,3)] .
  next
    case (cached repo x res t u)
    have "en_cache_dir x = repo_cache_dir (en_repo x)"
      using assms cached(2) by (auto simp: entry_for_def fresh_entry_def registry_ok_def split: option.splits)
    with assms cached(5,7) show ?thesis by (auto simp: registry_ok_def split: sum.splits)
  qed
  with run EnsureCachedOp show ?thesis by simp
next
  case (EnsureObjectOp k mode f)
  obtain r s' where run: "run_state (ensure_object_cached X k mode f) s = (r, s')" by fastforce
  have "registry_ok s'"
  proof (cases "mode = ObjectModeURL")
    case True
    obtain e' where "objects s' = (objects s)(k \<mapsto> e')" "oe_mode e' = ObjectModeURL" "entries s' = entries s"
      using url_refresh_entry [OF run [unfolded True]] by blast
    with assms show ?thesis by (auto simp: registry_ok_def)
  next
    case False
    from run_ensure_not_url [OF False run] obtain e' where e': "objects s' = (objects s)(k \<mapsto> e')"
        "oe_mode e' = mode" "oe_etag e' = oe_etag (object_for (objects s k) mode)"
        "oe_content e' = oe_content (object_for (objects s k) mode)" "entries s' = entries s" by blast
    have "oe_etag (object_for (objects s k) mode) = [] \<and> oe_content (object_for (objects s k) mode) = []"
      using assms False by (auto simp: object_for_def new_object_entry_def registry_ok_def split: option.split)
    with e' assms show ?thesis by (auto simp: registry_ok_def)
  qed
  with run EnsureObjectOp show ?thesis by simp
next
  case (ReadOp k path)
  then show ?thesis
    using assms same_more_op [OF state_io_rel_run [OF same_more_read, of s k path]]
    by (metis registry_ok_same registry_step.simps(2))
next
  case (ReadObjectOp k path)
  then show ?thesis
    using assms same_more_op [OF state_io_rel_run [OF same_more_read_object, of s X k path]]
    by (metis registry_ok_same registry_step.simps(5))
next
  case (ForgetOp k)
  with assms show ?thesis
    by (cases "entries s k") (auto simp: registry_forget_def registry_ok_def)
next
  case (ForgetObjectOp k)
  with assms show ?thesis by (auto simp: forget_object_def registry_ok_def)
qed

section \<open>Properties\<close>

text \<open>
Refreshing a URL source never pairs content with a foreign ETag and never loses content: after
a successful fetch the cache holds exactly the body and ETag of that one response; after a 304 or
any error it holds the content and ETag it had before. Other caches and the file system are
untouched, and one metric with the outcome is emitted.
\<close>

theorem url_refresh_coherent:
  fixes s s' :: "('w, 'x) op_state_scheme"
  assumes "run_state (ensure_object_cached X key ObjectModeURL f) s = (r, s')"
  shows "\<exists>e'. objects s' = (objects s)(key \<mapsto> e') \<and> oe_mode e' = ObjectModeURL
    \<and> (((oe_content e', oe_etag e') = (let e = object_for (objects s key) ObjectModeURL in (oe_content e, oe_etag e)))
       \<or> (\<exists>(t :: ('w, 'x) op_state_scheme) t'. run_state (fetch X f [] (oe_etag (object_for (objects s key) ObjectModeURL))) t
              = (Inr (oe_content e', oe_etag e'), t') \<and> world t = world s \<and> r = Inr (oe_etag e')))
    \<and> (\<forall>etag. r = Inr etag \<longrightarrow> oe_etag e' = etag)
    \<and> entries s' = entries s \<and> fsys s' = fsys s
    \<and> events s' = Observed ObjectFetchDuration (result_label r) # events s"
proof (rule run_ensure_url [OF assms])
  fix e' fr w e
  let ?t = "s\<lparr>objects := (objects s)(key \<mapsto> e\<lparr>oe_fetcher := Some f\<rparr>)\<rparr>"
  assume e: "e = object_for (objects s key) ObjectModeURL"
    and fr: "run_state (fetch X f [] (oe_etag e)) ?t
      = (fr, s\<lparr>objects := (objects s)(key \<mapsto> e\<lparr>oe_fetcher := Some f\<rparr>), world := w\<rparr>)"
    and rest: "objects s' = (objects s)(key \<mapsto> e')" "oe_mode e' = ObjectModeURL" "oe_fetcher e' = Some f"
      "entries s' = entries s" "fsys s' = fsys s" "events s' = Observed ObjectFetchDuration (result_label r) # events s"
    and case_fr: "case fr of
        Inl err \<Rightarrow> r = (if is_not_modified err then Inr (oe_etag e) else Inl (ObjectError err))
          \<and> oe_etag e' = oe_etag e \<and> oe_content e' = oe_content e
      | Inr (body, etag) \<Rightarrow> r = Inr etag \<and> oe_etag e' = etag \<and> oe_content e' = body"
  have tags: "\<forall>etag. r = Inr etag \<longrightarrow> oe_etag e' = etag"
    using case_fr by (cases fr) (auto split: if_splits)
  have pair: "(oe_content e', oe_etag e') = (oe_content e, oe_etag e)
      \<or> (\<exists>(t :: ('w, 'x) op_state_scheme) t'. run_state (fetch X f [] (oe_etag e)) t = (Inr (oe_content e', oe_etag e'), t')
            \<and> world t = world s \<and> r = Inr (oe_etag e'))"
  proof (cases fr)
    case (Inl err)
    with case_fr show ?thesis by auto
  next
    case (Inr be)
    with case_fr have "fr = Inr (oe_content e', oe_etag e')" "r = Inr (oe_etag e')" by auto
    moreover have "world ?t = world s" by simp
    ultimately show ?thesis using fr by blast
  qed
  show ?thesis
    using rest tags pair unfolding e Let_def by blast
qed

theorem url_refresh_coherent_witness:
  "\<exists>s' e'. run_state (ensure_object_cached (mem_remote [(''u'', ''body'', ''v1'')] []) (ObjectKey ''n'' ''o'')
        ObjectModeURL (HTTPSFetcher (new_https_fetcher ''u'' \<lparr>ha_bearer_token = [], ha_username = [], ha_password = []\<rparr>)))
      (new_registry remote_start) = (Inr ''v1'', s')
    \<and> objects s' (ObjectKey ''n'' ''o'') = Some e' \<and> oe_etag e' = ''v1''"
proof -
  let ?X = "mem_remote [(''u'', ''body'', ''v1'')] []"
  let ?f = "HTTPSFetcher (new_https_fetcher ''u'' \<lparr>ha_bearer_token = [], ha_username = [], ha_password = []\<rparr>)"
  let ?k = "ObjectKey ''n'' ''o''"
  have "fst (run_state (ensure_object_cached ?X ?k ObjectModeURL ?f) (new_registry remote_start)) = Inr ''v1''"
    by code_simp
  then obtain s' where run: "run_state (ensure_object_cached ?X ?k ObjectModeURL ?f) (new_registry remote_start)
      = (Inr ''v1'', s')" by (metis prod.collapse)
  from url_refresh_coherent [OF run] obtain e' where
    "objects s' = (objects (new_registry remote_start))(?k \<mapsto> e')" "oe_etag e' = ''v1''" by blast
  with run show ?thesis by (metis fun_upd_same)
qed

text \<open>
What a consumer reads from a URL source is the content and the ETag of the last successful
fetch, however many refreshes have failed or found nothing new since.
\<close>

theorem read_gives_last_fetched:
  assumes "objects s key = Some e" and "oe_mode e = ObjectModeURL" and "oe_content e \<noteq> []"
    and "\<forall>f \<in> set fs. \<forall>t t' b etag. run_state (fetch X f [] (oe_etag e)) (t :: 'w op_state) \<noteq> (Inr (b, etag), t')"
    and "s' = fold (\<lambda>f t. snd (run_state (ensure_object_cached X key ObjectModeURL f) t)) fs (s :: 'w op_state)"
  shows "fst (run_state (read_object X key path) s') = Inr (oe_content e, oe_etag e)"
proof -
  have keep: "\<exists>e'. objects t' key = Some e' \<and> oe_mode e' = ObjectModeURL \<and> oe_content e' = oe_content e
      \<and> oe_etag e' = oe_etag e"
    if t: "objects t key = Some x" "oe_mode x = ObjectModeURL" "oe_content x = oe_content e" "oe_etag x = oe_etag e"
      and f: "f \<in> set fs" and t': "t' = snd (run_state (ensure_object_cached X key ObjectModeURL f) t)"
    for f x and t t' :: "'w op_state"
  proof -
    have obj: "object_for (objects t key) ObjectModeURL = x" using t by (simp add: object_for_def)
    obtain r where run: "run_state (ensure_object_cached X key ObjectModeURL f) t = (r, t')"
      using t' by (metis prod.collapse)
    from url_refresh_entries [OF run] obtain e' where e': "objects t' = (objects t)(key \<mapsto> e')"
        "oe_mode e' = ObjectModeURL"
        "(oe_content e' = oe_content x \<and> oe_etag e' = oe_etag x)
          \<or> (\<exists>(u :: 'w op_state) u'. run_state (fetch X f [] (oe_etag x)) u = (Inr (oe_content e', oe_etag e'), u'))"
      unfolding obj by blast
    moreover have "\<not> (\<exists>(u :: 'w op_state) u'. run_state (fetch X f [] (oe_etag x)) u = (Inr (oe_content e', oe_etag e'), u'))"
      using assms(4) f t(4) by auto
    ultimately show ?thesis using t by auto
  qed
  have "\<exists>e'. objects (fold (\<lambda>f t. snd (run_state (ensure_object_cached X key ObjectModeURL f) t)) gs t) key = Some e'
      \<and> oe_mode e' = ObjectModeURL \<and> oe_content e' = oe_content e \<and> oe_etag e' = oe_etag e"
    if "set gs \<subseteq> set fs" "objects t key = Some x" "oe_mode x = ObjectModeURL"
      "oe_content x = oe_content e" "oe_etag x = oe_etag e" for gs x and t :: "'w op_state"
    using that
  proof (induction gs arbitrary: t x)
    case (Cons g gs)
    have "g \<in> set fs" using Cons.prems(1) by simp
    from keep [OF Cons.prems(2-5) this refl] Cons.IH Cons.prems(1) show ?case by auto
  qed auto
  from this [of fs s e] assms obtain e' where "objects s' key = Some e'" "oe_mode e' = ObjectModeURL"
      "oe_content e' = oe_content e" "oe_etag e' = oe_etag e" by auto
  with assms(3) show ?thesis by (simp add: read_object_def)
qed

definition anonymous :: https_auth where
  "anonymous = \<lparr>ha_bearer_token = [], ha_username = [], ha_password = []\<rparr>"

definition url_fetcher :: "string \<Rightarrow> fetcher" where
  "url_fetcher url = HTTPSFetcher (new_https_fetcher url anonymous)"

definition cached_object :: "bytes \<Rightarrow> string \<Rightarrow> object_entry" where
  "cached_object content etag =
     \<lparr>oe_mode = ObjectModeURL, oe_fetcher = None, oe_etag = etag, oe_content = content, oe_last_synced = 1\<rparr>"

theorem read_gives_last_fetched_witness:
  "fst (run_state (read_object (mem_remote [] []) (ObjectKey ''n'' ''o'') ''x'')
     (snd (run_state (ensure_object_cached (mem_remote [] []) (ObjectKey ''n'' ''o'') ObjectModeURL (url_fetcher ''gone''))
        ((new_registry remote_start)\<lparr>objects := [ObjectKey ''n'' ''o'' \<mapsto> cached_object ''body'' ''v1'']\<rparr>))))
   = Inr (''body'', ''v1'')"
proof -
  let ?X = "mem_remote [] []" and ?k = "ObjectKey ''n'' ''o''"
  let ?s = "(new_registry remote_start)\<lparr>objects := [?k \<mapsto> cached_object ''body'' ''v1'']\<rparr>"
  have none: "\<forall>f \<in> set [url_fetcher ''gone'']. \<forall>t t' b etag.
      run_state (fetch ?X f [] (oe_etag (cached_object ''body'' ''v1''))) (t :: nat op_state) \<noteq> (Inr (b, etag), t')"
    by (simp add: url_fetcher_def fetch_def https_fetch_def mem_remote_def mem_http_def run_on_world
        new_https_fetcher_def cached_object_def apply_auth_def anonymous_def)
  have ent: "objects ?s ?k = Some (cached_object ''body'' ''v1'')" by simp
  from read_gives_last_fetched [OF ent _ _ none refl] show ?thesis by (simp add: cached_object_def)
qed






text \<open>
A cache entry is not tied to the URL it was filled from: after \<open>spec.url\<close> is edited, the old
ETag is sent to the new URL, and a 304 from there keeps serving the old URL's content.
\<close>

theorem stale_content_after_url_edit:
  "let X = mem_remote [(''u1'', ''old'', ''v1''), (''u2'', ''new'', ''v1'')] [];
       k = ObjectKey ''n'' ''o'';
       s1 = snd (run_state (ensure_object_cached X k ObjectModeURL (url_fetcher ''u1'')) (new_registry remote_start));
       (r, s2) = run_state (ensure_object_cached X k ObjectModeURL (url_fetcher ''u2'')) s1
   in r = Inr ''v1'' \<and> fst (run_state (read_object X k []) s2) = Inr (''old'', ''v1'')"
  by code_simp

text \<open>
New credentials are ignored while the cache directory stays the same: with an entry on record
for that directory, a refresh does the same whatever \<open>spec.auth\<close> resolves to now, for it goes on
using the repository object made with the first credentials.
\<close>

theorem rotated_credentials_ignored:
  fixes s :: "('w, 'x) op_state_scheme"
  assumes "entries s key = Some e" and "fst (run_state (git_new G cfg) s) = Inr repo"
    and "repo_cache_dir repo = en_cache_dir e"
  shows "run_state (ensure_cached G key (cfg\<lparr>cfg_auth := a\<rparr>)) s = run_state (ensure_cached G key cfg) s"
proof -
  have new: "run_state (git_new G (cfg\<lparr>cfg_auth := a\<rparr>)) t
      = map_prod (map_sum id (\<lambda>r. r\<lparr>repo_cfg := (repo_cfg r)\<lparr>cfg_auth := a\<rparr>\<rparr>)) id (run_state (git_new G cfg) t)"
    for t :: "('w, 'x) op_state_scheme"
  proof (cases "cfg_url cfg = []")
    case False
    have d: "default_branch (cfg\<lparr>cfg_auth := a\<rparr>) = (default_branch cfg)\<lparr>cfg_auth := a\<rparr>"
      by (simp add: default_branch_def)
    have h: "cache_hash (c\<lparr>cfg_auth := a\<rparr>) = cache_hash c" for c
      by (simp add: cache_hash_def cache_key_def)
    obtain x u where "run_state (resolve_cache_root G (cfg_cache_root (default_branch cfg))) t = (x, u)"
      by fastforce
    then show ?thesis using False by (cases x) (simp_all add: git_new_def d h Let_def)
  qed (simp add: git_new_def)
  obtain s1 where s1: "run_state (git_new G cfg) s = (Inr repo, s1)"
    using assms(2) by (metis prod.collapse)
  have "entries s1 key = Some e"
    using assms(1) same_more_op(1) [OF frame_run [OF same_more_new s1]] by simp
  then show ?thesis
    using assms(3) s1 by (simp add: ensure_cached_def ensure_cached_body_def new)
qed

definition git_start :: "(string list \<times> node) list \<Rightarrow> unit op_state" where
  "git_start files = new_registry (start_state files)"

definition clone_entry :: "string \<Rightarrow> string \<Rightarrow> entry" where
  "clone_entry url dir = \<lparr>en_repo = plain_repo url dir, en_cache_dir = dir, en_commit_sha = ''c0''\<rparr>"

text \<open>The directory of the repository \<open>u\<close> below \<open>/c\<close>.\<close>

definition u_dir :: string where
  "u_dir = filepath_join [''/c'', cache_hash (plain_config ''u'')]"

theorem rotated_credentials_ignored_witness:
  "let s = (git_start [([''c''], Dir)])\<lparr>entries := [ObjectKey ''n'' ''g'' \<mapsto> clone_entry ''u'' u_dir]\<rparr>;
       new = \<lparr>auth_basic = Some \<lparr>ba_username = ''bot'', ba_password = ''rotated''\<rparr>, auth_ssh = None\<rparr>
   in run_state (ensure_cached (mem_git True []) (ObjectKey ''n'' ''g'') ((plain_config ''u'')\<lparr>cfg_auth := new\<rparr>)) s
    = run_state (ensure_cached (mem_git True []) (ObjectKey ''n'' ''g'') (plain_config ''u'')) s"
proof -
  let ?k = "ObjectKey ''n'' ''g''"
  let ?s = "(git_start [([''c''], Dir)])\<lparr>entries := [?k \<mapsto> clone_entry ''u'' u_dir]\<rparr>"
  have ent: "entries ?s ?k = Some (clone_entry ''u'' u_dir)" by simp
  have "raw_elems ''/c'' = [''c'']" by code_simp
  then have "run_state (mkdir_all (mem_git True []) ''/c'') ?s = (None, ?s)"
    by (simp add: mkdir_all_def mem_git_def run_on_world git_start_def new_registry_def start_state_def fs_of_def
        os_state.defs op_state.defs)
  moreover have "default_branch (plain_config ''u'') = plain_config ''u''" "cfg_cache_root (plain_config ''u'') = ''/c''"
    "cfg_url (plain_config ''u'') = ''u''"
    by (simp_all add: default_branch_def plain_config_def)
  ultimately have new: "fst (run_state (git_new (mem_git True []) (plain_config ''u'')) ?s) = Inr (plain_repo ''u'' u_dir)"
    by (simp add: git_new_def resolve_cache_root_def run_on_world Let_def plain_repo_def u_dir_def)
      (simp add: mem_git_def)
  have dir: "repo_cache_dir (plain_repo ''u'' u_dir) = en_cache_dir (clone_entry ''u'' u_dir)"
    by (simp add: plain_repo_def clone_entry_def)
  from rotated_credentials_ignored [OF ent new dir] show ?thesis unfolding Let_def by blast
qed

text \<open>
Two \<open>GitRepository\<close> objects with the same URL and pin share one cache directory, and deleting
either of them removes it under the other: the other's next read fails although nothing was wrong
with it.
\<close>

theorem forget_breaks_twin:
  "let s = (git_start [([''c''], Dir), ([''c'', ''a''], Dir), ([''c'', ''a'', ''s.yaml''], File ''A'')])
           \<lparr>entries := [ObjectKey ''n1'' ''g'' \<mapsto> clone_entry ''u'' ''/c/a'', ObjectKey ''n2'' ''g'' \<mapsto> clone_entry ''u'' ''/c/a'']\<rparr>;
       s' = snd (run_state (registry_forget (mem_git True []) (ObjectKey ''n2'' ''g'')) s)
   in fst (run_state (registry_read (ObjectKey ''n1'' ''g'') ''s.yaml'') s) = Inr (''A'', ''c0'')
    \<and> fst (run_state (registry_read (ObjectKey ''n1'' ''g'') ''s.yaml'') s')
        = Inl (GitError (ReadFailed ''no such file or directory''))"
  by code_simp

text \<open>
C32: Whatever sequence of refreshes, reads and removals the controllers perform, an entry's cache
directory is always that of the repository object it holds, and a bucket source never holds
content or an ETag.
\<close>

theorem registry_invariant:
  "registry_ok (fold (registry_step G X) ops (new_registry s))"
proof -
  have keep: "registry_ok t \<Longrightarrow> registry_ok (fold (registry_step G X) ops t)" for t
  proof (induction ops arbitrary: t)
    case (Cons op ops)
    show ?case using Cons.IH [OF registry_step_ok [OF Cons.prems]] by simp
  qed simp
  have "registry_ok (new_registry s)"
    by (simp add: registry_ok_def new_registry_def os_state.defs op_state.defs)
  then show ?thesis by (rule keep)
qed

text \<open>
After a successful refresh, a read of that source reports the commit the refresh resolved,
with the content of the file in its clone; the refresh leaves every other source's entry alone.
\<close>

theorem read_reports_refreshed_commit:
  assumes "run_state (ensure_cached G key cfg) (s :: 'w op_state) = (Inr sha, s')"
  shows "\<exists>e. entries s' key = Some e
    \<and> fst (run_state (registry_read key path) s')
        = (case fst (run_state (git_read_file (en_repo e) path) s') of
             Inl err \<Rightarrow> Inl (GitError err) | Inr content \<Rightarrow> Inr (content, sha))
    \<and> (\<forall>k. k \<noteq> key \<longrightarrow> entries s' k = entries s k)"
  using assms
proof (cases rule: run_ensure_cached)
  case (refused err)
  then show ?thesis by simp
next
  case (cached repo x res t u)
  from cached(4) have res: "res = Inr sha" by (cases res) auto
  let ?e = "x\<lparr>en_commit_sha := sha\<rparr>"
  have e: "entries s' = (entries s)(key \<mapsto> ?e)" using cached(5) res by simp
  obtain c v where c: "run_state (git_read_file (en_repo ?e) path) s' = (c, v)" by fastforce
  have "fst (run_state (registry_read key path) s')
      = (case c of Inl err \<Rightarrow> Inl (GitError err) | Inr content \<Rightarrow> Inr (content, sha))"
    using e c by (cases c) (simp_all add: registry_read_def)
  with e c show ?thesis by (intro exI [of _ ?e]) simp
qed

text \<open>A state in which every path is a directory, whatever the hash of the clone's directory is.\<close>

definition all_dirs :: "unit op_state" where
  "all_dirs = new_registry \<lparr>world = (), fsys = (\<lambda>_. Some Dir), penv = (\<lambda>_. None)\<rparr>"

lemma all_dirs_exist: "fs_exists (\<lambda>_. Some Dir) path"
proof -
  have "\<exists>p. fs_walk n (\<lambda>_. Some Dir) cur es = Inr p" for n cur es
    by (induction es arbitrary: cur) auto
  then show ?thesis by (auto simp: fs_exists_def fs_real_def split: sum.split) (metis Inl_Inr_False)
qed

lemma all_dirs_made: "fs_mkdirs (\<lambda>_. Some Dir) cur es = ((\<lambda>_. Some Dir), None)"
  by (induction es arbitrary: cur) auto

lemma ensure_cached_all_dirs:
  "fst (run_state (ensure_cached (mem_git True files) key (plain_config ''u'')) all_dirs) = Inr ''c0''"
proof -
  have cfg: "default_branch (plain_config ''u'') = plain_config ''u''" "cfg_cache_root (plain_config ''u'') = ''/c''"
    "cfg_url (plain_config ''u'') = ''u''"
    by (simp_all add: default_branch_def plain_config_def)
  have st: "fsys all_dirs = (\<lambda>_. Some Dir)" "entries all_dirs = Map.empty"
    by (simp_all add: all_dirs_def new_registry_def os_state.defs op_state.defs)
  have "run_state (mkdir_all (mem_git True files) ''/c'') all_dirs = (None, all_dirs)"
    by (simp add: mkdir_all_def mem_git_def run_on_world all_dirs_made all_dirs_def new_registry_def
        os_state.defs op_state.defs)
  then have new: "run_state (git_new (mem_git True files) (plain_config ''u'')) all_dirs
      = (Inr (plain_repo ''u'' u_dir), all_dirs)"
    by (simp add: git_new_def resolve_cache_root_def run_on_world Let_def plain_repo_def u_dir_def cfg)
      (simp add: mem_git_def)
  have auth: "auth_method (mem_git True files) (plain_repo ''u'' u_dir) = State_Monad.return (Inr None)"
    by (simp add: auth_method_def plain_repo_def plain_config_def)
  have update: "fst (run_state (update_and_resolve (mem_git True files) (plain_repo ''u'' u_dir) am) t) = Inr ''c0''"
    for am and t :: "unit op_state"
    by (simp add: update_and_resolve_def mem_git_def run_on_world_fs resolve_head_def plain_repo_def plain_config_def)
  obtain x y where xy: "run_state (update_and_resolve (mem_git True files) (plain_repo ''u'' u_dir) None)
      (all_dirs\<lparr>entries := [key \<mapsto> fresh_entry (plain_repo ''u'' u_dir)]\<rparr>) = (x, y)" by fastforce
  with update have "x = Inr ''c0''" by (metis fst_conv)
  with xy show ?thesis
    by (simp add: ensure_cached_def ensure_cached_body_def new st ensure_cloned_def fresh_entry_def auth all_dirs_exist)
qed

theorem read_reports_refreshed_commit_witness:
  "\<exists>s' e. run_state (ensure_cached (mem_git True []) (ObjectKey ''n'' ''g'') (plain_config ''u'')) all_dirs
      = (Inr ''c0'', s') \<and> entries s' (ObjectKey ''n'' ''g'') = Some e"
proof -
  obtain s' where run: "run_state (ensure_cached (mem_git True []) (ObjectKey ''n'' ''g'') (plain_config ''u'')) all_dirs
      = (Inr ''c0'', s')"
    using ensure_cached_all_dirs by (metis prod.collapse)
  from read_reports_refreshed_commit [OF run] run show ?thesis by blast
qed

end
