(* ===== verification/Tracker.thy ===== *)
theory Tracker
  imports Registry
begin

text \<open>
  \<open>reconcileTracker\<close> of \<open>internal/controller/labels.go\<close>: the metrics and spans of one reconcile, and
  \<open>disabled\<close> of \<open>internal/tracing/tracing.go\<close>. The tracker of the reconcile that runs is a field of
  the state; \<open>tracked\<close> is the pair of \<open>trackReconcile\<close> and the deferred \<open>Finish\<close> around a body.
\<close>

section \<open>Operations\<close>

definition set_tracker :: "(tracker \<Rightarrow> tracker) \<Rightarrow> ('w, 'x, unit) op_prog" where
  "set_tracker f = modify (\<lambda>s. s\<lparr>tracker := f (tracker s)\<rparr>)"

definition track_reconcile :: "string \<Rightarrow> string \<Rightarrow> string \<Rightarrow> ('w, 'x, unit) op_prog" where
  "track_reconcile kind namespace name = do {
     set_tracker (\<lambda>_. \<lparr>tk_metric_kind = kind, tk_fail_stage = [],
       tk_root_span = Some (kind @ ''.Reconcile''), tk_stage_span = None\<rparr>);
     emit (SpanStarted (kind @ ''.Reconcile'')
       [(''sops.kind'', kind), (''sops.namespace'', namespace), (''sops.name'', name)])
   }"

definition end_stage_span :: "('w, 'x, unit) op_prog" where
  "end_stage_span = do {
     t \<leftarrow> gets tracker;
     case tk_stage_span t of
       None \<Rightarrow> State_Monad.return ()
     | Some n \<Rightarrow> do {
         emit (SpanEnded n);
         set_tracker (\<lambda>t. t\<lparr>tk_stage_span := None\<rparr>)
       }
   }"

definition track_stage :: "string \<Rightarrow> ('w, 'x, unit) op_prog" where
  "track_stage stg = do {
     end_stage_span;
     emit (SpanStarted (''stage.'' @ stg) [(''sops.stage'', stg)]);
     set_tracker (\<lambda>t. t\<lparr>tk_stage_span := Some (''stage.'' @ stg)\<rparr>)
   }"

definition span_failed :: "string option \<Rightarrow> string \<Rightarrow> ('w, 'x, unit) op_prog" where
  "span_failed span msg =
     (case span of
        None \<Rightarrow> State_Monad.return ()
      | Some n \<Rightarrow> do { emit (SpanErrorRecorded n msg); emit (SpanStatusError n msg) })"

text \<open>\<open>Fail\<close> is always called with an error; its text is \<open>msg\<close>.\<close>

definition track_fail :: "string \<Rightarrow> string \<Rightarrow> ('w, 'x, unit) op_prog" where
  "track_fail stg msg = do {
     set_tracker (\<lambda>t. t\<lparr>tk_fail_stage := stg\<rparr>);
     t \<leftarrow> gets tracker;
     span_failed (tk_stage_span t) msg;
     span_failed (tk_root_span t) msg
   }"

definition root_attributes :: "(string \<times> string) list \<Rightarrow> ('w, 'x, unit) op_prog" where
  "root_attributes attrs = do {
     t \<leftarrow> gets tracker;
     case tk_root_span t of
       None \<Rightarrow> State_Monad.return ()
     | Some n \<Rightarrow> emit (SpanAttributes n attrs)
   }"

definition set_source_ref :: "string \<Rightarrow> string \<Rightarrow> ('w, 'x, unit) op_prog" where
  "set_source_ref kind name = root_attributes [(''sops.source.kind'', kind), (''sops.source.name'', name)]"

definition set_commit :: "string \<Rightarrow> ('w, 'x, unit) op_prog" where
  "set_commit revision =
     (if revision = [] then State_Monad.return () else root_attributes [(''sops.commit'', revision)])"

definition set_content_hash :: "string \<Rightarrow> ('w, 'x, unit) op_prog" where
  "set_content_hash hash =
     (if hash = [] then State_Monad.return () else root_attributes [(''sops.content_hash'', hash)])"

definition track_finish :: "('w, 'x, unit) op_prog" where
  "track_finish = do {
     end_stage_span;
     t \<leftarrow> gets tracker;
     (case tk_root_span t of None \<Rightarrow> State_Monad.return () | Some n \<Rightarrow> emit (SpanEnded n));
     let result = (if tk_fail_stage t \<noteq> [] then ResultError else ResultSuccess);
     (if tk_fail_stage t \<noteq> [] then emit (ReconcileErrorCounted (tk_metric_kind t) (tk_fail_stage t))
      else State_Monad.return ());
     emit (ReconcileCounted (tk_metric_kind t) result);
     emit (ReconcileObserved (tk_metric_kind t) result)
   }"

definition tracked :: "string \<Rightarrow> objkey \<Rightarrow> ('w, 'x, 'a) op_prog \<Rightarrow> ('w, 'x, 'a) op_prog" where
  "tracked kind req body = do {
     track_reconcile kind (ok_namespace req) (ok_name req);
     r \<leftarrow> body;
     track_finish;
     State_Monad.return r
   }"

text \<open>\<open>tracing.disabled\<close>\<close>

definition tracing_disabled :: "(string \<Rightarrow> string option) \<Rightarrow> bool" where
  "tracing_disabled env =
     (if getenv env ''OTEL_SDK_DISABLED'' = ''true'' then True
      else if getenv env ''OTEL_EXPORTER_OTLP_ENDPOINT'' = []
            \<and> getenv env ''OTEL_EXPORTER_OTLP_TRACES_ENDPOINT'' = [] then True
      else False)"

section \<open>What a reconcile's body keeps\<close>

text \<open>How often a span was started and not ended, and whether the tracker holds it.\<close>

fun open_spans :: "event list \<Rightarrow> string \<Rightarrow> int" where
  "open_spans [] n = 0"
| "open_spans (SpanStarted m attrs # es) n = open_spans es n + (if m = n then 1 else 0)"
| "open_spans (SpanEnded m # es) n = open_spans es n - (if m = n then 1 else 0)"
| "open_spans (e # es) n = open_spans es n"

fun is_count :: "event \<Rightarrow> bool" where
  "is_count (ReconcileCounted _ _) = True"
| "is_count (ReconcileErrorCounted _ _) = True"
| "is_count _ = False"

definition live :: "string option \<Rightarrow> string \<Rightarrow> int" where
  "live span n = (if span = Some n then 1 else 0)"

definition span_frame :: "('w, 'x) op_state_scheme \<Rightarrow> ('w, 'x) op_state_scheme \<Rightarrow> bool" where
  "span_frame s s' \<longleftrightarrow>
     (\<forall>n. open_spans (events s') n - live (tk_stage_span (tracker s')) n
        = open_spans (events s) n - live (tk_stage_span (tracker s)) n)
     \<and> tk_root_span (tracker s') = tk_root_span (tracker s)
     \<and> tk_metric_kind (tracker s') = tk_metric_kind (tracker s)
     \<and> filter is_count (events s') = filter is_count (events s)"

lemma frame_rel_span: "frame_rel span_frame"
  by (rule frame_relI) (auto simp: span_frame_def)

lemma run_set_tracker [simp]: "run_state (set_tracker f) s = ((), s\<lparr>tracker := f (tracker s)\<rparr>)"
  by (simp add: set_tracker_def)

lemma span_frame_same:
  fixes m :: "('w, 'x, 'a) op_prog"
  shows "state_io_rel same_more m \<Longrightarrow> state_io_rel span_frame m"
proof (rule state_io_relI)
  fix a and s s' :: "('w, 'x) op_state_scheme"
  assume "state_io_rel same_more m" and "run_state m s = (a, s')"
  from same_more_op [OF frame_run [OF this]] show "span_frame s s'" by (simp add: span_frame_def)
qed

lemma span_frame_emit:
  "(case e of SpanStarted _ _ \<Rightarrow> False | SpanEnded _ \<Rightarrow> False | _ \<Rightarrow> True) \<Longrightarrow> \<not> is_count e
    \<Longrightarrow> state_io_rel span_frame (emit e)"
  by (rule state_io_relI) (cases e; auto simp: span_frame_def emit_def)

lemma span_frame_end_stage: "state_io_rel span_frame end_stage_span"
  by (rule state_io_relI)
    (auto simp: end_stage_span_def span_frame_def live_def split: option.splits)

lemma run_end_stage:
  "run_state end_stage_span s =
     (case tk_stage_span (tracker s) of
        None \<Rightarrow> ((), s)
      | Some n \<Rightarrow> ((), s\<lparr>events := SpanEnded n # events s, tracker := (tracker s)\<lparr>tk_stage_span := None\<rparr>\<rparr>))"
  by (simp add: end_stage_span_def split: option.split)

lemma span_frame_stage: "state_io_rel span_frame (track_stage stg)"
proof (rule state_io_relI)
  fix a s s'
  assume run: "run_state (track_stage stg) s = (a, s')"
  show "span_frame s s'"
    using run by (auto simp: track_stage_def run_end_stage span_frame_def live_def split: option.splits)
qed

lemmas span_frame_intros =
  frame_bind [OF frame_rel_span] frame_return [OF frame_rel_span] frame_gets [OF frame_rel_span]
  frame_if frame_case_sum frame_case_option frame_case_prod

lemma span_frame_failed: "state_io_rel span_frame (span_failed span msg)"
  unfolding span_failed_def by (intro span_frame_intros span_frame_emit) simp_all

lemma span_frame_fail: "state_io_rel span_frame (track_fail stg msg)"
proof -
  have "state_io_rel span_frame (set_tracker (\<lambda>t. t\<lparr>tk_fail_stage := stg\<rparr>))"
    by (rule state_io_relI) (auto simp: span_frame_def)
  then show ?thesis unfolding track_fail_def by (intro span_frame_intros span_frame_failed)
qed

lemma span_frame_attributes:
  "state_io_rel span_frame (root_attributes attrs)"
  "state_io_rel span_frame (set_source_ref kind name)"
  "state_io_rel span_frame (set_commit revision)"
  "state_io_rel span_frame (set_content_hash hash)"
proof -
  show root: "state_io_rel span_frame (root_attributes attrs)" for attrs
    unfolding root_attributes_def by (intro span_frame_intros span_frame_emit) simp_all
  show "state_io_rel span_frame (set_source_ref kind name)"
    unfolding set_source_ref_def by (rule root)
  show "state_io_rel span_frame (set_commit revision)" "state_io_rel span_frame (set_content_hash hash)"
    unfolding set_commit_def set_content_hash_def by (intro span_frame_intros root)+
qed

text \<open>
  The contract of a reconcile's body: it leaves counting to the tracker and does not lose a span.
  Every span that \<open>tracked\<close> then starts is ended, and exactly one outcome is counted.
\<close>

lemma tracked_balanced:
  assumes "state_io_rel span_frame body" and run: "run_state (tracked kind req body) s = (r, s')"
  shows "open_spans (events s') n = open_spans (events s) n"
    and "\<exists>stg. filter is_count (events s')
      = (if stg = [] then [ReconcileCounted kind ResultSuccess]
         else [ReconcileCounted kind ResultError, ReconcileErrorCounted kind stg]) @ filter is_count (events s)"
proof -
  obtain u where u: "run_state (track_reconcile kind (ok_namespace req) (ok_name req)) s = ((), u)"
    by (metis old.unit.exhaust surj_pair)
  have eu: "events u = SpanStarted (kind @ ''.Reconcile'')
        [(''sops.kind'', kind), (''sops.namespace'', ok_namespace req), (''sops.name'', ok_name req)] # events s"
      and tu: "tracker u = \<lparr>tk_metric_kind = kind, tk_fail_stage = [],
       tk_root_span = Some (kind @ ''.Reconcile''), tk_stage_span = None\<rparr>"
    using u by (auto simp: track_reconcile_def)
  obtain v where v: "run_state body u = (r, v)" and f: "run_state track_finish v = ((), s')"
    using run u by (auto simp: tracked_def split: prod.splits)
  have fr: "span_frame u v" using frame_run [OF assms(1) v] .
  define stg where "stg = tk_fail_stage (tracker v)"
  have root: "tk_root_span (tracker v) = Some (kind @ ''.Reconcile'')" and kind: "tk_metric_kind (tracker v) = kind"
    using fr tu by (simp_all add: span_frame_def)
  have es': "events s' = [ReconcileObserved kind (if stg = [] then ResultSuccess else ResultError),
        ReconcileCounted kind (if stg = [] then ResultSuccess else ResultError)]
      @ (if stg = [] then [] else [ReconcileErrorCounted kind stg])
      @ [SpanEnded (kind @ ''.Reconcile'')]
      @ (case tk_stage_span (tracker v) of None \<Rightarrow> [] | Some m \<Rightarrow> [SpanEnded m]) @ events v"
    using f root kind
    by (cases "tk_stage_span (tracker v)") (auto simp: track_finish_def run_end_stage stg_def Let_def)
  have "open_spans (events s') n = open_spans (events v) n
      - live (tk_stage_span (tracker v)) n - (if kind @ ''.Reconcile'' = n then 1 else 0)"
    by (simp add: es' live_def split: option.split)
  also have "\<dots> = open_spans (events s) n"
    using fr tu eu by (simp add: span_frame_def live_def)
  finally show "open_spans (events s') n = open_spans (events s) n" .
  have "filter is_count (events v) = filter is_count (events s)"
    using fr eu by (simp add: span_frame_def)
  then show "\<exists>stg. filter is_count (events s')
      = (if stg = [] then [ReconcileCounted kind ResultSuccess]
         else [ReconcileCounted kind ResultError, ReconcileErrorCounted kind stg]) @ filter is_count (events s)"
    by (intro exI [of _ stg]) (simp add: es' split: option.split)
qed

end
