(* ===== verification/Decrypt.thy ===== *)
theory Decrypt
  imports Tracker
begin

text \<open>
  \<open>internal/decrypt/decrypt.go\<close>: decryption with the age key passed through the process environment,
  serialised by a mutex. SOPS itself is a parameter that may read the environment.

  The first half is \<open>DecryptAge\<close> as one operation; the second half is the mutex protocol as a
  state machine of concurrent calls, which is what makes the first half a single step.
\<close>

section \<open>One call\<close>

datatype decrypt_error =
    ContentEmpty
  | AgeKeyEmpty
  | SetEnvFailed string
  | SopsFailed string

text \<open>\<open>sopsdecrypt.Data\<close>: environment, content, format.\<close>

type_synonym 'w sops_lib = "(string \<Rightarrow> string option) \<Rightarrow> bytes \<Rightarrow> string \<Rightarrow> ('w, string + bytes) state"

definition format_from_path :: "string \<Rightarrow> string" where
  "format_from_path path =
     (let ext = to_lower (filepath_ext path) in
      if ext = ''.json'' then ''json''
      else if ext = ''.env'' \<or> ext = ''.ini'' then ''dotenv''
      else if ext = ''.yml'' \<or> ext = ''.yaml'' then ''yaml''
      else ''binary'')"

abbreviation age_var :: string where "age_var \<equiv> ''SOPS_AGE_KEY''"

text \<open>
  \<open>os.Setenv\<close> refuses a value with a NUL byte. Restoring cannot be refused: the previous value was in
  the environment. \<open>None\<close> unsets.
\<close>

abbreviation env_refuses :: "string \<Rightarrow> bool" where
  "env_refuses v \<equiv> CHR 0x00 \<in> set v"

definition setenv :: "string \<Rightarrow> string \<Rightarrow> ('w, 'x, string option) os_prog" where
  "setenv k v =
     (if env_refuses v then State_Monad.return (Some ''setenv: invalid argument'')
      else do {
        modify (\<lambda>s. s\<lparr>penv := (penv s)(k \<mapsto> v)\<rparr>);
        State_Monad.return None
      })"

definition restore_env :: "string \<Rightarrow> string option \<Rightarrow> ('w, 'x, unit) os_prog" where
  "restore_env k prev = modify (\<lambda>s. s\<lparr>penv := (penv s)(k := prev)\<rparr>)"

definition decrypt_age_body ::
  "'w sops_lib \<Rightarrow> bytes \<Rightarrow> string \<Rightarrow> bytes \<Rightarrow> ('w, 'x, decrypt_error + bytes) os_prog" where
  "decrypt_age_body sops content file_path age_key =
     (if content = [] then State_Monad.return (Inl ContentEmpty)
      else if age_key = [] then State_Monad.return (Inl AgeKeyEmpty)
      else do {
        prev \<leftarrow> gets (\<lambda>s. penv s age_var);
        err \<leftarrow> setenv age_var age_key;
        case err of
          Some e \<Rightarrow> State_Monad.return (Inl (SetEnvFailed e))
        | None \<Rightarrow> do {
            env \<leftarrow> gets penv;
            r \<leftarrow> on_world (sops env content (format_from_path file_path));
            restore_env age_var prev;
            State_Monad.return (map_sum SopsFailed id r)
          }
      })"

definition decrypt_age ::
  "'w sops_lib \<Rightarrow> bytes \<Rightarrow> string \<Rightarrow> bytes \<Rightarrow> ('w, 'x, decrypt_error + bytes) op_prog" where
  "decrypt_age sops content file_path age_key = do {
     r \<leftarrow> decrypt_age_body sops content file_path age_key;
     emit (Observed SopsDecryptDuration (result_label r));
     State_Monad.return r
   }"

text \<open>Everything but the world is as before, whichever way the call ends.\<close>

lemma run_decrypt_body:
  "\<exists>w. run_state (decrypt_age_body sops content path key) s =
     ((if content = [] then Inl ContentEmpty
       else if key = [] then Inl AgeKeyEmpty
       else if CHR 0x00 \<in> set key then Inl (SetEnvFailed ''setenv: invalid argument'')
       else map_sum SopsFailed id
         (fst (run_state (sops ((penv s)(age_var \<mapsto> key)) content (format_from_path path)) (world s)))),
      s\<lparr>world := w\<rparr>)"
proof -
  have same: "s = s\<lparr>world := world s\<rparr>" by simp
  have env: "(penv s)(age_var := penv s age_var) = penv s" by (rule fun_upd_triv)
  show ?thesis
  proof (cases "content = [] \<or> key = [] \<or> CHR 0x00 \<in> set key")
    case True
    with same show ?thesis by (auto simp: decrypt_age_body_def setenv_def intro!: exI [of _ "world s"])
  next
    case False
    then show ?thesis
      by (simp add: decrypt_age_body_def setenv_def restore_env_def run_on_world)
        (rule exI [of _ "snd (run_state (sops ((penv s)(age_var \<mapsto> key)) content (format_from_path path)) (world s))"],
          simp)
  qed
qed

lemma span_frame_decrypt: "state_io_rel span_frame (decrypt_age sops content path key)"
proof -
  have "state_io_rel same_more (decrypt_age_body sops content path key)"
    unfolding decrypt_age_body_def setenv_def restore_env_def
    by (intro same_more_intros) (auto simp: state_io_rel_def same_more_def)
  then show ?thesis
    unfolding decrypt_age_def by (intro span_frame_intros span_frame_same span_frame_emit) simp_all
qed

section \<open>Concurrent calls\<close>

text \<open>
  The calls are numbered; call \<open>i\<close> has the document \<open>docs i\<close> and the key \<open>keys i\<close>. \<open>ageKeyMu\<close> is held by
  at most one of them. What a call remembers between its steps is the value it found in the
  environment and the key that SOPS saw, whether SOPS then succeeds or fails. A call with an empty
  document or key returns before it takes the lock, one whose key the environment refuses before it
  gets to SOPS.
\<close>

datatype call_state =
    Waiting
  | Locked
  | SavedPrev "string option"
  | Refused  \<comment> \<open>\<open>os.Setenv\<close> failed; the deferred unlock is still to come\<close>
  | KeySet "string option"
  | Decrypted "string option" "string option"  \<comment> \<open>previous value, key SOPS saw\<close>
  | Restored "string option"
  | Returned "string option"
  | ReturnedError  \<comment> \<open>returned an error without calling SOPS\<close>

record machine =
  m_env :: "string option"  \<comment> \<open>\<open>SOPS_AGE_KEY\<close>\<close>
  m_locked :: bool
  m_calls :: "nat \<Rightarrow> call_state"

definition start_machine :: "string option \<Rightarrow> machine" where
  "start_machine env = \<lparr>m_env = env, m_locked = False, m_calls = (\<lambda>_. Waiting)\<rparr>"

abbreviation at_call :: "machine \<Rightarrow> nat \<Rightarrow> call_state \<Rightarrow> machine" where
  "at_call m i c \<equiv> m\<lparr>m_calls := (m_calls m)(i := c)\<rparr>"

inductive decrypt_step :: "(nat \<Rightarrow> bytes) \<Rightarrow> (nat \<Rightarrow> string) \<Rightarrow> machine \<Rightarrow> machine \<Rightarrow> bool" for docs keys where
  invalid: "m_calls m i = Waiting \<Longrightarrow> docs i = [] \<or> keys i = [] \<Longrightarrow>
    decrypt_step docs keys m (at_call m i ReturnedError)"
| lock: "m_calls m i = Waiting \<Longrightarrow> docs i \<noteq> [] \<Longrightarrow> keys i \<noteq> [] \<Longrightarrow> \<not> m_locked m \<Longrightarrow>
    decrypt_step docs keys m ((at_call m i Locked)\<lparr>m_locked := True\<rparr>)"
| save: "m_calls m i = Locked \<Longrightarrow> decrypt_step docs keys m (at_call m i (SavedPrev (m_env m)))"
| refused: "m_calls m i = SavedPrev prev \<Longrightarrow> env_refuses (keys i) \<Longrightarrow>
    decrypt_step docs keys m (at_call m i Refused)"
| set_key: "m_calls m i = SavedPrev prev \<Longrightarrow> \<not> env_refuses (keys i) \<Longrightarrow>
    decrypt_step docs keys m ((at_call m i (KeySet prev))\<lparr>m_env := Some (keys i)\<rparr>)"
| sops: "m_calls m i = KeySet prev \<Longrightarrow>
    decrypt_step docs keys m (at_call m i (Decrypted prev (m_env m)))"
| restore: "m_calls m i = Decrypted prev seen \<Longrightarrow>
    decrypt_step docs keys m ((at_call m i (Restored seen))\<lparr>m_env := prev\<rparr>)"
| unlock: "m_calls m i = Restored seen \<Longrightarrow>
    decrypt_step docs keys m ((at_call m i (Returned seen))\<lparr>m_locked := False\<rparr>)"
| unlock_refused: "m_calls m i = Refused \<Longrightarrow>
    decrypt_step docs keys m ((at_call m i ReturnedError)\<lparr>m_locked := False\<rparr>)"

inductive_cases decrypt_stepE: "decrypt_step docs keys m m'"

text \<open>Whether a call is inside the lock, and what its state says about its arguments and the environment.\<close>

fun inside :: "call_state \<Rightarrow> bool" where
  "inside Waiting = False"
| "inside (Returned _) = False"
| "inside ReturnedError = False"
| "inside _ = True"

definition decryptable :: "bytes \<Rightarrow> string \<Rightarrow> bool" where
  "decryptable doc key \<longleftrightarrow> doc \<noteq> [] \<and> key \<noteq> [] \<and> \<not> env_refuses key"

fun call_ok :: "string option \<Rightarrow> bytes \<Rightarrow> string \<Rightarrow> string option \<Rightarrow> call_state \<Rightarrow> bool" where
  "call_ok env0 doc key env Waiting = True"
| "call_ok env0 doc key env Locked = (doc \<noteq> [] \<and> key \<noteq> [] \<and> env = env0)"
| "call_ok env0 doc key env (SavedPrev prev) = (doc \<noteq> [] \<and> key \<noteq> [] \<and> prev = env0 \<and> env = env0)"
| "call_ok env0 doc key env Refused = (env_refuses key \<and> env = env0)"
| "call_ok env0 doc key env (KeySet prev) = (decryptable doc key \<and> prev = env0 \<and> env = Some key)"
| "call_ok env0 doc key env (Decrypted prev seen) = (decryptable doc key \<and> prev = env0 \<and> seen = Some key)"
| "call_ok env0 doc key env (Restored seen) = (decryptable doc key \<and> env = env0 \<and> seen = Some key)"
| "call_ok env0 doc key env (Returned seen) = (decryptable doc key \<and> seen = Some key)"
| "call_ok env0 doc key env ReturnedError = (\<not> decryptable doc key)"

definition machine_inv :: "(nat \<Rightarrow> bytes) \<Rightarrow> (nat \<Rightarrow> string) \<Rightarrow> string option \<Rightarrow> machine \<Rightarrow> bool" where
  "machine_inv docs keys env0 m \<longleftrightarrow>
     (\<forall>i. call_ok env0 (docs i) (keys i) (m_env m) (m_calls m i))
     \<and> (\<forall>i j. inside (m_calls m i) \<and> inside (m_calls m j) \<longrightarrow> i = j)
     \<and> (m_locked m \<longleftrightarrow> (\<exists>i. inside (m_calls m i)))
     \<and> (\<not> m_locked m \<longrightarrow> m_env m = env0)"

lemma machine_invD:
  assumes "machine_inv docs keys env0 m"
  shows "call_ok env0 (docs i) (keys i) (m_env m) (m_calls m i)"
    and "inside (m_calls m i) \<Longrightarrow> j \<noteq> i \<Longrightarrow> \<not> inside (m_calls m j)"
  using assms unfolding machine_inv_def by blast+

lemma outside_ok: "\<not> inside c \<Longrightarrow> call_ok env0 doc key env c \<longleftrightarrow> call_ok env0 doc key env' c"
  by (cases c) auto

text \<open>A step of the one call inside the lock, which may change the environment.\<close>

lemma machine_inv_inside:
  assumes inv: "machine_inv docs keys env0 m" and i: "inside (m_calls m i)"
    and c: "inside c" "call_ok env0 (docs i) (keys i) env c"
  shows "machine_inv docs keys env0 ((at_call m i c)\<lparr>m_env := env\<rparr>)"
proof -
  have others: "\<not> inside (m_calls m j)" if "j \<noteq> i" for j
    using machine_invD(2) [OF inv i that] .
  have "call_ok env0 (docs j) (keys j) env (m_calls m j)" if "j \<noteq> i" for j
    using machine_invD(1) [OF inv, of j] outside_ok [OF others [OF that]] by blast
  with inv i c others show ?thesis by (auto simp: machine_inv_def)
qed

lemma machine_inv_goes:
  assumes "machine_inv docs keys env0 m" and "inside (m_calls m i)"
    and "inside c" "call_ok env0 (docs i) (keys i) (m_env m) c"
  shows "machine_inv docs keys env0 (at_call m i c)"
  using machine_inv_inside [OF assms] by simp

text \<open>The step with which it leaves.\<close>

lemma machine_inv_leave:
  assumes inv: "machine_inv docs keys env0 m" and i: "inside (m_calls m i)"
    and c: "\<not> inside c" "call_ok env0 (docs i) (keys i) env0 c" and env: "m_env m = env0"
  shows "machine_inv docs keys env0 ((at_call m i c)\<lparr>m_locked := False\<rparr>)"
proof -
  have "\<not> inside (m_calls m j)" if "j \<noteq> i" for j
    using machine_invD(2) [OF inv i that] .
  with machine_invD(1) [OF inv] c env show ?thesis by (auto simp: machine_inv_def)
qed

lemma machine_inv_step:
  assumes inv: "machine_inv docs keys env0 m" and step: "decrypt_step docs keys m m'"
  shows "machine_inv docs keys env0 m'"
  using step
proof cases
  case (invalid i)
  have "inside (m_calls m' j) = inside (m_calls m j)" for j using invalid by simp
  moreover have "call_ok env0 (docs j) (keys j) (m_env m') (m_calls m' j)" for j
    using machine_invD(1) [OF inv, of j] invalid by (auto simp: decryptable_def)
  ultimately show ?thesis using inv invalid(1) unfolding machine_inv_def by auto
next
  case (lock i)
  with inv show ?thesis by (auto simp: machine_inv_def)
next
  case (save i)
  with machine_invD(1) [OF inv, of i] machine_inv_goes [OF inv, of i "SavedPrev (m_env m)"] show ?thesis by simp
next
  case (refused i prev)
  with machine_invD(1) [OF inv, of i] machine_inv_goes [OF inv, of i Refused] show ?thesis by simp
next
  case (set_key i prev)
  with machine_invD(1) [OF inv, of i] machine_inv_inside [OF inv, of i "KeySet prev" "Some (keys i)"]
  show ?thesis by (simp add: decryptable_def)
next
  case (sops i prev)
  with machine_invD(1) [OF inv, of i] machine_inv_goes [OF inv, of i "Decrypted prev (m_env m)"] show ?thesis by simp
next
  case (restore i prev seen)
  with machine_invD(1) [OF inv, of i] machine_inv_inside [OF inv, of i "Restored seen" prev]
  show ?thesis by simp
next
  case (unlock i seen)
  with machine_invD(1) [OF inv, of i] machine_inv_leave [OF inv, of i "Returned seen"] show ?thesis by simp
next
  case (unlock_refused i)
  with machine_invD(1) [OF inv, of i] machine_inv_leave [OF inv, of i ReturnedError]
  show ?thesis by (simp add: decryptable_def)
qed

section \<open>Properties\<close>

text \<open>
C17: Decryption runs SOPS with exactly the given key in the environment and with the format that the
file name stands for, and leaves the environment as it found it on every path, errors included;
one duration is observed, with the outcome.
\<close>

theorem decrypt_restores_environment:
  assumes "run_state (decrypt_age sops content path key) s = (r, s')"
  shows "penv s' = penv s \<and> fsys s' = fsys s
    \<and> events s' = Observed SopsDecryptDuration (result_label r) # events s
    \<and> (\<forall>plain. r = Inr plain \<longrightarrow> content \<noteq> [] \<and> key \<noteq> []
        \<and> fst (run_state (sops ((penv s)(age_var \<mapsto> key)) content (format_from_path path)) (world s)) = Inr plain)"
proof -
  obtain w where w: "run_state (decrypt_age_body sops content path key) s =
     ((if content = [] then Inl ContentEmpty
       else if key = [] then Inl AgeKeyEmpty
       else if CHR 0x00 \<in> set key then Inl (SetEnvFailed ''setenv: invalid argument'')
       else map_sum SopsFailed id
         (fst (run_state (sops ((penv s)(age_var \<mapsto> key)) content (format_from_path path)) (world s)))),
      s\<lparr>world := w\<rparr>)" (is "_ = (?r, _)")
    using run_decrypt_body [of sops content path key s] by blast
  have r: "r = ?r" and s': "s' = s\<lparr>world := w, events := Observed SopsDecryptDuration (result_label ?r) # events s\<rparr>"
    using assms w by (auto simp: decrypt_age_def simp del: if_split)
  have "content \<noteq> [] \<and> key \<noteq> []
        \<and> fst (run_state (sops ((penv s)(age_var \<mapsto> key)) content (format_from_path path)) (world s)) = Inr plain"
    if "?r = Inr plain" for plain
    using that by (auto simp: map_sum_def split: if_splits sum.splits)
  with r s' show ?thesis by simp
qed

text \<open>A stand-in for SOPS: the plaintext is the content, if the key is the right one.\<close>

definition mem_sops :: "string \<Rightarrow> 'w sops_lib" where
  "mem_sops key env content fmt =
     State_Monad.return (if env age_var = Some key then Inr content else Inl ''no key could decrypt the data'')"

theorem decrypt_restores_environment_witness:
  "\<exists>s'. run_state (decrypt_age (mem_sops ''k1'') ''a: b'' ''s.yaml'' ''k1'')
      ((git_start [])\<lparr>penv := [age_var \<mapsto> ''outer'']\<rparr>) = (Inr ''a: b'', s') \<and> penv s' age_var = Some ''outer''"
proof -
  let ?s = "(git_start [])\<lparr>penv := [age_var \<mapsto> ''outer'']\<rparr>"
  have "fst (run_state (decrypt_age (mem_sops ''k1'') ''a: b'' ''s.yaml'' ''k1'') ?s) = Inr ''a: b''" by code_simp
  then obtain s' where run: "run_state (decrypt_age (mem_sops ''k1'') ''a: b'' ''s.yaml'' ''k1'') ?s = (Inr ''a: b'', s')"
    by (metis prod.collapse)
  from decrypt_restores_environment [OF run] run show ?thesis by simp
qed

text \<open>
C15: However concurrent decryptions interleave, SOPS never sees another call's key, nor the one that was
in the environment: a call in which SOPS has run was decrypted with its own key, a call returns an
error without running SOPS exactly if its document or its key is empty or the environment refuses
the key, and whenever no call holds the mutex the environment is what it was at the start.
\<close>

theorem concurrent_decrypt_own_key:
  assumes "(decrypt_step docs keys)\<^sup>*\<^sup>* (start_machine env0) m"
  shows "(\<forall>i seen. m_calls m i = Returned seen \<longrightarrow> seen = Some (keys i) \<and> decryptable (docs i) (keys i))
    \<and> (\<forall>i prev seen. m_calls m i = Decrypted prev seen \<longrightarrow> seen = Some (keys i))
    \<and> (\<forall>i. m_calls m i = ReturnedError \<longrightarrow> \<not> decryptable (docs i) (keys i))
    \<and> (\<not> m_locked m \<longrightarrow> m_env m = env0)"
proof -
  have inv: "machine_inv docs keys env0 m"
    using assms
  proof (induction rule: rtranclp_induct)
    case base
    show ?case by (simp add: machine_inv_def start_machine_def)
  next
    case (step m m')
    then show ?case using machine_inv_step by blast
  qed
  have "call_ok env0 (docs i) (keys i) (m_env m) (m_calls m i)" for i
    using machine_invD(1) [OF inv] .
  then show ?thesis
    using inv unfolding machine_inv_def by (metis call_ok.simps(6,8,9))
qed

theorem concurrent_decrypt_own_key_witness:
  "(\<exists>m. (decrypt_step (\<lambda>_. ''doc'') (\<lambda>i. if i = 0 then ''k0'' else [CHR 0x00]))\<^sup>*\<^sup>* (start_machine (Some ''old'')) m
      \<and> m_calls m 0 = Returned (Some ''k0'') \<and> m_env m = Some ''old'')
    \<and> (\<exists>m. (decrypt_step (\<lambda>_. ''doc'') (\<lambda>i. if i = 0 then ''k0'' else [CHR 0x00]))\<^sup>*\<^sup>* (start_machine (Some ''old'')) m
      \<and> m_calls m 1 = ReturnedError \<and> m_env m = Some ''old'')"
proof
  let ?docs = "\<lambda>_::nat. ''doc''" and ?keys = "\<lambda>i::nat. if i = 0 then ''k0'' else [CHR 0x00]"
  let ?m1 = "(at_call (start_machine (Some ''old'')) 0 Locked)\<lparr>m_locked := True\<rparr>"
  let ?m2 = "at_call ?m1 0 (SavedPrev (m_env ?m1))"
  let ?m3 = "(at_call ?m2 0 (KeySet (Some ''old'')))\<lparr>m_env := Some (?keys 0)\<rparr>"
  let ?m4 = "at_call ?m3 0 (Decrypted (Some ''old'') (m_env ?m3))"
  let ?m5 = "(at_call ?m4 0 (Restored (Some ''k0'')))\<lparr>m_env := Some ''old''\<rparr>"
  let ?m6 = "(at_call ?m5 0 (Returned (Some ''k0'')))\<lparr>m_locked := False\<rparr>"
  have s1: "(decrypt_step ?docs ?keys)\<^sup>*\<^sup>* (start_machine (Some ''old'')) ?m1"
    by (rule rtranclp.rtrancl_into_rtrancl [OF rtranclp.rtrancl_refl], rule lock) (simp_all add: start_machine_def)
  have s2: "(decrypt_step ?docs ?keys)\<^sup>*\<^sup>* (start_machine (Some ''old'')) ?m2"
    by (rule rtranclp.rtrancl_into_rtrancl [OF s1], rule save) simp
  have s3: "(decrypt_step ?docs ?keys)\<^sup>*\<^sup>* (start_machine (Some ''old'')) ?m3"
    by (rule rtranclp.rtrancl_into_rtrancl [OF s2], rule set_key) (simp_all add: start_machine_def)
  have s4: "(decrypt_step ?docs ?keys)\<^sup>*\<^sup>* (start_machine (Some ''old'')) ?m4"
    by (rule rtranclp.rtrancl_into_rtrancl [OF s3], rule sops) simp
  have s5: "(decrypt_step ?docs ?keys)\<^sup>*\<^sup>* (start_machine (Some ''old'')) ?m5"
    by (rule rtranclp.rtrancl_into_rtrancl [OF s4], rule restore) simp
  have s6: "(decrypt_step ?docs ?keys)\<^sup>*\<^sup>* (start_machine (Some ''old'')) ?m6"
    by (rule rtranclp.rtrancl_into_rtrancl [OF s5], rule unlock) simp
  from s6 concurrent_decrypt_own_key [OF s6]
  show "\<exists>m. (decrypt_step ?docs ?keys)\<^sup>*\<^sup>* (start_machine (Some ''old'')) m
      \<and> m_calls m 0 = Returned (Some ''k0'') \<and> m_env m = Some ''old''"
    by (intro exI [of _ ?m6]) simp
  let ?n1 = "(at_call (start_machine (Some ''old'')) 1 Locked)\<lparr>m_locked := True\<rparr>"
  let ?n2 = "at_call ?n1 1 (SavedPrev (m_env ?n1))"
  let ?n3 = "at_call ?n2 1 Refused"
  let ?n4 = "(at_call ?n3 1 ReturnedError)\<lparr>m_locked := False\<rparr>"
  have t1: "(decrypt_step ?docs ?keys)\<^sup>*\<^sup>* (start_machine (Some ''old'')) ?n1"
    by (rule rtranclp.rtrancl_into_rtrancl [OF rtranclp.rtrancl_refl], rule lock) (simp_all add: start_machine_def)
  have t2: "(decrypt_step ?docs ?keys)\<^sup>*\<^sup>* (start_machine (Some ''old'')) ?n2"
    by (rule rtranclp.rtrancl_into_rtrancl [OF t1], rule save) simp
  have t3: "(decrypt_step ?docs ?keys)\<^sup>*\<^sup>* (start_machine (Some ''old'')) ?n3"
    by (rule rtranclp.rtrancl_into_rtrancl [OF t2], rule refused) (simp_all add: start_machine_def)
  have t4: "(decrypt_step ?docs ?keys)\<^sup>*\<^sup>* (start_machine (Some ''old'')) ?n4"
    by (rule rtranclp.rtrancl_into_rtrancl [OF t3], rule unlock_refused) simp
  from t4 concurrent_decrypt_own_key [OF t4]
  show "\<exists>m. (decrypt_step ?docs ?keys)\<^sup>*\<^sup>* (start_machine (Some ''old'')) m
      \<and> m_calls m 1 = ReturnedError \<and> m_env m = Some ''old''"
    by (intro exI [of _ ?n4]) simp
qed

end
