(* ===== verification/ErrorText.thy ===== *)
theory ErrorText
  imports Registry Decrypt Transform SecretRef
begin

text \<open>
  The texts of the errors, as the \<open>fmt.Errorf\<close> calls of the components give them. The controllers
  put them into status conditions and spans. \<open>%q\<close> is \<open>go_quote\<close>: bytes from 0x80 on are taken to be
  part of printable runes, which \<open>%q\<close> leaves alone.
\<close>

fun quote_char :: "char \<Rightarrow> string" where
  "quote_char c =
     (if c = CHR 0x22 then [CHR 0x5C, CHR 0x22]
      else if c = CHR 0x5C then [CHR 0x5C, CHR 0x5C]
      else if c = CHR 0x07 then [CHR 0x5C, CHR ''a'']
      else if c = CHR 0x08 then [CHR 0x5C, CHR ''b'']
      else if c = CHR 0x0C then [CHR 0x5C, CHR ''f'']
      else if c = CHR 0x0A then [CHR 0x5C, CHR ''n'']
      else if c = CHR 0x0D then [CHR 0x5C, CHR ''r'']
      else if c = CHR 0x09 then [CHR 0x5C, CHR ''t'']
      else if c = CHR 0x0B then [CHR 0x5C, CHR ''v'']
      else if (of_char c :: nat) < 32 \<or> c = CHR 0x7F then [CHR 0x5C, CHR ''x''] @ hex_encode [c]
      else [c])"

definition go_quote :: "string \<Rightarrow> string" where
  "go_quote s = [CHR 0x22] @ concat (map quote_char s) @ [CHR 0x22]"

definition key_text :: "objkey \<Rightarrow> string" where
  "key_text k = ok_namespace k @ ''/'' @ ok_name k"

fun resolve_error_text :: "resolve_error \<Rightarrow> string" where
  "resolve_error_text ErrNoReference =
     ''no secret reference on the resource and no operator-level default configured''"
| "resolve_error_text (CrossNamespaceRefused ns name nss) =
     ''secret reference to '' @ go_quote ns @ ''/'' @ go_quote name
     @ '' crosses namespaces, which this operator does not permit (allowed: '' @ nss
     @ ''); set --secret-ref-namespaces to permit it''"

fun global_error_text :: "global_error \<Rightarrow> string" where
  "global_error_text (ExpectedNamespaceName v) = ''expected <namespace>/<name>, got '' @ go_quote v"

fun git_error_text :: "git_error \<Rightarrow> string" where
  "git_error_text UrlRequired = ''git: URL is required''"
| "git_error_text (CreateCacheRoot d e) = ''git: create cache root '' @ go_quote d @ '': '' @ e"
| "git_error_text (ChmodCacheRoot d e) = ''git: chmod cache root '' @ go_quote d @ '': '' @ e"
| "git_error_text (CreateCacheParent e) = ''git: create parent of cache: '' @ e"
| "git_error_text (CloneFailed url e) = ''git: clone '' @ go_quote url @ '': '' @ e"
| "git_error_text (OpenCacheFailed e) = ''git: open cache: '' @ e"
| "git_error_text (FetchFailed e) = ''git: fetch: '' @ e"
| "git_error_text (WorktreeFailed e) = ''git: worktree: '' @ e"
| "git_error_text (PullFailed e) = ''git: pull: '' @ e"
| "git_error_text (ResolveRevisionFailed rv e) = ''git: resolve revision '' @ go_quote rv @ '': '' @ e"
| "git_error_text (CheckoutFailed e) = e"
| "git_error_text (HeadFailed e) = ''git: head: '' @ e"
| "git_error_text SSHNeedsKnownHosts = ''git: SSH auth requires knownHosts (strict host-key checking)''"
| "git_error_text (ParseSSHKey e) = ''git: parse SSH private key: '' @ e"
| "git_error_text (TempKnownHosts e) = ''git: temp known_hosts: '' @ e"
| "git_error_text (WriteKnownHosts e) = ''git: write known_hosts: '' @ e"
| "git_error_text (CloseKnownHosts e) = ''git: close known_hosts: '' @ e"
| "git_error_text (KnownHostsInvalid e) = e"
| "git_error_text (InvalidPath p) = ''git: invalid path '' @ go_quote p"
| "git_error_text (ReadFailed e) = e"

fun fetch_error_text :: "fetch_error \<Rightarrow> string" where
  "fetch_error_text (ErrNotModified _) = ''object: not modified''"
| "fetch_error_text (RequestInvalid e) = e"
| "fetch_error_text (RequestFailed e) = e"
| "fetch_error_text (ReadBody e) = ''read body: '' @ e"
| "fetch_error_text (UnexpectedStatus n) = ''https: unexpected status '' @ format_int n"
| "fetch_error_text (ProbeStatus n) = ''https: probe returned '' @ format_int n"
| "fetch_error_text (NewMinioClient e) = ''new minio client: '' @ e"
| "fetch_error_text EmptyObjectKey = ''s3: empty object key''"
| "fetch_error_text (StatFailed b k e) = ''stat '' @ b @ ''/'' @ k @ '': '' @ e"
| "fetch_error_text (GetFailed b k e) = ''get '' @ b @ ''/'' @ k @ '': '' @ e"
| "fetch_error_text (ReadObjectFailed b k e) = ''read '' @ b @ ''/'' @ k @ '': '' @ e"
| "fetch_error_text (BucketExistsFailed e) = ''bucket exists: '' @ e"
| "fetch_error_text (BucketNotFound b) = ''bucket '' @ go_quote b @ '' not found or not accessible''"

fun mode_number :: "object_mode \<Rightarrow> int" where
  "mode_number ObjectModeURL = 0"
| "mode_number ObjectModeBucket = 1"
| "mode_number (ObjectModeOther n) = n"

fun source_error_text :: "source_error \<Rightarrow> string" where
  "source_error_text (GitError e) = git_error_text e"
| "source_error_text (NoGitCache k) = ''source: no cache for GitRepository '' @ key_text k"
| "source_error_text (ObjectError e) = fetch_error_text e"
| "source_error_text (NoObjectCache k) = ''source: no cache for ObjectSource '' @ key_text k"
| "source_error_text (NotYetFetched k) = ''source: ObjectSource '' @ key_text k @ '' not yet fetched''"
| "source_error_text (NoFetcher k) = ''source: ObjectSource '' @ key_text k @ '' has no fetcher''"
| "source_error_text (UnknownObjectMode m) = ''unknown object mode '' @ format_int (mode_number m)"

fun decrypt_error_text :: "decrypt_error \<Rightarrow> string" where
  "decrypt_error_text ContentEmpty = ''decrypt: content is empty''"
| "decrypt_error_text AgeKeyEmpty = ''decrypt: age key is empty''"
| "decrypt_error_text (SetEnvFailed e) = ''decrypt: set SOPS_AGE_KEY: '' @ e"
| "decrypt_error_text (SopsFailed e) = ''decrypt: sops: '' @ e"

fun scalar_error_text :: "scalar_error \<Rightarrow> string" where
  "scalar_error_text ValueIsNull = ''value is null''"
| "scalar_error_text ValueNonScalar =
     ''value is non-scalar (map or list) '' @ [CHR 0xE2, CHR 0x80, CHR 0x94] @ '' flat YAML only''"
| "scalar_error_text (UnsupportedValueType t) = ''unsupported value type '' @ t"

fun transform_error_text :: "transform_error \<Rightarrow> string" where
  "transform_error_text (ParseDecryptedYaml e) = ''parse decrypted yaml: '' @ e"
| "transform_error_text (KeyValue k e) = ''key '' @ go_quote k @ '': '' @ scalar_error_text e"
| "transform_error_text (MissingSourceKey from key) =
     ''source file missing key '' @ go_quote from @ '' referenced by data mapping (target key ''
     @ go_quote key @ '')''"
| "transform_error_text (ParseDecryptedManifest e) = ''parse decrypted manifest: '' @ e"
| "transform_error_text (UnsupportedTopLevelField k) =
     ''manifest contains unsupported top-level field '' @ go_quote k"
| "transform_error_text (NotACoreSecret v k) =
     ''manifest is not a core/v1 Secret (got apiVersion='' @ go_quote v @ '' kind='' @ go_quote k @ '')''"
| "transform_error_text (UnsupportedMetadataField k) =
     ''manifest metadata contains unsupported field '' @ go_quote k"
| "transform_error_text (DecodeManifest e) = ''decode manifest as Secret: '' @ e"

end
