(* ===== verification/Kube.thy ===== *)
theory Kube
  imports Conversion Registry
begin

text \<open>
  The Kubernetes API as the controllers use it. The client (controller-runtime) and the helpers of
  apimachinery are not part of the repository: they are the fields of \<open>kube\<close>. \<open>kube_ok\<close> states
  their documented behaviour as far as Secrets are concerned, over a view of the Secrets that are
  stored; \<open>mem_kube\<close> is an instance in memory that has it.

  Reads are taken to be consistent: the model has no stale informer cache.
\<close>

section \<open>The interface\<close>

datatype api_error = ApiError (api_not_found: bool) (api_text: string)

definition is_not_found :: "api_error \<Rightarrow> bool" where
  "is_not_found e = api_not_found e"

text \<open>\<open>client.IgnoreNotFound\<close>\<close>

definition ignore_not_found :: "api_error option \<Rightarrow> api_error option" where
  "ignore_not_found e = (case e of Some x \<Rightarrow> if is_not_found x then None else Some x | None \<Rightarrow> None)"

text \<open>
  What applying the target Secret can fail with: the two refusals of the mutate function, a write
  to a nil map inside it (a panic), or the API.
\<close>

datatype apply_error =
    NotManaged string string  \<comment> \<open>namespace, name\<close>
  | OwnedByOther string string string
  | NilMapPanic
  | ApplyApi api_error

type_synonym mutate = "secret \<Rightarrow> apply_error + secret"

record 'w kube =
  k_get_secret :: "objkey \<Rightarrow> ('w, api_error + secret) state"
  k_list_secrets :: "string \<Rightarrow> string \<times> string \<Rightarrow> ('w, api_error + secret list) state"  \<comment> \<open>namespace, label\<close>
  k_delete_secret :: "secret \<Rightarrow> ('w, api_error option) state"
  k_create_or_update :: "secret \<Rightarrow> mutate \<Rightarrow> ('w, apply_error option) state"
  k_get_git_repository :: "objkey \<Rightarrow> ('w, api_error + v1_git_repository) state"
  k_update_git_repository_status :: "v1_git_repository \<Rightarrow> ('w, api_error option) state"
  k_get_object_source :: "objkey \<Rightarrow> ('w, api_error + v2_object_source) state"
  k_update_object_source_status :: "v2_object_source \<Rightarrow> ('w, api_error option) state"
  k_get_sops_secret :: "objkey \<Rightarrow> ('w, api_error + v2_sops_secret) state"
  k_update_sops_secret :: "v2_sops_secret \<Rightarrow> ('w, api_error option) state"
  k_update_sops_secret_status :: "v2_sops_secret \<Rightarrow> ('w, api_error option) state"
  k_get_manifest :: "objkey \<Rightarrow> ('w, api_error + v2_sops_secret_manifest) state"
  k_update_manifest :: "v2_sops_secret_manifest \<Rightarrow> ('w, api_error option) state"
  k_update_manifest_status :: "v2_sops_secret_manifest \<Rightarrow> ('w, api_error option) state"
  k_get_inline :: "objkey \<Rightarrow> ('w, api_error + v1_inline_sops_secret) state"
  k_update_inline :: "v1_inline_sops_secret \<Rightarrow> ('w, api_error option) state"
  k_update_inline_status :: "v1_inline_sops_secret \<Rightarrow> ('w, api_error option) state"
  k_list_git_repositories :: "string \<times> string \<Rightarrow> ('w, api_error + v1_git_repository list) state"  \<comment> \<open>field index, value\<close>
  k_list_object_sources :: "string \<times> string \<Rightarrow> ('w, api_error + v2_object_source list) state"
  k_list_sops_secrets :: "string \<Rightarrow> string \<times> string \<Rightarrow> ('w, api_error + v2_sops_secret list) state"
  k_list_manifests :: "string \<Rightarrow> string \<times> string \<Rightarrow> ('w, api_error + v2_sops_secret_manifest list) state"
  k_set_condition :: "condition list \<Rightarrow> condition \<Rightarrow> condition list"
  k_contains_finalizer :: "string list \<Rightarrow> string \<Rightarrow> bool"
  k_add_finalizer :: "string list \<Rightarrow> string \<Rightarrow> string list"
  k_remove_finalizer :: "string list \<Rightarrow> string \<Rightarrow> string list"

text \<open>\<open>ctrl.Result\<close>; a duration is in nanoseconds, as in Go.\<close>

record ctrl_result =
  res_requeue :: bool
  res_requeue_after :: int

definition no_result :: ctrl_result where
  "no_result = \<lparr>res_requeue = False, res_requeue_after = 0\<rparr>"

type_synonym reconcile_result = "api_error + ctrl_result"

text \<open>\<open>return ctrl.Result\{\}, err\<close>, which is success when there is no error.\<close>

definition result_or :: "api_error option \<Rightarrow> ctrl_result \<Rightarrow> reconcile_result" where
  "result_or err res = (case err of Some e \<Rightarrow> Inl e | None \<Rightarrow> Inr res)"

text \<open>\<open>setCondition\<close>\<close>

definition set_condition ::
  "'w kube \<Rightarrow> condition list \<Rightarrow> string \<Rightarrow> string \<Rightarrow> string \<Rightarrow> string \<Rightarrow> condition list" where
  "set_condition K conds type status reason msg =
     k_set_condition K conds \<lparr>c_type = type, c_status = status, c_reason = reason, c_message = msg\<rparr>"

section \<open>Documented behaviour\<close>

type_synonym 'w view = "'w \<Rightarrow> objkey \<Rightarrow> secret option"

text \<open>The API server keeps what it is sent and adds its own metadata.\<close>

definition same_content :: "secret \<Rightarrow> secret \<Rightarrow> bool" where
  "same_content a b \<longleftrightarrow>
     gm_lookup (om_labels (sec_meta a)) = gm_lookup (om_labels (sec_meta b))
     \<and> gm_lookup (om_annotations (sec_meta a)) = gm_lookup (om_annotations (sec_meta b))
     \<and> gm_lookup (sec_data a) = gm_lookup (sec_data b) \<and> sec_type a = sec_type b"

definition deletion_pending :: "secret \<Rightarrow> bool" where
  "deletion_pending s \<longleftrightarrow> \<not> time_is_zero (om_deletion_timestamp (sec_meta s))"

definition reads_only :: "'w view \<Rightarrow> ('w, 'a) state \<Rightarrow> bool" where
  "reads_only V m \<longleftrightarrow> (\<forall>w. V (snd (run_state m w)) = V w)"

definition stored_ok :: "'w view \<Rightarrow> bool" where
  "stored_ok V \<longleftrightarrow> (\<forall>w k s. V w k = Some s \<longrightarrow> secret_key_of s = k \<and> om_resource_version (sec_meta s) \<noteq> [])"

definition get_ok :: "'w kube \<Rightarrow> 'w view \<Rightarrow> bool" where
  "get_ok K V \<longleftrightarrow> (\<forall>k. reads_only V (k_get_secret K k)
     \<and> (\<forall>w. case fst (run_state (k_get_secret K k) w) of
          Inr s \<Rightarrow> V w k = Some s
        | Inl e \<Rightarrow> is_not_found e \<longrightarrow> V w k = None))"

definition list_ok :: "'w kube \<Rightarrow> 'w view \<Rightarrow> bool" where
  "list_ok K V \<longleftrightarrow> (\<forall>ns l v. reads_only V (k_list_secrets K ns (l, v))
     \<and> (\<forall>w ss. fst (run_state (k_list_secrets K ns (l, v)) w) = Inr ss \<longrightarrow>
          (\<forall>s. s \<in> set ss \<longleftrightarrow> V w (secret_key_of s) = Some s \<and> om_namespace (sec_meta s) = ns
             \<and> gm_lookup (om_labels (sec_meta s)) l = Some v)
          \<and> distinct (map secret_key_of ss)))"

definition delete_ok :: "'w kube \<Rightarrow> 'w view \<Rightarrow> bool" where
  "delete_ok K V \<longleftrightarrow> (\<forall>s w r w'. run_state (k_delete_secret K s) w = (r, w') \<longrightarrow>
     (\<forall>k. k \<noteq> secret_key_of s \<longrightarrow> V w' k = V w k)
     \<and> (case r of
          None \<Rightarrow> (case V w' (secret_key_of s) of None \<Rightarrow> True | Some s' \<Rightarrow> deletion_pending s')
        | Some e \<Rightarrow> V w' (secret_key_of s) = V w (secret_key_of s)
            \<and> (is_not_found e \<longrightarrow> V w (secret_key_of s) = None)))"

text \<open>
  \<open>controllerutil.CreateOrUpdate\<close>: the mutate function is run on the stored object, or on the given
  one if there is none. If it fails, nothing is written; if it succeeds, its result is written, or
  an API error is returned. (The error of a write may leave the result unknown.)
\<close>

definition create_or_update_ok :: "'w kube \<Rightarrow> 'w view \<Rightarrow> bool" where
  "create_or_update_ok K V \<longleftrightarrow> (\<forall>stub mut w r w'.
     run_state (k_create_or_update K stub mut) w = (r, w') \<longrightarrow>
     (let k = secret_key_of stub; base = (case V w k of None \<Rightarrow> stub | Some s \<Rightarrow> s) in
      (\<forall>j. j \<noteq> k \<longrightarrow> V w' j = V w j)
      \<and> (case mut base of
           Inl e \<Rightarrow> V w' k = V w k \<and> (r = Some e \<or> (\<exists>a. r = Some (ApplyApi a)))
         | Inr out \<Rightarrow>
             (r = None \<or> (\<exists>a. r = Some (ApplyApi a)))
             \<and> ((r \<noteq> None \<and> V w' k = V w k) \<or> (\<exists>s'. V w' k = Some s' \<and> same_content out s')))))"

definition other_ops_ok :: "'w kube \<Rightarrow> 'w view \<Rightarrow> bool" where
  "other_ops_ok K V \<longleftrightarrow>
     (\<forall>k. reads_only V (k_get_git_repository K k)) \<and> (\<forall>x. reads_only V (k_update_git_repository_status K x))
     \<and> (\<forall>k. reads_only V (k_get_object_source K k)) \<and> (\<forall>x. reads_only V (k_update_object_source_status K x))
     \<and> (\<forall>k. reads_only V (k_get_sops_secret K k)) \<and> (\<forall>x. reads_only V (k_update_sops_secret K x))
     \<and> (\<forall>x. reads_only V (k_update_sops_secret_status K x))
     \<and> (\<forall>k. reads_only V (k_get_manifest K k)) \<and> (\<forall>x. reads_only V (k_update_manifest K x))
     \<and> (\<forall>x. reads_only V (k_update_manifest_status K x))
     \<and> (\<forall>k. reads_only V (k_get_inline K k)) \<and> (\<forall>x. reads_only V (k_update_inline K x))
     \<and> (\<forall>x. reads_only V (k_update_inline_status K x))
     \<and> (\<forall>q. reads_only V (k_list_git_repositories K q)) \<and> (\<forall>q. reads_only V (k_list_object_sources K q))
     \<and> (\<forall>ns q. reads_only V (k_list_sops_secrets K ns q)) \<and> (\<forall>ns q. reads_only V (k_list_manifests K ns q))"

text \<open>\<open>meta.SetStatusCondition\<close> and the finalizer helpers of \<open>controllerutil\<close>.\<close>

definition conditions_ok :: "'w kube \<Rightarrow> bool" where
  "conditions_ok K \<longleftrightarrow> (\<forall>cs c t.
     map_option c_status (find (\<lambda>x. c_type x = t) (k_set_condition K cs c))
       = (if t = c_type c then Some (c_status c) else map_option c_status (find (\<lambda>x. c_type x = t) cs)))"

definition finalizers_ok :: "'w kube \<Rightarrow> bool" where
  "finalizers_ok K \<longleftrightarrow> (\<forall>fs f.
     (k_contains_finalizer K fs f \<longleftrightarrow> f \<in> set fs)
     \<and> set (k_add_finalizer K fs f) = insert f (set fs)
     \<and> set (k_remove_finalizer K fs f) = set fs - {f})"

definition kube_ok :: "'w kube \<Rightarrow> 'w view \<Rightarrow> bool" where
  "kube_ok K V \<longleftrightarrow> stored_ok V \<and> get_ok K V \<and> list_ok K V \<and> delete_ok K V
     \<and> create_or_update_ok K V \<and> other_ops_ok K V \<and> conditions_ok K \<and> finalizers_ok K"

section \<open>A cluster in memory\<close>

record mem_cluster =
  cl_secrets :: "(objkey \<times> secret) list"
  cl_gits :: "(objkey \<times> v1_git_repository) list"
  cl_objects :: "(objkey \<times> v2_object_source) list"
  cl_sops :: "(objkey \<times> v2_sops_secret) list"
  cl_manifests :: "(objkey \<times> v2_sops_secret_manifest) list"
  cl_inlines :: "(objkey \<times> v1_inline_sops_secret) list"

definition empty_cluster :: mem_cluster where
  "empty_cluster = \<lparr>cl_secrets = [], cl_gits = [], cl_objects = [], cl_sops = [], cl_manifests = [], cl_inlines = []\<rparr>"

definition cl_view :: "mem_cluster view" where
  "cl_view w k =
     (case map_of (cl_secrets w) k of
        None \<Rightarrow> None
      | Some s \<Rightarrow> if secret_key_of s = k \<and> om_resource_version (sec_meta s) \<noteq> [] then Some s else None)"

definition mem_get :: "('v option) \<Rightarrow> api_error + 'v" where
  "mem_get x = (case x of None \<Rightarrow> Inl (ApiError True ''not found'') | Some v \<Rightarrow> Inr v)"

definition mem_listing :: "mem_cluster \<Rightarrow> string \<Rightarrow> string \<times> string \<Rightarrow> secret list" where
  "mem_listing w ns lv =
     filter (\<lambda>s. om_namespace (sec_meta s) = ns \<and> gm_lookup (om_labels (sec_meta s)) (fst lv) = Some (snd lv))
       (List.map_filter (cl_view w) (remdups (map fst (cl_secrets w))))"

definition stored_as :: "objkey \<Rightarrow> secret \<Rightarrow> secret" where
  "stored_as k s = s\<lparr>sec_meta := (sec_meta s)\<lparr>om_name := ok_name k, om_namespace := ok_namespace k,
     om_resource_version := ''1''\<rparr>\<rparr>"

definition mem_create_or_update :: "secret \<Rightarrow> mutate \<Rightarrow> (mem_cluster, apply_error option) state" where
  "mem_create_or_update stub mut = State (\<lambda>w.
     let k = secret_key_of stub in
     case mut (case cl_view w k of None \<Rightarrow> stub | Some s \<Rightarrow> s) of
       Inl e \<Rightarrow> (Some e, w)
     | Inr out \<Rightarrow> (None, w\<lparr>cl_secrets := AList.update k (stored_as k out) (cl_secrets w)\<rparr>))"

fun mem_set_condition :: "condition list \<Rightarrow> condition \<Rightarrow> condition list" where
  "mem_set_condition [] c = [c]"
| "mem_set_condition (x # xs) c = (if c_type x = c_type c then c # xs else x # mem_set_condition xs c)"

definition mem_put :: "(mem_cluster \<Rightarrow> mem_cluster) \<Rightarrow> (mem_cluster, api_error option) state" where
  "mem_put f = State (\<lambda>w. (None, f w))"

definition mem_kube :: "mem_cluster kube" where
  "mem_kube =
     \<lparr>k_get_secret = (\<lambda>k. State (\<lambda>w. (mem_get (cl_view w k), w))),
      k_list_secrets = (\<lambda>ns lv. State (\<lambda>w. (Inr (mem_listing w ns lv), w))),
      k_delete_secret = (\<lambda>s. State (\<lambda>w. case cl_view w (secret_key_of s) of
          None \<Rightarrow> (Some (ApiError True ''not found''), w)
        | Some _ \<Rightarrow> (None, w\<lparr>cl_secrets := AList.delete (secret_key_of s) (cl_secrets w)\<rparr>))),
      k_create_or_update = mem_create_or_update,
      k_get_git_repository = (\<lambda>k. gets (\<lambda>w. mem_get (map_of (cl_gits w) k))),
      k_update_git_repository_status = (\<lambda>x. mem_put (\<lambda>w. w\<lparr>cl_gits := AList.update (meta_key (v1_gr_meta x)) x (cl_gits w)\<rparr>)),
      k_get_object_source = (\<lambda>k. gets (\<lambda>w. mem_get (map_of (cl_objects w) k))),
      k_update_object_source_status = (\<lambda>x. mem_put (\<lambda>w. w\<lparr>cl_objects := AList.update (meta_key (v2_os_meta x)) x (cl_objects w)\<rparr>)),
      k_get_sops_secret = (\<lambda>k. gets (\<lambda>w. mem_get (map_of (cl_sops w) k))),
      k_update_sops_secret = (\<lambda>x. mem_put (\<lambda>w. w\<lparr>cl_sops := AList.update (meta_key (v2_ss_meta x)) x (cl_sops w)\<rparr>)),
      k_update_sops_secret_status = (\<lambda>x. mem_put (\<lambda>w. w\<lparr>cl_sops := AList.update (meta_key (v2_ss_meta x)) x (cl_sops w)\<rparr>)),
      k_get_manifest = (\<lambda>k. gets (\<lambda>w. mem_get (map_of (cl_manifests w) k))),
      k_update_manifest = (\<lambda>x. mem_put (\<lambda>w. w\<lparr>cl_manifests := AList.update (meta_key (v2_sm_meta x)) x (cl_manifests w)\<rparr>)),
      k_update_manifest_status = (\<lambda>x. mem_put (\<lambda>w. w\<lparr>cl_manifests := AList.update (meta_key (v2_sm_meta x)) x (cl_manifests w)\<rparr>)),
      k_get_inline = (\<lambda>k. gets (\<lambda>w. mem_get (map_of (cl_inlines w) k))),
      k_update_inline = (\<lambda>x. mem_put (\<lambda>w. w\<lparr>cl_inlines := AList.update (meta_key (v1_is_meta x)) x (cl_inlines w)\<rparr>)),
      k_update_inline_status = (\<lambda>x. mem_put (\<lambda>w. w\<lparr>cl_inlines := AList.update (meta_key (v1_is_meta x)) x (cl_inlines w)\<rparr>)),
      k_list_git_repositories = (\<lambda>_. gets (\<lambda>w. Inr (map snd (cl_gits w)))),
      k_list_object_sources = (\<lambda>_. gets (\<lambda>w. Inr (map snd (cl_objects w)))),
      k_list_sops_secrets = (\<lambda>_ _. gets (\<lambda>w. Inr (map snd (cl_sops w)))),
      k_list_manifests = (\<lambda>_ _. gets (\<lambda>w. Inr (map snd (cl_manifests w)))),
      k_set_condition = mem_set_condition,
      k_contains_finalizer = (\<lambda>fs f. f \<in> set fs),
      k_add_finalizer = (\<lambda>fs f. if f \<in> set fs then fs else fs @ [f]),
      k_remove_finalizer = (\<lambda>fs f. filter (\<lambda>x. x \<noteq> f) fs)\<rparr>"

lemma cl_view_stored: "cl_view w k = Some s \<Longrightarrow> secret_key_of s = k \<and> om_resource_version (sec_meta s) \<noteq> []"
  by (auto simp: cl_view_def split: option.splits if_splits)

lemma in_map_filter: "s \<in> set (List.map_filter f ks) \<longleftrightarrow> (\<exists>k \<in> set ks. f k = Some s)"
  by (induction ks) (auto simp: map_filter_simps split: option.split)

lemma mem_listing_iff:
  "s \<in> set (mem_listing w ns (l, v)) \<longleftrightarrow> cl_view w (secret_key_of s) = Some s
     \<and> om_namespace (sec_meta s) = ns \<and> gm_lookup (om_labels (sec_meta s)) l = Some v"
proof -
  have known: "k \<in> fst ` set (cl_secrets w)" if "cl_view w k = Some x" for k x
  proof -
    have "map_of (cl_secrets w) k \<noteq> None" using that by (auto simp: cl_view_def split: option.splits)
    then show ?thesis by (simp add: map_of_eq_None_iff)
  qed
  have "s \<in> set (List.map_filter (cl_view w) (remdups (map fst (cl_secrets w))))
      \<longleftrightarrow> cl_view w (secret_key_of s) = Some s"
  proof
    assume "s \<in> set (List.map_filter (cl_view w) (remdups (map fst (cl_secrets w))))"
    then obtain k where "cl_view w k = Some s" by (auto simp: in_map_filter)
    with cl_view_stored [OF this] show "cl_view w (secret_key_of s) = Some s" by simp
  next
    assume "cl_view w (secret_key_of s) = Some s"
    with known show "s \<in> set (List.map_filter (cl_view w) (remdups (map fst (cl_secrets w))))"
      unfolding in_map_filter by fastforce
  qed
  then show ?thesis by (simp add: mem_listing_def)
qed

lemma mem_listing_distinct: "distinct (map secret_key_of (mem_listing w ns lv))"
proof -
  have "map secret_key_of (List.map_filter (cl_view w) ks) = filter (\<lambda>k. cl_view w k \<noteq> None) ks" for ks
    by (induction ks) (auto simp: map_filter_simps dest: cl_view_stored split: option.split)
  then have "distinct (map secret_key_of (List.map_filter (cl_view w) (remdups (map fst (cl_secrets w)))))"
    by simp
  then show ?thesis by (simp add: mem_listing_def distinct_map inj_on_def)
qed

lemma cl_view_update:
  "cl_view (w\<lparr>cl_secrets := AList.update k (stored_as k out) (cl_secrets w)\<rparr>) j
     = (if j = k then Some (stored_as k out) else cl_view w j)"
proof -
  have "secret_key_of (stored_as k out) = k"
    by (cases k) (simp add: secret_key_of_def stored_as_def meta_key_def)
  then show ?thesis by (simp add: cl_view_def update_conv' stored_as_def)
qed

lemma cl_view_delete:
  "cl_view (w\<lparr>cl_secrets := AList.delete k (cl_secrets w)\<rparr>) j = (if j = k then None else cl_view w j)"
  by (simp add: cl_view_def delete_conv')

lemma mem_set_condition_find:
  "map_option c_status (find (\<lambda>x. c_type x = t) (mem_set_condition cs c))
     = (if t = c_type c then Some (c_status c) else map_option c_status (find (\<lambda>x. c_type x = t) cs))"
  by (induction cs) auto

lemma mem_kube_ok: "kube_ok mem_kube cl_view"
proof -
  have "stored_ok cl_view" using cl_view_stored by (auto simp: stored_ok_def)
  moreover have "get_ok mem_kube cl_view"
    by (simp add: get_ok_def mem_kube_def reads_only_def mem_get_def split: option.split)
  moreover have "list_ok mem_kube cl_view"
    by (simp add: list_ok_def mem_kube_def reads_only_def mem_listing_iff mem_listing_distinct)
  moreover have "delete_ok mem_kube cl_view"
    unfolding delete_ok_def
  proof (intro allI impI)
    fix s w r w'
    assume run: "run_state (k_delete_secret mem_kube s) w = (r, w')"
    show "(\<forall>k. k \<noteq> secret_key_of s \<longrightarrow> cl_view w' k = cl_view w k)
     \<and> (case r of
          None \<Rightarrow> (case cl_view w' (secret_key_of s) of None \<Rightarrow> True | Some s' \<Rightarrow> deletion_pending s')
        | Some e \<Rightarrow> cl_view w' (secret_key_of s) = cl_view w (secret_key_of s)
            \<and> (is_not_found e \<longrightarrow> cl_view w (secret_key_of s) = None))"
      using run by (cases "cl_view w (secret_key_of s)") (auto simp: mem_kube_def cl_view_delete)
  qed
  moreover have "create_or_update_ok mem_kube cl_view"
    unfolding create_or_update_ok_def Let_def
  proof (intro allI impI)
    fix stub mut w r w'
    assume run: "run_state (k_create_or_update mem_kube stub mut) w = (r, w')"
    let ?k = "secret_key_of stub"
    let ?base = "case cl_view w ?k of None \<Rightarrow> stub | Some s \<Rightarrow> s"
    have same: "same_content out (stored_as ?k out)" for out
      by (simp add: same_content_def stored_as_def)
    show "(\<forall>j. j \<noteq> ?k \<longrightarrow> cl_view w' j = cl_view w j)
      \<and> (case mut ?base of
           Inl e \<Rightarrow> cl_view w' ?k = cl_view w ?k \<and> (r = Some e \<or> (\<exists>a. r = Some (ApplyApi a)))
         | Inr out \<Rightarrow>
             (r = None \<or> (\<exists>a. r = Some (ApplyApi a)))
             \<and> ((r \<noteq> None \<and> cl_view w' ?k = cl_view w ?k) \<or> (\<exists>s'. cl_view w' ?k = Some s' \<and> same_content out s')))"
      using run same by (cases "mut ?base") (auto simp: mem_kube_def mem_create_or_update_def Let_def cl_view_update)
  qed
  moreover have "other_ops_ok mem_kube cl_view"
    by (simp add: other_ops_ok_def mem_kube_def reads_only_def mem_put_def) (simp add: cl_view_def fun_eq_iff)
  moreover have "conditions_ok mem_kube"
    by (simp add: conditions_ok_def mem_kube_def mem_set_condition_find)
  moreover have "finalizers_ok mem_kube"
    by (auto simp: finalizers_ok_def mem_kube_def)
  ultimately show ?thesis by (simp add: kube_ok_def)
qed

end
