(* ===== verification/Credentials.thy ===== *)
theory Credentials
  imports Kube ErrorText
begin

text \<open>
  \<open>internal/controller/credentials.go\<close>, \<open>internal/keyresolve/age.go\<close> and the credential flags of
  \<open>cmd/main.go\<close>: the operator's policy, and the age key a resource is decrypted with.

  \<open>operator_env\<close> collects the parameters of the model: the API client, go-git, the remotes, SOPS
  and the YAML decoder. \<open>post m s Q\<close> says that \<open>m\<close>, run from \<open>s\<close>, ends with a value and a state
  that satisfy \<open>Q\<close>; its rules walk through a program.
\<close>

section \<open>Postconditions\<close>

named_theorems post_intros "rules that walk through a program for a postcondition"

definition post :: "('s, 'a) state \<Rightarrow> 's \<Rightarrow> ('a \<Rightarrow> 's \<Rightarrow> bool) \<Rightarrow> bool" where
  "post m s Q \<longleftrightarrow> (case run_state m s of (a, t) \<Rightarrow> Q a t)"

lemma postD: "post m s Q \<Longrightarrow> run_state m s = (a, t) \<Longrightarrow> Q a t"
  by (simp add: post_def)

lemma postI: "(\<And>a t. run_state m s = (a, t) \<Longrightarrow> Q a t) \<Longrightarrow> post m s Q"
  by (simp add: post_def split: prod.split)

lemma post_bind [post_intros]: "post m s (\<lambda>a t. post (f a) t Q) \<Longrightarrow> post (State_Monad.bind m f) s Q"
  by (simp add: post_def split: prod.splits)

lemma post_return [post_intros]: "Q x s \<Longrightarrow> post (State_Monad.return x) s Q"
  by (simp add: post_def)

lemma post_gets [post_intros]: "Q (f s) s \<Longrightarrow> post (gets f) s Q"
  by (simp add: post_def)

lemma post_if [post_intros]:
  "(b \<Longrightarrow> post m s Q) \<Longrightarrow> (\<not> b \<Longrightarrow> post n s Q) \<Longrightarrow> post (if b then m else n) s Q"
  by simp

lemma post_sum [post_intros]:
  "(\<And>a. x = Inl a \<Longrightarrow> post (f a) s Q) \<Longrightarrow> (\<And>b. x = Inr b \<Longrightarrow> post (g b) s Q)
    \<Longrightarrow> post (case x of Inl a \<Rightarrow> f a | Inr b \<Rightarrow> g b) s Q"
  by (cases x) auto

lemma post_option [post_intros]:
  "(x = None \<Longrightarrow> post m s Q) \<Longrightarrow> (\<And>b. x = Some b \<Longrightarrow> post (g b) s Q)
    \<Longrightarrow> post (case x of None \<Rightarrow> m | Some b \<Rightarrow> g b) s Q"
  by (cases x) auto

lemma post_prod [post_intros]:
  "(\<And>a b. x = (a, b) \<Longrightarrow> post (f a b) s Q) \<Longrightarrow> post (case x of (a, b) \<Rightarrow> f a b) s Q"
  by (cases x) auto

lemma post_mono: "post m s P \<Longrightarrow> (\<And>a t. P a t \<Longrightarrow> Q a t) \<Longrightarrow> post m s Q"
  by (simp add: post_def split: prod.splits)

lemma post_frame: "state_io_rel R m \<Longrightarrow> (\<And>a t. R s t \<Longrightarrow> Q a t) \<Longrightarrow> post m s Q"
  by (rule postI) (blast dest: frame_run)

section \<open>Parameters\<close>

record 'w operator_env =
  e_kube :: "'w kube"
  e_git :: "'w git_ext"
  e_remote :: "'w remote_ext"
  e_sops :: "'w sops_lib"
  e_yaml :: yaml_lib

section \<open>The policy\<close>

record credential_policy =
  secret_refs :: resolver
  global_age_key :: "global_ref option"
  global_git_auth :: "global_ref option"
  global_object_auth :: "global_ref option"

definition no_policy :: credential_policy where
  "no_policy = \<lparr>secret_refs = zero_resolver, global_age_key = None, global_git_auth = None,
     global_object_auth = None\<rparr>"

text \<open>\<open>buildCredentialPolicy\<close>: the error names the flag.\<close>

definition build_credential_policy ::
  "string \<Rightarrow> string \<Rightarrow> string \<Rightarrow> string \<Rightarrow> string \<Rightarrow> (string \<times> global_error) + credential_policy" where
  "build_credential_policy age_key_secret age_key_data_key git_auth_secret object_auth_secret ref_namespaces =
     (case parse_global age_key_secret age_key_data_key of
        Inl e \<Rightarrow> Inl (''--global-age-key-secret'', e)
      | Inr age_key \<Rightarrow>
          (case parse_global git_auth_secret [] of
             Inl e \<Rightarrow> Inl (''--global-git-auth-secret'', e)
           | Inr git_auth \<Rightarrow>
               (case parse_global object_auth_secret [] of
                  Inl e \<Rightarrow> Inl (''--global-object-auth-secret'', e)
                | Inr object_auth \<Rightarrow>
                    (let namespaces = (if trim_space ref_namespaces \<noteq> [] then split_on CHR '','' ref_namespaces
                                       else []) in
                     Inr \<lparr>secret_refs = new_resolver namespaces, global_age_key = age_key,
                          global_git_auth = git_auth, global_object_auth = object_auth\<rparr>))))"

section \<open>The age key\<close>

datatype age_error =
    GetAgeSecret string api_error
  | NoSuchDataKey string string
  | AgeKeyValueEmpty string string

datatype key_error = ResolveAgeKey resolve_error | AgeError age_error

fun age_error_text :: "age_error \<Rightarrow> string" where
  "age_error_text (GetAgeSecret name e) = ''get age-key secret '' @ go_quote name @ '': '' @ api_text e"
| "age_error_text (NoSuchDataKey name k) = ''secret '' @ go_quote name @ '' has no key '' @ go_quote k"
| "age_error_text (AgeKeyValueEmpty name k) =
     ''age key at '' @ go_quote name @ ''/'' @ go_quote k @ '' is empty''"

fun key_error_text :: "key_error \<Rightarrow> string" where
  "key_error_text (ResolveAgeKey e) = ''resolve age key: '' @ resolve_error_text e"
| "key_error_text (AgeError e) = age_error_text e"

text \<open>\<open>keyresolve.Age\<close>\<close>

definition age ::
  "'w kube \<Rightarrow> string \<Rightarrow> string \<Rightarrow> string \<Rightarrow> ('w, 'x, age_error + bytes) os_prog" where
  "age K namespace name key = do {
     got \<leftarrow> on_world (k_get_secret K (ObjectKey namespace name));
     State_Monad.return (case got of
         Inl e \<Rightarrow> Inl (GetAgeSecret name e)
       | Inr sec \<Rightarrow>
           (case gm_lookup (sec_data sec) key of
              None \<Rightarrow> Inl (NoSuchDataKey name key)
            | Some val \<Rightarrow> if val = [] then Inl (AgeKeyValueEmpty name key) else Inr val))
   }"

definition age_key_ref :: "string \<Rightarrow> string \<Rightarrow> string \<Rightarrow> secret_ref" where
  "age_key_ref name key namespace = \<lparr>r_namespace = namespace, r_name = name, r_key = key\<rparr>"

definition resolve_age_key ::
  "credential_policy \<Rightarrow> 'w kube \<Rightarrow> string \<Rightarrow> secret_ref \<Rightarrow> ('w, 'x, key_error + bytes \<times> origin) os_prog" where
  "resolve_age_key p K cr_namespace ref =
     (case resolve (secret_refs p) cr_namespace ref (global_age_key p) of
        Inl e \<Rightarrow> State_Monad.return (Inl (ResolveAgeKey e))
      | Inr res \<Rightarrow> do {
          r \<leftarrow> age K (ok_namespace (rs_object_key res)) (ok_name (rs_object_key res)) (rs_data_key res);
          State_Monad.return (case r of Inl e \<Rightarrow> Inl (AgeError e) | Inr k \<Rightarrow> Inr (k, rs_origin res))
        })"

fun describe_auth_origin :: "origin \<Rightarrow> string" where
  "describe_auth_origin OriginGlobal = ''auth resolved from the operator's global credential''"
| "describe_auth_origin OriginCrossNamespace = ''auth resolved from a credential in another namespace''"
| "describe_auth_origin OriginLocal = ''auth resolved''"
| "describe_auth_origin OriginNone = ''no authentication configured''"

fun describe_key_origin :: "origin \<Rightarrow> string" where
  "describe_key_origin OriginGlobal = ''using the operator's global age key''"
| "describe_key_origin OriginCrossNamespace = ''using an age key from another namespace''"
| "describe_key_origin _ = ''using the resource's own age key''"

section \<open>What is read\<close>

lemma run_age:
  "\<exists>w r. run_state (age K ns name key) s = (r, s\<lparr>world := w\<rparr>)
     \<and> w = snd (run_state (k_get_secret K (ObjectKey ns name)) (world s))
     \<and> (\<forall>v. r = Inr v \<longleftrightarrow> (v \<noteq> [] \<and> (\<exists>sec. fst (run_state (k_get_secret K (ObjectKey ns name)) (world s)) = Inr sec
            \<and> gm_lookup (sec_data sec) key = Some v)))"
  by (cases "fst (run_state (k_get_secret K (ObjectKey ns name)) (world s))")
    (auto simp: age_def run_on_world split: option.splits)

end
