(* ===== verification/Target.thy ===== *)
theory Target
  imports Credentials
begin

text \<open>
  The target Secret, as the three consumer controllers handle it: the markers of
  \<open>internal/controller/labels.go\<close>, the adoption check that opens each of the four mutate functions,
  and the removal of an owned Secret. The four mutate functions themselves are in the theories of
  their controllers; what they have in common is the locale \<open>target_mutator\<close>, interpreted there.
\<close>

section \<open>Markers\<close>

definition ManagedByLabel :: string where "ManagedByLabel = ''sops.stuttgart-things.com/managed-by''"
definition ManagedByValue :: string where "ManagedByValue = ''sops-secrets-operator''"
definition OwnerAnnotation :: string where "OwnerAnnotation = ''sops.stuttgart-things.com/owner''"
definition OwnerUIDAnnotation :: string where "OwnerUIDAnnotation = ''sops.stuttgart-things.com/owner-uid''"
definition ContentHashAnnotation :: string where "ContentHashAnnotation = ''sops.stuttgart-things.com/content-hash''"
definition SourceCommitAnnotation :: string where "SourceCommitAnnotation = ''sops.stuttgart-things.com/source-commit''"
definition Finalizer :: string where "Finalizer = ''sops.stuttgart-things.com/finalizer''"
definition ReconcileRequestAnnotation :: string where
  "ReconcileRequestAnnotation = ''sops.stuttgart-things.com/reconcile-requested''"

lemmas marker_defs = ManagedByLabel_def ManagedByValue_def OwnerAnnotation_def OwnerUIDAnnotation_def
  ContentHashAnnotation_def SourceCommitAnnotation_def

lemma markers_distinct [simp]:
  "OwnerAnnotation \<noteq> OwnerUIDAnnotation" "OwnerAnnotation \<noteq> ContentHashAnnotation"
  "OwnerAnnotation \<noteq> SourceCommitAnnotation" "OwnerUIDAnnotation \<noteq> ContentHashAnnotation"
  "OwnerUIDAnnotation \<noteq> SourceCommitAnnotation" "ContentHashAnnotation \<noteq> SourceCommitAnnotation"
  "ManagedByValue \<noteq> []" "[] \<noteq> ManagedByValue"
  by (simp_all add: marker_defs)

text \<open>\<open>fmt.Sprintf("<kind>/%s/%s", namespace, name)\<close>\<close>

definition owner_key :: "string \<Rightarrow> object_meta \<Rightarrow> string" where
  "owner_key kind m = kind @ ''/'' @ om_namespace m @ ''/'' @ om_name m"

definition label_of :: "secret \<Rightarrow> string \<Rightarrow> string" where
  "label_of s k = gm_get (om_labels (sec_meta s)) k"

definition annotation_of :: "secret \<Rightarrow> string \<Rightarrow> string" where
  "annotation_of s k = gm_get (om_annotations (sec_meta s)) k"

section \<open>The adoption check\<close>

definition adoption_check :: "string \<Rightarrow> bool \<Rightarrow> secret \<Rightarrow> apply_error option" where
  "adoption_check owner adopt s =
     (if om_resource_version (sec_meta s) \<noteq> [] then
        (let managed_by = label_of s ManagedByLabel; existing_owner = annotation_of s OwnerAnnotation in
         if managed_by = [] \<and> \<not> adopt then
           Some (NotManaged (om_namespace (sec_meta s)) (om_name (sec_meta s)))
         else if managed_by = ManagedByValue \<and> existing_owner \<noteq> [] \<and> existing_owner \<noteq> owner then
           Some (OwnedByOther (om_namespace (sec_meta s)) (om_name (sec_meta s)) existing_owner)
         else None)
      else None)"

definition stamped :: "string \<Rightarrow> secret \<Rightarrow> bool" where
  "stamped owner s \<longleftrightarrow>
     gm_lookup (om_labels (sec_meta s)) ManagedByLabel = Some ManagedByValue
     \<and> gm_lookup (om_annotations (sec_meta s)) OwnerAnnotation = Some owner"

text \<open>A Secret that carries the owner's own marks passes, whatever \<open>adopt\<close> says.\<close>

lemma adoption_stamped: "stamped owner s \<Longrightarrow> adoption_check owner adopt s = None"
  by (auto simp: stamped_def adoption_check_def label_of_def annotation_of_def gm_get_def ManagedByValue_def)

fun apply_error_text :: "apply_error \<Rightarrow> string" where
  "apply_error_text (NotManaged ns name) =
     ''target Secret '' @ ns @ ''/'' @ name @ '' exists but is not managed by this operator; set target.adopt=true to take over''"
| "apply_error_text (OwnedByOther ns name owner) =
     ''target Secret '' @ ns @ ''/'' @ name @ '' is already owned by '' @ go_quote owner"
| "apply_error_text NilMapPanic = ''assignment to entry in nil map''"
| "apply_error_text (ApplyApi e) = api_text e"

text \<open>
  What a reconcile on behalf of \<open>owner\<close> may do to the stored Secrets: a Secret that changes is at a
  key in \<open>P\<close>, was absent or passed the adoption check, and is then either gone (or going), or
  stamped with the owner and of a kind \<open>D\<close> allows.
\<close>

definition owner_frame ::
  "'w view \<Rightarrow> (objkey \<Rightarrow> bool) \<Rightarrow> string \<Rightarrow> bool \<Rightarrow> (secret \<Rightarrow> bool) \<Rightarrow> 'w \<Rightarrow> 'w \<Rightarrow> bool" where
  "owner_frame V P owner adopt D w w' \<longleftrightarrow> (\<forall>k. V w' k = V w k \<or>
     (P k \<and> (\<forall>s. V w k = Some s \<longrightarrow> adoption_check owner adopt s = None)
       \<and> (\<forall>s'. V w' k = Some s' \<longrightarrow> (stamped owner s' \<and> D s') \<or> deletion_pending s')))"

definition secrets_frame ::
  "'w view \<Rightarrow> (objkey \<Rightarrow> bool) \<Rightarrow> string \<Rightarrow> bool \<Rightarrow> (secret \<Rightarrow> bool)
    \<Rightarrow> ('w, 'x) op_state_scheme \<Rightarrow> ('w, 'x) op_state_scheme \<Rightarrow> bool" where
  "secrets_frame V P owner adopt D s s' \<longleftrightarrow> owner_frame V P owner adopt D (world s) (world s')"

lemma owner_frame_same: "V w' = V w \<Longrightarrow> owner_frame V P owner adopt D w w'"
  by (simp add: owner_frame_def)

lemma frame_rel_secrets: "frame_rel (secrets_frame V P owner adopt D)"
proof (rule frame_relI)
  show "secrets_frame V P owner adopt D s s" for s :: "('a, 'b) op_state_scheme"
    by (simp add: secrets_frame_def owner_frame_def)
  show "secrets_frame V P owner adopt D s u"
    if "secrets_frame V P owner adopt D s t" "secrets_frame V P owner adopt D t u"
    for s t u :: "('a, 'b) op_state_scheme"
    unfolding secrets_frame_def owner_frame_def
  proof
    fix k
    have st: "V (world t) k = V (world s) k \<or>
       (P k \<and> (\<forall>x. V (world s) k = Some x \<longrightarrow> adoption_check owner adopt x = None)
         \<and> (\<forall>x. V (world t) k = Some x \<longrightarrow> (stamped owner x \<and> D x) \<or> deletion_pending x))"
      and tu: "V (world u) k = V (world t) k \<or>
       (P k \<and> (\<forall>x. V (world t) k = Some x \<longrightarrow> adoption_check owner adopt x = None)
         \<and> (\<forall>x. V (world u) k = Some x \<longrightarrow> (stamped owner x \<and> D x) \<or> deletion_pending x))"
      using that by (auto simp: secrets_frame_def owner_frame_def)
    then show "V (world u) k = V (world s) k \<or>
       (P k \<and> (\<forall>x. V (world s) k = Some x \<longrightarrow> adoption_check owner adopt x = None)
         \<and> (\<forall>x. V (world u) k = Some x \<longrightarrow> (stamped owner x \<and> D x) \<or> deletion_pending x))"
      by (elim disjE) auto
  qed
qed

text \<open>Programs that do not touch the Secrets at all.\<close>

definition quiet :: "'w view \<Rightarrow> ('w, 'x) op_state_scheme \<Rightarrow> ('w, 'x) op_state_scheme \<Rightarrow> bool" where
  "quiet V s s' \<longleftrightarrow> V (world s') = V (world s)"

lemma frame_rel_quiet: "frame_rel (quiet V)"
  by (rule frame_relI) (auto simp: quiet_def)

lemmas quiet_intros =
  frame_bind [OF frame_rel_quiet] frame_return [OF frame_rel_quiet] frame_gets [OF frame_rel_quiet]
  frame_if frame_case_sum frame_case_option frame_case_prod

lemma quiet_on_world: "reads_only V m \<Longrightarrow> state_io_rel (quiet V) (on_world m)"
  by (auto simp: state_io_rel_def run_on_world quiet_def reads_only_def)

lemma quiet_frame: "state_io_rel (quiet V) m \<Longrightarrow> state_io_rel (secrets_frame V P owner adopt D) m"
  by (auto simp: state_io_rel_def quiet_def secrets_frame_def owner_frame_same)

lemmas secrets_frame_intros =
  frame_bind [OF frame_rel_secrets] frame_return [OF frame_rel_secrets] frame_gets [OF frame_rel_secrets]
  frame_if frame_case_sum frame_case_option frame_case_prod quiet_frame

section \<open>The contract of a mutate function\<close>

locale target_mutator =
  fixes mut :: mutate and owner :: string and adopt :: bool and out_ok :: "secret \<Rightarrow> bool"
  assumes mut_refuses: "adoption_check owner adopt base = Some e \<Longrightarrow> mut base = Inl e"
    and mut_accepts: "adoption_check owner adopt base = None \<Longrightarrow>
      \<exists>out. mut base = Inr out \<and> stamped owner out \<and> out_ok out"
    and out_ok_content: "out_ok a \<Longrightarrow> same_content a b \<Longrightarrow> out_ok b"
begin

lemma own_output:
  assumes "mut base = Inr out" and "same_content out s"
  shows "adoption_check owner adopt s = None"
proof -
  have "adoption_check owner adopt base = None"
    using mut_refuses assms(1) by (cases "adoption_check owner adopt base") auto
  from mut_accepts [OF this] assms(1) have "stamped owner out" by auto
  with assms(2) show ?thesis by (intro adoption_stamped) (simp add: stamped_def same_content_def)
qed

lemma never_panics: "mut base \<noteq> Inl NilMapPanic"
proof (cases "adoption_check owner adopt base")
  case None
  from mut_accepts [OF this] show ?thesis by auto
next
  case (Some e)
  then have "e \<noteq> NilMapPanic" by (auto simp: adoption_check_def Let_def split: if_splits)
  with mut_refuses [OF Some] show ?thesis by simp
qed

text \<open>
  Applying the Secret through \<open>CreateOrUpdate\<close>: only the target changes, and only if it passes the
  check; on success it is there, stamped, with the contents that \<open>out_ok\<close> describes.
\<close>

lemma apply_effect:
  assumes "kube_ok K V" and "om_resource_version (sec_meta stub) = []"
    and run: "run_state (k_create_or_update K stub mut) w = (r, w')"
  shows "owner_frame V (\<lambda>k. k = secret_key_of stub) owner adopt out_ok w w'
    \<and> (r = None \<longrightarrow> (\<exists>s'. V w' (secret_key_of stub) = Some s' \<and> stamped owner s' \<and> out_ok s'))"
proof -
  let ?k = "secret_key_of stub"
  define base where "base = (case V w ?k of None \<Rightarrow> stub | Some s \<Rightarrow> s)"
  have law: "(\<forall>j. j \<noteq> ?k \<longrightarrow> V w' j = V w j)
      \<and> (case mut base of
           Inl e \<Rightarrow> V w' ?k = V w ?k \<and> (r = Some e \<or> (\<exists>a. r = Some (ApplyApi a)))
         | Inr out \<Rightarrow>
             (r = None \<or> (\<exists>a. r = Some (ApplyApi a)))
             \<and> ((r \<noteq> None \<and> V w' ?k = V w ?k) \<or> (\<exists>s'. V w' ?k = Some s' \<and> same_content out s')))"
    using assms(1) run unfolding kube_ok_def create_or_update_ok_def Let_def base_def by blast
  show ?thesis
  proof (cases "adoption_check owner adopt base")
    case (Some e)
    have same: "V w' k = V w k" for k using law mut_refuses [OF Some] by (cases "k = ?k") auto
    have "r \<noteq> None" using law mut_refuses [OF Some] by auto
    with same show ?thesis by (auto simp: owner_frame_def)
  next
    case None
    obtain out where out: "mut base = Inr out" "stamped owner out" "out_ok out"
      using mut_accepts [OF None] by blast
    have stored: "stamped owner s' \<and> out_ok s'" if "same_content out s'" for s'
      using out that out_ok_content by (auto simp: same_content_def stamped_def)
    have pass: "V w ?k = Some s \<Longrightarrow> adoption_check owner adopt s = None" for s
      using None by (simp add: base_def)
    have other: "V w' j = V w j" if "j \<noteq> ?k" for j using law that by blast
    from law out(1) have at_k: "(r \<noteq> None \<and> V w' ?k = V w ?k) \<or> (\<exists>s'. V w' ?k = Some s' \<and> same_content out s')"
      by auto
    then have "V w' ?k = V w ?k \<or> (\<exists>s'. V w' ?k = Some s' \<and> stamped owner s' \<and> out_ok s')"
      using stored by blast
    then have "owner_frame V (\<lambda>k. k = ?k) owner adopt out_ok w w'"
      unfolding owner_frame_def using pass other by (metis option.inject)
    moreover have "r = None \<longrightarrow> (\<exists>s'. V w' ?k = Some s' \<and> stamped owner s' \<and> out_ok s')"
      using at_k stored by blast
    ultimately show ?thesis by blast
  qed
qed

end

section \<open>Removing an owned Secret\<close>

text \<open>\<open>deleteIfOwned\<close> of the manifest and inline controllers, and \<open>deleteOwnedSecret\<close> of the mapping controller.\<close>

definition delete_if_owned ::
  "'w kube \<Rightarrow> string \<Rightarrow> string \<Rightarrow> string \<Rightarrow> ('w, 'x, api_error option) op_prog" where
  "delete_if_owned K name namespace owner = do {
     got \<leftarrow> on_world (k_get_secret K (ObjectKey namespace name));
     case got of
       Inl e \<Rightarrow> State_Monad.return (ignore_not_found (Some e))
     | Inr sec \<Rightarrow>
         if label_of sec ManagedByLabel \<noteq> ManagedByValue \<or> annotation_of sec OwnerAnnotation \<noteq> owner
         then State_Monad.return None
         else do {
           r \<leftarrow> on_world (k_delete_secret K sec);
           State_Monad.return (ignore_not_found r)
         }
   }"

text \<open>The loop over a listing: the first error ends it.\<close>

fun delete_owned_loop :: "'w kube \<Rightarrow> string \<Rightarrow> secret list \<Rightarrow> ('w, 'x, api_error option) op_prog" where
  "delete_owned_loop K owner [] = State_Monad.return None"
| "delete_owned_loop K owner (sec # secs) =
     (if annotation_of sec OwnerAnnotation \<noteq> owner then delete_owned_loop K owner secs
      else do {
        r \<leftarrow> on_world (k_delete_secret K sec);
        case ignore_not_found r of
          Some e \<Rightarrow> State_Monad.return (Some e)
        | None \<Rightarrow> delete_owned_loop K owner secs
      })"

definition delete_owned_scan ::
  "'w kube \<Rightarrow> string \<Rightarrow> string \<Rightarrow> ('w, 'x, api_error option) op_prog" where
  "delete_owned_scan K namespace owner = do {
     listed \<leftarrow> on_world (k_list_secrets K namespace (ManagedByLabel, ManagedByValue));
     case listed of
       Inl e \<Rightarrow> State_Monad.return (Some e)
     | Inr secs \<Rightarrow> delete_owned_loop K owner secs
   }"

text \<open>A Secret that carries both markers of the owner.\<close>

definition owned_by :: "string \<Rightarrow> secret \<Rightarrow> bool" where
  "owned_by owner s \<longleftrightarrow> label_of s ManagedByLabel = ManagedByValue \<and> annotation_of s OwnerAnnotation = owner"

definition gone :: "secret option \<Rightarrow> bool" where
  "gone x \<longleftrightarrow> (case x of None \<Rightarrow> True | Some s \<Rightarrow> deletion_pending s)"

text \<open>Only owned Secrets at keys in \<open>P\<close> change, and they are gone afterwards.\<close>

definition deletes_only ::
  "'w view \<Rightarrow> (objkey \<Rightarrow> bool) \<Rightarrow> string \<Rightarrow> ('w, 'x) op_state_scheme \<Rightarrow> ('w, 'x) op_state_scheme \<Rightarrow> bool" where
  "deletes_only V P owner s s' \<longleftrightarrow> (\<forall>k. V (world s') k = V (world s) k \<or>
     (P k \<and> (\<exists>x. V (world s) k = Some x \<and> owned_by owner x) \<and> gone (V (world s') k)))"

lemma frame_rel_deletes: "frame_rel (deletes_only V P owner)"
proof (rule frame_relI)
  show "deletes_only V P owner s s" for s :: "('a, 'b) op_state_scheme" by (simp add: deletes_only_def)
  show "deletes_only V P owner s u"
    if "deletes_only V P owner s t" "deletes_only V P owner t u" for s t u :: "('a, 'b) op_state_scheme"
    unfolding deletes_only_def
  proof
    fix k
    show "V (world u) k = V (world s) k \<or>
     (P k \<and> (\<exists>x. V (world s) k = Some x \<and> owned_by owner x) \<and> gone (V (world u) k))"
      using that [unfolded deletes_only_def, rule_format, of k] by (elim disjE) auto
  qed
qed

lemma quiet_deletes: "state_io_rel (quiet V) m \<Longrightarrow> state_io_rel (deletes_only V P owner) m"
  by (auto simp: state_io_rel_def quiet_def deletes_only_def)

lemmas deletes_intros =
  frame_bind [OF frame_rel_deletes] frame_return [OF frame_rel_deletes]
  frame_if frame_case_sum frame_case_option quiet_deletes

lemma owned_passes: "owned_by owner x \<Longrightarrow> adoption_check owner adopt x = None"
  by (simp add: owned_by_def adoption_check_def Let_def)

lemma deletes_frame:
  assumes "deletes_only V P owner s s'"
  shows "secrets_frame V P owner adopt D s s'"
  unfolding secrets_frame_def owner_frame_def
proof
  fix k
  show "V (world s') k = V (world s) k \<or>
       (P k \<and> (\<forall>x. V (world s) k = Some x \<longrightarrow> adoption_check owner adopt x = None)
         \<and> (\<forall>x. V (world s') k = Some x \<longrightarrow> (stamped owner x \<and> D x) \<or> deletion_pending x))"
    using assms [unfolded deletes_only_def, rule_format, of k] owned_passes [of owner]
    by (auto simp: gone_def)
qed

text \<open>One deletion of a Secret that is stored as given.\<close>

lemma delete_secret_effect:
  assumes "delete_ok K V" and "V (world s) (secret_key_of sec) = Some sec" and "owned_by owner sec"
    and "P (secret_key_of sec)"
    and run: "run_state (on_world (k_delete_secret K sec)) s = (r, s')"
  shows "deletes_only V P owner s s'"
    and "ignore_not_found r = None \<Longrightarrow> gone (V (world s') (secret_key_of sec))"
    and "k \<noteq> secret_key_of sec \<Longrightarrow> V (world s') k = V (world s) k"
proof -
  have run': "run_state (k_delete_secret K sec) (world s) = (r, world s')"
    using run by (auto simp: run_on_world)
  note law = assms(1) [unfolded delete_ok_def, rule_format, OF run']
  show "k \<noteq> secret_key_of sec \<Longrightarrow> V (world s') k = V (world s) k" for k using law by blast
  show "ignore_not_found r = None \<Longrightarrow> gone (V (world s') (secret_key_of sec))"
    using law by (cases r) (auto simp: ignore_not_found_def gone_def split: if_splits)
  show "deletes_only V P owner s s'"
    unfolding deletes_only_def
  proof
    fix k
    show "V (world s') k = V (world s) k \<or>
      P k \<and> (\<exists>x. V (world s) k = Some x \<and> owned_by owner x) \<and> gone (V (world s') k)"
      using law assms(2-4) by (cases "k = secret_key_of sec"; cases r) (auto simp: gone_def)
  qed
qed

lemma delete_if_owned_effect:
  assumes "kube_ok K V" and run: "run_state (delete_if_owned K name ns owner) s = (r, s')"
  shows "deletes_only V (\<lambda>k. k = ObjectKey ns name) owner s s'"
    and "r = None \<Longrightarrow> V (world s') (ObjectKey ns name) = Some x \<Longrightarrow> \<not> owned_by owner x \<or> deletion_pending x"
proof -
  let ?k = "ObjectKey ns name"
  have ok: "get_ok K V" "delete_ok K V" "stored_ok V" using assms(1) by (simp_all add: kube_ok_def)
  obtain got s1 where got: "run_state (on_world (k_get_secret K ?k)) s = (got, s1)" by fastforce
  have s1: "V (world s1) = V (world s)"
    using got ok(1) by (auto simp: run_on_world get_ok_def reads_only_def)
  have law: "case got of Inr y \<Rightarrow> V (world s) ?k = Some y | Inl e \<Rightarrow> is_not_found e \<longrightarrow> V (world s) ?k = None"
    using got ok(1) by (auto simp: run_on_world get_ok_def)
  have refl: "deletes_only V P owner s s1" for P using s1 by (simp add: deletes_only_def)
  have both: "deletes_only V (\<lambda>k. k = ?k) owner s s'
    \<and> (r = None \<longrightarrow> (\<forall>x. V (world s') ?k = Some x \<longrightarrow> \<not> owned_by owner x \<or> deletion_pending x))"
  proof (cases got)
    case (Inl e)
    then have "s' = s1" "r = ignore_not_found (Some e)"
      using run got by (simp_all add: delete_if_owned_def)
    with refl law Inl s1 show ?thesis by (auto simp: ignore_not_found_def split: if_splits)
  next
    case (Inr sec)
    have stored: "V (world s) ?k = Some sec" using law Inr by simp
    then have key: "secret_key_of sec = ?k" using ok(3) by (auto simp: stored_ok_def)
    show ?thesis
    proof (cases "owned_by owner sec")
      case False
      then have "s' = s1" using run got Inr by (auto simp: delete_if_owned_def owned_by_def split: if_splits)
      with refl False stored s1 show ?thesis by auto
    next
      case True
      obtain d where d: "run_state (on_world (k_delete_secret K sec)) s1 = (d, s')" "r = ignore_not_found d"
        using run got Inr True by (auto simp: delete_if_owned_def owned_by_def split: prod.splits)
      note eff = delete_secret_effect [OF ok(2) _ True _ d(1)]
      have "deletes_only V (\<lambda>k. k = ?k) owner s1 s'"
        using eff(1) stored s1 key by simp
      then have "deletes_only V (\<lambda>k. k = ?k) owner s s'" using s1 by (simp add: deletes_only_def)
      moreover have "r = None \<Longrightarrow> gone (V (world s') ?k)" using eff(2) stored s1 key d(2) by simp
      ultimately show ?thesis by (auto simp: gone_def)
    qed
  qed
  then show "deletes_only V (\<lambda>k. k = ?k) owner s s'" by blast
  show "r = None \<Longrightarrow> V (world s') ?k = Some x \<Longrightarrow> \<not> owned_by owner x \<or> deletion_pending x"
    using both by blast
qed

lemma delete_owned_loop_effect:
  assumes "delete_ok K V" and "run_state (delete_owned_loop K owner secs) s = (r, s')"
    and "\<forall>sec \<in> set secs. V (world s) (secret_key_of sec) = Some sec \<and> P (secret_key_of sec)
          \<and> label_of sec ManagedByLabel = ManagedByValue"
    and "distinct (map secret_key_of secs)"
  shows "deletes_only V P owner s s'
    \<and> (\<forall>k. k \<notin> secret_key_of ` set secs \<longrightarrow> V (world s') k = V (world s) k)
    \<and> (r = None \<longrightarrow> (\<forall>sec \<in> set secs. owned_by owner sec \<longrightarrow> gone (V (world s') (secret_key_of sec))))"
  using assms(2-4)
proof (induction secs arbitrary: s)
  case Nil
  then show ?case by (simp add: deletes_only_def)
next
  case (Cons sec secs)
  let ?key = "secret_key_of sec"
  show ?case
  proof (cases "annotation_of sec OwnerAnnotation = owner")
    case False
    then have "run_state (delete_owned_loop K owner secs) s = (r, s')" using Cons.prems(1) by simp
    from Cons.IH [OF this] Cons.prems(2,3) False show ?thesis by (auto simp: owned_by_def)
  next
    case True
    obtain d t where d: "run_state (on_world (k_delete_secret K sec)) s = (d, t)" by fastforce
    have own: "owned_by owner sec" using True Cons.prems(2) by (simp add: owned_by_def)
    have eff: "deletes_only V P owner s t" "ignore_not_found d = None \<Longrightarrow> gone (V (world t) ?key)"
        "\<And>k. k \<noteq> ?key \<Longrightarrow> V (world t) k = V (world s) k"
      using delete_secret_effect [OF assms(1) _ own _ d] Cons.prems(2) by auto
    show ?thesis
    proof (cases "ignore_not_found d")
      case (Some e)
      then have "s' = t" "r = Some e" using Cons.prems(1) True d by simp_all
      with eff show ?thesis by auto
    next
      case None
      then have rest: "run_state (delete_owned_loop K owner secs) t = (r, s')"
        using Cons.prems(1) True d by simp
      have keys: "secret_key_of x \<noteq> ?key" if "x \<in> set secs" for x
        using Cons.prems(3) that by (auto simp: image_iff)
      have "\<forall>x \<in> set secs. V (world t) (secret_key_of x) = Some x \<and> P (secret_key_of x)
          \<and> label_of x ManagedByLabel = ManagedByValue"
        using Cons.prems(2) eff(3) keys by auto
      from Cons.IH [OF rest this] Cons.prems(3) have ih: "deletes_only V P owner t s'"
          "\<forall>k. k \<notin> secret_key_of ` set secs \<longrightarrow> V (world s') k = V (world t) k"
          "r = None \<longrightarrow> (\<forall>x \<in> set secs. owned_by owner x \<longrightarrow> gone (V (world s') (secret_key_of x)))"
        by auto
      have "deletes_only V P owner s s'" using frame_relD(2) [OF frame_rel_deletes eff(1) ih(1)] .
      moreover have "gone (V (world s') ?key)"
        using eff(2) [OF None] ih(2) keys by (metis imageE)
      ultimately show ?thesis using ih eff(3) by auto
    qed
  qed
qed

lemma delete_owned_scan_effect:
  assumes "kube_ok K V" and run: "run_state (delete_owned_scan K ns owner) s = (r, s')"
  shows "deletes_only V (\<lambda>k. ok_namespace k = ns) owner s s'"
    and "r = None \<Longrightarrow> ok_namespace k = ns \<Longrightarrow> V (world s') k = Some x \<Longrightarrow> \<not> owned_by owner x \<or> deletion_pending x"
proof -
  have ok: "list_ok K V" "delete_ok K V" "stored_ok V" using assms(1) by (simp_all add: kube_ok_def)
  obtain ls s1 where ls: "run_state (on_world (k_list_secrets K ns (ManagedByLabel, ManagedByValue))) s = (ls, s1)"
    by fastforce
  have s1: "V (world s1) = V (world s)"
    using ls ok(1) by (auto simp: run_on_world list_ok_def reads_only_def)
  have both: "deletes_only V (\<lambda>k. ok_namespace k = ns) owner s s'
    \<and> (r = None \<longrightarrow> (\<forall>k x. ok_namespace k = ns \<longrightarrow> V (world s') k = Some x \<longrightarrow> \<not> owned_by owner x \<or> deletion_pending x))"
  proof (cases ls)
    case (Inl e)
    then show ?thesis using run ls s1 by (auto simp: delete_owned_scan_def deletes_only_def)
  next
    case (Inr secs)
    have secs: "s \<in> set secs \<longleftrightarrow> V (world s1) (secret_key_of s) = Some s \<and> om_namespace (sec_meta s) = ns
             \<and> gm_lookup (om_labels (sec_meta s)) ManagedByLabel = Some ManagedByValue" for s
      using ls Inr ok(1) s1 by (auto simp: run_on_world list_ok_def)
    have dist: "distinct (map secret_key_of secs)"
      using ls Inr ok(1) s1 by (auto simp: run_on_world list_ok_def)
    have loop: "run_state (delete_owned_loop K owner secs) s1 = (r, s')"
      using run ls Inr by (simp add: delete_owned_scan_def)
    have "\<forall>sec \<in> set secs. V (world s1) (secret_key_of sec) = Some sec \<and> ok_namespace (secret_key_of sec) = ns
          \<and> label_of sec ManagedByLabel = ManagedByValue"
    proof
      fix sec assume "sec \<in> set secs"
      moreover have "ok_namespace (secret_key_of sec) = om_namespace (sec_meta sec)"
        by (simp add: secret_key_of_def meta_key_def)
      ultimately show "V (world s1) (secret_key_of sec) = Some sec \<and> ok_namespace (secret_key_of sec) = ns
          \<and> label_of sec ManagedByLabel = ManagedByValue"
        using secs [of sec] by (simp add: label_of_def gm_get_def)
    qed
    from delete_owned_loop_effect [OF ok(2) loop this dist]
    have eff: "deletes_only V (\<lambda>k. ok_namespace k = ns) owner s1 s'"
        "\<And>k. k \<notin> secret_key_of ` set secs \<Longrightarrow> V (world s') k = V (world s1) k"
        "\<And>sec. r = None \<Longrightarrow> sec \<in> set secs \<Longrightarrow> owned_by owner sec \<Longrightarrow> gone (V (world s') (secret_key_of sec))"
      by auto
    have "\<not> owned_by owner x \<or> deletion_pending x"
      if "r = None" "ok_namespace k = ns" "V (world s') k = Some x" for k x
    proof (cases "V (world s') k = V (world s1) k")
      case False
      with eff(1) have "gone (V (world s') k)" unfolding deletes_only_def by blast
      with that(3) show ?thesis by (simp add: gone_def)
    next
      case True
      then have stored: "V (world s1) k = Some x" using that(3) by simp
      then have key: "secret_key_of x = k" using ok(3) by (auto simp: stored_ok_def)
      show ?thesis
      proof (cases "owned_by owner x")
        case own: True
        then have "gm_lookup (om_labels (sec_meta x)) ManagedByLabel = Some ManagedByValue"
          by (cases "gm_lookup (om_labels (sec_meta x)) ManagedByLabel")
            (auto simp: owned_by_def label_of_def gm_get_def)
        moreover have "om_namespace (sec_meta x) = ns"
          using key that(2) by (auto simp: secret_key_of_def meta_key_def)
        ultimately have "x \<in> set secs" using secs stored key by simp
        from eff(3) [OF that(1) this own] key that(3) show ?thesis by (simp add: gone_def)
      qed simp
    qed
    moreover have "deletes_only V (\<lambda>k. ok_namespace k = ns) owner s s'"
      using eff(1) s1 by (simp add: deletes_only_def)
    ultimately show ?thesis by blast
  qed
  then show "deletes_only V (\<lambda>k. ok_namespace k = ns) owner s s'" by blast
  show "r = None \<Longrightarrow> ok_namespace k = ns \<Longrightarrow> V (world s') k = Some x \<Longrightarrow> \<not> owned_by owner x \<or> deletion_pending x"
    using both by blast
qed

end
