(* ===== verification/Effects.thy ===== *)
theory Effects
  imports Target
begin

text \<open>
  What a reconcile does to the stored Secrets and to the event log, operation by operation: the two
  frames that every controller proof walks through. \<open>quiet V\<close> says that the Secrets seen through the
  view \<open>V\<close> are as before, \<open>span_frame\<close> that no span is lost and no outcome is counted.

  \<open>env_ok E V\<close> collects the assumptions on the parameters: the API behaves as documented, and
  go-git, the remotes and SOPS do not write Secrets.
\<close>

section \<open>The parameters do not write Secrets\<close>

definition quiet_fs :: "'w view \<Rightarrow> ('w \<times> fs, 'a) state \<Rightarrow> bool" where
  "quiet_fs V m \<longleftrightarrow> (\<forall>w f. V (fst (snd (run_state m (w, f)))) = V w)"

definition git_quiet :: "'w git_ext \<Rightarrow> 'w view \<Rightarrow> bool" where
  "git_quiet G V \<longleftrightarrow>
     (\<forall>p. reads_only V (mkdir_fault G p)) \<and> (\<forall>p. reads_only V (chmod_fault G p))
     \<and> quiet_fs V (create_temp G)
     \<and> (\<forall>p. reads_only V (write_fault G p)) \<and> (\<forall>p. reads_only V (close_fault G p))
     \<and> (\<forall>d c. quiet_fs V (plain_clone G d c)) \<and> (\<forall>d. quiet_fs V (plain_open G d))
     \<and> (\<forall>d a. quiet_fs V (fetch_origin G d a)) \<and> (\<forall>d. quiet_fs V (open_worktree G d))
     \<and> (\<forall>d p. quiet_fs V (pull_origin G d p)) \<and> (\<forall>d r. quiet_fs V (resolve_revision G d r))
     \<and> (\<forall>d h. quiet_fs V (checkout_hash G d h)) \<and> (\<forall>d. quiet_fs V (head_hash G d))"

definition remote_quiet :: "'w remote_ext \<Rightarrow> 'w view \<Rightarrow> bool" where
  "remote_quiet X V \<longleftrightarrow>
     (\<forall>q. reads_only V (http_do X q)) \<and> (\<forall>c b k. reads_only V (stat_object X c b k))
     \<and> (\<forall>c b k. reads_only V (get_object X c b k)) \<and> (\<forall>c b k. reads_only V (read_object_body X c b k))
     \<and> (\<forall>c b. reads_only V (bucket_exists X c b)) \<and> reads_only V (now X)"

definition sops_quiet :: "'w sops_lib \<Rightarrow> 'w view \<Rightarrow> bool" where
  "sops_quiet S V \<longleftrightarrow> (\<forall>env c f. reads_only V (S env c f))"

definition env_ok :: "'w operator_env \<Rightarrow> 'w view \<Rightarrow> bool" where
  "env_ok E V \<longleftrightarrow> kube_ok (e_kube E) V \<and> git_quiet (e_git E) V \<and> remote_quiet (e_remote E) V
     \<and> sops_quiet (e_sops E) V"

section \<open>Secrets are left alone\<close>

lemma quiet_on_world_fs: "quiet_fs V m \<Longrightarrow> state_io_rel (quiet V) (on_world_fs m)"
  by (auto simp: state_io_rel_def run_on_world_fs quiet_def quiet_fs_def)

lemma quiet_steps:
  "state_io_rel (quiet V) (modify (\<lambda>s. s\<lparr>fsys := f s\<rparr>))"
  "state_io_rel (quiet V) (modify (\<lambda>s. s\<lparr>penv := e s\<rparr>))"
  "state_io_rel (quiet V) (State (\<lambda>s. case g s of (f', e') \<Rightarrow> (e', s\<lparr>fsys := f'\<rparr>)))"
  "state_io_rel (quiet V) (set_entry k x)"
  "state_io_rel (quiet V) (set_object k y)"
  "state_io_rel (quiet V) (emit ev)"
  "state_io_rel (quiet V) (set_tracker t)"
  "state_io_rel (quiet V) (remove_all G d)"
  by (auto simp: state_io_rel_def quiet_def set_entry_def set_object_def emit_def set_tracker_def
      remove_all_def split: prod.split)

lemmas quiet_rules = quiet_intros frame_case_update quiet_on_world quiet_on_world_fs quiet_steps

lemma quiet_mkdir: "git_quiet G V \<Longrightarrow> state_io_rel (quiet V) (mkdir_all G p)"
  unfolding mkdir_all_def by (intro quiet_rules) (simp add: git_quiet_def)

lemma quiet_new:
  assumes "git_quiet G V"
  shows "state_io_rel (quiet V) (git_new G cfg)"
proof -
  have "\<And>p. reads_only V (chmod_fault G p)" using assms by (simp add: git_quiet_def)
  then show ?thesis
    unfolding git_new_def resolve_cache_root_def Let_def
    by (intro quiet_rules quiet_mkdir assms)
qed

lemma quiet_auth:
  assumes "git_quiet G V"
  shows "state_io_rel (quiet V) (auth_method G r)"
proof -
  have "quiet_fs V (create_temp G)" "\<And>p. reads_only V (write_fault G p)" "\<And>p. reads_only V (close_fault G p)"
    using assms by (simp_all add: git_quiet_def)
  then show ?thesis
    unfolding auth_method_def ssh_auth_method_def known_hosts_callback_def Let_def
    by (intro quiet_rules)
qed

lemma quiet_ensure_cloned:
  assumes "git_quiet G V"
  shows "state_io_rel (quiet V) (ensure_cloned G r)"
proof -
  have q: "\<And>d c. quiet_fs V (plain_clone G d c)" "\<And>d. quiet_fs V (plain_open G d)"
    "\<And>d a. quiet_fs V (fetch_origin G d a)" "\<And>d. quiet_fs V (open_worktree G d)"
    "\<And>d p. quiet_fs V (pull_origin G d p)" "\<And>d r. quiet_fs V (resolve_revision G d r)"
    "\<And>d h. quiet_fs V (checkout_hash G d h)" "\<And>d. quiet_fs V (head_hash G d)"
    using assms by (simp_all add: git_quiet_def)
  show ?thesis
    unfolding ensure_cloned_def update_and_resolve_def clone_fresh_def checkout_revision_def
      resolve_head_def Let_def
    by (intro quiet_rules quiet_auth quiet_mkdir assms q)
qed

lemma quiet_ensure_cached: "git_quiet G V \<Longrightarrow> state_io_rel (quiet V) (ensure_cached G key cfg)"
  unfolding ensure_cached_def ensure_cached_body_def
  by (intro quiet_rules quiet_new quiet_ensure_cloned)

lemma quiet_read_file: "state_io_rel (quiet V) (git_read_file r p)"
  unfolding git_read_file_def Let_def by (intro quiet_rules)

lemma quiet_registry_read: "state_io_rel (quiet V) (registry_read key path)"
  unfolding registry_read_def by (intro quiet_rules quiet_read_file)

lemma quiet_forget: "state_io_rel (quiet V) (registry_forget G key)" "state_io_rel (quiet V) (forget_object key)"
  unfolding registry_forget_def forget_object_def by (intro quiet_rules)+

lemma quiet_fetch:
  assumes "remote_quiet X V"
  shows "state_io_rel (quiet V) (fetch X f p e)" and "state_io_rel (quiet V) (probe X f)"
proof -
  have q: "\<And>r. reads_only V (http_do X r)" "\<And>c b k. reads_only V (stat_object X c b k)"
    "\<And>c b k. reads_only V (get_object X c b k)" "\<And>c b k. reads_only V (read_object_body X c b k)"
    "\<And>c b. reads_only V (bucket_exists X c b)"
    using assms by (simp_all add: remote_quiet_def)
  show "state_io_rel (quiet V) (fetch X f p e)"
    unfolding fetch_def https_fetch_def s3_fetch_def Let_def
    by (cases f; simp only: fetcher.case) (intro quiet_rules q)+
  show "state_io_rel (quiet V) (probe X f)"
    unfolding probe_def https_probe_def s3_probe_def
    by (cases f; simp only: fetcher.case) (intro quiet_rules q)+
qed

lemma frame_case_mode:
  "state_io_rel R m1 \<Longrightarrow> state_io_rel R m2 \<Longrightarrow> (\<And>n. state_io_rel R (m3 n))
    \<Longrightarrow> state_io_rel R (case m of ObjectModeURL \<Rightarrow> m1 | ObjectModeBucket \<Rightarrow> m2 | ObjectModeOther n \<Rightarrow> m3 n)"
  by (cases m) auto

lemma quiet_objects:
  assumes "remote_quiet X V"
  shows "state_io_rel (quiet V) (ensure_object_cached X key mode f)"
    and "state_io_rel (quiet V) (read_object X key path)"
proof -
  have n: "reads_only V (now X)" using assms by (simp add: remote_quiet_def)
  show "state_io_rel (quiet V) (ensure_object_cached X key mode f)"
    unfolding ensure_object_cached_def ensure_object_cached_body_def Let_def
    by (intro quiet_rules frame_case_mode quiet_fetch assms n)
  show "state_io_rel (quiet V) (read_object X key path)"
    unfolding read_object_def by (intro quiet_rules frame_case_mode quiet_fetch assms)
qed

lemma quiet_decrypt: "sops_quiet S V \<Longrightarrow> state_io_rel (quiet V) (decrypt_age S c p k)"
  unfolding decrypt_age_def decrypt_age_body_def setenv_def restore_env_def
  by (intro quiet_rules) (simp add: sops_quiet_def)

lemma quiet_age: "kube_ok K V \<Longrightarrow> state_io_rel (quiet V) (age K ns name key)"
  unfolding age_def by (intro quiet_rules) (simp add: kube_ok_def get_ok_def)

lemma quiet_resolve_age_key: "kube_ok K V \<Longrightarrow> state_io_rel (quiet V) (resolve_age_key p K ns ref)"
  unfolding resolve_age_key_def by (intro quiet_rules quiet_age)

lemma quiet_tracker:
  "state_io_rel (quiet V) (track_stage stg)" "state_io_rel (quiet V) (track_fail stg msg)"
  "state_io_rel (quiet V) (set_source_ref k n)" "state_io_rel (quiet V) (set_commit c)"
  "state_io_rel (quiet V) (set_content_hash h)" "state_io_rel (quiet V) (track_reconcile kind ns n)"
  "state_io_rel (quiet V) track_finish"
  unfolding track_stage_def track_fail_def span_failed_def set_source_ref_def set_commit_def
    set_content_hash_def root_attributes_def track_reconcile_def track_finish_def end_stage_span_def Let_def
  by (intro quiet_rules)+

section \<open>Spans and outcomes are left to the tracker\<close>

lemma span_frame_steps:
  "state_io_rel span_frame (set_entry k x)" "state_io_rel span_frame (set_object k y)"
  "state_io_rel span_frame (emit (Observed o' r))"
  by (auto simp: state_io_rel_def span_frame_def set_entry_def set_object_def emit_def)

lemma span_frame_world: "state_io_rel span_frame (on_world m)" "state_io_rel span_frame (remove_all G d)"
  by (intro span_frame_same same_more_steps same_more_remove)+

lemmas span_rules = span_frame_intros frame_case_update span_frame_steps span_frame_world

lemma span_frame_ensure_cached: "state_io_rel span_frame (ensure_cached G key cfg)"
  unfolding ensure_cached_def ensure_cached_body_def
  by (intro span_rules span_frame_same [OF same_more_new] span_frame_same [OF same_more_ensure_cloned])

lemma span_frame_fetch:
  "state_io_rel span_frame (fetch X f p e)" "state_io_rel span_frame (probe X f)"
proof -
  show "state_io_rel span_frame (fetch X f p e)"
    unfolding fetch_def https_fetch_def s3_fetch_def Let_def
    by (cases f; simp only: fetcher.case) (intro span_rules)+
  show "state_io_rel span_frame (probe X f)"
    unfolding probe_def https_probe_def s3_probe_def
    by (cases f; simp only: fetcher.case) (intro span_rules)+
qed

lemma span_frame_registry:
  "state_io_rel span_frame (registry_read key path)" "state_io_rel span_frame (registry_forget G key)"
  "state_io_rel span_frame (forget_object key)" "state_io_rel span_frame (read_object X key path)"
  "state_io_rel span_frame (ensure_object_cached X key mode f)"
  unfolding registry_read_def git_read_file_def registry_forget_def forget_object_def read_object_def
    ensure_object_cached_def ensure_object_cached_body_def Let_def
  by (intro span_rules frame_case_mode span_frame_fetch)+

lemma span_frame_resolve_age_key: "state_io_rel span_frame (resolve_age_key p K ns ref)"
  unfolding resolve_age_key_def age_def by (intro span_rules)

lemma span_frame_delete:
  "state_io_rel span_frame (delete_if_owned K name ns owner)"
  "state_io_rel span_frame (delete_owned_scan K ns owner)"
proof -
  have loop: "state_io_rel span_frame (delete_owned_loop K owner secs)" for secs
  proof (induction secs)
    case (Cons sec secs)
    then show ?case unfolding delete_owned_loop.simps by (intro span_rules)
  qed (simp add: frame_return [OF frame_rel_span])
  show "state_io_rel span_frame (delete_if_owned K name ns owner)"
    "state_io_rel span_frame (delete_owned_scan K ns owner)"
    unfolding delete_if_owned_def delete_owned_scan_def by (intro span_rules loop)+
qed

text \<open>All of them, and the tracker's own operations: what a reconcile's body is made of.\<close>

lemmas span_ops = span_rules span_frame_stage span_frame_fail span_frame_attributes
  span_frame_ensure_cached span_frame_registry span_frame_resolve_age_key span_frame_decrypt
  span_frame_delete

lemma env_okD:
  assumes "env_ok E V"
  shows "kube_ok (e_kube E) V" "git_quiet (e_git E) V" "remote_quiet (e_remote E) V" "sops_quiet (e_sops E) V"
    "other_ops_ok (e_kube E) V" "get_ok (e_kube E) V"
  using assms by (simp_all add: env_ok_def kube_ok_def)

lemma quiet_tracked: "state_io_rel (quiet V) m \<Longrightarrow> state_io_rel (quiet V) (tracked kind req m)"
  unfolding tracked_def by (intro quiet_rules quiet_tracker)

section \<open>Postconditions of a reconcile\<close>

lemma post_any: "post m s (\<lambda>_ _. True)"
  by (rule postI) simp

text \<open>A step whose effect does not matter for the postcondition.\<close>

lemma post_skip: "(\<And>a t. post (f a) t Q) \<Longrightarrow> post (State_Monad.bind m f) s Q"
  by (rule post_bind) (rule post_mono [OF post_any])

lemma post_world:
  "post (on_world m) s (\<lambda>a t. t = s\<lparr>world := snd (run_state m (world s))\<rparr> \<and> a = fst (run_state m (world s)))"
  by (rule postI) (auto simp: run_on_world)

text \<open>The caches of the registry are as before.\<close>

definition caches_frame :: "('w, 'x) op_state_scheme \<Rightarrow> ('w, 'x) op_state_scheme \<Rightarrow> bool" where
  "caches_frame s t \<longleftrightarrow> entries t = entries s \<and> objects t = objects s"

lemma frame_rel_caches: "frame_rel caches_frame"
  by (rule frame_relI) (auto simp: caches_frame_def)

lemma caches_same: "state_io_rel same_more m \<Longrightarrow> state_io_rel caches_frame m"
  unfolding caches_frame_def state_io_rel_def using same_more_op by blast

lemma caches_steps:
  "state_io_rel caches_frame (emit ev)" "state_io_rel caches_frame (set_tracker f)"
  "state_io_rel caches_frame (on_world m)"
  by (auto simp: state_io_rel_def caches_frame_def emit_def set_tracker_def run_on_world)

lemmas caches_rules =
  frame_bind [OF frame_rel_caches] frame_return [OF frame_rel_caches] frame_gets [OF frame_rel_caches]
  frame_if frame_case_sum frame_case_option frame_case_prod caches_steps

lemma caches_tracker:
  "state_io_rel caches_frame (track_stage stg)" "state_io_rel caches_frame (track_fail stg msg)"
  "state_io_rel caches_frame (set_source_ref k n)" "state_io_rel caches_frame (set_commit c)"
  "state_io_rel caches_frame (set_content_hash h)"
  unfolding track_stage_def track_fail_def span_failed_def set_source_ref_def set_commit_def
    set_content_hash_def root_attributes_def end_stage_span_def
  by (intro caches_rules)+

text \<open>
  The tracker around a body changes the event log and the tracker only, so a postcondition that
  does not speak of them passes through.
\<close>

definition same_core :: "('w, 'x) op_state_scheme \<Rightarrow> ('w, 'x) op_state_scheme \<Rightarrow> bool" where
  "same_core s t \<longleftrightarrow> world t = world s \<and> fsys t = fsys s \<and> penv t = penv s
     \<and> entries t = entries s \<and> objects t = objects s"

lemma frame_rel_core: "frame_rel same_core"
  by (rule frame_relI) (auto simp: same_core_def)

lemma core_steps: "state_io_rel same_core (emit ev)" "state_io_rel same_core (set_tracker f)"
  by (auto simp: state_io_rel_def same_core_def emit_def set_tracker_def)

lemmas core_rules =
  frame_bind [OF frame_rel_core] frame_return [OF frame_rel_core] frame_gets [OF frame_rel_core]
  frame_if frame_case_sum frame_case_option core_steps

lemma core_tracker:
  "state_io_rel same_core (track_reconcile kind ns n)" "state_io_rel same_core track_finish"
  "state_io_rel same_core (track_stage stg)" "state_io_rel same_core (track_fail stg msg)"
  "state_io_rel same_core (set_source_ref k n)" "state_io_rel same_core (set_commit c)"
  "state_io_rel same_core (set_content_hash h)"
  unfolding track_reconcile_def track_finish_def track_stage_def track_fail_def span_failed_def
    set_source_ref_def set_commit_def set_content_hash_def root_attributes_def end_stage_span_def Let_def
  by (intro core_rules)+

lemma post_core: "state_io_rel same_core m \<Longrightarrow> (\<And>a t. same_core s t \<Longrightarrow> post (f a) t Q)
    \<Longrightarrow> post (State_Monad.bind m f) s Q"
  by (rule post_bind) (rule post_frame)

lemma post_tracked:
  assumes "\<And>t. same_core s t \<Longrightarrow> post body t (\<lambda>r u. \<forall>v. same_core u v \<longrightarrow> Q r v)"
  shows "post (tracked kind req body) s Q"
  unfolding tracked_def
proof (rule post_core [OF core_tracker(1)], rule post_bind)
  fix t assume "same_core s t"
  show "post body t (\<lambda>r u. post (State_Monad.bind track_finish (\<lambda>_. State_Monad.return r)) u Q)"
  proof (rule post_mono [OF assms [OF \<open>same_core s t\<close>]])
    fix r u assume "\<forall>v. same_core u v \<longrightarrow> Q r v"
    then show "post (State_Monad.bind track_finish (\<lambda>_. State_Monad.return r)) u Q"
      by (intro post_core [OF core_tracker(2)]) (simp add: post_def)
  qed
qed

section \<open>An environment for the witnesses\<close>

text \<open>A remote that answers from fixed documents, without any state of its own.\<close>

definition still_remote :: "(string \<times> bytes \<times> string) list \<Rightarrow> 'w remote_ext" where
  "still_remote docs =
     \<lparr>request_invalid = (\<lambda>_ _. None),
      http_do = (\<lambda>req. State_Monad.return (mem_http docs req)),
      minio_invalid = (\<lambda>_. None),
      stat_object = (\<lambda>_ _ _. State_Monad.return (Inl ''no such object'')),
      get_object = (\<lambda>_ _ _. State_Monad.return None),
      read_object_body = (\<lambda>_ _ _. State_Monad.return (Inl ''no such object'')),
      bucket_exists = (\<lambda>_ _. State_Monad.return (Inr True)),
      now = State_Monad.return 1\<rparr>"

definition mem_env ::
  "bool \<Rightarrow> (string list \<times> node) list \<Rightarrow> (string \<times> bytes \<times> string) list \<Rightarrow> string \<Rightarrow> yaml_lib \<Rightarrow> mem_cluster operator_env" where
  "mem_env up files docs key Y =
     \<lparr>e_kube = mem_kube, e_git = mem_git up files, e_remote = still_remote docs, e_sops = mem_sops key, e_yaml = Y\<rparr>"

lemma mem_env_ok: "env_ok (mem_env up files docs key Y) cl_view"
proof -
  have temp: "cl_view (fst (snd (run_state mem_temp (w, f)))) = cl_view w" for w f
    by (simp add: mem_temp_def)
  have "git_quiet (mem_git up files) cl_view"
    by (simp add: git_quiet_def mem_git_def reads_only_def quiet_fs_def temp split: prod.split)
  moreover have "remote_quiet (still_remote docs) cl_view"
    by (simp add: remote_quiet_def still_remote_def reads_only_def)
  moreover have "sops_quiet (mem_sops key) cl_view"
    by (simp add: sops_quiet_def mem_sops_def reads_only_def)
  ultimately show ?thesis using mem_kube_ok by (simp add: env_ok_def mem_env_def)
qed

text \<open>The operator's state at startup, in a given cluster.\<close>

definition cluster_start :: "mem_cluster \<Rightarrow> (string list \<times> node) list \<Rightarrow> mem_cluster op_state" where
  "cluster_start cl files = new_registry \<lparr>world = cl, fsys = fs_of files, penv = (\<lambda>_. None)\<rparr>"

lemma cluster_start_simps [simp]:
  "world (cluster_start cl files) = cl" "fsys (cluster_start cl files) = fs_of files"
  "penv (cluster_start cl files) = (\<lambda>_. None)" "entries (cluster_start cl files) = Map.empty"
  "objects (cluster_start cl files) = Map.empty" "events (cluster_start cl files) = []"
  by (simp_all add: cluster_start_def new_registry_def os_state.defs op_state.defs)

lemma mem_env_simps [simp]:
  "e_kube (mem_env up files docs key Y) = mem_kube" "e_git (mem_env up files docs key Y) = mem_git up files"
  "e_remote (mem_env up files docs key Y) = still_remote docs"
  "e_sops (mem_env up files docs key Y) = mem_sops key" "e_yaml (mem_env up files docs key Y) = Y"
  by (simp_all add: mem_env_def)

end
