(* ===== verification/GitRepositoryCtl.thy ===== *)
theory GitRepositoryCtl
  imports Effects
begin

text \<open>
  \<open>internal/controller/gitrepository_controller.go\<close>: the reconciler that keeps the clone of a
  \<open>GitRepository\<close> up to date, and the watch that wakes it when its auth Secret changes. A
  \<open>reconcile.Request\<close> is the key of the object. Log output is left out.
\<close>

section \<open>Constants\<close>

text \<open>\<open>time.Second\<close>\<close>

definition second :: int where "second = 1000000000"

definition defaultSyncInterval :: int where "defaultSyncInterval = 5 * 60 * second"
definition retryAfter :: int where "retryAfter = 30 * second"
definition resyncAfter :: int where "resyncAfter = 5 * 60 * second"

lemmas interval_defs = second_def defaultSyncInterval_def retryAfter_def resyncAfter_def

definition GitRepoAuthSecretIndex :: string where "GitRepoAuthSecretIndex = ''.spec.auth.secretRef''"

definition requeue_after :: "int \<Rightarrow> ctrl_result" where
  "requeue_after d = \<lparr>res_requeue = False, res_requeue_after = d\<rparr>"

definition requeue_now :: ctrl_result where
  "requeue_now = \<lparr>res_requeue = True, res_requeue_after = 0\<rparr>"

section \<open>Authentication\<close>

datatype git_auth_error =
    NoGitAuthSecretRef
  | GitAuthRefused resolve_error
  | GetGitAuthSecret objkey api_error
  | MissingGitAuthKey string string  \<comment> \<open>Secret, data key\<close>
  | UnknownGitAuthType string

fun git_auth_error_text :: "git_auth_error \<Rightarrow> string" where
  "git_auth_error_text NoGitAuthSecretRef =
     ''spec.auth is set but names no secretRef, and the operator has no --global-git-auth-secret configured''"
| "git_auth_error_text (GitAuthRefused e) = resolve_error_text e"
| "git_auth_error_text (GetGitAuthSecret k e) = ''get auth secret '' @ key_text k @ '': '' @ api_text e"
| "git_auth_error_text (MissingGitAuthKey n k) =
     ''auth secret '' @ go_quote n @ '': missing '' @ [CHR 0x27] @ k @ [CHR 0x27] @ '' key''
     @ (if k = ''knownHosts'' then '' (strict host-key checking is required)'' else [])"
| "git_auth_error_text (UnknownGitAuthType t) = ''unknown auth type '' @ go_quote t"

definition git_auth_ref :: "v1_git_repository \<Rightarrow> secret_ref" where
  "git_auth_ref gr =
     (case v1_grs_auth (v1_gr_spec gr) of
        None \<Rightarrow> zero_ref
      | Some a \<Rightarrow>
          (case v1_ga_secret_ref a of
             None \<Rightarrow> zero_ref
           | Some ref \<Rightarrow> \<lparr>r_namespace = v1_sr_namespace ref, r_name = v1_sr_name ref, r_key = []\<rparr>))"

definition no_git_auth :: git_auth where
  "no_git_auth = \<lparr>auth_basic = None, auth_ssh = None\<rparr>"

text \<open>The switch over \<open>spec.auth.type\<close>.\<close>

definition git_auth_of :: "string \<Rightarrow> secret \<Rightarrow> git_auth_error + git_auth" where
  "git_auth_of type sec =
     (let data = gm_get (sec_data sec); name = om_name (sec_meta sec) in
      if type = GitAuthBasic then
        (if data ''password'' = [] then Inl (MissingGitAuthKey name ''password'')
         else Inr (no_git_auth\<lparr>auth_basic :=
           Some \<lparr>ba_username = data ''username'', ba_password = data ''password''\<rparr>\<rparr>))
      else if type = GitAuthSSH then
        (if data ''privateKey'' = [] then Inl (MissingGitAuthKey name ''privateKey'')
         else if data ''knownHosts'' = [] then Inl (MissingGitAuthKey name ''knownHosts'')
         else Inr (no_git_auth\<lparr>auth_ssh :=
           Some \<lparr>sa_user = data ''user'', sa_private_key = data ''privateKey'',
                 sa_passphrase = data ''passphrase'', sa_known_hosts = data ''knownHosts''\<rparr>\<rparr>))
      else Inl (UnknownGitAuthType type))"

definition resolve_auth ::
  "'w kube \<Rightarrow> credential_policy \<Rightarrow> v1_git_repository \<Rightarrow> ('w, 'x, git_auth_error + git_auth \<times> origin) op_prog" where
  "resolve_auth K P gr =
     (case v1_grs_auth (v1_gr_spec gr) of
        None \<Rightarrow> State_Monad.return (Inr (no_git_auth, OriginNone))
      | Some a \<Rightarrow>
          (case resolve (secret_refs P) (om_namespace (v1_gr_meta gr)) (git_auth_ref gr) (global_git_auth P) of
             Inl e \<Rightarrow> State_Monad.return (Inl (if e = ErrNoReference then NoGitAuthSecretRef else GitAuthRefused e))
           | Inr res \<Rightarrow> do {
               got \<leftarrow> on_world (k_get_secret K (rs_object_key res));
               State_Monad.return (case got of
                   Inl e \<Rightarrow> Inl (GetGitAuthSecret (rs_object_key res) e)
                 | Inr sec \<Rightarrow>
                     (case git_auth_of (v1_ga_type a) sec of
                        Inl e \<Rightarrow> Inl e
                      | Inr auth \<Rightarrow> Inr (auth, rs_origin res)))
             }))"

section \<open>The reconciler\<close>

definition git_condition ::
  "'w kube \<Rightarrow> string \<Rightarrow> string \<Rightarrow> string \<Rightarrow> string \<Rightarrow> v1_git_repository \<Rightarrow> v1_git_repository" where
  "git_condition K type status reason msg gr =
     gr\<lparr>v1_gr_status := (v1_gr_status gr)\<lparr>v1_grt_conditions :=
       set_condition K (v1_grt_conditions (v1_gr_status gr)) type status reason msg\<rparr>\<rparr>"

definition git_status ::
  "(v1_git_repository_status \<Rightarrow> v1_git_repository_status) \<Rightarrow> v1_git_repository \<Rightarrow> v1_git_repository" where
  "git_status f gr = gr\<lparr>v1_gr_status := f (v1_gr_status gr)\<rparr>"

text \<open>\<open>Status().Update\<close>, and then the given result.\<close>

definition git_update_status ::
  "'w kube \<Rightarrow> v1_git_repository \<Rightarrow> ctrl_result \<Rightarrow> ('w, 'x, reconcile_result) op_prog" where
  "git_update_status K gr res = do {
     err \<leftarrow> on_world (k_update_git_repository_status K gr);
     State_Monad.return (result_or err res)
   }"

definition git_config_of :: "v1_git_repository \<Rightarrow> git_auth \<Rightarrow> git_config" where
  "git_config_of gr auth =
     \<lparr>cfg_url = v1_grs_url (v1_gr_spec gr), cfg_branch = v1_grs_branch (v1_gr_spec gr),
      cfg_revision = v1_grs_revision (v1_gr_spec gr), cfg_auth = auth, cfg_cache_root = []\<rparr>"

definition git_interval :: "v1_git_repository \<Rightarrow> int" where
  "git_interval gr =
     (let interval = v1_grs_interval (v1_gr_spec gr) in
      if interval = 0 then defaultSyncInterval else interval)"

text \<open>From \<open>EnsureCached\<close> on.\<close>

definition git_fetch_step ::
  "'w operator_env \<Rightarrow> objkey \<Rightarrow> v1_git_repository \<Rightarrow> string \<Rightarrow> git_auth \<Rightarrow> ('w, 'x, reconcile_result) op_prog" where
  "git_fetch_step E req gr token auth = do {
     let K = e_kube E;
     track_stage StageFetch;
     r \<leftarrow> ensure_cached (e_git E) req (git_config_of gr auth);
     case r of
       Inl e \<Rightarrow> do {
         track_fail StageFetch (source_error_text e);
         git_update_status K
           (git_status (\<lambda>st. st\<lparr>v1_grt_cache_ready := False\<rparr>)
             (git_condition K ConditionSourceReady condition_false ''FetchFailed'' (source_error_text e) gr))
           (requeue_after retryAfter)
       }
     | Inr sha \<Rightarrow> do {
         set_commit sha;
         git_update_status K
           (git_condition K ConditionSourceReady condition_true ''Ready'' (''cache at '' @ take 7 sha)
             (git_status (\<lambda>st. st\<lparr>v1_grt_last_synced_commit := sha, v1_grt_cache_ready := True,
                v1_grt_last_token := token, v1_grt_observed_generation := om_generation (v1_gr_meta gr)\<rparr>) gr))
           (requeue_after (git_interval gr))
       }
   }"

definition git_sync ::
  "'w operator_env \<Rightarrow> credential_policy \<Rightarrow> objkey \<Rightarrow> v1_git_repository \<Rightarrow> ('w, 'x, reconcile_result) op_prog" where
  "git_sync E P req gr = do {
     let K = e_kube E;
     let token = gm_get (om_annotations (v1_gr_meta gr)) ReconcileRequestAnnotation;
     (if token \<noteq> [] \<and> token \<noteq> v1_grt_last_token (v1_gr_status gr) then registry_forget (e_git E) req
      else State_Monad.return ());
     track_stage StageAuth;
     r \<leftarrow> resolve_auth K P gr;
     case r of
       Inl e \<Rightarrow> do {
         track_fail StageAuth (git_auth_error_text e);
         git_update_status K
           (git_status (\<lambda>st. st\<lparr>v1_grt_cache_ready := False\<rparr>)
             (git_condition K ConditionSourceReady condition_false ''AuthFailed'' ''waiting for auth''
               (git_condition K ConditionAuthResolved condition_false ''AuthFailed'' (git_auth_error_text e) gr)))
           (requeue_after retryAfter)
       }
     | Inr (auth, authOrigin) \<Rightarrow>
         git_fetch_step E req
           (git_condition K ConditionAuthResolved condition_true ''AuthOK'' (describe_auth_origin authOrigin) gr)
           token auth
   }"

definition git_reconcile_body ::
  "'w operator_env \<Rightarrow> credential_policy \<Rightarrow> objkey \<Rightarrow> ('w, 'x, reconcile_result) op_prog" where
  "git_reconcile_body E P req = do {
     got \<leftarrow> on_world (k_get_git_repository (e_kube E) req);
     case got of
       Inl e \<Rightarrow>
         if is_not_found e then do {
           registry_forget (e_git E) req;
           State_Monad.return (Inr no_result)
         }
         else State_Monad.return (Inl e)
     | Inr gr \<Rightarrow>
         if \<not> time_is_zero (om_deletion_timestamp (v1_gr_meta gr)) then do {
           registry_forget (e_git E) req;
           State_Monad.return (Inr no_result)
         }
         else git_sync E P req gr
   }"

definition git_reconcile ::
  "'w operator_env \<Rightarrow> credential_policy \<Rightarrow> objkey \<Rightarrow> ('w, 'x, reconcile_result) op_prog" where
  "git_reconcile E P req = tracked ''GitRepository'' req (git_reconcile_body E P req)"

section \<open>The watch on auth Secrets\<close>

definition git_auth_index :: "credential_policy \<Rightarrow> v1_git_repository \<Rightarrow> string list" where
  "git_auth_index P g =
     (case v1_grs_auth (v1_gr_spec g) of
        None \<Rightarrow> []
      | Some _ \<Rightarrow> index_values (secret_refs P) (om_namespace (v1_gr_meta g)) (git_auth_ref g) (global_git_auth P))"

definition map_secret_to_git_repos :: "'w kube \<Rightarrow> objkey \<Rightarrow> ('w, objkey list) state" where
  "map_secret_to_git_repos K obj = do {
     listed \<leftarrow> k_list_git_repositories K
       (GitRepoAuthSecretIndex, index_key (ok_namespace obj) (ok_name obj));
     State_Monad.return (case listed of
         Inl _ \<Rightarrow> []
       | Inr gs \<Rightarrow> map (\<lambda>g. meta_key (v1_gr_meta g)) gs)
   }"

section \<open>What a reconcile touches\<close>

lemmas git_ctl_defs = git_reconcile_body_def git_sync_def git_fetch_step_def git_update_status_def Let_def

lemma span_frame_resolve_auth: "state_io_rel span_frame (resolve_auth K P gr)"
  unfolding resolve_auth_def by (intro span_rules)

lemma span_frame_git: "state_io_rel span_frame (git_reconcile_body E P req)"
  unfolding git_ctl_defs by (intro span_ops span_frame_resolve_auth)

lemma quiet_resolve_auth: "kube_ok K V \<Longrightarrow> state_io_rel (quiet V) (resolve_auth K P gr)"
  unfolding resolve_auth_def by (intro quiet_rules) (simp add: kube_ok_def get_ok_def)

lemma quiet_git: "env_ok E V \<Longrightarrow> state_io_rel (quiet V) (git_reconcile E P req)"
proof -
  assume env: "env_ok E V"
  note d = env_okD [OF env]
  have ops: "\<And>k. reads_only V (k_get_git_repository (e_kube E) k)"
    "\<And>x. reads_only V (k_update_git_repository_status (e_kube E) x)"
    using d(5) by (simp_all add: other_ops_ok_def)
  show ?thesis
    unfolding git_reconcile_def git_ctl_defs
    by (intro quiet_tracked quiet_rules quiet_tracker quiet_resolve_auth quiet_ensure_cached quiet_forget d ops)
qed

section \<open>Requeueing\<close>

lemma post_git_update:
  "post (git_update_status K gr res) s (\<lambda>r t. r = Inr res \<or> (\<exists>e. r = Inl e))"
  unfolding git_update_status_def by (rule postI) (auto simp: run_on_world result_or_def split: option.splits)

lemma git_sync_result:
  "post (git_sync E P req gr) s (\<lambda>r t. (\<exists>e. r = Inl e)
     \<or> r = Inr (requeue_after retryAfter) \<or> r = Inr (requeue_after (git_interval gr)))"
proof -
  have int: "git_interval (git_condition K ty st re ms gr) = git_interval gr" for K :: "'a kube" and ty st re ms
    by (simp add: git_interval_def git_condition_def)
  have step: "post (git_fetch_step E req gr' token auth) t (\<lambda>r t. (\<exists>e. r = Inl e)
     \<or> r = Inr (requeue_after retryAfter) \<or> r = Inr (requeue_after (git_interval gr')))" for gr' token auth t
    unfolding git_fetch_step_def Let_def
    by (intro post_skip post_sum post_mono [OF post_git_update]) auto
  show ?thesis
    unfolding git_sync_def Let_def
    by (intro post_skip post_sum post_prod post_mono [OF post_git_update] post_mono [OF step])
      (auto simp: int)
qed

lemma result_kinds_requeue:
  "0 \<le> v1_grs_interval (v1_gr_spec gr) \<Longrightarrow> 0 < res_requeue_after (requeue_after (git_interval gr))"
  "0 < res_requeue_after (requeue_after retryAfter)" "0 < res_requeue_after (requeue_after resyncAfter)"
  by (auto simp: requeue_after_def git_interval_def interval_defs Let_def)

text \<open>The reconcile of an object that exists and is not being deleted is its sync.\<close>

lemma post_git_reconcile:
  assumes "fst (run_state (k_get_git_repository (e_kube E) req) (world s)) = Inr gr"
    and "time_is_zero (om_deletion_timestamp (v1_gr_meta gr))"
    and "\<And>t. world t = snd (run_state (k_get_git_repository (e_kube E) req) (world s))
      \<Longrightarrow> post (git_sync E P req gr) t (\<lambda>r u. \<forall>v. same_core u v \<longrightarrow> Q r v)"
  shows "post (git_reconcile E P req) s Q"
  unfolding git_reconcile_def
proof (rule post_tracked)
  fix t assume "same_core s t"
  then have "world t = world s" by (simp add: same_core_def)
  then show "post (git_reconcile_body E P req) t (\<lambda>r u. \<forall>v. same_core u v \<longrightarrow> Q r v)"
    unfolding git_reconcile_body_def
    by (intro post_bind post_mono [OF post_world]) (use assms in auto)
qed

lemma git_never_idle:
  assumes "fst (run_state (k_get_git_repository (e_kube E) req) (world s)) = Inr gr"
    and "time_is_zero (om_deletion_timestamp (v1_gr_meta gr))" and "0 \<le> v1_grs_interval (v1_gr_spec gr)"
  shows "post (git_reconcile E P req) s (\<lambda>r t. \<forall>res. r = Inr res \<longrightarrow> res_requeue res \<or> 0 < res_requeue_after res)"
  by (rule post_git_reconcile [OF assms(1,2)], rule post_mono [OF git_sync_result])
    (use result_kinds_requeue(1) [OF assms(3)] result_kinds_requeue(2) in auto)

section \<open>A forced sync\<close>

lemma git_new_cfg: "fst (run_state (git_new G cfg) s) = Inr r \<Longrightarrow> repo_cfg r = default_branch cfg"
  by (auto simp: git_new_def resolve_cache_root_def Let_def split: if_splits sum.splits option.splits prod.splits)

text \<open>An entry made in the absence of one is built from the configuration given.\<close>

lemma post_ensure_fresh:
  assumes "entries s req = None"
  shows "post (ensure_cached G req cfg) s
    (\<lambda>_ t. \<forall>e. entries t req = Some e \<longrightarrow> repo_cfg (en_repo e) = default_branch cfg)"
proof (rule postI)
  fix r s' assume run: "run_state (ensure_cached G req cfg) s = (r, s')"
  from run show "\<forall>e. entries s' req = Some e \<longrightarrow> repo_cfg (en_repo e) = default_branch cfg"
  proof (cases rule: run_ensure_cached)
    case refused
    with assms show ?thesis by simp
  next
    case (cached rep x res t u)
    have "en_repo x = rep" using cached(2) assms by (simp add: entry_for_def fresh_entry_def)
    with cached(5) git_new_cfg [OF cached(1)] show ?thesis by (auto split: sum.splits)
  qed
qed

lemma caches_git_update: "state_io_rel caches_frame (git_update_status K gr res)"
  unfolding git_update_status_def by (intro caches_rules)

lemma caches_resolve_auth: "state_io_rel caches_frame (resolve_auth K P gr)"
  unfolding resolve_auth_def by (intro caches_rules)

lemma fetch_from_scratch:
  assumes "entries s req = None"
  shows "post (git_fetch_step E req gr token auth) s
    (\<lambda>_ t. \<forall>e. entries t req = Some e \<longrightarrow> repo_cfg (en_repo e) = default_branch (git_config_of gr auth))"
  unfolding git_fetch_step_def Let_def
  by (rule post_bind, rule post_frame [OF caches_tracker(1)], rule post_bind, rule post_mono [OF post_ensure_fresh])
    (simp add: caches_frame_def assms, rule post_frame [where R = caches_frame],
      intro caches_rules caches_tracker caches_git_update, simp add: caches_frame_def)

text \<open>
  With a new token, the entry on record afterwards is built from the current spec and from
  credentials resolved in this very reconcile.
\<close>

definition token_is_new :: "v1_git_repository \<Rightarrow> bool" where
  "token_is_new gr \<longleftrightarrow>
     (let token = gm_get (om_annotations (v1_gr_meta gr)) ReconcileRequestAnnotation in
      token \<noteq> [] \<and> token \<noteq> v1_grt_last_token (v1_gr_status gr))"

definition auth_resolved_in ::
  "'w \<Rightarrow> 'w operator_env \<Rightarrow> credential_policy \<Rightarrow> v1_git_repository \<Rightarrow> git_auth \<Rightarrow> bool" where
  "auth_resolved_in w E P gr auth \<longleftrightarrow> (\<exists>(s :: 'w op_state) s' orig.
     world s = w \<and> run_state (resolve_auth (e_kube E) P gr) s = (Inr (auth, orig), s'))"

lemma post_forget: "post (registry_forget G req) s (\<lambda>_ t. entries t req = None \<and> world t = world s)"
  unfolding registry_forget_def by (rule postI) (auto split: option.splits)

lemma git_config_condition [simp]:
  "git_config_of (git_condition K ty st re ms gr) auth = git_config_of gr auth"
  by (simp add: git_config_of_def git_condition_def)

lemma forced_sync:
  fixes s :: "'w op_state"
  assumes "token_is_new gr"
  shows "post (git_sync E P req gr) s (\<lambda>_ t. \<forall>e. entries t req = Some e \<longrightarrow>
      (\<exists>auth. auth_resolved_in (world s) E P gr auth \<and> repo_cfg (en_repo e) = default_branch (git_config_of gr auth)))"
proof -
  have keep: "entries t req = None \<Longrightarrow> state_io_rel caches_frame m \<Longrightarrow> post m t (\<lambda>_ t. \<forall>e. entries t req = Some e \<longrightarrow> Q e)"
    for m :: "('w, unit, reconcile_result) op_prog" and t Q
    by (rule post_frame [where R = caches_frame]) (simp_all add: caches_frame_def)
  have resolved: "post (resolve_auth (e_kube E) P gr) t
      (\<lambda>r u. entries u req = None \<and> (\<forall>auth orig. r = Inr (auth, orig) \<longrightarrow> auth_resolved_in (world s) E P gr auth))"
    if "entries t req = None \<and> world t = world s" for t :: "'w op_state"
  proof (rule postI)
    fix r u assume run: "run_state (resolve_auth (e_kube E) P gr) t = (r, u)"
    from frame_run [OF caches_resolve_auth run] that run
    show "entries u req = None \<and> (\<forall>auth orig. r = Inr (auth, orig) \<longrightarrow> auth_resolved_in (world s) E P gr auth)"
      by (auto simp: caches_frame_def auth_resolved_in_def)
  qed
  show ?thesis
    unfolding git_sync_def Let_def if_P [OF assms [unfolded token_is_new_def Let_def]]
  proof (rule post_bind, rule post_mono [OF post_forget], rule post_bind,
      rule post_frame [OF core_tracker(3)], rule post_bind, rule post_mono [OF resolved])
    show "same_core t u \<Longrightarrow> entries t req = None \<and> world t = world s \<Longrightarrow> entries u req = None \<and> world u = world s"
      for t u :: "'w op_state" by (simp add: same_core_def)
  qed (intro post_sum post_prod keep caches_rules caches_tracker caches_git_update post_mono [OF fetch_from_scratch];
      auto)
qed

section \<open>Properties\<close>

definition sample_git :: "string \<Rightarrow> v1_git_auth option \<Rightarrow> v1_git_repository" where
  "sample_git token auth =
     \<lparr>v1_gr_meta = empty_meta\<lparr>om_name := ''g'', om_namespace := ''n'',
        om_annotations := Some [(ReconcileRequestAnnotation, token)]\<rparr>,
      v1_gr_spec = \<lparr>v1_grs_url = ''u'', v1_grs_branch = ''main'', v1_grs_revision = [], v1_grs_interval = 0,
        v1_grs_auth = auth\<rparr>,
      v1_gr_status = \<lparr>v1_grt_last_synced_commit = [], v1_grt_cache_ready = False, v1_grt_last_token = ''t1'',
        v1_grt_observed_generation = 0, v1_grt_conditions = []\<rparr>\<rparr>"

text \<open>
C20: A forced sync recovers from stale credentials: when the reconcile-requested annotation carries a
new token, the cache entry after the reconcile, if there is one, was built from the current spec
and from the credentials that this very reconcile resolved, whatever entry was on record before.
\<close>

theorem forced_sync_uses_current_credentials:
  fixes s :: "'w op_state"
  assumes "run_state (k_get_git_repository (e_kube E) req) (world s) = (Inr gr, w)"
    and "time_is_zero (om_deletion_timestamp (v1_gr_meta gr))" and "token_is_new gr"
  shows "case entries (snd (run_state (git_reconcile E P req) s)) req of
      None \<Rightarrow> True
    | Some e \<Rightarrow> \<exists>auth. auth_resolved_in w E P gr auth \<and> repo_cfg (en_repo e) = default_branch (git_config_of gr auth)"
proof -
  have got: "fst (run_state (k_get_git_repository (e_kube E) req) (world s)) = Inr gr"
    "snd (run_state (k_get_git_repository (e_kube E) req) (world s)) = w"
    using assms(1) by simp_all
  have "post (git_reconcile E P req) s (\<lambda>_ t. \<forall>e. entries t req = Some e \<longrightarrow>
      (\<exists>auth. auth_resolved_in w E P gr auth \<and> repo_cfg (en_repo e) = default_branch (git_config_of gr auth)))"
    by (rule post_git_reconcile [OF got(1) assms(2)], rule post_mono [OF forced_sync [OF assms(3)]])
      (auto simp: got(2) same_core_def)
  from postD [OF this surjective_pairing] show ?thesis
    by (auto split: option.split)
qed

theorem forced_sync_uses_current_credentials_witness:
  "let cl = empty_cluster\<lparr>cl_gits := [(ObjectKey ''n'' ''g'', sample_git ''t2'' None)]\<rparr>;
       E = mem_env True [] [] ''k'' (one_doc [] (new_secret [] []))
   in case entries (snd (run_state (git_reconcile E no_policy (ObjectKey ''n'' ''g'')) (cluster_start cl []))) (ObjectKey ''n'' ''g'') of
      None \<Rightarrow> True
    | Some e \<Rightarrow> \<exists>auth. auth_resolved_in cl E no_policy (sample_git ''t2'' None) auth
        \<and> repo_cfg (en_repo e) = default_branch (git_config_of (sample_git ''t2'' None) auth)"
proof -
  let ?cl = "empty_cluster\<lparr>cl_gits := [(ObjectKey ''n'' ''g'', sample_git ''t2'' None)]\<rparr>"
  let ?E = "mem_env True [] [] ''k'' (one_doc [] (new_secret [] []))"
  have get: "run_state (k_get_git_repository (e_kube ?E) (ObjectKey ''n'' ''g'')) (world (cluster_start ?cl [])) = (Inr (sample_git ''t2'' None), ?cl)"
    by (simp add: mem_kube_def mem_get_def)
  have "time_is_zero (om_deletion_timestamp (v1_gr_meta (sample_git ''t2'' None)))" "token_is_new (sample_git ''t2'' None)"
    by (simp_all add: sample_git_def empty_meta_def time_is_zero_def token_is_new_def gm_get_def Let_def)
  from forced_sync_uses_current_credentials [OF get this] show ?thesis unfolding Let_def .
qed

text \<open>
C21: Git credentials are complete or refused: what a reconcile hands to the clone is either nothing,
and only when the resource asks for nothing, or a password that is not empty, or an SSH key
together with known hosts, neither of them empty.
\<close>

theorem git_credentials_complete:
  assumes "run_state (resolve_auth K P gr) s = (Inr (auth, orig), s')"
  shows "case (v1_grs_auth (v1_gr_spec gr), auth_basic auth, auth_ssh auth) of
      (None, None, None) \<Rightarrow> orig = OriginNone
    | (Some a, Some b, None) \<Rightarrow> v1_ga_type a = GitAuthBasic \<and> ba_password b \<noteq> []
    | (Some a, None, Some k) \<Rightarrow> v1_ga_type a = GitAuthSSH \<and> sa_private_key k \<noteq> [] \<and> sa_known_hosts k \<noteq> []
    | _ \<Rightarrow> False"
proof (cases "v1_grs_auth (v1_gr_spec gr)")
  case None
  with assms show ?thesis by (auto simp: resolve_auth_def no_git_auth_def)
next
  case (Some a)
  then obtain sec where "git_auth_of (v1_ga_type a) sec = Inr auth"
    using assms by (auto simp: resolve_auth_def run_on_world split: sum.splits if_splits)
  with Some show ?thesis
    by (auto simp: git_auth_of_def no_git_auth_def Let_def split: if_splits)
qed

theorem git_credentials_complete_witness:
  "\<exists>auth orig s'. run_state (resolve_auth mem_kube no_policy
        (sample_git [] (Some \<lparr>v1_ga_type = ''basic'', v1_ga_secret_ref = Some \<lparr>v1_sr_name = ''c'', v1_sr_namespace = []\<rparr>\<rparr>)))
      (cluster_start (empty_cluster\<lparr>cl_secrets := [(ObjectKey ''n'' ''c'',
         stored_as (ObjectKey ''n'' ''c'') ((new_secret ''c'' ''n'')\<lparr>sec_data := Some [(''password'', ''p'')]\<rparr>))]\<rparr>) [])
      = (Inr (auth, orig), s') \<and> (\<exists>b. auth_basic auth = Some b \<and> ba_password b \<noteq> [])"
proof -
  let ?gr = "sample_git [] (Some \<lparr>v1_ga_type = ''basic'', v1_ga_secret_ref = Some \<lparr>v1_sr_name = ''c'', v1_sr_namespace = []\<rparr>\<rparr>)"
  let ?s = "cluster_start (empty_cluster\<lparr>cl_secrets := [(ObjectKey ''n'' ''c'',
         stored_as (ObjectKey ''n'' ''c'') ((new_secret ''c'' ''n'')\<lparr>sec_data := Some [(''password'', ''p'')]\<rparr>))]\<rparr>) []"
  have "\<not> isl (fst (run_state (resolve_auth mem_kube no_policy ?gr) ?s))" by code_simp
  then obtain auth orig s' where run: "run_state (resolve_auth mem_kube no_policy ?gr) ?s = (Inr (auth, orig), s')"
    by (cases "run_state (resolve_auth mem_kube no_policy ?gr) ?s"; cases "fst (run_state (resolve_auth mem_kube no_policy ?gr) ?s)") auto
  have "v1_grs_auth (v1_gr_spec ?gr) = Some \<lparr>v1_ga_type = ''basic'', v1_ga_secret_ref = Some \<lparr>v1_sr_name = ''c'', v1_sr_namespace = []\<rparr>\<rparr>"
    by (simp add: sample_git_def)
  with git_credentials_complete [OF run] have "\<exists>b. auth_basic auth = Some b \<and> ba_password b \<noteq> []"
    by (auto simp: GitAuthSSH_def split: option.splits)
  with run show ?thesis by blast
qed

text \<open>
C36: A change of an auth Secret wakes every \<open>GitRepository\<close> that would use it: if the list call
answers by the field index, each stored repository with an auth block whose reference resolves to
that Secret, under the policy in force or any other with the same default, is among the requests.
\<close>

theorem auth_secret_change_wakes_git:
  assumes "fst (run_state (k_list_git_repositories K
      (GitRepoAuthSecretIndex, index_key (ok_namespace k) (ok_name k))) w) = Inr gs"
    and "\<forall>g. g \<in> set gs \<longleftrightarrow> g \<in> stored \<and> index_key (ok_namespace k) (ok_name k) \<in> set (git_auth_index P g)"
    and "gr \<in> stored" and "v1_grs_auth (v1_gr_spec gr) \<noteq> None"
    and "resolve r (om_namespace (v1_gr_meta gr)) (git_auth_ref gr) (global_git_auth P) = Inr res"
    and "rs_object_key res = k"
  shows "meta_key (v1_gr_meta gr) \<in> set (fst (run_state (map_secret_to_git_repos K k) w))"
proof -
  have "index_values (secret_refs P) (om_namespace (v1_gr_meta gr)) (git_auth_ref gr) (global_git_auth P)
      = [index_key (ok_namespace k) (ok_name k)]"
    using assms(5,6) by (auto simp: index_values_def resolve_def Let_def split: option.splits if_splits)
  then have "gr \<in> set gs" using assms(2,3,4) by (auto simp: git_auth_index_def)
  then show ?thesis
    using assms(1) by (cases "run_state (k_list_git_repositories K
      (GitRepoAuthSecretIndex, index_key (ok_namespace k) (ok_name k))) w") (simp add: map_secret_to_git_repos_def)
qed

text \<open>An API server whose list call evaluates the field index.\<close>

definition indexing_kube :: "credential_policy \<Rightarrow> mem_cluster kube" where
  "indexing_kube P = mem_kube\<lparr>k_list_git_repositories := (\<lambda>(i, v).
     gets (\<lambda>w. Inr (filter (\<lambda>g. v \<in> set (git_auth_index P g)) (map snd (cl_gits w)))))\<rparr>"

theorem auth_secret_change_wakes_git_witness:
  "let gr = sample_git [] (Some \<lparr>v1_ga_type = ''basic'', v1_ga_secret_ref = Some \<lparr>v1_sr_name = ''c'', v1_sr_namespace = ''shared''\<rparr>\<rparr>);
       cl = empty_cluster\<lparr>cl_gits := [(ObjectKey ''n'' ''g'', gr)]\<rparr>
   in ObjectKey ''n'' ''g'' \<in> set (fst (run_state (map_secret_to_git_repos (indexing_kube no_policy) (ObjectKey ''shared'' ''c'')) cl))"
proof -
  let ?gr = "sample_git [] (Some \<lparr>v1_ga_type = ''basic'', v1_ga_secret_ref = Some \<lparr>v1_sr_name = ''c'', v1_sr_namespace = ''shared''\<rparr>\<rparr>)"
  let ?cl = "empty_cluster\<lparr>cl_gits := [(ObjectKey ''n'' ''g'', ?gr)]\<rparr>"
  let ?k = "ObjectKey ''shared'' ''c''"
  let ?gs = "filter (\<lambda>g. index_key ''shared'' ''c'' \<in> set (git_auth_index no_policy g)) [?gr]"
  have list: "fst (run_state (k_list_git_repositories (indexing_kube no_policy)
      (GitRepoAuthSecretIndex, index_key (ok_namespace ?k) (ok_name ?k))) ?cl) = Inr ?gs"
    by (simp add: indexing_kube_def)
  have law: "\<forall>g. g \<in> set ?gs \<longleftrightarrow> g \<in> {?gr} \<and> index_key (ok_namespace ?k) (ok_name ?k) \<in> set (git_auth_index no_policy g)"
    by auto
  have auth: "v1_grs_auth (v1_gr_spec ?gr) \<noteq> None" by (simp add: sample_git_def)
  have res: "resolve (new_resolver [''shared'']) (om_namespace (v1_gr_meta ?gr)) (git_auth_ref ?gr) (global_git_auth no_policy)
      = Inr \<lparr>rs_object_key = ?k, rs_data_key = [], rs_origin = OriginCrossNamespace\<rparr>" by code_simp
  have "meta_key (v1_gr_meta ?gr) = ObjectKey ''n'' ''g''" by code_simp
  with auth_secret_change_wakes_git [OF list law _ auth res] show ?thesis unfolding Let_def by simp
qed

end
