(* ===== verification/ObjectSourceCtl.thy ===== *)
theory ObjectSourceCtl
  imports GitRepositoryCtl
begin

text \<open>
  \<open>internal/controller/objectsource_controller.go\<close>: the reconciler of an \<open>ObjectSource\<close> (an HTTPS URL
  or an S3 bucket), its credentials, and the watch on its auth Secret.
\<close>

section \<open>Constants and references\<close>

definition ObjectSourceAuthSecretIndex :: string where "ObjectSourceAuthSecretIndex = ''.spec.auth.secretRef''"
definition ObjectConditionSourceReady :: string where "ObjectConditionSourceReady = ''SourceReady''"
definition ObjectConditionAuthResolved :: string where "ObjectConditionAuthResolved = ''AuthResolved''"

definition object_auth_ref :: "v2_object_source \<Rightarrow> secret_ref" where
  "object_auth_ref os =
     (case v2_oss_auth (v2_os_spec os) of
        None \<Rightarrow> zero_ref
      | Some a \<Rightarrow>
          (case v2_oa_secret_ref a of
             None \<Rightarrow> zero_ref
           | Some ref \<Rightarrow> \<lparr>r_namespace = v2_sr_namespace ref, r_name = v2_sr_name ref, r_key = []\<rparr>))"

section \<open>Building the fetcher\<close>

text \<open>\<open>NilPointer\<close> is the panic of a nil dereference.\<close>

datatype object_auth_error =
    NotExactlyOne
  | NoObjectAuthSecretRef string
  | ObjectAuthRefused resolve_error
  | GetObjectAuthSecret objkey api_error
  | MissingToken string
  | MissingUserOrPassword string
  | MissingAccessOrSecretKey string
  | S3OnlyForBucket
  | UnknownObjectAuthType string
  | NotForBucket string
  | S3ClientFailed fetch_error
  | NilPointer

definition quoted :: "string \<Rightarrow> string" where
  "quoted s = [CHR 0x27] @ s @ [CHR 0x27]"

fun object_auth_error_text :: "object_auth_error \<Rightarrow> string" where
  "object_auth_error_text NotExactlyOne = ''exactly one of spec.url or spec.bucket must be set''"
| "object_auth_error_text (NoObjectAuthSecretRef t) =
     ''auth type '' @ go_quote t @ '' requires secretRef, and the operator has no --global-object-auth-secret configured''"
| "object_auth_error_text (ObjectAuthRefused e) = resolve_error_text e"
| "object_auth_error_text (GetObjectAuthSecret k e) = ''get auth secret '' @ key_text k @ '': '' @ api_text e"
| "object_auth_error_text (MissingToken n) =
     ''auth secret '' @ go_quote n @ '': missing '' @ quoted ''token'' @ '' key''"
| "object_auth_error_text (MissingUserOrPassword n) =
     ''auth secret '' @ go_quote n @ '': missing '' @ quoted ''username'' @ '' or '' @ quoted ''password''"
| "object_auth_error_text (MissingAccessOrSecretKey n) =
     ''auth secret '' @ go_quote n @ '': missing '' @ quoted ''accessKey'' @ '' or '' @ quoted ''secretKey''"
| "object_auth_error_text S3OnlyForBucket = ''auth type '' @ quoted ''s3'' @ '' is only valid for bucket mode''"
| "object_auth_error_text (UnknownObjectAuthType t) = ''unknown auth type '' @ go_quote t"
| "object_auth_error_text (NotForBucket t) =
     ''auth type '' @ go_quote t @ '' is not valid for bucket mode (use s3 or none)''"
| "object_auth_error_text (S3ClientFailed e) = fetch_error_text e"
| "object_auth_error_text NilPointer = ''invalid memory address or nil pointer dereference''"

definition no_https_auth :: https_auth where
  "no_https_auth = \<lparr>ha_bearer_token = [], ha_username = [], ha_password = []\<rparr>"

definition resolve_https_auth :: "v2_object_auth option \<Rightarrow> secret option \<Rightarrow> object_auth_error + https_auth" where
  "resolve_https_auth auth sec =
     (case auth of
        None \<Rightarrow> Inr no_https_auth
      | Some a \<Rightarrow>
          (let type = v2_oa_type a in
           if type = ObjectAuthNone then Inr no_https_auth
           else if type = ObjectAuthBearer then
             (case sec of
                None \<Rightarrow> Inl NilPointer
              | Some s \<Rightarrow>
                  if gm_get (sec_data s) ''token'' = [] then Inl (MissingToken (om_name (sec_meta s)))
                  else Inr (no_https_auth\<lparr>ha_bearer_token := gm_get (sec_data s) ''token''\<rparr>))
           else if type = ObjectAuthBasic then
             (case sec of
                None \<Rightarrow> Inl NilPointer
              | Some s \<Rightarrow>
                  if gm_get (sec_data s) ''username'' = [] \<or> gm_get (sec_data s) ''password'' = []
                  then Inl (MissingUserOrPassword (om_name (sec_meta s)))
                  else Inr (no_https_auth\<lparr>ha_username := gm_get (sec_data s) ''username'',
                                          ha_password := gm_get (sec_data s) ''password''\<rparr>))
           else if type = ObjectAuthS3 then Inl S3OnlyForBucket
           else Inl (UnknownObjectAuthType type)))"

text \<open>The first part of \<open>buildFetcher\<close>: the auth Secret, if one is needed.\<close>

definition object_auth_secret ::
  "'w kube \<Rightarrow> credential_policy \<Rightarrow> v2_object_source \<Rightarrow> ('w, 'x, object_auth_error + secret option) op_prog" where
  "object_auth_secret K P os =
     (case v2_oss_auth (v2_os_spec os) of
        None \<Rightarrow> State_Monad.return (Inr None)
      | Some a \<Rightarrow>
          if v2_oa_type a = ObjectAuthNone then State_Monad.return (Inr None)
          else (case resolve (secret_refs P) (om_namespace (v2_os_meta os)) (object_auth_ref os) (global_object_auth P) of
             Inl e \<Rightarrow> State_Monad.return
               (Inl (if e = ErrNoReference then NoObjectAuthSecretRef (v2_oa_type a) else ObjectAuthRefused e))
           | Inr res \<Rightarrow> do {
               got \<leftarrow> on_world (k_get_secret K (rs_object_key res));
               State_Monad.return (case got of
                   Inl e \<Rightarrow> Inl (GetObjectAuthSecret (rs_object_key res) e)
                 | Inr s \<Rightarrow> Inr (Some s))
             }))"

text \<open>The rest of it: the fetcher for the URL or the bucket.\<close>

definition bucket_config :: "v2_object_auth option \<Rightarrow> secret option \<Rightarrow> v2_bucket_spec \<Rightarrow> object_auth_error + s3_config" where
  "bucket_config auth sec b =
     (let cfg = \<lparr>s3_endpoint = v2_b_endpoint b, s3_bucket = v2_b_name b, s3_region = v2_b_region b,
                 s3_insecure = v2_b_insecure b, s3_access_key = [], s3_secret_key = []\<rparr> in
      case auth of
        None \<Rightarrow> Inr cfg
      | Some a \<Rightarrow>
          if v2_oa_type a = ObjectAuthS3 then
            (case sec of
               None \<Rightarrow> Inl NilPointer
             | Some s \<Rightarrow>
                 if gm_get (sec_data s) ''accessKey'' = [] \<or> gm_get (sec_data s) ''secretKey'' = []
                 then Inl (MissingAccessOrSecretKey (om_name (sec_meta s)))
                 else Inr (cfg\<lparr>s3_access_key := gm_get (sec_data s) ''accessKey'',
                               s3_secret_key := gm_get (sec_data s) ''secretKey''\<rparr>))
          else if v2_oa_type a \<noteq> ObjectAuthNone then Inl (NotForBucket (v2_oa_type a))
          else Inr cfg)"

definition make_fetcher ::
  "'w remote_ext \<Rightarrow> v2_object_source_spec \<Rightarrow> secret option \<Rightarrow> object_auth_error + fetcher \<times> object_mode" where
  "make_fetcher X spec sec =
     (if v2_oss_url spec \<noteq> [] then
        (case resolve_https_auth (v2_oss_auth spec) sec of
           Inl e \<Rightarrow> Inl e
         | Inr auth \<Rightarrow> Inr (HTTPSFetcher (new_https_fetcher (v2_oss_url spec) auth), ObjectModeURL))
      else
        (case v2_oss_bucket spec of
           None \<Rightarrow> Inl NilPointer
         | Some b \<Rightarrow>
             (case bucket_config (v2_oss_auth spec) sec b of
                Inl e \<Rightarrow> Inl e
              | Inr cfg \<Rightarrow>
                  (case new_s3_fetcher X cfg of
                     Inl e \<Rightarrow> Inl (S3ClientFailed e)
                   | Inr f \<Rightarrow> Inr (S3Fetcher f, ObjectModeBucket)))))"

definition build_fetcher ::
  "'w operator_env \<Rightarrow> credential_policy \<Rightarrow> v2_object_source
    \<Rightarrow> ('w, 'x, object_auth_error + fetcher \<times> object_mode) op_prog" where
  "build_fetcher E P os = do {
     r \<leftarrow> object_auth_secret (e_kube E) P os;
     State_Monad.return (case r of
         Inl e \<Rightarrow> Inl e
       | Inr sec \<Rightarrow> make_fetcher (e_remote E) (v2_os_spec os) sec)
   }"

section \<open>The reconciler\<close>

definition object_condition ::
  "'w kube \<Rightarrow> string \<Rightarrow> string \<Rightarrow> string \<Rightarrow> string \<Rightarrow> v2_object_source \<Rightarrow> v2_object_source" where
  "object_condition K type status reason msg os =
     os\<lparr>v2_os_status := (v2_os_status os)\<lparr>v2_ost_conditions :=
       set_condition K (v2_ost_conditions (v2_os_status os)) type status reason msg\<rparr>\<rparr>"

definition object_status ::
  "(v2_object_source_status \<Rightarrow> v2_object_source_status) \<Rightarrow> v2_object_source \<Rightarrow> v2_object_source" where
  "object_status f os = os\<lparr>v2_os_status := f (v2_os_status os)\<rparr>"

definition set_object_failure ::
  "'w kube \<Rightarrow> v2_object_source \<Rightarrow> string \<Rightarrow> string \<Rightarrow> string \<Rightarrow> v2_object_source" where
  "set_object_failure K os type reason msg =
     object_status (\<lambda>st. st\<lparr>v2_ost_cache_ready := False\<rparr>)
       (object_condition K ObjectConditionSourceReady condition_false reason (''waiting for '' @ type)
         (object_condition K type condition_false reason msg os))"

definition object_update_status ::
  "'w kube \<Rightarrow> v2_object_source \<Rightarrow> ctrl_result \<Rightarrow> ('w, 'x, reconcile_result) op_prog" where
  "object_update_status K os res = do {
     err \<leftarrow> on_world (k_update_object_source_status K os);
     State_Monad.return (result_or err res)
   }"

definition object_interval :: "v2_object_source \<Rightarrow> int" where
  "object_interval os =
     (let interval = v2_oss_interval (v2_os_spec os) in
      if interval = 0 then defaultSyncInterval else interval)"

definition object_ready_message :: "object_mode \<Rightarrow> string \<Rightarrow> string" where
  "object_ready_message mode etag =
     (case mode of
        ObjectModeURL \<Rightarrow> if etag \<noteq> [] then ''cache at '' @ etag else ''cache ready''
      | ObjectModeBucket \<Rightarrow> ''bucket reachable''
      | ObjectModeOther _ \<Rightarrow> ''cache ready'')"

text \<open>A panic is recovered by controller-runtime and reported as an error, after the deferred calls.\<close>

definition panicked :: api_error where
  "panicked = ApiError False ''panic: invalid memory address or nil pointer dereference [recovered]''"

text \<open>From \<open>EnsureObjectCached\<close> on.\<close>

definition object_fetch_step ::
  "'w operator_env \<Rightarrow> objkey \<Rightarrow> v2_object_source \<Rightarrow> string \<Rightarrow> fetcher \<Rightarrow> object_mode
    \<Rightarrow> ('w, 'x, reconcile_result) op_prog" where
  "object_fetch_step E req os token f mode = do {
     let K = e_kube E;
     track_stage StageFetch;
     r \<leftarrow> ensure_object_cached (e_remote E) req mode f;
     case r of
       Inl e \<Rightarrow> do {
         track_fail StageFetch (source_error_text e);
         object_update_status K
           (object_status (\<lambda>st. st\<lparr>v2_ost_cache_ready := False\<rparr>)
             (object_condition K ObjectConditionSourceReady condition_false ''FetchFailed'' (source_error_text e) os))
           (requeue_after retryAfter)
       }
     | Inr etag \<Rightarrow> do {
         set_commit etag;
         t \<leftarrow> on_world (now (e_remote E));
         object_update_status K
           (object_condition K ObjectConditionSourceReady condition_true ''Ready'' (object_ready_message mode etag)
             (object_status (\<lambda>st. st\<lparr>v2_ost_last_synced_etag := etag, v2_ost_last_synced_at := Some t,
                v2_ost_cache_ready := True, v2_ost_last_token := token,
                v2_ost_observed_generation := om_generation (v2_os_meta os)\<rparr>) os))
           (requeue_after (object_interval os))
       }
   }"

definition object_sync ::
  "'w operator_env \<Rightarrow> credential_policy \<Rightarrow> objkey \<Rightarrow> v2_object_source \<Rightarrow> ('w, 'x, reconcile_result) op_prog" where
  "object_sync E P req os = do {
     let K = e_kube E;
     let token = gm_get (om_annotations (v2_os_meta os)) ReconcileRequestAnnotation;
     (if token \<noteq> [] \<and> token \<noteq> v2_ost_last_token (v2_os_status os) then forget_object req
      else State_Monad.return ());
     if (v2_oss_url (v2_os_spec os) \<noteq> []) = (v2_oss_bucket (v2_os_spec os) \<noteq> None) then do {
       track_fail StageAuth (object_auth_error_text NotExactlyOne);
       object_update_status K
         (set_object_failure K os ObjectConditionAuthResolved ''InvalidSpec'' (object_auth_error_text NotExactlyOne))
         (requeue_after retryAfter)
     }
     else do {
       track_stage StageAuth;
       r \<leftarrow> build_fetcher E P os;
       case r of
         Inl e \<Rightarrow>
           if e = NilPointer then State_Monad.return (Inl panicked)
           else do {
             track_fail StageAuth (object_auth_error_text e);
             object_update_status K
               (set_object_failure K os ObjectConditionAuthResolved ''AuthFailed'' (object_auth_error_text e))
               (requeue_after retryAfter)
           }
       | Inr (f, mode) \<Rightarrow>
           object_fetch_step E req
             (object_condition K ObjectConditionAuthResolved condition_true ''AuthOK'' ''auth resolved'' os)
             token f mode
     }
   }"

definition object_reconcile_body ::
  "'w operator_env \<Rightarrow> credential_policy \<Rightarrow> objkey \<Rightarrow> ('w, 'x, reconcile_result) op_prog" where
  "object_reconcile_body E P req = do {
     got \<leftarrow> on_world (k_get_object_source (e_kube E) req);
     case got of
       Inl e \<Rightarrow>
         if is_not_found e then do {
           forget_object req;
           State_Monad.return (Inr no_result)
         }
         else State_Monad.return (Inl e)
     | Inr os \<Rightarrow>
         if \<not> time_is_zero (om_deletion_timestamp (v2_os_meta os)) then do {
           forget_object req;
           State_Monad.return (Inr no_result)
         }
         else object_sync E P req os
   }"

definition object_reconcile ::
  "'w operator_env \<Rightarrow> credential_policy \<Rightarrow> objkey \<Rightarrow> ('w, 'x, reconcile_result) op_prog" where
  "object_reconcile E P req = tracked ''ObjectSource'' req (object_reconcile_body E P req)"

section \<open>The watch on auth Secrets\<close>

definition object_auth_index :: "credential_policy \<Rightarrow> v2_object_source \<Rightarrow> string list" where
  "object_auth_index P o' =
     (case v2_oss_auth (v2_os_spec o') of
        None \<Rightarrow> []
      | Some a \<Rightarrow>
          if v2_oa_type a = ObjectAuthNone then []
          else index_values (secret_refs P) (om_namespace (v2_os_meta o')) (object_auth_ref o') (global_object_auth P))"

definition map_secret_to_object_sources :: "'w kube \<Rightarrow> objkey \<Rightarrow> ('w, objkey list) state" where
  "map_secret_to_object_sources K obj = do {
     listed \<leftarrow> k_list_object_sources K
       (ObjectSourceAuthSecretIndex, index_key (ok_namespace obj) (ok_name obj));
     State_Monad.return (case listed of
         Inl _ \<Rightarrow> []
       | Inr os \<Rightarrow> map (\<lambda>o'. meta_key (v2_os_meta o')) os)
   }"

section \<open>What a reconcile touches\<close>

lemmas object_ctl_defs = object_reconcile_body_def object_sync_def object_fetch_step_def
  object_update_status_def build_fetcher_def object_auth_secret_def Let_def

lemma span_frame_object: "state_io_rel span_frame (object_reconcile_body E P req)"
  unfolding object_ctl_defs by (intro span_ops)

lemma quiet_object:
  assumes "env_ok E V"
  shows "state_io_rel (quiet V) (object_reconcile E P req)"
proof -
  note d = env_okD [OF assms]
  have ops: "\<And>k. reads_only V (k_get_object_source (e_kube E) k)"
    "\<And>x. reads_only V (k_update_object_source_status (e_kube E) x)"
    "\<And>k. reads_only V (k_get_secret (e_kube E) k)" "reads_only V (now (e_remote E))"
    using d(3,5,6) by (simp_all add: other_ops_ok_def get_ok_def remote_quiet_def)
  show ?thesis
    unfolding object_reconcile_def object_ctl_defs
    by (intro quiet_tracked quiet_rules quiet_tracker quiet_objects quiet_forget d ops)
qed

section \<open>Requeueing\<close>

lemma post_object_update:
  "post (object_update_status K os res) s (\<lambda>r t. r = Inr res \<or> (\<exists>e. r = Inl e))"
  unfolding object_update_status_def by (rule postI) (auto simp: run_on_world result_or_def split: option.splits)

lemma object_sync_result:
  "post (object_sync E P req os) s (\<lambda>r t. (\<exists>e. r = Inl e)
     \<or> r = Inr (requeue_after retryAfter) \<or> r = Inr (requeue_after (object_interval os)))"
proof -
  have int: "object_interval (object_condition K ty st re ms os) = object_interval os" for K :: "'a kube" and ty st re ms
    by (simp add: object_interval_def object_condition_def)
  have step: "post (object_fetch_step E req os' token f mode) t (\<lambda>r t. (\<exists>e. r = Inl e)
     \<or> r = Inr (requeue_after retryAfter) \<or> r = Inr (requeue_after (object_interval os')))" for os' token f mode t
    unfolding object_fetch_step_def Let_def
    by (intro post_skip post_sum post_mono [OF post_object_update]) auto
  show ?thesis
    unfolding object_sync_def Let_def
    by (intro post_skip post_if post_sum post_prod post_return post_mono [OF post_object_update] post_mono [OF step])
      (auto simp: int)
qed

lemma post_object_reconcile:
  assumes "fst (run_state (k_get_object_source (e_kube E) req) (world s)) = Inr os"
    and "time_is_zero (om_deletion_timestamp (v2_os_meta os))"
    and "\<And>t. world t = snd (run_state (k_get_object_source (e_kube E) req) (world s))
      \<Longrightarrow> post (object_sync E P req os) t (\<lambda>r u. \<forall>v. same_core u v \<longrightarrow> Q r v)"
  shows "post (object_reconcile E P req) s Q"
  unfolding object_reconcile_def
proof (rule post_tracked)
  fix t assume "same_core s t"
  then have "world t = world s" by (simp add: same_core_def)
  then show "post (object_reconcile_body E P req) t (\<lambda>r u. \<forall>v. same_core u v \<longrightarrow> Q r v)"
    unfolding object_reconcile_body_def
    by (intro post_bind post_mono [OF post_world]) (use assms in auto)
qed

lemma object_never_idle:
  assumes "fst (run_state (k_get_object_source (e_kube E) req) (world s)) = Inr os"
    and "time_is_zero (om_deletion_timestamp (v2_os_meta os))" and "0 \<le> v2_oss_interval (v2_os_spec os)"
  shows "post (object_reconcile E P req) s (\<lambda>r t. \<forall>res. r = Inr res \<longrightarrow> res_requeue res \<or> 0 < res_requeue_after res)"
proof -
  have "0 < res_requeue_after (requeue_after (object_interval os))"
    using assms(3) by (auto simp: requeue_after_def object_interval_def interval_defs Let_def)
  with result_kinds_requeue(2) show ?thesis
    by (intro post_object_reconcile [OF assms(1,2)] post_mono [OF object_sync_result]) auto
qed

section \<open>A forced sync\<close>

definition object_token_is_new :: "v2_object_source \<Rightarrow> bool" where
  "object_token_is_new os \<longleftrightarrow>
     (let token = gm_get (om_annotations (v2_os_meta os)) ReconcileRequestAnnotation in
      token \<noteq> [] \<and> token \<noteq> v2_ost_last_token (v2_os_status os))"

text \<open>What a cache holds that was fetched from a URL without \<open>If-None-Match\<close>, or not at all.\<close>

definition fetched_afresh :: "'w remote_ext \<Rightarrow> string \<Rightarrow> object_entry \<Rightarrow> bool" where
  "fetched_afresh X url e \<longleftrightarrow> (oe_content e = [] \<and> oe_etag e = [])
     \<or> (\<exists>h (t :: 'w op_state) t'. hf_url h = url
         \<and> run_state (https_fetch X h [] []) t = (Inr (oe_content e, oe_etag e), t'))"

lemma post_fetch_fresh:
  fixes s :: "'w op_state"
  assumes "objects s req = None"
  shows "post (ensure_object_cached X req ObjectModeURL (HTTPSFetcher h)) s
    (\<lambda>_ t. \<forall>e. objects t req = Some e \<longrightarrow> fetched_afresh X (hf_url h) e)"
proof (rule postI)
  fix r s' assume run: "run_state (ensure_object_cached X req ObjectModeURL (HTTPSFetcher h)) s = (r, s')"
  have none: "oe_etag (object_for (objects s req) ObjectModeURL) = []"
    "oe_content (object_for (objects s req) ObjectModeURL) = []"
    by (simp_all add: object_for_def new_object_entry_def assms)
  show "\<forall>e. objects s' req = Some e \<longrightarrow> fetched_afresh X (hf_url h) e"
    using url_refresh_entries [OF run] unfolding none fetched_afresh_def fetch_def by fastforce
qed

lemma caches_object_update: "state_io_rel caches_frame (object_update_status K os res)"
  unfolding object_update_status_def by (intro caches_rules)

lemma caches_build_fetcher: "state_io_rel caches_frame (build_fetcher E P os)"
  unfolding build_fetcher_def object_auth_secret_def by (intro caches_rules)

lemma object_fetch_fresh:
  fixes s :: "'w op_state"
  assumes "objects s req = None"
  shows "post (object_fetch_step E req os token (HTTPSFetcher h) ObjectModeURL) s
    (\<lambda>_ t. \<forall>e. objects t req = Some e \<longrightarrow> fetched_afresh (e_remote E) (hf_url h) e)"
  unfolding object_fetch_step_def Let_def
  by (rule post_bind, rule post_frame [OF caches_tracker(1)], rule post_bind, rule post_mono [OF post_fetch_fresh])
    (simp add: caches_frame_def assms, rule post_frame [where R = caches_frame],
      intro caches_rules caches_tracker caches_object_update, simp add: caches_frame_def)

lemma post_forget_object: "post (forget_object req) s (\<lambda>_ t. objects t req = None)"
  unfolding forget_object_def by (rule postI) auto

text \<open>The fetcher of a URL source is an HTTPS fetcher for that URL.\<close>

lemma post_build_url_fetcher:
  assumes "v2_oss_url (v2_os_spec os) \<noteq> []" and "objects s req = None"
  shows "post (build_fetcher E P os) s (\<lambda>r t. objects t req = None
    \<and> (\<forall>f mode. r = Inr (f, mode) \<longrightarrow>
        mode = ObjectModeURL \<and> (\<exists>h. f = HTTPSFetcher h \<and> hf_url h = v2_oss_url (v2_os_spec os))))"
proof (rule postI)
  fix r s' assume run: "run_state (build_fetcher E P os) s = (r, s')"
  have "objects s' req = None"
    using frame_run [OF caches_build_fetcher run] assms(2) by (simp add: caches_frame_def)
  moreover have "mode = ObjectModeURL \<and> (\<exists>h. f = HTTPSFetcher h \<and> hf_url h = v2_oss_url (v2_os_spec os))"
    if "r = Inr (f, mode)" for f mode
    using run that assms(1) by (cases "run_state (object_auth_secret (e_kube E) P os) s")
      (auto simp: build_fetcher_def make_fetcher_def new_https_fetcher_def split: sum.splits)
  ultimately show "objects s' req = None \<and> (\<forall>f mode. r = Inr (f, mode) \<longrightarrow>
        mode = ObjectModeURL \<and> (\<exists>h. f = HTTPSFetcher h \<and> hf_url h = v2_oss_url (v2_os_spec os)))" by blast
qed

lemma forced_object_sync:
  fixes s :: "'w op_state"
  assumes "object_token_is_new os" and "v2_oss_url (v2_os_spec os) \<noteq> []"
  shows "post (object_sync E P req os) s
    (\<lambda>_ t. \<forall>e. objects t req = Some e \<longrightarrow> fetched_afresh (e_remote E) (v2_oss_url (v2_os_spec os)) e)"
    (is "post _ s ?Q")
proof -
  have keep: "objects t req = None \<Longrightarrow> state_io_rel caches_frame m \<Longrightarrow> post m t ?Q"
    for m :: "('w, unit, reconcile_result) op_prog" and t
    by (rule post_frame [where R = caches_frame]) (simp_all add: caches_frame_def)
  have stage: "objects t req = None \<Longrightarrow> post (track_stage stg) t (\<lambda>_ u. objects u req = None)"
    for t :: "'w op_state" and stg
    by (rule post_frame [OF caches_tracker(1)]) (simp add: caches_frame_def)
  show ?thesis
    unfolding object_sync_def Let_def if_P [OF assms(1) [unfolded object_token_is_new_def Let_def]]
  proof (rule post_bind, rule post_mono [OF post_forget_object], rule post_if)
    fix t :: "'w op_state" assume t: "objects t req = None"
    show "post (do {
       track_fail StageAuth (object_auth_error_text NotExactlyOne);
       object_update_status (e_kube E)
         (set_object_failure (e_kube E) os ObjectConditionAuthResolved ''InvalidSpec'' (object_auth_error_text NotExactlyOne))
         (requeue_after retryAfter) }) t ?Q"
      by (intro keep t caches_rules caches_tracker caches_object_update)
  qed (rule post_bind, rule post_mono [OF stage], assumption, rule post_bind,
      rule post_mono [OF post_build_url_fetcher [OF assms(2)]], assumption,
      rule post_sum, rule post_if, rule keep, simp, intro caches_rules,
      rule keep, simp, intro caches_rules caches_tracker caches_object_update,
      rule post_prod, clarsimp, rule post_mono [OF object_fetch_fresh], simp_all)
qed

section \<open>Properties\<close>

text \<open>What \<open>buildFetcher\<close> has in hand when it comes to the auth types.\<close>

lemma object_auth_secret_cases:
  assumes "run_state (object_auth_secret K P os) s = (Inr sec, s')"
  shows "sec = None \<longleftrightarrow> (case v2_oss_auth (v2_os_spec os) of None \<Rightarrow> True | Some a \<Rightarrow> v2_oa_type a = ObjectAuthNone)"
  using assms by (auto simp: object_auth_secret_def run_on_world split: option.splits sum.splits if_splits)

text \<open>
With exactly one of URL and bucket set, as the reconciler checks, building a fetcher never
dereferences a nil pointer, whatever the auth block and the Secret hold.
\<close>

theorem build_fetcher_no_nil:
  assumes "(v2_oss_url (v2_os_spec os) \<noteq> []) \<noteq> (v2_oss_bucket (v2_os_spec os) \<noteq> None)"
  shows "fst (run_state (build_fetcher E P os) s) \<noteq> Inl NilPointer"
proof -
  obtain r s1 where run: "run_state (object_auth_secret (e_kube E) P os) s = (r, s1)" by fastforce
  show ?thesis
  proof (cases r)
    case (Inl e)
    then have "e \<noteq> NilPointer"
      using run by (auto simp: object_auth_secret_def run_on_world split: option.splits sum.splits if_splits)
    with run Inl show ?thesis by (simp add: build_fetcher_def)
  next
    case (Inr sec)
    note sec = object_auth_secret_cases [OF run [unfolded Inr]]
    have "make_fetcher (e_remote E) (v2_os_spec os) sec \<noteq> Inl NilPointer"
      using assms sec
      by (auto simp: make_fetcher_def resolve_https_auth_def bucket_config_def object_auth_defs Let_def
          split: option.splits sum.splits if_splits)
    with run Inr show ?thesis by (simp add: build_fetcher_def)
  qed
qed

definition sample_object :: "string \<Rightarrow> v2_bucket_spec option \<Rightarrow> v2_object_auth option \<Rightarrow> v2_object_source" where
  "sample_object url bucket auth =
     \<lparr>v2_os_meta = empty_meta\<lparr>om_name := ''o'', om_namespace := ''n''\<rparr>,
      v2_os_spec = \<lparr>v2_oss_url = url, v2_oss_bucket = bucket, v2_oss_interval = 0, v2_oss_auth = auth\<rparr>,
      v2_os_status = \<lparr>v2_ost_last_synced_etag = [], v2_ost_last_synced_at = None, v2_ost_cache_ready = False,
        v2_ost_last_token = [], v2_ost_observed_generation = 0, v2_ost_conditions = []\<rparr>\<rparr>"

theorem build_fetcher_no_nil_witness:
  "fst (run_state (build_fetcher (mem_env True [] [] ''k'' Y) no_policy
      (sample_object [] (Some \<lparr>v2_b_endpoint = ''s3'', v2_b_name = ''b'', v2_b_region = [], v2_b_insecure = False\<rparr>)
        (Some \<lparr>v2_oa_type = ''s3'', v2_oa_secret_ref = None\<rparr>))) (cluster_start empty_cluster []))
    \<noteq> Inl NilPointer"
  by (rule build_fetcher_no_nil) (simp add: sample_object_def)

text \<open>
The credentials a fetcher carries are exactly those its auth type calls for, and none of them
is empty: a token for \<open>bearer\<close>, user and password for \<open>basic\<close>, a key pair for \<open>s3\<close>, nothing for
\<open>none\<close> or no auth block; a URL never gets a key pair, a bucket never a token or a password.
\<close>

theorem object_credentials_match_type:
  assumes "run_state (build_fetcher E P os) s = (Inr (f, mode), s')"
  shows "let type = (case v2_oss_auth (v2_os_spec os) of None \<Rightarrow> ObjectAuthNone | Some a \<Rightarrow> v2_oa_type a) in
    (case f of
       HTTPSFetcher h \<Rightarrow> mode = ObjectModeURL \<and> hf_url h = v2_oss_url (v2_os_spec os)
         \<and> type \<in> {ObjectAuthNone, ObjectAuthBearer, ObjectAuthBasic}
         \<and> (ha_bearer_token (hf_auth h) \<noteq> [] \<longleftrightarrow> type = ObjectAuthBearer)
         \<and> (ha_username (hf_auth h) \<noteq> [] \<longleftrightarrow> type = ObjectAuthBasic)
         \<and> (ha_password (hf_auth h) \<noteq> [] \<longleftrightarrow> type = ObjectAuthBasic)
     | S3Fetcher c \<Rightarrow> mode = ObjectModeBucket \<and> type \<in> {ObjectAuthNone, ObjectAuthS3}
         \<and> (s3_access_key (sf_cfg c) \<noteq> [] \<longleftrightarrow> type = ObjectAuthS3)
         \<and> (s3_secret_key (sf_cfg c) \<noteq> [] \<longleftrightarrow> type = ObjectAuthS3)
         \<and> (mc_creds (sf_client c) \<noteq> None \<longleftrightarrow> type = ObjectAuthS3))"
proof -
  obtain sec where "make_fetcher (e_remote E) (v2_os_spec os) sec = Inr (f, mode)"
    using assms by (cases "run_state (object_auth_secret (e_kube E) P os) s")
      (auto simp: build_fetcher_def split: sum.splits)
  then show ?thesis
    by (auto simp: make_fetcher_def resolve_https_auth_def bucket_config_def object_auth_defs Let_def
        no_https_auth_def new_https_fetcher_def new_s3_fetcher_def
        split: option.splits sum.splits if_splits)
qed

theorem object_credentials_match_type_witness:
  "\<exists>f mode s'. run_state (build_fetcher (mem_env True [] [] ''k'' (one_doc [] (new_secret [] []))) no_policy
        (sample_object ''https://o'' None (Some \<lparr>v2_oa_type = ''bearer'',
           v2_oa_secret_ref = Some \<lparr>v2_sr_name = ''c'', v2_sr_namespace = []\<rparr>\<rparr>)))
      (cluster_start (empty_cluster\<lparr>cl_secrets := [(ObjectKey ''n'' ''c'',
         stored_as (ObjectKey ''n'' ''c'') ((new_secret ''c'' ''n'')\<lparr>sec_data := Some [(''token'', ''p'')]\<rparr>))]\<rparr>) [])
      = (Inr (f, mode), s')
    \<and> (case f of HTTPSFetcher h \<Rightarrow> ha_bearer_token (hf_auth h) \<noteq> [] \<and> ha_password (hf_auth h) = [] | S3Fetcher _ \<Rightarrow> False)"
proof -
  let ?os = "sample_object ''https://o'' None (Some \<lparr>v2_oa_type = ''bearer'',
           v2_oa_secret_ref = Some \<lparr>v2_sr_name = ''c'', v2_sr_namespace = []\<rparr>\<rparr>)"
  let ?s = "cluster_start (empty_cluster\<lparr>cl_secrets := [(ObjectKey ''n'' ''c'',
         stored_as (ObjectKey ''n'' ''c'') ((new_secret ''c'' ''n'')\<lparr>sec_data := Some [(''token'', ''p'')]\<rparr>))]\<rparr>) []"
  let ?m = "build_fetcher (mem_env True [] [] ''k'' (one_doc [] (new_secret [] []))) no_policy ?os"
  have ok: "(case fst (run_state ?m ?s) of Inr (HTTPSFetcher h, _) \<Rightarrow> True | _ \<Rightarrow> False)" by code_simp
  then obtain h mode s' where run: "run_state ?m ?s = (Inr (HTTPSFetcher h, mode), s')"
    by (cases "run_state ?m ?s") (auto split: sum.splits fetcher.splits)
  have "v2_oss_auth (v2_os_spec ?os) = Some \<lparr>v2_oa_type = ''bearer'', v2_oa_secret_ref = Some \<lparr>v2_sr_name = ''c'', v2_sr_namespace = []\<rparr>\<rparr>"
    by (simp add: sample_object_def)
  with object_credentials_match_type [OF run] run show ?thesis
    by (auto simp: Let_def object_auth_defs)
qed

text \<open>
A forced sync of a URL source recovers from a stale cache: when the reconcile-requested
annotation carries a new token, what the cache holds afterwards is nothing, or the body and ETag of
one response to a request for the current URL that was sent without \<open>If-None-Match\<close>.
\<close>

theorem forced_sync_refetches_object:
  fixes s :: "'w op_state"
  assumes "fst (run_state (k_get_object_source (e_kube E) req) (world s)) = Inr os"
    and "time_is_zero (om_deletion_timestamp (v2_os_meta os))" and "object_token_is_new os"
    and "v2_oss_url (v2_os_spec os) \<noteq> []"
  shows "case objects (snd (run_state (object_reconcile E P req) s)) req of
      None \<Rightarrow> True | Some e \<Rightarrow> fetched_afresh (e_remote E) (v2_oss_url (v2_os_spec os)) e"
proof -
  have "post (object_reconcile E P req) s (\<lambda>_ t. \<forall>e. objects t req = Some e \<longrightarrow>
      fetched_afresh (e_remote E) (v2_oss_url (v2_os_spec os)) e)"
    by (rule post_object_reconcile [OF assms(1,2)], rule post_mono [OF forced_object_sync [OF assms(3,4)]])
      (simp add: same_core_def)
  from postD [OF this surjective_pairing] show ?thesis by (simp split: option.split)
qed

theorem forced_sync_refetches_object_witness:
  "let os = (sample_object ''u'' None None)\<lparr>v2_os_meta := empty_meta\<lparr>om_name := ''o'', om_namespace := ''n'',
         om_annotations := Some [(ReconcileRequestAnnotation, ''t'')]\<rparr>\<rparr>;
       E = mem_env True [] [(''u'', ''new'', ''v2'')] ''k'' (one_doc [] (new_secret [] []));
       old = \<lparr>oe_mode = ObjectModeURL, oe_fetcher = None, oe_etag = ''v2'', oe_content = ''old'', oe_last_synced = 1\<rparr>;
       k = ObjectKey ''n'' ''o'';
       s = (cluster_start (empty_cluster\<lparr>cl_objects := [(k, os)]\<rparr>) [])\<lparr>objects := [k \<mapsto> old]\<rparr>
   in (\<exists>e. objects (snd (run_state (object_reconcile E no_policy k) s)) k = Some e \<and> oe_content e = ''new''
        \<and> fetched_afresh (still_remote [(''u'', ''new'', ''v2'')] :: mem_cluster remote_ext) ''u'' e)"
proof -
  let ?os = "(sample_object ''u'' None None)\<lparr>v2_os_meta := empty_meta\<lparr>om_name := ''o'', om_namespace := ''n'',
         om_annotations := Some [(ReconcileRequestAnnotation, ''t'')]\<rparr>\<rparr>"
  let ?E = "mem_env True [] [(''u'', ''new'', ''v2'')] ''k'' (one_doc [] (new_secret [] []))"
  let ?k = "ObjectKey ''n'' ''o''"
  let ?old = "\<lparr>oe_mode = ObjectModeURL, oe_fetcher = None, oe_etag = ''v2'', oe_content = ''old'', oe_last_synced = 1\<rparr>"
  let ?s = "(cluster_start (empty_cluster\<lparr>cl_objects := [(?k, ?os)]\<rparr>) [])\<lparr>objects := [?k \<mapsto> ?old]\<rparr>"
  have get: "fst (run_state (k_get_object_source (e_kube ?E) ?k) (world ?s)) = Inr ?os"
    by (simp add: mem_kube_def mem_get_def)
  have hyps: "time_is_zero (om_deletion_timestamp (v2_os_meta ?os))" "object_token_is_new ?os" "v2_oss_url (v2_os_spec ?os) \<noteq> []"
    by (simp_all add: sample_object_def empty_meta_def time_is_zero_def object_token_is_new_def gm_get_def Let_def)
  have "map_option oe_content (objects (snd (run_state (object_reconcile ?E no_policy ?k) ?s)) ?k) = Some ''new''"
    by code_simp
  with forced_sync_refetches_object [OF get hyps, of no_policy] show ?thesis
    by (auto simp: Let_def sample_object_def split: option.splits)
qed

end
