(* ===== verification/Pipeline.thy ===== *)
theory Pipeline
  imports ObjectSourceCtl
begin

text \<open>
  What the three controllers that write Secrets have in common: reading the source, decrypting,
  reading the plaintext, marking the target Secret, and the finalizer protocol around it all. The
  Go code repeats these parts in each controller; here they are written once, and each controller's
  theory instantiates them.
\<close>

section \<open>Reading the source\<close>

datatype source_fetch_error = SourceFetchError (sf_reason: string) (sf_msg: string)

fun condition_is_true :: "string \<Rightarrow> condition list \<Rightarrow> bool" where
  "condition_is_true t [] = False"
| "condition_is_true t (c # cs) = (if c_type c = t then c_status c = condition_true else condition_is_true t cs)"

definition is_git_source_ready :: "v1_git_repository \<Rightarrow> bool" where
  "is_git_source_ready gr = condition_is_true ConditionSourceReady (v1_grt_conditions (v1_gr_status gr))"

definition is_object_source_ready :: "v2_object_source \<Rightarrow> bool" where
  "is_object_source_ready os = condition_is_true ObjectConditionSourceReady (v2_ost_conditions (v2_os_status os))"

definition read_failed :: "source_error + 'a \<Rightarrow> source_fetch_error + 'a" where
  "read_failed r = (case r of Inl e \<Rightarrow> Inl (SourceFetchError ''ReadFailed'' (source_error_text e)) | Inr x \<Rightarrow> Inr x)"

text \<open>\<open>fetchSource\<close> and \<open>fetchManifestSource\<close>, which differ in the type of the resource only.\<close>

definition fetch_source_ref ::
  "'w operator_env \<Rightarrow> string \<Rightarrow> v2_source_ref \<Rightarrow> ('w, 'x, source_fetch_error + bytes \<times> string) op_prog" where
  "fetch_source_ref E namespace src =
     (let kind = v2_skf_kind (v2_src_source_ref src); name = v2_skf_name (v2_src_source_ref src);
          path = v2_src_path src; key = ObjectKey namespace name in
      if kind = SourceKindGitRepository then do {
        got \<leftarrow> on_world (k_get_git_repository (e_kube E) key);
        case got of
          Inl e \<Rightarrow> State_Monad.return (Inl (SourceFetchError ''SourceMissing''
            (if is_not_found e then ''GitRepository '' @ go_quote name @ '' not found'' else api_text e)))
        | Inr gr \<Rightarrow>
            if \<not> is_git_source_ready gr then State_Monad.return (Inl (SourceFetchError ''SourceNotReady''
              (''GitRepository '' @ go_quote name @ '' is not ready'')))
            else do {
              r \<leftarrow> registry_read key path;
              State_Monad.return (read_failed r)
            }
      }
      else if kind = SourceKindObjectSource then do {
        got \<leftarrow> on_world (k_get_object_source (e_kube E) key);
        case got of
          Inl e \<Rightarrow> State_Monad.return (Inl (SourceFetchError ''SourceMissing''
            (if is_not_found e then ''ObjectSource '' @ go_quote name @ '' not found'' else api_text e)))
        | Inr os \<Rightarrow>
            if \<not> is_object_source_ready os then State_Monad.return (Inl (SourceFetchError ''SourceNotReady''
              (''ObjectSource '' @ go_quote name @ '' is not ready'')))
            else do {
              r \<leftarrow> read_object (e_remote E) key path;
              State_Monad.return (read_failed r)
            }
      }
      else State_Monad.return (Inl (SourceFetchError ''UnknownSourceKind''
        (''unsupported sourceRef.kind '' @ go_quote kind))))"

section \<open>Decrypting\<close>

text \<open>The reason and message of a failed step, for the condition.\<close>

type_synonym failure = "string \<times> string"

definition key_ref_v2 :: "v2_decryption_spec option \<Rightarrow> secret_ref" where
  "key_ref_v2 d =
     (case d of
        None \<Rightarrow> zero_ref
      | Some x \<Rightarrow> age_key_ref (v2_skr_name (v2_dec_key_ref x)) (v2_skr_key (v2_dec_key_ref x)) (v2_skr_namespace (v2_dec_key_ref x)))"

definition key_ref_v1 :: "v1_decryption_spec option \<Rightarrow> secret_ref" where
  "key_ref_v1 d =
     (case d of
        None \<Rightarrow> zero_ref
      | Some x \<Rightarrow> age_key_ref (v1_skr_name (v1_dec_key_ref x)) (v1_skr_key (v1_dec_key_ref x)) (v1_skr_namespace (v1_dec_key_ref x)))"

text \<open>The age key, then \<open>DecryptAge\<close>.\<close>

definition decrypt_stage ::
  "'w operator_env \<Rightarrow> credential_policy \<Rightarrow> string \<Rightarrow> secret_ref \<Rightarrow> bytes \<Rightarrow> string
    \<Rightarrow> ('w, 'x, failure + bytes \<times> origin) op_prog" where
  "decrypt_stage E P namespace ref content path = do {
     k \<leftarrow> resolve_age_key P (e_kube E) namespace ref;
     case k of
       Inl e \<Rightarrow> State_Monad.return (Inl (''KeyResolveFailed'', key_error_text e))
     | Inr (ageKey, keyOrigin) \<Rightarrow> do {
         p \<leftarrow> decrypt_age (e_sops E) content path ageKey;
         State_Monad.return (case p of
             Inl e \<Rightarrow> Inl (''DecryptFailed'', decrypt_error_text e)
           | Inr plaintext \<Rightarrow> Inr (plaintext, keyOrigin))
       }
   }"

section \<open>Reading the plaintext\<close>

definition mapping_stage :: "yaml_lib \<Rightarrow> bytes \<Rightarrow> data_mapping list \<Rightarrow> failure + bytes gomap" where
  "mapping_stage Y plaintext mappings =
     (case parse_flat_yaml Y plaintext of
        Inl e \<Rightarrow> Inl (''ParseFailed'', transform_error_text e)
      | Inr flat \<Rightarrow>
          (case apply_mapping flat mappings of
             Inl e \<Rightarrow> Inl (''MappingFailed'', transform_error_text e)
           | Inr data \<Rightarrow> Inr data))"

text \<open>
  The manifest, normalised. The \<open>None\<close> of \<open>normalize_secret_data\<close> is a panic that does not happen
  (\<open>normalize_secret_data_merges\<close>).
\<close>

definition manifest_stage :: "yaml_lib \<Rightarrow> bytes \<Rightarrow> failure + secret" where
  "manifest_stage Y plaintext =
     (case parse_manifest Y plaintext of
        Inl e \<Rightarrow> Inl (''ParseFailed'', transform_error_text e)
      | Inr parsed \<Rightarrow>
          (case normalize_secret_data parsed of
             None \<Rightarrow> Inl (''Panic'', apply_error_text NilMapPanic)
           | Some sec \<Rightarrow> Inr sec))"

section \<open>Marking the target\<close>

text \<open>
  The map writes of the four mutate functions: \<open>maps.Copy\<close> of what the manifest brings (nothing in
  mapping mode), then the operator's own label and annotations. \<open>None\<close> is a write to a nil map.
\<close>

definition mark_secret ::
  "string gomap \<Rightarrow> string gomap \<Rightarrow> (string \<times> string) list \<Rightarrow> secret \<Rightarrow> secret option" where
  "mark_secret labels annotations marks s =
     (case gm_copy (gm_make (om_labels (sec_meta s))) labels of
        None \<Rightarrow> None
      | Some ls \<Rightarrow>
          (case gm_put ls ManagedByLabel ManagedByValue of
             None \<Rightarrow> None
           | Some ls' \<Rightarrow>
               (case gm_copy (gm_make (om_annotations (sec_meta s))) annotations of
                  None \<Rightarrow> None
                | Some as \<Rightarrow>
                    (case gm_puts as marks of
                       None \<Rightarrow> None
                     | Some as' \<Rightarrow>
                         Some (s\<lparr>sec_meta := (sec_meta s)\<lparr>om_labels := ls', om_annotations := as'\<rparr>\<rparr>)))))"

lemma mark_secret_Some:
  "\<exists>ls as. mark_secret labels annotations marks s
      = Some (s\<lparr>sec_meta := (sec_meta s)\<lparr>om_labels := ls, om_annotations := as\<rparr>\<rparr>)
    \<and> gm_lookup ls = (gm_lookup (om_labels (sec_meta s)) ++ map_of (rev (gm_entries labels)))(ManagedByLabel \<mapsto> ManagedByValue)
    \<and> gm_lookup as = gm_lookup (om_annotations (sec_meta s)) ++ map_of (rev (gm_entries annotations)) ++ map_of (rev marks)"
proof -
  define l0 a0 where "l0 = gm_entries (om_labels (sec_meta s))" and "a0 = gm_entries (om_annotations (sec_meta s))"
  have base: "gm_make (om_labels (sec_meta s)) = Some l0" "gm_make (om_annotations (sec_meta s)) = Some a0"
    by (auto simp: l0_def a0_def gm_make_def gm_entries_def split: option.split)
  obtain ls where ls: "gm_copy (Some l0) labels = Some (Some ls)" "map_of ls = map_of l0 ++ map_of (rev (gm_entries labels))"
    using gm_copy_Some by blast
  obtain as where as: "gm_copy (Some a0) annotations = Some (Some as)"
      "map_of as = map_of a0 ++ map_of (rev (gm_entries annotations))"
    using gm_copy_Some by blast
  obtain as' where as': "gm_puts (Some as) marks = Some (Some as')" "map_of as' = map_of as ++ map_of (rev marks)"
    using gm_puts_Some by blast
  have look: "gm_lookup (om_labels (sec_meta s)) = map_of l0" "gm_lookup (om_annotations (sec_meta s)) = map_of a0"
    by (simp_all add: fun_eq_iff gm_lookup_def l0_def a0_def)
  have "mark_secret labels annotations marks s
      = Some (s\<lparr>sec_meta := (sec_meta s)\<lparr>om_labels := Some (AList.update ManagedByLabel ManagedByValue ls),
          om_annotations := Some as'\<rparr>\<rparr>)"
    by (simp add: mark_secret_def base ls as as')
  moreover have "gm_lookup (Some (AList.update ManagedByLabel ManagedByValue ls))
      = (gm_lookup (om_labels (sec_meta s)) ++ map_of (rev (gm_entries labels)))(ManagedByLabel \<mapsto> ManagedByValue)"
    by (simp add: fun_eq_iff look ls update_conv')
  moreover have "gm_lookup (Some as') = gm_lookup (om_annotations (sec_meta s)) ++ map_of (rev (gm_entries annotations)) ++ map_of (rev marks)"
    by (simp add: fun_eq_iff look as as')
  ultimately show ?thesis by blast
qed

text \<open>Marking what is marked already changes nothing a reader of the maps can see.\<close>

lemma mark_secret_again:
  assumes "mark_secret labels annotations marks base = Some m"
    and "gm_lookup (om_labels (sec_meta s)) = gm_lookup (om_labels (sec_meta m))"
    and "gm_lookup (om_annotations (sec_meta s)) = gm_lookup (om_annotations (sec_meta m))"
  shows "\<exists>m'. mark_secret labels annotations marks s = Some m' \<and> sec_type m' = sec_type s
    \<and> gm_lookup (om_labels (sec_meta m')) = gm_lookup (om_labels (sec_meta s))
    \<and> gm_lookup (om_annotations (sec_meta m')) = gm_lookup (om_annotations (sec_meta s))"
proof -
  let ?L = "map_of (rev (gm_entries labels))" and ?A = "map_of (rev (gm_entries annotations))" and ?M = "map_of (rev marks)"
  from assms(1) mark_secret_Some [of labels annotations marks base]
  have m: "gm_lookup (om_labels (sec_meta m)) = (gm_lookup (om_labels (sec_meta base)) ++ ?L)(ManagedByLabel \<mapsto> ManagedByValue)"
    "gm_lookup (om_annotations (sec_meta m)) = gm_lookup (om_annotations (sec_meta base)) ++ ?A ++ ?M"
    by auto
  obtain ls as where m': "mark_secret labels annotations marks s
      = Some (s\<lparr>sec_meta := (sec_meta s)\<lparr>om_labels := ls, om_annotations := as\<rparr>\<rparr>)"
    and ls: "gm_lookup ls = (gm_lookup (om_labels (sec_meta s)) ++ ?L)(ManagedByLabel \<mapsto> ManagedByValue)"
    and as: "gm_lookup as = gm_lookup (om_annotations (sec_meta s)) ++ ?A ++ ?M"
    using mark_secret_Some by blast
  have "gm_lookup ls = gm_lookup (om_labels (sec_meta s))"
    unfolding ls assms(2) m by (auto simp: fun_eq_iff map_add_def split: option.split)
  moreover have "gm_lookup as = gm_lookup (om_annotations (sec_meta s))"
    unfolding as assms(3) m by (auto simp: fun_eq_iff map_add_def split: option.split)
  ultimately show ?thesis using m' by auto
qed

text \<open>The shape the four mutate functions share.\<close>

lemma mutate_again:
  assumes mark: "mark_secret labels annotations marks base = Some m"
    and out: "sec_meta out = sec_meta m" and same: "same_content out s"
  obtains m' where "mark_secret labels annotations marks s = Some m'" "sec_type m' = sec_type s"
    "\<And>x. sec_meta x = sec_meta m' \<Longrightarrow> gm_lookup (sec_data x) = gm_lookup (sec_data out) \<Longrightarrow> sec_type x = sec_type out
      \<Longrightarrow> same_content x s"
proof -
  from mark_secret_again [OF mark, of s] out same obtain m' where
    "mark_secret labels annotations marks s = Some m'" "sec_type m' = sec_type s"
    "gm_lookup (om_labels (sec_meta m')) = gm_lookup (om_labels (sec_meta s))"
    "gm_lookup (om_annotations (sec_meta m')) = gm_lookup (om_annotations (sec_meta s))"
    by (auto simp: same_content_def)
  with same show thesis by (intro that [of m']) (auto simp: same_content_def)
qed

text \<open>\<open>secret.Type\<close> when the target does not name one.\<close>

definition type_or_opaque :: "string \<Rightarrow> string" where
  "type_or_opaque t = (if t = [] then secret_type_opaque else t)"

section \<open>The finalizer protocol\<close>

text \<open>
  The first part of each \<open>Reconcile\<close>, after \<open>Get\<close>: add the finalizer, or, on deletion, remove the
  owned Secret and then the finalizer; otherwise go on with the sync.
\<close>

definition finalized ::
  "'w kube \<Rightarrow> object_meta \<Rightarrow> ('w, 'x, api_error option) op_prog \<Rightarrow> ('w, 'x, api_error option) op_prog
    \<Rightarrow> ('w, 'x, api_error option) op_prog \<Rightarrow> ('w, 'x, reconcile_result) op_prog \<Rightarrow> ('w, 'x, reconcile_result) op_prog" where
  "finalized K m add_update remove_update delete_owned sync =
     (if time_is_zero (om_deletion_timestamp m) then
        (if \<not> k_contains_finalizer K (om_finalizers m) Finalizer then do {
           err \<leftarrow> add_update;
           State_Monad.return (result_or err requeue_now)
         }
         else sync)
      else if k_contains_finalizer K (om_finalizers m) Finalizer then do {
        err \<leftarrow> delete_owned;
        case err of
          Some e \<Rightarrow> State_Monad.return (Inl e)
        | None \<Rightarrow> do {
            err' \<leftarrow> remove_update;
            State_Monad.return (result_or err' no_result)
          }
      }
      else State_Monad.return (Inr no_result))"

definition add_finalizer_meta :: "'w kube \<Rightarrow> object_meta \<Rightarrow> object_meta" where
  "add_finalizer_meta K m = m\<lparr>om_finalizers := k_add_finalizer K (om_finalizers m) Finalizer\<rparr>"

definition remove_finalizer_meta :: "'w kube \<Rightarrow> object_meta \<Rightarrow> object_meta" where
  "remove_finalizer_meta K m = m\<lparr>om_finalizers := k_remove_finalizer K (om_finalizers m) Finalizer\<rparr>"

text \<open>\<open>client.IgnoreNotFound\<close> on the first \<open>Get\<close>.\<close>

definition get_failed :: "api_error \<Rightarrow> reconcile_result" where
  "get_failed e = result_or (ignore_not_found (Some e)) no_result"

lemma get_failed_cases: "get_failed e = Inl e \<or> get_failed e = Inr no_result"
  by (simp add: get_failed_def result_or_def ignore_not_found_def)

section \<open>Rules\<close>

lemma frame_finalized:
  assumes "frame_rel R" and "state_io_rel R add_update" and "state_io_rel R remove_update"
    and "state_io_rel R delete_owned" and "state_io_rel R sync"
  shows "state_io_rel R (finalized K m add_update remove_update delete_owned sync)"
  unfolding finalized_def
  by (intro frame_if frame_bind frame_case_option frame_return assms)

lemma post_finalized:
  assumes "time_is_zero (om_deletion_timestamp m) \<Longrightarrow> post add_update s (\<lambda>err t. Q (result_or err requeue_now) t)"
    and "time_is_zero (om_deletion_timestamp m) \<Longrightarrow> post sync s Q"
    and "\<not> time_is_zero (om_deletion_timestamp m) \<Longrightarrow> k_contains_finalizer K (om_finalizers m) Finalizer
      \<Longrightarrow> post delete_owned s (\<lambda>err t. case err of Some e \<Rightarrow> Q (Inl e) t
           | None \<Rightarrow> post remove_update t (\<lambda>err' u. Q (result_or err' no_result) u))"
    and "\<not> time_is_zero (om_deletion_timestamp m) \<Longrightarrow> \<not> k_contains_finalizer K (om_finalizers m) Finalizer
      \<Longrightarrow> Q (Inr no_result) s"
  shows "post (finalized K m add_update remove_update delete_owned sync) s Q"
  unfolding finalized_def
proof (intro post_if)
  assume z: "time_is_zero (om_deletion_timestamp m)"
  show "post (do { err \<leftarrow> add_update; State_Monad.return (result_or err requeue_now) }) s Q"
    by (intro post_bind post_return post_mono [OF assms(1) [OF z]])
  show "post sync s Q" by (rule assms(2) [OF z])
next
  assume z: "\<not> time_is_zero (om_deletion_timestamp m)"
  { assume c: "k_contains_finalizer K (om_finalizers m) Finalizer"
    show "post (do { err \<leftarrow> delete_owned;
        case err of Some e \<Rightarrow> State_Monad.return (Inl e)
        | None \<Rightarrow> do { err' \<leftarrow> remove_update; State_Monad.return (result_or err' no_result) } }) s Q"
      by (rule post_bind, rule post_mono [OF assms(3) [OF z c]])
        (auto intro!: post_bind post_return elim: post_mono split: option.splits) }
  { assume "\<not> k_contains_finalizer K (om_finalizers m) Finalizer"
    with assms(4) z show "post (State_Monad.return (Inr no_result)) s Q" by (intro post_return) }
qed

text \<open>Reading and decrypting, in the frames.\<close>

lemma span_frame_pipeline:
  "state_io_rel span_frame (fetch_source_ref E namespace src)"
  "state_io_rel span_frame (decrypt_stage E P namespace ref content path)"
  unfolding fetch_source_ref_def decrypt_stage_def Let_def by (intro span_ops)+

lemma quiet_pipeline:
  assumes "env_ok E V"
  shows "state_io_rel (quiet V) (fetch_source_ref E namespace src)"
    and "state_io_rel (quiet V) (decrypt_stage E P namespace ref content path)"
proof -
  note d = env_okD [OF assms]
  have ops: "\<And>k. reads_only V (k_get_git_repository (e_kube E) k)" "\<And>k. reads_only V (k_get_object_source (e_kube E) k)"
    using d(5) by (simp_all add: other_ops_ok_def)
  show "state_io_rel (quiet V) (fetch_source_ref E namespace src)"
    unfolding fetch_source_ref_def Let_def
    by (intro quiet_rules quiet_registry_read quiet_objects d ops)
  show "state_io_rel (quiet V) (decrypt_stage E P namespace ref content path)"
    unfolding decrypt_stage_def by (intro quiet_rules quiet_resolve_age_key quiet_decrypt d)
qed

text \<open>Applying a target Secret with a mutate function that keeps the contract.\<close>

lemma objkey_eq: "k = ObjectKey ns name \<longleftrightarrow> ok_namespace k = ns \<and> ok_name k = name"
  by (cases k) auto

lemma new_secret_simps [simp]:
  "secret_key_of (new_secret name ns) = ObjectKey ns name" "om_resource_version (sec_meta (new_secret name ns)) = []"
  by (simp_all add: new_secret_def secret_key_of_def meta_key_def empty_meta_def)

lemma post_apply:
  assumes "target_mutator mut owner adopt out_ok" and "kube_ok K V"
  shows "post (on_world (k_create_or_update K (new_secret name ns) mut)) s (\<lambda>r t.
    owner_frame V (\<lambda>k. k = ObjectKey ns name) owner adopt (\<lambda>x. secret_key_of x = ObjectKey ns name \<and> out_ok x)
      (world s) (world t)
    \<and> (r = None \<longrightarrow> (\<exists>x. V (world t) (ObjectKey ns name) = Some x \<and> stamped owner x
         \<and> secret_key_of x = ObjectKey ns name \<and> out_ok x)))"
proof (rule postI)
  fix r t assume "run_state (on_world (k_create_or_update K (new_secret name ns) mut)) s = (r, t)"
  then have "run_state (k_create_or_update K (new_secret name ns) mut) (world s) = (r, world t)"
    by (auto simp: run_on_world)
  from target_mutator.apply_effect [OF assms _ this]
  have eff: "owner_frame V (\<lambda>k. k = ObjectKey ns name) owner adopt out_ok (world s) (world t)"
    "r = None \<Longrightarrow> \<exists>x. V (world t) (ObjectKey ns name) = Some x \<and> stamped owner x \<and> out_ok x" by simp_all
  have key: "V w k = Some x \<Longrightarrow> secret_key_of x = k" for w k x
    using assms(2) by (simp add: kube_ok_def stored_ok_def)
  show "owner_frame V (\<lambda>k. k = ObjectKey ns name) owner adopt (\<lambda>x. secret_key_of x = ObjectKey ns name \<and> out_ok x)
      (world s) (world t)
    \<and> (r = None \<longrightarrow> (\<exists>x. V (world t) (ObjectKey ns name) = Some x \<and> stamped owner x
         \<and> secret_key_of x = ObjectKey ns name \<and> out_ok x))"
    using eff key unfolding owner_frame_def by blast
qed

lemma owner_frame_mono:
  assumes "owner_frame V Q owner adopt D w w'" and "\<And>k. Q k \<Longrightarrow> Q' k" and "\<And>x. D x \<Longrightarrow> D' x"
  shows "owner_frame V Q' owner adopt D' w w'"
  using assms unfolding owner_frame_def by blast

lemma owner_frame_cong: "V w1 = V w \<Longrightarrow> V w1' = V w' \<Longrightarrow> owner_frame V Q owner adopt D w w' \<Longrightarrow> owner_frame V Q owner adopt D w1 w1'"
  by (simp add: owner_frame_def)

text \<open>A status update that ends a reconcile.\<close>

lemma post_finish:
  assumes "reads_only V m"
  shows "post (do { err \<leftarrow> on_world m; State_Monad.return (result_or err res) }) s
    (\<lambda>r t. V (world t) = V (world s) \<and> (r = Inr res \<or> (\<exists>e. r = Inl e)))"
  using assms by (intro postI) (auto simp: run_on_world result_or_def reads_only_def split: option.splits)

text \<open>
  What a sync promises: only the target changes, under the adoption check, to Secrets that satisfy
  \<open>D\<close>; and when it reports success, the target is there.
\<close>

definition sync_effect ::
  "'w view \<Rightarrow> objkey \<Rightarrow> string \<Rightarrow> bool \<Rightarrow> (secret \<Rightarrow> bool) \<Rightarrow> 'w \<Rightarrow> reconcile_result \<Rightarrow> 'w \<Rightarrow> bool" where
  "sync_effect V k owner adopt D w r w' \<longleftrightarrow>
     owner_frame V (\<lambda>j. j = k) owner adopt D w w'
     \<and> (r = Inr (requeue_after resyncAfter) \<longrightarrow> (\<exists>x. V w' k = Some x \<and> stamped owner x \<and> D x))
     \<and> ((\<exists>e. r = Inl e) \<or> r = Inr (requeue_after retryAfter) \<or> r = Inr (requeue_after resyncAfter))"

lemma requeue_distinct [simp]:
  "requeue_after retryAfter \<noteq> requeue_after resyncAfter" "requeue_after resyncAfter \<noteq> requeue_after retryAfter"
  "requeue_now \<noteq> requeue_after resyncAfter" "no_result \<noteq> requeue_after resyncAfter"
  by (simp_all add: requeue_after_def requeue_now_def no_result_def interval_defs)

lemma sync_effect_failed:
  "V w' = V w \<Longrightarrow> r = Inr (requeue_after retryAfter) \<or> (\<exists>e. r = Inl e) \<Longrightarrow> sync_effect V k owner adopt D w r w'"
  by (auto simp: sync_effect_def owner_frame_same)

lemma sync_effect_cong:
  "sync_effect V k owner adopt D w r w' \<Longrightarrow> V w1 = V w \<Longrightarrow> sync_effect V k owner adopt D w1 r w'"
  by (simp add: sync_effect_def owner_frame_def)

lemma sync_effect_mono:
  "sync_effect V k owner adopt D w r w' \<Longrightarrow> (\<And>x. D x \<Longrightarrow> D' x) \<Longrightarrow> sync_effect V k owner adopt D' w r w'"
  unfolding sync_effect_def by (elim conjE, intro conjI, erule owner_frame_mono) auto

text \<open>The last steps of a sync, from the call that applies the Secret.\<close>

lemma post_apply_finish:
  fixes s :: "('w, 'x) os_state_scheme"
  assumes "target_mutator mut owner adopt out_ok" and "kube_ok K V"
    and failed: "\<And>e t. post (failed e) t (\<lambda>r u. V (world u) = V (world t) \<and> (r = Inr (requeue_after retryAfter) \<or> (\<exists>a. r = Inl a)))"
    and finish: "\<And>t. post finish t (\<lambda>r u. V (world u) = V (world t) \<and> (r = Inr (requeue_after resyncAfter) \<or> (\<exists>a. r = Inl a)))"
  shows "post (do { applied \<leftarrow> on_world (k_create_or_update K (new_secret name ns) mut);
                    case applied of None \<Rightarrow> finish | Some e \<Rightarrow> failed e }) s
    (\<lambda>r t. sync_effect V (ObjectKey ns name) owner adopt (\<lambda>x. secret_key_of x = ObjectKey ns name \<and> out_ok x) (world s) r (world t))"
proof (rule post_bind, rule post_mono [OF post_apply [OF assms(1,2)]])
  fix a :: "apply_error option" and t :: "('w, 'x) os_state_scheme"
  assume eff: "owner_frame V (\<lambda>k. k = ObjectKey ns name) owner adopt (\<lambda>x. secret_key_of x = ObjectKey ns name \<and> out_ok x)
      (world s) (world t)
    \<and> (a = None \<longrightarrow> (\<exists>x. V (world t) (ObjectKey ns name) = Some x \<and> stamped owner x
         \<and> secret_key_of x = ObjectKey ns name \<and> out_ok x))"
  show "post (case a of None \<Rightarrow> finish | Some e \<Rightarrow> failed e) t
    (\<lambda>r u. sync_effect V (ObjectKey ns name) owner adopt (\<lambda>x. secret_key_of x = ObjectKey ns name \<and> out_ok x) (world s) r (world u))"
  proof (cases a)
    case None
    with eff show ?thesis
      by (simp, intro post_mono [OF finish]) (auto simp: sync_effect_def owner_frame_def)
  next
    case (Some e)
    with eff show ?thesis
      by (simp, intro post_mono [OF failed]) (auto simp: sync_effect_def owner_frame_def)
  qed
qed

text \<open>
  What a whole reconcile promises. \<open>Q\<close> are the keys the resource may write to; \<open>alive\<close> says that it
  is not being deleted.
\<close>

definition reconcile_effect ::
  "'w view \<Rightarrow> (objkey \<Rightarrow> bool) \<Rightarrow> string \<Rightarrow> bool \<Rightarrow> (secret \<Rightarrow> bool) \<Rightarrow> bool \<Rightarrow> 'w \<Rightarrow> reconcile_result \<Rightarrow> 'w \<Rightarrow> bool" where
  "reconcile_effect V Q owner adopt D alive w r w' \<longleftrightarrow>
     owner_frame V Q owner adopt D w w'
     \<and> (r = Inr (requeue_after resyncAfter) \<longrightarrow> (\<exists>k x. Q k \<and> V w' k = Some x \<and> stamped owner x \<and> D x))
     \<and> (alive \<longrightarrow> (\<forall>res. r = Inr res \<longrightarrow> res_requeue res \<or> 0 < res_requeue_after res))"

lemma reconcile_effect_sync:
  assumes "sync_effect V k owner adopt D w r w'" and "Q k"
  shows "reconcile_effect V Q owner adopt D alive w r w'"
proof -
  have frame: "owner_frame V Q owner adopt D w w'"
  proof (rule owner_frame_mono)
    show "owner_frame V (\<lambda>j. j = k) owner adopt D w w'" using assms(1) by (simp add: sync_effect_def)
  qed (use assms(2) in auto)
  show ?thesis
    using frame assms result_kinds_requeue(2,3)
    by (auto simp: reconcile_effect_def sync_effect_def)
qed

lemma reconcile_effect_quiet:
  "V w' = V w \<Longrightarrow> r \<noteq> Inr (requeue_after resyncAfter) \<Longrightarrow> (alive \<Longrightarrow> (\<exists>e. r = Inl e) \<or> r = Inr requeue_now)
    \<Longrightarrow> reconcile_effect V Q owner adopt D alive w r w'"
  by (auto simp: reconcile_effect_def owner_frame_same requeue_now_def)

lemma reconcile_effect_retry:
  "V w' = V w \<Longrightarrow> r = Inr (requeue_after retryAfter) \<or> (\<exists>e. r = Inl e) \<Longrightarrow> reconcile_effect V Q owner adopt D alive w r w'"
  using result_kinds_requeue(2,3) by (auto simp: reconcile_effect_def owner_frame_same)

lemma result_or_cases: "result_or err res = Inr res \<or> (\<exists>e. result_or err res = Inl e)"
  by (simp add: result_or_def split: option.split)

lemma post_finalized_effect:
  assumes quiet: "state_io_rel (quiet V) add_update" "state_io_rel (quiet V) remove_update"
    and del: "\<And>r t. run_state delete_owned s = (r, t) \<Longrightarrow> deletes_only V Q owner s t"
    and sync: "post sync s (\<lambda>r t. reconcile_effect V Q owner adopt D (time_is_zero (om_deletion_timestamp m)) (world s) r (world t))"
  shows "post (finalized K m add_update remove_update delete_owned sync) s
    (\<lambda>r t. reconcile_effect V Q owner adopt D (time_is_zero (om_deletion_timestamp m)) (world s) r (world t))"
proof (rule post_finalized)
  let ?alive = "time_is_zero (om_deletion_timestamp m)"
  let ?E = "\<lambda>r t. reconcile_effect V Q owner adopt D ?alive (world s) r (world t)"
  show "post sync s ?E" by (rule sync)
  show "post add_update s (\<lambda>err t. ?E (result_or err requeue_now) t)"
    by (rule post_frame [OF quiet(1)]) (auto simp: quiet_def result_or_def intro!: reconcile_effect_quiet split: option.splits)
  assume dead: "\<not> ?alive"
  then show "?E (Inr no_result) s" by (intro reconcile_effect_quiet) auto
  have frame: "?E r u" if "deletes_only V Q owner s t" "V (world u) = V (world t)" "r \<noteq> Inr (requeue_after resyncAfter)" for r t u
    using that dead deletes_frame [OF that(1), of adopt D]
    by (auto simp: reconcile_effect_def secrets_frame_def owner_frame_def)
  show "post delete_owned s (\<lambda>err t. case err of Some e \<Rightarrow> ?E (Inl e) t
      | None \<Rightarrow> post remove_update t (\<lambda>err' u. ?E (result_or err' no_result) u))"
  proof (rule postI)
    fix r t assume "run_state delete_owned s = (r, t)"
    note d = del [OF this]
    show "case r of Some e \<Rightarrow> ?E (Inl e) t | None \<Rightarrow> post remove_update t (\<lambda>err' u. ?E (result_or err' no_result) u)"
    proof (cases r)
      case None
      have "post remove_update t (\<lambda>err' u. ?E (result_or err' no_result) u)"
      proof (rule post_frame [OF quiet(2)])
        fix err' :: "api_error option" and u assume "quiet V t u"
        then show "?E (result_or err' no_result) u"
          using frame [OF d, of u "result_or err' no_result"] result_or_cases [of err' no_result]
          by (auto simp: quiet_def)
      qed
      with None show ?thesis by simp
    next
      case (Some e)
      with frame [OF d, of t "Inl e"] show ?thesis by simp
    qed
  qed
qed

text \<open>A deletion that ends without an error has removed what \<open>C\<close> describes.\<close>

lemma post_finalized_cleaned:
  assumes "\<not> time_is_zero (om_deletion_timestamp m)" and "k_contains_finalizer K (om_finalizers m) Finalizer"
    and "state_io_rel (quiet V) remove_update"
    and "\<And>t. run_state delete_owned s = (None, t) \<Longrightarrow> C (V (world t))"
  shows "post (finalized K m add_update remove_update delete_owned sync) s
    (\<lambda>r t. (\<exists>res. r = Inr res) \<longrightarrow> C (V (world t)))"
proof (rule post_finalized)
  show "post delete_owned s (\<lambda>err t. case err of Some e \<Rightarrow> (\<exists>res. Inl e = (Inr res :: reconcile_result)) \<longrightarrow> C (V (world t))
      | None \<Rightarrow> post remove_update t (\<lambda>err' u. (\<exists>res. result_or err' no_result = Inr res) \<longrightarrow> C (V (world u))))"
  proof (rule postI)
    fix r t assume run: "run_state delete_owned s = (r, t)"
    show "case r of Some e \<Rightarrow> (\<exists>res. Inl e = (Inr res :: reconcile_result)) \<longrightarrow> C (V (world t))
      | None \<Rightarrow> post remove_update t (\<lambda>err' u. (\<exists>res. result_or err' no_result = Inr res) \<longrightarrow> C (V (world u)))"
      using assms(4) [of t] run
      by (cases r) (auto intro!: post_frame [OF assms(3)] simp: quiet_def)
  qed
qed (use assms(1,2) in auto)

section \<open>A whole reconcile\<close>

text \<open>A sync that prepares its data first: a failure is reported, otherwise the Secret is applied.\<close>

lemma post_prepared_effect:
  fixes s :: "('w, 'x) op_state_scheme"
  assumes "state_io_rel (quiet V) prep"
    and bad: "\<And>f t. post (bad f) t (\<lambda>r u. V (world u) = V (world t) \<and> (r = Inr (requeue_after retryAfter) \<or> (\<exists>e. r = Inl e)))"
    and good: "\<And>p t. run_state prep s = (Inr p, t)
      \<Longrightarrow> post (good p) t (\<lambda>r u. \<exists>k. Q k \<and> sync_effect V k owner adopt D (world t) r (world u))"
  shows "post (do { prepared \<leftarrow> prep; case prepared of Inl f \<Rightarrow> bad f | Inr p \<Rightarrow> good p }) s
    (\<lambda>r t. reconcile_effect V Q owner adopt D alive (world s) r (world t))"
proof (rule post_bind, rule postI)
  fix a and t :: "('w, 'x) op_state_scheme"
  assume run: "run_state prep s = (a, t)"
  have V: "V (world t) = V (world s)" using frame_run [OF assms(1) run] by (simp add: quiet_def)
  show "post (case a of Inl f \<Rightarrow> bad f | Inr p \<Rightarrow> good p) t (\<lambda>r u. reconcile_effect V Q owner adopt D alive (world s) r (world u))"
  proof (cases a)
    case (Inl f)
    then show ?thesis
      by (auto intro!: post_mono [OF bad] reconcile_effect_retry simp: V)
  next
    case (Inr p)
    show ?thesis
      unfolding Inr sum.case
      by (rule post_mono [OF good [OF run [unfolded Inr]]]) (auto intro!: reconcile_effect_sync elim: sync_effect_cong simp: V)
  qed
qed

text \<open>\<open>Get\<close>, then the rest, inside the tracker.\<close>

lemma post_reconcile:
  fixes s :: "('w, 'x) op_state_scheme"
  assumes got: "run_state get (world s) = (Inr x, w)"
    and body: "\<And>t. same_core (s\<lparr>world := w\<rparr>) t \<Longrightarrow> post (rest x) t (\<lambda>r u. \<forall>v. same_core u v \<longrightarrow> Q r v)"
  shows "post (tracked kind req (do { got \<leftarrow> on_world get; case got of Inl e \<Rightarrow> State_Monad.return (get_failed e) | Inr x \<Rightarrow> rest x })) s Q"
proof (rule post_tracked)
  fix t :: "('w, 'x) op_state_scheme" assume core: "same_core s t"
  then have "same_core (s\<lparr>world := w\<rparr>) (t\<lparr>world := w\<rparr>)" "world t = world s" by (simp_all add: same_core_def)
  then show "post (do { got \<leftarrow> on_world get; case got of Inl e \<Rightarrow> State_Monad.return (get_failed e) | Inr x \<Rightarrow> rest x }) t
      (\<lambda>r u. \<forall>v. same_core u v \<longrightarrow> Q r v)"
    by (intro post_bind post_mono [OF post_world]) (use got body in auto)
qed

lemma post_reconcile_effect:
  fixes s :: "('w, 'x) op_state_scheme"
  assumes "reads_only V get" and got: "run_state get (world s) = (Inr x, w)"
    and "reads_only V add" "reads_only V remove"
    and del: "\<And>t r u. run_state del t = (r, u) \<Longrightarrow> deletes_only V Q owner t u"
    and sync: "\<And>t. same_core (s\<lparr>world := w\<rparr>) t \<Longrightarrow> post sync t
      (\<lambda>r u. reconcile_effect V Q owner adopt D (time_is_zero (om_deletion_timestamp m)) (world t) r (world u))"
    and rest: "rest x = finalized K m (on_world add) (on_world remove) del sync"
  shows "post (tracked kind req (do { got \<leftarrow> on_world get; case got of Inl e \<Rightarrow> State_Monad.return (get_failed e) | Inr x \<Rightarrow> rest x })) s
    (\<lambda>r t. reconcile_effect V Q owner adopt D (time_is_zero (om_deletion_timestamp m)) (world s) r (world t))"
proof (rule post_reconcile [OF got])
  fix t :: "('w, 'x) op_state_scheme" assume core: "same_core (s\<lparr>world := w\<rparr>) t"
  have V: "V (world t) = V (world s)"
    using assms(1) got core by (auto simp: same_core_def reads_only_def dest: spec [of _ "world s"])
  let ?alive = "time_is_zero (om_deletion_timestamp m)"
  have "post (finalized K m (on_world add) (on_world remove) del sync) t
      (\<lambda>r u. reconcile_effect V Q owner adopt D ?alive (world t) r (world u))"
    by (rule post_finalized_effect [OF quiet_on_world quiet_on_world del sync [OF core]]) (rule assms)+
  then show "post (rest x) t (\<lambda>r u. \<forall>v. same_core u v \<longrightarrow> reconcile_effect V Q owner adopt D ?alive (world s) r (world v))"
    unfolding rest by (rule post_mono) (simp add: same_core_def reconcile_effect_def owner_frame_def V)
qed

lemma post_reconcile_cleaned:
  fixes s :: "('w, 'x) op_state_scheme"
  assumes got: "run_state get (world s) = (Inr x, w)" and "kube_ok K V" and "reads_only V remove"
    and "\<not> time_is_zero (om_deletion_timestamp m)" and "Finalizer \<in> set (om_finalizers m)"
    and del: "\<And>(t :: ('w, 'x) op_state_scheme) u. run_state del t = (None, u) \<Longrightarrow> C (V (world u))"
    and rest: "rest x = finalized K m add (on_world remove) del sync"
  shows "post (tracked kind req (do { got \<leftarrow> on_world get; case got of Inl e \<Rightarrow> State_Monad.return (get_failed e) | Inr x \<Rightarrow> rest x })) s
    (\<lambda>r t. (\<exists>res. r = Inr res) \<longrightarrow> C (V (world t)))"
proof (rule post_reconcile [OF got])
  have fin: "k_contains_finalizer K (om_finalizers m) Finalizer"
    using assms(2,5) by (simp add: kube_ok_def finalizers_ok_def)
  fix t :: "('w, 'x) op_state_scheme"
  have "post (finalized K m add (on_world remove) del sync) t (\<lambda>r t. (\<exists>res. r = Inr res) \<longrightarrow> C (V (world t)))"
    using post_finalized_cleaned [where C = C, OF assms(4) fin quiet_on_world [OF assms(3)]] del by blast
  then show "post (rest x) t (\<lambda>r u. \<forall>v. same_core u v \<longrightarrow> (\<exists>res. r = Inr res) \<longrightarrow> C (V (world v)))"
    unfolding rest by (rule post_mono) (simp add: same_core_def)
qed

lemma tracked_result:
  "fst (run_state (tracked kind req m) s)
     = fst (run_state m (snd (run_state (track_reconcile kind (ok_namespace req) (ok_name req)) s)))"
  by (simp add: tracked_def split: prod.split)

section \<open>What a plaintext comes from\<close>

text \<open>
  \<open>plaintext\<close> is what SOPS gives for \<open>content\<close> under a key that the policy resolves for the
  reference, both run one after the other from a state that differs from \<open>s\<close> in events only.
\<close>

definition decrypted_from ::
  "'w operator_env \<Rightarrow> credential_policy \<Rightarrow> string \<Rightarrow> secret_ref \<Rightarrow> string \<Rightarrow> 'w op_state \<Rightarrow> bytes \<Rightarrow> bytes \<Rightarrow> bool" where
  "decrypted_from E P namespace ref path s content plaintext \<longleftrightarrow>
     (\<exists>t u key orig. same_core s t
        \<and> run_state (resolve_age_key P (e_kube E) namespace ref) t = (Inr (key, orig), u)
        \<and> content \<noteq> [] \<and> key \<noteq> []
        \<and> fst (run_state (e_sops E ((penv u)(age_var \<mapsto> key)) content (format_from_path path)) (world u)) = Inr plaintext)"

lemma decrypt_stage_from:
  fixes s :: "'w op_state"
  assumes "run_state (decrypt_stage E P namespace ref content path) t = (Inr (plaintext, orig), u)" and "same_core s t"
  shows "decrypted_from E P namespace ref path s content plaintext"
proof -
  obtain k t1 where k: "run_state (resolve_age_key P (e_kube E) namespace ref) t = (k, t1)" by fastforce
  show ?thesis
  proof (cases k)
    case (Inl e)
    with assms(1) k show ?thesis by (simp add: decrypt_stage_def)
  next
    case (Inr ko)
    obtain key orig' where ko: "ko = (key, orig')" by (cases ko)
    obtain r t2 where r: "run_state (decrypt_age_body (e_sops E) content path key) t1 = (r, t2)" by fastforce
    then have "r = Inr plaintext"
      using assms(1) k Inr ko by (auto simp: decrypt_stage_def decrypt_age_def split: sum.splits prod.splits)
    moreover obtain w where "run_state (decrypt_age_body (e_sops E) content path key) t1 =
     ((if content = [] then Inl ContentEmpty
       else if key = [] then Inl AgeKeyEmpty
       else if CHR 0x00 \<in> set key then Inl (SetEnvFailed ''setenv: invalid argument'')
       else map_sum SopsFailed id
         (fst (run_state (e_sops E ((penv t1)(age_var \<mapsto> key)) content (format_from_path path)) (world t1)))),
      t1\<lparr>world := w\<rparr>)"
      using run_decrypt_body [of "e_sops E" content path key t1] by blast
    ultimately have "content \<noteq> []" "key \<noteq> []"
      "map_sum SopsFailed id (fst (run_state (e_sops E ((penv t1)(age_var \<mapsto> key)) content (format_from_path path)) (world t1)))
        = Inr plaintext"
      using r by (auto split: if_splits)
    then show ?thesis
      using k Inr ko assms(2) unfolding decrypted_from_def
      by (cases "fst (run_state (e_sops E ((penv t1)(age_var \<mapsto> key)) content (format_from_path path)) (world t1))") auto
  qed
qed

lemma post_decrypt_from:
  fixes s :: "'w op_state"
  assumes "same_core s t"
  shows "post (decrypt_stage E P namespace ref content path) t
    (\<lambda>d _. \<forall>plaintext orig. d = Inr (plaintext, orig) \<longrightarrow> decrypted_from E P namespace ref path s content plaintext)"
  using decrypt_stage_from [OF _ assms] by (intro postI) blast

section \<open>What a mark leaves\<close>

text \<open>
  The labels and annotations of a manifest reach the target unless the operator's own override
  them. (A Go map has each key once, so reversing the entries makes no difference.)
\<close>

definition carries :: "string gomap \<Rightarrow> string gomap \<Rightarrow> (string \<times> string) list \<Rightarrow> object_meta \<Rightarrow> bool" where
  "carries labels annotations marks m \<longleftrightarrow>
     (\<forall>k \<in> fst ` set (gm_entries labels) - {ManagedByLabel}. gm_lookup (om_labels m) k = map_of (rev (gm_entries labels)) k)
     \<and> (\<forall>k \<in> fst ` set (gm_entries annotations) - fst ` set marks.
          gm_lookup (om_annotations m) k = map_of (rev (gm_entries annotations)) k)"

lemma carries_cong:
  "carries labels annotations marks m \<Longrightarrow> gm_lookup (om_labels m) = gm_lookup (om_labels n)
    \<Longrightarrow> gm_lookup (om_annotations m) = gm_lookup (om_annotations n) \<Longrightarrow> carries labels annotations marks n"
  by (simp add: carries_def)

lemma mark_secret_result:
  assumes "distinct (map fst marks)"
  shows "\<exists>m. mark_secret labels annotations marks s = Some (s\<lparr>sec_meta := m\<rparr>)
    \<and> gm_lookup (om_labels m) ManagedByLabel = Some ManagedByValue
    \<and> (\<forall>(k, v) \<in> set marks. gm_lookup (om_annotations m) k = Some v)
    \<and> carries labels annotations marks m"
proof -
  obtain ls as where m: "mark_secret labels annotations marks s
      = Some (s\<lparr>sec_meta := (sec_meta s)\<lparr>om_labels := ls, om_annotations := as\<rparr>\<rparr>)"
    and ls: "gm_lookup ls = (gm_lookup (om_labels (sec_meta s)) ++ map_of (rev (gm_entries labels)))(ManagedByLabel \<mapsto> ManagedByValue)"
    and as: "gm_lookup as = gm_lookup (om_annotations (sec_meta s)) ++ map_of (rev (gm_entries annotations)) ++ map_of (rev marks)"
    using mark_secret_Some by blast
  have dom: "k \<in> dom (map_of (rev xs)) \<longleftrightarrow> k \<in> fst ` set xs" for k and xs :: "(string \<times> string) list"
    by (simp add: dom_map_of_conv_image_fst)
  have "map_of (rev marks) k = Some v" if "(k, v) \<in> set marks" for k v
    using that assms by (intro map_of_is_SomeI) (simp_all flip: rev_map)
  then have marks: "\<forall>(k, v) \<in> set marks. gm_lookup as k = Some v"
    by (auto simp: as map_add_Some_iff)
  have "gm_lookup ls k = map_of (rev (gm_entries labels)) k"
    if "k \<in> fst ` set (gm_entries labels)" "k \<noteq> ManagedByLabel" for k
    using that dom [of k "gm_entries labels"] unfolding ls by (auto simp: map_add_dom_app_simps(1))
  moreover have "gm_lookup as k = map_of (rev (gm_entries annotations)) k"
    if "k \<in> fst ` set (gm_entries annotations)" "k \<notin> fst ` set marks" for k
  proof -
    have "k \<notin> dom (map_of (rev marks))" "k \<in> dom (map_of (rev (gm_entries annotations)))" using that dom by blast+
    then show ?thesis unfolding as by (simp add: map_add_dom_app_simps(1,3) del: map_of_eq_None_iff)
  qed
  ultimately have "carries labels annotations marks ((sec_meta s)\<lparr>om_labels := ls, om_annotations := as\<rparr>)"
    by (simp add: carries_def)
  with m marks show ?thesis by (intro exI [of _ "(sec_meta s)\<lparr>om_labels := ls, om_annotations := as\<rparr>"]) (simp add: ls)
qed

end
