(* ===== verification/Samples.thy ===== *)
theory Samples
  imports Pipeline
begin

text \<open>
  What the witnesses of the consumer controllers share: a cluster in memory with an age key, a
  \<open>GitRepository\<close> that is ready, and its clone on disk.
\<close>

definition sample_age_secret :: secret where
  "sample_age_secret = stored_as (ObjectKey ''n'' ''age'') ((new_secret ''age'' ''n'')\<lparr>sec_data := Some [(''k'', ''AGE'')]\<rparr>)"

definition sample_owned :: "string \<Rightarrow> objkey \<Rightarrow> secret" where
  "sample_owned owner k = stored_as k ((new_secret [] [])\<lparr>sec_meta := empty_meta\<lparr>
     om_labels := Some [(ManagedByLabel, ManagedByValue)], om_annotations := Some [(OwnerAnnotation, owner)]\<rparr>\<rparr>)"

definition ready_git :: v1_git_repository where
  "ready_git = git_status (\<lambda>st. st\<lparr>v1_grt_conditions :=
     [\<lparr>c_type = ''SourceReady'', c_status = ''True'', c_reason = ''Ready'', c_message = []\<rparr>]\<rparr>) (sample_git [] None)"

definition source_cluster :: "secret list \<Rightarrow> mem_cluster" where
  "source_cluster secrets = empty_cluster\<lparr>
     cl_secrets := map (\<lambda>x. (secret_key_of x, x)) (sample_age_secret # secrets),
     cl_gits := [(ObjectKey ''n'' ''g'', ready_git)]\<rparr>"

definition sample_state :: "mem_cluster \<Rightarrow> mem_cluster op_state" where
  "sample_state cl = (cluster_start cl [([''c''], Dir), ([''c'', ''a''], Dir), ([''c'', ''a'', ''s.yaml''], File ''user: bob'')])
     \<lparr>entries := [ObjectKey ''n'' ''g'' \<mapsto> clone_entry ''u'' ''/c/a'']\<rparr>"

lemma sample_state_world [simp]: "world (sample_state cl) = cl"
  by (simp add: sample_state_def)

definition sample_meta :: "int option \<Rightarrow> object_meta" where
  "sample_meta deleted = empty_meta\<lparr>om_name := ''s'', om_namespace := ''n'', om_uid := ''uid'',
     om_deletion_timestamp := deleted, om_finalizers := [Finalizer]\<rparr>"

lemma sample_meta_simps [simp]:
  "om_name (sample_meta d) = ''s''" "om_namespace (sample_meta d) = ''n''" "om_deletion_timestamp (sample_meta d) = d"
  "om_finalizers (sample_meta d) = [Finalizer]"
  by (simp_all add: sample_meta_def)

lemma age_secret_stored:
  "cl_secrets w = map (\<lambda>x. (secret_key_of x, x)) (sample_age_secret # xs)
    \<Longrightarrow> cl_view w (ObjectKey ''n'' ''age'') = Some sample_age_secret"
  by (simp add: sample_age_secret_def stored_as_def cl_view_def new_secret_def secret_key_of_def meta_key_def)

section \<open>Success in memory\<close>

lemma mem_apply_new:
  fixes t :: "(mem_cluster, 'x) op_state_scheme"
  assumes "target_mutator mut owner adopt out_ok" and "cl_view (world t) (ObjectKey ns name) = None"
  shows "post (on_world (k_create_or_update mem_kube (new_secret name ns) mut)) t (\<lambda>r _. r = None)"
proof -
  have "adoption_check owner adopt (new_secret name ns) = None" by (simp add: adoption_check_def)
  from target_mutator.mut_accepts [OF assms(1) this]
  obtain out where "mut (new_secret name ns) = Inr out" by blast
  with assms(2) show ?thesis
    by (intro postI) (auto simp: run_on_world mem_kube_def mem_create_or_update_def Let_def)
qed

text \<open>A reconcile of a resource that is alive and has its finalizer is its sync.\<close>

lemma mem_alive_result:
  assumes "run_state get (world s) = (Inr x, world s)"
    and "om_deletion_timestamp m = None" and "Finalizer \<in> set (om_finalizers m)"
    and "rest x = finalized mem_kube m a b c sync"
  shows "fst (run_state (tracked kind req (do {
      got \<leftarrow> on_world get; case got of Inl e \<Rightarrow> State_Monad.return (get_failed e) | Inr x \<Rightarrow> rest x })) s)
    = fst (run_state sync (snd (run_state (track_reconcile kind (ok_namespace req) (ok_name req)) s)))"
proof -
  define t where "t = snd (run_state (track_reconcile kind (ok_namespace req) (ok_name req)) s)"
  have "same_core s t" unfolding t_def by (rule frame_run [OF core_tracker(1) surjective_pairing])
  then have "world t = world s" by (simp add: same_core_def)
  then have here: "world t = world s" "t\<lparr>world := world s\<rparr> = t" by simp_all
  have "finalized mem_kube m a b c sync = sync"
    using assms(2,3) by (simp add: finalized_def time_is_zero_def mem_kube_def)
  then show ?thesis
    unfolding tracked_result t_def [symmetric] by (simp add: run_on_world here assms(1,4))
qed

end
