(* ===== verification/SopsSecretCtl.thy ===== *)
theory SopsSecretCtl
  imports Samples
begin

text \<open>
  \<open>internal/controller/sopssecret_controller.go\<close>: the reconciler of a \<open>SopsSecret\<close> (mapping mode). It
  reads an encrypted flat file from its source, selects keys from it and writes them to the target
  Secret.
\<close>

section \<open>The resource\<close>

definition SopsSecretGitRefIndex :: string where "SopsSecretGitRefIndex = ''.spec.source.sourceRef.git.name''"
definition SopsSecretObjectRefIndex :: string where "SopsSecretObjectRefIndex = ''.spec.source.sourceRef.object.name''"

definition target_name :: "v2_sops_secret \<Rightarrow> string" where
  "target_name ss =
     (if v2_mt_name (v2_sss_target (v2_ss_spec ss)) \<noteq> [] then v2_mt_name (v2_sss_target (v2_ss_spec ss))
      else om_name (v2_ss_meta ss))"

definition target_namespace :: "v2_sops_secret \<Rightarrow> string" where
  "target_namespace ss =
     (if v2_mt_namespace (v2_sss_target (v2_ss_spec ss)) \<noteq> [] then v2_mt_namespace (v2_sss_target (v2_ss_spec ss))
      else om_namespace (v2_ss_meta ss))"

definition sops_owner :: "v2_sops_secret \<Rightarrow> string" where
  "sops_owner ss = owner_key ''SopsSecret'' (v2_ss_meta ss)"

definition convert_spec_data_mappings :: "v2_data_mapping list option \<Rightarrow> data_mapping list" where
  "convert_spec_data_mappings ms =
     (case ms of
        None \<Rightarrow> []
      | Some xs \<Rightarrow> map (\<lambda>m. \<lparr>dm_key = v2_dm_key m, dm_from = v2_dm_from m\<rparr>) xs)"

definition sops_condition ::
  "'w kube \<Rightarrow> string \<Rightarrow> string \<Rightarrow> string \<Rightarrow> string \<Rightarrow> v2_sops_secret \<Rightarrow> v2_sops_secret" where
  "sops_condition K type status reason msg ss =
     ss\<lparr>v2_ss_status := (v2_ss_status ss)\<lparr>v2_sst_conditions :=
       set_condition K (v2_sst_conditions (v2_ss_status ss)) type status reason msg\<rparr>\<rparr>"

lemma sops_condition_simps [simp]:
  "v2_ss_meta (sops_condition K ty st re ms ss) = v2_ss_meta ss"
  "v2_ss_spec (sops_condition K ty st re ms ss) = v2_ss_spec ss"
  "target_name (sops_condition K ty st re ms ss) = target_name ss"
  "target_namespace (sops_condition K ty st re ms ss) = target_namespace ss"
  "sops_owner (sops_condition K ty st re ms ss) = sops_owner ss"
  by (simp_all add: sops_condition_def target_name_def target_namespace_def sops_owner_def)

section \<open>Operations\<close>

definition fetch_source ::
  "'w operator_env \<Rightarrow> v2_sops_secret \<Rightarrow> ('w, 'x, source_fetch_error + bytes \<times> string) op_prog" where
  "fetch_source E ss = fetch_source_ref E (om_namespace (v2_ss_meta ss)) (v2_sss_source (v2_ss_spec ss))"

text \<open>The mutate function of \<open>applyTargetSecret\<close>.\<close>

definition apply_target_mutate :: "v2_sops_secret \<Rightarrow> bytes gomap \<Rightarrow> string \<Rightarrow> string \<Rightarrow> mutate" where
  "apply_target_mutate ss data hash revision secret =
     (let target = v2_sss_target (v2_ss_spec ss) in
      case adoption_check (sops_owner ss) (v2_mt_adopt target) secret of
        Some e \<Rightarrow> Inl e
      | None \<Rightarrow>
          (case mark_secret None None
               [(OwnerAnnotation, sops_owner ss), (OwnerUIDAnnotation, om_uid (v2_ss_meta ss)),
                (ContentHashAnnotation, hash), (SourceCommitAnnotation, revision)] secret of
             None \<Rightarrow> Inl NilMapPanic
           | Some s \<Rightarrow>
               Inr (s\<lparr>sec_type := (if v2_mt_type target \<noteq> [] then v2_mt_type target else type_or_opaque (sec_type s)),
                      sec_data := data\<rparr>)))"

definition apply_target_secret ::
  "'w kube \<Rightarrow> v2_sops_secret \<Rightarrow> bytes gomap \<Rightarrow> string \<Rightarrow> string \<Rightarrow> ('w, 'x, apply_error option) op_prog" where
  "apply_target_secret K ss data hash revision =
     on_world (k_create_or_update K (new_secret (target_name ss) (target_namespace ss))
       (apply_target_mutate ss data hash revision))"

definition delete_owned_secret ::
  "'w kube \<Rightarrow> v2_sops_secret \<Rightarrow> string \<Rightarrow> string \<Rightarrow> ('w, 'x, api_error option) op_prog" where
  "delete_owned_secret K ss name namespace = delete_if_owned K name namespace (sops_owner ss)"

definition sops_update_status ::
  "'w kube \<Rightarrow> v2_sops_secret \<Rightarrow> ctrl_result \<Rightarrow> ('w, 'x, reconcile_result) op_prog" where
  "sops_update_status K ss res = do {
     err \<leftarrow> on_world (k_update_sops_secret_status K ss);
     State_Monad.return (result_or err res)
   }"

definition fail_status ::
  "'w kube \<Rightarrow> v2_sops_secret \<Rightarrow> string \<Rightarrow> string \<Rightarrow> string \<Rightarrow> ('w, 'x, reconcile_result) op_prog" where
  "fail_status K ss type reason msg =
     sops_update_status K (sops_condition K type condition_false reason msg ss) (requeue_after retryAfter)"

section \<open>The reconciler\<close>

text \<open>
  From \<open>SetSourceRef\<close> to the mapped data. A failure comes with its stage, the condition it belongs
  to, the resource with the conditions set so far, and its reason and message.
\<close>

type_synonym sops_prepared = "(string \<times> string \<times> v2_sops_secret \<times> failure) + v2_sops_secret \<times> bytes gomap \<times> string"

definition sops_decrypt_step ::
  "'w operator_env \<Rightarrow> credential_policy \<Rightarrow> v2_sops_secret \<Rightarrow> bytes \<Rightarrow> string \<Rightarrow> ('w, 'x, sops_prepared) op_prog" where
  "sops_decrypt_step E P ss content revision = do {
     let K = e_kube E;
     set_commit revision;
     let ss1 = sops_condition K ConditionSourceReady condition_true ''Ready'' ''source is ready'' ss;
     track_stage StageDecrypt;
     decrypted \<leftarrow> decrypt_stage E P (om_namespace (v2_ss_meta ss)) (key_ref_v2 (v2_sss_decryption (v2_ss_spec ss)))
       content (v2_src_path (v2_sss_source (v2_ss_spec ss)));
     State_Monad.return (case decrypted of
         Inl failure \<Rightarrow> Inl (StageDecrypt, ConditionDecrypted, ss1, failure)
       | Inr (plaintext, keyOrigin) \<Rightarrow>
           (case mapping_stage (e_yaml E) plaintext (convert_spec_data_mappings (v2_sss_data (v2_ss_spec ss))) of
              Inl failure \<Rightarrow> Inl (StageDecrypt, ConditionDecrypted, ss1, failure)
            | Inr data \<Rightarrow>
                Inr (sops_condition K ConditionDecrypted condition_true ''Decrypted''
                       (''decryption + mapping ok, '' @ describe_key_origin keyOrigin) ss1,
                     data, revision)))
   }"

definition sops_prepare ::
  "'w operator_env \<Rightarrow> credential_policy \<Rightarrow> v2_sops_secret \<Rightarrow> ('w, 'x, sops_prepared) op_prog" where
  "sops_prepare E P ss = do {
     let ref = v2_src_source_ref (v2_sss_source (v2_ss_spec ss));
     set_source_ref (v2_skf_kind ref) (v2_skf_name ref);
     track_stage StageFetch;
     fetched \<leftarrow> fetch_source E ss;
     case fetched of
       Inl e \<Rightarrow> State_Monad.return (Inl (StageFetch, ConditionSourceReady, ss, sf_reason e, sf_msg e))
     | Inr (content, revision) \<Rightarrow> sops_decrypt_step E P ss content revision
   }"

text \<open>From the hash to the end.\<close>

definition sops_apply ::
  "'w operator_env \<Rightarrow> v2_sops_secret \<Rightarrow> bytes gomap \<Rightarrow> string \<Rightarrow> ('w, 'x, reconcile_result) op_prog" where
  "sops_apply E ss data revision = do {
     let K = e_kube E;
     let hash = hash_secret_data data;
     set_content_hash hash;
     track_stage StageApply;
     applied \<leftarrow> apply_target_secret K ss data hash revision;
     case applied of
       Some e \<Rightarrow> do {
         track_fail StageApply (apply_error_text e);
         fail_status K ss ConditionApplied ''ApplyFailed'' (apply_error_text e)
       }
     | None \<Rightarrow>
         (let ss1 = sops_condition K ConditionApplied condition_true ''Applied''
                (''applied '' @ format_int (int (length (gm_entries data))) @ '' keys'') ss in
          sops_update_status K
            (ss1\<lparr>v2_ss_status := (v2_ss_status ss1)\<lparr>v2_sst_last_applied_hash := hash,
               v2_sst_last_synced_commit := revision,
               v2_sst_last_token := gm_get (om_annotations (v2_ss_meta ss1)) ReconcileRequestAnnotation,
               v2_sst_observed_generation := om_generation (v2_ss_meta ss1)\<rparr>\<rparr>)
            (requeue_after resyncAfter))
   }"

definition sops_sync ::
  "'w operator_env \<Rightarrow> credential_policy \<Rightarrow> v2_sops_secret \<Rightarrow> ('w, 'x, reconcile_result) op_prog" where
  "sops_sync E P ss = do {
     prepared \<leftarrow> sops_prepare E P ss;
     case prepared of
       Inl (stg, type, ss', reason, msg) \<Rightarrow> do {
         track_fail stg msg;
         fail_status (e_kube E) ss' type reason msg
       }
     | Inr (ss', data, revision) \<Rightarrow> sops_apply E ss' data revision
   }"

definition sops_reconcile_body ::
  "'w operator_env \<Rightarrow> credential_policy \<Rightarrow> objkey \<Rightarrow> ('w, 'x, reconcile_result) op_prog" where
  "sops_reconcile_body E P req = do {
     let K = e_kube E;
     got \<leftarrow> on_world (k_get_sops_secret K req);
     case got of
       Inl e \<Rightarrow> State_Monad.return (get_failed e)
     | Inr ss \<Rightarrow>
         finalized K (v2_ss_meta ss)
           (on_world (k_update_sops_secret K (ss\<lparr>v2_ss_meta := add_finalizer_meta K (v2_ss_meta ss)\<rparr>)))
           (on_world (k_update_sops_secret K (ss\<lparr>v2_ss_meta := remove_finalizer_meta K (v2_ss_meta ss)\<rparr>)))
           (delete_owned_secret K ss (target_name ss) (target_namespace ss))
           (sops_sync E P ss)
   }"

definition sops_reconcile ::
  "'w operator_env \<Rightarrow> credential_policy \<Rightarrow> objkey \<Rightarrow> ('w, 'x, reconcile_result) op_prog" where
  "sops_reconcile E P req = tracked ''SopsSecret'' req (sops_reconcile_body E P req)"

section \<open>The watches on sources\<close>

definition sops_git_index :: "v2_sops_secret \<Rightarrow> string list" where
  "sops_git_index s =
     (let ref = v2_src_source_ref (v2_sss_source (v2_ss_spec s)) in
      if v2_skf_kind ref \<noteq> SourceKindGitRepository then [] else [v2_skf_name ref])"

definition sops_object_index :: "v2_sops_secret \<Rightarrow> string list" where
  "sops_object_index s =
     (let ref = v2_src_source_ref (v2_sss_source (v2_ss_spec s)) in
      if v2_skf_kind ref \<noteq> SourceKindObjectSource then [] else [v2_skf_name ref])"

definition map_source_to_sops_secrets :: "'w kube \<Rightarrow> objkey \<Rightarrow> string \<Rightarrow> ('w, objkey list) state" where
  "map_source_to_sops_secrets K obj index = do {
     listed \<leftarrow> k_list_sops_secrets K (ok_namespace obj) (index, ok_name obj);
     State_Monad.return (case listed of Inl _ \<Rightarrow> [] | Inr ss \<Rightarrow> map (\<lambda>s. meta_key (v2_ss_meta s)) ss)
   }"

definition map_git_repo_to_sops_secrets :: "'w kube \<Rightarrow> objkey \<Rightarrow> ('w, objkey list) state" where
  "map_git_repo_to_sops_secrets K obj = map_source_to_sops_secrets K obj SopsSecretGitRefIndex"

definition map_object_source_to_sops_secrets :: "'w kube \<Rightarrow> objkey \<Rightarrow> ('w, objkey list) state" where
  "map_object_source_to_sops_secrets K obj = map_source_to_sops_secrets K obj SopsSecretObjectRefIndex"

section \<open>The mutate function keeps the contract\<close>

definition sops_out_ok :: "v2_sops_secret \<Rightarrow> bytes gomap \<Rightarrow> string \<Rightarrow> string \<Rightarrow> secret \<Rightarrow> bool" where
  "sops_out_ok ss data hash revision x \<longleftrightarrow>
     gm_lookup (sec_data x) = gm_lookup data
     \<and> gm_lookup (om_annotations (sec_meta x)) ContentHashAnnotation = Some hash
     \<and> gm_lookup (om_annotations (sec_meta x)) SourceCommitAnnotation = Some revision
     \<and> gm_lookup (om_annotations (sec_meta x)) OwnerUIDAnnotation = Some (om_uid (v2_ss_meta ss))
     \<and> sec_type x \<noteq> []
     \<and> (v2_mt_type (v2_sss_target (v2_ss_spec ss)) \<noteq> [] \<longrightarrow> sec_type x = v2_mt_type (v2_sss_target (v2_ss_spec ss)))"

interpretation sops_mut: target_mutator
  "apply_target_mutate ss data hash revision" "sops_owner ss" "v2_mt_adopt (v2_sss_target (v2_ss_spec ss))"
  "sops_out_ok ss data hash revision"
  for ss data hash revision
proof
  fix base e
  show "adoption_check (sops_owner ss) (v2_mt_adopt (v2_sss_target (v2_ss_spec ss))) base = Some e
    \<Longrightarrow> apply_target_mutate ss data hash revision base = Inl e"
    by (simp add: apply_target_mutate_def)
next
  fix base
  let ?marks = "[(OwnerAnnotation, sops_owner ss), (OwnerUIDAnnotation, om_uid (v2_ss_meta ss)),
                (ContentHashAnnotation, hash), (SourceCommitAnnotation, revision)]"
  assume ok: "adoption_check (sops_owner ss) (v2_mt_adopt (v2_sss_target (v2_ss_spec ss))) base = None"
  have "distinct (map fst ?marks)" by simp
  from mark_secret_result [OF this, of None None base] ok
  show "\<exists>out. apply_target_mutate ss data hash revision base = Inr out \<and> stamped (sops_owner ss) out
      \<and> sops_out_ok ss data hash revision out"
    by (auto simp: apply_target_mutate_def stamped_def sops_out_ok_def type_or_opaque_def Let_def)
next
  fix a b
  show "sops_out_ok ss data hash revision a \<Longrightarrow> same_content a b \<Longrightarrow> sops_out_ok ss data hash revision b"
    by (auto simp: sops_out_ok_def same_content_def)
qed

text \<open>Applying again to what was stored leaves it as it is.\<close>

lemma sops_mutate_again:
  assumes run: "apply_target_mutate ss data hash revision base = Inr out" and same: "same_content out s"
  shows "\<exists>out'. apply_target_mutate ss data hash revision s = Inr out' \<and> same_content out' s"
proof -
  let ?marks = "[(OwnerAnnotation, sops_owner ss), (OwnerUIDAnnotation, om_uid (v2_ss_meta ss)),
                (ContentHashAnnotation, hash), (SourceCommitAnnotation, revision)]"
  have ok: "adoption_check (sops_owner ss) (v2_mt_adopt (v2_sss_target (v2_ss_spec ss))) s = None"
    by (rule sops_mut.own_output [OF assms])
  from run obtain m where m: "mark_secret None None ?marks base = Some m" "sec_meta out = sec_meta m"
    "sec_data out = data"
    "sec_type out = (if v2_mt_type (v2_sss_target (v2_ss_spec ss)) \<noteq> [] then v2_mt_type (v2_sss_target (v2_ss_spec ss))
       else type_or_opaque (sec_type m))"
    by (auto simp: apply_target_mutate_def Let_def split: option.splits)
  from same have ty: "sec_type s = sec_type out" by (simp add: same_content_def)
  from mutate_again [OF m(1,2) same] obtain m' where m': "mark_secret None None ?marks s = Some m'" "sec_type m' = sec_type s"
    "\<And>x. sec_meta x = sec_meta m' \<Longrightarrow> gm_lookup (sec_data x) = gm_lookup (sec_data out) \<Longrightarrow> sec_type x = sec_type out
      \<Longrightarrow> same_content x s" by blast
  show ?thesis
    using ok m'(1,2) m(3,4) ty
    by (auto simp: apply_target_mutate_def Let_def type_or_opaque_def intro!: m'(3))
qed

section \<open>What a reconcile touches\<close>

lemmas sops_ctl_defs = sops_reconcile_body_def sops_sync_def sops_prepare_def sops_decrypt_step_def sops_apply_def apply_target_secret_def
  fail_status_def sops_update_status_def fetch_source_def delete_owned_secret_def Let_def

lemma span_frame_sops: "state_io_rel span_frame (sops_reconcile_body E P req)"
  unfolding sops_ctl_defs by (intro span_ops span_frame_pipeline frame_finalized frame_rel_span)

lemma quiet_sops_prepare: "env_ok E V \<Longrightarrow> state_io_rel (quiet V) (sops_prepare E P ss)"
  unfolding sops_prepare_def sops_decrypt_step_def fetch_source_def Let_def
  by (intro quiet_rules quiet_tracker quiet_pipeline)

lemma post_sops_status:
  assumes "env_ok E V"
  shows "post (sops_update_status (e_kube E) ss res) s
      (\<lambda>r t. V (world t) = V (world s) \<and> (r = Inr res \<or> (\<exists>e. r = Inl e)))"
    and "post (do { track_fail stg msg; fail_status (e_kube E) ss ty re ms }) s
      (\<lambda>r t. V (world t) = V (world s) \<and> (r = Inr (requeue_after retryAfter) \<or> (\<exists>e. r = Inl e)))"
proof -
  have "\<And>x. reads_only V (k_update_sops_secret_status (e_kube E) x)"
    using env_okD(5) [OF assms] by (simp add: other_ops_ok_def)
  then show upd: "post (sops_update_status (e_kube E) ss res) s
      (\<lambda>r t. V (world t) = V (world s) \<and> (r = Inr res \<or> (\<exists>e. r = Inl e)))" for ss res s
    unfolding sops_update_status_def by (intro post_finish)
  show "post (do { track_fail stg msg; fail_status (e_kube E) ss ty re ms }) s
      (\<lambda>r t. V (world t) = V (world s) \<and> (r = Inr (requeue_after retryAfter) \<or> (\<exists>e. r = Inl e)))"
    unfolding fail_status_def
    by (rule post_core [OF core_tracker(4)], rule post_mono [OF upd]) (auto simp: same_core_def)
qed

section \<open>The effect of a sync\<close>

lemma sops_apply_effect:
  assumes "env_ok E V"
  shows "post (sops_apply E ss data revision) s (\<lambda>r t.
    sync_effect V (ObjectKey (target_namespace ss) (target_name ss)) (sops_owner ss)
      (v2_mt_adopt (v2_sss_target (v2_ss_spec ss)))
      (\<lambda>x. secret_key_of x = ObjectKey (target_namespace ss) (target_name ss)
        \<and> sops_out_ok ss data (hash_secret_data data) revision x) (world s) r (world t))"
  unfolding sops_apply_def apply_target_secret_def Let_def
  by (rule post_core [OF core_tracker(7)], rule post_core [OF core_tracker(3)],
      rule post_mono [OF post_apply_finish [OF sops_mut.target_mutator_axioms env_okD(1) [OF assms]
        post_sops_status(2) [OF assms] post_sops_status(1) [OF assms]]])
    (auto simp: same_core_def)

text \<open>The resource is changed in its conditions only.\<close>

lemma sops_prepare_same:
  assumes "run_state (sops_prepare E P ss) s = (Inr (ss', data, revision), t)"
  shows "v2_ss_meta ss' = v2_ss_meta ss \<and> v2_ss_spec ss' = v2_ss_spec ss"
  using assms
  by (auto simp: sops_prepare_def sops_decrypt_step_def Let_def split: prod.splits sum.splits if_splits)

text \<open>What the target Secret holds: what \<open>sops_prepare\<close> yields from the state the sync started in.\<close>

definition sops_written ::
  "'w operator_env \<Rightarrow> credential_policy \<Rightarrow> v2_sops_secret \<Rightarrow> 'w op_state \<Rightarrow> secret \<Rightarrow> bool" where
  "sops_written E P ss s x \<longleftrightarrow> (\<exists>t u ss' data revision. same_core s t
     \<and> run_state (sops_prepare E P ss) t = (Inr (ss', data, revision), u)
     \<and> sops_out_ok ss data (hash_secret_data data) revision x)"

definition sops_target_key :: "v2_sops_secret \<Rightarrow> objkey" where
  "sops_target_key ss = ObjectKey (target_namespace ss) (target_name ss)"

lemma sops_sync_effect:
  fixes s :: "'w op_state"
  assumes env: "env_ok E V" and core: "same_core s0 s"
  shows "post (sops_sync E P ss) s (\<lambda>r t. reconcile_effect V (\<lambda>k. k = sops_target_key ss) (sops_owner ss)
      (v2_mt_adopt (v2_sss_target (v2_ss_spec ss))) (sops_written E P ss s0) alive (world s) r (world t))"
  unfolding sops_sync_def
proof (rule post_prepared_effect [OF quiet_sops_prepare [OF env]])
  fix f t
  show "post (case f of (stg, type, ss', reason, msg) \<Rightarrow>
        do { track_fail stg msg; fail_status (e_kube E) ss' type reason msg }) t
      (\<lambda>r u. V (world u) = V (world t) \<and> (r = Inr (requeue_after retryAfter) \<or> (\<exists>e. r = Inl e)))"
    by (cases f) (simp add: post_sops_status(2) [OF env])
next
  fix p t
  assume run: "run_state (sops_prepare E P ss) s = (Inr p, t)"
  obtain ss' data revision where p: "p = (ss', data, revision)" by (cases p)
  note same = sops_prepare_same [OF run [unfolded p]]
  have eqs: "target_namespace ss' = target_namespace ss" "target_name ss' = target_name ss"
    "sops_owner ss' = sops_owner ss" "sops_out_ok ss' = sops_out_ok ss" "v2_ss_spec ss' = v2_ss_spec ss"
    using same by (simp_all add: target_namespace_def target_name_def sops_owner_def sops_out_ok_def fun_eq_iff)
  have "sops_out_ok ss data (hash_secret_data data) revision x \<Longrightarrow> sops_written E P ss s0 x" for x
    using run p core unfolding sops_written_def by blast
  then show "post (case p of (ss', data, revision) \<Rightarrow> sops_apply E ss' data revision) t
      (\<lambda>r u. \<exists>k. k = sops_target_key ss \<and> sync_effect V k (sops_owner ss) (v2_mt_adopt (v2_sss_target (v2_ss_spec ss)))
        (sops_written E P ss s0) (world t) r (world u))"
    using sops_apply_effect [OF env, of ss' data revision t]
    unfolding p prod.case eqs sops_target_key_def
    by (elim post_mono) (blast intro: sync_effect_mono)
qed

text \<open>The steps behind a prepared result.\<close>

abbreviation sops_decrypted ::
  "'w operator_env \<Rightarrow> credential_policy \<Rightarrow> v2_sops_secret \<Rightarrow> 'w op_state \<Rightarrow> bytes \<Rightarrow> bytes gomap \<Rightarrow> bool" where
  "sops_decrypted E P ss s content data \<equiv> (\<exists>plaintext.
     decrypted_from E P (om_namespace (v2_ss_meta ss)) (key_ref_v2 (v2_sss_decryption (v2_ss_spec ss)))
       (v2_src_path (v2_sss_source (v2_ss_spec ss))) s content plaintext
     \<and> mapping_stage (e_yaml E) plaintext (convert_spec_data_mappings (v2_sss_data (v2_ss_spec ss))) = Inr data)"

lemma sops_decrypt_steps:
  fixes s :: "'w op_state"
  shows "post (sops_decrypt_step E P ss content revision) s (\<lambda>r _. \<forall>ss' data rev.
      r = Inr (ss', data, rev) \<longrightarrow> rev = revision \<and> sops_decrypted E P ss s content data)"
  unfolding sops_decrypt_step_def Let_def
  by (rule post_core [OF core_tracker(6)], rule post_core [OF core_tracker(3)], rule post_bind,
      rule post_mono [OF post_decrypt_from], rule frame_relD(2) [OF frame_rel_core], assumption, assumption,
      rule post_return) (auto split: sum.splits)

lemma sops_prepare_steps:
  fixes s :: "'w op_state"
  shows "post (sops_prepare E P ss) s (\<lambda>r _. \<forall>ss' data revision. r = Inr (ss', data, revision) \<longrightarrow>
    (\<exists>t t' content. same_core s t \<and> run_state (fetch_source E ss) t = (Inr (content, revision), t')
      \<and> sops_decrypted E P ss t' content data))"
    (is "post _ s ?Q")
  unfolding sops_prepare_def Let_def
proof (rule post_core [OF core_tracker(5)], rule post_core [OF core_tracker(3)], rule post_bind, rule postI)
  fix t1 t t' :: "'w op_state" and f
  assume "same_core s t1" "same_core t1 t" and run: "run_state (fetch_source E ss) t = (f, t')"
  then have core: "same_core s t" using frame_relD(2) [OF frame_rel_core] by blast
  show "post (case f of
       Inl e \<Rightarrow> State_Monad.return (Inl (StageFetch, ConditionSourceReady, ss, sf_reason e, sf_msg e))
     | Inr (content, revision) \<Rightarrow> sops_decrypt_step E P ss content revision) t' ?Q"
    using core run
    by (intro post_sum post_prod post_return post_mono [OF sops_decrypt_steps]) (simp, blast)
qed

section \<open>The effect of a reconcile\<close>

lemma sops_ops_quiet:
  assumes "env_ok E V"
  shows "reads_only V (k_get_sops_secret (e_kube E) req)" "reads_only V (k_update_sops_secret (e_kube E) x)"
  using env_okD(5) [OF assms] by (simp_all add: other_ops_ok_def)

lemma sops_reconcile_effect:
  fixes s :: "'w op_state"
  assumes env: "env_ok E V" and got: "run_state (k_get_sops_secret (e_kube E) req) (world s) = (Inr ss, w)"
  shows "post (sops_reconcile E P req) s (\<lambda>r t.
    reconcile_effect V (\<lambda>k. k = sops_target_key ss) (sops_owner ss) (v2_mt_adopt (v2_sss_target (v2_ss_spec ss)))
      (sops_written E P ss (s\<lparr>world := w\<rparr>)) (time_is_zero (om_deletion_timestamp (v2_ss_meta ss)))
      (world s) r (world t))"
  unfolding sops_reconcile_def sops_reconcile_body_def Let_def
proof (rule post_reconcile_effect [OF sops_ops_quiet(1) [OF env] got sops_ops_quiet(2) [OF env] sops_ops_quiet(2) [OF env]
      _ sops_sync_effect [OF env] refl])
  fix t r u assume "run_state (delete_owned_secret (e_kube E) ss (target_name ss) (target_namespace ss)) t = (r, u)"
  from delete_if_owned_effect(1) [OF env_okD(1) [OF env] this [unfolded delete_owned_secret_def]]
  show "deletes_only V (\<lambda>k. k = sops_target_key ss) (sops_owner ss) t u" by (simp add: sops_target_key_def)
qed

section \<open>Samples\<close>

text \<open>A resource whose source, key and file exist, in a cluster where its target does not.\<close>

definition sample_sops :: "int option \<Rightarrow> v2_sops_secret" where
  "sample_sops deleted =
     \<lparr>v2_ss_meta = sample_meta deleted,
      v2_ss_spec = \<lparr>
        v2_sss_source = \<lparr>v2_src_source_ref = \<lparr>v2_skf_kind = ''GitRepository'', v2_skf_name = ''g''\<rparr>, v2_src_path = ''s.yaml''\<rparr>,
        v2_sss_decryption = Some \<lparr>v2_dec_key_ref = \<lparr>v2_skr_name = ''age'', v2_skr_key = ''k'', v2_skr_namespace = []\<rparr>\<rparr>,
        v2_sss_target = \<lparr>v2_mt_name = ''out'', v2_mt_namespace = [], v2_mt_type = [], v2_mt_adopt = False\<rparr>,
        v2_sss_data = Some [\<lparr>v2_dm_key = ''USER'', v2_dm_from = ''user''\<rparr>]\<rparr>,
      v2_ss_status = \<lparr>v2_sst_last_applied_hash = [], v2_sst_last_synced_commit = [], v2_sst_last_token = [],
        v2_sst_observed_generation = 0, v2_sst_conditions = []\<rparr>\<rparr>"

definition sample_cluster :: "secret list \<Rightarrow> int option \<Rightarrow> mem_cluster" where
  "sample_cluster secrets deleted = (source_cluster secrets)\<lparr>cl_sops := [(ObjectKey ''n'' ''s'', sample_sops deleted)]\<rparr>"

definition sample_env :: "mem_cluster operator_env" where
  "sample_env = mem_env True [] [] ''AGE'' (one_doc [(''user'', YStr ''bob'')] (new_secret [] []))"

lemma sample_env_ok: "env_ok sample_env cl_view"
  unfolding sample_env_def by (rule mem_env_ok)

lemma sample_env_kube [simp]: "e_kube sample_env = mem_kube"
  by (simp add: sample_env_def)

lemma sample_get:
  "run_state (k_get_sops_secret (e_kube sample_env) (ObjectKey ''n'' ''s'')) (world (sample_state (sample_cluster xs deleted)))
     = (Inr (sample_sops deleted), sample_cluster xs deleted)"
  by (simp add: mem_kube_def mem_get_def sample_cluster_def)

text \<open>Preparing it gives one key; applying it succeeds as the target is absent.\<close>

lemma sample_prepare:
  "case run_state (sops_prepare sample_env no_policy (sample_sops None))
          (snd (run_state (track_reconcile ''SopsSecret'' ''n'' ''s'') (sample_state (sample_cluster [] None)))) of
     (Inl _, _) \<Rightarrow> False
   | (Inr (ss, data, revision), t) \<Rightarrow> data = Some [(''USER'', ''bob'')] \<and> revision = ''c0''
       \<and> cl_view (world t) (ObjectKey ''n'' ''out'') = None"
  by code_simp

lemma mem_apply_succeeds:
  fixes t :: "mem_cluster op_state"
  assumes "cl_view (world t) (sops_target_key ss) = None"
  shows "post (sops_apply (mem_env up files docs key Y) ss data revision) t (\<lambda>r _. r = Inr (requeue_after resyncAfter))"
proof -
  have update: "post (sops_update_status mem_kube x res) u (\<lambda>r _. r = Inr res)" for x res and u :: "mem_cluster op_state"
    by (intro postI) (auto simp: sops_update_status_def run_on_world mem_kube_def mem_put_def result_or_def)
  show ?thesis
    unfolding sops_apply_def apply_target_secret_def Let_def mem_env_simps
    by (rule post_core [OF core_tracker(7)], rule post_core [OF core_tracker(3)], rule post_bind,
        rule post_mono [OF mem_apply_new [OF sops_mut.target_mutator_axioms]])
      (use assms in \<open>auto simp: same_core_def sops_target_key_def intro!: update\<close>)
qed

lemma sample_target: "sops_target_key (sample_sops d) = ObjectKey ''n'' ''out''"
  by (simp add: sample_sops_def sops_target_key_def target_name_def target_namespace_def)

lemma sample_succeeds:
  "\<exists>t. run_state (sops_reconcile sample_env no_policy (ObjectKey ''n'' ''s'')) (sample_state (sample_cluster [] None))
     = (Inr (requeue_after resyncAfter), t)"
proof -
  let ?s = "sample_state (sample_cluster [] None)"
  define t0 where "t0 = snd (run_state (track_reconcile ''SopsSecret'' ''n'' ''s'') ?s)"
  obtain p u where p: "run_state (sops_prepare sample_env no_policy (sample_sops None)) t0 = (p, u)" by fastforce
  obtain ss' data revision where r: "p = Inr (ss', data, revision)" "cl_view (world u) (ObjectKey ''n'' ''out'') = None"
    using sample_prepare p unfolding t0_def by (auto split: sum.splits)
  have "sops_target_key ss' = sops_target_key (sample_sops None)"
    using sops_prepare_same [OF p [unfolded r(1)]]
    by (simp add: sops_target_key_def target_name_def target_namespace_def)
  then have key: "sops_target_key ss' = ObjectKey ''n'' ''out''" by (simp add: sample_target)
  have sync: "fst (run_state (sops_sync sample_env no_policy (sample_sops None)) t0) = Inr (requeue_after resyncAfter)"
    using postD [OF mem_apply_succeeds [of u ss', unfolded key, OF r(2)] surjective_pairing] p r(1)
    by (simp add: sops_sync_def sample_env_def)
  have got: "run_state (k_get_sops_secret mem_kube (ObjectKey ''n'' ''s'')) (world ?s) = (Inr (sample_sops None), world ?s)"
    using sample_get [of "[]" None] by simp
  have "fst (run_state (sops_reconcile sample_env no_policy (ObjectKey ''n'' ''s'')) ?s)
      = fst (run_state (sops_sync sample_env no_policy (sample_sops None)) t0)"
    unfolding sops_reconcile_def sops_reconcile_body_def Let_def sample_env_kube
    by (rule trans [OF mem_alive_result [OF got _ _ refl]]) (simp_all add: sample_sops_def t0_def)
  with sync show ?thesis by (metis prod.collapse)
qed

section \<open>Properties\<close>

text \<open>
C7: A reconcile of a SopsSecret changes at most the one Secret its target names. That Secret was
  absent or passed the adoption check, and afterwards it is gone, or carries the resource's owner
  markers and what this sync prepared.
\<close>

theorem sops_reconcile_confined:
  fixes s :: "'w op_state"
  assumes "env_ok E V" and "run_state (k_get_sops_secret (e_kube E) req) (world s) = (Inr ss, w)"
    and "run_state (sops_reconcile E P req) s = (r, t)"
  shows "\<forall>k. V (world t) k = V (world s) k
    \<or> (k = sops_target_key ss
       \<and> (\<forall>x. V (world s) k = Some x \<longrightarrow>
             adoption_check (sops_owner ss) (v2_mt_adopt (v2_sss_target (v2_ss_spec ss))) x = None)
       \<and> (\<forall>x. V (world t) k = Some x \<longrightarrow>
             (stamped (sops_owner ss) x \<and> sops_written E P ss (s\<lparr>world := w\<rparr>) x) \<or> deletion_pending x))"
  using postD [OF sops_reconcile_effect [OF assms(1,2)] assms(3)]
  by (simp add: reconcile_effect_def owner_frame_def)

theorem sops_reconcile_confined_witness:
  "\<exists>r t. run_state (sops_reconcile sample_env no_policy (ObjectKey ''n'' ''s'')) (sample_state (sample_cluster [] None)) = (r, t)
     \<and> cl_view (world t) (ObjectKey ''n'' ''age'') = Some sample_age_secret"
proof -
  let ?s = "sample_state (sample_cluster [] None)"
  obtain r t where run: "run_state (sops_reconcile sample_env no_policy (ObjectKey ''n'' ''s'')) ?s = (r, t)" by fastforce
  have "cl_view (world ?s) (ObjectKey ''n'' ''age'') = Some sample_age_secret"
    by (simp add: sample_cluster_def source_cluster_def age_secret_stored del: list.map)
  then show ?thesis
    using run sops_reconcile_confined [OF sample_env_ok sample_get run]
    by (auto simp: sample_target dest: spec [of _ "ObjectKey ''n'' ''age''"])
qed

text \<open>
C2: When a reconcile of a SopsSecret reports success, the target Secret is there, with the owner
  markers, and its data are exactly what the mappings select from the plaintext that SOPS gives for
  the source file under a permitted age key; its annotations name the content hash and the source
  revision of that very read.
\<close>

theorem sops_success_end_to_end:
  fixes s :: "'w op_state"
  assumes "env_ok E V" and "run_state (k_get_sops_secret (e_kube E) req) (world s) = (Inr ss, w)"
    and "run_state (sops_reconcile E P req) s = (Inr (requeue_after resyncAfter), t)"
  shows "\<exists>x t1 t2 content revision plaintext data.
    V (world t) (sops_target_key ss) = Some x \<and> stamped (sops_owner ss) x
    \<and> same_core (s\<lparr>world := w\<rparr>) t1 \<and> run_state (fetch_source E ss) t1 = (Inr (content, revision), t2)
    \<and> decrypted_from E P (om_namespace (v2_ss_meta ss)) (key_ref_v2 (v2_sss_decryption (v2_ss_spec ss)))
        (v2_src_path (v2_sss_source (v2_ss_spec ss))) t2 content plaintext
    \<and> mapping_stage (e_yaml E) plaintext (convert_spec_data_mappings (v2_sss_data (v2_ss_spec ss))) = Inr data
    \<and> sops_out_ok ss data (hash_secret_data data) revision x"
proof -
  obtain x where x: "V (world t) (sops_target_key ss) = Some x" "stamped (sops_owner ss) x"
      "sops_written E P ss (s\<lparr>world := w\<rparr>) x"
    using postD [OF sops_reconcile_effect [OF assms(1,2)] assms(3)] by (auto simp: reconcile_effect_def)
  then obtain t0 u ss' data revision where core: "same_core (s\<lparr>world := w\<rparr>) t0"
      and run: "run_state (sops_prepare E P ss) t0 = (Inr (ss', data, revision), u)"
      and out: "sops_out_ok ss data (hash_secret_data data) revision x"
    unfolding sops_written_def by blast
  then obtain t1 t2 content where "same_core t0 t1" "run_state (fetch_source E ss) t1 = (Inr (content, revision), t2)"
      "sops_decrypted E P ss t2 content data"
    using postD [OF sops_prepare_steps run] by blast
  moreover have "same_core (s\<lparr>world := w\<rparr>) t1"
    using frame_relD(2) [OF frame_rel_core core \<open>same_core t0 t1\<close>] .
  ultimately show ?thesis using x(1,2) out by blast
qed

theorem sops_success_end_to_end_witness:
  "\<exists>t x. run_state (sops_reconcile sample_env no_policy (ObjectKey ''n'' ''s'')) (sample_state (sample_cluster [] None))
       = (Inr (requeue_after resyncAfter), t)
     \<and> cl_view (world t) (ObjectKey ''n'' ''out'') = Some x \<and> stamped ''SopsSecret/n/s'' x"
proof -
  obtain t where run: "run_state (sops_reconcile sample_env no_policy (ObjectKey ''n'' ''s''))
      (sample_state (sample_cluster [] None)) = (Inr (requeue_after resyncAfter), t)"
    using sample_succeeds by blast
  have "sops_owner (sample_sops None) = ''SopsSecret/n/s''"
    by (simp add: sops_owner_def owner_key_def sample_sops_def)
  then show ?thesis
    using run sops_success_end_to_end [OF sample_env_ok sample_get run] by (auto simp: sample_target)
qed

text \<open>
C10: When the reconcile of a SopsSecret that is being deleted ends without an error, no Secret that
  carries its owner markers is left at the target (unless its own deletion is pending).
\<close>

theorem sops_deletion_cleans:
  fixes s :: "'w op_state"
  assumes "env_ok E V" and "run_state (k_get_sops_secret (e_kube E) req) (world s) = (Inr ss, w)"
    and "\<not> time_is_zero (om_deletion_timestamp (v2_ss_meta ss))" and "Finalizer \<in> set (om_finalizers (v2_ss_meta ss))"
    and "run_state (sops_reconcile E P req) s = (Inr res, t)"
  shows "\<forall>x. V (world t) (sops_target_key ss) = Some x \<longrightarrow> \<not> owned_by (sops_owner ss) x \<or> deletion_pending x"
proof -
  let ?C = "\<lambda>view. \<forall>x. view (sops_target_key ss) = Some x \<longrightarrow> \<not> owned_by (sops_owner ss) x \<or> deletion_pending x"
  have "post (sops_reconcile E P req) s (\<lambda>r t. (\<exists>res. r = Inr res) \<longrightarrow> ?C (V (world t)))"
    unfolding sops_reconcile_def sops_reconcile_body_def Let_def
  proof (rule post_reconcile_cleaned [where C = ?C, OF assms(2) env_okD(1) [OF assms(1)] sops_ops_quiet(2) [OF assms(1)]
        assms(3,4)])
    fix u v :: "'w op_state"
    assume "run_state (delete_owned_secret (e_kube E) ss (target_name ss) (target_namespace ss)) u = (None, v)"
    from delete_if_owned_effect(2) [OF env_okD(1) [OF assms(1)] this [unfolded delete_owned_secret_def]]
    show "?C (V (world v))" by (simp add: sops_target_key_def)
  qed (rule refl)
  from postD [OF this assms(5)] show ?thesis by blast
qed

theorem sops_deletion_cleans_witness:
  "\<exists>t. run_state (sops_reconcile sample_env no_policy (ObjectKey ''n'' ''s''))
         (sample_state (sample_cluster [sample_owned ''SopsSecret/n/s'' (ObjectKey ''n'' ''out'')] (Some 1))) = (Inr no_result, t)
     \<and> (\<forall>x. cl_view (world t) (ObjectKey ''n'' ''out'') = Some x \<longrightarrow>
           \<not> owned_by (sops_owner (sample_sops (Some 1))) x \<or> deletion_pending x)"
proof -
  let ?s = "sample_state (sample_cluster [sample_owned ''SopsSecret/n/s'' (ObjectKey ''n'' ''out'')] (Some 1))"
  have "fst (run_state (sops_reconcile sample_env no_policy (ObjectKey ''n'' ''s'')) ?s) = Inr no_result" by code_simp
  then obtain t where run: "run_state (sops_reconcile sample_env no_policy (ObjectKey ''n'' ''s'')) ?s = (Inr no_result, t)"
    by (metis prod.collapse)
  have "\<not> time_is_zero (om_deletion_timestamp (v2_ss_meta (sample_sops (Some 1))))"
    "Finalizer \<in> set (om_finalizers (v2_ss_meta (sample_sops (Some 1))))"
    by (simp_all add: sample_sops_def time_is_zero_def)
  from sops_deletion_cleans [OF sample_env_ok sample_get this run] run show ?thesis by (simp add: sample_target)
qed

end
