(* ===== verification/SopsSecretManifestCtl.thy ===== *)
theory SopsSecretManifestCtl
  imports Samples
begin

text \<open>
  \<open>internal/controller/sopssecretmanifest_controller.go\<close>: the reconciler of a
  \<open>SopsSecretManifest\<close> (pass-through mode). The decrypted file is a Secret manifest; its type, data,
  labels and annotations reach the cluster, its namespace does not.
\<close>

section \<open>The resource\<close>

definition SopsSecretManifestGitRefIndex :: string where
  "SopsSecretManifestGitRefIndex = ''.spec.source.sourceRef.git.name.manifest''"
definition SopsSecretManifestObjectRefIndex :: string where
  "SopsSecretManifestObjectRefIndex = ''.spec.source.sourceRef.object.name.manifest''"

definition manifest_target_namespace :: "v2_sops_secret_manifest \<Rightarrow> string" where
  "manifest_target_namespace sm =
     (if v2_mft_namespace (v2_sms_target (v2_sm_spec sm)) = [] then om_namespace (v2_sm_meta sm)
      else v2_mft_namespace (v2_sms_target (v2_sm_spec sm)))"

definition manifest_target_name :: "v2_sops_secret_manifest \<Rightarrow> secret \<Rightarrow> string" where
  "manifest_target_name sm parsed =
     (if v2_mft_name_override (v2_sms_target (v2_sm_spec sm)) = [] then om_name (sec_meta parsed)
      else v2_mft_name_override (v2_sms_target (v2_sm_spec sm)))"

definition manifest_owner :: "v2_sops_secret_manifest \<Rightarrow> string" where
  "manifest_owner sm = owner_key ''SopsSecretManifest'' (v2_sm_meta sm)"

definition manifest_condition ::
  "'w kube \<Rightarrow> string \<Rightarrow> string \<Rightarrow> string \<Rightarrow> string \<Rightarrow> v2_sops_secret_manifest \<Rightarrow> v2_sops_secret_manifest" where
  "manifest_condition K type status reason msg sm =
     sm\<lparr>v2_sm_status := (v2_sm_status sm)\<lparr>v2_smt_conditions :=
       set_condition K (v2_smt_conditions (v2_sm_status sm)) type status reason msg\<rparr>\<rparr>"

lemma manifest_condition_simps [simp]:
  "v2_sm_meta (manifest_condition K ty st re ms sm) = v2_sm_meta sm"
  "v2_sm_spec (manifest_condition K ty st re ms sm) = v2_sm_spec sm"
  by (simp_all add: manifest_condition_def)

section \<open>Operations\<close>

definition fetch_manifest_source ::
  "'w operator_env \<Rightarrow> v2_sops_secret_manifest \<Rightarrow> ('w, 'x, source_fetch_error + bytes \<times> string) op_prog" where
  "fetch_manifest_source E sm = fetch_source_ref E (om_namespace (v2_sm_meta sm)) (v2_sms_source (v2_sm_spec sm))"

definition manifest_marks :: "v2_sops_secret_manifest \<Rightarrow> string \<Rightarrow> string \<Rightarrow> (string \<times> string) list" where
  "manifest_marks sm hash revision =
     [(OwnerAnnotation, manifest_owner sm), (OwnerUIDAnnotation, om_uid (v2_sm_meta sm)),
      (ContentHashAnnotation, hash), (SourceCommitAnnotation, revision)]"

text \<open>The mutate function of \<open>applyManifestSecret\<close>.\<close>

definition apply_manifest_mutate :: "v2_sops_secret_manifest \<Rightarrow> secret \<Rightarrow> string \<Rightarrow> string \<Rightarrow> mutate" where
  "apply_manifest_mutate sm parsed hash revision out =
     (case adoption_check (manifest_owner sm) (v2_mft_adopt (v2_sms_target (v2_sm_spec sm))) out of
        Some e \<Rightarrow> Inl e
      | None \<Rightarrow>
          (case mark_secret (om_labels (sec_meta parsed)) (om_annotations (sec_meta parsed))
               (manifest_marks sm hash revision) out of
             None \<Rightarrow> Inl NilMapPanic
           | Some s \<Rightarrow>
               Inr (s\<lparr>sec_type := type_or_opaque (sec_type parsed), sec_data := sec_data parsed,
                      sec_string_data := None\<rparr>)))"

definition apply_manifest_secret ::
  "'w kube \<Rightarrow> v2_sops_secret_manifest \<Rightarrow> secret \<Rightarrow> string \<Rightarrow> string \<Rightarrow> string \<Rightarrow> string
    \<Rightarrow> ('w, 'x, apply_error option) op_prog" where
  "apply_manifest_secret K sm parsed name namespace hash revision =
     on_world (k_create_or_update K (new_secret name namespace) (apply_manifest_mutate sm parsed hash revision))"

definition delete_owned_secret_if_known ::
  "'w kube \<Rightarrow> v2_sops_secret_manifest \<Rightarrow> ('w, 'x, api_error option) op_prog" where
  "delete_owned_secret_if_known K sm =
     (let ns = manifest_target_namespace sm in
      if v2_mft_name_override (v2_sms_target (v2_sm_spec sm)) \<noteq> [] then
        delete_if_owned K (v2_mft_name_override (v2_sms_target (v2_sm_spec sm))) ns (manifest_owner sm)
      else delete_owned_scan K ns (manifest_owner sm))"

definition manifest_update_status ::
  "'w kube \<Rightarrow> v2_sops_secret_manifest \<Rightarrow> ctrl_result \<Rightarrow> ('w, 'x, reconcile_result) op_prog" where
  "manifest_update_status K sm res = do {
     err \<leftarrow> on_world (k_update_manifest_status K sm);
     State_Monad.return (result_or err res)
   }"

definition fail_manifest_status ::
  "'w kube \<Rightarrow> v2_sops_secret_manifest \<Rightarrow> string \<Rightarrow> string \<Rightarrow> string \<Rightarrow> ('w, 'x, reconcile_result) op_prog" where
  "fail_manifest_status K sm type reason msg =
     manifest_update_status K (manifest_condition K type condition_false reason msg sm) (requeue_after retryAfter)"

section \<open>The reconciler\<close>

text \<open>From \<open>SetSourceRef\<close> to the parsed manifest and the name of its target.\<close>

type_synonym manifest_prepared =
  "(string \<times> string \<times> v2_sops_secret_manifest \<times> failure) + v2_sops_secret_manifest \<times> secret \<times> string \<times> string"

definition manifest_name_step :: "v2_sops_secret_manifest \<Rightarrow> secret \<Rightarrow> failure + string" where
  "manifest_name_step sm parsed =
     (let name = manifest_target_name sm parsed in
      if name = [] then Inl (''NameMissing'', ''manifest has no metadata.name and target.nameOverride is not set'')
      else Inr name)"

definition manifest_decrypt_step ::
  "'w operator_env \<Rightarrow> credential_policy \<Rightarrow> v2_sops_secret_manifest \<Rightarrow> bytes \<Rightarrow> string
    \<Rightarrow> ('w, 'x, manifest_prepared) op_prog" where
  "manifest_decrypt_step E P sm content revision = do {
     let K = e_kube E;
     set_commit revision;
     let sm1 = manifest_condition K ConditionSourceReady condition_true ''Ready'' ''source is ready'' sm;
     track_stage StageDecrypt;
     decrypted \<leftarrow> decrypt_stage E P (om_namespace (v2_sm_meta sm)) (key_ref_v2 (v2_sms_decryption (v2_sm_spec sm)))
       content (v2_src_path (v2_sms_source (v2_sm_spec sm)));
     State_Monad.return (case decrypted of
         Inl failure \<Rightarrow> Inl (StageDecrypt, ConditionDecrypted, sm1, failure)
       | Inr (plaintext, keyOrigin) \<Rightarrow>
           (case manifest_stage (e_yaml E) plaintext of
              Inl failure \<Rightarrow> Inl (StageDecrypt, ConditionDecrypted, sm1, failure)
            | Inr parsed \<Rightarrow>
                (case manifest_name_step sm parsed of
                   Inl failure \<Rightarrow> Inl (StageDecrypt, ConditionDecrypted, sm1, failure)
                 | Inr name \<Rightarrow>
                     Inr (manifest_condition K ConditionDecrypted condition_true ''Decrypted''
                            (''decryption + validation ok, '' @ describe_key_origin keyOrigin) sm1,
                          parsed, name, revision))))
   }"

definition manifest_prepare ::
  "'w operator_env \<Rightarrow> credential_policy \<Rightarrow> v2_sops_secret_manifest \<Rightarrow> ('w, 'x, manifest_prepared) op_prog" where
  "manifest_prepare E P sm = do {
     let ref = v2_src_source_ref (v2_sms_source (v2_sm_spec sm));
     set_source_ref (v2_skf_kind ref) (v2_skf_name ref);
     track_stage StageFetch;
     fetched \<leftarrow> fetch_manifest_source E sm;
     case fetched of
       Inl e \<Rightarrow> State_Monad.return (Inl (StageFetch, ConditionSourceReady, sm, sf_reason e, sf_msg e))
     | Inr (content, revision) \<Rightarrow> manifest_decrypt_step E P sm content revision
   }"

text \<open>From the hash to the end.\<close>

definition manifest_apply ::
  "'w operator_env \<Rightarrow> v2_sops_secret_manifest \<Rightarrow> secret \<Rightarrow> string \<Rightarrow> string \<Rightarrow> ('w, 'x, reconcile_result) op_prog" where
  "manifest_apply E sm parsed name revision = do {
     let K = e_kube E;
     let ns = manifest_target_namespace sm;
     let hash = hash_manifest_secret parsed;
     set_content_hash hash;
     track_stage StageApply;
     applied \<leftarrow> apply_manifest_secret K sm parsed name ns hash revision;
     case applied of
       Some e \<Rightarrow> do {
         track_fail StageApply (apply_error_text e);
         fail_manifest_status K sm ConditionApplied ''ApplyFailed'' (apply_error_text e)
       }
     | None \<Rightarrow>
         (let sm1 = manifest_condition K ConditionApplied condition_true ''Applied''
                (''applied Secret '' @ ns @ ''/'' @ name) sm in
          manifest_update_status K
            (sm1\<lparr>v2_sm_status := (v2_sm_status sm1)\<lparr>v2_smt_last_applied_hash := hash,
               v2_smt_last_synced_commit := revision,
               v2_smt_last_token := gm_get (om_annotations (v2_sm_meta sm1)) ReconcileRequestAnnotation,
               v2_smt_observed_generation := om_generation (v2_sm_meta sm1)\<rparr>\<rparr>)
            (requeue_after resyncAfter))
   }"

definition manifest_sync ::
  "'w operator_env \<Rightarrow> credential_policy \<Rightarrow> v2_sops_secret_manifest \<Rightarrow> ('w, 'x, reconcile_result) op_prog" where
  "manifest_sync E P sm = do {
     prepared \<leftarrow> manifest_prepare E P sm;
     case prepared of
       Inl (stg, type, sm', reason, msg) \<Rightarrow> do {
         track_fail stg msg;
         fail_manifest_status (e_kube E) sm' type reason msg
       }
     | Inr (sm', parsed, name, revision) \<Rightarrow> manifest_apply E sm' parsed name revision
   }"

definition manifest_reconcile_body ::
  "'w operator_env \<Rightarrow> credential_policy \<Rightarrow> objkey \<Rightarrow> ('w, 'x, reconcile_result) op_prog" where
  "manifest_reconcile_body E P req = do {
     let K = e_kube E;
     got \<leftarrow> on_world (k_get_manifest K req);
     case got of
       Inl e \<Rightarrow> State_Monad.return (get_failed e)
     | Inr sm \<Rightarrow>
         finalized K (v2_sm_meta sm)
           (on_world (k_update_manifest K (sm\<lparr>v2_sm_meta := add_finalizer_meta K (v2_sm_meta sm)\<rparr>)))
           (on_world (k_update_manifest K (sm\<lparr>v2_sm_meta := remove_finalizer_meta K (v2_sm_meta sm)\<rparr>)))
           (delete_owned_secret_if_known K sm)
           (manifest_sync E P sm)
   }"

definition manifest_reconcile ::
  "'w operator_env \<Rightarrow> credential_policy \<Rightarrow> objkey \<Rightarrow> ('w, 'x, reconcile_result) op_prog" where
  "manifest_reconcile E P req = tracked ''SopsSecretManifest'' req (manifest_reconcile_body E P req)"

section \<open>The watches on sources\<close>

definition manifest_git_index :: "v2_sops_secret_manifest \<Rightarrow> string list" where
  "manifest_git_index s =
     (let ref = v2_src_source_ref (v2_sms_source (v2_sm_spec s)) in
      if v2_skf_kind ref \<noteq> SourceKindGitRepository then [] else [v2_skf_name ref])"

definition manifest_object_index :: "v2_sops_secret_manifest \<Rightarrow> string list" where
  "manifest_object_index s =
     (let ref = v2_src_source_ref (v2_sms_source (v2_sm_spec s)) in
      if v2_skf_kind ref \<noteq> SourceKindObjectSource then [] else [v2_skf_name ref])"

definition map_source_to_manifests :: "'w kube \<Rightarrow> objkey \<Rightarrow> string \<Rightarrow> ('w, objkey list) state" where
  "map_source_to_manifests K obj index = do {
     listed \<leftarrow> k_list_manifests K (ok_namespace obj) (index, ok_name obj);
     State_Monad.return (case listed of Inl _ \<Rightarrow> [] | Inr ss \<Rightarrow> map (\<lambda>s. meta_key (v2_sm_meta s)) ss)
   }"

definition map_git_repo_to_manifests :: "'w kube \<Rightarrow> objkey \<Rightarrow> ('w, objkey list) state" where
  "map_git_repo_to_manifests K obj = map_source_to_manifests K obj SopsSecretManifestGitRefIndex"

definition map_object_source_to_manifests :: "'w kube \<Rightarrow> objkey \<Rightarrow> ('w, objkey list) state" where
  "map_object_source_to_manifests K obj = map_source_to_manifests K obj SopsSecretManifestObjectRefIndex"

section \<open>The mutate function keeps the contract\<close>

definition manifest_out_ok :: "v2_sops_secret_manifest \<Rightarrow> secret \<Rightarrow> string \<Rightarrow> string \<Rightarrow> secret \<Rightarrow> bool" where
  "manifest_out_ok sm parsed hash revision x \<longleftrightarrow>
     gm_lookup (sec_data x) = gm_lookup (sec_data parsed) \<and> sec_type x = type_or_opaque (sec_type parsed)
     \<and> (\<forall>(k, v) \<in> set (manifest_marks sm hash revision). gm_lookup (om_annotations (sec_meta x)) k = Some v)
     \<and> carries (om_labels (sec_meta parsed)) (om_annotations (sec_meta parsed)) (manifest_marks sm hash revision) (sec_meta x)"

interpretation manifest_mut: target_mutator
  "apply_manifest_mutate sm parsed hash revision" "manifest_owner sm" "v2_mft_adopt (v2_sms_target (v2_sm_spec sm))"
  "manifest_out_ok sm parsed hash revision"
  for sm parsed hash revision
proof
  fix base e
  show "adoption_check (manifest_owner sm) (v2_mft_adopt (v2_sms_target (v2_sm_spec sm))) base = Some e
    \<Longrightarrow> apply_manifest_mutate sm parsed hash revision base = Inl e"
    by (simp add: apply_manifest_mutate_def)
next
  fix base
  assume ok: "adoption_check (manifest_owner sm) (v2_mft_adopt (v2_sms_target (v2_sm_spec sm))) base = None"
  have "distinct (map fst (manifest_marks sm hash revision))" by (simp add: manifest_marks_def)
  from mark_secret_result [OF this, of "om_labels (sec_meta parsed)" "om_annotations (sec_meta parsed)" base] ok
  show "\<exists>out. apply_manifest_mutate sm parsed hash revision base = Inr out \<and> stamped (manifest_owner sm) out
      \<and> manifest_out_ok sm parsed hash revision out"
    by (auto simp: apply_manifest_mutate_def stamped_def manifest_out_ok_def manifest_marks_def)
next
  fix a b
  show "manifest_out_ok sm parsed hash revision a \<Longrightarrow> same_content a b \<Longrightarrow> manifest_out_ok sm parsed hash revision b"
    by (auto simp: manifest_out_ok_def same_content_def elim: carries_cong)
qed

text \<open>Applying again to what was stored leaves it as it is.\<close>

lemma manifest_mutate_again:
  assumes run: "apply_manifest_mutate sm parsed hash revision base = Inr out" and same: "same_content out s"
  shows "\<exists>out'. apply_manifest_mutate sm parsed hash revision s = Inr out' \<and> same_content out' s"
proof -
  have ok: "adoption_check (manifest_owner sm) (v2_mft_adopt (v2_sms_target (v2_sm_spec sm))) s = None"
    by (rule manifest_mut.own_output [OF assms])
  from run obtain m where m: "mark_secret (om_labels (sec_meta parsed)) (om_annotations (sec_meta parsed))
      (manifest_marks sm hash revision) base = Some m" "sec_meta out = sec_meta m"
    "sec_data out = sec_data parsed" "sec_type out = type_or_opaque (sec_type parsed)"
    by (auto simp: apply_manifest_mutate_def split: option.splits)
  from mutate_again [OF m(1,2) same] obtain m' where m': "mark_secret (om_labels (sec_meta parsed))
      (om_annotations (sec_meta parsed)) (manifest_marks sm hash revision) s = Some m'"
    "\<And>x. sec_meta x = sec_meta m' \<Longrightarrow> gm_lookup (sec_data x) = gm_lookup (sec_data out) \<Longrightarrow> sec_type x = sec_type out
      \<Longrightarrow> same_content x s" by blast
  show ?thesis
    using ok m'(1) m(3,4) by (auto simp: apply_manifest_mutate_def intro!: m'(2))
qed
section \<open>What a reconcile touches\<close>

lemmas manifest_ctl_defs = manifest_reconcile_body_def manifest_sync_def manifest_prepare_def manifest_decrypt_step_def
  manifest_apply_def apply_manifest_secret_def fail_manifest_status_def manifest_update_status_def
  fetch_manifest_source_def delete_owned_secret_if_known_def Let_def

lemma span_frame_manifest: "state_io_rel span_frame (manifest_reconcile_body E P req)"
  unfolding manifest_ctl_defs by (intro span_ops span_frame_pipeline frame_finalized frame_rel_span)

lemma quiet_manifest_prepare: "env_ok E V \<Longrightarrow> state_io_rel (quiet V) (manifest_prepare E P sm)"
  unfolding manifest_prepare_def manifest_decrypt_step_def fetch_manifest_source_def Let_def
  by (intro quiet_rules quiet_tracker quiet_pipeline)

lemma manifest_ops_quiet:
  assumes "env_ok E V"
  shows "reads_only V (k_get_manifest (e_kube E) req)" "reads_only V (k_update_manifest (e_kube E) x)"
    "reads_only V (k_update_manifest_status (e_kube E) x)"
  using env_okD(5) [OF assms] by (simp_all add: other_ops_ok_def)

lemma post_manifest_status:
  assumes "env_ok E V"
  shows "post (manifest_update_status (e_kube E) sm res) s
      (\<lambda>r t. V (world t) = V (world s) \<and> (r = Inr res \<or> (\<exists>e. r = Inl e)))"
    and "post (do { track_fail stg msg; fail_manifest_status (e_kube E) sm ty re ms }) s
      (\<lambda>r t. V (world t) = V (world s) \<and> (r = Inr (requeue_after retryAfter) \<or> (\<exists>e. r = Inl e)))"
proof -
  show upd: "post (manifest_update_status (e_kube E) sm res) s
      (\<lambda>r t. V (world t) = V (world s) \<and> (r = Inr res \<or> (\<exists>e. r = Inl e)))" for sm res s
    unfolding manifest_update_status_def by (rule post_finish [OF manifest_ops_quiet(3) [OF assms]])
  show "post (do { track_fail stg msg; fail_manifest_status (e_kube E) sm ty re ms }) s
      (\<lambda>r t. V (world t) = V (world s) \<and> (r = Inr (requeue_after retryAfter) \<or> (\<exists>e. r = Inl e)))"
    unfolding fail_manifest_status_def
    by (rule post_core [OF core_tracker(4)], rule post_mono [OF upd]) (auto simp: same_core_def)
qed

lemma manifest_apply_effect:
  assumes "env_ok E V"
  shows "post (manifest_apply E sm parsed name revision) s (\<lambda>r t.
    sync_effect V (ObjectKey (manifest_target_namespace sm) name) (manifest_owner sm)
      (v2_mft_adopt (v2_sms_target (v2_sm_spec sm)))
      (\<lambda>x. secret_key_of x = ObjectKey (manifest_target_namespace sm) name
        \<and> manifest_out_ok sm parsed (hash_manifest_secret parsed) revision x) (world s) r (world t))"
  unfolding manifest_apply_def apply_manifest_secret_def Let_def
  by (rule post_core [OF core_tracker(7)], rule post_core [OF core_tracker(3)],
      rule post_mono [OF post_apply_finish [OF manifest_mut.target_mutator_axioms env_okD(1) [OF assms]
        post_manifest_status(2) [OF assms] post_manifest_status(1) [OF assms]]])
    (auto simp: same_core_def)

text \<open>The resource is changed in its conditions only, and the name follows from the manifest.\<close>

lemma manifest_prepare_same:
  assumes "run_state (manifest_prepare E P sm) s = (Inr (sm', parsed, name, revision), t)"
  shows "v2_sm_meta sm' = v2_sm_meta sm \<and> v2_sm_spec sm' = v2_sm_spec sm
    \<and> name = manifest_target_name sm parsed \<and> name \<noteq> []"
  using assms
  by (auto simp: manifest_prepare_def manifest_decrypt_step_def manifest_name_step_def Let_def
      split: prod.splits sum.splits if_splits)

text \<open>What a target Secret holds: what \<open>manifest_prepare\<close> yields from the state the sync started in.\<close>

definition manifest_written ::
  "'w operator_env \<Rightarrow> credential_policy \<Rightarrow> v2_sops_secret_manifest \<Rightarrow> 'w op_state \<Rightarrow> secret \<Rightarrow> bool" where
  "manifest_written E P sm s x \<longleftrightarrow> (\<exists>t u sm' parsed revision. same_core s t
     \<and> run_state (manifest_prepare E P sm) t = (Inr (sm', parsed, manifest_target_name sm parsed, revision), u)
     \<and> secret_key_of x = ObjectKey (manifest_target_namespace sm) (manifest_target_name sm parsed)
     \<and> manifest_out_ok sm parsed (hash_manifest_secret parsed) revision x)"

text \<open>Where the resource may write: its target namespace, and under the overriding name if there is one.\<close>

definition manifest_scope :: "v2_sops_secret_manifest \<Rightarrow> objkey \<Rightarrow> bool" where
  "manifest_scope sm k \<longleftrightarrow> ok_namespace k = manifest_target_namespace sm
     \<and> (v2_mft_name_override (v2_sms_target (v2_sm_spec sm)) \<noteq> []
        \<longrightarrow> ok_name k = v2_mft_name_override (v2_sms_target (v2_sm_spec sm)))"

lemma manifest_sync_effect:
  fixes s :: "'w op_state"
  assumes env: "env_ok E V" and core: "same_core s0 s"
  shows "post (manifest_sync E P sm) s (\<lambda>r t. reconcile_effect V (manifest_scope sm) (manifest_owner sm)
      (v2_mft_adopt (v2_sms_target (v2_sm_spec sm))) (manifest_written E P sm s0) alive (world s) r (world t))"
  unfolding manifest_sync_def
proof (rule post_prepared_effect [OF quiet_manifest_prepare [OF env]])
  fix f t
  show "post (case f of (stg, type, sm', reason, msg) \<Rightarrow>
        do { track_fail stg msg; fail_manifest_status (e_kube E) sm' type reason msg }) t
      (\<lambda>r u. V (world u) = V (world t) \<and> (r = Inr (requeue_after retryAfter) \<or> (\<exists>e. r = Inl e)))"
    by (cases f) (simp add: post_manifest_status(2) [OF env])
next
  fix p t
  assume run: "run_state (manifest_prepare E P sm) s = (Inr p, t)"
  obtain sm' parsed name revision where p: "p = (sm', parsed, name, revision)" by (cases p)
  note same = manifest_prepare_same [OF run [unfolded p]]
  have eqs: "manifest_target_namespace sm' = manifest_target_namespace sm" "manifest_owner sm' = manifest_owner sm"
    "manifest_out_ok sm' = manifest_out_ok sm" "v2_sm_spec sm' = v2_sm_spec sm"
    using same by (simp_all add: manifest_target_namespace_def manifest_owner_def manifest_out_ok_def manifest_marks_def fun_eq_iff)
  let ?k = "ObjectKey (manifest_target_namespace sm) (manifest_target_name sm parsed)"
  have "manifest_scope sm ?k" by (simp add: manifest_scope_def manifest_target_name_def)
  moreover have "secret_key_of x = ?k \<Longrightarrow> manifest_out_ok sm parsed (hash_manifest_secret parsed) revision x
      \<Longrightarrow> manifest_written E P sm s0 x" for x
    using run p core same unfolding manifest_written_def by blast
  ultimately show "post (case p of (sm', parsed, name, revision) \<Rightarrow> manifest_apply E sm' parsed name revision) t
      (\<lambda>r u. \<exists>k. manifest_scope sm k \<and> sync_effect V k (manifest_owner sm) (v2_mft_adopt (v2_sms_target (v2_sm_spec sm)))
        (manifest_written E P sm s0) (world t) r (world u))"
    using manifest_apply_effect [OF env, of sm' parsed name revision t] same
    unfolding p prod.case eqs
    by (elim post_mono) (blast intro: sync_effect_mono)
qed

section \<open>The effect of a reconcile\<close>

lemma manifest_delete_effect:
  assumes "env_ok E V" and "run_state (delete_owned_secret_if_known (e_kube E) sm) s = (r, t)"
  shows "deletes_only V (manifest_scope sm) (manifest_owner sm) s t"
    and "r = None \<Longrightarrow> manifest_scope sm k \<Longrightarrow> V (world t) k = Some x
      \<Longrightarrow> \<not> owned_by (manifest_owner sm) x \<or> deletion_pending x"
proof -
  let ?over = "v2_mft_name_override (v2_sms_target (v2_sm_spec sm))"
  note K = env_okD(1) [OF assms(1)]
  show "deletes_only V (manifest_scope sm) (manifest_owner sm) s t"
  proof (cases "?over = []")
    case True
    then have "manifest_scope sm = (\<lambda>k. ok_namespace k = manifest_target_namespace sm)" by (simp add: manifest_scope_def fun_eq_iff)
    with delete_owned_scan_effect(1) [OF K] assms(2) True show ?thesis
      by (simp add: delete_owned_secret_if_known_def)
  next
    case False
    then have "manifest_scope sm = (\<lambda>k. k = ObjectKey (manifest_target_namespace sm) ?over)"
      by (simp add: manifest_scope_def fun_eq_iff objkey_eq)
    with delete_if_owned_effect(1) [OF K] assms(2) False show ?thesis
      by (simp add: delete_owned_secret_if_known_def)
  qed
  assume r: "r = None" and k: "manifest_scope sm k" and x: "V (world t) k = Some x"
  show "\<not> owned_by (manifest_owner sm) x \<or> deletion_pending x"
  proof (cases "?over = []")
    case True
    with delete_owned_scan_effect(2) [OF K _ r _ x] assms(2) k show ?thesis
      by (simp add: delete_owned_secret_if_known_def manifest_scope_def)
  next
    case False
    then have "k = ObjectKey (manifest_target_namespace sm) ?over" using k by (simp add: manifest_scope_def objkey_eq)
    with delete_if_owned_effect(2) [OF K _ r, of ?over "manifest_target_namespace sm" "manifest_owner sm" s t x] assms(2) False x
    show ?thesis by (simp add: delete_owned_secret_if_known_def)
  qed
qed

lemma manifest_reconcile_effect:
  fixes s :: "'w op_state"
  assumes env: "env_ok E V" and got: "run_state (k_get_manifest (e_kube E) req) (world s) = (Inr sm, w)"
  shows "post (manifest_reconcile E P req) s (\<lambda>r t.
    reconcile_effect V (manifest_scope sm) (manifest_owner sm) (v2_mft_adopt (v2_sms_target (v2_sm_spec sm)))
      (manifest_written E P sm (s\<lparr>world := w\<rparr>)) (time_is_zero (om_deletion_timestamp (v2_sm_meta sm)))
      (world s) r (world t))"
  unfolding manifest_reconcile_def manifest_reconcile_body_def Let_def
  by (rule post_reconcile_effect [OF manifest_ops_quiet(1) [OF env] got manifest_ops_quiet(2) [OF env] manifest_ops_quiet(2) [OF env]
      manifest_delete_effect(1) [OF env] manifest_sync_effect [OF env] refl])

text \<open>The steps behind a prepared result.\<close>

abbreviation manifest_decrypted ::
  "'w operator_env \<Rightarrow> credential_policy \<Rightarrow> v2_sops_secret_manifest \<Rightarrow> 'w op_state \<Rightarrow> bytes \<Rightarrow> secret \<Rightarrow> bool" where
  "manifest_decrypted E P sm s content parsed \<equiv> (\<exists>plaintext.
     decrypted_from E P (om_namespace (v2_sm_meta sm)) (key_ref_v2 (v2_sms_decryption (v2_sm_spec sm)))
       (v2_src_path (v2_sms_source (v2_sm_spec sm))) s content plaintext
     \<and> manifest_stage (e_yaml E) plaintext = Inr parsed)"

lemma manifest_decrypt_steps:
  fixes s :: "'w op_state"
  shows "post (manifest_decrypt_step E P sm content revision) s (\<lambda>r _. \<forall>sm' parsed name rev.
      r = Inr (sm', parsed, name, rev) \<longrightarrow> rev = revision \<and> manifest_decrypted E P sm s content parsed)"
  unfolding manifest_decrypt_step_def Let_def
  by (rule post_core [OF core_tracker(6)], rule post_core [OF core_tracker(3)], rule post_bind,
      rule post_mono [OF post_decrypt_from], rule frame_relD(2) [OF frame_rel_core], assumption, assumption,
      rule post_return) (auto split: sum.splits)

lemma manifest_prepare_steps:
  fixes s :: "'w op_state"
  shows "post (manifest_prepare E P sm) s (\<lambda>r _. \<forall>sm' parsed name revision. r = Inr (sm', parsed, name, revision) \<longrightarrow>
    (\<exists>t t' content. same_core s t \<and> run_state (fetch_manifest_source E sm) t = (Inr (content, revision), t')
      \<and> manifest_decrypted E P sm t' content parsed))"
    (is "post _ s ?Q")
  unfolding manifest_prepare_def Let_def
proof (rule post_core [OF core_tracker(5)], rule post_core [OF core_tracker(3)], rule post_bind, rule postI)
  fix t1 t t' :: "'w op_state" and f
  assume "same_core s t1" "same_core t1 t" and run: "run_state (fetch_manifest_source E sm) t = (f, t')"
  then have core: "same_core s t" using frame_relD(2) [OF frame_rel_core] by blast
  show "post (case f of
       Inl e \<Rightarrow> State_Monad.return (Inl (StageFetch, ConditionSourceReady, sm, sf_reason e, sf_msg e))
     | Inr (content, revision) \<Rightarrow> manifest_decrypt_step E P sm content revision) t' ?Q"
    using core run
    by (intro post_sum post_prod post_return post_mono [OF manifest_decrypt_steps]) (simp, blast)
qed

section \<open>Samples\<close>

definition sample_manifest :: "string \<Rightarrow> int option \<Rightarrow> v2_sops_secret_manifest" where
  "sample_manifest override deleted =
     \<lparr>v2_sm_meta = sample_meta deleted,
      v2_sm_spec = \<lparr>
        v2_sms_source = \<lparr>v2_src_source_ref = \<lparr>v2_skf_kind = ''GitRepository'', v2_skf_name = ''g''\<rparr>, v2_src_path = ''s.yaml''\<rparr>,
        v2_sms_decryption = Some \<lparr>v2_dec_key_ref = \<lparr>v2_skr_name = ''age'', v2_skr_key = ''k'', v2_skr_namespace = []\<rparr>\<rparr>,
        v2_sms_target = \<lparr>v2_mft_namespace = [], v2_mft_name_override = override, v2_mft_adopt = False\<rparr>\<rparr>,
      v2_sm_status = \<lparr>v2_smt_last_applied_hash = [], v2_smt_last_synced_commit = [], v2_smt_last_token = [],
        v2_smt_observed_generation = 0, v2_smt_conditions = []\<rparr>\<rparr>"

definition manifest_cluster :: "secret list \<Rightarrow> int option \<Rightarrow> mem_cluster" where
  "manifest_cluster secrets deleted =
     (source_cluster secrets)\<lparr>cl_manifests := [(ObjectKey ''n'' ''s'', sample_manifest [] deleted)]\<rparr>"

text \<open>The file is a manifest that names itself \<open>out\<close>, and the namespace \<open>kube-system\<close>.\<close>

definition manifest_env :: "mem_cluster operator_env" where
  "manifest_env = mem_env True [] [] ''AGE''
     (one_doc [(''apiVersion'', YStr ''v1''), (''kind'', YStr ''Secret'')]
        ((new_secret ''out'' ''kube-system'')\<lparr>sec_string_data := Some [(''k'', ''v'')]\<rparr>))"

lemma manifest_env_ok: "env_ok manifest_env cl_view"
  unfolding manifest_env_def by (rule mem_env_ok)

lemma manifest_env_kube [simp]: "e_kube manifest_env = mem_kube"
  by (simp add: manifest_env_def)

lemma manifest_get:
  "run_state (k_get_manifest (e_kube manifest_env) (ObjectKey ''n'' ''s'')) (world (sample_state (manifest_cluster xs deleted)))
     = (Inr (sample_manifest [] deleted), manifest_cluster xs deleted)"
  by (simp add: mem_kube_def mem_get_def manifest_cluster_def)

lemma manifest_sample_prepare:
  "case run_state (manifest_prepare manifest_env no_policy (sample_manifest [] None))
          (snd (run_state (track_reconcile ''SopsSecretManifest'' ''n'' ''s'') (sample_state (manifest_cluster [] None)))) of
     (Inl _, _) \<Rightarrow> False
   | (Inr (sm, parsed, name, revision), t) \<Rightarrow> name = ''out'' \<and> cl_view (world t) (ObjectKey ''n'' ''out'') = None"
  by code_simp

lemma mem_manifest_apply_succeeds:
  fixes t :: "mem_cluster op_state"
  assumes "cl_view (world t) (ObjectKey (manifest_target_namespace sm) name) = None"
  shows "post (manifest_apply (mem_env up files docs key Y) sm parsed name revision) t
    (\<lambda>r _. r = Inr (requeue_after resyncAfter))"
proof -
  have update: "post (manifest_update_status mem_kube x res) u (\<lambda>r _. r = Inr res)" for x res and u :: "mem_cluster op_state"
    by (intro postI) (auto simp: manifest_update_status_def run_on_world mem_kube_def mem_put_def result_or_def)
  show ?thesis
    unfolding manifest_apply_def apply_manifest_secret_def Let_def mem_env_simps
    by (rule post_core [OF core_tracker(7)], rule post_core [OF core_tracker(3)], rule post_bind,
        rule post_mono [OF mem_apply_new [OF manifest_mut.target_mutator_axioms]])
      (use assms in \<open>auto simp: same_core_def intro!: update\<close>)
qed

lemma manifest_sample_succeeds:
  "\<exists>t. run_state (manifest_reconcile manifest_env no_policy (ObjectKey ''n'' ''s'')) (sample_state (manifest_cluster [] None))
     = (Inr (requeue_after resyncAfter), t)"
proof -
  let ?s = "sample_state (manifest_cluster [] None)" and ?sm = "sample_manifest [] None"
  define t0 where "t0 = snd (run_state (track_reconcile ''SopsSecretManifest'' ''n'' ''s'') ?s)"
  obtain p u where p: "run_state (manifest_prepare manifest_env no_policy ?sm) t0 = (p, u)" by fastforce
  obtain sm' parsed revision where r: "p = Inr (sm', parsed, ''out'', revision)" "cl_view (world u) (ObjectKey ''n'' ''out'') = None"
    using manifest_sample_prepare p unfolding t0_def by (auto split: sum.splits)
  have "manifest_target_namespace sm' = manifest_target_namespace ?sm"
    using manifest_prepare_same [OF p [unfolded r(1)]] by (simp add: manifest_target_namespace_def)
  then have key: "manifest_target_namespace sm' = ''n''"
    by (simp add: manifest_target_namespace_def sample_manifest_def)
  have sync: "fst (run_state (manifest_sync manifest_env no_policy ?sm) t0) = Inr (requeue_after resyncAfter)"
    using postD [OF mem_manifest_apply_succeeds [of u sm' "''out''", unfolded key, OF r(2)] surjective_pairing] p r(1)
    by (simp add: manifest_sync_def manifest_env_def)
  have got: "run_state (k_get_manifest mem_kube (ObjectKey ''n'' ''s'')) (world ?s) = (Inr ?sm, world ?s)"
    using manifest_get [of "[]" None] by simp
  have "fst (run_state (manifest_reconcile manifest_env no_policy (ObjectKey ''n'' ''s'')) ?s)
      = fst (run_state (manifest_sync manifest_env no_policy ?sm) t0)"
    unfolding manifest_reconcile_def manifest_reconcile_body_def Let_def manifest_env_kube
    by (rule trans [OF mem_alive_result [OF got _ _ refl]]) (simp_all add: sample_manifest_def t0_def)
  with sync show ?thesis by (metis prod.collapse)
qed

section \<open>Properties\<close>

text \<open>
C8: A reconcile of a SopsSecretManifest changes Secrets only in its target namespace, which the
  manifest cannot choose, and only under target.nameOverride if that is set. What it changes passed
  the adoption check, and afterwards is gone, or carries the owner markers and the manifest this
  sync prepared.
\<close>

theorem manifest_reconcile_confined:
  fixes s :: "'w op_state"
  assumes "env_ok E V" and "run_state (k_get_manifest (e_kube E) req) (world s) = (Inr sm, w)"
    and "run_state (manifest_reconcile E P req) s = (r, t)"
  shows "\<forall>k. V (world t) k = V (world s) k
    \<or> (ok_namespace k = manifest_target_namespace sm
       \<and> (v2_mft_name_override (v2_sms_target (v2_sm_spec sm)) \<noteq> []
          \<longrightarrow> ok_name k = v2_mft_name_override (v2_sms_target (v2_sm_spec sm)))
       \<and> (\<forall>x. V (world s) k = Some x \<longrightarrow>
             adoption_check (manifest_owner sm) (v2_mft_adopt (v2_sms_target (v2_sm_spec sm))) x = None)
       \<and> (\<forall>x. V (world t) k = Some x \<longrightarrow>
             (stamped (manifest_owner sm) x \<and> manifest_written E P sm (s\<lparr>world := w\<rparr>) x) \<or> deletion_pending x))"
  using postD [OF manifest_reconcile_effect [OF assms(1,2)] assms(3)]
  by (simp add: reconcile_effect_def owner_frame_def manifest_scope_def)

theorem manifest_reconcile_confined_witness:
  "\<exists>r t. run_state (manifest_reconcile manifest_env no_policy (ObjectKey ''n'' ''s'')) (sample_state (manifest_cluster [] None)) = (r, t)
     \<and> cl_view (world t) (ObjectKey ''kube-system'' ''out'') = None"
proof -
  let ?s = "sample_state (manifest_cluster [] None)"
  obtain r t where run: "run_state (manifest_reconcile manifest_env no_policy (ObjectKey ''n'' ''s'')) ?s = (r, t)" by fastforce
  have "cl_view (world ?s) (ObjectKey ''kube-system'' ''out'') = None"
    by (simp add: manifest_cluster_def source_cluster_def sample_age_secret_def stored_as_def cl_view_def secret_key_of_def
      meta_key_def)
  moreover have "manifest_target_namespace (sample_manifest [] None) = ''n''"
    by (simp add: manifest_target_namespace_def sample_manifest_def)
  ultimately show ?thesis
    using run manifest_reconcile_confined [OF manifest_env_ok manifest_get run]
    by (auto dest: spec [of _ "ObjectKey ''kube-system'' ''out''"])
qed

text \<open>
C3: When a reconcile of a SopsSecretManifest reports success, the Secret is there, under the target
  namespace and the name of the override or of the manifest, with the owner markers, and its type,
  data, labels and annotations are those of the manifest that SOPS gives for the source file under a
  permitted age key.
\<close>

theorem manifest_success_end_to_end:
  fixes s :: "'w op_state"
  assumes "env_ok E V" and "run_state (k_get_manifest (e_kube E) req) (world s) = (Inr sm, w)"
    and "run_state (manifest_reconcile E P req) s = (Inr (requeue_after resyncAfter), t)"
  shows "\<exists>x t1 t2 content revision plaintext parsed.
    V (world t) (ObjectKey (manifest_target_namespace sm) (manifest_target_name sm parsed)) = Some x
    \<and> stamped (manifest_owner sm) x
    \<and> same_core (s\<lparr>world := w\<rparr>) t1 \<and> run_state (fetch_manifest_source E sm) t1 = (Inr (content, revision), t2)
    \<and> decrypted_from E P (om_namespace (v2_sm_meta sm)) (key_ref_v2 (v2_sms_decryption (v2_sm_spec sm)))
        (v2_src_path (v2_sms_source (v2_sm_spec sm))) t2 content plaintext
    \<and> manifest_stage (e_yaml E) plaintext = Inr parsed
    \<and> manifest_out_ok sm parsed (hash_manifest_secret parsed) revision x"
proof -
  obtain k x where x: "V (world t) k = Some x" "stamped (manifest_owner sm) x"
      "manifest_written E P sm (s\<lparr>world := w\<rparr>) x"
    using postD [OF manifest_reconcile_effect [OF assms(1,2)] assms(3)] by (auto simp: reconcile_effect_def)
  then obtain t0 u sm' parsed revision where core: "same_core (s\<lparr>world := w\<rparr>) t0"
      and run: "run_state (manifest_prepare E P sm) t0 = (Inr (sm', parsed, manifest_target_name sm parsed, revision), u)"
      and out: "secret_key_of x = ObjectKey (manifest_target_namespace sm) (manifest_target_name sm parsed)"
        "manifest_out_ok sm parsed (hash_manifest_secret parsed) revision x"
    unfolding manifest_written_def by blast
  then obtain t1 t2 content where "same_core t0 t1" "run_state (fetch_manifest_source E sm) t1 = (Inr (content, revision), t2)"
      "manifest_decrypted E P sm t2 content parsed"
    using postD [OF manifest_prepare_steps run] by blast
  moreover have "same_core (s\<lparr>world := w\<rparr>) t1"
    using frame_relD(2) [OF frame_rel_core core \<open>same_core t0 t1\<close>] .
  moreover have "secret_key_of x = k" using env_okD(1) [OF assms(1)] x(1) by (simp add: kube_ok_def stored_ok_def)
  then have "V (world t) (ObjectKey (manifest_target_namespace sm) (manifest_target_name sm parsed)) = Some x"
    using x(1) out(1) by simp
  ultimately show ?thesis using x(2) out(2) by blast
qed

theorem manifest_success_end_to_end_witness:
  "\<exists>t x parsed. run_state (manifest_reconcile manifest_env no_policy (ObjectKey ''n'' ''s'')) (sample_state (manifest_cluster [] None))
       = (Inr (requeue_after resyncAfter), t)
     \<and> cl_view (world t) (ObjectKey ''n'' (manifest_target_name (sample_manifest [] None) parsed)) = Some x
     \<and> stamped ''SopsSecretManifest/n/s'' x"
proof -
  obtain t where run: "run_state (manifest_reconcile manifest_env no_policy (ObjectKey ''n'' ''s''))
      (sample_state (manifest_cluster [] None)) = (Inr (requeue_after resyncAfter), t)"
    using manifest_sample_succeeds by blast
  have "manifest_owner (sample_manifest [] None) = ''SopsSecretManifest/n/s''"
    "manifest_target_namespace (sample_manifest [] None) = ''n''"
    by (simp_all add: manifest_owner_def owner_key_def sample_manifest_def manifest_target_namespace_def)
  then show ?thesis
    using run manifest_success_end_to_end [OF manifest_env_ok manifest_get run] by auto
qed

text \<open>
C11: When the reconcile of a SopsSecretManifest that is being deleted ends without an error, no
  Secret in its scope carries its owner markers any more, whatever name its manifest gave it.
\<close>

theorem manifest_deletion_cleans:
  fixes s :: "'w op_state"
  assumes "env_ok E V" and "run_state (k_get_manifest (e_kube E) req) (world s) = (Inr sm, w)"
    and "\<not> time_is_zero (om_deletion_timestamp (v2_sm_meta sm))" and "Finalizer \<in> set (om_finalizers (v2_sm_meta sm))"
    and "run_state (manifest_reconcile E P req) s = (Inr res, t)"
  shows "\<forall>k x. manifest_scope sm k \<and> V (world t) k = Some x \<longrightarrow> \<not> owned_by (manifest_owner sm) x \<or> deletion_pending x"
proof -
  let ?C = "\<lambda>view. \<forall>k x. manifest_scope sm k \<and> view k = Some x \<longrightarrow> \<not> owned_by (manifest_owner sm) x \<or> deletion_pending x"
  have "post (manifest_reconcile E P req) s (\<lambda>r t. (\<exists>res. r = Inr res) \<longrightarrow> ?C (V (world t)))"
    unfolding manifest_reconcile_def manifest_reconcile_body_def Let_def
  proof (rule post_reconcile_cleaned [where C = ?C, OF assms(2) env_okD(1) [OF assms(1)] manifest_ops_quiet(2) [OF assms(1)]
        assms(3,4)])
    fix u v :: "'w op_state"
    assume "run_state (delete_owned_secret_if_known (e_kube E) sm) u = (None, v)"
    from manifest_delete_effect(2) [OF assms(1) this refl] show "?C (V (world v))" by blast
  qed (rule refl)
  from postD [OF this assms(5)] show ?thesis by blast
qed

theorem manifest_deletion_cleans_witness:
  "\<exists>t. run_state (manifest_reconcile manifest_env no_policy (ObjectKey ''n'' ''s''))
         (sample_state (manifest_cluster [sample_owned ''SopsSecretManifest/n/s'' (ObjectKey ''n'' ''out'')] (Some 1))) = (Inr no_result, t)
     \<and> (\<forall>x. cl_view (world t) (ObjectKey ''n'' ''out'') = Some x \<longrightarrow>
           \<not> owned_by (manifest_owner (sample_manifest [] (Some 1))) x \<or> deletion_pending x)"
proof -
  let ?s = "sample_state (manifest_cluster [sample_owned ''SopsSecretManifest/n/s'' (ObjectKey ''n'' ''out'')] (Some 1))"
  have "fst (run_state (manifest_reconcile manifest_env no_policy (ObjectKey ''n'' ''s'')) ?s) = Inr no_result" by code_simp
  then obtain t where run: "run_state (manifest_reconcile manifest_env no_policy (ObjectKey ''n'' ''s'')) ?s = (Inr no_result, t)"
    by (metis prod.collapse)
  have "\<not> time_is_zero (om_deletion_timestamp (v2_sm_meta (sample_manifest [] (Some 1))))"
    "Finalizer \<in> set (om_finalizers (v2_sm_meta (sample_manifest [] (Some 1))))"
    "manifest_scope (sample_manifest [] (Some 1)) (ObjectKey ''n'' ''out'')"
    by (simp_all add: sample_manifest_def time_is_zero_def manifest_scope_def manifest_target_namespace_def)
  with manifest_deletion_cleans [OF manifest_env_ok manifest_get this(1,2) run] run show ?thesis by blast
qed

end
