(* ===== verification/InlineSopsSecretCtl.thy ===== *)
theory InlineSopsSecretCtl
  imports Samples
begin

text \<open>
  \<open>internal/controller/inlinesopssecret_controller.go\<close>: the reconciler of an \<open>InlineSopsSecret\<close>,
  whose encrypted document is in the resource itself. It has no source and no watch; its mode says
  whether the document is a flat file to select from or a Secret manifest.
\<close>

section \<open>The resource\<close>

definition inlineSopsDecryptPath :: string where "inlineSopsDecryptPath = ''inline.yaml''"

definition inline_target_namespace :: "v1_inline_sops_secret \<Rightarrow> string" where
  "inline_target_namespace inl =
     (if v1_it_namespace (v1_iss_target (v1_is_spec inl)) = [] then om_namespace (v1_is_meta inl)
      else v1_it_namespace (v1_iss_target (v1_is_spec inl)))"

abbreviation inline_spec_name :: "v1_inline_sops_secret \<Rightarrow> string" where
  "inline_spec_name inl \<equiv> v1_it_name (v1_iss_target (v1_is_spec inl))"

definition inline_mapping_name :: "v1_inline_sops_secret \<Rightarrow> string" where
  "inline_mapping_name inl = (if inline_spec_name inl = [] then om_name (v1_is_meta inl) else inline_spec_name inl)"

definition inline_manifest_name :: "v1_inline_sops_secret \<Rightarrow> secret \<Rightarrow> string" where
  "inline_manifest_name inl parsed = (if inline_spec_name inl = [] then om_name (sec_meta parsed) else inline_spec_name inl)"

definition inline_owner :: "v1_inline_sops_secret \<Rightarrow> string" where
  "inline_owner inl = owner_key ''InlineSopsSecret'' (v1_is_meta inl)"

abbreviation inline_adopt :: "v1_inline_sops_secret \<Rightarrow> bool" where
  "inline_adopt inl \<equiv> v1_it_adopt (v1_iss_target (v1_is_spec inl))"

definition convert_inline_data_mappings :: "v1_data_mapping list option \<Rightarrow> data_mapping list" where
  "convert_inline_data_mappings ms =
     (case ms of
        None \<Rightarrow> []
      | Some xs \<Rightarrow> map (\<lambda>m. \<lparr>dm_key = v1_dm_key m, dm_from = v1_dm_from m\<rparr>) xs)"

definition inline_condition ::
  "'w kube \<Rightarrow> string \<Rightarrow> string \<Rightarrow> string \<Rightarrow> string \<Rightarrow> v1_inline_sops_secret \<Rightarrow> v1_inline_sops_secret" where
  "inline_condition K type status reason msg inl =
     inl\<lparr>v1_is_status := (v1_is_status inl)\<lparr>v1_ist_conditions :=
       set_condition K (v1_ist_conditions (v1_is_status inl)) type status reason msg\<rparr>\<rparr>"

lemma inline_condition_simps [simp]:
  "v1_is_meta (inline_condition K ty st re ms inl) = v1_is_meta inl"
  "v1_is_spec (inline_condition K ty st re ms inl) = v1_is_spec inl"
  by (simp_all add: inline_condition_def)

section \<open>Operations\<close>

definition inline_marks :: "v1_inline_sops_secret \<Rightarrow> string \<Rightarrow> (string \<times> string) list" where
  "inline_marks inl hash =
     [(OwnerAnnotation, inline_owner inl), (OwnerUIDAnnotation, om_uid (v1_is_meta inl)), (ContentHashAnnotation, hash)]"

text \<open>The mutate functions of \<open>applyInlineMappingSecret\<close> and \<open>applyInlineManifestSecret\<close>.\<close>

definition apply_inline_mapping_mutate :: "v1_inline_sops_secret \<Rightarrow> bytes gomap \<Rightarrow> string \<Rightarrow> mutate" where
  "apply_inline_mapping_mutate inl data hash secret =
     (case adoption_check (inline_owner inl) (inline_adopt inl) secret of
        Some e \<Rightarrow> Inl e
      | None \<Rightarrow>
          (case mark_secret None None (inline_marks inl hash) secret of
             None \<Rightarrow> Inl NilMapPanic
           | Some s \<Rightarrow>
               (let type = v1_it_type (v1_iss_target (v1_is_spec inl)) in
                Inr (s\<lparr>sec_type := (if type \<noteq> [] then type else type_or_opaque (sec_type s)), sec_data := data\<rparr>))))"

definition apply_inline_manifest_mutate :: "v1_inline_sops_secret \<Rightarrow> secret \<Rightarrow> string \<Rightarrow> mutate" where
  "apply_inline_manifest_mutate inl parsed hash out =
     (case adoption_check (inline_owner inl) (inline_adopt inl) out of
        Some e \<Rightarrow> Inl e
      | None \<Rightarrow>
          (case mark_secret (om_labels (sec_meta parsed)) (om_annotations (sec_meta parsed)) (inline_marks inl hash) out of
             None \<Rightarrow> Inl NilMapPanic
           | Some s \<Rightarrow>
               (let type = v1_it_type (v1_iss_target (v1_is_spec inl)) in
                Inr (s\<lparr>sec_type := (if type \<noteq> [] then type else type_or_opaque (sec_type parsed)),
                       sec_data := sec_data parsed, sec_string_data := None\<rparr>))))"

definition apply_inline_mapping_secret ::
  "'w kube \<Rightarrow> v1_inline_sops_secret \<Rightarrow> bytes gomap \<Rightarrow> string \<Rightarrow> ('w, 'x, apply_error option) op_prog" where
  "apply_inline_mapping_secret K inl data hash =
     on_world (k_create_or_update K (new_secret (inline_mapping_name inl) (inline_target_namespace inl))
       (apply_inline_mapping_mutate inl data hash))"

definition apply_inline_manifest_secret ::
  "'w kube \<Rightarrow> v1_inline_sops_secret \<Rightarrow> secret \<Rightarrow> string \<Rightarrow> string \<Rightarrow> string \<Rightarrow> ('w, 'x, apply_error option) op_prog" where
  "apply_inline_manifest_secret K inl parsed name namespace hash =
     on_world (k_create_or_update K (new_secret name namespace) (apply_inline_manifest_mutate inl parsed hash))"

definition delete_owned_secret_inline ::
  "'w kube \<Rightarrow> v1_inline_sops_secret \<Rightarrow> ('w, 'x, api_error option) op_prog" where
  "delete_owned_secret_inline K inl =
     (let ns = inline_target_namespace inl;
          name = (if inline_spec_name inl = [] \<and> v1_iss_mode (v1_is_spec inl) = InlineModeMapping
                  then om_name (v1_is_meta inl) else inline_spec_name inl) in
      if name \<noteq> [] then delete_if_owned K name ns (inline_owner inl)
      else delete_owned_scan K ns (inline_owner inl))"

definition inline_update_status ::
  "'w kube \<Rightarrow> v1_inline_sops_secret \<Rightarrow> ctrl_result \<Rightarrow> ('w, 'x, reconcile_result) op_prog" where
  "inline_update_status K inl res = do {
     err \<leftarrow> on_world (k_update_inline_status K inl);
     State_Monad.return (result_or err res)
   }"

definition fail_inline_status ::
  "'w kube \<Rightarrow> v1_inline_sops_secret \<Rightarrow> string \<Rightarrow> string \<Rightarrow> string \<Rightarrow> ('w, 'x, reconcile_result) op_prog" where
  "fail_inline_status K inl type reason msg =
     inline_update_status K (inline_condition K type condition_false reason msg inl) (requeue_after retryAfter)"

section \<open>The reconciler\<close>

text \<open>What the two modes yield: the selected data, or the parsed manifest and its name.\<close>

datatype inline_plan = MappingPlan "bytes gomap" | ManifestPlan secret string

definition inline_mode_step :: "yaml_lib \<Rightarrow> v1_inline_sops_secret \<Rightarrow> bytes \<Rightarrow> failure + string \<times> inline_plan" where
  "inline_mode_step Y inl plaintext =
     (let mode = v1_iss_mode (v1_is_spec inl) in
      if mode = InlineModeMapping then
        (case mapping_stage Y plaintext (convert_inline_data_mappings (v1_iss_data (v1_is_spec inl))) of
           Inl failure \<Rightarrow> Inl failure
         | Inr data \<Rightarrow> Inr (''decryption + mapping ok, '', MappingPlan data))
      else if mode = InlineModeManifest then
        (case manifest_stage Y plaintext of
           Inl failure \<Rightarrow> Inl failure
         | Inr parsed \<Rightarrow>
             (let name = inline_manifest_name inl parsed in
              if name = [] then Inl (''NameMissing'', ''manifest has no metadata.name and spec.target.name is not set'')
              else Inr (''decryption + validation ok, '', ManifestPlan parsed name)))
      else Inl (''InvalidMode'', ''unknown mode '' @ go_quote mode))"

type_synonym inline_prepared = "failure + v1_inline_sops_secret \<times> inline_plan"

definition inline_prepare ::
  "'w operator_env \<Rightarrow> credential_policy \<Rightarrow> v1_inline_sops_secret \<Rightarrow> ('w, 'x, inline_prepared) op_prog" where
  "inline_prepare E P inl = do {
     track_stage StageDecrypt;
     decrypted \<leftarrow> decrypt_stage E P (om_namespace (v1_is_meta inl)) (key_ref_v1 (v1_iss_decryption (v1_is_spec inl)))
       (v1_iss_encrypted_yaml (v1_is_spec inl)) inlineSopsDecryptPath;
     State_Monad.return (case decrypted of
         Inl failure \<Rightarrow> Inl failure
       | Inr (plaintext, keyOrigin) \<Rightarrow>
           (case inline_mode_step (e_yaml E) inl plaintext of
              Inl failure \<Rightarrow> Inl failure
            | Inr (ok, plan) \<Rightarrow>
                Inr (inline_condition (e_kube E) ConditionDecrypted condition_true ''Decrypted''
                       (ok @ describe_key_origin keyOrigin) inl, plan)))
   }"

text \<open>The end of both modes.\<close>

definition inline_finish ::
  "'w kube \<Rightarrow> v1_inline_sops_secret \<Rightarrow> string \<Rightarrow> string \<Rightarrow> apply_error option \<Rightarrow> ('w, 'x, reconcile_result) op_prog" where
  "inline_finish K inl hash msg applied =
     (case applied of
        Some e \<Rightarrow> do {
          track_fail StageApply (apply_error_text e);
          fail_inline_status K inl ConditionApplied ''ApplyFailed'' (apply_error_text e)
        }
      | None \<Rightarrow>
          (let inl1 = inline_condition K ConditionApplied condition_true ''Applied'' msg inl in
           inline_update_status K
             (inl1\<lparr>v1_is_status := (v1_is_status inl1)\<lparr>v1_ist_last_applied_hash := hash,
                v1_ist_last_token := gm_get (om_annotations (v1_is_meta inl1)) ReconcileRequestAnnotation,
                v1_ist_observed_generation := om_generation (v1_is_meta inl1)\<rparr>\<rparr>)
             (requeue_after resyncAfter)))"

definition inline_apply ::
  "'w operator_env \<Rightarrow> v1_inline_sops_secret \<Rightarrow> inline_plan \<Rightarrow> ('w, 'x, reconcile_result) op_prog" where
  "inline_apply E inl plan =
     (case plan of
        MappingPlan data \<Rightarrow> do {
          let hash = hash_secret_data data;
          set_content_hash hash;
          track_stage StageApply;
          applied \<leftarrow> apply_inline_mapping_secret (e_kube E) inl data hash;
          inline_finish (e_kube E) inl hash (''applied '' @ format_int (int (length (gm_entries data))) @ '' keys'') applied
        }
      | ManifestPlan parsed name \<Rightarrow> do {
          let ns = inline_target_namespace inl;
          let hash = hash_manifest_secret parsed;
          set_content_hash hash;
          track_stage StageApply;
          applied \<leftarrow> apply_inline_manifest_secret (e_kube E) inl parsed name ns hash;
          inline_finish (e_kube E) inl hash (''applied Secret '' @ ns @ ''/'' @ name) applied
        })"

definition inline_sync ::
  "'w operator_env \<Rightarrow> credential_policy \<Rightarrow> v1_inline_sops_secret \<Rightarrow> ('w, 'x, reconcile_result) op_prog" where
  "inline_sync E P inl = do {
     prepared \<leftarrow> inline_prepare E P inl;
     case prepared of
       Inl (reason, msg) \<Rightarrow> do {
         track_fail StageDecrypt msg;
         fail_inline_status (e_kube E) inl ConditionDecrypted reason msg
       }
     | Inr (inl', plan) \<Rightarrow> inline_apply E inl' plan
   }"

definition inline_reconcile_body ::
  "'w operator_env \<Rightarrow> credential_policy \<Rightarrow> objkey \<Rightarrow> ('w, 'x, reconcile_result) op_prog" where
  "inline_reconcile_body E P req = do {
     let K = e_kube E;
     got \<leftarrow> on_world (k_get_inline K req);
     case got of
       Inl e \<Rightarrow> State_Monad.return (get_failed e)
     | Inr inl \<Rightarrow>
         finalized K (v1_is_meta inl)
           (on_world (k_update_inline K (inl\<lparr>v1_is_meta := add_finalizer_meta K (v1_is_meta inl)\<rparr>)))
           (on_world (k_update_inline K (inl\<lparr>v1_is_meta := remove_finalizer_meta K (v1_is_meta inl)\<rparr>)))
           (delete_owned_secret_inline K inl)
           (inline_sync E P inl)
   }"

definition inline_reconcile ::
  "'w operator_env \<Rightarrow> credential_policy \<Rightarrow> objkey \<Rightarrow> ('w, 'x, reconcile_result) op_prog" where
  "inline_reconcile E P req = tracked ''InlineSopsSecret'' req (inline_reconcile_body E P req)"

section \<open>The mutate functions keep the contract\<close>

definition inline_out_ok :: "v1_inline_sops_secret \<Rightarrow> inline_plan \<Rightarrow> secret \<Rightarrow> bool" where
  "inline_out_ok inl plan x \<longleftrightarrow>
     (v1_it_type (v1_iss_target (v1_is_spec inl)) \<noteq> [] \<longrightarrow> sec_type x = v1_it_type (v1_iss_target (v1_is_spec inl)))
     \<and> sec_type x \<noteq> []
     \<and> (case plan of
          MappingPlan data \<Rightarrow>
            gm_lookup (sec_data x) = gm_lookup data
            \<and> (\<forall>(k, v) \<in> set (inline_marks inl (hash_secret_data data)). gm_lookup (om_annotations (sec_meta x)) k = Some v)
        | ManifestPlan parsed name \<Rightarrow>
            gm_lookup (sec_data x) = gm_lookup (sec_data parsed)
            \<and> (v1_it_type (v1_iss_target (v1_is_spec inl)) = [] \<longrightarrow> sec_type x = type_or_opaque (sec_type parsed))
            \<and> (\<forall>(k, v) \<in> set (inline_marks inl (hash_manifest_secret parsed)). gm_lookup (om_annotations (sec_meta x)) k = Some v)
            \<and> carries (om_labels (sec_meta parsed)) (om_annotations (sec_meta parsed))
                (inline_marks inl (hash_manifest_secret parsed)) (sec_meta x))"

lemma inline_out_ok_content: "inline_out_ok inl plan a \<Longrightarrow> same_content a b \<Longrightarrow> inline_out_ok inl plan b"
  by (cases plan) (auto simp: inline_out_ok_def same_content_def dest: carries_cong [of _ _ _ "sec_meta a" "sec_meta b"])

lemma inline_marks_distinct: "distinct (map fst (inline_marks inl hash))"
  by (simp add: inline_marks_def)

interpretation inline_mapping_mut: target_mutator
  "apply_inline_mapping_mutate inl data (hash_secret_data data)" "inline_owner inl" "inline_adopt inl"
  "inline_out_ok inl (MappingPlan data)" for inl data
proof
  fix base
  assume ok: "adoption_check (inline_owner inl) (inline_adopt inl) base = None"
  from mark_secret_result [OF inline_marks_distinct [of inl "hash_secret_data data"], of None None base] ok
  show "\<exists>out. apply_inline_mapping_mutate inl data (hash_secret_data data) base = Inr out \<and> stamped (inline_owner inl) out
      \<and> inline_out_ok inl (MappingPlan data) out"
    by (auto simp: apply_inline_mapping_mutate_def stamped_def inline_out_ok_def inline_marks_def type_or_opaque_def Let_def)
qed (auto simp: apply_inline_mapping_mutate_def elim: inline_out_ok_content)

interpretation inline_manifest_mut: target_mutator
  "apply_inline_manifest_mutate inl parsed (hash_manifest_secret parsed)" "inline_owner inl" "inline_adopt inl"
  "inline_out_ok inl (ManifestPlan parsed name)" for inl parsed name
proof
  fix base
  assume ok: "adoption_check (inline_owner inl) (inline_adopt inl) base = None"
  from mark_secret_result [OF inline_marks_distinct [of inl "hash_manifest_secret parsed"],
      of "om_labels (sec_meta parsed)" "om_annotations (sec_meta parsed)" base] ok
  show "\<exists>out. apply_inline_manifest_mutate inl parsed (hash_manifest_secret parsed) base = Inr out
      \<and> stamped (inline_owner inl) out \<and> inline_out_ok inl (ManifestPlan parsed name) out"
    by (auto simp: apply_inline_manifest_mutate_def stamped_def inline_out_ok_def inline_marks_def type_or_opaque_def Let_def)
qed (auto simp: apply_inline_manifest_mutate_def elim: inline_out_ok_content)

text \<open>Applying again to what was stored leaves it as it is.\<close>

lemma inline_mapping_mutate_again:
  assumes run: "apply_inline_mapping_mutate inl data (hash_secret_data data) base = Inr out" and same: "same_content out s"
  shows "\<exists>out'. apply_inline_mapping_mutate inl data (hash_secret_data data) s = Inr out' \<and> same_content out' s"
proof -
  have ok: "adoption_check (inline_owner inl) (inline_adopt inl) s = None"
    by (rule inline_mapping_mut.own_output [OF assms])
  from run obtain m where m: "mark_secret None None (inline_marks inl (hash_secret_data data)) base = Some m" "sec_meta out = sec_meta m"
    "sec_data out = data"
    "sec_type out = (if v1_it_type (v1_iss_target (v1_is_spec inl)) \<noteq> [] then v1_it_type (v1_iss_target (v1_is_spec inl))
       else type_or_opaque (sec_type m))"
    by (auto simp: apply_inline_mapping_mutate_def Let_def split: option.splits)
  from same have ty: "sec_type s = sec_type out" by (simp add: same_content_def)
  from mutate_again [OF m(1,2) same] obtain m' where m': "mark_secret None None (inline_marks inl (hash_secret_data data)) s = Some m'"
    "sec_type m' = sec_type s"
    "\<And>x. sec_meta x = sec_meta m' \<Longrightarrow> gm_lookup (sec_data x) = gm_lookup (sec_data out) \<Longrightarrow> sec_type x = sec_type out
      \<Longrightarrow> same_content x s" by blast
  show ?thesis
    using ok m'(1,2) m(3,4) ty
    by (auto simp: apply_inline_mapping_mutate_def Let_def type_or_opaque_def intro!: m'(3))
qed

lemma inline_manifest_mutate_again:
  assumes run: "apply_inline_manifest_mutate inl parsed (hash_manifest_secret parsed) base = Inr out" and same: "same_content out s"
  shows "\<exists>out'. apply_inline_manifest_mutate inl parsed (hash_manifest_secret parsed) s = Inr out' \<and> same_content out' s"
proof -
  have ok: "adoption_check (inline_owner inl) (inline_adopt inl) s = None"
    by (rule inline_manifest_mut.own_output [OF assms])
  from run obtain m where m: "mark_secret (om_labels (sec_meta parsed)) (om_annotations (sec_meta parsed))
      (inline_marks inl (hash_manifest_secret parsed)) base = Some m" "sec_meta out = sec_meta m" "sec_data out = sec_data parsed"
    "sec_type out = (if v1_it_type (v1_iss_target (v1_is_spec inl)) \<noteq> [] then v1_it_type (v1_iss_target (v1_is_spec inl))
       else type_or_opaque (sec_type parsed))"
    by (auto simp: apply_inline_manifest_mutate_def Let_def split: option.splits)
  from mutate_again [OF m(1,2) same] obtain m' where m': "mark_secret (om_labels (sec_meta parsed))
      (om_annotations (sec_meta parsed)) (inline_marks inl (hash_manifest_secret parsed)) s = Some m'"
    "\<And>x. sec_meta x = sec_meta m' \<Longrightarrow> gm_lookup (sec_data x) = gm_lookup (sec_data out) \<Longrightarrow> sec_type x = sec_type out
      \<Longrightarrow> same_content x s" by blast
  show ?thesis
    using ok m'(1) m(3,4) by (auto simp: apply_inline_manifest_mutate_def Let_def intro!: m'(2))
qed

section \<open>What a reconcile touches\<close>

lemma frame_case_plan:
  "(\<And>d. state_io_rel R (m1 d)) \<Longrightarrow> (\<And>p n. state_io_rel R (m2 p n))
    \<Longrightarrow> state_io_rel R (case plan of MappingPlan d \<Rightarrow> m1 d | ManifestPlan p n \<Rightarrow> m2 p n)"
  by (cases plan) auto

lemmas inline_ctl_defs = inline_reconcile_body_def inline_sync_def inline_prepare_def inline_apply_def inline_finish_def
  apply_inline_mapping_secret_def apply_inline_manifest_secret_def fail_inline_status_def inline_update_status_def
  delete_owned_secret_inline_def Let_def

lemma span_frame_inline: "state_io_rel span_frame (inline_reconcile_body E P req)"
  unfolding inline_ctl_defs by (intro span_ops span_frame_pipeline frame_finalized frame_rel_span frame_case_plan)

lemma quiet_inline_prepare: "env_ok E V \<Longrightarrow> state_io_rel (quiet V) (inline_prepare E P inl)"
  unfolding inline_prepare_def by (intro quiet_rules quiet_tracker quiet_pipeline)

lemma inline_ops_quiet:
  assumes "env_ok E V"
  shows "reads_only V (k_get_inline (e_kube E) req)" "reads_only V (k_update_inline (e_kube E) x)"
    "reads_only V (k_update_inline_status (e_kube E) x)"
  using env_okD(5) [OF assms] by (simp_all add: other_ops_ok_def)

lemma post_inline_status:
  assumes "env_ok E V"
  shows "post (inline_update_status (e_kube E) inl res) s
      (\<lambda>r t. V (world t) = V (world s) \<and> (r = Inr res \<or> (\<exists>e. r = Inl e)))"
    and "post (do { track_fail stg msg; fail_inline_status (e_kube E) inl ty re ms }) s
      (\<lambda>r t. V (world t) = V (world s) \<and> (r = Inr (requeue_after retryAfter) \<or> (\<exists>e. r = Inl e)))"
proof -
  show upd: "post (inline_update_status (e_kube E) inl res) s
      (\<lambda>r t. V (world t) = V (world s) \<and> (r = Inr res \<or> (\<exists>e. r = Inl e)))" for inl res s
    unfolding inline_update_status_def by (rule post_finish [OF inline_ops_quiet(3) [OF assms]])
  show "post (do { track_fail stg msg; fail_inline_status (e_kube E) inl ty re ms }) s
      (\<lambda>r t. V (world t) = V (world s) \<and> (r = Inr (requeue_after retryAfter) \<or> (\<exists>e. r = Inl e)))"
    unfolding fail_inline_status_def
    by (rule post_core [OF core_tracker(4)], rule post_mono [OF upd]) (auto simp: same_core_def)
qed

text \<open>The key a plan is written to.\<close>

definition inline_plan_key :: "v1_inline_sops_secret \<Rightarrow> inline_plan \<Rightarrow> objkey" where
  "inline_plan_key inl plan = ObjectKey (inline_target_namespace inl)
     (case plan of MappingPlan _ \<Rightarrow> inline_mapping_name inl | ManifestPlan _ name \<Rightarrow> name)"

lemma inline_apply_effect:
  assumes "env_ok E V"
  shows "post (inline_apply E inl plan) s (\<lambda>r t.
    sync_effect V (inline_plan_key inl plan) (inline_owner inl) (inline_adopt inl)
      (\<lambda>x. secret_key_of x = inline_plan_key inl plan \<and> inline_out_ok inl plan x) (world s) r (world t))"
proof (cases plan)
  case (MappingPlan data)
  show ?thesis
    unfolding inline_apply_def inline_finish_def apply_inline_mapping_secret_def inline_plan_key_def MappingPlan inline_plan.case Let_def
    by (rule post_core [OF core_tracker(7)], rule post_core [OF core_tracker(3)],
        rule post_mono [OF post_apply_finish [OF inline_mapping_mut.target_mutator_axioms env_okD(1) [OF assms]
          post_inline_status(2) [OF assms] post_inline_status(1) [OF assms]]])
      (auto simp: same_core_def)
next
  case (ManifestPlan parsed name)
  show ?thesis
    unfolding inline_apply_def inline_finish_def apply_inline_manifest_secret_def inline_plan_key_def ManifestPlan inline_plan.case Let_def
    by (rule post_core [OF core_tracker(7)], rule post_core [OF core_tracker(3)],
        rule post_mono [OF post_apply_finish [OF inline_manifest_mut.target_mutator_axioms env_okD(1) [OF assms]
          post_inline_status(2) [OF assms] post_inline_status(1) [OF assms]]])
      (auto simp: same_core_def)
qed

text \<open>The resource is changed in its conditions only.\<close>

lemma inline_prepare_same:
  assumes "run_state (inline_prepare E P inl) s = (Inr (inl', plan), t)"
  shows "v1_is_meta inl' = v1_is_meta inl \<and> v1_is_spec inl' = v1_is_spec inl
    \<and> (\<forall>data. plan = MappingPlan data \<longrightarrow> v1_iss_mode (v1_is_spec inl) = InlineModeMapping)
    \<and> (\<forall>parsed name. plan = ManifestPlan parsed name \<longrightarrow> v1_iss_mode (v1_is_spec inl) = InlineModeManifest
         \<and> name = inline_manifest_name inl parsed)"
  using assms
  by (auto simp: inline_prepare_def inline_mode_step_def Let_def split: prod.splits sum.splits if_splits)

definition inline_written ::
  "'w operator_env \<Rightarrow> credential_policy \<Rightarrow> v1_inline_sops_secret \<Rightarrow> 'w op_state \<Rightarrow> secret \<Rightarrow> bool" where
  "inline_written E P inl s x \<longleftrightarrow> (\<exists>t u inl' plan. same_core s t
     \<and> run_state (inline_prepare E P inl) t = (Inr (inl', plan), u)
     \<and> secret_key_of x = inline_plan_key inl plan \<and> inline_out_ok inl plan x)"

text \<open>Where the resource may write.\<close>

definition inline_scope :: "v1_inline_sops_secret \<Rightarrow> objkey \<Rightarrow> bool" where
  "inline_scope inl k \<longleftrightarrow> ok_namespace k = inline_target_namespace inl
     \<and> (inline_spec_name inl \<noteq> [] \<longrightarrow> ok_name k = inline_spec_name inl)
     \<and> (inline_spec_name inl = [] \<and> v1_iss_mode (v1_is_spec inl) = InlineModeMapping \<and> om_name (v1_is_meta inl) \<noteq> []
        \<longrightarrow> ok_name k = om_name (v1_is_meta inl))"

lemma inline_modes_distinct [simp]: "InlineModeMapping \<noteq> InlineModeManifest" "InlineModeManifest \<noteq> InlineModeMapping"
  by (simp_all add: InlineModeMapping_def InlineModeManifest_def)

lemma inline_sync_effect:
  fixes s :: "'w op_state"
  assumes env: "env_ok E V" and core: "same_core s0 s"
  shows "post (inline_sync E P inl) s (\<lambda>r t. reconcile_effect V (inline_scope inl) (inline_owner inl) (inline_adopt inl)
      (inline_written E P inl s0) alive (world s) r (world t))"
  unfolding inline_sync_def
proof (rule post_prepared_effect [OF quiet_inline_prepare [OF env]])
  fix f t
  show "post (case f of (reason, msg) \<Rightarrow>
        do { track_fail StageDecrypt msg; fail_inline_status (e_kube E) inl ConditionDecrypted reason msg }) t
      (\<lambda>r u. V (world u) = V (world t) \<and> (r = Inr (requeue_after retryAfter) \<or> (\<exists>e. r = Inl e)))"
    by (cases f) (simp add: post_inline_status(2) [OF env])
next
  fix p t
  assume run: "run_state (inline_prepare E P inl) s = (Inr p, t)"
  obtain inl' plan where p: "p = (inl', plan)" by (cases p)
  note same = inline_prepare_same [OF run [unfolded p]]
  have eqs: "inline_plan_key inl' = inline_plan_key inl" "inline_owner inl' = inline_owner inl"
    "inline_out_ok inl' = inline_out_ok inl" "v1_is_spec inl' = v1_is_spec inl"
    using same by (simp_all add: inline_plan_key_def inline_target_namespace_def inline_mapping_name_def inline_owner_def
        inline_out_ok_def inline_marks_def fun_eq_iff split: inline_plan.split)
  have "inline_scope inl (inline_plan_key inl plan)"
    using same by (cases plan) (auto simp: inline_scope_def inline_plan_key_def inline_mapping_name_def inline_manifest_name_def)
  moreover have "secret_key_of x = inline_plan_key inl plan \<Longrightarrow> inline_out_ok inl plan x \<Longrightarrow> inline_written E P inl s0 x" for x
    using run p core unfolding inline_written_def by blast
  ultimately show "post (case p of (inl', plan) \<Rightarrow> inline_apply E inl' plan) t
      (\<lambda>r u. \<exists>k. inline_scope inl k \<and> sync_effect V k (inline_owner inl) (inline_adopt inl)
        (inline_written E P inl s0) (world t) r (world u))"
    using inline_apply_effect [OF env, of inl' plan t]
    unfolding p prod.case eqs
    by (elim post_mono) (blast intro: sync_effect_mono)
qed

section \<open>The effect of a reconcile\<close>

lemma inline_delete_effect:
  assumes "env_ok E V" and "run_state (delete_owned_secret_inline (e_kube E) inl) s = (r, t)"
  shows "deletes_only V (inline_scope inl) (inline_owner inl) s t"
    and "r = None \<Longrightarrow> inline_scope inl k \<Longrightarrow> V (world t) k = Some x
      \<Longrightarrow> \<not> owned_by (inline_owner inl) x \<or> deletion_pending x"
proof -
  define name where "name = (if inline_spec_name inl = [] \<and> v1_iss_mode (v1_is_spec inl) = InlineModeMapping
      then om_name (v1_is_meta inl) else inline_spec_name inl)"
  note K = env_okD(1) [OF assms(1)]
  have run: "run_state (if name \<noteq> [] then delete_if_owned (e_kube E) name (inline_target_namespace inl) (inline_owner inl)
      else delete_owned_scan (e_kube E) (inline_target_namespace inl) (inline_owner inl)) s = (r, t)"
    using assms(2) unfolding delete_owned_secret_inline_def name_def Let_def .
  have scope: "inline_scope inl = (\<lambda>k. ok_namespace k = inline_target_namespace inl \<and> (name \<noteq> [] \<longrightarrow> ok_name k = name))"
    by (auto simp: inline_scope_def name_def fun_eq_iff)
  show "deletes_only V (inline_scope inl) (inline_owner inl) s t"
    using delete_owned_scan_effect(1) [OF K] delete_if_owned_effect(1) [OF K] run
    by (cases "name = []") (simp_all add: scope objkey_eq)
  assume r: "r = None" and k: "inline_scope inl k" and x: "V (world t) k = Some x"
  show "\<not> owned_by (inline_owner inl) x \<or> deletion_pending x"
  proof (cases "name = []")
    case True
    with delete_owned_scan_effect(2) [OF K _ r _ x] run k show ?thesis by (simp add: scope)
  next
    case False
    then have "k = ObjectKey (inline_target_namespace inl) name" using k by (simp add: scope objkey_eq)
    with delete_if_owned_effect(2) [OF K _ r, of name "inline_target_namespace inl" "inline_owner inl" s t x] run False x
    show ?thesis by simp
  qed
qed

lemma inline_reconcile_effect:
  fixes s :: "'w op_state"
  assumes env: "env_ok E V" and got: "run_state (k_get_inline (e_kube E) req) (world s) = (Inr inl, w)"
  shows "post (inline_reconcile E P req) s (\<lambda>r t.
    reconcile_effect V (inline_scope inl) (inline_owner inl) (inline_adopt inl)
      (inline_written E P inl (s\<lparr>world := w\<rparr>)) (time_is_zero (om_deletion_timestamp (v1_is_meta inl)))
      (world s) r (world t))"
  unfolding inline_reconcile_def inline_reconcile_body_def Let_def
  by (rule post_reconcile_effect [OF inline_ops_quiet(1) [OF env] got inline_ops_quiet(2) [OF env] inline_ops_quiet(2) [OF env]
      inline_delete_effect(1) [OF env] inline_sync_effect [OF env] refl])

lemma inline_prepare_steps:
  fixes s :: "'w op_state"
  shows "post (inline_prepare E P inl) s (\<lambda>r _. \<forall>inl' plan. r = Inr (inl', plan) \<longrightarrow>
    (\<exists>plaintext ok. decrypted_from E P (om_namespace (v1_is_meta inl)) (key_ref_v1 (v1_iss_decryption (v1_is_spec inl)))
        inlineSopsDecryptPath s (v1_iss_encrypted_yaml (v1_is_spec inl)) plaintext
      \<and> inline_mode_step (e_yaml E) inl plaintext = Inr (ok, plan)))"
  unfolding inline_prepare_def
  by (rule post_core [OF core_tracker(3)], rule post_bind,
      rule post_mono [OF post_decrypt_from], assumption, rule post_return) (auto split: sum.splits)

section \<open>Samples\<close>

definition sample_inline :: "string \<Rightarrow> int option \<Rightarrow> v1_inline_sops_secret" where
  "sample_inline mode deleted =
     \<lparr>v1_is_meta = sample_meta deleted,
      v1_is_spec = \<lparr>
        v1_iss_mode = mode, v1_iss_encrypted_yaml = ''user: bob'',
        v1_iss_decryption = Some \<lparr>v1_dec_key_ref = \<lparr>v1_skr_name = ''age'', v1_skr_key = ''k'', v1_skr_namespace = []\<rparr>\<rparr>,
        v1_iss_target = \<lparr>v1_it_name = [], v1_it_namespace = [], v1_it_type = [], v1_it_adopt = False\<rparr>,
        v1_iss_data = Some [\<lparr>v1_dm_key = ''USER'', v1_dm_from = ''user''\<rparr>]\<rparr>,
      v1_is_status = \<lparr>v1_ist_last_applied_hash = [], v1_ist_last_token = [],
        v1_ist_observed_generation = 0, v1_ist_conditions = []\<rparr>\<rparr>"

definition inline_cluster :: "secret list \<Rightarrow> string \<Rightarrow> int option \<Rightarrow> mem_cluster" where
  "inline_cluster secrets mode deleted =
     (source_cluster secrets)\<lparr>cl_inlines := [(ObjectKey ''n'' ''s'', sample_inline mode deleted)]\<rparr>"

definition inline_env :: "mem_cluster operator_env" where
  "inline_env = mem_env True [] [] ''AGE'' (one_doc [(''user'', YStr ''bob'')] (new_secret [] []))"

lemma inline_env_ok: "env_ok inline_env cl_view"
  unfolding inline_env_def by (rule mem_env_ok)

lemma inline_env_kube [simp]: "e_kube inline_env = mem_kube"
  by (simp add: inline_env_def)

lemma inline_get:
  "run_state (k_get_inline (e_kube inline_env) (ObjectKey ''n'' ''s'')) (world (sample_state (inline_cluster xs mode deleted)))
     = (Inr (sample_inline mode deleted), inline_cluster xs mode deleted)"
  by (simp add: mem_kube_def mem_get_def inline_cluster_def)

lemma inline_sample_prepare:
  "case run_state (inline_prepare inline_env no_policy (sample_inline ''Mapping'' None))
          (snd (run_state (track_reconcile ''InlineSopsSecret'' ''n'' ''s'') (sample_state (inline_cluster [] ''Mapping'' None)))) of
     (Inl _, _) \<Rightarrow> False
   | (Inr (inl, plan), t) \<Rightarrow> plan = MappingPlan (Some [(''USER'', ''bob'')]) \<and> cl_view (world t) (ObjectKey ''n'' ''s'') = None"
  by code_simp

lemma mem_inline_apply_succeeds:
  fixes t :: "mem_cluster op_state"
  assumes "cl_view (world t) (inline_plan_key inl (MappingPlan data)) = None"
  shows "post (inline_apply (mem_env up files docs key Y) inl (MappingPlan data)) t (\<lambda>r _. r = Inr (requeue_after resyncAfter))"
proof -
  have update: "post (inline_update_status mem_kube x res) u (\<lambda>r _. r = Inr res)" for x res and u :: "mem_cluster op_state"
    by (intro postI) (auto simp: inline_update_status_def run_on_world mem_kube_def mem_put_def result_or_def)
  show ?thesis
    unfolding inline_apply_def inline_finish_def apply_inline_mapping_secret_def inline_plan.case Let_def mem_env_simps
    by (rule post_core [OF core_tracker(7)], rule post_core [OF core_tracker(3)], rule post_bind,
        rule post_mono [OF mem_apply_new [OF inline_mapping_mut.target_mutator_axioms]])
      (use assms in \<open>auto simp: same_core_def inline_plan_key_def intro!: update\<close>)
qed

lemma inline_sample_succeeds:
  "\<exists>t. run_state (inline_reconcile inline_env no_policy (ObjectKey ''n'' ''s'')) (sample_state (inline_cluster [] ''Mapping'' None))
     = (Inr (requeue_after resyncAfter), t)"
proof -
  let ?s = "sample_state (inline_cluster [] ''Mapping'' None)" and ?inl = "sample_inline ''Mapping'' None"
  let ?plan = "MappingPlan (Some [(''USER'', ''bob'')])"
  define t0 where "t0 = snd (run_state (track_reconcile ''InlineSopsSecret'' ''n'' ''s'') ?s)"
  obtain p u where p: "run_state (inline_prepare inline_env no_policy ?inl) t0 = (p, u)" by fastforce
  obtain inl' where r: "p = Inr (inl', ?plan)" "cl_view (world u) (ObjectKey ''n'' ''s'') = None"
    using inline_sample_prepare p unfolding t0_def by (auto split: sum.splits)
  have "inline_plan_key inl' ?plan = inline_plan_key ?inl ?plan"
    using inline_prepare_same [OF p [unfolded r(1)]]
    by (simp add: inline_plan_key_def inline_target_namespace_def inline_mapping_name_def)
  then have key: "inline_plan_key inl' ?plan = ObjectKey ''n'' ''s''"
    by (simp add: inline_plan_key_def inline_target_namespace_def inline_mapping_name_def sample_inline_def)
  have sync: "fst (run_state (inline_sync inline_env no_policy ?inl) t0) = Inr (requeue_after resyncAfter)"
    using postD [OF mem_inline_apply_succeeds [of u inl' "Some [(''USER'', ''bob'')]", unfolded key, OF r(2)] surjective_pairing] p r(1)
    by (simp add: inline_sync_def inline_env_def)
  have got: "run_state (k_get_inline mem_kube (ObjectKey ''n'' ''s'')) (world ?s) = (Inr ?inl, world ?s)"
    using inline_get [of "[]" "''Mapping''" None] by simp
  have "fst (run_state (inline_reconcile inline_env no_policy (ObjectKey ''n'' ''s'')) ?s)
      = fst (run_state (inline_sync inline_env no_policy ?inl) t0)"
    unfolding inline_reconcile_def inline_reconcile_body_def Let_def inline_env_kube
    by (rule trans [OF mem_alive_result [OF got _ _ refl]]) (simp_all add: sample_inline_def t0_def)
  with sync show ?thesis by (metis prod.collapse)
qed

section \<open>Properties\<close>

text \<open>
C9: A reconcile of an InlineSopsSecret changes Secrets only in its target namespace, and only under
  target.name or, in mapping mode, its own name. What it changes passed the adoption check, and
  afterwards is gone, or carries the owner markers and what this sync prepared.
\<close>

theorem inline_reconcile_confined:
  fixes s :: "'w op_state"
  assumes "env_ok E V" and "run_state (k_get_inline (e_kube E) req) (world s) = (Inr inl, w)"
    and "run_state (inline_reconcile E P req) s = (r, t)"
  shows "\<forall>k. V (world t) k = V (world s) k
    \<or> (inline_scope inl k
       \<and> (\<forall>x. V (world s) k = Some x \<longrightarrow> adoption_check (inline_owner inl) (inline_adopt inl) x = None)
       \<and> (\<forall>x. V (world t) k = Some x \<longrightarrow>
             (stamped (inline_owner inl) x \<and> inline_written E P inl (s\<lparr>world := w\<rparr>) x) \<or> deletion_pending x))"
  using postD [OF inline_reconcile_effect [OF assms(1,2)] assms(3)]
  by (simp add: reconcile_effect_def owner_frame_def)

theorem inline_reconcile_confined_witness:
  "\<exists>r t. run_state (inline_reconcile inline_env no_policy (ObjectKey ''n'' ''s''))
         (sample_state (inline_cluster [] ''Mapping'' None)) = (r, t)
     \<and> cl_view (world t) (ObjectKey ''n'' ''age'') = Some sample_age_secret"
proof -
  let ?s = "sample_state (inline_cluster [] ''Mapping'' None)"
  obtain r t where run: "run_state (inline_reconcile inline_env no_policy (ObjectKey ''n'' ''s'')) ?s = (r, t)" by fastforce
  have "cl_view (world ?s) (ObjectKey ''n'' ''age'') = Some sample_age_secret"
    by (simp add: inline_cluster_def source_cluster_def age_secret_stored del: list.map)
  moreover have "\<not> inline_scope (sample_inline ''Mapping'' None) (ObjectKey ''n'' ''age'')"
    by (simp add: inline_scope_def sample_inline_def InlineModeMapping_def)
  ultimately show ?thesis
    using run inline_reconcile_confined [OF inline_env_ok inline_get run] by (metis (no_types))
qed

text \<open>
C4: When a reconcile of an InlineSopsSecret reports success, the Secret is there with the owner
  markers, and holds what its mode makes of the plaintext that SOPS gives for the document in the
  resource under a permitted age key: the mapped keys, or the manifest.
\<close>

theorem inline_success_end_to_end:
  fixes s :: "'w op_state"
  assumes "env_ok E V" and "run_state (k_get_inline (e_kube E) req) (world s) = (Inr inl, w)"
    and "run_state (inline_reconcile E P req) s = (Inr (requeue_after resyncAfter), t)"
  shows "\<exists>x t1 plaintext ok plan.
    V (world t) (inline_plan_key inl plan) = Some x \<and> stamped (inline_owner inl) x
    \<and> same_core (s\<lparr>world := w\<rparr>) t1
    \<and> decrypted_from E P (om_namespace (v1_is_meta inl)) (key_ref_v1 (v1_iss_decryption (v1_is_spec inl)))
        inlineSopsDecryptPath t1 (v1_iss_encrypted_yaml (v1_is_spec inl)) plaintext
    \<and> inline_mode_step (e_yaml E) inl plaintext = Inr (ok, plan)
    \<and> inline_out_ok inl plan x"
proof -
  obtain k x where x: "V (world t) k = Some x" "stamped (inline_owner inl) x" "inline_written E P inl (s\<lparr>world := w\<rparr>) x"
    using postD [OF inline_reconcile_effect [OF assms(1,2)] assms(3)] by (auto simp: reconcile_effect_def)
  then obtain t0 u inl' plan where core: "same_core (s\<lparr>world := w\<rparr>) t0"
      and run: "run_state (inline_prepare E P inl) t0 = (Inr (inl', plan), u)"
      and out: "secret_key_of x = inline_plan_key inl plan" "inline_out_ok inl plan x"
    unfolding inline_written_def by blast
  have "secret_key_of x = k" using env_okD(1) [OF assms(1)] x(1) by (simp add: kube_ok_def stored_ok_def)
  then have "V (world t) (inline_plan_key inl plan) = Some x" using x(1) out(1) by simp
  then show ?thesis using postD [OF inline_prepare_steps run] core x(2) out(2) by blast
qed

theorem inline_success_end_to_end_witness:
  "\<exists>t x plan. run_state (inline_reconcile inline_env no_policy (ObjectKey ''n'' ''s''))
         (sample_state (inline_cluster [] ''Mapping'' None)) = (Inr (requeue_after resyncAfter), t)
     \<and> cl_view (world t) (inline_plan_key (sample_inline ''Mapping'' None) plan) = Some x
     \<and> stamped ''InlineSopsSecret/n/s'' x"
proof -
  obtain t where run: "run_state (inline_reconcile inline_env no_policy (ObjectKey ''n'' ''s''))
      (sample_state (inline_cluster [] ''Mapping'' None)) = (Inr (requeue_after resyncAfter), t)"
    using inline_sample_succeeds by blast
  have "inline_owner (sample_inline ''Mapping'' None) = ''InlineSopsSecret/n/s''"
    by (simp add: inline_owner_def owner_key_def sample_inline_def)
  then show ?thesis
    using run inline_success_end_to_end [OF inline_env_ok inline_get run] by auto
qed

text \<open>
When the reconcile of an InlineSopsSecret that is being deleted ends without an error, no
  Secret in its scope carries its owner markers any more.
\<close>

theorem inline_deletion_cleans:
  fixes s :: "'w op_state"
  assumes "env_ok E V" and "run_state (k_get_inline (e_kube E) req) (world s) = (Inr inl, w)"
    and "\<not> time_is_zero (om_deletion_timestamp (v1_is_meta inl))" and "Finalizer \<in> set (om_finalizers (v1_is_meta inl))"
    and "run_state (inline_reconcile E P req) s = (Inr res, t)"
  shows "\<forall>k x. inline_scope inl k \<and> V (world t) k = Some x \<longrightarrow> \<not> owned_by (inline_owner inl) x \<or> deletion_pending x"
proof -
  let ?C = "\<lambda>view. \<forall>k x. inline_scope inl k \<and> view k = Some x \<longrightarrow> \<not> owned_by (inline_owner inl) x \<or> deletion_pending x"
  have "post (inline_reconcile E P req) s (\<lambda>r t. (\<exists>res. r = Inr res) \<longrightarrow> ?C (V (world t)))"
    unfolding inline_reconcile_def inline_reconcile_body_def Let_def
  proof (rule post_reconcile_cleaned [where C = ?C, OF assms(2) env_okD(1) [OF assms(1)] inline_ops_quiet(2) [OF assms(1)]
        assms(3,4)])
    fix u v :: "'w op_state"
    assume "run_state (delete_owned_secret_inline (e_kube E) inl) u = (None, v)"
    from inline_delete_effect(2) [OF assms(1) this refl] show "?C (V (world v))" by blast
  qed (rule refl)
  from postD [OF this assms(5)] show ?thesis by blast
qed

theorem inline_deletion_cleans_witness:
  "\<exists>t. run_state (inline_reconcile inline_env no_policy (ObjectKey ''n'' ''s''))
         (sample_state (inline_cluster [sample_owned ''InlineSopsSecret/n/s'' (ObjectKey ''n'' ''out'')] ''Manifest'' (Some 1)))
         = (Inr no_result, t)
     \<and> (\<forall>x. cl_view (world t) (ObjectKey ''n'' ''out'') = Some x \<longrightarrow>
           \<not> owned_by (inline_owner (sample_inline ''Manifest'' (Some 1))) x \<or> deletion_pending x)"
proof -
  let ?s = "sample_state (inline_cluster [sample_owned ''InlineSopsSecret/n/s'' (ObjectKey ''n'' ''out'')] ''Manifest'' (Some 1))"
  have "fst (run_state (inline_reconcile inline_env no_policy (ObjectKey ''n'' ''s'')) ?s) = Inr no_result" by code_simp
  then obtain t where run: "run_state (inline_reconcile inline_env no_policy (ObjectKey ''n'' ''s'')) ?s = (Inr no_result, t)"
    by (metis prod.collapse)
  have "\<not> time_is_zero (om_deletion_timestamp (v1_is_meta (sample_inline ''Manifest'' (Some 1))))"
    "Finalizer \<in> set (om_finalizers (v1_is_meta (sample_inline ''Manifest'' (Some 1))))"
    "inline_scope (sample_inline ''Manifest'' (Some 1)) (ObjectKey ''n'' ''out'')"
    by (simp_all add: sample_inline_def time_is_zero_def inline_scope_def inline_target_namespace_def InlineModeMapping_def)
  with inline_deletion_cleans [OF inline_env_ok inline_get this(1,2) run] run show ?thesis by blast
qed

end
