(* ===== verification/System.thy ===== *)
theory System
  imports SopsSecretCtl SopsSecretManifestCtl InlineSopsSecretCtl
begin

text \<open>
  The operator as a whole: the five controllers that \<open>cmd/main.go\<close> registers, and sequences of their
  reconciles interleaved with what other clients do to the cluster.
\<close>

section \<open>The controllers\<close>

datatype controller =
    GitRepositoryController | ObjectSourceController | SopsSecretController | ManifestController | InlineController

fun controller_kind :: "controller \<Rightarrow> string" where
  "controller_kind GitRepositoryController = ''GitRepository''"
| "controller_kind ObjectSourceController = ''ObjectSource''"
| "controller_kind SopsSecretController = ''SopsSecret''"
| "controller_kind ManifestController = ''SopsSecretManifest''"
| "controller_kind InlineController = ''InlineSopsSecret''"

fun reconcile_body ::
  "'w operator_env \<Rightarrow> credential_policy \<Rightarrow> controller \<Rightarrow> objkey \<Rightarrow> ('w, 'x, reconcile_result) op_prog" where
  "reconcile_body E P GitRepositoryController req = git_reconcile_body E P req"
| "reconcile_body E P ObjectSourceController req = object_reconcile_body E P req"
| "reconcile_body E P SopsSecretController req = sops_reconcile_body E P req"
| "reconcile_body E P ManifestController req = manifest_reconcile_body E P req"
| "reconcile_body E P InlineController req = inline_reconcile_body E P req"

definition reconcile ::
  "'w operator_env \<Rightarrow> credential_policy \<Rightarrow> controller \<Rightarrow> objkey \<Rightarrow> ('w, 'x, reconcile_result) op_prog" where
  "reconcile E P c req = tracked (controller_kind c) req (reconcile_body E P c req)"

lemma reconcile_simps [simp]:
  "reconcile E P GitRepositoryController req = git_reconcile E P req"
  "reconcile E P ObjectSourceController req = object_reconcile E P req"
  "reconcile E P SopsSecretController req = sops_reconcile E P req"
  "reconcile E P ManifestController req = manifest_reconcile E P req"
  "reconcile E P InlineController req = inline_reconcile E P req"
  by (simp_all add: reconcile_def git_reconcile_def object_reconcile_def sops_reconcile_def manifest_reconcile_def
      inline_reconcile_def)

lemma span_frame_body: "state_io_rel span_frame (reconcile_body E P c req)"
  by (cases c) (simp_all add: span_frame_git span_frame_object span_frame_sops span_frame_manifest span_frame_inline)

text \<open>
  In whose name a reconcile writes Secrets, and whether it may adopt: nobody's, for the two source
  controllers, and for a resource that is not there.
\<close>

fun acting :: "'w operator_env \<Rightarrow> controller \<Rightarrow> objkey \<Rightarrow> 'w \<Rightarrow> (string \<times> bool) option" where
  "acting E GitRepositoryController req w = None"
| "acting E ObjectSourceController req w = None"
| "acting E SopsSecretController req w =
     (case fst (run_state (k_get_sops_secret (e_kube E) req) w) of
        Inl _ \<Rightarrow> None
      | Inr ss \<Rightarrow> Some (sops_owner ss, v2_mt_adopt (v2_sss_target (v2_ss_spec ss))))"
| "acting E ManifestController req w =
     (case fst (run_state (k_get_manifest (e_kube E) req) w) of
        Inl _ \<Rightarrow> None
      | Inr sm \<Rightarrow> Some (manifest_owner sm, v2_mft_adopt (v2_sms_target (v2_sm_spec sm))))"
| "acting E InlineController req w =
     (case fst (run_state (k_get_inline (e_kube E) req) w) of
        Inl _ \<Rightarrow> None
      | Inr inl \<Rightarrow> Some (inline_owner inl, inline_adopt inl))"

text \<open>A reconcile that cannot read its resource touches nothing.\<close>

lemma get_failed_quiet:
  fixes s :: "('w, 'x) op_state_scheme"
  assumes "reads_only V get" and "fst (run_state get (world s)) = Inl e"
  shows "post (tracked kind req (do { got \<leftarrow> on_world get; case got of Inl e \<Rightarrow> State_Monad.return (get_failed e) | Inr x \<Rightarrow> rest x })) s
    (\<lambda>r t. V (world t) = V (world s))"
proof (rule post_tracked)
  fix t :: "('w, 'x) op_state_scheme" assume "same_core s t"
  then have "world t = world s" by (simp add: same_core_def)
  then show "post (do { got \<leftarrow> on_world get; case got of Inl e \<Rightarrow> State_Monad.return (get_failed e) | Inr x \<Rightarrow> rest x }) t
      (\<lambda>r u. \<forall>v. same_core u v \<longrightarrow> V (world v) = V (world s))"
    using assms by (intro postI) (auto simp: run_on_world same_core_def reads_only_def)
qed

text \<open>What one reconcile does to the stored Secrets.\<close>

lemma reconcile_effect_changed:
  assumes "reconcile_effect V Q owner adopt D alive w r w'" and "V w' k \<noteq> V w k"
  shows "V w k = Some x \<Longrightarrow> adoption_check owner adopt x = None"
    and "V w' k = Some y \<Longrightarrow> stamped owner y \<or> deletion_pending y"
proof -
  have "owner_frame V Q owner adopt D w w'" using assms(1) by (simp add: reconcile_effect_def)
  with assms(2) have *: "(\<forall>x. V w k = Some x \<longrightarrow> adoption_check owner adopt x = None)
      \<and> (\<forall>y. V w' k = Some y \<longrightarrow> (stamped owner y \<and> D y) \<or> deletion_pending y)"
    unfolding owner_frame_def by blast
  from * show "V w k = Some x \<Longrightarrow> adoption_check owner adopt x = None" by blast
  from * show "V w' k = Some y \<Longrightarrow> stamped owner y \<or> deletion_pending y" by blast
qed

lemma reconcile_step:
  fixes s :: "'w op_state"
  assumes env: "env_ok E V" and run: "run_state (reconcile E P c req) s = (r, t)" and changed: "V (world t) k \<noteq> V (world s) k"
  obtains owner adopt where "acting E c req (world s) = Some (owner, adopt)"
    and "\<And>x. V (world s) k = Some x \<Longrightarrow> adoption_check owner adopt x = None"
    and "\<And>x. V (world t) k = Some x \<Longrightarrow> stamped owner x \<or> deletion_pending x"
proof (cases c)
  case GitRepositoryController
  have "quiet V s t" by (rule frame_run [OF quiet_git [OF env]]) (use run GitRepositoryController in simp)
  with changed show ?thesis by (simp add: quiet_def)
next
  case ObjectSourceController
  have "quiet V s t" by (rule frame_run [OF quiet_object [OF env]]) (use run ObjectSourceController in simp)
  with changed show ?thesis by (simp add: quiet_def)
next
  case SopsSecretController
  obtain got w where got: "run_state (k_get_sops_secret (e_kube E) req) (world s) = (got, w)" by fastforce
  show ?thesis
  proof (cases got)
    case (Inl e)
    then have "fst (run_state (k_get_sops_secret (e_kube E) req) (world s)) = Inl e" using got by simp
    from postD [OF get_failed_quiet [OF sops_ops_quiet(1) [OF env] this]]
      run [unfolded SopsSecretController reconcile_simps sops_reconcile_def sops_reconcile_body_def Let_def]
    have "V (world t) = V (world s)" .
    with changed show ?thesis by simp
  next
    case (Inr ss)
    note changes = reconcile_effect_changed [OF postD [OF sops_reconcile_effect [OF env got [unfolded Inr]]
        run [unfolded SopsSecretController reconcile_simps]] changed]
    show ?thesis
      by (rule that [of "sops_owner ss" "v2_mt_adopt (v2_sss_target (v2_ss_spec ss))"])
        (use got Inr SopsSecretController changes in auto)
  qed
next
  case ManifestController
  obtain got w where got: "run_state (k_get_manifest (e_kube E) req) (world s) = (got, w)" by fastforce
  show ?thesis
  proof (cases got)
    case (Inl e)
    then have "fst (run_state (k_get_manifest (e_kube E) req) (world s)) = Inl e" using got by simp
    from postD [OF get_failed_quiet [OF manifest_ops_quiet(1) [OF env] this]]
      run [unfolded ManifestController reconcile_simps manifest_reconcile_def manifest_reconcile_body_def Let_def]
    have "V (world t) = V (world s)" .
    with changed show ?thesis by simp
  next
    case (Inr sm)
    note changes = reconcile_effect_changed [OF postD [OF manifest_reconcile_effect [OF env got [unfolded Inr]]
        run [unfolded ManifestController reconcile_simps]] changed]
    show ?thesis
      by (rule that [of "manifest_owner sm" "v2_mft_adopt (v2_sms_target (v2_sm_spec sm))"])
        (use got Inr ManifestController changes in auto)
  qed
next
  case InlineController
  obtain got w where got: "run_state (k_get_inline (e_kube E) req) (world s) = (got, w)" by fastforce
  show ?thesis
  proof (cases got)
    case (Inl e)
    then have "fst (run_state (k_get_inline (e_kube E) req) (world s)) = Inl e" using got by simp
    from postD [OF get_failed_quiet [OF inline_ops_quiet(1) [OF env] this]]
      run [unfolded InlineController reconcile_simps inline_reconcile_def inline_reconcile_body_def Let_def]
    have "V (world t) = V (world s)" .
    with changed show ?thesis by simp
  next
    case (Inr inl)
    note changes = reconcile_effect_changed [OF postD [OF inline_reconcile_effect [OF env got [unfolded Inr]]
        run [unfolded InlineController reconcile_simps]] changed]
    show ?thesis
      by (rule that [of "inline_owner inl" "inline_adopt inl"])
        (use got Inr InlineController changes in auto)
  qed
qed

text \<open>
  The contract of the operator towards the Secrets of the cluster, over the store alone: nobody
  writes, or one owner does, and then each Secret that changes was absent or open to that owner, and
  is afterwards gone, going, or marked as the owner's.
\<close>

type_synonym store = "objkey \<Rightarrow> secret option"

fun store_step :: "(string \<times> bool) option \<Rightarrow> store \<Rightarrow> store \<Rightarrow> bool" where
  "store_step None old new \<longleftrightarrow> new = old"
| "store_step (Some (owner, adopt)) old new \<longleftrightarrow> (\<forall>k. new k = old k \<or>
     (\<forall>x. old k = Some x \<longrightarrow> adoption_check owner adopt x = None)
     \<and> (\<forall>y. new k = Some y \<longrightarrow> stamped owner y \<or> deletion_pending y))"

section \<open>Sequences of reconciles\<close>

text \<open>
  Any number of reconciles of any of the controllers, each in a name that \<open>ok\<close> admits, between which
  other clients may do anything to the cluster that leaves the Secret at \<open>k\<close> alone.
\<close>

inductive operates ::
  "'w operator_env \<Rightarrow> credential_policy \<Rightarrow> 'w view \<Rightarrow> objkey \<Rightarrow> ((string \<times> bool) option \<Rightarrow> bool)
    \<Rightarrow> 'w op_state \<Rightarrow> 'w op_state \<Rightarrow> bool"
  for E P V k ok s where
  start: "operates E P V k ok s s"
| reconciles: "operates E P V k ok s t \<Longrightarrow> ok (acting E c req (world t))
    \<Longrightarrow> run_state (reconcile E P c req) t = (r, u) \<Longrightarrow> operates E P V k ok s u"
| others: "operates E P V k ok s t \<Longrightarrow> V w k = V (world t) k \<Longrightarrow> operates E P V k ok s (t\<lparr>world := w\<rparr>)"

lemma operates_keeps:
  assumes "operates E P V k ok s t" and env: "env_ok E V" and "V (world s) k = Some x"
    and refused: "\<And>owner adopt. ok (Some (owner, adopt)) \<Longrightarrow> adoption_check owner adopt x \<noteq> None"
  shows "V (world t) k = Some x"
  using assms(1)
proof induction
  case start
  show ?case by (rule assms(3))
next
  case (reconciles t c req r u)
  show ?case
  proof (cases "V (world u) k = V (world t) k")
    case True
    with reconciles.IH show ?thesis by simp
  next
    case False
    then obtain owner adopt where "acting E c req (world t) = Some (owner, adopt)"
        "\<And>x. V (world t) k = Some x \<Longrightarrow> adoption_check owner adopt x = None"
      using reconcile_step [OF env reconciles.hyps(3)] by metis
    with reconciles refused show ?thesis by metis
  qed
next
  case (others t w)
  then show ?case by simp
qed

lemma stored_version: "env_ok E V \<Longrightarrow> V w k = Some x \<Longrightarrow> om_resource_version (sec_meta x) \<noteq> []"
  by (simp add: env_ok_def kube_ok_def stored_ok_def)

section \<open>Samples\<close>

text \<open>A Secret that another tool put at the sample's target.\<close>

definition sample_foreign :: secret where
  "sample_foreign = stored_as (ObjectKey ''n'' ''out'') (new_secret [] [])"

lemma sample_stored:
  assumes "x = stored_as (ObjectKey ''n'' ''out'') y"
  shows "cl_view (world (sample_state (sample_cluster [x] None))) (ObjectKey ''n'' ''out'') = Some x"
  by (simp add: assms sample_cluster_def source_cluster_def cl_view_def sample_age_secret_def stored_as_def
      secret_key_of_def meta_key_def)

lemma sample_acting:
  "acting sample_env SopsSecretController (ObjectKey ''n'' ''s'') (world (sample_state (sample_cluster xs None)))
     = Some (''SopsSecret/n/s'', False)"
  using sample_get [of xs None]
  by (simp add: sops_owner_def owner_key_def sample_sops_def)

lemma sample_run:
  assumes "ok (Some (''SopsSecret/n/s'', False))"
  shows "\<exists>r t. run_state (reconcile sample_env no_policy SopsSecretController (ObjectKey ''n'' ''s''))
        (sample_state (sample_cluster xs None)) = (r, t)
    \<and> operates sample_env no_policy V k ok (sample_state (sample_cluster xs None)) t"
proof -
  let ?s = "sample_state (sample_cluster xs None)" and ?req = "ObjectKey ''n'' ''s''"
  obtain r t where run: "run_state (reconcile sample_env no_policy SopsSecretController ?req) ?s = (r, t)" by fastforce
  have "ok (acting sample_env SopsSecretController ?req (world ?s))" unfolding sample_acting by (rule assms)
  from operates.reconciles [where ok = ok, OF operates.start this run] run show ?thesis by blast
qed

section \<open>Properties\<close>

text \<open>
C1: Every reconcile of every controller, whatever it reads from sources, SOPS or the API on its way,
  is one step of the store contract, for the owner and the adopt flag of the resource it read.
\<close>

theorem reconcile_refines_store_contract:
  fixes s :: "'w op_state"
  assumes "env_ok E V" and "run_state (reconcile E P c req) s = (r, t)"
  shows "store_step (acting E c req (world s)) (V (world s)) (V (world t))"
proof (cases "acting E c req (world s)")
  case None
  have "V (world t) k = V (world s) k" for k
  proof (rule ccontr)
    assume "V (world t) k \<noteq> V (world s) k"
    from reconcile_step [OF assms this] None show False by (metis option.distinct(1))
  qed
  with None show ?thesis by (simp add: fun_eq_iff)
next
  case (Some a)
  obtain owner adopt where a: "a = (owner, adopt)" by (cases a)
  have "V (world t) k = V (world s) k \<or> (\<forall>x. V (world s) k = Some x \<longrightarrow> adoption_check owner adopt x = None)
      \<and> (\<forall>y. V (world t) k = Some y \<longrightarrow> stamped owner y \<or> deletion_pending y)" for k
  proof (cases "V (world t) k = V (world s) k")
    case False
    from reconcile_step [OF assms this] show ?thesis using Some a by (metis Pair_inject option.inject)
  qed simp
  with Some a show ?thesis by simp
qed

theorem reconcile_refines_store_contract_witness:
  "\<exists>r t. run_state (reconcile sample_env no_policy SopsSecretController (ObjectKey ''n'' ''s''))
         (sample_state (sample_cluster [] None)) = (r, t)
     \<and> store_step (Some (''SopsSecret/n/s'', False)) (cl_view (sample_cluster [] None)) (cl_view (world t))"
proof -
  obtain r t where run: "run_state (reconcile sample_env no_policy SopsSecretController (ObjectKey ''n'' ''s''))
      (sample_state (sample_cluster [] None)) = (r, t)" by fastforce
  from reconcile_refines_store_contract [OF sample_env_ok run, unfolded sample_acting] run show ?thesis by simp
qed

text \<open>
C5: A Secret that the operator does not manage is never touched, however many reconciles of however
  many resources run and whatever other clients do in between, unless a resource asks to adopt.
\<close>

theorem unmanaged_secret_untouched:
  assumes "env_ok E V" and "V (world s) k = Some x" and "label_of x ManagedByLabel = []"
    and "operates E P V k (\<lambda>a. \<forall>owner. a \<noteq> Some (owner, True)) s t"
  shows "V (world t) k = Some x"
  by (rule operates_keeps [OF assms(4,1,2)])
    (use assms(3) stored_version [OF assms(1,2)] in \<open>auto simp: adoption_check_def\<close>)

theorem unmanaged_secret_untouched_witness:
  "\<exists>r t. run_state (reconcile sample_env no_policy SopsSecretController (ObjectKey ''n'' ''s''))
         (sample_state (sample_cluster [sample_foreign] None)) = (r, t)
     \<and> cl_view (world t) (ObjectKey ''n'' ''out'') = Some sample_foreign"
proof -
  let ?s = "sample_state (sample_cluster [sample_foreign] None)"
  note stored = sample_stored [OF sample_foreign_def]
  have "label_of sample_foreign ManagedByLabel = []"
    by (simp add: label_of_def sample_foreign_def stored_as_def new_secret_def empty_meta_def gm_get_def)
  moreover obtain r t where "run_state (reconcile sample_env no_policy SopsSecretController (ObjectKey ''n'' ''s'')) ?s = (r, t)"
      "operates sample_env no_policy cl_view (ObjectKey ''n'' ''out'') (\<lambda>a. \<forall>owner. a \<noteq> Some (owner, True)) ?s t"
    using sample_run [where ok = "\<lambda>a. \<forall>owner. a \<noteq> Some (owner, True)" and xs = "[sample_foreign]" and k = "ObjectKey ''n'' ''out''"
        and V = cl_view] by auto
  ultimately show ?thesis using unmanaged_secret_untouched [OF sample_env_ok stored] by blast
qed

text \<open>
C6: A Secret that belongs to one resource is never touched on behalf of another, in any sequence of
  reconciles, whether or not the others ask to adopt.
\<close>

theorem owned_secret_untouched_by_others:
  assumes "env_ok E V" and "V (world s) k = Some x" and "stamped owner x" and "owner \<noteq> []"
    and "operates E P V k (\<lambda>a. \<forall>adopt. a \<noteq> Some (owner, adopt)) s t"
  shows "V (world t) k = Some x"
  by (rule operates_keeps [OF assms(5,1,2)])
    (use assms(3,4) stored_version [OF assms(1,2)] in
      \<open>auto simp: adoption_check_def stamped_def label_of_def annotation_of_def gm_get_def\<close>)

theorem owned_secret_untouched_by_others_witness:
  "\<exists>r t. run_state (reconcile sample_env no_policy SopsSecretController (ObjectKey ''n'' ''s''))
         (sample_state (sample_cluster [sample_owned ''SopsSecret/n/b'' (ObjectKey ''n'' ''out'')] None)) = (r, t)
     \<and> cl_view (world t) (ObjectKey ''n'' ''out'') = Some (sample_owned ''SopsSecret/n/b'' (ObjectKey ''n'' ''out''))"
proof -
  let ?x = "sample_owned ''SopsSecret/n/b'' (ObjectKey ''n'' ''out'')"
  let ?s = "sample_state (sample_cluster [?x] None)" and ?ok = "\<lambda>a. \<forall>adopt. a \<noteq> Some (''SopsSecret/n/b'', adopt)"
  note stored = sample_stored [OF sample_owned_def]
  have "stamped ''SopsSecret/n/b'' ?x"
    by (simp add: stamped_def sample_owned_def stored_as_def new_secret_def empty_meta_def)
  moreover obtain r t where "run_state (reconcile sample_env no_policy SopsSecretController (ObjectKey ''n'' ''s'')) ?s = (r, t)"
      "operates sample_env no_policy cl_view (ObjectKey ''n'' ''out'') ?ok ?s t"
    using sample_run [where ok = ?ok and xs = "[?x]" and k = "ObjectKey ''n'' ''out''" and V = cl_view] by auto
  ultimately show ?thesis using owned_secret_untouched_by_others [OF sample_env_ok stored] by blast
qed

text \<open>
C19: Whatever path a reconcile of any of the five controllers takes, every span it starts is ended,
  and it counts exactly one outcome for its kind, with the stage if that is an error.
\<close>

theorem reconcile_accounted:
  "case run_state (reconcile E P c req) s of (r, t) \<Rightarrow>
     (\<forall>n. open_spans (events t) n = open_spans (events s) n)
     \<and> (\<exists>stg. filter is_count (events t)
         = (if stg = [] then [ReconcileCounted (controller_kind c) ResultSuccess]
            else [ReconcileCounted (controller_kind c) ResultError, ReconcileErrorCounted (controller_kind c) stg])
           @ filter is_count (events s))"
proof -
  obtain r t where run: "run_state (reconcile E P c req) s = (r, t)" by fastforce
  note balanced = tracked_balanced [OF span_frame_body run [unfolded reconcile_def]]
  show ?thesis using balanced by (simp add: run)
qed

text \<open>The resource exists, is not being deleted, and its interval, if it has one, is not negative.\<close>

fun scheduled :: "'w operator_env \<Rightarrow> controller \<Rightarrow> objkey \<Rightarrow> 'w \<Rightarrow> bool" where
  "scheduled E GitRepositoryController req w =
     (case fst (run_state (k_get_git_repository (e_kube E) req) w) of
        Inl _ \<Rightarrow> False
      | Inr gr \<Rightarrow> time_is_zero (om_deletion_timestamp (v1_gr_meta gr)) \<and> 0 \<le> v1_grs_interval (v1_gr_spec gr))"
| "scheduled E ObjectSourceController req w =
     (case fst (run_state (k_get_object_source (e_kube E) req) w) of
        Inl _ \<Rightarrow> False
      | Inr os \<Rightarrow> time_is_zero (om_deletion_timestamp (v2_os_meta os)) \<and> 0 \<le> v2_oss_interval (v2_os_spec os))"
| "scheduled E SopsSecretController req w =
     (case fst (run_state (k_get_sops_secret (e_kube E) req) w) of
        Inl _ \<Rightarrow> False
      | Inr ss \<Rightarrow> time_is_zero (om_deletion_timestamp (v2_ss_meta ss)))"
| "scheduled E ManifestController req w =
     (case fst (run_state (k_get_manifest (e_kube E) req) w) of
        Inl _ \<Rightarrow> False
      | Inr sm \<Rightarrow> time_is_zero (om_deletion_timestamp (v2_sm_meta sm)))"
| "scheduled E InlineController req w =
     (case fst (run_state (k_get_inline (e_kube E) req) w) of
        Inl _ \<Rightarrow> False
      | Inr inl \<Rightarrow> time_is_zero (om_deletion_timestamp (v1_is_meta inl)))"


lemma alive_effect:
  "reconcile_effect V Q owner adopt D alive w r w' \<Longrightarrow> alive \<Longrightarrow> r = Inr res
    \<Longrightarrow> res_requeue res \<or> 0 < res_requeue_after res"
  by (simp add: reconcile_effect_def)

text \<open>
C18: No controller goes idle on a resource that exists, is not being deleted and, if it is a source,
has no negative \<open>spec.interval\<close>: its reconcile ends with an error, which is retried, or asks to be run
again, now or after a positive delay. (With a negative interval a source does go idle:
\<open>negative_interval_goes_idle\<close>.)
\<close>

theorem reconcile_never_idle:
  fixes s :: "'w op_state"
  assumes env: "env_ok E V" and due: "scheduled E c req (world s)"
    and run: "run_state (reconcile E P c req) s = (Inr res, t)"
  shows "res_requeue res \<or> 0 < res_requeue_after res"
proof (cases c)
  case GitRepositoryController
  with due obtain gr where "fst (run_state (k_get_git_repository (e_kube E) req) (world s)) = Inr gr"
      "time_is_zero (om_deletion_timestamp (v1_gr_meta gr))" "0 \<le> v1_grs_interval (v1_gr_spec gr)"
    by (auto split: sum.splits)
  from postD [OF git_never_idle [OF this]] run show ?thesis by (simp add: GitRepositoryController)
next
  case ObjectSourceController
  with due obtain os where "fst (run_state (k_get_object_source (e_kube E) req) (world s)) = Inr os"
      "time_is_zero (om_deletion_timestamp (v2_os_meta os))" "0 \<le> v2_oss_interval (v2_os_spec os)"
    by (auto split: sum.splits)
  from postD [OF object_never_idle [OF this]] run show ?thesis by (simp add: ObjectSourceController)
next
  case SopsSecretController
  with due obtain ss w where "run_state (k_get_sops_secret (e_kube E) req) (world s) = (Inr ss, w)"
      and alive: "time_is_zero (om_deletion_timestamp (v2_ss_meta ss))"
    by (cases "run_state (k_get_sops_secret (e_kube E) req) (world s)") (auto split: sum.splits)
  from postD [OF sops_reconcile_effect [OF env this(1)] run [unfolded SopsSecretController reconcile_simps]]
  show ?thesis by (rule alive_effect) (simp_all add: alive)
next
  case ManifestController
  with due obtain sm w where "run_state (k_get_manifest (e_kube E) req) (world s) = (Inr sm, w)"
      and alive: "time_is_zero (om_deletion_timestamp (v2_sm_meta sm))"
    by (cases "run_state (k_get_manifest (e_kube E) req) (world s)") (auto split: sum.splits)
  from postD [OF manifest_reconcile_effect [OF env this(1)] run [unfolded ManifestController reconcile_simps]]
  show ?thesis by (rule alive_effect) (simp_all add: alive)
next
  case InlineController
  with due obtain inl w where "run_state (k_get_inline (e_kube E) req) (world s) = (Inr inl, w)"
      and alive: "time_is_zero (om_deletion_timestamp (v1_is_meta inl))"
    by (cases "run_state (k_get_inline (e_kube E) req) (world s)") (auto split: sum.splits)
  from postD [OF inline_reconcile_effect [OF env this(1)] run [unfolded InlineController reconcile_simps]]
  show ?thesis by (rule alive_effect) (simp_all add: alive)
qed

theorem reconcile_never_idle_witness:
  "\<exists>res t. run_state (reconcile sample_env no_policy SopsSecretController (ObjectKey ''n'' ''s''))
      (sample_state (sample_cluster [] None)) = (Inr res, t) \<and> (res_requeue res \<or> 0 < res_requeue_after res)"
proof -
  obtain t where run: "run_state (reconcile sample_env no_policy SopsSecretController (ObjectKey ''n'' ''s''))
      (sample_state (sample_cluster [] None)) = (Inr (requeue_after resyncAfter), t)"
    using sample_succeeds by auto
  have "scheduled sample_env SopsSecretController (ObjectKey ''n'' ''s'') (world (sample_state (sample_cluster [] None)))"
    using sample_get [of "[]" None] by (simp add: sample_sops_def time_is_zero_def)
  from reconcile_never_idle [OF sample_env_ok this run] run show ?thesis by blast
qed

text \<open>
A GitRepository with a negative interval is fetched once and then left alone: the successful
  reconcile asks for neither a requeue nor a positive delay.
\<close>

theorem negative_interval_goes_idle:
  assumes "fst (run_state (k_get_git_repository (e_kube E) req) (world s)) = Inr gr"
    and "time_is_zero (om_deletion_timestamp (v1_gr_meta gr))" and "v1_grs_interval (v1_gr_spec gr) < 0"
    and "run_state (git_reconcile E P req) s = (Inr res, t)" and "res \<noteq> requeue_after retryAfter"
  shows "\<not> res_requeue res \<and> res_requeue_after res < 0"
proof -
  have "post (git_reconcile E P req) s (\<lambda>r t. (\<exists>e. r = Inl e) \<or> r = Inr (requeue_after retryAfter)
      \<or> r = Inr (requeue_after (git_interval gr)))"
    by (rule post_git_reconcile [OF assms(1,2)], rule post_mono [OF git_sync_result]) auto
  from postD [OF this assms(4)] assms(3,5) show ?thesis
    by (auto simp: requeue_after_def git_interval_def)
qed

definition negative_git :: v1_git_repository where
  "negative_git = sample_git ''t2'' None\<lparr>v1_gr_spec := (v1_gr_spec (sample_git ''t2'' None))\<lparr>v1_grs_interval := -1\<rparr>\<rparr>"

theorem negative_interval_goes_idle_witness:
  "\<exists>res t. run_state (git_reconcile sample_env no_policy (ObjectKey ''n'' ''g''))
      (cluster_start (empty_cluster\<lparr>cl_gits := [(ObjectKey ''n'' ''g'', negative_git)]\<rparr>) []) = (Inr res, t)
    \<and> \<not> res_requeue res \<and> res_requeue_after res < 0"
proof -
  let ?s = "cluster_start (empty_cluster\<lparr>cl_gits := [(ObjectKey ''n'' ''g'', negative_git)]\<rparr>) []"
  let ?res = "\<lparr>res_requeue = False, res_requeue_after = -1\<rparr>"
  have "fst (run_state (git_reconcile sample_env no_policy (ObjectKey ''n'' ''g'')) ?s) = Inr ?res" by code_simp
  then obtain t where run: "run_state (git_reconcile sample_env no_policy (ObjectKey ''n'' ''g'')) ?s = (Inr ?res, t)"
    by (metis prod.collapse)
  have "fst (run_state (k_get_git_repository (e_kube sample_env) (ObjectKey ''n'' ''g'')) (world ?s)) = Inr negative_git"
    by (simp add: mem_kube_def mem_get_def)
  moreover have "time_is_zero (om_deletion_timestamp (v1_gr_meta negative_git))" "v1_grs_interval (v1_gr_spec negative_git) < 0"
    by (simp_all add: negative_git_def sample_git_def empty_meta_def time_is_zero_def)
  moreover have "?res \<noteq> requeue_after retryAfter" by (simp add: requeue_after_def interval_defs)
  ultimately show ?thesis using negative_interval_goes_idle [OF _ _ _ run] run by blast
qed

text \<open>
C14: The age key a resource is decrypted with is the value of a Secret in the resource's own
  namespace, of the operator's default when the resource names none, or of a Secret in a namespace
  the operator permits.
\<close>

theorem age_key_confined:
  fixes s :: "('w, 'x) os_state_scheme"
  assumes "get_ok K V" and "secret_refs P = new_resolver nss"
    and "run_state (resolve_age_key P K ns ref) s = (Inr (key, orig), t)"
  shows "\<exists>k sec dk. V (world s) k = Some sec \<and> gm_lookup (sec_data sec) dk = Some key \<and> key \<noteq> []
    \<and> (ok_namespace k = ns
       \<or> (r_name ref = [] \<and> (\<exists>d. global_age_key P = Some d \<and> k = ObjectKey (g_namespace d) (g_name d)))
       \<or> ok_namespace k \<in> trim_space ` set nss)"
proof -
  obtain x where x: "resolve (new_resolver nss) ns ref (global_age_key P) = Inr x"
    using assms(2,3) by (cases "resolve (secret_refs P) ns ref (global_age_key P)") (auto simp: resolve_age_key_def)
  let ?k = "rs_object_key x"
  obtain w r where ra: "run_state (age K (ok_namespace ?k) (ok_name ?k) (rs_data_key x)) s = (r, s\<lparr>world := w\<rparr>)"
    and read: "\<forall>v. r = Inr v \<longleftrightarrow> (v \<noteq> [] \<and> (\<exists>sec. fst (run_state (k_get_secret K
        (ObjectKey (ok_namespace ?k) (ok_name ?k))) (world s)) = Inr sec \<and> gm_lookup (sec_data sec) (rs_data_key x) = Some v))"
    using run_age [of K "ok_namespace ?k" "ok_name ?k" "rs_data_key x" s] by (elim exE conjE) (rule that)
  have "r = Inr key"
    using assms(2,3) x ra by (auto simp: resolve_age_key_def split: sum.splits)
  from read [THEN spec, THEN iffD1, OF this] obtain sec where sec: "key \<noteq> []"
      "fst (run_state (k_get_secret K ?k) (world s)) = Inr sec" "gm_lookup (sec_data sec) (rs_data_key x) = Some key"
    unfolding objkey.collapse by (elim exE conjE) (rule that)
  have "case fst (run_state (k_get_secret K ?k) (world s)) of
      Inr y \<Rightarrow> V (world s) ?k = Some y | Inl e \<Rightarrow> is_not_found e \<longrightarrow> V (world s) ?k = None"
    using assms(1) by (simp add: get_ok_def)
  with sec(2) have stored: "V (world s) ?k = Some sec" by simp
  show ?thesis
    using sec(1,3) stored policy.confined [OF x] by (intro exI [of _ ?k] exI [of _ sec] exI [of _ "rs_data_key x"])
      (auto simp: permits_new_resolver)
qed

theorem age_key_confined_witness:
  "\<exists>t. run_state (resolve_age_key no_policy mem_kube ''n'' (age_key_ref ''age'' ''k'' [])) (sample_state (sample_cluster [] None))
      = (Inr (''AGE'', OriginLocal), t)
    \<and> (\<exists>k sec dk. cl_view (sample_cluster [] None) k = Some sec \<and> gm_lookup (sec_data sec) dk = Some ''AGE'' \<and> ok_namespace k = ''n'')"
proof -
  let ?s = "sample_state (sample_cluster [] None)"
  have "fst (run_state (resolve_age_key no_policy mem_kube ''n'' (age_key_ref ''age'' ''k'' [])) ?s) = Inr (''AGE'', OriginLocal)"
    by code_simp
  then obtain t where run: "run_state (resolve_age_key no_policy mem_kube ''n'' (age_key_ref ''age'' ''k'' [])) ?s
      = (Inr (''AGE'', OriginLocal), t)" by (metis prod.collapse)
  have "secret_refs no_policy = new_resolver []" by (simp add: no_policy_def new_resolver_def)
  moreover have "get_ok mem_kube cl_view" using mem_kube_ok by (simp add: kube_ok_def)
  ultimately show ?thesis
    using age_key_confined [OF _ _ run] run by (fastforce simp: age_key_ref_def)
qed

text \<open>
With the credential flags left at their defaults, every reference of every resource resolves to a
  Secret in the resource's own namespace, or is refused.
\<close>

theorem default_policy_is_local:
  assumes "build_credential_policy [] dk [] [] [] = Inr p"
    and "g = global_age_key p \<or> g = global_git_auth p \<or> g = global_object_auth p"
    and "resolve (secret_refs p) ns ref g = Inr x"
  shows "ok_namespace (rs_object_key x) = ns"
proof -
  have "trim_space [] = []" by code_simp
  then have "p = \<lparr>secret_refs = new_resolver [], global_age_key = None, global_git_auth = None, global_object_auth = None\<rparr>"
    using assms(1) by (simp add: build_credential_policy_def parse_global_def)
  with assms(2,3) have "resolve (new_resolver []) ns ref None = Inr x" by auto
  from policy.confined [OF this] show ?thesis by (simp add: permits_new_resolver)
qed

theorem default_policy_is_local_witness:
  "\<exists>p x. build_credential_policy [] [] [] [] [] = Inr p
     \<and> resolve (secret_refs p) ''n'' (age_key_ref ''age'' ''k'' ''n'') (global_age_key p) = Inr x
     \<and> ok_namespace (rs_object_key x) = ''n''"
proof -
  have p: "build_credential_policy [] [] [] [] [] = Inr no_policy" by code_simp
  have x: "resolve (secret_refs no_policy) ''n'' (age_key_ref ''age'' ''k'' ''n'') (global_age_key no_policy)
      = Inr \<lparr>rs_object_key = ObjectKey ''n'' ''age'', rs_data_key = ''k'', rs_origin = OriginLocal\<rparr>" by code_simp
  from default_policy_is_local [OF p _ x] p x show ?thesis by blast
qed

section \<open>Reads that fail\<close>

fun get_error :: "'w operator_env \<Rightarrow> controller \<Rightarrow> objkey \<Rightarrow> 'w \<Rightarrow> api_error option" where
  "get_error E GitRepositoryController req w =
     (case fst (run_state (k_get_git_repository (e_kube E) req) w) of Inl e \<Rightarrow> Some e | Inr _ \<Rightarrow> None)"
| "get_error E ObjectSourceController req w =
     (case fst (run_state (k_get_object_source (e_kube E) req) w) of Inl e \<Rightarrow> Some e | Inr _ \<Rightarrow> None)"
| "get_error E SopsSecretController req w =
     (case fst (run_state (k_get_sops_secret (e_kube E) req) w) of Inl e \<Rightarrow> Some e | Inr _ \<Rightarrow> None)"
| "get_error E ManifestController req w =
     (case fst (run_state (k_get_manifest (e_kube E) req) w) of Inl e \<Rightarrow> Some e | Inr _ \<Rightarrow> None)"
| "get_error E InlineController req w =
     (case fst (run_state (k_get_inline (e_kube E) req) w) of Inl e \<Rightarrow> Some e | Inr _ \<Rightarrow> None)"

lemma body_get_error:
  assumes "get_error E c req (world u) = Some e" and "\<not> is_not_found e"
  shows "\<exists>w. run_state (reconcile_body E P c req) u = (Inl e, u\<lparr>world := w\<rparr>)"
  using assms
  by (cases c)
    (auto simp: git_reconcile_body_def object_reconcile_body_def sops_reconcile_body_def manifest_reconcile_body_def
      inline_reconcile_body_def Let_def run_on_world get_failed_def ignore_not_found_def result_or_def split: sum.splits)

lemma tracked_at_once:
  assumes body: "\<And>u. world u = world s \<Longrightarrow> \<exists>w. run_state body u = (r, u\<lparr>world := w\<rparr>)"
    and run: "run_state (tracked kind req body) s = (r', t)"
  shows "r' = r" and "filter is_count (events t) = ReconcileCounted kind ResultSuccess # filter is_count (events s)"
proof -
  obtain u where u0: "run_state (track_reconcile kind (ok_namespace req) (ok_name req)) s = ((), u)"
    by (metis old.unit.exhaust surj_pair)
  have u: "tk_fail_stage (tracker u) = []" "tk_stage_span (tracker u) = None" "tk_metric_kind (tracker u) = kind"
    "filter is_count (events u) = filter is_count (events s)" "tk_root_span (tracker u) = Some (kind @ ''.Reconcile'')"
    "world u = world s"
    using u0 by (auto simp: track_reconcile_def emit_def)
  with body obtain w where w: "run_state body u = (r, u\<lparr>world := w\<rparr>)" by blast
  obtain v where v: "run_state track_finish (u\<lparr>world := w\<rparr>) = ((), v)" by (metis old.unit.exhaust surj_pair)
  have t: "r' = r" "t = v" using run u0 w v by (simp_all add: tracked_def)
  then show "r' = r" by simp
  show "filter is_count (events t) = ReconcileCounted kind ResultSuccess # filter is_count (events s)"
    using v u by (auto simp: t(2) track_finish_def run_end_stage emit_def Let_def)
qed

text \<open>
When the API server fails to answer the first read of a reconcile, the reconcile returns that
  error to the queue but is counted as a success, in all five controllers.
\<close>

theorem failed_read_counted_as_success:
  assumes "get_error E c req (world s) = Some e" and "\<not> is_not_found e"
    and "run_state (reconcile E P c req) s = (r, t)"
  shows "r = Inl e \<and> filter is_count (events t)
    = ReconcileCounted (controller_kind c) ResultSuccess # filter is_count (events s)"
proof -
  have "\<exists>w. run_state (reconcile_body E P c req) u = (Inl e, u\<lparr>world := w\<rparr>)" if "world u = world s" for u
    using body_get_error [of E c req u e P] assms(1,2) that by simp
  from tracked_at_once [OF this assms(3) [unfolded reconcile_def]] show ?thesis by simp
qed

text \<open>An API server that is down.\<close>

definition down_env :: "mem_cluster operator_env" where
  "down_env = sample_env\<lparr>e_kube := mem_kube\<lparr>k_get_sops_secret := (\<lambda>_. State_Monad.return (Inl (ApiError False ''timeout'')))\<rparr>\<rparr>"

theorem failed_read_counted_as_success_witness:
  "\<exists>r t. run_state (reconcile down_env no_policy SopsSecretController (ObjectKey ''n'' ''s''))
       (sample_state (sample_cluster [] None)) = (r, t)
     \<and> r = Inl (ApiError False ''timeout'') \<and> ReconcileCounted ''SopsSecret'' ''success'' \<in> set (events t)"
proof -
  let ?s = "sample_state (sample_cluster [] None)"
  obtain r t where run: "run_state (reconcile down_env no_policy SopsSecretController (ObjectKey ''n'' ''s'')) ?s = (r, t)"
    by fastforce
  have "get_error down_env SopsSecretController (ObjectKey ''n'' ''s'') (world ?s) = Some (ApiError False ''timeout'')"
    "\<not> is_not_found (ApiError False ''timeout'')"
    by (simp_all add: down_env_def is_not_found_def)
  from failed_read_counted_as_success [OF this run]
  have "r = Inl (ApiError False ''timeout'')" "ReconcileCounted ''SopsSecret'' ''success'' \<in> set (filter is_count (events t))"
    by (simp_all add: ResultSuccess_def)
  with run show ?thesis by auto
qed

section \<open>Wake-ups\<close>

text \<open>
  The list call answers by a field index: among the resources \<open>stored\<close> in the namespace, those that
  have the value asked for.
\<close>

definition indexed ::
  "(string \<Rightarrow> string \<times> string \<Rightarrow> ('w, api_error + 'r list) state) \<Rightarrow> string \<Rightarrow> ('r \<Rightarrow> string list) \<Rightarrow> string \<Rightarrow> 'r set \<Rightarrow> 'w \<Rightarrow> bool" where
  "indexed listing index keys ns stored w \<longleftrightarrow> (\<forall>name. \<exists>xs. fst (run_state (listing ns (index, name)) w) = Inr xs
     \<and> set xs = {x \<in> stored. name \<in> set (keys x)})"

lemma indexed_listed:
  assumes "indexed listing index keys ns stored w" and "x \<in> stored" and "name \<in> set (keys x)"
  obtains xs where "fst (run_state (listing ns (index, name)) w) = Inr xs" and "x \<in> set xs"
  using assms by (auto simp: indexed_def)

lemma mapped_sops:
  assumes "indexed (k_list_sops_secrets K) index keys ns stored w" and "x \<in> stored" and "name \<in> set (keys x)"
  shows "meta_key (v2_ss_meta x) \<in> set (fst (run_state (map_source_to_sops_secrets K (ObjectKey ns name) index) w))"
proof -
  obtain xs where "fst (run_state (k_list_sops_secrets K ns (index, name)) w) = Inr xs" "x \<in> set xs"
    by (rule indexed_listed [OF assms])
  then show ?thesis
    by (cases "run_state (k_list_sops_secrets K ns (index, name)) w") (simp add: map_source_to_sops_secrets_def)
qed

lemma mapped_manifests:
  assumes "indexed (k_list_manifests K) index keys ns stored w" and "x \<in> stored" and "name \<in> set (keys x)"
  shows "meta_key (v2_sm_meta x) \<in> set (fst (run_state (map_source_to_manifests K (ObjectKey ns name) index) w))"
proof -
  obtain xs where "fst (run_state (k_list_manifests K ns (index, name)) w) = Inr xs" "x \<in> set xs"
    by (rule indexed_listed [OF assms])
  then show ?thesis
    by (cases "run_state (k_list_manifests K ns (index, name)) w") (simp add: map_source_to_manifests_def)
qed

text \<open>
C37: A change of a source wakes its consumers: if the list calls answer by their field index, a
  SopsSecret is among the requests that a change of its GitRepository or ObjectSource maps to.
\<close>

theorem source_change_wakes_sops_secret:
  assumes "indexed (k_list_sops_secrets K) SopsSecretGitRefIndex sops_git_index ns stored w"
    and "indexed (k_list_sops_secrets K) SopsSecretObjectRefIndex sops_object_index ns stored w"
    and "ss \<in> stored" and "v2_skf_name (v2_src_source_ref (v2_sss_source (v2_ss_spec ss))) = name"
  shows "(v2_skf_kind (v2_src_source_ref (v2_sss_source (v2_ss_spec ss))) = SourceKindGitRepository \<longrightarrow>
      meta_key (v2_ss_meta ss) \<in> set (fst (run_state (map_git_repo_to_sops_secrets K (ObjectKey ns name)) w)))
    \<and> (v2_skf_kind (v2_src_source_ref (v2_sss_source (v2_ss_spec ss))) = SourceKindObjectSource \<longrightarrow>
      meta_key (v2_ss_meta ss) \<in> set (fst (run_state (map_object_source_to_sops_secrets K (ObjectKey ns name)) w)))"
  using assms
  by (auto simp: map_git_repo_to_sops_secrets_def map_object_source_to_sops_secrets_def sops_git_index_def
      sops_object_index_def Let_def intro!: mapped_sops)

theorem source_change_wakes_sops_secret_witness:
  "ObjectKey ''n'' ''s'' \<in> set (fst (run_state (map_git_repo_to_sops_secrets
      (mem_kube\<lparr>k_list_sops_secrets := (\<lambda>_ (i, name). gets (\<lambda>w. Inr (filter
         (\<lambda>x. name \<in> set ((if i = SopsSecretGitRefIndex then sops_git_index else sops_object_index) x)) (map snd (cl_sops w)))))\<rparr>)
      (ObjectKey ''n'' ''g'')) (sample_cluster [] None)))"
proof -
  let ?keys = "\<lambda>i. if i = SopsSecretGitRefIndex then sops_git_index else sops_object_index"
  let ?K = "mem_kube\<lparr>k_list_sops_secrets := (\<lambda>_ (i, name). gets (\<lambda>w. Inr (filter
         (\<lambda>x. name \<in> set (?keys i x)) (map snd (cl_sops w)))))\<rparr>"
  have ok: "indexed (k_list_sops_secrets ?K) i (?keys i) ''n'' {sample_sops None} (sample_cluster [] None)" for i
    by (auto simp: indexed_def sample_cluster_def)
  have "SopsSecretObjectRefIndex \<noteq> SopsSecretGitRefIndex"
    by (simp add: SopsSecretObjectRefIndex_def SopsSecretGitRefIndex_def)
  then have obj: "indexed (k_list_sops_secrets ?K) SopsSecretObjectRefIndex sops_object_index ''n'' {sample_sops None}
      (sample_cluster [] None)" using ok [of SopsSecretObjectRefIndex] by simp
  have git: "indexed (k_list_sops_secrets ?K) SopsSecretGitRefIndex sops_git_index ''n'' {sample_sops None}
      (sample_cluster [] None)" using ok [of SopsSecretGitRefIndex] by simp
  have "v2_skf_name (v2_src_source_ref (v2_sss_source (v2_ss_spec (sample_sops None)))) = ''g''"
    "v2_skf_kind (v2_src_source_ref (v2_sss_source (v2_ss_spec (sample_sops None)))) = SourceKindGitRepository"
    "meta_key (v2_ss_meta (sample_sops None)) = ObjectKey ''n'' ''s''"
    by (simp_all add: sample_sops_def SourceKindGitRepository_def meta_key_def)
  with source_change_wakes_sops_secret [OF git obj _ this(1)] show ?thesis by simp
qed

text \<open>
The same for a SopsSecretManifest.
\<close>

theorem source_change_wakes_manifest:
  assumes "indexed (k_list_manifests K) SopsSecretManifestGitRefIndex manifest_git_index ns stored w"
    and "indexed (k_list_manifests K) SopsSecretManifestObjectRefIndex manifest_object_index ns stored w"
    and "sm \<in> stored" and "v2_skf_name (v2_src_source_ref (v2_sms_source (v2_sm_spec sm))) = name"
  shows "(v2_skf_kind (v2_src_source_ref (v2_sms_source (v2_sm_spec sm))) = SourceKindGitRepository \<longrightarrow>
      meta_key (v2_sm_meta sm) \<in> set (fst (run_state (map_git_repo_to_manifests K (ObjectKey ns name)) w)))
    \<and> (v2_skf_kind (v2_src_source_ref (v2_sms_source (v2_sm_spec sm))) = SourceKindObjectSource \<longrightarrow>
      meta_key (v2_sm_meta sm) \<in> set (fst (run_state (map_object_source_to_manifests K (ObjectKey ns name)) w)))"
  using assms
  by (auto simp: map_git_repo_to_manifests_def map_object_source_to_manifests_def manifest_git_index_def
      manifest_object_index_def Let_def intro!: mapped_manifests)

theorem source_change_wakes_manifest_witness:
  "ObjectKey ''n'' ''s'' \<in> set (fst (run_state (map_git_repo_to_manifests
      (mem_kube\<lparr>k_list_manifests := (\<lambda>_ (i, name). gets (\<lambda>w. Inr (filter
         (\<lambda>x. name \<in> set ((if i = SopsSecretManifestGitRefIndex then manifest_git_index else manifest_object_index) x))
         (map snd (cl_manifests w)))))\<rparr>)
      (ObjectKey ''n'' ''g'')) (manifest_cluster [] None)))"
proof -
  let ?keys = "\<lambda>i. if i = SopsSecretManifestGitRefIndex then manifest_git_index else manifest_object_index"
  let ?K = "mem_kube\<lparr>k_list_manifests := (\<lambda>_ (i, name). gets (\<lambda>w. Inr (filter
         (\<lambda>x. name \<in> set (?keys i x)) (map snd (cl_manifests w)))))\<rparr>"
  have ok: "indexed (k_list_manifests ?K) i (?keys i) ''n'' {sample_manifest [] None} (manifest_cluster [] None)" for i
    by (auto simp: indexed_def manifest_cluster_def)
  have "SopsSecretManifestObjectRefIndex \<noteq> SopsSecretManifestGitRefIndex"
    by (simp add: SopsSecretManifestObjectRefIndex_def SopsSecretManifestGitRefIndex_def)
  then have obj: "indexed (k_list_manifests ?K) SopsSecretManifestObjectRefIndex manifest_object_index ''n''
      {sample_manifest [] None} (manifest_cluster [] None)" using ok [of SopsSecretManifestObjectRefIndex] by simp
  have git: "indexed (k_list_manifests ?K) SopsSecretManifestGitRefIndex manifest_git_index ''n''
      {sample_manifest [] None} (manifest_cluster [] None)" using ok [of SopsSecretManifestGitRefIndex] by simp
  have "v2_skf_name (v2_src_source_ref (v2_sms_source (v2_sm_spec (sample_manifest [] None)))) = ''g''"
    "v2_skf_kind (v2_src_source_ref (v2_sms_source (v2_sm_spec (sample_manifest [] None)))) = SourceKindGitRepository"
    "meta_key (v2_sm_meta (sample_manifest [] None)) = ObjectKey ''n'' ''s''"
    by (simp_all add: sample_manifest_def SourceKindGitRepository_def meta_key_def)
  with source_change_wakes_manifest [OF git obj _ this(1)] show ?thesis by simp
qed

text \<open>
C12: A resync of an unchanged source settles: applied to the Secret as the API server stored it, each
of the four mutate functions passes its own adoption check and asks for the very labels,
annotations, data and type that are there, so nothing is written.
\<close>

theorem resync_is_stable:
  assumes "mut \<in> {apply_target_mutate ss data hash revision, apply_manifest_mutate sm parsed hash revision,
      apply_inline_mapping_mutate inl data (hash_secret_data data), apply_inline_manifest_mutate inl parsed (hash_manifest_secret parsed)}"
    and "mut base = Inr out" and "same_content out s"
  shows "\<exists>out'. mut s = Inr out' \<and> same_content out' s"
  using assms(1)
proof (elim insertE emptyE)
  assume m: "mut = apply_target_mutate ss data hash revision"
  show ?thesis using assms(2,3) unfolding m by (rule sops_mutate_again)
next
  assume m: "mut = apply_manifest_mutate sm parsed hash revision"
  show ?thesis using assms(2,3) unfolding m by (rule manifest_mutate_again)
next
  assume m: "mut = apply_inline_mapping_mutate inl data (hash_secret_data data)"
  show ?thesis using assms(2,3) unfolding m by (rule inline_mapping_mutate_again)
next
  assume m: "mut = apply_inline_manifest_mutate inl parsed (hash_manifest_secret parsed)"
  show ?thesis using assms(2,3) unfolding m by (rule inline_manifest_mutate_again)
qed

theorem resync_is_stable_witness:
  "\<exists>out out'. apply_target_mutate (sample_sops None) None ''h'' ''c0'' (new_secret ''s'' ''n'') = Inr out
    \<and> apply_target_mutate (sample_sops None) None ''h'' ''c0'' out = Inr out' \<and> same_content out' out"
proof -
  let ?mut = "apply_target_mutate (sample_sops None) None ''h'' ''c0''"
  have "adoption_check (sops_owner (sample_sops None)) (v2_mt_adopt (v2_sss_target (v2_ss_spec (sample_sops None))))
      (new_secret ''s'' ''n'') = None"
    by (simp add: adoption_check_def new_secret_def empty_meta_def)
  from sops_mut.mut_accepts [OF this] obtain out where out: "?mut (new_secret ''s'' ''n'') = Inr out" by blast
  have "same_content out out" by (simp add: same_content_def)
  from resync_is_stable [OF insertI1 out this] out show ?thesis by blast
qed

end
