(* ===== verification/Startup.thy ===== *)
theory Startup
  imports System
begin

text \<open>
  \<open>cmd/main.go\<close>, the registration part of each controller's \<open>SetupWithManager\<close>, and \<open>Setup\<close> of
  \<open>internal/tracing/tracing.go\<close>: what the process does between its start and \<open>mgr.Start\<close>.

  \<open>main\<close> is a program over the process state that records what it did as \<open>main_action\<close>s, newest
  first. The calls into controller-runtime, client-go and OpenTelemetry are parameters that may
  fail (\<open>startup_ext\<close>). The flags are given as parsed; their defaults are \<open>default_flags\<close>. Left
  out: zap's own flags, the scheme, and messages logged on the way, except those of the
  credential policy.
\<close>

section \<open>Flags\<close>

record flags =
  metrics_bind_address :: string
  health_probe_bind_address :: string
  leader_elect :: bool
  metrics_secure :: bool
  webhook_cert_path :: string
  webhook_cert_name :: string
  webhook_cert_key :: string
  metrics_cert_path :: string
  metrics_cert_name :: string
  metrics_cert_key :: string
  enable_http2 :: bool
  global_age_key_secret :: string
  global_age_key_data_key :: string
  global_git_auth_secret :: string
  global_object_auth_secret :: string
  secret_ref_namespaces :: string

definition default_flags :: flags where
  "default_flags =
     \<lparr>metrics_bind_address = ''0'', health_probe_bind_address = '':8081'', leader_elect = False,
      metrics_secure = True,
      webhook_cert_path = [], webhook_cert_name = ''tls.crt'', webhook_cert_key = ''tls.key'',
      metrics_cert_path = [], metrics_cert_name = ''tls.crt'', metrics_cert_key = ''tls.key'',
      enable_http2 = False,
      global_age_key_secret = [], global_age_key_data_key = ''age.agekey'', global_git_auth_secret = [],
      global_object_auth_secret = [], secret_ref_namespaces = []\<rparr>"

definition credentials_of :: "flags \<Rightarrow> (string \<times> global_error) + credential_policy" where
  "credentials_of f = build_credential_policy (global_age_key_secret f) (global_age_key_data_key f)
     (global_git_auth_secret f) (global_object_auth_secret f) (secret_ref_namespaces f)"

section \<open>Servers\<close>

record tls_config =
  next_protos :: "string list"

definition disable_http2 :: "tls_config \<Rightarrow> tls_config" where
  "disable_http2 c = c\<lparr>next_protos := [''http/1.1'']\<rparr>"

definition tls_opts :: "flags \<Rightarrow> (tls_config \<Rightarrow> tls_config) list" where
  "tls_opts f = (if enable_http2 f then [] else [disable_http2])"

record webhook_options =
  wh_tls_opts :: "(tls_config \<Rightarrow> tls_config) list"
  wh_cert_dir :: string
  wh_cert_name :: string
  wh_key_name :: string

record metrics_options =
  ms_bind_address :: string
  ms_secure_serving :: bool
  ms_tls_opts :: "(tls_config \<Rightarrow> tls_config) list"
  ms_authentication_filter :: bool
  ms_cert_dir :: string
  ms_cert_name :: string
  ms_key_name :: string

record manager_options =
  mgr_metrics :: metrics_options
  mgr_webhook :: webhook_options
  mgr_probe_address :: string
  mgr_leader_election :: bool
  mgr_leader_election_id :: string

definition webhook_server_options :: "flags \<Rightarrow> webhook_options" where
  "webhook_server_options f =
     (let o1 = \<lparr>wh_tls_opts = tls_opts f, wh_cert_dir = [], wh_cert_name = [], wh_key_name = []\<rparr> in
      if webhook_cert_path f \<noteq> [] then
        o1\<lparr>wh_cert_dir := webhook_cert_path f, wh_cert_name := webhook_cert_name f, wh_key_name := webhook_cert_key f\<rparr>
      else o1)"

definition metrics_server_options :: "flags \<Rightarrow> metrics_options" where
  "metrics_server_options f =
     (let o1 = \<lparr>ms_bind_address = metrics_bind_address f, ms_secure_serving = metrics_secure f,
                ms_tls_opts = tls_opts f, ms_authentication_filter = False,
                ms_cert_dir = [], ms_cert_name = [], ms_key_name = []\<rparr>;
          o2 = (if metrics_secure f then o1\<lparr>ms_authentication_filter := True\<rparr> else o1) in
      if metrics_cert_path f \<noteq> [] then
        o2\<lparr>ms_cert_dir := metrics_cert_path f, ms_cert_name := metrics_cert_name f, ms_key_name := metrics_cert_key f\<rparr>
      else o2)"

definition manager_options_of :: "flags \<Rightarrow> manager_options" where
  "manager_options_of f =
     \<lparr>mgr_metrics = metrics_server_options f, mgr_webhook = webhook_server_options f,
      mgr_probe_address = health_probe_bind_address f, mgr_leader_election = leader_elect f,
      mgr_leader_election_id = ''65208f0d.stuttgart-things.com''\<rparr>"

section \<open>What a controller registers\<close>

datatype resource_kind =
    KindGitRepository | KindObjectSource | KindSopsSecret | KindSopsSecretManifest | KindInlineSopsSecret | KindSecret

text \<open>Field indexes in the order of registration, the kind reconciled, and the kinds watched beside it.\<close>

fun field_indexes :: "controller \<Rightarrow> (resource_kind \<times> string) list" where
  "field_indexes GitRepositoryController = [(KindGitRepository, GitRepoAuthSecretIndex)]"
| "field_indexes ObjectSourceController = [(KindObjectSource, ObjectSourceAuthSecretIndex)]"
| "field_indexes SopsSecretController =
     [(KindSopsSecret, SopsSecretGitRefIndex), (KindSopsSecret, SopsSecretObjectRefIndex)]"
| "field_indexes ManifestController =
     [(KindSopsSecretManifest, SopsSecretManifestGitRefIndex), (KindSopsSecretManifest, SopsSecretManifestObjectRefIndex)]"
| "field_indexes InlineController = []"

fun reconciled_kind :: "controller \<Rightarrow> resource_kind" where
  "reconciled_kind GitRepositoryController = KindGitRepository"
| "reconciled_kind ObjectSourceController = KindObjectSource"
| "reconciled_kind SopsSecretController = KindSopsSecret"
| "reconciled_kind ManifestController = KindSopsSecretManifest"
| "reconciled_kind InlineController = KindInlineSopsSecret"

fun watched_kinds :: "controller \<Rightarrow> resource_kind list" where
  "watched_kinds GitRepositoryController = [KindSecret]"
| "watched_kinds ObjectSourceController = [KindSecret]"
| "watched_kinds SopsSecretController = [KindGitRepository, KindObjectSource]"
| "watched_kinds ManifestController = [KindGitRepository, KindObjectSource]"
| "watched_kinds InlineController = []"

fun controller_name :: "controller \<Rightarrow> string" where
  "controller_name GitRepositoryController = ''gitrepository''"
| "controller_name ObjectSourceController = ''objectsource''"
| "controller_name SopsSecretController = ''sopssecret''"
| "controller_name ManifestController = ''sopssecretmanifest''"
| "controller_name InlineController = ''inlinesopssecret''"

record registration =
  rg_name :: string
  rg_for :: resource_kind
  rg_watches :: "resource_kind list"
  rg_policy :: credential_policy

definition registration_of :: "credential_policy \<Rightarrow> controller \<Rightarrow> registration" where
  "registration_of p c =
     \<lparr>rg_name = controller_name c, rg_for = reconciled_kind c, rg_watches = watched_kinds c, rg_policy = p\<rparr>"

section \<open>The process\<close>

datatype main_action =
    PolicyLogged string string string "string list"
  | CrossNamespaceWarned "string list"
  | TracerProviderSet bool  \<comment> \<open>whether it exports\<close>
  | ManagerCreated manager_options
  | IndexRegistered resource_kind string
  | ControllerRegistered registration
  | WebhookRegistered string
  | CheckAdded string
  | ManagerStarted
  | TracerShutDown

text \<open>\<open>os.Exit(1)\<close> with the message logged before it.\<close>

datatype exit = Returned | Exit1 string string

record 'w main_state = "'w os_state" +
  actions :: "main_action list"

type_synonym ('w, 'x, 'a) main_prog = "(('w, 'x) main_state_scheme, 'a) state"

record 'w startup_ext =
  x_otlp_exporter :: "('w, string option) state"
  x_otlp_resource :: "string \<Rightarrow> ('w, string option) state"  \<comment> \<open>service version\<close>
  x_kubeconfig :: "('w, string option) state"
  x_new_manager :: "manager_options \<Rightarrow> ('w, string option) state"
  x_index_field :: "resource_kind \<Rightarrow> string \<Rightarrow> ('w, string option) state"
  x_complete :: "registration \<Rightarrow> ('w, string option) state"
  x_add_healthz :: "string \<Rightarrow> ('w, string option) state"
  x_add_readyz :: "string \<Rightarrow> ('w, string option) state"
  x_start :: "('w, string option) state"
  x_shutdown :: "('w, unit) state"

definition did :: "main_action \<Rightarrow> ('w, 'x, unit) main_prog" where
  "did a = State (\<lambda>s. ((), s\<lparr>actions := a # actions s\<rparr>))"

text \<open>A call that may fail, and what is on record once it succeeded.\<close>

definition noted :: "('w, string option) state \<Rightarrow> main_action \<Rightarrow> ('w, 'x, string option) main_prog" where
  "noted m a = do {
     err \<leftarrow> on_world m;
     case err of Some e \<Rightarrow> State_Monad.return (Some e) | None \<Rightarrow> do { did a; State_Monad.return None }
   }"

text \<open>\<open>if err != nil { setupLog.Error(err, msg); os.Exit(1) }\<close>\<close>

definition or_exit ::
  "('w, 'x, string option) main_prog \<Rightarrow> string \<Rightarrow> ('w, 'x, exit) main_prog \<Rightarrow> ('w, 'x, exit) main_prog" where
  "or_exit m msg rest = do {
     err \<leftarrow> m;
     case err of Some e \<Rightarrow> State_Monad.return (Exit1 msg e) | None \<Rightarrow> rest
   }"

definition describe_global :: "global_ref option \<Rightarrow> string" where
  "describe_global g = (case g of None \<Rightarrow> ''<unset>'' | Some x \<Rightarrow> g_namespace x @ ''/'' @ g_name x)"

definition log_credential_policy :: "credential_policy \<Rightarrow> ('w, 'x, unit) main_prog" where
  "log_credential_policy p =
     (let allowed = allowed_namespaces (secret_refs p) in do {
        did (PolicyLogged (describe_global (global_age_key p)) (describe_global (global_git_auth p))
          (describe_global (global_object_auth p)) allowed);
        if allowed \<noteq> [] then did (CrossNamespaceWarned allowed) else State_Monad.return ()
      })"

text \<open>\<open>tracing.Setup\<close>: the shutdown function it returns is known by whether there is an exporter.\<close>

definition tracing_setup :: "'w startup_ext \<Rightarrow> string \<Rightarrow> ('w, 'x, string + bool) main_prog" where
  "tracing_setup X version = do {
     env \<leftarrow> gets penv;
     if tracing_disabled env then do { did (TracerProviderSet False); State_Monad.return (Inr False) }
     else do {
       err \<leftarrow> on_world (x_otlp_exporter X);
       case err of
         Some e \<Rightarrow> State_Monad.return (Inl (''create OTLP trace exporter: '' @ e))
       | None \<Rightarrow> do {
           err' \<leftarrow> on_world (x_otlp_resource X version);
           case err' of
             Some e \<Rightarrow> State_Monad.return (Inl (''build resource: '' @ e))
           | None \<Rightarrow> do { did (TracerProviderSet True); State_Monad.return (Inr True) }
         }
     }
   }"

fun register_indexes :: "'w startup_ext \<Rightarrow> (resource_kind \<times> string) list \<Rightarrow> ('w, 'x, string option) main_prog" where
  "register_indexes X [] = State_Monad.return None"
| "register_indexes X ((kind, index) # rest) = do {
     err \<leftarrow> noted (x_index_field X kind index) (IndexRegistered kind index);
     case err of Some e \<Rightarrow> State_Monad.return (Some e) | None \<Rightarrow> register_indexes X rest
   }"

text \<open>\<open>SetupWithManager\<close> of the five controllers.\<close>

definition setup_with_manager ::
  "'w startup_ext \<Rightarrow> credential_policy \<Rightarrow> controller \<Rightarrow> ('w, 'x, string option) main_prog" where
  "setup_with_manager X p c = do {
     err \<leftarrow> register_indexes X (field_indexes c);
     case err of
       Some e \<Rightarrow> State_Monad.return (Some e)
     | None \<Rightarrow> noted (x_complete X (registration_of p c)) (ControllerRegistered (registration_of p c))
   }"

definition setup_order :: "controller list" where
  "setup_order = [GitRepositoryController, SopsSecretController, ManifestController, InlineController, ObjectSourceController]"

fun setup_controllers ::
  "'w startup_ext \<Rightarrow> credential_policy \<Rightarrow> controller list \<Rightarrow> ('w, 'x, exit) main_prog \<Rightarrow> ('w, 'x, exit) main_prog" where
  "setup_controllers X p [] rest = rest"
| "setup_controllers X p (c # cs) rest =
     or_exit (setup_with_manager X p c) (''Failed to create controller: '' @ controller_kind c) (setup_controllers X p cs rest)"

text \<open>From the registration of the conversion webhook to the end; \<open>os.Exit\<close> skips the deferred shutdown.\<close>

definition run_manager :: "'w startup_ext \<Rightarrow> flags \<Rightarrow> bool \<Rightarrow> ('w, 'x, exit) main_prog" where
  "run_manager X f exporting = do {
     (if webhook_cert_path f \<noteq> [] then did (WebhookRegistered ''/convert'') else State_Monad.return ());
     or_exit (noted (x_add_healthz X ''healthz'') (CheckAdded ''healthz'')) ''Failed to set up health check''
       (or_exit (noted (x_add_readyz X ''readyz'') (CheckAdded ''readyz'')) ''Failed to set up ready check'' (do {
          did ManagerStarted;
          or_exit (on_world (x_start X)) ''Failed to run manager'' (do {
            (if exporting then on_world (x_shutdown X) else State_Monad.return ());
            did TracerShutDown;
            State_Monad.return Returned
          })
        }))
   }"

definition main :: "'w startup_ext \<Rightarrow> string \<Rightarrow> flags \<Rightarrow> ('w, 'x, exit) main_prog" where
  "main X version f =
     (case credentials_of f of
        Inl (flag, e) \<Rightarrow>
          State_Monad.return (Exit1 ''Invalid credential configuration'' (flag @ '': '' @ global_error_text e))
      | Inr p \<Rightarrow> do {
          log_credential_policy p;
          traced \<leftarrow> tracing_setup X version;
          case traced of
            Inl e \<Rightarrow> State_Monad.return (Exit1 ''Failed to set up tracing'' e)
          | Inr exporting \<Rightarrow>
              or_exit (on_world (x_kubeconfig X)) ''unable to get kubeconfig''
                (or_exit (noted (x_new_manager X (manager_options_of f)) (ManagerCreated (manager_options_of f)))
                   ''Failed to start manager'' (setup_controllers X p setup_order (run_manager X f exporting)))
        })"

section \<open>The plan of a start\<close>

definition policy_actions :: "credential_policy \<Rightarrow> main_action list" where
  "policy_actions p =
     (let allowed = allowed_namespaces (secret_refs p) in
      PolicyLogged (describe_global (global_age_key p)) (describe_global (global_git_auth p))
        (describe_global (global_object_auth p)) allowed
      # (if allowed \<noteq> [] then [CrossNamespaceWarned allowed] else []))"

definition controller_actions :: "credential_policy \<Rightarrow> controller \<Rightarrow> main_action list" where
  "controller_actions p c =
     map (\<lambda>(kind, index). IndexRegistered kind index) (field_indexes c) @ [ControllerRegistered (registration_of p c)]"

definition run_actions :: "flags \<Rightarrow> main_action list" where
  "run_actions f =
     (if webhook_cert_path f \<noteq> [] then [WebhookRegistered ''/convert''] else [])
     @ [CheckAdded ''healthz'', CheckAdded ''readyz'', ManagerStarted, TracerShutDown]"

definition startup_plan :: "bool \<Rightarrow> credential_policy \<Rightarrow> flags \<Rightarrow> main_action list" where
  "startup_plan exporting p f =
     policy_actions p @ [TracerProviderSet exporting, ManagerCreated (manager_options_of f)]
     @ concat (map (controller_actions p) setup_order) @ run_actions f"

text \<open>
  \<open>follows ok m xs\<close>: whatever the environment answers, \<open>m\<close> performs the actions \<open>xs\<close> in order up
  to some point, and all of them when its result satisfies \<open>ok\<close>.
\<close>

definition follows :: "('a \<Rightarrow> bool) \<Rightarrow> ('w, 'x, 'a) main_prog \<Rightarrow> main_action list \<Rightarrow> bool" where
  "follows ok m xs \<longleftrightarrow> (\<forall>s r s'. run_state m s = (r, s') \<longrightarrow>
     (\<exists>n. actions s' = rev (take n xs) @ actions s \<and> (ok r \<longrightarrow> length xs \<le> n)))"

lemma followsD: "follows ok m xs \<Longrightarrow> run_state m s = (r, s')
    \<Longrightarrow> \<exists>n. actions s' = rev (take n xs) @ actions s \<and> (ok r \<longrightarrow> length xs \<le> n)"
  by (simp add: follows_def)

lemma follows_return: "xs = [] \<or> \<not> ok x \<Longrightarrow> follows ok (State_Monad.return x) xs"
  unfolding follows_def by (auto intro: exI [of _ 0])

lemma follows_world: "follows ok (on_world m) []"
  by (auto simp: follows_def run_on_world)

lemma follows_did: "follows ok (did a) [a]"
  by (auto simp: follows_def did_def intro: exI [of _ 1])

lemma follows_bind:
  assumes m: "follows okm m xs" and f: "\<And>a. okm a \<Longrightarrow> follows ok (f a) ys"
    and stop: "\<And>a. \<not> okm a \<Longrightarrow> \<exists>x. f a = State_Monad.return x \<and> \<not> ok x"
  shows "follows ok (State_Monad.bind m f) (xs @ ys)"
  unfolding follows_def
proof (intro allI impI)
  fix s r s' assume run: "run_state (State_Monad.bind m f) s = (r, s')"
  obtain a t where a: "run_state m s = (a, t)" by fastforce
  with run have fa: "run_state (f a) t = (r, s')" by simp
  from followsD [OF m a] obtain n where n: "actions t = rev (take n xs) @ actions s" "okm a \<longrightarrow> length xs \<le> n"
    by blast
  show "\<exists>n. actions s' = rev (take n (xs @ ys)) @ actions s \<and> (ok r \<longrightarrow> length (xs @ ys) \<le> n)"
  proof (cases "okm a")
    case True
    from followsD [OF f [OF True] fa] obtain k where k: "actions s' = rev (take k ys) @ actions t"
      "ok r \<longrightarrow> length ys \<le> k" by blast
    with n True show ?thesis by (intro exI [of _ "length xs + k"]) simp
  next
    case False
    from stop [OF this] fa have "s' = t" "\<not> ok r" by auto
    moreover have "take n xs = take (min n (length xs)) (xs @ ys)" by (simp add: min_def)
    ultimately show ?thesis using n(1) by metis
  qed
qed

lemma follows_noted: "follows (\<lambda>r. r = None) (noted m a) [a]"
proof -
  have "follows (\<lambda>r. r = None) (do { did a; State_Monad.return None }) ([a] @ [])"
    by (rule follows_bind [where okm = "\<lambda>_. True", OF follows_did]) (simp_all add: follows_return)
  then have "follows (\<lambda>r. r = None) (noted m a) ([] @ [a])"
    unfolding noted_def by (intro follows_bind [where okm = "\<lambda>r. r = None", OF follows_world]) auto
  then show ?thesis by simp
qed

lemma follows_or_exit:
  assumes "follows (\<lambda>r. r = None) m xs" and "follows (\<lambda>r. r = Returned) rest ys"
  shows "follows (\<lambda>r. r = Returned) (or_exit m msg rest) (xs @ ys)"
  unfolding or_exit_def by (rule follows_bind [OF assms(1)]) (auto simp: assms(2))

lemma follows_then:
  assumes "follows (\<lambda>_. True) m xs" and "follows ok rest ys"
  shows "follows ok (State_Monad.bind m (\<lambda>_. rest)) (xs @ ys)"
  by (rule follows_bind [OF assms(1)]) (auto simp: assms(2))

lemma follows_indexes: "follows (\<lambda>r. r = None) (register_indexes X ixs) (map (\<lambda>(kind, index). IndexRegistered kind index) ixs)"
proof (induction ixs)
  case (Cons ix rest)
  obtain kind index where ix: "ix = (kind, index)" by (cases ix)
  have eq: "map (\<lambda>(kind, index). IndexRegistered kind index) (ix # rest)
      = [IndexRegistered kind index] @ map (\<lambda>(kind, index). IndexRegistered kind index) rest"
    by (simp add: ix)
  show ?case unfolding eq
    unfolding ix register_indexes.simps
    by (rule follows_bind [OF follows_noted]) (use Cons.IH in auto)
qed (simp add: follows_return)

lemma follows_setup: "follows (\<lambda>r. r = None) (setup_with_manager X p c) (controller_actions p c)"
  unfolding setup_with_manager_def controller_actions_def
  by (rule follows_bind [OF follows_indexes]) (auto intro: follows_noted)

lemma follows_controllers:
  assumes "follows (\<lambda>r. r = Returned) rest ys"
  shows "follows (\<lambda>r. r = Returned) (setup_controllers X p cs rest) (concat (map (controller_actions p) cs) @ ys)"
proof (induction cs)
  case (Cons c cs)
  show ?case using follows_or_exit [OF follows_setup Cons.IH] by simp
qed (simp add: assms)

lemma follows_run: "follows (\<lambda>r. r = Returned) (run_manager X f exporting) (run_actions f)"
proof -
  have tail: "follows (\<lambda>r. r = Returned) (do {
      (if exporting then on_world (x_shutdown X) else State_Monad.return ());
      did TracerShutDown;
      State_Monad.return Returned }) ([] @ [TracerShutDown] @ [])"
    by (intro follows_then follows_did follows_return) (auto intro: follows_world follows_return)
  have "follows (\<lambda>r. r = Returned) (run_manager X f exporting)
      ((if webhook_cert_path f \<noteq> [] then [WebhookRegistered ''/convert''] else [])
       @ [CheckAdded ''healthz''] @ [CheckAdded ''readyz''] @ [ManagerStarted] @ [] @ [] @ [TracerShutDown] @ [])"
    unfolding run_manager_def
    by (intro follows_then follows_or_exit follows_noted follows_did follows_world tail)
      (auto intro: follows_did follows_return)
  then show ?thesis by (simp add: run_actions_def)
qed

lemma follows_log: "follows (\<lambda>_. True) (log_credential_policy p) (policy_actions p)"
proof -
  have "follows (\<lambda>_. True) (log_credential_policy p)
      ([PolicyLogged (describe_global (global_age_key p)) (describe_global (global_git_auth p))
        (describe_global (global_object_auth p)) (allowed_namespaces (secret_refs p))]
      @ (if allowed_namespaces (secret_refs p) \<noteq> [] then [CrossNamespaceWarned (allowed_namespaces (secret_refs p))] else []))"
    unfolding log_credential_policy_def Let_def
    by (intro follows_then follows_did) (auto intro: follows_did follows_return)
  then show ?thesis by (simp add: policy_actions_def Let_def)
qed

lemma penv_log: "penv (snd (run_state (log_credential_policy p) s)) = penv s"
  by (simp add: log_credential_policy_def Let_def did_def)

lemma run_tracing_setup:
  assumes "run_state (tracing_setup X version) s = (r, s')"
  shows "case r of Inl e \<Rightarrow> actions s' = actions s
    | Inr b \<Rightarrow> b = (\<not> tracing_disabled (penv s)) \<and> actions s' = TracerProviderSet b # actions s"
  using assms by (auto simp: tracing_setup_def did_def run_on_world split: if_splits option.splits)

lemma follows_manager:
  "follows (\<lambda>r. r = Returned)
     (or_exit (on_world (x_kubeconfig X)) ''unable to get kubeconfig''
        (or_exit (noted (x_new_manager X (manager_options_of f)) (ManagerCreated (manager_options_of f)))
           ''Failed to start manager'' (setup_controllers X p setup_order (run_manager X f exporting))))
     ([] @ [ManagerCreated (manager_options_of f)] @ concat (map (controller_actions p) setup_order) @ run_actions f)"
  by (intro follows_or_exit follows_world follows_noted follows_controllers follows_run)

text \<open>With a valid policy, \<open>main\<close> performs a prefix of the plan, and returns only after all of it.\<close>

lemma main_follows_plan:
  fixes s s' :: "('w, 'x) main_state_scheme"
  assumes run: "run_state (main X version f) s = (r, s')" and p: "credentials_of f = Inr p" and "actions s = []"
  defines "plan \<equiv> startup_plan (\<not> tracing_disabled (penv s)) p f"
  obtains n where "rev (actions s') = take n plan" and "r = Returned \<Longrightarrow> rev (actions s') = plan"
proof -
  define t where "t = snd (run_state (log_credential_policy p) s)"
  have t: "run_state (log_credential_policy p) s = ((), t)" by (simp add: t_def prod_eq_iff)
  obtain a v where a: "run_state (tracing_setup X version) t = (a, v)" by fastforce
  have log: "actions t = rev (policy_actions p)"
    using followsD [OF follows_log t] assms(3) by auto
  have env: "penv t = penv s" using penv_log [of p s] t by simp
  note tr = run_tracing_setup [OF a]
  show thesis
  proof (cases a)
    case (Inl e)
    then have "r \<noteq> Returned" "actions s' = rev (policy_actions p)"
      using run p t a tr log by (auto simp: main_def)
    then show thesis by (intro that [of "length (policy_actions p)"]) (simp_all add: plan_def startup_plan_def)
  next
    case (Inr b)
    let ?ys = "ManagerCreated (manager_options_of f) # concat (map (controller_actions p) setup_order) @ run_actions f"
    have v: "actions v = TracerProviderSet b # rev (policy_actions p)" and b: "b = (\<not> tracing_disabled (penv s))"
      using tr Inr log env by auto
    have rest: "run_state (or_exit (on_world (x_kubeconfig X)) ''unable to get kubeconfig''
        (or_exit (noted (x_new_manager X (manager_options_of f)) (ManagerCreated (manager_options_of f)))
           ''Failed to start manager'' (setup_controllers X p setup_order (run_manager X f b)))) v = (r, s')"
      using run p t a Inr by (simp add: main_def)
    from followsD [OF follows_manager rest] obtain n where n: "actions s' = rev (take n ?ys) @ actions v"
      "r = Returned \<longrightarrow> length ?ys \<le> n" by (auto simp del: length_Cons)
    have plan: "plan = (policy_actions p @ [TracerProviderSet b]) @ ?ys"
      by (simp add: plan_def startup_plan_def b)
    show thesis
      by (rule that [of "Suc (length (policy_actions p)) + n"]) (use n v in \<open>auto simp: plan take_all\<close>)
  qed
qed

lemma take_contains:
  assumes "x \<in> set (take n (pre @ x # zs))" and "x \<notin> set pre"
  shows "set pre \<subseteq> set (take n (pre @ x # zs))"
proof -
  have "length pre < n"
  proof (rule ccontr)
    assume "\<not> length pre < n"
    with assms show False by (auto dest: in_set_takeD)
  qed
  then show ?thesis by auto
qed

lemma setup_order_complete: "c \<in> set setup_order"
  by (cases c) (simp_all add: setup_order_def)

section \<open>Properties\<close>

text \<open>
  The handlers that turn a watched object into requests list by a field index. Controller-runtime
  refuses to list by an index that was not registered: \<open>only_indexed\<close> is the API with these indexes.
\<close>

definition watch_mappers :: "'w kube \<Rightarrow> objkey \<Rightarrow> ('w, objkey list) state list" where
  "watch_mappers K obj =
     [map_secret_to_git_repos K obj, map_secret_to_object_sources K obj,
      map_git_repo_to_sops_secrets K obj, map_object_source_to_sops_secrets K obj,
      map_git_repo_to_manifests K obj, map_object_source_to_manifests K obj]"

definition only_indexed :: "(resource_kind \<Rightarrow> string \<Rightarrow> bool) \<Rightarrow> 'w kube \<Rightarrow> 'w kube" where
  "only_indexed registered K =
     K\<lparr>k_list_git_repositories :=
          (\<lambda>q. if registered KindGitRepository (fst q) then k_list_git_repositories K q
               else State_Monad.return (Inl (ApiError False ''index does not exist''))),
        k_list_object_sources :=
          (\<lambda>q. if registered KindObjectSource (fst q) then k_list_object_sources K q
               else State_Monad.return (Inl (ApiError False ''index does not exist''))),
        k_list_sops_secrets :=
          (\<lambda>ns q. if registered KindSopsSecret (fst q) then k_list_sops_secrets K ns q
               else State_Monad.return (Inl (ApiError False ''index does not exist''))),
        k_list_manifests :=
          (\<lambda>ns q. if registered KindSopsSecretManifest (fst q) then k_list_manifests K ns q
               else State_Monad.return (Inl (ApiError False ''index does not exist'')))\<rparr>"

lemma watch_mappers_indexed:
  assumes "\<And>c kind index. (kind, index) \<in> set (field_indexes c) \<Longrightarrow> registered kind index"
  shows "watch_mappers (only_indexed registered K) obj = watch_mappers K obj"
proof -
  have "registered KindGitRepository GitRepoAuthSecretIndex" "registered KindObjectSource ObjectSourceAuthSecretIndex"
    "registered KindSopsSecret SopsSecretGitRefIndex" "registered KindSopsSecret SopsSecretObjectRefIndex"
    "registered KindSopsSecretManifest SopsSecretManifestGitRefIndex"
    "registered KindSopsSecretManifest SopsSecretManifestObjectRefIndex"
    using assms [where c = GitRepositoryController] assms [where c = ObjectSourceController]
      assms [where c = SopsSecretController] assms [where c = ManifestController] by simp_all
  then show ?thesis
    by (simp add: watch_mappers_def only_indexed_def Let_def map_secret_to_git_repos_def map_secret_to_object_sources_def
        map_git_repo_to_sops_secrets_def map_object_source_to_sops_secrets_def map_source_to_sops_secrets_def
        map_git_repo_to_manifests_def map_object_source_to_manifests_def map_source_to_manifests_def)
qed

text \<open>
C40: The operator starts in order or not at all: with invalid credential flags nothing has been done
when the process exits; otherwise the actions performed are a prefix of the one plan, and all of it
if \<open>main\<close> returns. So when the manager starts, every controller is registered with the policy of
the flags, every field index exists (also every one by which a watch handler lists: without the
others each handler works as before), and the conversion webhook is registered exactly when a
certificate directory was given.
\<close>

theorem startup_fails_closed:
  fixes s s' :: "('w, 'x) main_state_scheme" and K :: "'k kube"
  assumes "run_state (main X version f) s = (r, s')" and "actions s = []"
  shows "case credentials_of f of
      Inl _ \<Rightarrow> s' = s \<and> r \<noteq> Returned
    | Inr p \<Rightarrow>
        (let plan = startup_plan (\<not> tracing_disabled (penv s)) p f in
          (\<exists>n. rev (actions s') = take n plan) \<and> (r = Returned \<longrightarrow> rev (actions s') = plan)
          \<and> (ManagerStarted \<in> set (actions s') \<longrightarrow>
               (\<forall>c. ControllerRegistered (registration_of p c) \<in> set (actions s')
                  \<and> (\<forall>(kind, index) \<in> set (field_indexes c). IndexRegistered kind index \<in> set (actions s')))
             \<and> watch_mappers (only_indexed (\<lambda>kind index. IndexRegistered kind index \<in> set (actions s')) K) obj
                 = watch_mappers K obj
             \<and> (WebhookRegistered ''/convert'' \<in> set (actions s') \<longleftrightarrow> webhook_cert_path f \<noteq> [])))"
proof (cases "credentials_of f")
  case (Inl e)
  with assms(1) show ?thesis by (cases e) (auto simp: main_def)
next
  case (Inr p)
  define plan where "plan = startup_plan (\<not> tracing_disabled (penv s)) p f"
  from main_follows_plan [OF assms(1) Inr assms(2)] obtain n where n: "rev (actions s') = take n plan"
    and ret: "r = Returned \<Longrightarrow> rev (actions s') = plan" unfolding plan_def by blast
  define pre where "pre = policy_actions p @ [TracerProviderSet (\<not> tracing_disabled (penv s)), ManagerCreated (manager_options_of f)]
     @ concat (map (controller_actions p) setup_order)
     @ (if webhook_cert_path f \<noteq> [] then [WebhookRegistered ''/convert''] else []) @ [CheckAdded ''healthz'', CheckAdded ''readyz'']"
  have plan: "plan = pre @ ManagerStarted # [TracerShutDown]"
    by (simp add: plan_def startup_plan_def run_actions_def pre_def)
  have acts: "set (actions s') = set (take n plan)" using n by (metis set_rev)
  have kinds: "set (controller_actions p c) = (\<lambda>(kind, index). IndexRegistered kind index) ` set (field_indexes c)
      \<union> {ControllerRegistered (registration_of p c)}" for c
    by (simp add: controller_actions_def)
  have none: "ManagerStarted \<notin> set pre" and hook: "WebhookRegistered ''/convert'' \<in> set plan \<longleftrightarrow> webhook_cert_path f \<noteq> []"
    by (auto simp: plan pre_def kinds policy_actions_def Let_def split: if_splits)
  have in_pre: "set (controller_actions p c) \<subseteq> set pre" for c
    using setup_order_complete [of c] by (auto simp: pre_def)
  have started: "(\<forall>c. set (controller_actions p c) \<subseteq> set (actions s'))
      \<and> watch_mappers (only_indexed (\<lambda>kind index. IndexRegistered kind index \<in> set (actions s')) K) obj = watch_mappers K obj
      \<and> (WebhookRegistered ''/convert'' \<in> set (actions s') \<longleftrightarrow> webhook_cert_path f \<noteq> [])"
    if "ManagerStarted \<in> set (actions s')"
  proof -
    from that none have "set pre \<subseteq> set (actions s')" unfolding acts plan by (rule take_contains)
    then have all: "\<forall>c. set (controller_actions p c) \<subseteq> set (actions s')"
      and "webhook_cert_path f \<noteq> [] \<Longrightarrow> WebhookRegistered ''/convert'' \<in> set (actions s')"
      using in_pre by (blast, simp add: pre_def)
    moreover from all have "watch_mappers (only_indexed (\<lambda>kind index. IndexRegistered kind index \<in> set (actions s')) K) obj
        = watch_mappers K obj"
      by (intro watch_mappers_indexed) (auto simp: kinds)
    moreover have "set (actions s') \<subseteq> set plan" unfolding acts by (rule set_take_subset)
    ultimately show ?thesis using hook by blast
  qed
  show ?thesis using n ret started unfolding plan_def [symmetric] by (auto simp: Inr kinds Let_def plan_def)
qed

text \<open>An environment that refuses nothing.\<close>

definition all_succeed :: "unit startup_ext" where
  "all_succeed =
     (let ok = State_Monad.return None in
      \<lparr>x_otlp_exporter = ok, x_otlp_resource = (\<lambda>_. ok), x_kubeconfig = ok, x_new_manager = (\<lambda>_. ok),
       x_index_field = (\<lambda>_ _. ok), x_complete = (\<lambda>_. ok), x_add_healthz = (\<lambda>_. ok), x_add_readyz = (\<lambda>_. ok),
       x_start = ok, x_shutdown = State_Monad.return ()\<rparr>)"

definition main_start :: "unit main_state" where
  "main_start = \<lparr>world = (), fsys = Map.empty, penv = Map.empty, actions = []\<rparr>"

theorem startup_fails_closed_witness:
  "\<exists>s'. run_state (main all_succeed ''dev'' (default_flags\<lparr>webhook_cert_path := ''/certs''\<rparr>)) main_start = (Returned, s')
    \<and> ControllerRegistered (registration_of (no_policy\<lparr>secret_refs := new_resolver []\<rparr>) InlineController) \<in> set (actions s')"
proof -
  let ?f = "default_flags\<lparr>webhook_cert_path := ''/certs''\<rparr>"
  have cred: "credentials_of ?f = Inr (no_policy\<lparr>secret_refs := new_resolver []\<rparr>)"
    by code_simp
  have "fst (run_state (main all_succeed ''dev'' ?f) main_start) = Returned"
    by (simp add: main_def cred log_credential_policy_def Let_def tracing_setup_def tracing_disabled_def getenv_def
        main_start_def all_succeed_def or_exit_def noted_def did_def run_on_world setup_order_def
        setup_with_manager_def run_manager_def)
  then obtain s' where run: "run_state (main all_succeed ''dev'' ?f) main_start = (Returned, s')"
    by (metis prod.collapse)
  have acts: "actions main_start = []" by (simp add: main_start_def)
  let ?plan = "startup_plan (\<not> tracing_disabled (penv main_start)) (no_policy\<lparr>secret_refs := new_resolver []\<rparr>) ?f"
  from startup_fails_closed [OF run acts, where K = mem_kube and obj = "ObjectKey [] []"] cred have "rev (actions s') = ?plan"
    by (simp add: Let_def)
  moreover have "ManagerStarted \<in> set ?plan" by (simp add: startup_plan_def run_actions_def)
  ultimately have "ManagerStarted \<in> set (actions s')" by (metis set_rev)
  with startup_fails_closed [OF run acts, where K = mem_kube and obj = "ObjectKey [] []"] cred run show ?thesis by (simp add: Let_def)
qed

end
