(* ===== verification/Scheme.thy ===== *)
theory Scheme
  imports Startup
begin

text \<open>
  The scheme of \<open>cmd/main.go\<close>: which Go type stands for which group, version and kind. Every
  \<open>_types.go\<close> file of \<open>api/v1alpha1\<close> and \<open>api/v1alpha2\<close> registers its resource and its list in an
  \<open>init\<close>; \<open>main\<close>'s \<open>init\<close> adds client-go's types (a parameter) and the two versions.
\<close>

datatype go_type = V1Type string | V2Type string | CoreType string

record gvk =
  gvk_group :: string
  gvk_version :: string
  gvk_kind :: string

type_synonym scheme = "gvk \<Rightarrow> go_type option"

definition sops_group :: string where
  "sops_group = ''sops.stuttgart-things.com''"

text \<open>What \<open>SchemeBuilder.Register\<close> has collected, in the order in which Go runs the \<open>init\<close> functions.\<close>

definition v1_scheme_builder :: "string list" where
  "v1_scheme_builder =
     [''GitRepository'', ''GitRepositoryList'', ''InlineSopsSecret'', ''InlineSopsSecretList'',
      ''SopsSecret'', ''SopsSecretList'', ''SopsSecretManifest'', ''SopsSecretManifestList'']"

definition v2_scheme_builder :: "string list" where
  "v2_scheme_builder =
     [''GitRepository'', ''GitRepositoryList'', ''InlineSopsSecret'', ''InlineSopsSecretList'',
      ''ObjectSource'', ''ObjectSourceList'', ''SopsSecret'', ''SopsSecretList'',
      ''SopsSecretManifest'', ''SopsSecretManifestList'']"

text \<open>\<open>Builder.AddToScheme\<close>: the kind of a type is its name.\<close>

definition add_types :: "string \<Rightarrow> (string \<Rightarrow> go_type) \<Rightarrow> string list \<Rightarrow> scheme \<Rightarrow> scheme" where
  "add_types version typ names sch =
     fold (\<lambda>n s. s(\<lparr>gvk_group = sops_group, gvk_version = version, gvk_kind = n\<rparr> \<mapsto> typ n)) names sch"

definition init_scheme :: "scheme \<Rightarrow> scheme" where
  "init_scheme client_go =
     add_types ''v1alpha2'' V2Type v2_scheme_builder (add_types ''v1alpha1'' V1Type v1_scheme_builder client_go)"

lemma fold_upd_apply:
  "fold (\<lambda>n s. s(k n \<mapsto> f n)) ns sch x
     = (if \<exists>n \<in> set ns. k n = x then Some (f (last (filter (\<lambda>n. k n = x) ns))) else sch x)"
proof (induction ns arbitrary: sch)
  case (Cons n ns)
  have "filter (\<lambda>n. k n = x) ns = [] \<longleftrightarrow> \<not> (\<exists>n \<in> set ns. k n = x)" by (auto simp: filter_empty_conv)
  with Cons show ?case by auto
qed simp

lemma filter_distinct: "n \<in> set ns \<Longrightarrow> last (filter (\<lambda>m. m = n) ns) = n"
  using last_in_set [of "filter (\<lambda>m. m = n) ns"] by (fastforce simp: filter_empty_conv)

lemma add_types_apply:
  "add_types version typ names sch g =
     (if gvk_group g = sops_group \<and> gvk_version g = version \<and> gvk_kind g \<in> set names then Some (typ (gvk_kind g)) else sch g)"
proof -
  have key: "\<lparr>gvk_group = sops_group, gvk_version = version, gvk_kind = n\<rparr> = g
      \<longleftrightarrow> gvk_group g = sops_group \<and> gvk_version g = version \<and> n = gvk_kind g" for n
    by (cases g) auto
  show ?thesis
  proof (cases "gvk_group g = sops_group \<and> gvk_version g = version")
    case True
    then show ?thesis
      using filter_distinct [of "gvk_kind g" names] by (simp add: add_types_def fold_upd_apply key)
  next
    case False
    then show ?thesis by (auto simp: add_types_def fold_upd_apply key)
  qed
qed

section \<open>What the controllers need of it\<close>

text \<open>The Go types that \<open>SetupWithManager\<close> names for a kind, and the list types that a controller lists.\<close>

fun kind_type :: "resource_kind \<Rightarrow> go_type" where
  "kind_type KindGitRepository = V1Type ''GitRepository''"
| "kind_type KindObjectSource = V2Type ''ObjectSource''"
| "kind_type KindSopsSecret = V2Type ''SopsSecret''"
| "kind_type KindSopsSecretManifest = V2Type ''SopsSecretManifest''"
| "kind_type KindInlineSopsSecret = V1Type ''InlineSopsSecret''"
| "kind_type KindSecret = CoreType ''Secret''"

fun listed_types :: "controller \<Rightarrow> go_type list" where
  "listed_types GitRepositoryController = [V1Type ''GitRepositoryList'']"
| "listed_types ObjectSourceController = [V2Type ''ObjectSourceList'']"
| "listed_types SopsSecretController = [V2Type ''SopsSecretList'']"
| "listed_types ManifestController = [V2Type ''SopsSecretManifestList'', CoreType ''SecretList'']"
| "listed_types InlineController = [CoreType ''SecretList'']"

definition handled_types :: "controller \<Rightarrow> go_type list" where
  "handled_types c = map kind_type (reconciled_kind c # watched_kinds c) @ listed_types c"

text \<open>\<open>Hub\<close> is implemented by these types of v1alpha2, \<open>ConvertTo\<close> by those of v1alpha1.\<close>

definition hub_kinds :: "string list" where
  "hub_kinds = [''GitRepository'', ''InlineSopsSecret'', ''ObjectSource'', ''SopsSecret'', ''SopsSecretManifest'']"

definition spoke_kinds :: "string list" where
  "spoke_kinds = [''GitRepository'', ''InlineSopsSecret'', ''SopsSecret'', ''SopsSecretManifest'']"

text \<open>
  Every type that a controller hands to the client is in the scheme, and so are both sides of every
  conversion; the two versions do not shadow each other or client-go.
\<close>

lemma handled_types_registered:
  assumes "client_go \<lparr>gvk_group = [], gvk_version = ''v1'', gvk_kind = ''Secret''\<rparr> = Some (CoreType ''Secret'')"
    and "client_go \<lparr>gvk_group = [], gvk_version = ''v1'', gvk_kind = ''SecretList''\<rparr> = Some (CoreType ''SecretList'')"
    and "t \<in> set (handled_types c)"
  shows "t \<in> ran (init_scheme client_go)"
proof -
  let ?core = "{''Secret'', ''SecretList''}"
  have "set (handled_types c) \<subseteq> V1Type ` set v1_scheme_builder \<union> V2Type ` set v2_scheme_builder \<union> CoreType ` ?core"
    by (cases c) (simp_all add: handled_types_def v1_scheme_builder_def v2_scheme_builder_def)
  with assms(3) consider (v1) n where "t = V1Type n" "n \<in> set v1_scheme_builder"
    | (v2) n where "t = V2Type n" "n \<in> set v2_scheme_builder" | (core) n where "t = CoreType n" "n \<in> ?core"
    by blast
  then show ?thesis
  proof cases
    case v1
    then have "init_scheme client_go \<lparr>gvk_group = sops_group, gvk_version = ''v1alpha1'', gvk_kind = n\<rparr> = Some t"
      by (simp add: init_scheme_def add_types_apply)
    then show ?thesis by (rule ranI)
  next
    case v2
    then have "init_scheme client_go \<lparr>gvk_group = sops_group, gvk_version = ''v1alpha2'', gvk_kind = n\<rparr> = Some t"
      by (simp add: init_scheme_def add_types_apply)
    then show ?thesis by (rule ranI)
  next
    case core
    with assms(1,2) have "init_scheme client_go \<lparr>gvk_group = [], gvk_version = ''v1'', gvk_kind = n\<rparr> = Some t"
      by (auto simp: init_scheme_def add_types_apply sops_group_def)
    then show ?thesis by (rule ranI)
  qed
qed

lemma conversion_types_registered:
  "n \<in> set spoke_kinds \<Longrightarrow> init_scheme client_go \<lparr>gvk_group = sops_group, gvk_version = ''v1alpha1'', gvk_kind = n\<rparr> = Some (V1Type n)"
  "n \<in> set hub_kinds \<Longrightarrow> init_scheme client_go \<lparr>gvk_group = sops_group, gvk_version = ''v1alpha2'', gvk_kind = n\<rparr> = Some (V2Type n)"
  "set spoke_kinds \<subseteq> set hub_kinds"
  "gvk_group g \<noteq> sops_group \<Longrightarrow> init_scheme client_go g = client_go g"
  by (auto simp: init_scheme_def add_types_apply spoke_kinds_def hub_kinds_def v1_scheme_builder_def v2_scheme_builder_def)

end
