(* ===== verification/Locking.thy ===== *)
theory Locking
  imports Registry
begin

text \<open>
  The registry of \<open>internal/source\<close> under concurrent calls, at the grain of its locks: \<open>r.mu\<close> guards
  the maps and is held for one lookup, the \<open>RWMutex\<close> of an entry is held while the entry is refreshed
  or read. \<open>Registry\<close> runs each operation as a whole; here the sections between two lock operations,
  and each assignment to a field of an entry, are steps of their own, and calls interleave freely.

  Entries are cells of a heap, named by numbers in the order of their allocation. A call is known by
  its number; what it has read is in its program counter. What the remote end answers is left open.
\<close>

section \<open>Read-write locks\<close>

text \<open>
  \<open>holds c p\<close>: a call at \<open>c\<close> is between locking and unlocking the entry \<open>p\<close>. Writers hold \<open>rw\<close>
  exclusively, readers share it.
\<close>

definition locks_ok ::
  "('c \<Rightarrow> nat \<Rightarrow> bool) \<Rightarrow> (nat \<Rightarrow> bool) \<Rightarrow> (nat \<Rightarrow> 'c) \<Rightarrow> (nat \<Rightarrow> nat option) \<Rightarrow> (nat \<Rightarrow> nat set) \<Rightarrow> bool" where
  "locks_ok holds writes at writer readers \<longleftrightarrow>
     (\<forall>i p. (writer p = Some i \<longleftrightarrow> writes i \<and> holds (at i) p) \<and> (i \<in> readers p \<longleftrightarrow> \<not> writes i \<and> holds (at i) p))
     \<and> (\<forall>p. readers p \<noteq> {} \<longrightarrow> writer p = None)"

locale call_locks =
  fixes holds :: "'c \<Rightarrow> nat \<Rightarrow> bool"
  assumes one_lock: "holds c p \<Longrightarrow> holds c q \<Longrightarrow> p = q"
begin

lemma inside:
  assumes "locks_ok holds writes at writer readers" and "\<And>p. holds c p \<longleftrightarrow> holds (at i) p"
  shows "locks_ok holds writes (at(i := c)) writer readers"
  using assms by (simp add: locks_ok_def)

lemma write_locked:
  assumes "locks_ok holds writes at writer readers" and "writes i" and "\<And>q. \<not> holds (at i) q"
    and "holds c p" and "writer p = None" and "readers p = {}"
  shows "locks_ok holds writes (at(i := c)) (writer(p := Some i)) readers"
proof -
  have c: "holds c q \<longleftrightarrow> q = p" for q using one_lock assms(4) by blast
  from assms(1) have wr: "\<And>j q. (writer q = Some j) = (writes j \<and> holds (at j) q)"
    and rd: "\<And>j q. (j \<in> readers q) = (\<not> writes j \<and> holds (at j) q)" and ex: "\<And>q. readers q \<noteq> {} \<Longrightarrow> writer q = None"
    by (simp_all add: locks_ok_def)
  show ?thesis
    unfolding locks_ok_def
  proof (intro conjI allI impI)
    fix j q
    show "((writer(p := Some i)) q = Some j) \<longleftrightarrow> writes j \<and> holds ((at(i := c)) j) q"
      using assms(2-) wr [of q j] wr [of p i] ex [of p] rd [of i p] c by (cases "j = i"; cases "q = p") auto
    show "(j \<in> readers q) \<longleftrightarrow> \<not> writes j \<and> holds ((at(i := c)) j) q"
      using assms(2-) rd [of j q] wr [of p i] ex [of p] rd [of i p] c by (cases "j = i"; cases "q = p") auto
  next
    fix q assume "readers q \<noteq> {}"
    with assms(2-) ex [of q] ex [of p] rd [of i p] wr [of p i] show "(writer(p := Some i)) q = None" by (cases "q = p") auto
  qed
qed

lemma read_locked:
  assumes "locks_ok holds writes at writer readers" and "\<not> writes i" and "\<And>q. \<not> holds (at i) q"
    and "holds c p" and "writer p = None"
  shows "locks_ok holds writes (at(i := c)) writer (readers(p := insert i (readers p)))"
proof -
  have c: "holds c q \<longleftrightarrow> q = p" for q using one_lock assms(4) by blast
  from assms(1) have wr: "\<And>j q. (writer q = Some j) = (writes j \<and> holds (at j) q)"
    and rd: "\<And>j q. (j \<in> readers q) = (\<not> writes j \<and> holds (at j) q)" and ex: "\<And>q. readers q \<noteq> {} \<Longrightarrow> writer q = None"
    by (simp_all add: locks_ok_def)
  show ?thesis
    unfolding locks_ok_def
  proof (intro conjI allI impI)
    fix j q
    show "(writer q = Some j) \<longleftrightarrow> writes j \<and> holds ((at(i := c)) j) q"
      using assms(2-) wr [of q j] wr [of p i] ex [of p] rd [of i p] c by (cases "j = i"; cases "q = p") auto
    show "(j \<in> (readers(p := insert i (readers p))) q) \<longleftrightarrow> \<not> writes j \<and> holds ((at(i := c)) j) q"
      using assms(2-) rd [of j q] wr [of p i] ex [of p] rd [of i p] c by (cases "j = i"; cases "q = p") auto
  next
    fix q assume "(readers(p := insert i (readers p))) q \<noteq> {}"
    with assms(2-) ex [of q] ex [of p] rd [of i p] wr [of p i] show "writer q = None" by (cases "q = p") auto
  qed
qed

lemma write_unlocked:
  assumes "locks_ok holds writes at writer readers" and "writes i" and "holds (at i) p" and "\<And>q. \<not> holds c q"
  shows "locks_ok holds writes (at(i := c)) (writer(p := None)) readers"
proof -
  have c: "holds (at i) q \<longleftrightarrow> q = p" for q using one_lock assms(3) by blast
  from assms(1) have wr: "\<And>j q. (writer q = Some j) = (writes j \<and> holds (at j) q)"
    and rd: "\<And>j q. (j \<in> readers q) = (\<not> writes j \<and> holds (at j) q)" and ex: "\<And>q. readers q \<noteq> {} \<Longrightarrow> writer q = None"
    by (simp_all add: locks_ok_def)
  show ?thesis
    unfolding locks_ok_def
  proof (intro conjI allI impI)
    fix j q
    show "((writer(p := None)) q = Some j) \<longleftrightarrow> writes j \<and> holds ((at(i := c)) j) q"
      using assms(2-) wr [of q j] wr [of p i] ex [of p] rd [of i p] c by (cases "j = i"; cases "q = p") auto
    show "(j \<in> readers q) \<longleftrightarrow> \<not> writes j \<and> holds ((at(i := c)) j) q"
      using assms(2-) rd [of j q] wr [of p i] ex [of p] rd [of i p] c by (cases "j = i"; cases "q = p") auto
  next
    fix q assume "readers q \<noteq> {}"
    with assms(2-) ex [of q] ex [of p] rd [of i p] wr [of p i] show "(writer(p := None)) q = None" by (cases "q = p") auto
  qed
qed

lemma read_unlocked:
  assumes "locks_ok holds writes at writer readers" and "\<not> writes i" and "holds (at i) p" and "\<And>q. \<not> holds c q"
  shows "locks_ok holds writes (at(i := c)) writer (readers(p := readers p - {i}))"
proof -
  have c: "holds (at i) q \<longleftrightarrow> q = p" for q using one_lock assms(3) by blast
  from assms(1) have wr: "\<And>j q. (writer q = Some j) = (writes j \<and> holds (at j) q)"
    and rd: "\<And>j q. (j \<in> readers q) = (\<not> writes j \<and> holds (at j) q)" and ex: "\<And>q. readers q \<noteq> {} \<Longrightarrow> writer q = None"
    by (simp_all add: locks_ok_def)
  show ?thesis
    unfolding locks_ok_def
  proof (intro conjI allI impI)
    fix j q
    show "(writer q = Some j) \<longleftrightarrow> writes j \<and> holds ((at(i := c)) j) q"
      using assms(2-) wr [of q j] wr [of p i] ex [of p] rd [of i p] c by (cases "j = i"; cases "q = p") auto
    show "(j \<in> (readers(p := readers p - {i})) q) \<longleftrightarrow> \<not> writes j \<and> holds ((at(i := c)) j) q"
      using assms(2-) rd [of j q] wr [of p i] ex [of p] rd [of i p] c by (cases "j = i"; cases "q = p") auto
  next
    fix q assume "(readers(p := readers p - {i})) q \<noteq> {}"
    then have "readers q \<noteq> {}" by (cases "q = p") auto
    then show "writer q = None" by (rule ex)
  qed
qed

lemma writer_excludes:
  assumes "locks_ok holds writes at writer readers" and "writes i" and "holds (at i) p" and "holds (at j) p"
  shows "j = i"
proof -
  have "writer p = Some i" using assms(1-3) by (simp add: locks_ok_def)
  moreover have "writer p = Some j \<or> j \<in> readers p" using assms(1,4) by (auto simp: locks_ok_def)
  ultimately show ?thesis using assms(1) unfolding locks_ok_def by (metis empty_iff option.distinct(1) option.inject)
qed

end

section \<open>Object sources\<close>

datatype object_call =
    EnsureObject objkey object_mode fetcher
  | ReadObject objkey
  | ForgetObject objkey

datatype call_result =
    ReadOk bytes string  \<comment> \<open>content with its ETag or commit\<close>
  | RefreshOk string
  | Failed
  | Forgotten

datatype object_at =
    ObjectStart
  | ObjectFound nat
  | ObjectWriting nat  \<comment> \<open>\<open>e.rw\<close> locked, \<open>e.fetcher\<close> set\<close>
  | ObjectFetched nat bytes string  \<comment> \<open>\<open>Fetch\<close> returned a body and its ETag\<close>
  | ETagStored nat bytes string  \<comment> \<open>\<open>e.etag\<close> assigned, \<open>e.content\<close> not yet\<close>
  | ObjectReading nat
  | ContentRead nat bytes  \<comment> \<open>\<open>e.content\<close> copied, \<open>e.etag\<close> not yet read\<close>
  | ObjectLeaving nat call_result
  | ObjectDone call_result

text \<open>\<open>om_fetched\<close> records what was ever fetched for a key.\<close>

record object_machine =
  om_at :: "nat \<Rightarrow> object_at"
  om_writer :: "nat \<Rightarrow> nat option"
  om_readers :: "nat \<Rightarrow> nat set"
  om_objects :: "objkey \<Rightarrow> nat option"
  om_cell :: "nat \<Rightarrow> object_entry"
  om_next :: nat
  om_owner :: "nat \<Rightarrow> objkey"
  om_fetched :: "(objkey \<times> bytes \<times> string) set"

definition object_machine_start :: object_machine where
  "object_machine_start =
     \<lparr>om_at = (\<lambda>_. ObjectStart), om_writer = Map.empty, om_readers = (\<lambda>_. {}), om_objects = Map.empty,
      om_cell = (\<lambda>_. new_object_entry ObjectModeURL), om_next = 0, om_owner = (\<lambda>_. ObjectKey [] []), om_fetched = {}\<rparr>"

abbreviation object_goes :: "object_machine \<Rightarrow> nat \<Rightarrow> object_at \<Rightarrow> object_machine" where
  "object_goes s i c \<equiv> s\<lparr>om_at := (om_at s)(i := c)\<rparr>"

inductive object_step :: "(nat \<Rightarrow> object_call) \<Rightarrow> object_machine \<Rightarrow> object_machine \<Rightarrow> bool" for calls where
  new_entry: "calls i = EnsureObject k mode f \<Longrightarrow> om_at s i = ObjectStart
    \<Longrightarrow> (case om_objects s k of None \<Rightarrow> True | Some p \<Rightarrow> oe_mode (om_cell s p) \<noteq> mode)
    \<Longrightarrow> object_step calls s ((object_goes s i (ObjectFound (om_next s)))
          \<lparr>om_objects := (om_objects s)(k \<mapsto> om_next s), om_cell := (om_cell s)(om_next s := new_object_entry mode),
           om_owner := (om_owner s)(om_next s := k), om_next := Suc (om_next s)\<rparr>)"
| old_entry: "calls i = EnsureObject k mode f \<Longrightarrow> om_at s i = ObjectStart \<Longrightarrow> om_objects s k = Some p
    \<Longrightarrow> oe_mode (om_cell s p) = mode \<Longrightarrow> object_step calls s (object_goes s i (ObjectFound p))"
| lock: "calls i = EnsureObject k mode f \<Longrightarrow> om_at s i = ObjectFound p \<Longrightarrow> om_writer s p = None
    \<Longrightarrow> om_readers s p = {}
    \<Longrightarrow> object_step calls s ((object_goes s i (ObjectWriting p))
          \<lparr>om_writer := (om_writer s)(p := Some i),
           om_cell := (om_cell s)(p := (om_cell s p)\<lparr>oe_fetcher := Some f\<rparr>)\<rparr>)"
| fetched: "calls i = EnsureObject k ObjectModeURL f \<Longrightarrow> om_at s i = ObjectWriting p
    \<Longrightarrow> object_step calls s ((object_goes s i (ObjectFetched p body etag))
          \<lparr>om_fetched := insert (k, body, etag) (om_fetched s)\<rparr>)"
| not_modified: "calls i = EnsureObject k ObjectModeURL f \<Longrightarrow> om_at s i = ObjectWriting p
    \<Longrightarrow> object_step calls s (object_goes s i (ObjectLeaving p (RefreshOk (oe_etag (om_cell s p)))))"
| refresh_failed: "calls i = EnsureObject k mode f \<Longrightarrow> om_at s i = ObjectWriting p
    \<Longrightarrow> object_step calls s (object_goes s i (ObjectLeaving p Failed))"
| probed: "calls i = EnsureObject k ObjectModeBucket f \<Longrightarrow> om_at s i = ObjectWriting p
    \<Longrightarrow> object_step calls s (object_goes s i (ObjectLeaving p (RefreshOk [])))"
| store_etag: "calls i = EnsureObject k mode f \<Longrightarrow> om_at s i = ObjectFetched p body etag
    \<Longrightarrow> object_step calls s ((object_goes s i (ETagStored p body etag))
          \<lparr>om_cell := (om_cell s)(p := (om_cell s p)\<lparr>oe_etag := etag\<rparr>)\<rparr>)"
| store_content: "calls i = EnsureObject k mode f \<Longrightarrow> om_at s i = ETagStored p body etag
    \<Longrightarrow> object_step calls s ((object_goes s i (ObjectLeaving p (RefreshOk etag)))
          \<lparr>om_cell := (om_cell s)(p := (om_cell s p)\<lparr>oe_content := body\<rparr>)\<rparr>)"
| unlock: "calls i = EnsureObject k mode f \<Longrightarrow> om_at s i = ObjectLeaving p r
    \<Longrightarrow> object_step calls s ((object_goes s i (ObjectDone r))\<lparr>om_writer := (om_writer s)(p := None)\<rparr>)"
| find: "calls i = ReadObject k \<Longrightarrow> om_at s i = ObjectStart
    \<Longrightarrow> object_step calls s (object_goes s i
          (case om_objects s k of None \<Rightarrow> ObjectDone Failed | Some p \<Rightarrow> ObjectFound p))"
| read_lock: "calls i = ReadObject k \<Longrightarrow> om_at s i = ObjectFound p \<Longrightarrow> om_writer s p = None
    \<Longrightarrow> object_step calls s ((object_goes s i (ObjectReading p))
          \<lparr>om_readers := (om_readers s)(p := insert i (om_readers s p))\<rparr>)"
| read_content: "calls i = ReadObject k \<Longrightarrow> om_at s i = ObjectReading p \<Longrightarrow> oe_mode (om_cell s p) = ObjectModeURL
    \<Longrightarrow> object_step calls s (object_goes s i (if oe_content (om_cell s p) = [] then ObjectLeaving p Failed
          else ContentRead p (oe_content (om_cell s p))))"
| read_etag: "calls i = ReadObject k \<Longrightarrow> om_at s i = ContentRead p body
    \<Longrightarrow> object_step calls s (object_goes s i (ObjectLeaving p (ReadOk body (oe_etag (om_cell s p)))))"
| read_bucket: "calls i = ReadObject k \<Longrightarrow> om_at s i = ObjectReading p \<Longrightarrow> oe_mode (om_cell s p) = ObjectModeBucket
    \<Longrightarrow> oe_fetcher (om_cell s p) \<noteq> None
    \<Longrightarrow> object_step calls s ((object_goes s i (ObjectLeaving p (ReadOk body etag)))
          \<lparr>om_fetched := insert (k, body, etag) (om_fetched s)\<rparr>)"
| read_failed: "calls i = ReadObject k \<Longrightarrow> om_at s i = ObjectReading p \<Longrightarrow> oe_mode (om_cell s p) \<noteq> ObjectModeURL
    \<Longrightarrow> object_step calls s (object_goes s i (ObjectLeaving p Failed))"
| read_unlock: "calls i = ReadObject k \<Longrightarrow> om_at s i = ObjectLeaving p r
    \<Longrightarrow> object_step calls s ((object_goes s i (ObjectDone r))
          \<lparr>om_readers := (om_readers s)(p := om_readers s p - {i})\<rparr>)"
| forget: "calls i = ForgetObject k \<Longrightarrow> om_at s i = ObjectStart
    \<Longrightarrow> object_step calls s ((object_goes s i (ObjectDone Forgotten))\<lparr>om_objects := (om_objects s)(k := None)\<rparr>)"

text \<open>What a call's position says of the state.\<close>

fun writes_object :: "object_call \<Rightarrow> bool" where
  "writes_object (EnsureObject k mode f) = True"
| "writes_object _ = False"

fun object_key :: "object_call \<Rightarrow> objkey" where
  "object_key (EnsureObject k mode f) = k"
| "object_key (ReadObject k) = k"
| "object_key (ForgetObject k) = k"

fun object_holds :: "object_at \<Rightarrow> nat \<Rightarrow> bool" where
  "object_holds (ObjectWriting p) q = (p = q)"
| "object_holds (ObjectFetched p body etag) q = (p = q)"
| "object_holds (ETagStored p body etag) q = (p = q)"
| "object_holds (ObjectReading p) q = (p = q)"
| "object_holds (ContentRead p body) q = (p = q)"
| "object_holds (ObjectLeaving p r) q = (p = q)"
| "object_holds _ q = False"

interpretation object_locks: call_locks object_holds
proof
  show "object_holds c p \<Longrightarrow> object_holds c q \<Longrightarrow> p = q" for c p q
    by (cases c) auto
qed

definition result_fetched :: "objkey \<Rightarrow> (objkey \<times> bytes \<times> string) set \<Rightarrow> call_result \<Rightarrow> bool" where
  "result_fetched k known r = (case r of
       ReadOk body etag \<Rightarrow> (k, body, etag) \<in> known
     | RefreshOk etag \<Rightarrow> etag = [] \<or> (\<exists>body. (k, body, etag) \<in> known)
     | _ \<Rightarrow> True)"

definition own_cell :: "object_call \<Rightarrow> object_machine \<Rightarrow> nat \<Rightarrow> bool" where
  "own_cell c s p \<longleftrightarrow> p < om_next s \<and> om_owner s p = object_key c"

fun object_at_ok :: "object_call \<Rightarrow> object_machine \<Rightarrow> object_at \<Rightarrow> bool" where
  "object_at_ok c s ObjectStart = True"
| "object_at_ok c s (ObjectFound p) = own_cell c s p"
| "object_at_ok c s (ObjectWriting p) = (writes_object c \<and> own_cell c s p)"
| "object_at_ok c s (ObjectFetched p body etag) =
     (writes_object c \<and> own_cell c s p \<and> (object_key c, body, etag) \<in> om_fetched s)"
| "object_at_ok c s (ETagStored p body etag) =
     (writes_object c \<and> own_cell c s p \<and> (object_key c, body, etag) \<in> om_fetched s \<and> oe_etag (om_cell s p) = etag)"
| "object_at_ok c s (ObjectReading p) = (\<not> writes_object c \<and> own_cell c s p)"
| "object_at_ok c s (ContentRead p body) =
     (\<not> writes_object c \<and> own_cell c s p \<and> body \<noteq> [] \<and> oe_content (om_cell s p) = body)"
| "object_at_ok c s (ObjectLeaving p r) = (own_cell c s p \<and> result_fetched (object_key c) (om_fetched s) r)"
| "object_at_ok c s (ObjectDone r) = result_fetched (object_key c) (om_fetched s) r"

definition etag_stored :: "object_at \<Rightarrow> nat \<Rightarrow> bool" where
  "etag_stored a p \<longleftrightarrow> (\<exists>body etag. a = ETagStored p body etag)"

definition cell_paired :: "object_machine \<Rightarrow> nat \<Rightarrow> bool" where
  "cell_paired s p \<longleftrightarrow> (oe_content (om_cell s p) = [] \<and> oe_etag (om_cell s p) = [])
     \<or> (om_owner s p, oe_content (om_cell s p), oe_etag (om_cell s p)) \<in> om_fetched s"

definition object_inv :: "(nat \<Rightarrow> object_call) \<Rightarrow> object_machine \<Rightarrow> bool" where
  "object_inv calls s \<longleftrightarrow>
     locks_ok object_holds (\<lambda>i. writes_object (calls i)) (om_at s) (om_writer s) (om_readers s)
     \<and> (\<forall>i. object_at_ok (calls i) s (om_at s i))
     \<and> (\<forall>p < om_next s. (\<forall>i. \<not> etag_stored (om_at s i) p) \<longrightarrow> cell_paired s p)
     \<and> (\<forall>k p. om_objects s k = Some p \<longrightarrow> p < om_next s \<and> om_owner s p = k)"

lemma object_invD:
  assumes "object_inv calls s"
  shows "locks_ok object_holds (\<lambda>i. writes_object (calls i)) (om_at s) (om_writer s) (om_readers s)"
    and "object_at_ok (calls i) s (om_at s i)"
    and "p < om_next s \<Longrightarrow> (\<And>i. \<not> etag_stored (om_at s i) p) \<Longrightarrow> cell_paired s p"
    and "om_objects s k = Some p \<Longrightarrow> p < om_next s \<and> om_owner s p = k"
  using assms by (auto simp: object_inv_def)

text \<open>A step by call \<open>i\<close> leaves the others alone if it changes no cell that one of them has locked.\<close>

definition object_extends :: "object_machine \<Rightarrow> object_machine \<Rightarrow> bool" where
  "object_extends s s' \<longleftrightarrow> om_next s \<le> om_next s' \<and> om_fetched s \<subseteq> om_fetched s'
     \<and> (\<forall>p < om_next s. om_owner s' p = om_owner s p)"

lemma result_fetched_mono: "result_fetched k known r \<Longrightarrow> known \<subseteq> known' \<Longrightarrow> result_fetched k known' r"
  by (cases r) (auto simp: result_fetched_def)

lemma object_at_ok_mono:
  assumes "object_at_ok c s a" and "object_extends s s'"
    and "\<And>p. object_holds a p \<Longrightarrow> oe_etag (om_cell s' p) = oe_etag (om_cell s p) \<and> oe_content (om_cell s' p) = oe_content (om_cell s p)"
  shows "object_at_ok c s' a"
proof -
  have own: "own_cell c s p \<Longrightarrow> own_cell c s' p" for p
    using assms(2) by (auto simp: own_cell_def object_extends_def)
  have sub: "om_fetched s \<subseteq> om_fetched s'" using assms(2) by (simp add: object_extends_def)
  show ?thesis
    using assms(1,3) own sub result_fetched_mono [OF _ sub] by (cases a) auto
qed

lemma object_inv_step:
  assumes inv: "object_inv calls s" and at: "om_at s' = (om_at s)(i := a)" and ext: "object_extends s s'"
    and locks: "locks_ok object_holds (\<lambda>i. writes_object (calls i)) (om_at s') (om_writer s') (om_readers s')"
    and cells: "\<And>j p. j \<noteq> i \<Longrightarrow> object_holds (om_at s j) p \<Longrightarrow>
      oe_etag (om_cell s' p) = oe_etag (om_cell s p) \<and> oe_content (om_cell s' p) = oe_content (om_cell s p)"
    and ok: "object_at_ok (calls i) s' a"
    and paired: "\<And>p. p < om_next s' \<Longrightarrow> (\<And>j. \<not> etag_stored (om_at s' j) p) \<Longrightarrow> cell_paired s' p"
    and objs: "\<And>k p. om_objects s' k = Some p \<Longrightarrow> p < om_next s' \<and> om_owner s' p = k"
  shows "object_inv calls s'"
  unfolding object_inv_def
proof (intro conjI allI impI)
  fix j show "object_at_ok (calls j) s' (om_at s' j)"
  proof (cases "j = i")
    case True
    with ok at show ?thesis by simp
  next
    case False
    with object_at_ok_mono [OF object_invD(2) [OF inv] ext cells [OF False]] at show ?thesis by simp
  qed
qed (use locks paired objs in blast)+

text \<open>Steps that change no entry and no lock.\<close>

lemma object_inv_quiet:
  assumes inv: "object_inv calls s" and known: "om_fetched s \<subseteq> known"
    and objs: "\<And>k p. objs k = Some p \<Longrightarrow> om_objects s k = Some p"
    and holds: "\<And>p. object_holds a p = object_holds (om_at s i) p"
    and etag: "\<And>p. \<not> etag_stored (om_at s i) p"
    and ok: "object_at_ok (calls i) ((object_goes s i a)\<lparr>om_fetched := known, om_objects := objs\<rparr>) a"
  shows "object_inv calls ((object_goes s i a)\<lparr>om_fetched := known, om_objects := objs\<rparr>)"
proof (rule object_inv_step [OF inv])
  let ?s = "(object_goes s i a)\<lparr>om_fetched := known, om_objects := objs\<rparr>"
  show "object_extends s ?s" using known by (simp add: object_extends_def)
  show "locks_ok object_holds (\<lambda>i. writes_object (calls i)) (om_at ?s) (om_writer ?s) (om_readers ?s)"
    using object_locks.inside [OF object_invD(1) [OF inv] holds] by simp
  show "cell_paired ?s p" if "p < om_next ?s" "\<And>j. \<not> etag_stored (om_at ?s j) p" for p
  proof -
    have "\<not> etag_stored (om_at s j) p" for j
      using that(2) [of j] etag by (cases "j = i") simp_all
    with object_invD(3) [OF inv] that(1) have "cell_paired s p" by simp
    with known show ?thesis by (auto simp: cell_paired_def)
  qed
  show "om_objects ?s k = Some p \<Longrightarrow> p < om_next ?s \<and> om_owner ?s p = k" for k p
    using object_invD(4) [OF inv objs] by simp
qed (use ok in simp_all)

lemma object_inv_goes:
  assumes "object_inv calls s" and "\<And>p. object_holds a p = object_holds (om_at s i) p"
    and "\<And>p. \<not> etag_stored (om_at s i) p" and "object_at_ok (calls i) (object_goes s i a) a"
  shows "object_inv calls (object_goes s i a)"
  using object_inv_quiet [OF assms(1) order_refl _ assms(2,3), of "om_objects s"] assms(4) by simp

text \<open>What a call may assume of the entry it has locked.\<close>

lemma object_locked_paired:
  assumes inv: "object_inv calls s" and "object_holds (om_at s i) p" and "\<not> etag_stored (om_at s i) p"
    and p: "p < om_next s"
  shows "cell_paired s p"
proof (rule object_invD(3) [OF inv p])
  fix j show "\<not> etag_stored (om_at s j) p"
  proof
    assume j: "etag_stored (om_at s j) p"
    then have "object_holds (om_at s j) p" by (auto simp: etag_stored_def)
    moreover have "writes_object (calls j)" using object_invD(2) [OF inv, of j] j by (auto simp: etag_stored_def)
    ultimately have "i = j" using object_locks.writer_excludes [OF object_invD(1) [OF inv]] assms(2) by blast
    with j assms(3) show False by simp
  qed
qed

lemma locked_alone:
  assumes inv: "object_inv calls s" and "writes_object (calls i)" and "object_holds (om_at s i) p"
    and "j \<noteq> i" and "object_holds (om_at s j) q"
  shows "q \<noteq> p"
  using object_locks.writer_excludes [OF object_invD(1) [OF inv] assms(2,3)] assms(4,5) by blast

text \<open>Steps that lock or unlock an entry, and change nothing that is read of it.\<close>

lemma object_inv_locks:
  assumes inv: "object_inv calls s"
    and at: "om_at s' = (om_at s)(i := a)" "\<And>p. \<not> etag_stored (om_at s i) p"
    and same: "om_next s' = om_next s" "om_owner s' = om_owner s" "om_fetched s' = om_fetched s" "om_objects s' = om_objects s"
      "\<And>p. oe_etag (om_cell s' p) = oe_etag (om_cell s p)" "\<And>p. oe_content (om_cell s' p) = oe_content (om_cell s p)"
    and locks: "locks_ok object_holds (\<lambda>i. writes_object (calls i)) (om_at s') (om_writer s') (om_readers s')"
    and ok: "object_at_ok (calls i) s' a"
  shows "object_inv calls s'"
proof (rule object_inv_step [OF inv at(1) _ locks _ ok])
  show "cell_paired s' p" if "p < om_next s'" "\<And>j. \<not> etag_stored (om_at s' j) p" for p
  proof -
    have "\<not> etag_stored (om_at s j) p" for j
      using that(2) [of j] at by (cases "j = i") simp_all
    with that(1) object_invD(3) [OF inv, of p] show ?thesis by (simp add: same cell_paired_def)
  qed
  show "om_objects s' k = Some p \<Longrightarrow> p < om_next s' \<and> om_owner s' p = k" for k p
    using object_invD(4) [OF inv] by (simp add: same)
qed (simp_all add: object_extends_def same)

lemma object_inv_new_entry:
  assumes inv: "object_inv calls s" and new_entry: "calls i = EnsureObject k mode f" "om_at s i = ObjectStart"
    "s' = (object_goes s i (ObjectFound (om_next s)))
      \<lparr>om_objects := (om_objects s)(k \<mapsto> om_next s), om_cell := (om_cell s)(om_next s := new_object_entry mode),
       om_owner := (om_owner s)(om_next s := k), om_next := Suc (om_next s)\<rparr>"
  shows "object_inv calls s'"
proof -
  show ?thesis
  proof (rule object_inv_step [OF inv, where i = i and a = "ObjectFound (om_next s)"])
    show "object_extends s s'" by (simp add: object_extends_def new_entry)
    show "locks_ok object_holds (\<lambda>i. writes_object (calls i)) (om_at s') (om_writer s') (om_readers s')"
      using object_locks.inside [OF object_invD(1) [OF inv], of "ObjectFound (om_next s)" i] new_entry by simp
    show "oe_etag (om_cell s' p) = oe_etag (om_cell s p) \<and> oe_content (om_cell s' p) = oe_content (om_cell s p)"
      if "object_holds (om_at s j) p" for j p
    proof -
      have "own_cell (calls j) s p" using object_invD(2) [OF inv, of j] that by (cases "om_at s j") auto
      then show ?thesis by (simp add: own_cell_def new_entry)
    qed
    show "cell_paired s' p" if "p < om_next s'" "\<And>j. \<not> etag_stored (om_at s' j) p" for p
    proof (cases "p = om_next s")
      case True
      then show ?thesis by (simp add: cell_paired_def new_entry new_object_entry_def)
    next
      case False
      have "\<not> etag_stored (om_at s j) p" for j
        using that(2) [of j] new_entry by (cases "j = i") (simp_all add: etag_stored_def)
      with False that(1) object_invD(3) [OF inv] have "cell_paired s p" by (simp add: new_entry)
      with False show ?thesis by (simp add: cell_paired_def new_entry)
    qed
    show "om_objects s' l = Some p \<Longrightarrow> p < om_next s' \<and> om_owner s' p = l" for l p
      using object_invD(4) [OF inv, of l p] by (auto simp: new_entry split: if_splits)
  qed (simp_all add: new_entry own_cell_def)
qed

lemma object_inv_store_etag:
  assumes inv: "object_inv calls s" and store_etag: "calls i = EnsureObject k mode f" "om_at s i = ObjectFetched p body etag"
    "s' = (object_goes s i (ETagStored p body etag))\<lparr>om_cell := (om_cell s)(p := (om_cell s p)\<lparr>oe_etag := etag\<rparr>)\<rparr>"
  shows "object_inv calls s'"
proof -
  have ok: "own_cell (calls i) s p" "(k, body, etag) \<in> om_fetched s" "writes_object (calls i)"
    using object_invD(2) [OF inv, of i] store_etag by auto
  show ?thesis
  proof (rule object_inv_step [OF inv, where i = i and a = "ETagStored p body etag"])
    show "locks_ok object_holds (\<lambda>i. writes_object (calls i)) (om_at s') (om_writer s') (om_readers s')"
      using object_locks.inside [OF object_invD(1) [OF inv], of "ETagStored p body etag" i] store_etag by simp
    show "oe_etag (om_cell s' q) = oe_etag (om_cell s q) \<and> oe_content (om_cell s' q) = oe_content (om_cell s q)"
      if "j \<noteq> i" "object_holds (om_at s j) q" for j q
      using locked_alone [OF inv ok(3) _ that, of p] store_etag by simp
    show "cell_paired s' q" if "q < om_next s'" "\<And>j. \<not> etag_stored (om_at s' j) q" for q
    proof -
      have "q \<noteq> p" using that(2) [of i] by (auto simp: store_etag etag_stored_def)
      moreover have "\<not> etag_stored (om_at s j) q" for j
        using that(2) [of j] store_etag by (cases "j = i") (simp_all add: etag_stored_def)
      ultimately show ?thesis using that(1) object_invD(3) [OF inv, of q] by (simp add: store_etag cell_paired_def)
    qed
  qed (use ok store_etag object_invD(4) [OF inv] in \<open>auto simp: object_extends_def own_cell_def\<close>)
qed

lemma object_inv_store_content:
  assumes inv: "object_inv calls s" and store_content: "calls i = EnsureObject k mode f" "om_at s i = ETagStored p body etag"
    "s' = (object_goes s i (ObjectLeaving p (RefreshOk etag)))\<lparr>om_cell := (om_cell s)(p := (om_cell s p)\<lparr>oe_content := body\<rparr>)\<rparr>"
  shows "object_inv calls s'"
proof -
  have ok: "own_cell (calls i) s p" "(k, body, etag) \<in> om_fetched s" "writes_object (calls i)"
    "oe_etag (om_cell s p) = etag"
    using object_invD(2) [OF inv, of i] store_content by auto
  show ?thesis
  proof (rule object_inv_step [OF inv, where i = i and a = "ObjectLeaving p (RefreshOk etag)"])
    show "locks_ok object_holds (\<lambda>i. writes_object (calls i)) (om_at s') (om_writer s') (om_readers s')"
      using object_locks.inside [OF object_invD(1) [OF inv], of "ObjectLeaving p (RefreshOk etag)" i] store_content by simp
    show "oe_etag (om_cell s' q) = oe_etag (om_cell s q) \<and> oe_content (om_cell s' q) = oe_content (om_cell s q)"
      if "j \<noteq> i" "object_holds (om_at s j) q" for j q
      using locked_alone [OF inv ok(3) _ that, of p] store_content by simp
    show "cell_paired s' q" if "q < om_next s'" "\<And>j. \<not> etag_stored (om_at s' j) q" for q
    proof (cases "q = p")
      case True
      with ok store_content show ?thesis by (simp add: cell_paired_def own_cell_def)
    next
      case False
      have "\<not> etag_stored (om_at s j) q" for j
        using that(2) [of j] store_content False by (cases "j = i") (simp_all add: etag_stored_def)
      with False that(1) object_invD(3) [OF inv, of q] show ?thesis by (simp add: store_content cell_paired_def)
    qed
  qed (use ok store_content object_invD(4) [OF inv] in \<open>auto simp: object_extends_def own_cell_def result_fetched_def\<close>)
qed

lemma object_inv_preserved:
  assumes inv: "object_inv calls s" and step: "object_step calls s s'"
  shows "object_inv calls s'"
  using step
proof cases
  case (old_entry i k mode f p)
  with object_invD(4) [OF inv] show ?thesis
    by (auto intro!: object_inv_goes [OF inv] simp: own_cell_def etag_stored_def)
next
  case (fetched i k f p body etag)
  with object_invD(2) [OF inv, of i]
  have "object_inv calls ((object_goes s i (ObjectFetched p body etag))
      \<lparr>om_fetched := insert (k, body, etag) (om_fetched s), om_objects := om_objects s\<rparr>)"
    by (intro object_inv_quiet [OF inv]) (auto simp: etag_stored_def own_cell_def)
  then show ?thesis by (simp add: fetched)
next
  case (not_modified i k f p)
  have ok: "own_cell (calls i) s p" using object_invD(2) [OF inv, of i] not_modified by simp
  then have "cell_paired s p"
    using not_modified by (intro object_locked_paired [OF inv, of i]) (auto simp: etag_stored_def own_cell_def)
  with ok not_modified have "result_fetched k (om_fetched s) (RefreshOk (oe_etag (om_cell s p)))"
    by (auto simp: result_fetched_def cell_paired_def own_cell_def)
  with ok not_modified show ?thesis
    by (auto intro!: object_inv_goes [OF inv] simp: own_cell_def etag_stored_def)
next
  case (refresh_failed i k mode f p)
  with object_invD(2) [OF inv, of i] show ?thesis
    by (auto intro!: object_inv_goes [OF inv] simp: own_cell_def etag_stored_def result_fetched_def)
next
  case (probed i k f p)
  with object_invD(2) [OF inv, of i] show ?thesis
    by (auto intro!: object_inv_goes [OF inv] simp: own_cell_def etag_stored_def result_fetched_def)
next
  case (find i k)
  with object_invD(4) [OF inv] show ?thesis
    by (cases "om_objects s k")
      (auto intro!: object_inv_goes [OF inv] simp: own_cell_def etag_stored_def result_fetched_def)
next
  case (read_content i k p)
  with object_invD(2) [OF inv, of i] show ?thesis
    by (auto intro!: object_inv_goes [OF inv] simp: own_cell_def etag_stored_def result_fetched_def)
next
  case (read_etag i k p body)
  from object_invD(2) [OF inv, of i] read_etag
  have ok: "own_cell (calls i) s p" "body \<noteq> []" "oe_content (om_cell s p) = body" by auto
  then have "cell_paired s p"
    using read_etag by (intro object_locked_paired [OF inv, of i]) (auto simp: etag_stored_def own_cell_def)
  with ok read_etag have "result_fetched k (om_fetched s) (ReadOk body (oe_etag (om_cell s p)))"
    by (auto simp: result_fetched_def cell_paired_def own_cell_def)
  with ok read_etag show ?thesis
    by (auto intro!: object_inv_goes [OF inv] simp: own_cell_def etag_stored_def)
next
  case (read_bucket i k p body etag)
  with object_invD(2) [OF inv, of i]
  have "object_inv calls ((object_goes s i (ObjectLeaving p (ReadOk body etag)))
      \<lparr>om_fetched := insert (k, body, etag) (om_fetched s), om_objects := om_objects s\<rparr>)"
    by (intro object_inv_quiet [OF inv]) (auto simp: etag_stored_def own_cell_def result_fetched_def)
  then show ?thesis by (simp add: read_bucket)
next
  case (read_failed i k p)
  with object_invD(2) [OF inv, of i] show ?thesis
    by (auto intro!: object_inv_goes [OF inv] simp: own_cell_def etag_stored_def result_fetched_def)
next
  case (forget i k)
  have "object_inv calls ((object_goes s i (ObjectDone Forgotten))
      \<lparr>om_fetched := om_fetched s, om_objects := (om_objects s)(k := None)\<rparr>)"
    using forget by (intro object_inv_quiet [OF inv]) (auto simp: etag_stored_def result_fetched_def split: if_splits)
  then show ?thesis by (simp add: forget)
next
  case (new_entry i k mode f)
  then show ?thesis by (intro object_inv_new_entry [OF inv])
next
  case (store_etag i k mode f p body etag)
  then show ?thesis by (intro object_inv_store_etag [OF inv])
next
  case (store_content i k mode f p body etag)
  then show ?thesis by (intro object_inv_store_content [OF inv])
next
  case (lock i k mode f p)
  have "locks_ok object_holds (\<lambda>i. writes_object (calls i)) (om_at s') (om_writer s') (om_readers s')"
    using object_locks.write_locked [OF object_invD(1) [OF inv], of i "ObjectWriting p" p] lock by simp
  with lock object_invD(2) [OF inv, of i] show ?thesis
    by (intro object_inv_locks [OF inv, where i = i and a = "ObjectWriting p"]) (auto simp: etag_stored_def own_cell_def)
next
  case (unlock i k mode f p r)
  have "locks_ok object_holds (\<lambda>i. writes_object (calls i)) (om_at s') (om_writer s') (om_readers s')"
    using object_locks.write_unlocked [OF object_invD(1) [OF inv], of i p "ObjectDone r"] unlock by simp
  with unlock object_invD(2) [OF inv, of i] show ?thesis
    by (intro object_inv_locks [OF inv, where i = i and a = "ObjectDone r"]) (auto simp: etag_stored_def)
next
  case (read_lock i k p)
  have "locks_ok object_holds (\<lambda>i. writes_object (calls i)) (om_at s') (om_writer s') (om_readers s')"
    using object_locks.read_locked [OF object_invD(1) [OF inv], of i "ObjectReading p" p] read_lock by simp
  with read_lock object_invD(2) [OF inv, of i] show ?thesis
    by (intro object_inv_locks [OF inv, where i = i and a = "ObjectReading p"]) (auto simp: etag_stored_def own_cell_def)
next
  case (read_unlock i k p r)
  have "locks_ok object_holds (\<lambda>i. writes_object (calls i)) (om_at s') (om_writer s') (om_readers s')"
    using object_locks.read_unlocked [OF object_invD(1) [OF inv], of i p "ObjectDone r"] read_unlock by simp
  with read_unlock object_invD(2) [OF inv, of i] show ?thesis
    by (intro object_inv_locks [OF inv, where i = i and a = "ObjectDone r"]) (auto simp: etag_stored_def)
qed

lemma object_inv_reachable: "(object_step calls)\<^sup>*\<^sup>* object_machine_start s \<Longrightarrow> object_inv calls s"
proof (induction rule: rtranclp_induct)
  case base
  show ?case by (simp add: object_inv_def object_machine_start_def locks_ok_def)
next
  case (step s s')
  from object_inv_preserved [OF step(3,2)] show ?case .
qed

section \<open>Properties\<close>

text \<open>
C28: Whatever way concurrent refreshes, reads and removals of object sources interleave, a read returns
a body and an ETag of one and the same answer for that source, never the body of one and the ETag of
another; and no call is inside an entry that another one is refreshing.
\<close>

theorem concurrent_object_reads_untorn:
  assumes "(object_step calls)\<^sup>*\<^sup>* object_machine_start s"
  shows "(\<forall>i body etag. om_at s i = ObjectDone (ReadOk body etag) \<longrightarrow> (object_key (calls i), body, etag) \<in> om_fetched s)
    \<and> (\<forall>i j p. writes_object (calls i) \<and> object_holds (om_at s i) p \<and> object_holds (om_at s j) p \<longrightarrow> j = i)"
proof (intro conjI allI impI)
  note inv = object_inv_reachable [OF assms]
  fix i body etag assume "om_at s i = ObjectDone (ReadOk body etag)"
  with object_invD(2) [OF inv, of i] show "(object_key (calls i), body, etag) \<in> om_fetched s"
    by (simp add: result_fetched_def)
next
  fix i j p assume "writes_object (calls i) \<and> object_holds (om_at s i) p \<and> object_holds (om_at s j) p"
  with object_locks.writer_excludes [OF object_invD(1) [OF object_inv_reachable [OF assms]]] show "j = i" by blast
qed

text \<open>A refresh and a read of one URL source.\<close>

definition refresh_and_read :: "nat \<Rightarrow> object_call" where
  "refresh_and_read i = (if i = 0 then EnsureObject (ObjectKey ''n'' ''o'') ObjectModeURL (url_fetcher ''u'')
     else ReadObject (ObjectKey ''n'' ''o''))"

lemma refresh_and_read_calls:
  "refresh_and_read 0 = EnsureObject (ObjectKey ''n'' ''o'') ObjectModeURL (url_fetcher ''u'')"
  "refresh_and_read (Suc 0) = ReadObject (ObjectKey ''n'' ''o'')"
  by (simp_all add: refresh_and_read_def)

text \<open>The states on the way: the positions of the two calls, the lock of the entry, and the entry.\<close>

definition on_the_way ::
  "object_at \<Rightarrow> object_at \<Rightarrow> nat option \<Rightarrow> nat set \<Rightarrow> string \<Rightarrow> bytes \<Rightarrow> (objkey \<times> bytes \<times> string) set \<Rightarrow> object_machine" where
  "on_the_way a b writer readers etag content known =
     \<lparr>om_at = (\<lambda>_. ObjectStart)(0 := a, Suc 0 := b), om_writer = (\<lambda>_. None)(0 := writer), om_readers = (\<lambda>_. {})(0 := readers),
      om_objects = [ObjectKey ''n'' ''o'' \<mapsto> 0],
      om_cell = (\<lambda>_. new_object_entry ObjectModeURL)(0 := \<lparr>oe_mode = ObjectModeURL, oe_fetcher = Some (url_fetcher ''u''),
        oe_etag = etag, oe_content = content, oe_last_synced = 0\<rparr>),
      om_next = 1, om_owner = (\<lambda>_. ObjectKey [] [])(0 := ObjectKey ''n'' ''o''), om_fetched = known\<rparr>"

abbreviation refreshed :: "object_at \<Rightarrow> nat set \<Rightarrow> object_machine" where
  "refreshed a readers \<equiv> on_the_way (ObjectDone (RefreshOk ''v1'')) a None readers ''v1'' ''body''
     {(ObjectKey ''n'' ''o'', ''body'', ''v1'')}"

lemma a_refresh_succeeds: "(object_step refresh_and_read)\<^sup>*\<^sup>* object_machine_start (refreshed ObjectStart {})"
proof -
  let ?R = "object_step refresh_and_read" and ?k = "ObjectKey ''n'' ''o''"
  let ?known = "{(?k, ''body'', ''v1'')}"
  define s1 where "s1 = (object_goes object_machine_start 0 (ObjectFound 0))\<lparr>om_objects := [?k \<mapsto> 0],
    om_cell := (\<lambda>_. new_object_entry ObjectModeURL)(0 := new_object_entry ObjectModeURL),
    om_owner := (\<lambda>_. ObjectKey [] [])(0 := ?k), om_next := 1\<rparr>"
  have eq: "(\<lambda>_. ObjectStart)(0 := x, Suc 0 := ObjectStart) = (\<lambda>_. ObjectStart)(0 := x)"
    "(\<lambda>_ :: nat. {} :: nat set)(0 := {}) = (\<lambda>_. {})" for x :: object_at
    by (simp_all add: fun_eq_iff)
  have "?R object_machine_start s1"
    using object_step.new_entry [of refresh_and_read 0 _ _ _ object_machine_start, OF refresh_and_read_calls(1)]
    by (simp add: object_machine_start_def s1_def)
  moreover have "?R s1 (on_the_way (ObjectWriting 0) ObjectStart (Some 0) {} [] [] {})"
    using object_step.lock [of refresh_and_read 0 _ _ _ s1 0, OF refresh_and_read_calls(1)]
    by (simp add: object_machine_start_def s1_def on_the_way_def new_object_entry_def eq)
  moreover have "?R (on_the_way (ObjectWriting 0) ObjectStart (Some 0) {} [] [] {})
      (on_the_way (ObjectFetched 0 ''body'' ''v1'') ObjectStart (Some 0) {} [] [] ?known)"
    using object_step.fetched [of refresh_and_read 0 _ _ "on_the_way (ObjectWriting 0) ObjectStart (Some 0) {} [] [] {}" 0
        "''body''" "''v1''", OF refresh_and_read_calls(1)]
    by (simp add: on_the_way_def fun_upd_twist)
  moreover have "?R (on_the_way (ObjectFetched 0 ''body'' ''v1'') ObjectStart (Some 0) {} [] [] ?known)
      (on_the_way (ETagStored 0 ''body'' ''v1'') ObjectStart (Some 0) {} ''v1'' [] ?known)"
    using object_step.store_etag [of refresh_and_read 0 _ _ _
        "on_the_way (ObjectFetched 0 ''body'' ''v1'') ObjectStart (Some 0) {} [] [] ?known", OF refresh_and_read_calls(1)]
    by (simp add: on_the_way_def fun_upd_twist)
  moreover have "?R (on_the_way (ETagStored 0 ''body'' ''v1'') ObjectStart (Some 0) {} ''v1'' [] ?known)
      (on_the_way (ObjectLeaving 0 (RefreshOk ''v1'')) ObjectStart (Some 0) {} ''v1'' ''body'' ?known)"
    using object_step.store_content [of refresh_and_read 0 _ _ _
        "on_the_way (ETagStored 0 ''body'' ''v1'') ObjectStart (Some 0) {} ''v1'' [] ?known", OF refresh_and_read_calls(1)]
    by (simp add: on_the_way_def fun_upd_twist)
  moreover have "?R (on_the_way (ObjectLeaving 0 (RefreshOk ''v1'')) ObjectStart (Some 0) {} ''v1'' ''body'' ?known)
      (refreshed ObjectStart {})"
    using object_step.unlock [of refresh_and_read 0 _ _ _
        "on_the_way (ObjectLeaving 0 (RefreshOk ''v1'')) ObjectStart (Some 0) {} ''v1'' ''body'' ?known", OF refresh_and_read_calls(1)]
    by (simp add: on_the_way_def fun_upd_twist)
  ultimately show ?thesis by (meson rtranclp.rtrancl_refl converse_rtranclp_into_rtranclp)
qed

lemma a_read_succeeds:
  "\<exists>s. (object_step refresh_and_read)\<^sup>*\<^sup>* object_machine_start s \<and> om_at s (Suc 0) = ObjectDone (ReadOk ''body'' ''v1'')"
proof -
  let ?R = "object_step refresh_and_read"
  have "?R (refreshed ObjectStart {})
      (refreshed (ObjectFound 0) {})"
    using object_step.find [of refresh_and_read "Suc 0" _ "refreshed ObjectStart {}",
        OF refresh_and_read_calls(2)]
    by (simp add: on_the_way_def)
  moreover have "?R (refreshed (ObjectFound 0) {})
      (refreshed (ObjectReading 0) {Suc 0})"
    using object_step.read_lock [of refresh_and_read "Suc 0" _ "refreshed (ObjectFound 0) {}",
        OF refresh_and_read_calls(2)]
    by (simp add: on_the_way_def)
  moreover have "?R (refreshed (ObjectReading 0) {Suc 0})
      (refreshed (ContentRead 0 ''body'') {Suc 0})"
    using object_step.read_content [of refresh_and_read "Suc 0" _
        "refreshed (ObjectReading 0) {Suc 0}", OF refresh_and_read_calls(2)]
    by (simp add: on_the_way_def)
  moreover have "?R (refreshed (ContentRead 0 ''body'') {Suc 0})
      (refreshed (ObjectLeaving 0 (ReadOk ''body'' ''v1'')) {Suc 0})"
    using object_step.read_etag [of refresh_and_read "Suc 0" _
        "refreshed (ContentRead 0 ''body'') {Suc 0}", OF refresh_and_read_calls(2)]
    by (simp add: on_the_way_def)
  moreover have "?R (refreshed (ObjectLeaving 0 (ReadOk ''body'' ''v1'')) {Suc 0})
      (refreshed (ObjectDone (ReadOk ''body'' ''v1'')) {})"
    using object_step.read_unlock [of refresh_and_read "Suc 0" _
        "refreshed (ObjectLeaving 0 (ReadOk ''body'' ''v1'')) {Suc 0}", OF refresh_and_read_calls(2)]
    by (simp add: on_the_way_def)
  ultimately have "?R\<^sup>*\<^sup>* object_machine_start (refreshed (ObjectDone (ReadOk ''body'' ''v1'')) {})"
    by (meson a_refresh_succeeds rtranclp.rtrancl_into_rtrancl)
  moreover have "om_at (refreshed (ObjectDone (ReadOk ''body'' ''v1'')) {}) (Suc 0) = ObjectDone (ReadOk ''body'' ''v1'')"
    by (simp add: on_the_way_def)
  ultimately show ?thesis by blast
qed

theorem concurrent_object_reads_untorn_witness:
  "\<exists>s. (object_step refresh_and_read)\<^sup>*\<^sup>* object_machine_start s
    \<and> om_at s (Suc 0) = ObjectDone (ReadOk ''body'' ''v1'') \<and> (ObjectKey ''n'' ''o'', ''body'', ''v1'') \<in> om_fetched s"
proof -
  obtain s where run: "(object_step refresh_and_read)\<^sup>*\<^sup>* object_machine_start s"
    and fin: "om_at s (Suc 0) = ObjectDone (ReadOk ''body'' ''v1'')" using a_read_succeeds by blast
  from concurrent_object_reads_untorn [OF run] fin run show ?thesis
    by (auto simp: refresh_and_read_calls dest!: spec [of _ "Suc 0"])
qed

end
