(* ===== verification/GitLocking.thy ===== *)
theory GitLocking
  imports Locking
begin

text \<open>
  The git caches of \<open>internal/source/registry.go\<close> under concurrent calls, as \<open>Locking\<close> has the object
  caches. The lock of an entry does not guard everything here: the clone is on disk, \<open>Forget\<close> and the
  eviction of an old entry remove directories without it, and two entries may have one directory.

  A directory is known by what its working tree is: gone, at a commit, or in between while go-git
  writes it. \<open>contents\<close> is what a commit has at a path. An update that fails has not touched the tree
  (\<open>refused\<close>) or has removed what it wrote (\<open>aborted\<close>); \<open>half\<close> says whether it may also leave the tree
  changed with no commit recorded for it, be it that \<open>os.RemoveAll\<close> failed. Where \<open>Forget\<close> or an
  eviction cannot remove a tree, or not all of it, the tree stays at its commit: each file is there
  as it was or reading it fails, which a read may do at any time. \<open>EnsureClone\<close> is a call whose \<open>git.New\<close> succeeded.
\<close>

section \<open>The machine\<close>

datatype tree = NoTree | MixedTree | TreeAt string

datatype git_call =
    EnsureClone objkey string  \<comment> \<open>\<open>repo.CacheDir()\<close> of the configuration\<close>
  | ReadFileAt objkey string
  | ForgetClone objkey

datatype clone_at =
    CloneStart
  | CloneFound nat
  | CloneWriting nat
  | Updating nat  \<comment> \<open>go-git is writing the tree\<close>
  | Updated nat string  \<comment> \<open>\<open>EnsureCloned\<close> returned, \<open>e.commitSHA\<close> not yet assigned\<close>
  | CloneReading nat
  | FileRead nat bytes  \<comment> \<open>\<open>ReadFile\<close> returned, \<open>e.commitSHA\<close> not yet read\<close>
  | CloneLeaving nat call_result
  | Removing string  \<comment> \<open>in \<open>Forget\<close>, before \<open>os.RemoveAll\<close>\<close>
  | CloneDone call_result

record clone_machine =
  cm_at :: "nat \<Rightarrow> clone_at"
  cm_writer :: "nat \<Rightarrow> nat option"
  cm_readers :: "nat \<Rightarrow> nat set"
  cm_entries :: "objkey \<Rightarrow> nat option"
  cm_dir :: "nat \<Rightarrow> string"
  cm_sha :: "nat \<Rightarrow> string"
  cm_next :: nat
  cm_tree :: "string \<Rightarrow> tree"

definition clone_machine_start :: "(string \<Rightarrow> tree) \<Rightarrow> clone_machine" where
  "clone_machine_start disk =
     \<lparr>cm_at = (\<lambda>_. CloneStart), cm_writer = Map.empty, cm_readers = (\<lambda>_. {}), cm_entries = Map.empty,
      cm_dir = (\<lambda>_. []), cm_sha = (\<lambda>_. []), cm_next = 0, cm_tree = disk\<rparr>"

abbreviation clone_goes :: "clone_machine \<Rightarrow> nat \<Rightarrow> clone_at \<Rightarrow> clone_machine" where
  "clone_goes s i c \<equiv> s\<lparr>cm_at := (cm_at s)(i := c)\<rparr>"

abbreviation with_tree :: "clone_machine \<Rightarrow> string \<Rightarrow> tree \<Rightarrow> clone_machine" where
  "with_tree s d t \<equiv> s\<lparr>cm_tree := (cm_tree s)(d := t)\<rparr>"

inductive clone_step ::
  "(string \<Rightarrow> string \<Rightarrow> bytes option) \<Rightarrow> bool \<Rightarrow> (nat \<Rightarrow> git_call) \<Rightarrow> clone_machine \<Rightarrow> clone_machine \<Rightarrow> bool"
  for contents half calls where
  new_clone: "calls i = EnsureClone k dir \<Longrightarrow> cm_at s i = CloneStart
    \<Longrightarrow> (case cm_entries s k of None \<Rightarrow> disk = cm_tree s
         | Some p \<Rightarrow> cm_dir s p \<noteq> dir \<and> (disk = cm_tree s \<or> disk = (cm_tree s)(cm_dir s p := NoTree)))
    \<Longrightarrow> clone_step contents half calls s ((clone_goes s i (CloneFound (cm_next s)))
          \<lparr>cm_entries := (cm_entries s)(k \<mapsto> cm_next s), cm_dir := (cm_dir s)(cm_next s := dir),
           cm_sha := (cm_sha s)(cm_next s := []), cm_next := Suc (cm_next s), cm_tree := disk\<rparr>)"
| old_clone: "calls i = EnsureClone k dir \<Longrightarrow> cm_at s i = CloneStart \<Longrightarrow> cm_entries s k = Some p \<Longrightarrow> cm_dir s p = dir
    \<Longrightarrow> clone_step contents half calls s (clone_goes s i (CloneFound p))"
| lock: "calls i = EnsureClone k dir \<Longrightarrow> cm_at s i = CloneFound p \<Longrightarrow> cm_writer s p = None \<Longrightarrow> cm_readers s p = {}
    \<Longrightarrow> clone_step contents half calls s ((clone_goes s i (CloneWriting p))\<lparr>cm_writer := (cm_writer s)(p := Some i)\<rparr>)"
| refused: "calls i = EnsureClone k dir \<Longrightarrow> cm_at s i = CloneWriting p
    \<Longrightarrow> clone_step contents half calls s (clone_goes s i (CloneLeaving p Failed))"
| update: "calls i = EnsureClone k dir \<Longrightarrow> cm_at s i = CloneWriting p
    \<Longrightarrow> clone_step contents half calls s (with_tree (clone_goes s i (Updating p)) (cm_dir s p) MixedTree)"
| updated: "calls i = EnsureClone k dir \<Longrightarrow> cm_at s i = Updating p
    \<Longrightarrow> clone_step contents half calls s (with_tree (clone_goes s i (Updated p sha)) (cm_dir s p) (TreeAt sha))"
| aborted: "calls i = EnsureClone k dir \<Longrightarrow> cm_at s i = Updating p
    \<Longrightarrow> clone_step contents half calls s (with_tree (clone_goes s i (CloneLeaving p Failed)) (cm_dir s p) NoTree)"
| broken: "half \<Longrightarrow> calls i = EnsureClone k dir \<Longrightarrow> cm_at s i = Updating p
    \<Longrightarrow> clone_step contents half calls s (clone_goes s i (CloneLeaving p Failed))"
| store_sha: "calls i = EnsureClone k dir \<Longrightarrow> cm_at s i = Updated p sha
    \<Longrightarrow> clone_step contents half calls s ((clone_goes s i (CloneLeaving p (RefreshOk sha)))
          \<lparr>cm_sha := (cm_sha s)(p := sha)\<rparr>)"
| unlock: "calls i = EnsureClone k dir \<Longrightarrow> cm_at s i = CloneLeaving p r
    \<Longrightarrow> clone_step contents half calls s ((clone_goes s i (CloneDone r))\<lparr>cm_writer := (cm_writer s)(p := None)\<rparr>)"
| find: "calls i = ReadFileAt k path \<Longrightarrow> cm_at s i = CloneStart
    \<Longrightarrow> clone_step contents half calls s (clone_goes s i
          (case cm_entries s k of None \<Rightarrow> CloneDone Failed | Some p \<Rightarrow> CloneFound p))"
| read_lock: "calls i = ReadFileAt k path \<Longrightarrow> cm_at s i = CloneFound p \<Longrightarrow> cm_writer s p = None
    \<Longrightarrow> clone_step contents half calls s ((clone_goes s i (CloneReading p))
          \<lparr>cm_readers := (cm_readers s)(p := insert i (cm_readers s p))\<rparr>)"
| read_file: "calls i = ReadFileAt k path \<Longrightarrow> cm_at s i = CloneReading p \<Longrightarrow> cm_tree s (cm_dir s p) = TreeAt c
    \<Longrightarrow> contents c path = Some body \<Longrightarrow> clone_step contents half calls s (clone_goes s i (FileRead p body))"
| read_mixed: "calls i = ReadFileAt k path \<Longrightarrow> cm_at s i = CloneReading p \<Longrightarrow> cm_tree s (cm_dir s p) = MixedTree
    \<Longrightarrow> clone_step contents half calls s (clone_goes s i (FileRead p body))"
| read_failed: "calls i = ReadFileAt k path \<Longrightarrow> cm_at s i = CloneReading p
    \<Longrightarrow> clone_step contents half calls s (clone_goes s i (CloneLeaving p Failed))"
| read_sha: "calls i = ReadFileAt k path \<Longrightarrow> cm_at s i = FileRead p body
    \<Longrightarrow> clone_step contents half calls s (clone_goes s i (CloneLeaving p (ReadOk body (cm_sha s p))))"
| read_unlock: "calls i = ReadFileAt k path \<Longrightarrow> cm_at s i = CloneLeaving p r
    \<Longrightarrow> clone_step contents half calls s ((clone_goes s i (CloneDone r))
          \<lparr>cm_readers := (cm_readers s)(p := cm_readers s p - {i})\<rparr>)"
| forget: "calls i = ForgetClone k \<Longrightarrow> cm_at s i = CloneStart
    \<Longrightarrow> clone_step contents half calls s ((clone_goes s i
          (case cm_entries s k of None \<Rightarrow> CloneDone Forgotten | Some p \<Rightarrow> Removing (cm_dir s p)))
          \<lparr>cm_entries := (cm_entries s)(k := None)\<rparr>)"
| remove: "calls i = ForgetClone k \<Longrightarrow> cm_at s i = Removing dir \<Longrightarrow> disk = cm_tree s \<or> disk = (cm_tree s)(dir := NoTree)
    \<Longrightarrow> clone_step contents half calls s ((clone_goes s i (CloneDone Forgotten))\<lparr>cm_tree := disk\<rparr>)"

section \<open>The invariant\<close>

fun writes_clone :: "git_call \<Rightarrow> bool" where
  "writes_clone (EnsureClone k dir) = True"
| "writes_clone _ = False"

fun path_read :: "git_call \<Rightarrow> string" where
  "path_read (ReadFileAt k path) = path"
| "path_read _ = []"

fun clone_holds :: "clone_at \<Rightarrow> nat \<Rightarrow> bool" where
  "clone_holds (CloneWriting p) q = (p = q)"
| "clone_holds (Updating p) q = (p = q)"
| "clone_holds (Updated p sha) q = (p = q)"
| "clone_holds (CloneReading p) q = (p = q)"
| "clone_holds (FileRead p body) q = (p = q)"
| "clone_holds (CloneLeaving p r) q = (p = q)"
| "clone_holds _ q = False"

interpretation clone_locks: call_locks clone_holds
proof
  show "clone_holds c p \<Longrightarrow> clone_holds c q \<Longrightarrow> p = q" for c p q
    by (cases c) auto
qed

definition read_at_commit :: "(string \<Rightarrow> string \<Rightarrow> bytes option) \<Rightarrow> string \<Rightarrow> call_result \<Rightarrow> bool" where
  "read_at_commit contents path r =
     (case r of ReadOk body sha \<Rightarrow> sha \<noteq> [] \<longrightarrow> contents sha path = Some body | _ \<Rightarrow> True)"

fun clone_at_ok :: "(string \<Rightarrow> string \<Rightarrow> bytes option) \<Rightarrow> git_call \<Rightarrow> clone_machine \<Rightarrow> clone_at \<Rightarrow> bool" where
  "clone_at_ok contents c s (CloneFound p) = (p < cm_next s)"
| "clone_at_ok contents c s (CloneWriting p) = (writes_clone c \<and> p < cm_next s)"
| "clone_at_ok contents c s (Updating p) = (writes_clone c \<and> p < cm_next s)"
| "clone_at_ok contents c s (Updated p sha) =
     (writes_clone c \<and> p < cm_next s \<and> (cm_tree s (cm_dir s p) = TreeAt sha \<or> cm_tree s (cm_dir s p) = NoTree))"
| "clone_at_ok contents c s (CloneReading p) = (\<not> writes_clone c \<and> p < cm_next s)"
| "clone_at_ok contents c s (FileRead p body) =
     (\<not> writes_clone c \<and> p < cm_next s \<and> (cm_sha s p \<noteq> [] \<longrightarrow> contents (cm_sha s p) (path_read c) = Some body))"
| "clone_at_ok contents c s (CloneLeaving p r) = (p < cm_next s \<and> read_at_commit contents (path_read c) r)"
| "clone_at_ok contents c s (CloneDone r) = read_at_commit contents (path_read c) r"
| "clone_at_ok contents c s _ = True"

text \<open>An entry with a commit: its tree is gone, at that commit, or in the hands of the writer.\<close>

definition tree_ok :: "clone_machine \<Rightarrow> nat \<Rightarrow> bool" where
  "tree_ok s p \<longleftrightarrow> cm_sha s p = [] \<or>
     (case cm_tree s (cm_dir s p) of
        NoTree \<Rightarrow> True
      | MixedTree \<Rightarrow> (\<exists>i. cm_at s i = Updating p)
      | TreeAt c \<Rightarrow> c = cm_sha s p \<or> (\<exists>i. cm_at s i = Updated p c))"

definition clone_inv :: "(string \<Rightarrow> string \<Rightarrow> bytes option) \<Rightarrow> (nat \<Rightarrow> git_call) \<Rightarrow> clone_machine \<Rightarrow> bool" where
  "clone_inv contents calls s \<longleftrightarrow>
     locks_ok clone_holds (\<lambda>i. writes_clone (calls i)) (cm_at s) (cm_writer s) (cm_readers s)
     \<and> (\<forall>i. clone_at_ok contents (calls i) s (cm_at s i))
     \<and> (\<forall>p < cm_next s. tree_ok s p)
     \<and> (\<forall>k p. cm_entries s k = Some p \<longrightarrow> p < cm_next s)"

definition own_dirs :: "clone_machine \<Rightarrow> bool" where
  "own_dirs s \<longleftrightarrow> inj_on (cm_dir s) {..< cm_next s}"

lemma clone_invD:
  assumes "clone_inv contents calls s"
  shows "locks_ok clone_holds (\<lambda>i. writes_clone (calls i)) (cm_at s) (cm_writer s) (cm_readers s)"
    and "clone_at_ok contents (calls i) s (cm_at s i)"
    and "p < cm_next s \<Longrightarrow> tree_ok s p"
    and "cm_entries s k = Some p \<Longrightarrow> p < cm_next s"
  using assms by (auto simp: clone_inv_def)

lemma clone_at_ok_mono:
  assumes "clone_at_ok contents c s a" and "cm_next s \<le> cm_next s'"
    and "\<And>p. clone_holds a p \<Longrightarrow> p < cm_next s \<Longrightarrow> cm_sha s' p = cm_sha s p
      \<and> (cm_tree s' (cm_dir s' p) = cm_tree s (cm_dir s p) \<or> cm_tree s' (cm_dir s' p) = NoTree)"
  shows "clone_at_ok contents c s' a"
proof (cases a)
  case (Updated p sha)
  with assms(1) have "p < cm_next s" by simp
  with Updated assms(1,2) assms(3) [of p] show ?thesis by auto
next
  case (FileRead p body)
  with assms(1) have "p < cm_next s" by simp
  with FileRead assms(1,2) assms(3) [of p] show ?thesis by auto
qed (use assms(1,2) in simp_all)

text \<open>What any step has to show: call \<open>i\<close> moves to \<open>a\<close> and does not disturb the entries others have locked.\<close>

lemma clone_inv_step:
  assumes inv: "clone_inv contents calls s" and at: "cm_at s' = (cm_at s)(i := a)" and more: "cm_next s \<le> cm_next s'"
    and locks: "locks_ok clone_holds (\<lambda>i. writes_clone (calls i)) (cm_at s') (cm_writer s') (cm_readers s')"
    and others: "\<And>j p. j \<noteq> i \<Longrightarrow> clone_holds (cm_at s j) p \<Longrightarrow> p < cm_next s \<Longrightarrow> cm_sha s' p = cm_sha s p
      \<and> (cm_tree s' (cm_dir s' p) = cm_tree s (cm_dir s p) \<or> cm_tree s' (cm_dir s' p) = NoTree)"
    and ok: "clone_at_ok contents (calls i) s' a"
    and trees: "\<And>p. p < cm_next s' \<Longrightarrow> tree_ok s' p"
    and entries: "\<And>k p. cm_entries s' k = Some p \<Longrightarrow> p < cm_next s'"
  shows "clone_inv contents calls s'"
  unfolding clone_inv_def
proof (intro conjI allI impI)
  fix j show "clone_at_ok contents (calls j) s' (cm_at s' j)"
  proof (cases "j = i")
    case True
    with ok at show ?thesis by simp
  next
    case False
    with clone_at_ok_mono [OF clone_invD(2) [OF inv] more others [OF False]] at show ?thesis by simp
  qed
qed (use locks trees entries in blast)+

definition updates :: "clone_at \<Rightarrow> nat \<Rightarrow> bool" where
  "updates a p \<longleftrightarrow> a = Updating p \<or> (\<exists>sha. a = Updated p sha)"

lemma tree_ok_other:
  assumes "tree_ok s p" and "cm_at s' = (cm_at s)(i := a)" and "\<not> updates (cm_at s i) p"
    and "cm_sha s' p = cm_sha s p" and "cm_tree s' (cm_dir s' p) = cm_tree s (cm_dir s p) \<or> cm_tree s' (cm_dir s' p) = NoTree"
  shows "tree_ok s' p"
proof (cases "cm_sha s p = [] \<or> cm_tree s' (cm_dir s' p) = NoTree")
  case True
  with assms(4) show ?thesis by (auto simp: tree_ok_def)
next
  case False
  have moved: "cm_at s' j = cm_at s j" if "updates (cm_at s j) p" for j
    using assms(2,3) that by (cases "j = i") auto
  show ?thesis
  proof (cases "cm_tree s (cm_dir s p)")
    case (TreeAt c)
    with assms(1) False have "c = cm_sha s p \<or> (\<exists>j. cm_at s j = Updated p c)" by (simp add: tree_ok_def)
    moreover have "cm_at s' j = Updated p c" if "cm_at s j = Updated p c" for j
      using moved [of j] that by (simp add: updates_def)
    ultimately show ?thesis using False TreeAt assms(4,5) by (auto simp: tree_ok_def)
  next
    case MixedTree
    with assms(1) False obtain j where "cm_at s j = Updating p" by (auto simp: tree_ok_def)
    with moved [of j] have "cm_at s' j = Updating p" by (simp add: updates_def)
    then show ?thesis using False MixedTree assms(4,5) by (auto simp: tree_ok_def)
  qed (use False assms(5) in simp)
qed

text \<open>Steps that change no directory and no commit: inside a section, or locking and unlocking.\<close>

lemma clone_inv_locks:
  assumes inv: "clone_inv contents calls s"
    and at: "cm_at s' = (cm_at s)(i := a)" "\<And>p. \<not> updates (cm_at s i) p"
    and same: "cm_next s' = cm_next s" "cm_sha s' = cm_sha s" "cm_dir s' = cm_dir s" "cm_tree s' = cm_tree s"
      "\<And>k p. cm_entries s' k = Some p \<Longrightarrow> cm_entries s k = Some p"
    and locks: "locks_ok clone_holds (\<lambda>i. writes_clone (calls i)) (cm_at s') (cm_writer s') (cm_readers s')"
    and ok: "clone_at_ok contents (calls i) s' a"
  shows "clone_inv contents calls s'"
proof (rule clone_inv_step [OF inv at(1) _ locks _ ok])
  show "tree_ok s' p" if "p < cm_next s'" for p
    by (rule tree_ok_other [where s = s]) (use that clone_invD(3) [OF inv, of p] at in \<open>simp_all add: same\<close>)
  show "cm_entries s' k = Some p \<Longrightarrow> p < cm_next s'" for k p
    using clone_invD(4) [OF inv same(5)] by (simp add: same)
qed (simp_all add: same)

lemma clone_inv_goes:
  assumes "clone_inv contents calls s" and "\<And>p. clone_holds a p = clone_holds (cm_at s i) p"
    and "\<And>p. \<not> updates (cm_at s i) p" and "clone_at_ok contents (calls i) (clone_goes s i a) a"
  shows "clone_inv contents calls (clone_goes s i a)"
  using clone_locks.inside [OF clone_invD(1) [OF assms(1)] assms(2)] assms(3,4)
  by (intro clone_inv_locks [OF assms(1), where i = i and a = a]) simp_all

text \<open>A reader finds the tree of an entry that has a commit at that commit, if it finds one.\<close>

lemma reader_sees_commit:
  assumes inv: "clone_inv contents calls s" and "cm_at s i = CloneReading p" and "cm_sha s p \<noteq> []"
  shows "cm_tree s (cm_dir s p) = NoTree \<or> cm_tree s (cm_dir s p) = TreeAt (cm_sha s p)"
proof -
  have reader: "\<not> writes_clone (calls i)" "p < cm_next s" "clone_holds (cm_at s i) p"
    using clone_invD(2) [OF inv, of i] assms(2) by simp_all
  have "\<not> updates (cm_at s j) p" for j
  proof
    assume u: "updates (cm_at s j) p"
    with clone_invD(2) [OF inv, of j] have "writes_clone (calls j)" "clone_holds (cm_at s j) p"
      by (auto simp: updates_def)
    with clone_locks.writer_excludes [OF clone_invD(1) [OF inv]] reader have "i = j" by blast
    with \<open>writes_clone (calls j)\<close> reader show False by simp
  qed
  then show ?thesis
    using clone_invD(3) [OF inv reader(2)] assms(3) by (cases "cm_tree s (cm_dir s p)") (auto simp: tree_ok_def updates_def)
qed

section \<open>Steps that change a tree or a commit\<close>

text \<open>Two entries with one directory are one entry.\<close>

lemma own_dirsD: "own_dirs s \<Longrightarrow> p < cm_next s \<Longrightarrow> q < cm_next s \<Longrightarrow> cm_dir s p = cm_dir s q \<Longrightarrow> p = q"
  by (auto simp: own_dirs_def inj_on_def)

lemma writing_alone:
  assumes inv: "clone_inv contents calls s" and "writes_clone (calls i)" and "clone_holds (cm_at s i) p"
    and "j \<noteq> i" and "clone_holds (cm_at s j) q"
  shows "q \<noteq> p"
  using clone_locks.writer_excludes [OF clone_invD(1) [OF inv] assms(2,3)] assms(4,5) by blast

lemma clone_inv_tree:
  assumes inv: "clone_inv contents calls s" and own: "own_dirs s"
    and i: "writes_clone (calls i)" "p < cm_next s" "clone_holds (cm_at s i) p" "\<And>q. clone_holds a q \<longleftrightarrow> q = p"
    and s': "s' = with_tree (clone_goes s i a) (cm_dir s p) new"
    and ok: "clone_at_ok contents (calls i) s' a" and tree: "tree_ok s' p"
  shows "clone_inv contents calls s'"
proof (rule clone_inv_step [OF inv, where i = i and a = a])
  have held: "clone_holds (cm_at s i) q \<longleftrightarrow> q = p" for q
    using clone_locks.one_lock [OF i(3)] i(3) by blast
  show "locks_ok clone_holds (\<lambda>i. writes_clone (calls i)) (cm_at s') (cm_writer s') (cm_readers s')"
    using clone_locks.inside [OF clone_invD(1) [OF inv], of a i] i(4) held by (simp add: s')
  show "cm_sha s' q = cm_sha s q \<and> (cm_tree s' (cm_dir s' q) = cm_tree s (cm_dir s q) \<or> cm_tree s' (cm_dir s' q) = NoTree)"
    if "j \<noteq> i" "clone_holds (cm_at s j) q" "q < cm_next s" for j q
    using writing_alone [OF inv i(1,3) that(1,2)] own_dirsD [OF own that(3) i(2)] by (auto simp: s')
  show "tree_ok s' q" if "q < cm_next s'" for q
  proof (cases "q = p")
    case False
    with own_dirsD [OF own _ i(2), of q] that have "cm_dir s q \<noteq> cm_dir s p" by (auto simp: s')
    moreover have "\<not> updates (cm_at s i) q"
      using held [of q] False by (auto simp: updates_def)
    ultimately show ?thesis
      by (intro tree_ok_other [where s = s and i = i and a = a, OF clone_invD(3) [OF inv]]) (use that in \<open>simp_all add: s'\<close>)
  qed (use tree in simp)
qed (use ok clone_invD(4) [OF inv] in \<open>simp_all add: s'\<close>)

text \<open>Removing a directory disturbs nobody: at worst a read fails.\<close>

lemma clone_inv_remove:
  assumes inv: "clone_inv contents calls s" and gone: "disk = cm_tree s \<or> disk = (cm_tree s)(d := NoTree)"
  shows "clone_inv contents calls (s\<lparr>cm_tree := disk\<rparr>)"
proof (rule clone_inv_step [OF inv, where i = 0 and a = "cm_at s 0"])
  let ?s = "s\<lparr>cm_tree := disk\<rparr>"
  have tree: "disk x = cm_tree s x \<or> disk x = NoTree" for x
    using gone by auto
  show "clone_at_ok contents (calls 0) ?s (cm_at s 0)"
    using tree by (intro clone_at_ok_mono [OF clone_invD(2) [OF inv]]) simp_all
  show "tree_ok ?s q" if "q < cm_next ?s" for q
    using clone_invD(3) [OF inv, of q] that tree [of "cm_dir s q"] by (auto simp: tree_ok_def split: tree.splits)
  show "cm_sha ?s p = cm_sha s p \<and> (cm_tree ?s (cm_dir ?s p) = cm_tree s (cm_dir s p) \<or> cm_tree ?s (cm_dir ?s p) = NoTree)" for p
    using tree by simp
qed (use clone_invD [OF inv] in simp_all)

lemma clone_inv_new:
  assumes inv: "clone_inv contents calls s" and new: "calls i = EnsureClone k dir" "cm_at s i = CloneStart"
    and s': "s' = (clone_goes s i (CloneFound (cm_next s)))
          \<lparr>cm_entries := (cm_entries s)(k \<mapsto> cm_next s), cm_dir := (cm_dir s)(cm_next s := dir),
           cm_sha := (cm_sha s)(cm_next s := []), cm_next := Suc (cm_next s)\<rparr>"
  shows "clone_inv contents calls s'"
proof (rule clone_inv_step [OF inv, where i = i and a = "CloneFound (cm_next s)"])
  show "locks_ok clone_holds (\<lambda>i. writes_clone (calls i)) (cm_at s') (cm_writer s') (cm_readers s')"
    using clone_locks.inside [OF clone_invD(1) [OF inv], of "CloneFound (cm_next s)" i] new by (simp add: s')
  show "tree_ok s' q" if "q < cm_next s'" for q
  proof (cases "q = cm_next s")
    case True
    then show ?thesis by (simp add: tree_ok_def s')
  next
    case False
    with that new show ?thesis
      by (intro tree_ok_other [where s = s and i = i and a = "CloneFound (cm_next s)", OF clone_invD(3) [OF inv]])
        (simp_all add: s' updates_def)
  qed
  show "cm_entries s' l = Some q \<Longrightarrow> q < cm_next s'" for l q
    using clone_invD(4) [OF inv, of l q] by (auto simp: s' split: if_splits)
qed (simp_all add: s')

lemma clone_inv_store:
  assumes inv: "clone_inv contents calls s" and store: "calls i = EnsureClone k dir" "cm_at s i = Updated p sha"
    and s': "s' = (clone_goes s i (CloneLeaving p (RefreshOk sha)))\<lparr>cm_sha := (cm_sha s)(p := sha)\<rparr>"
  shows "clone_inv contents calls s'"
proof (rule clone_inv_step [OF inv, where i = i and a = "CloneLeaving p (RefreshOk sha)"])
  have at: "writes_clone (calls i)" "p < cm_next s" "clone_holds (cm_at s i) p"
    "cm_tree s (cm_dir s p) = TreeAt sha \<or> cm_tree s (cm_dir s p) = NoTree"
    using clone_invD(2) [OF inv, of i] store by auto
  show "locks_ok clone_holds (\<lambda>i. writes_clone (calls i)) (cm_at s') (cm_writer s') (cm_readers s')"
    using clone_locks.inside [OF clone_invD(1) [OF inv], of "CloneLeaving p (RefreshOk sha)" i] store by (simp add: s')
  show "cm_sha s' q = cm_sha s q \<and> (cm_tree s' (cm_dir s' q) = cm_tree s (cm_dir s q) \<or> cm_tree s' (cm_dir s' q) = NoTree)"
    if "j \<noteq> i" "clone_holds (cm_at s j) q" for j q
    using writing_alone [OF inv at(1,3) that] by (simp add: s')
  show "tree_ok s' q" if "q < cm_next s'" for q
  proof (cases "q = p")
    case True
    with at(4) show ?thesis by (auto simp: tree_ok_def s')
  next
    case False
    with that store show ?thesis
      by (intro tree_ok_other [where s = s and i = i and a = "CloneLeaving p (RefreshOk sha)", OF clone_invD(3) [OF inv]])
        (simp_all add: s' updates_def)
  qed
  show "clone_at_ok contents (calls i) s' (CloneLeaving p (RefreshOk sha))"
    using at(2) by (simp add: s' read_at_commit_def)
qed (use clone_invD(4) [OF inv] in \<open>simp_all add: s'\<close>)

section \<open>Every step keeps the invariant\<close>

lemma own_dirs_before: "clone_step contents half calls s s' \<Longrightarrow> own_dirs s' \<Longrightarrow> own_dirs s"
proof (induction rule: clone_step.induct)
  case (new_clone i k dir s disk)
  then have inj: "inj_on ((cm_dir s)(cm_next s := dir)) {..< Suc (cm_next s)}" by (simp add: own_dirs_def)
  show ?case unfolding own_dirs_def
  proof (rule inj_onI)
    fix p q assume "p \<in> {..< cm_next s}" "q \<in> {..< cm_next s}" "cm_dir s p = cm_dir s q"
    with inj_onD [OF inj, of p q] show "p = q" by simp
  qed
qed (simp_all add: own_dirs_def)

lemma clone_inv_preserved:
  assumes inv: "clone_inv contents calls s" and step: "clone_step contents False calls s s'" and own: "own_dirs s'"
  shows "clone_inv contents calls s'"
  using step
proof cases
  case (new_clone i k dir disk)
  have "clone_inv contents calls (s\<lparr>cm_tree := disk\<rparr>)"
    using new_clone(4) by (intro clone_inv_remove [OF inv, where d = "cm_dir s (the (cm_entries s k))"])
      (auto split: option.splits)
  from clone_inv_new [OF this, of i k dir s'] new_clone show ?thesis by simp
next
  case (old_clone i k dir p)
  with clone_invD(4) [OF inv] show ?thesis by (auto intro!: clone_inv_goes [OF inv] simp: updates_def)
next
  case (lock i k dir p)
  have "locks_ok clone_holds (\<lambda>i. writes_clone (calls i)) (cm_at s') (cm_writer s') (cm_readers s')"
    using clone_locks.write_locked [OF clone_invD(1) [OF inv], of i "CloneWriting p" p] lock by simp
  with lock clone_invD(2) [OF inv, of i] show ?thesis
    by (intro clone_inv_locks [OF inv, where i = i and a = "CloneWriting p"]) (simp_all add: updates_def)
next
  case (refused i k dir p)
  with clone_invD(2) [OF inv, of i] show ?thesis
    by (auto intro!: clone_inv_goes [OF inv] simp: updates_def read_at_commit_def)
next
  case (update i k dir p)
  with clone_invD(2) [OF inv, of i] show ?thesis
    by (intro clone_inv_tree [OF inv own_dirs_before [OF step own], of i p "Updating p" s' MixedTree])
      (auto simp: tree_ok_def)
next
  case (updated i k dir p sha)
  with clone_invD(2) [OF inv, of i] show ?thesis
    by (intro clone_inv_tree [OF inv own_dirs_before [OF step own], of i p "Updated p sha" s' "TreeAt sha"])
      (auto simp: tree_ok_def)
next
  case (aborted i k dir p)
  with clone_invD(2) [OF inv, of i] show ?thesis
    by (intro clone_inv_tree [OF inv own_dirs_before [OF step own], of i p "CloneLeaving p Failed" s' NoTree])
      (auto simp: tree_ok_def read_at_commit_def)
next
  case (store_sha i k dir p sha)
  then show ?thesis by (intro clone_inv_store [OF inv])
next
  case (unlock i k dir p r)
  have "locks_ok clone_holds (\<lambda>i. writes_clone (calls i)) (cm_at s') (cm_writer s') (cm_readers s')"
    using clone_locks.write_unlocked [OF clone_invD(1) [OF inv], of i p "CloneDone r"] unlock by simp
  with unlock clone_invD(2) [OF inv, of i] show ?thesis
    by (intro clone_inv_locks [OF inv, where i = i and a = "CloneDone r"]) (simp_all add: updates_def)
next
  case (find i k path)
  with clone_invD(4) [OF inv] show ?thesis
    by (cases "cm_entries s k") (auto intro!: clone_inv_goes [OF inv] simp: updates_def read_at_commit_def)
next
  case (read_lock i k path p)
  have "locks_ok clone_holds (\<lambda>i. writes_clone (calls i)) (cm_at s') (cm_writer s') (cm_readers s')"
    using clone_locks.read_locked [OF clone_invD(1) [OF inv], of i "CloneReading p" p] read_lock by simp
  with read_lock clone_invD(2) [OF inv, of i] show ?thesis
    by (intro clone_inv_locks [OF inv, where i = i and a = "CloneReading p"]) (simp_all add: updates_def)
next
  case (read_file i k path p c body)
  with reader_sees_commit [OF inv, of i p] clone_invD(2) [OF inv, of i] show ?thesis
    by (auto intro!: clone_inv_goes [OF inv] simp: updates_def)
next
  case (read_mixed i k path p body)
  with reader_sees_commit [OF inv, of i p] clone_invD(2) [OF inv, of i] show ?thesis
    by (auto intro!: clone_inv_goes [OF inv] simp: updates_def)
next
  case (read_failed i k path p)
  with clone_invD(2) [OF inv, of i] show ?thesis
    by (auto intro!: clone_inv_goes [OF inv] simp: updates_def read_at_commit_def)
next
  case (read_sha i k path p body)
  with clone_invD(2) [OF inv, of i] show ?thesis
    by (auto intro!: clone_inv_goes [OF inv] simp: updates_def read_at_commit_def)
next
  case (read_unlock i k path p r)
  have "locks_ok clone_holds (\<lambda>i. writes_clone (calls i)) (cm_at s') (cm_writer s') (cm_readers s')"
    using clone_locks.read_unlocked [OF clone_invD(1) [OF inv], of i p "CloneDone r"] read_unlock by simp
  with read_unlock clone_invD(2) [OF inv, of i] show ?thesis
    by (intro clone_inv_locks [OF inv, where i = i and a = "CloneDone r"]) (simp_all add: updates_def)
next
  case (forget i k)
  let ?a = "case cm_entries s k of None \<Rightarrow> CloneDone Forgotten | Some p \<Rightarrow> Removing (cm_dir s p)"
  have "clone_holds ?a q = clone_holds (cm_at s i) q" for q
    using forget by (simp split: option.split)
  from clone_locks.inside [OF clone_invD(1) [OF inv] this] forget show ?thesis
    by (intro clone_inv_locks [OF inv, where i = i and a = ?a])
      (auto simp: updates_def read_at_commit_def split: option.splits if_splits)
next
  case (remove i k dir disk)
  then have "clone_inv contents calls (clone_goes s i (CloneDone Forgotten))"
    by (intro clone_inv_goes [OF inv]) (simp_all add: updates_def read_at_commit_def)
  from clone_inv_remove [OF this, of disk dir] remove show ?thesis by simp
qed simp

lemma clone_inv_reachable:
  "(clone_step contents False calls)\<^sup>*\<^sup>* (clone_machine_start disk) s \<Longrightarrow> own_dirs s \<Longrightarrow> clone_inv contents calls s"
proof (induction rule: rtranclp_induct)
  case base
  show ?case by (simp add: clone_inv_def clone_machine_start_def locks_ok_def)
next
  case (step s s')
  from clone_inv_preserved [OF step(3) [OF own_dirs_before [OF step(2,4)]] step(2,4)] show ?case .
qed

section \<open>Running a schedule\<close>

text \<open>
  The step of call \<open>i\<close> when nothing fails: \<open>sha\<close> is the commit an update arrives at. A schedule is
  the order in which the calls take their steps.
\<close>

definition new_clone_entry :: "clone_machine \<Rightarrow> nat \<Rightarrow> objkey \<Rightarrow> string \<Rightarrow> (string \<Rightarrow> tree) \<Rightarrow> clone_machine" where
  "new_clone_entry s i k dir disk = (clone_goes s i (CloneFound (cm_next s)))
     \<lparr>cm_entries := (cm_entries s)(k \<mapsto> cm_next s), cm_dir := (cm_dir s)(cm_next s := dir),
      cm_sha := (cm_sha s)(cm_next s := []), cm_next := Suc (cm_next s), cm_tree := disk\<rparr>"

fun clone_exec ::
  "(string \<Rightarrow> string \<Rightarrow> bytes option) \<Rightarrow> clone_machine \<Rightarrow> nat \<Rightarrow> string \<Rightarrow> git_call \<Rightarrow> clone_at \<Rightarrow> clone_machine option" where
  "clone_exec contents s i sha (EnsureClone k dir) CloneStart =
     (case cm_entries s k of
        None \<Rightarrow> Some (new_clone_entry s i k dir (cm_tree s))
      | Some p \<Rightarrow>
          if cm_dir s p = dir then Some (clone_goes s i (CloneFound p))
          else Some (new_clone_entry s i k dir ((cm_tree s)(cm_dir s p := NoTree))))"
| "clone_exec contents s i sha (EnsureClone k dir) (CloneFound p) =
     (if cm_writer s p = None \<and> cm_readers s p = {}
      then Some ((clone_goes s i (CloneWriting p))\<lparr>cm_writer := (cm_writer s)(p := Some i)\<rparr>) else None)"
| "clone_exec contents s i sha (EnsureClone k dir) (CloneWriting p) =
     Some (with_tree (clone_goes s i (Updating p)) (cm_dir s p) MixedTree)"
| "clone_exec contents s i sha (EnsureClone k dir) (Updating p) =
     Some (with_tree (clone_goes s i (Updated p sha)) (cm_dir s p) (TreeAt sha))"
| "clone_exec contents s i sha (EnsureClone k dir) (Updated p c) =
     Some ((clone_goes s i (CloneLeaving p (RefreshOk c)))\<lparr>cm_sha := (cm_sha s)(p := c)\<rparr>)"
| "clone_exec contents s i sha (EnsureClone k dir) (CloneLeaving p r) =
     Some ((clone_goes s i (CloneDone r))\<lparr>cm_writer := (cm_writer s)(p := None)\<rparr>)"
| "clone_exec contents s i sha (ReadFileAt k path) CloneStart =
     Some (clone_goes s i (case cm_entries s k of None \<Rightarrow> CloneDone Failed | Some p \<Rightarrow> CloneFound p))"
| "clone_exec contents s i sha (ReadFileAt k path) (CloneFound p) =
     (if cm_writer s p = None
      then Some ((clone_goes s i (CloneReading p))\<lparr>cm_readers := (cm_readers s)(p := insert i (cm_readers s p))\<rparr>)
      else None)"
| "clone_exec contents s i sha (ReadFileAt k path) (CloneReading p) =
     (case cm_tree s (cm_dir s p) of
        TreeAt c \<Rightarrow> map_option (\<lambda>body. clone_goes s i (FileRead p body)) (contents c path)
      | _ \<Rightarrow> None)"
| "clone_exec contents s i sha (ReadFileAt k path) (FileRead p body) =
     Some (clone_goes s i (CloneLeaving p (ReadOk body (cm_sha s p))))"
| "clone_exec contents s i sha (ReadFileAt k path) (CloneLeaving p r) =
     Some ((clone_goes s i (CloneDone r))\<lparr>cm_readers := (cm_readers s)(p := cm_readers s p - {i})\<rparr>)"
| "clone_exec contents s i sha (ForgetClone k) CloneStart =
     Some ((clone_goes s i (case cm_entries s k of None \<Rightarrow> CloneDone Forgotten | Some p \<Rightarrow> Removing (cm_dir s p)))
       \<lparr>cm_entries := (cm_entries s)(k := None)\<rparr>)"
| "clone_exec contents s i sha (ForgetClone k) (Removing dir) = Some (with_tree (clone_goes s i (CloneDone Forgotten)) dir NoTree)"
| "clone_exec contents s i sha c a = None"

lemma clone_removed:
  "calls i = ForgetClone k \<Longrightarrow> cm_at s i = Removing dir
    \<Longrightarrow> clone_step contents half calls s (with_tree (clone_goes s i (CloneDone Forgotten)) dir NoTree)"
  using clone_step.remove [of calls i k s dir "(cm_tree s)(dir := NoTree)"] by simp

lemmas clone_tree_steps =
  clone_step.update [simplified] clone_step.updated [simplified] clone_removed [simplified]

lemma clone_exec_step:
  assumes "clone_exec contents s i sha c a = Some s'" and "calls i = c" and "cm_at s i = a"
  shows "clone_step contents half calls s s'"
  using assms
proof (induction contents s i sha c a rule: clone_exec.induct)
  case (1 contents s i sha k dir)
  note c = 1(2,3)
  show ?case
  proof (cases "cm_entries s k")
    case None
    with 1(1) have "s' = new_clone_entry s i k dir (cm_tree s)" by simp
    with clone_step.new_clone [of calls i k dir s "cm_tree s", OF c] None show ?thesis by (simp add: new_clone_entry_def)
  next
    case (Some p)
    show ?thesis
    proof (cases "cm_dir s p = dir")
      case True
      with 1(1) Some clone_step.old_clone [of calls i k dir s p, OF c Some True] show ?thesis by simp
    next
      case False
      with 1(1) Some have "s' = new_clone_entry s i k dir ((cm_tree s)(cm_dir s p := NoTree))" by simp
      with clone_step.new_clone [of calls i k dir s "(cm_tree s)(cm_dir s p := NoTree)", OF c] Some False
      show ?thesis by (simp add: new_clone_entry_def)
    qed
  qed
qed (auto intro: clone_step.intros clone_tree_steps split: if_splits tree.splits)

fun clone_run ::
  "(string \<Rightarrow> string \<Rightarrow> bytes option) \<Rightarrow> (nat \<Rightarrow> git_call) \<Rightarrow> (nat \<times> string) list \<Rightarrow> clone_machine \<Rightarrow> clone_machine option" where
  "clone_run contents calls [] s = Some s"
| "clone_run contents calls ((i, sha) # sched) s =
     (case clone_exec contents s i sha (calls i) (cm_at s i) of
        None \<Rightarrow> None
      | Some s' \<Rightarrow> clone_run contents calls sched s')"

lemma clone_run_steps: "clone_run contents calls sched s = Some s' \<Longrightarrow> (clone_step contents half calls)\<^sup>*\<^sup>* s s'"
proof (induction contents calls sched s rule: clone_run.induct)
  case (2 contents calls i sha sched s)
  then show ?case
    using clone_exec_step [where contents = contents and s = s and i = i and sha = sha and calls = calls and half = half]
    by (auto split: option.splits intro: converse_rtranclp_into_rtranclp)
qed simp

section \<open>Properties\<close>

text \<open>
C29: Whatever way concurrent refreshes, reads and removals of git sources interleave, a read that
reports a commit returns the file as that commit has it, as long as no two entries ever have the
same cache directory and an update that fails leaves the old tree or none behind.
\<close>

theorem concurrent_git_reads_match_commit:
  assumes "(clone_step contents False calls)\<^sup>*\<^sup>* (clone_machine_start disk) s" and "own_dirs s"
    and "calls i = ReadFileAt k path" and "cm_at s i = CloneDone (ReadOk body sha)" and "sha \<noteq> []"
  shows "contents sha path = Some body"
  using clone_invD(2) [OF clone_inv_reachable [OF assms(1,2)], of i] assms(3-5)
  by (simp add: read_at_commit_def)

text \<open>Call 0 refreshes and call 1 reads; call 2 forgets and call 3 refreshes again.\<close>

definition shelf :: "string \<Rightarrow> string \<Rightarrow> bytes option" where
  "shelf c path = Some (c @ CHR '':'' # path)"

definition resync_calls :: "nat \<Rightarrow> git_call" where
  "resync_calls i =
     (if i = 1 then ReadFileAt (ObjectKey ''n'' ''g'') ''s.yaml''
      else if i = 2 then ForgetClone (ObjectKey ''n'' ''g'')
      else EnsureClone (ObjectKey ''n'' ''g'') ''/c/a'')"

definition empty_disk :: "string \<Rightarrow> tree" where
  "empty_disk _ = NoTree"

theorem concurrent_git_reads_match_commit_witness:
  "\<exists>s. clone_run shelf resync_calls (map (\<lambda>i. (i, ''c1'')) [0, 0, 0, 0, 0, 0, 1, 1, 1, 1, 1]) (clone_machine_start empty_disk) = Some s
    \<and> cm_at s 1 = CloneDone (ReadOk ''c1:s.yaml'' ''c1'') \<and> shelf ''c1'' ''s.yaml'' = Some ''c1:s.yaml''"
proof -
  let ?run = "clone_run shelf resync_calls (map (\<lambda>i. (i, ''c1'')) [0, 0, 0, 0, 0, 0, 1, 1, 1, 1, 1]) (clone_machine_start empty_disk)"
  have "map_option (\<lambda>s. (cm_at s 1, cm_next s)) ?run = Some (CloneDone (ReadOk ''c1:s.yaml'' ''c1''), 1)"
    by code_simp
  then obtain s where run: "?run = Some s" and fin: "cm_at s 1 = CloneDone (ReadOk ''c1:s.yaml'' ''c1'')" and "cm_next s = 1"
    by (auto simp: map_option_eq_Some)
  then have own: "own_dirs s" by (simp add: own_dirs_def inj_on_def)
  have "resync_calls 1 = ReadFileAt (ObjectKey ''n'' ''g'') ''s.yaml''" by (simp add: resync_calls_def)
  from concurrent_git_reads_match_commit [OF clone_run_steps [OF run] own this fin] run fin show ?thesis by simp
qed

text \<open>
Without the condition on directories it fails. A forced sync forgets the entry and makes a new one for
the same directory: a read that found the old entry before gets the new commit's file and reports the
old commit.
\<close>

theorem recreated_entry_misreports_commit:
  "map_option (\<lambda>s. cm_at s 1) (clone_run shelf resync_calls
     (map (\<lambda>i. (i, if i = 3 then ''c2'' else ''c1'')) [0, 0, 0, 0, 0, 0, 1, 2, 2, 3, 3, 3, 3, 1, 1, 1, 1])
     (clone_machine_start empty_disk)) = Some (CloneDone (ReadOk ''c2:s.yaml'' ''c1''))"
  by code_simp

text \<open>
And a commit is not always reported: when the process starts with a clone on disk, a read between the
creation of the entry and its first refresh returns the file of whatever commit is there, with an
empty commit.
\<close>

theorem read_before_first_refresh:
  "map_option (\<lambda>s. cm_at s 1) (clone_run shelf resync_calls (map (\<lambda>i. (i, ''c1'')) [0, 1, 1, 1, 1, 1])
     (clone_machine_start (\<lambda>_. TreeAt ''c0''))) = Some (CloneDone (ReadOk ''c0:s.yaml'' []))"
  by code_simp

end
