(* ===== verification/RepoMutex.thy ===== *)
theory RepoMutex
  imports Prelude
begin

text \<open>
  \<open>repoMutex\<close> of \<open>internal/git/git.go\<close>: \<open>EnsureCloned\<close> takes a mutex of its cache directory, which it
  finds or makes in a package-wide map under \<open>muMapMu\<close>. Calls are numbered, \<open>dirs i\<close> is the cache
  directory of call \<open>i\<close>. \<open>Git\<close> models what a call does while it is \<open>DirInside\<close> as one computation.
\<close>

section \<open>The machine\<close>

datatype dir_at =
    DirStart
  | DirLooking  \<comment> \<open>\<open>muMapMu\<close> held\<close>
  | DirFound nat  \<comment> \<open>\<open>muMapMu\<close> held, the mutex known\<close>
  | DirGot nat  \<comment> \<open>\<open>repoMutex\<close> has returned\<close>
  | DirInside nat
  | DirDone

record dir_machine =
  dm_at :: "nat \<Rightarrow> dir_at"
  dm_guard :: bool  \<comment> \<open>\<open>muMapMu\<close>\<close>
  dm_mutex :: "string \<rightharpoonup> nat"  \<comment> \<open>\<open>muMap\<close>\<close>
  dm_next :: nat  \<comment> \<open>the address of the next mutex\<close>
  dm_held :: "nat \<Rightarrow> bool"

definition dir_machine_start :: dir_machine where
  "dir_machine_start = \<lparr>dm_at = (\<lambda>_. DirStart), dm_guard = False, dm_mutex = Map.empty, dm_next = 0,
     dm_held = (\<lambda>_. False)\<rparr>"

abbreviation dir_goes :: "dir_machine \<Rightarrow> nat \<Rightarrow> dir_at \<Rightarrow> dir_machine" where
  "dir_goes s i a \<equiv> s\<lparr>dm_at := (dm_at s)(i := a)\<rparr>"

inductive mutex_step :: "(nat \<Rightarrow> string) \<Rightarrow> dir_machine \<Rightarrow> dir_machine \<Rightarrow> bool" for dirs where
  guard: "dm_at s i = DirStart \<Longrightarrow> \<not> dm_guard s
    \<Longrightarrow> mutex_step dirs s ((dir_goes s i DirLooking)\<lparr>dm_guard := True\<rparr>)"
| known: "dm_at s i = DirLooking \<Longrightarrow> dm_mutex s (dirs i) = Some m
    \<Longrightarrow> mutex_step dirs s (dir_goes s i (DirFound m))"
| fresh: "dm_at s i = DirLooking \<Longrightarrow> dm_mutex s (dirs i) = None
    \<Longrightarrow> mutex_step dirs s ((dir_goes s i (DirFound (dm_next s)))
          \<lparr>dm_mutex := (dm_mutex s)(dirs i \<mapsto> dm_next s), dm_next := Suc (dm_next s)\<rparr>)"
| release: "dm_at s i = DirFound m
    \<Longrightarrow> mutex_step dirs s ((dir_goes s i (DirGot m))\<lparr>dm_guard := False\<rparr>)"
| enter: "dm_at s i = DirGot m \<Longrightarrow> \<not> dm_held s m
    \<Longrightarrow> mutex_step dirs s ((dir_goes s i (DirInside m))\<lparr>dm_held := (dm_held s)(m := True)\<rparr>)"
| leave: "dm_at s i = DirInside m
    \<Longrightarrow> mutex_step dirs s ((dir_goes s i DirDone)\<lparr>dm_held := (dm_held s)(m := False)\<rparr>)"

inductive_cases mutex_stepE: "mutex_step dirs s s'"

section \<open>Its invariant\<close>

fun holds_guard :: "dir_at \<Rightarrow> bool" where
  "holds_guard DirLooking = True"
| "holds_guard (DirFound m) = True"
| "holds_guard a = False"

fun mutex_at :: "dir_at \<Rightarrow> nat option" where
  "mutex_at (DirFound m) = Some m"
| "mutex_at (DirGot m) = Some m"
| "mutex_at (DirInside m) = Some m"
| "mutex_at a = None"

definition mutexes_agree :: "(nat \<Rightarrow> string) \<Rightarrow> dir_machine \<Rightarrow> bool" where
  "mutexes_agree dirs s \<longleftrightarrow>
     (\<forall>i m. mutex_at (dm_at s i) = Some m \<longrightarrow> dm_mutex s (dirs i) = Some m)
     \<and> (\<forall>d m. dm_mutex s d = Some m \<longrightarrow> m < dm_next s)
     \<and> inj_on (dm_mutex s) (dom (dm_mutex s))"

definition mutexes_exclude :: "dir_machine \<Rightarrow> bool" where
  "mutexes_exclude s \<longleftrightarrow>
     (\<forall>m. dm_held s m \<longleftrightarrow> (\<exists>i. dm_at s i = DirInside m))
     \<and> (\<forall>i j m. dm_at s i = DirInside m \<and> dm_at s j = DirInside m \<longrightarrow> i = j)"

definition guard_excludes :: "dir_machine \<Rightarrow> bool" where
  "guard_excludes s \<longleftrightarrow>
     (dm_guard s \<longleftrightarrow> (\<exists>i. holds_guard (dm_at s i)))
     \<and> (\<forall>i j. holds_guard (dm_at s i) \<and> holds_guard (dm_at s j) \<longrightarrow> i = j)"

lemma mutexes_agree_step: "mutexes_agree dirs s \<Longrightarrow> mutex_step dirs s s' \<Longrightarrow> mutexes_agree dirs s'"
proof (erule mutex_stepE, goal_cases)
  case (3 i)
  then have old: "dm_mutex s d \<noteq> Some (dm_next s)" for d by (auto simp: mutexes_agree_def)
  then have "inj_on ((dm_mutex s)(dirs i \<mapsto> dm_next s)) (dom ((dm_mutex s)(dirs i \<mapsto> dm_next s)))"
    using 3 by (auto simp: mutexes_agree_def inj_on_def)
  moreover from 3 have "m < Suc (dm_next s)" if "dm_mutex s d = Some m" for d m
    using that by (auto simp: mutexes_agree_def intro: less_SucI)
  moreover from 3 have "dirs j \<noteq> dirs i" if "mutex_at (dm_at s j) = Some m" for j m
    using that by (force simp: mutexes_agree_def)
  ultimately show ?case using 3 by (auto simp: mutexes_agree_def split: if_splits)
qed (auto simp: mutexes_agree_def split: if_splits)

text \<open>A step that neither enters nor leaves a mutex, and one that leaves \<open>muMapMu\<close> alone.\<close>

lemma mutexes_exclude_same:
  "mutexes_exclude s \<Longrightarrow> dm_held s' = dm_held s
    \<Longrightarrow> (\<And>j m. dm_at s' j = DirInside m \<longleftrightarrow> dm_at s j = DirInside m) \<Longrightarrow> mutexes_exclude s'"
  by (simp add: mutexes_exclude_def)

lemma guard_excludes_same:
  "guard_excludes s \<Longrightarrow> dm_guard s' = dm_guard s
    \<Longrightarrow> (\<And>j. holds_guard (dm_at s' j) \<longleftrightarrow> holds_guard (dm_at s j)) \<Longrightarrow> guard_excludes s'"
  by (simp add: guard_excludes_def)

lemma mutexes_exclude_step:
  assumes inv: "mutexes_exclude s" and step: "mutex_step dirs s s'"
  shows "mutexes_exclude s'"
  using step
proof cases
  case (enter i m)
  with inv have "dm_at s j \<noteq> DirInside m" for j by (auto simp: mutexes_exclude_def)
  moreover from enter have "dm_at s j = DirInside n \<Longrightarrow> j \<noteq> i" for j n by auto
  ultimately show ?thesis using enter inv by (auto simp: mutexes_exclude_def)
next
  case (leave i m)
  have only: "dm_at s j \<noteq> DirInside m" if "j \<noteq> i" for j
    using inv leave that unfolding mutexes_exclude_def by blast
  have "dm_held s n \<longleftrightarrow> (\<exists>j. j \<noteq> i \<and> dm_at s j = DirInside n)" if "n \<noteq> m" for n
    using inv leave that unfolding mutexes_exclude_def by (metis dir_at.inject(3))
  with only inv show ?thesis unfolding leave mutexes_exclude_def by simp blast
qed (auto intro!: mutexes_exclude_same [OF inv] split: if_splits)

lemma guard_excludes_step:
  assumes inv: "guard_excludes s" and step: "mutex_step dirs s s'"
  shows "guard_excludes s'"
  using step
proof cases
  case (guard i)
  with inv have "\<not> holds_guard (dm_at s j)" for j by (auto simp: guard_excludes_def)
  with guard show ?thesis by (auto simp: guard_excludes_def)
next
  case (release i m)
  then have "holds_guard (dm_at s i)" by simp
  with inv have "\<not> holds_guard (dm_at s j)" if "j \<noteq> i" for j
    using that unfolding guard_excludes_def by blast
  with release show ?thesis by (auto simp: guard_excludes_def)
qed (auto intro!: guard_excludes_same [OF inv] split: if_splits)

definition dir_inv :: "(nat \<Rightarrow> string) \<Rightarrow> dir_machine \<Rightarrow> bool" where
  "dir_inv dirs s \<longleftrightarrow> mutexes_agree dirs s \<and> mutexes_exclude s \<and> guard_excludes s"

lemma dir_inv_start: "dir_inv dirs dir_machine_start"
  by (simp add: dir_inv_def mutexes_agree_def mutexes_exclude_def guard_excludes_def dir_machine_start_def)

lemma dir_inv_step: "dir_inv dirs s \<Longrightarrow> mutex_step dirs s s' \<Longrightarrow> dir_inv dirs s'"
  unfolding dir_inv_def by (blast intro: mutexes_agree_step mutexes_exclude_step guard_excludes_step)

section \<open>Exclusion\<close>

text \<open>
  At most one call is inside \<open>EnsureCloned\<close> of a directory, and a call waits for a mutex only while
  another call of the same directory holds it.
\<close>

lemma one_clone_per_directory:
  assumes "(mutex_step dirs)\<^sup>*\<^sup>* dir_machine_start s"
  shows "dm_at s i = DirInside m \<Longrightarrow> dm_at s j = DirInside n \<Longrightarrow> dirs i = dirs j \<Longrightarrow> i = j"
    and "dm_at s i = DirGot m \<Longrightarrow> dm_held s m \<Longrightarrow> \<exists>j. dm_at s j = DirInside m \<and> dirs j = dirs i"
proof -
  from assms have inv: "dir_inv dirs s"
    by (induction rule: rtranclp_induct) (auto intro: dir_inv_start dir_inv_step)
  then have mutex: "dm_mutex s (dirs i) = Some m" if "mutex_at (dm_at s i) = Some m" for i m
    using that by (simp add: dir_inv_def mutexes_agree_def)
  show "i = j" if "dm_at s i = DirInside m" "dm_at s j = DirInside n" "dirs i = dirs j"
    using mutex [of i m] mutex [of j n] that inv by (auto simp: dir_inv_def mutexes_exclude_def)
  show "\<exists>j. dm_at s j = DirInside m \<and> dirs j = dirs i" if "dm_at s i = DirGot m" "dm_held s m"
  proof -
    from that(2) inv obtain j where j: "dm_at s j = DirInside m"
      by (auto simp: dir_inv_def mutexes_exclude_def)
    with mutex [of i m] mutex [of j m] that(1) have both: "dm_mutex s (dirs i) = Some m" "dm_mutex s (dirs j) = Some m"
      by simp_all
    with inv have "dirs j = dirs i"
      unfolding dir_inv_def mutexes_agree_def by (intro inj_onD [of "dm_mutex s" "dom (dm_mutex s)"]) auto
    with j show ?thesis by blast
  qed
qed

end
