(* ===== verification/Progress.thy ===== *)
theory Progress
  imports Decrypt GitLocking RepoMutex
begin

text \<open>
  Calls that share a lock finish: the step relations of \<open>Decrypt\<close>, \<open>Locking\<close>, \<open>GitLocking\<close> and
  \<open>RepoMutex\<close> have no infinite executions and no deadlocks. The locale \<open>progress\<close> states what a step
  relation over the positions of numbered calls has to satisfy; it is interpreted for each of them.
\<close>

section \<open>Executions and the calls that take their steps\<close>

text \<open>An execution from \<open>start\<close>, with the call that takes each step.\<close>

inductive steps_of ::
  "('s \<Rightarrow> 's \<Rightarrow> bool) \<Rightarrow> ('s \<Rightarrow> nat \<Rightarrow> 'c) \<Rightarrow> 's \<Rightarrow> nat list \<Rightarrow> 's \<Rightarrow> bool"
  for step position start where
  none: "steps_of step position start [] start"
| one: "steps_of step position start js s \<Longrightarrow> step s s' \<Longrightarrow> position s' i \<noteq> position s i
    \<Longrightarrow> (\<And>j. j \<noteq> i \<Longrightarrow> position s' j = position s j) \<Longrightarrow> steps_of step position start (js @ [i]) s'"

text \<open>
  Every step is one of a single call; no call takes more than \<open>bound\<close> steps; and while a call has not
  returned, it or another one that has been started can take a step.
\<close>

definition calls_finish ::
  "('s \<Rightarrow> 's \<Rightarrow> bool) \<Rightarrow> ('s \<Rightarrow> nat \<Rightarrow> 'c) \<Rightarrow> ('c \<Rightarrow> bool) \<Rightarrow> nat \<Rightarrow> 's \<Rightarrow> bool" where
  "calls_finish step position returned bound start \<longleftrightarrow>
     (\<forall>k s. (step ^^ k) start s \<longrightarrow> (\<exists>js. length js = k \<and> steps_of step position start js s))
     \<and> (\<forall>js s. steps_of step position start js s \<longrightarrow>
          (\<forall>i. count_list js i \<le> bound)
          \<and> (\<forall>i. \<not> returned (position s i) \<longrightarrow>
               (\<exists>j s'. steps_of step position s [j] s' \<and> (j = i \<or> position s j \<noteq> position start j))))"

definition can_move :: "('s \<Rightarrow> 's \<Rightarrow> bool) \<Rightarrow> ('s \<Rightarrow> nat \<Rightarrow> 'c) \<Rightarrow> 's \<Rightarrow> nat \<Rightarrow> bool" where
  "can_move step position s j \<longleftrightarrow> (\<exists>s' a. step s s' \<and> position s' = (position s)(j := a))"

lemma can_moveI: "step s s' \<Longrightarrow> position s' = (position s)(j := a) \<Longrightarrow> can_move step position s j"
  unfolding can_move_def by blast

locale progress =
  fixes step :: "'s \<Rightarrow> 's \<Rightarrow> bool" and position :: "'s \<Rightarrow> nat \<Rightarrow> 'c" and left :: "'c \<Rightarrow> nat"
    and returned :: "'c \<Rightarrow> bool" and bound :: nat and inv :: "'s \<Rightarrow> bool" and start :: 's
  assumes begins: "inv start" "left (position start i) \<le> bound"
    and ends: "\<not> returned c \<Longrightarrow> 0 < left c"
    and keeps: "inv s \<Longrightarrow> step s s' \<Longrightarrow> inv s'"
    and moves: "inv s \<Longrightarrow> step s s' \<Longrightarrow> \<exists>i a. position s' = (position s)(i := a) \<and> left a < left (position s i)"
    and waits: "inv s \<Longrightarrow> 0 < left (position s i) \<Longrightarrow>
      can_move step position s i \<or> (\<exists>j. position s j \<noteq> position start j \<and> can_move step position s j)"
begin

lemma step_of:
  assumes "inv s" and "step s s'"
  obtains i where "position s' i \<noteq> position s i" and "\<And>j. j \<noteq> i \<Longrightarrow> position s' j = position s j"
    and "left (position s' i) < left (position s i)"
proof -
  from moves [OF assms] obtain i a where "position s' = (position s)(i := a)" "left a < left (position s i)" by blast
  then show thesis by (intro that [of i]) auto
qed

lemma reachable: "steps_of step position start js s \<Longrightarrow> inv s"
  by (induction rule: steps_of.induct) (auto intro: begins keeps)

lemma scheduled: "(step ^^ k) start s \<Longrightarrow> \<exists>js. length js = k \<and> steps_of step position start js s"
proof (induction k arbitrary: s)
  case 0
  then show ?case by (auto intro: steps_of.none)
next
  case (Suc k)
  then obtain t where "(step ^^ k) start t" and t: "step t s" by auto
  with Suc.IH obtain js where js: "length js = k" "steps_of step position start js t" by blast
  from step_of [OF reachable [OF js(2)] t] obtain i
    where "position s i \<noteq> position t i" "\<And>j. j \<noteq> i \<Longrightarrow> position s j = position t j" by blast
  from steps_of.one [OF js(2) t this] js(1) show ?case by (intro exI [of _ "js @ [i]"]) simp
qed

lemma bounded: "steps_of step position start js s \<Longrightarrow> count_list js i + left (position s i) \<le> left (position start i)"
proof (induction rule: steps_of.induct)
  case (one js s s' k)
  from step_of [OF reachable [OF one(1)] one(2)] obtain l where
    "position s' l \<noteq> position s l" "left (position s' l) < left (position s l)" by blast
  with one(4) have "left (position s' k) < left (position s k)" by metis
  with one(4,5) show ?case by (cases "i = k") auto
qed simp

lemma finish: "calls_finish step position returned bound start"
  unfolding calls_finish_def
proof (intro conjI allI impI)
  show "\<exists>js. length js = k \<and> steps_of step position start js s" if "(step ^^ k) start s" for k s
    using that by (rule scheduled)
  fix js s i assume run: "steps_of step position start js s"
  from bounded [OF run, of i] begins(2) [of i] show "count_list js i \<le> bound" by simp
  assume "\<not> returned (position s i)"
  with waits [OF reachable [OF run] ends] obtain j where j: "can_move step position s j"
    and who: "j = i \<or> position s j \<noteq> position start j" by blast
  from j obtain s' a where s': "step s s'" "position s' = (position s)(j := a)" by (auto simp: can_move_def)
  from step_of [OF reachable [OF run] s'(1)] s'(2) have "position s' j \<noteq> position s j" by (metis fun_upd_other)
  then have "steps_of step position s [j] s'"
    using steps_of.one [OF steps_of.none, of step s s' position j] s' by simp
  with who show "\<exists>j s'. steps_of step position s [j] s' \<and> (j = i \<or> position s j \<noteq> position start j)" by blast
qed

end

section \<open>Decryption\<close>

fun decrypt_returned :: "call_state \<Rightarrow> bool" where
  "decrypt_returned (Returned seen) = True"
| "decrypt_returned ReturnedError = True"
| "decrypt_returned c = False"

fun decrypt_left :: "call_state \<Rightarrow> nat" where
  "decrypt_left Waiting = 6"
| "decrypt_left Locked = 5"
| "decrypt_left (SavedPrev prev) = 4"
| "decrypt_left Refused = 1"
| "decrypt_left (KeySet prev) = 3"
| "decrypt_left (Decrypted prev seen) = 2"
| "decrypt_left (Restored seen) = 1"
| "decrypt_left (Returned seen) = 0"
| "decrypt_left ReturnedError = 0"

lemmas decrypt_can_move =
  decrypt_step.intros [THEN can_moveI [where step = "decrypt_step docs keys" and position = m_calls for docs keys]]

lemma decrypt_inside_moves: "inside (m_calls m j) \<Longrightarrow> can_move (decrypt_step docs keys) m_calls m j"
proof (cases "m_calls m j")
  case (SavedPrev prev)
  then show ?thesis
    by (cases "env_refuses (keys j)") (auto intro: decrypt_can_move(4,5))
qed (auto intro: decrypt_can_move)

interpretation decrypt_progress:
  progress "decrypt_step docs keys" m_calls decrypt_left decrypt_returned 6 "machine_inv docs keys env0" "start_machine env0"
  for docs keys env0
proof
  show "machine_inv docs keys env0 (start_machine env0)" by (simp add: machine_inv_def start_machine_def)
  show "decrypt_left (m_calls (start_machine env0) i) \<le> 6" for i by (simp add: start_machine_def)
  show "\<not> decrypt_returned c \<Longrightarrow> 0 < decrypt_left c" for c by (cases c) simp_all
  show "machine_inv docs keys env0 s'" if "machine_inv docs keys env0 s" "decrypt_step docs keys s s'" for s s'
    using that by (rule machine_inv_step)
  show "\<exists>i a. m_calls s' = (m_calls s)(i := a) \<and> decrypt_left a < decrypt_left (m_calls s i)"
    if "decrypt_step docs keys s s'" for s s'
    using that by cases (force)+
  show "can_move (decrypt_step docs keys) m_calls s i
      \<or> (\<exists>j. m_calls s j \<noteq> m_calls (start_machine env0) j \<and> can_move (decrypt_step docs keys) m_calls s j)"
    if inv: "machine_inv docs keys env0 s" and "0 < decrypt_left (m_calls s i)" for s i
  proof (cases "m_calls s i = Waiting")
    case True
    show ?thesis
    proof (cases "m_locked s")
      case True
      with inv obtain j where "inside (m_calls s j)" by (auto simp: machine_inv_def)
      moreover from this have "m_calls s j \<noteq> m_calls (start_machine env0) j" by (auto simp: start_machine_def)
      ultimately show ?thesis using decrypt_inside_moves by blast
    next
      case False
      with True show ?thesis
        by (cases "docs i = [] \<or> keys i = []") (auto intro: decrypt_can_move(1,2))
    qed
  next
    case False
    with that(2) have "inside (m_calls s i)" by (cases "m_calls s i") auto
    then show ?thesis using decrypt_inside_moves by blast
  qed
qed

section \<open>Object caches\<close>

fun object_returned :: "object_at \<Rightarrow> bool" where
  "object_returned (ObjectDone r) = True"
| "object_returned a = False"

fun object_left :: "object_at \<Rightarrow> nat" where
  "object_left ObjectStart = 6"
| "object_left (ObjectFound p) = 5"
| "object_left (ObjectWriting p) = 4"
| "object_left (ObjectReading p) = 4"
| "object_left (ObjectFetched p body etag) = 3"
| "object_left (ETagStored p body etag) = 2"
| "object_left (ContentRead p body) = 2"
| "object_left (ObjectLeaving p r) = 1"
| "object_left (ObjectDone r) = 0"

text \<open>The positions that a call can be at.\<close>

fun object_visits :: "object_call \<Rightarrow> object_at \<Rightarrow> bool" where
  "object_visits c ObjectStart = True"
| "object_visits c (ObjectDone r) = True"
| "object_visits (EnsureObject k mode f) (ObjectReading p) = False"
| "object_visits (EnsureObject k mode f) (ContentRead p body) = False"
| "object_visits (EnsureObject k mode f) a = True"
| "object_visits (ReadObject k) (ObjectFound p) = True"
| "object_visits (ReadObject k) (ObjectReading p) = True"
| "object_visits (ReadObject k) (ContentRead p body) = True"
| "object_visits (ReadObject k) (ObjectLeaving p r) = True"
| "object_visits c a = False"

definition object_orderly :: "(nat \<Rightarrow> object_call) \<Rightarrow> object_machine \<Rightarrow> bool" where
  "object_orderly calls s \<longleftrightarrow>
     locks_ok object_holds (\<lambda>i. writes_object (calls i)) (om_at s) (om_writer s) (om_readers s)
     \<and> (\<forall>i. object_visits (calls i) (om_at s i))"

lemma object_orderly_step:
  assumes "object_orderly calls s" and step: "object_step calls s s'"
  shows "object_orderly calls s'"
proof -
  from assms(1) have locks: "locks_ok object_holds (\<lambda>i. writes_object (calls i)) (om_at s) (om_writer s) (om_readers s)"
    and visits: "\<And>i. object_visits (calls i) (om_at s i)" by (simp_all add: object_orderly_def)
  show ?thesis
    using step
  proof cases
    case (lock i k mode f p)
    with object_locks.write_locked [OF locks, of i "ObjectWriting p" p] visits show ?thesis
      by (simp add: object_orderly_def)
  next
    case (unlock i k mode f p r)
    with object_locks.write_unlocked [OF locks, of i p "ObjectDone r"] visits show ?thesis
      by (simp add: object_orderly_def)
  next
    case (read_lock i k p)
    with object_locks.read_locked [OF locks, of i "ObjectReading p" p] visits show ?thesis
      by (simp add: object_orderly_def)
  next
    case (read_unlock i k p r)
    with object_locks.read_unlocked [OF locks, of i p "ObjectDone r"] visits show ?thesis
      by (simp add: object_orderly_def)
  qed (use visits in \<open>auto simp: object_orderly_def intro!: object_locks.inside [OF locks] split: option.split\<close>)
qed

lemmas object_can_move = object_step.intros [THEN can_moveI [where step = "object_step calls" and position = om_at for calls]]

lemma object_holder_moves:
  assumes "object_visits (calls j) (om_at s j)" and "object_holds (om_at s j) p"
  shows "can_move (object_step calls) om_at s j"
proof (cases "calls j")
  case (EnsureObject k mode f)
  show ?thesis
  proof (cases "om_at s j")
    case (ObjectWriting q)
    with object_can_move(6) [of calls j k mode f s q] EnsureObject show ?thesis by simp
  next
    case (ObjectFetched q body etag)
    with object_can_move(8) [of calls j k mode f s q body etag] EnsureObject show ?thesis by simp
  next
    case (ETagStored q body etag)
    with object_can_move(9) [of calls j k mode f s q body etag] EnsureObject show ?thesis by simp
  next
    case (ObjectLeaving q r)
    with object_can_move(10) [of calls j k mode f s q r] EnsureObject show ?thesis by simp
  qed (use assms EnsureObject in simp_all)
next
  case (ReadObject k)
  show ?thesis
  proof (cases "om_at s j")
    case (ObjectReading q)
    then show ?thesis
      using object_can_move(13) [of calls j k s q] object_can_move(16) [of calls j k s q] ReadObject
      by (cases "oe_mode (om_cell s q) = ObjectModeURL") auto
  next
    case (ContentRead q body)
    with object_can_move(14) [of calls j k s q body] ReadObject show ?thesis by simp
  next
    case (ObjectLeaving q r)
    with object_can_move(17) [of calls j k s q r] ReadObject show ?thesis by simp
  qed (use assms ReadObject in simp_all)
next
  case (ForgetObject k)
  with assms show ?thesis by (cases "om_at s j") auto
qed

text \<open>While no call is inside an entry, the others can go on too.\<close>

lemma object_outsider_moves:
  assumes "object_visits (calls i) (om_at s i)" and "\<not> (\<exists>p. object_holds (om_at s i) p)" and "0 < object_left (om_at s i)"
    and free: "\<And>p. om_writer s p = None" "\<And>p. om_readers s p = {}"
  shows "can_move (object_step calls) om_at s i"
proof (cases "om_at s i")
  case start: ObjectStart
  show ?thesis
  proof (cases "calls i")
    case (EnsureObject k mode f)
    show ?thesis
    proof (cases "\<exists>p. om_objects s k = Some p \<and> oe_mode (om_cell s p) = mode")
      case True
      with object_can_move(2) [of calls i k mode f s] EnsureObject start show ?thesis by auto
    next
      case False
      with object_can_move(1) [of calls i k mode f s] EnsureObject start show ?thesis
        by (auto split: option.splits)
    qed
  next
    case (ReadObject k)
    with object_can_move(11) [of calls i k s] start show ?thesis by simp
  next
    case (ForgetObject k)
    with object_can_move(18) [of calls i k s] start show ?thesis by simp
  qed
next
  case at: (ObjectFound p)
  show ?thesis
  proof (cases "calls i")
    case (EnsureObject k mode f)
    with object_can_move(3) [of calls i k mode f s p] at free show ?thesis by simp
  next
    case (ReadObject k)
    with object_can_move(12) [of calls i k s p] at free show ?thesis by simp
  qed (use at assms(1) in simp)
qed (use assms(2,3) in simp_all)

interpretation object_progress:
  progress "object_step calls" om_at object_left object_returned 6 "object_orderly calls" object_machine_start
  for calls
proof
  show "object_orderly calls object_machine_start"
    by (simp add: object_orderly_def object_machine_start_def locks_ok_def)
  show "object_left (om_at object_machine_start i) \<le> 6" for i by (simp add: object_machine_start_def)
  show "\<not> object_returned c \<Longrightarrow> 0 < object_left c" for c by (cases c) simp_all
  show "object_orderly calls s'" if "object_orderly calls s" "object_step calls s s'" for s s'
    using that by (rule object_orderly_step)
  show "\<exists>i a. om_at s' = (om_at s)(i := a) \<and> object_left a < object_left (om_at s i)"
    if "object_step calls s s'" for s s'
    using that by cases (auto split: option.splits intro!: exI)
  show "can_move (object_step calls) om_at s i
      \<or> (\<exists>j. om_at s j \<noteq> om_at object_machine_start j \<and> can_move (object_step calls) om_at s j)"
    if orderly: "object_orderly calls s" and "0 < object_left (om_at s i)" for s i
  proof -
    from orderly have locks: "locks_ok object_holds (\<lambda>i. writes_object (calls i)) (om_at s) (om_writer s) (om_readers s)"
      and visits: "\<And>i. object_visits (calls i) (om_at s i)" by (simp_all add: object_orderly_def)
    have holder: ?thesis if "object_holds (om_at s j) p" for j p
    proof -
      from that have "om_at s j \<noteq> om_at object_machine_start j" by (auto simp: object_machine_start_def)
      with object_holder_moves [of calls j s p, OF visits that] show ?thesis by blast
    qed
    show ?thesis
    proof (cases "\<exists>j p. object_holds (om_at s j) p")
      case False
      then have free: "om_writer s p = None" "om_readers s p = {}" for p
        using locks unfolding locks_ok_def by (metis not_Some_eq, blast)
      with object_outsider_moves [of calls i s, OF visits _ that(2)] False show ?thesis by blast
    qed (use holder in blast)
  qed
qed

section \<open>Git caches\<close>

fun clone_returned :: "clone_at \<Rightarrow> bool" where
  "clone_returned (CloneDone r) = True"
| "clone_returned a = False"

fun clone_left :: "clone_at \<Rightarrow> nat" where
  "clone_left CloneStart = 6"
| "clone_left (CloneFound p) = 5"
| "clone_left (CloneWriting p) = 4"
| "clone_left (CloneReading p) = 4"
| "clone_left (Updating p) = 3"
| "clone_left (Updated p sha) = 2"
| "clone_left (FileRead p body) = 2"
| "clone_left (CloneLeaving p r) = 1"
| "clone_left (Removing dir) = 1"
| "clone_left (CloneDone r) = 0"

fun clone_visits :: "git_call \<Rightarrow> clone_at \<Rightarrow> bool" where
  "clone_visits c CloneStart = True"
| "clone_visits c (CloneDone r) = True"
| "clone_visits (ForgetClone k) (Removing dir) = True"
| "clone_visits c (Removing dir) = False"
| "clone_visits (EnsureClone k dir) (CloneReading p) = False"
| "clone_visits (EnsureClone k dir) (FileRead p body) = False"
| "clone_visits (EnsureClone k dir) a = True"
| "clone_visits (ReadFileAt k path) (CloneFound p) = True"
| "clone_visits (ReadFileAt k path) (CloneReading p) = True"
| "clone_visits (ReadFileAt k path) (FileRead p body) = True"
| "clone_visits (ReadFileAt k path) (CloneLeaving p r) = True"
| "clone_visits c a = False"

definition clone_orderly :: "(nat \<Rightarrow> git_call) \<Rightarrow> clone_machine \<Rightarrow> bool" where
  "clone_orderly calls s \<longleftrightarrow>
     locks_ok clone_holds (\<lambda>i. writes_clone (calls i)) (cm_at s) (cm_writer s) (cm_readers s)
     \<and> (\<forall>i. clone_visits (calls i) (cm_at s i))"

lemma clone_orderly_step:
  assumes "clone_orderly calls s" and step: "clone_step contents half calls s s'"
  shows "clone_orderly calls s'"
proof -
  from assms(1) have locks: "locks_ok clone_holds (\<lambda>i. writes_clone (calls i)) (cm_at s) (cm_writer s) (cm_readers s)"
    and visits: "\<And>i. clone_visits (calls i) (cm_at s i)" by (simp_all add: clone_orderly_def)
  show ?thesis
    using step
  proof cases
    case (lock i k dir p)
    with clone_locks.write_locked [OF locks, of i "CloneWriting p" p] visits show ?thesis
      by (simp add: clone_orderly_def)
  next
    case (unlock i k dir p r)
    with clone_locks.write_unlocked [OF locks, of i p "CloneDone r"] visits show ?thesis
      by (simp add: clone_orderly_def)
  next
    case (read_lock i k path p)
    with clone_locks.read_locked [OF locks, of i "CloneReading p" p] visits show ?thesis
      by (simp add: clone_orderly_def)
  next
    case (read_unlock i k path p r)
    with clone_locks.read_unlocked [OF locks, of i p "CloneDone r"] visits show ?thesis
      by (simp add: clone_orderly_def)
  qed (use visits in \<open>auto simp: clone_orderly_def intro!: clone_locks.inside [OF locks] split: option.split\<close>)
qed

lemmas clone_can_move =
  clone_step.intros [THEN can_moveI [where step = "clone_step contents half calls" and position = cm_at for contents half calls]]

lemma clone_holder_moves:
  assumes "clone_visits (calls j) (cm_at s j)" and "clone_holds (cm_at s j) p"
  shows "can_move (clone_step contents half calls) cm_at s j"
proof (cases "calls j")
  case (EnsureClone k dir)
  show ?thesis
  proof (cases "cm_at s j")
    case (CloneWriting q)
    with clone_can_move(4) [of calls j k dir s q] EnsureClone show ?thesis by simp
  next
    case (Updating q)
    with clone_can_move(6) [of calls j k dir s q] EnsureClone show ?thesis by simp
  next
    case (Updated q sha)
    with clone_can_move(9) [of calls j k dir s q sha] EnsureClone show ?thesis by simp
  next
    case (CloneLeaving q r)
    with clone_can_move(10) [of calls j k dir s q r] EnsureClone show ?thesis by simp
  qed (use assms EnsureClone in simp_all)
next
  case (ReadFileAt k path)
  show ?thesis
  proof (cases "cm_at s j")
    case (CloneReading q)
    with clone_can_move(15) [of calls j k path s q] ReadFileAt show ?thesis by simp
  next
    case (FileRead q body)
    with clone_can_move(16) [of calls j k path s q body] ReadFileAt show ?thesis by simp
  next
    case (CloneLeaving q r)
    with clone_can_move(17) [of calls j k path s q r] ReadFileAt show ?thesis by simp
  qed (use assms ReadFileAt in simp_all)
next
  case (ForgetClone k)
  with assms show ?thesis by (cases "cm_at s j") auto
qed

lemma clone_outsider_moves:
  assumes "clone_visits (calls i) (cm_at s i)" and "\<not> (\<exists>p. clone_holds (cm_at s i) p)" and "0 < clone_left (cm_at s i)"
    and free: "\<And>p. cm_writer s p = None" "\<And>p. cm_readers s p = {}"
  shows "can_move (clone_step contents half calls) cm_at s i"
proof (cases "cm_at s i")
  case start: CloneStart
  show ?thesis
  proof (cases "calls i")
    case (EnsureClone k dir)
    show ?thesis
    proof (cases "cm_entries s k")
      case None
      with clone_can_move(1) [of calls i k dir s "cm_tree s"] EnsureClone start show ?thesis by simp
    next
      case (Some p)
      with clone_can_move(1) [of calls i k dir s "(cm_tree s)(cm_dir s p := NoTree)"]
        clone_can_move(2) [of calls i k dir s p] EnsureClone start
      show ?thesis by (cases "cm_dir s p = dir") simp_all
    qed
  next
    case (ReadFileAt k path)
    with clone_can_move(11) [of calls i k path s] start show ?thesis by simp
  next
    case (ForgetClone k)
    with clone_can_move(18) [of calls i k s] start show ?thesis by simp
  qed
next
  case at: (CloneFound p)
  show ?thesis
  proof (cases "calls i")
    case (EnsureClone k dir)
    with clone_can_move(3) [of calls i k dir s p] at free show ?thesis by simp
  next
    case (ReadFileAt k path)
    with clone_can_move(12) [of calls i k path s p] at free show ?thesis by simp
  qed (use at assms(1) in simp)
next
  case (Removing dir)
  with assms(1) obtain k where "calls i = ForgetClone k" by (cases "calls i") auto
  with Removing clone_can_move(19) [of calls i k s dir "cm_tree s"] show ?thesis by simp
qed (use assms(2,3) in simp_all)

interpretation clone_progress:
  progress "clone_step contents half calls" cm_at clone_left clone_returned 6 "clone_orderly calls" "clone_machine_start disk"
  for contents half calls disk
proof
  show "clone_orderly calls (clone_machine_start disk)"
    by (simp add: clone_orderly_def clone_machine_start_def locks_ok_def)
  show "clone_left (cm_at (clone_machine_start disk) i) \<le> 6" for i by (simp add: clone_machine_start_def)
  show "\<not> clone_returned c \<Longrightarrow> 0 < clone_left c" for c by (cases c) simp_all
  show "clone_orderly calls s'" if "clone_orderly calls s" "clone_step contents half calls s s'" for s s'
    using that by (rule clone_orderly_step)
  show "\<exists>i a. cm_at s' = (cm_at s)(i := a) \<and> clone_left a < clone_left (cm_at s i)"
    if "clone_step contents half calls s s'" for s s'
    using that by cases (auto split: option.splits intro!: exI)
  show "can_move (clone_step contents half calls) cm_at s i
      \<or> (\<exists>j. cm_at s j \<noteq> cm_at (clone_machine_start disk) j \<and> can_move (clone_step contents half calls) cm_at s j)"
    if orderly: "clone_orderly calls s" and "0 < clone_left (cm_at s i)" for s i
  proof -
    from orderly have locks: "locks_ok clone_holds (\<lambda>i. writes_clone (calls i)) (cm_at s) (cm_writer s) (cm_readers s)"
      and visits: "\<And>i. clone_visits (calls i) (cm_at s i)" by (simp_all add: clone_orderly_def)
    have holder: ?thesis if "clone_holds (cm_at s j) p" for j p
    proof -
      from that have "cm_at s j \<noteq> cm_at (clone_machine_start disk) j" by (auto simp: clone_machine_start_def)
      with clone_holder_moves [of calls j s p, OF visits that] show ?thesis by blast
    qed
    show ?thesis
    proof (cases "\<exists>j p. clone_holds (cm_at s j) p")
      case False
      then have free: "cm_writer s p = None" "cm_readers s p = {}" for p
        using locks unfolding locks_ok_def by (metis not_Some_eq, blast)
      with clone_outsider_moves [of calls i s, OF visits _ that(2)] False show ?thesis by blast
    qed (use holder in blast)
  qed
qed

section \<open>The mutexes of the cache directories\<close>

fun dir_left :: "dir_at \<Rightarrow> nat" where
  "dir_left DirStart = 5"
| "dir_left DirLooking = 4"
| "dir_left (DirFound m) = 3"
| "dir_left (DirGot m) = 2"
| "dir_left (DirInside m) = 1"
| "dir_left DirDone = 0"

lemmas dir_can_move = mutex_step.intros [THEN can_moveI [where step = "mutex_step dirs" and position = dm_at for dirs]]

lemma guard_holder_moves: "holds_guard (dm_at s i) \<Longrightarrow> can_move (mutex_step dirs) dm_at s i"
proof (cases "dm_at s i")
  case DirLooking
  then show ?thesis by (cases "dm_mutex s (dirs i)") (auto intro: dir_can_move)
qed (auto intro: dir_can_move)

lemma inside_moves: "dm_at s i = DirInside m \<Longrightarrow> can_move (mutex_step dirs) dm_at s i"
  by (auto intro: dir_can_move)

interpretation dir_progress:
  progress "mutex_step dirs" dm_at dir_left "\<lambda>a. a = DirDone" 5 "dir_inv dirs" dir_machine_start
  for dirs
proof
  show "dir_inv dirs dir_machine_start" by (rule dir_inv_start)
  show "dir_left (dm_at dir_machine_start i) \<le> 5" for i by (simp add: dir_machine_start_def)
  show "c \<noteq> DirDone \<Longrightarrow> 0 < dir_left c" for c by (cases c) simp_all
  show "dir_inv dirs s'" if "dir_inv dirs s" "mutex_step dirs s s'" for s s'
    using that by (rule dir_inv_step)
  show "\<exists>i a. dm_at s' = (dm_at s)(i := a) \<and> dir_left a < dir_left (dm_at s i)"
    if "mutex_step dirs s s'" for s s'
    using that by cases force+
  show "can_move (mutex_step dirs) dm_at s i
      \<or> (\<exists>j. dm_at s j \<noteq> dm_at dir_machine_start j \<and> can_move (mutex_step dirs) dm_at s j)"
    if inv: "dir_inv dirs s" and left: "0 < dir_left (dm_at s i)" for s i
  proof (cases "dm_at s i")
    case DirStart
    show ?thesis
    proof (cases "dm_guard s")
      case True
      with inv obtain j where j: "holds_guard (dm_at s j)" by (auto simp: dir_inv_def guard_excludes_def)
      then have "dm_at s j \<noteq> dm_at dir_machine_start j" by (auto simp: dir_machine_start_def)
      with guard_holder_moves [OF j] show ?thesis by blast
    qed (use DirStart in \<open>auto intro: dir_can_move\<close>)
  next
    case (DirGot m)
    show ?thesis
    proof (cases "dm_held s m")
      case True
      with inv obtain j where "dm_at s j = DirInside m" by (auto simp: dir_inv_def mutexes_exclude_def)
      moreover from this have "dm_at s j \<noteq> dm_at dir_machine_start j" by (simp add: dir_machine_start_def)
      ultimately show ?thesis using inside_moves by blast
    qed (use DirGot in \<open>auto intro: dir_can_move\<close>)
  next
    case (DirInside m)
    then show ?thesis using inside_moves by blast
  qed (use left guard_holder_moves [of s i dirs] in auto)
qed

section \<open>Properties\<close>

text \<open>
C16: Calls that share locks neither deadlock nor run for ever. Of concurrent decryptions (errors
included), of refreshes, reads and removals of object sources, of those of git sources (even if
go-git fails at any point), and of the updates of clones, which take a mutex of their directory from
a map with a mutex of its own: each step is one of a single call, each call takes at most six steps
(five for the last), and while a call has not returned, it or another started one can go on.
\<close>

theorem concurrent_calls_finish:
  "calls_finish (decrypt_step docs keys) m_calls decrypt_returned 6 (start_machine env0)
    \<and> calls_finish (object_step object_calls) om_at object_returned 6 object_machine_start
    \<and> calls_finish (clone_step contents half git_calls) cm_at clone_returned 6 (clone_machine_start disk)
    \<and> calls_finish (mutex_step dirs) dm_at (\<lambda>a. a = DirDone) 5 dir_machine_start"
  using decrypt_progress.finish object_progress.finish clone_progress.finish dir_progress.finish by blast

end
