(* ===== verification/Serial.thy ===== *)
theory Serial
  imports Locking
begin

text \<open>
  The two models of the object caches agree: what \<open>Registry\<close> does in one step per operation is an
  execution of the step relation of \<open>Locking\<close>, in which the calls run one after another. \<open>Locking\<close> does
  not model \<open>lastSynced\<close>, so entries are compared up to it.
\<close>

section \<open>One call of the registry\<close>

fun serve :: "'w remote_ext \<Rightarrow> string \<Rightarrow> object_call \<Rightarrow> ('w, 'x, call_result) op_prog" where
  "serve X path (EnsureObject k mode f) = do {
     r \<leftarrow> ensure_object_cached X k mode f;
     State_Monad.return (case r of Inl e \<Rightarrow> Failed | Inr etag \<Rightarrow> RefreshOk etag)
   }"
| "serve X path (ReadObject k) = do {
     r \<leftarrow> read_object X k path;
     State_Monad.return (case r of Inl e \<Rightarrow> Failed | Inr (body, etag) \<Rightarrow> ReadOk body etag)
   }"
| "serve X path (ForgetObject k) = do {
     forget_object k;
     State_Monad.return Forgotten
   }"

fun serve_all :: "'w remote_ext \<Rightarrow> string \<Rightarrow> object_call list \<Rightarrow> ('w, 'x, call_result list) op_prog" where
  "serve_all X path [] = State_Monad.return []"
| "serve_all X path (c # cs) = do {
     r \<leftarrow> serve X path c;
     rs \<leftarrow> serve_all X path cs;
     State_Monad.return (r # rs)
   }"

text \<open>How a refresh can end: \<open>e\<close> is the entry it starts from, \<open>e'\<close> the one it leaves.\<close>

definition refresh_ends :: "object_mode \<Rightarrow> object_entry \<Rightarrow> object_entry \<Rightarrow> call_result \<Rightarrow> bool" where
  "refresh_ends mode e e' r \<longleftrightarrow>
     (mode = ObjectModeURL \<and> r = RefreshOk (oe_etag e'))
     \<or> (oe_content e' = oe_content e \<and> oe_etag e' = oe_etag e
        \<and> (r = Failed \<or> mode = ObjectModeBucket \<and> r = RefreshOk []))"

lemma serve_refresh:
  fixes st :: "('w, 'x) op_state_scheme"
  assumes run: "run_state (serve X path (EnsureObject k mode f)) st = (r, st')"
  obtains e' where "objects st' = (objects st)(k \<mapsto> e')" and "oe_mode e' = mode" and "oe_fetcher e' = Some f"
    and "refresh_ends mode (object_for (objects st k) mode) e' r"
proof -
  obtain q where q: "run_state (ensure_object_cached X k mode f) st = (q, st')"
    and r: "r = (case q of Inl e \<Rightarrow> Failed | Inr etag \<Rightarrow> RefreshOk etag)"
    using run by (cases "run_state (ensure_object_cached X k mode f) st") auto
  show thesis
  proof (cases mode)
    case ObjectModeURL
    show thesis
    proof (rule run_ensure_url [OF q [unfolded ObjectModeURL]])
      fix e' fr w e
      assume e: "e = object_for (objects st k) ObjectModeURL" and e': "objects st' = (objects st)(k \<mapsto> e')"
        "oe_mode e' = ObjectModeURL" "oe_fetcher e' = Some f"
        and res: "case fr of
          Inl err \<Rightarrow> q = (if is_not_modified err then Inr (oe_etag e) else Inl (ObjectError err))
            \<and> oe_etag e' = oe_etag e \<and> oe_content e' = oe_content e
        | Inr (body, etag) \<Rightarrow> q = Inr etag \<and> oe_etag e' = etag \<and> oe_content e' = body"
      have "refresh_ends mode e e' r"
        using res by (auto simp: refresh_ends_def r ObjectModeURL split: sum.splits if_splits)
      with e e' ObjectModeURL show thesis by (intro that) simp_all
    qed
  next
    case ObjectModeBucket
    define e where "e = (object_for (objects st k) ObjectModeBucket)\<lparr>oe_fetcher := Some f\<rparr>"
    obtain p w where p: "run_state (probe X f) (st\<lparr>objects := (objects st)(k \<mapsto> e)\<rparr>)
        = (p, st\<lparr>objects := (objects st)(k \<mapsto> e), world := w\<rparr>)"
      using any_fetcher.run_probe [of X f "st\<lparr>objects := (objects st)(k \<mapsto> e)\<rparr>"] by auto
    define e' where "e' = (case p of None \<Rightarrow> e\<lparr>oe_last_synced := fst (run_state (now X) w)\<rparr> | Some _ \<Rightarrow> e)"
    have "objects st' = (objects st)(k \<mapsto> e') \<and> q = (case p of None \<Rightarrow> Inr [] | Some err \<Rightarrow> Inl (ObjectError err))"
      using q p ObjectModeBucket
      by (cases p) (auto simp: ensure_object_cached_def ensure_object_cached_body_alt Let_def e_def [symmetric] run_on_world e'_def)
    with ObjectModeBucket show thesis
      by (intro that [of e']) (auto simp: refresh_ends_def r e'_def e_def split: option.splits)
  next
    case (ObjectModeOther n)
    let ?e = "(object_for (objects st k) mode)\<lparr>oe_fetcher := Some f\<rparr>"
    have "objects st' = (objects st)(k \<mapsto> ?e)" "q = Inl (UnknownObjectMode mode)"
      using q ObjectModeOther by (auto simp: ensure_object_cached_def ensure_object_cached_body_alt Let_def)
    then show thesis by (intro that [of ?e]) (simp_all add: refresh_ends_def r)
  qed
qed

section \<open>The same call in the machine\<close>

definition clock_free :: "object_entry \<Rightarrow> object_entry" where
  "clock_free e = e\<lparr>oe_last_synced := 0\<rparr>"

definition same_objects :: "object_machine \<Rightarrow> ('w, 'x) op_state_scheme \<Rightarrow> bool" where
  "same_objects s st \<longleftrightarrow>
     (\<forall>k. map_option clock_free (objects st k) = map_option (\<lambda>p. clock_free (om_cell s p)) (om_objects s k))"

definition unlocked :: "object_machine \<Rightarrow> bool" where
  "unlocked s \<longleftrightarrow> (\<forall>p. om_writer s p = None \<and> om_readers s p = {})"

lemma clock_free_eq_iff:
  "clock_free e = clock_free e' \<longleftrightarrow>
     oe_mode e = oe_mode e' \<and> oe_fetcher e = oe_fetcher e' \<and> oe_etag e = oe_etag e' \<and> oe_content e = oe_content e'"
  by (cases e; cases e') (simp add: clock_free_def)

lemma object_for_clock_free:
  "map_option clock_free old = map_option clock_free old'
    \<Longrightarrow> clock_free (object_for old mode) = clock_free (object_for old' mode)"
  by (cases old; cases old') (auto simp: object_for_def clock_free_eq_iff)

lemma two_steps: "r a b \<Longrightarrow> r b c \<Longrightarrow> r\<^sup>*\<^sup>* a c"
  by (blast intro: converse_rtranclp_into_rtranclp)

lemma three_steps: "r a b \<Longrightarrow> r b c \<Longrightarrow> r c d \<Longrightarrow> r\<^sup>*\<^sup>* a d"
  by (blast intro: converse_rtranclp_into_rtranclp)

text \<open>A state of the machine in which call \<open>i\<close> is at \<open>a\<close>, has written the entry \<open>e\<close> of \<open>k\<close> and holds its lock.\<close>

definition refreshing :: "object_machine \<Rightarrow> nat \<Rightarrow> objkey \<Rightarrow> object_at \<Rightarrow> nat \<Rightarrow> object_entry \<Rightarrow> object_machine \<Rightarrow> bool" where
  "refreshing s i k a p e s1 \<longleftrightarrow>
     om_at s1 = (om_at s)(i := a) \<and> om_objects s1 = (om_objects s)(k \<mapsto> p) \<and> om_cell s1 p = e
     \<and> om_writer s1 = (\<lambda>q. if q = p then Some i else None) \<and> om_readers s1 = (\<lambda>_. {})
     \<and> (\<forall>k' q. k' \<noteq> k \<longrightarrow> om_objects s k' = Some q \<longrightarrow> q \<noteq> p \<and> om_cell s1 q = om_cell s q)"

lemma refresh_begins:
  assumes inv: "object_inv calls s" and i: "calls i = EnsureObject k mode f" "om_at s i = ObjectStart" and "unlocked s"
  obtains p s1 where "(object_step calls)\<^sup>*\<^sup>* s s1"
    and "refreshing s i k (ObjectWriting p) p
      ((object_for (map_option (om_cell s) (om_objects s k)) mode)\<lparr>oe_fetcher := Some f\<rparr>) s1"
proof (cases "\<exists>p. om_objects s k = Some p \<and> oe_mode (om_cell s p) = mode")
  case True
  then obtain p where p: "om_objects s k = Some p" "oe_mode (om_cell s p) = mode" by blast
  let ?s0 = "object_goes s i (ObjectFound p)"
  let ?s1 = "(object_goes ?s0 i (ObjectWriting p))\<lparr>om_writer := (om_writer ?s0)(p := Some i),
           om_cell := (om_cell ?s0)(p := (om_cell ?s0 p)\<lparr>oe_fetcher := Some f\<rparr>)\<rparr>"
  have "object_step calls s ?s0" by (rule object_step.old_entry [of calls i k mode f s p, OF i p])
  moreover have "object_step calls ?s0 ?s1"
    by (rule object_step.lock [of calls i k mode f ?s0 p, OF i(1)]) (use assms(4) in \<open>simp_all add: unlocked_def\<close>)
  ultimately have "(object_step calls)\<^sup>*\<^sup>* s ?s1" by (rule two_steps)
  moreover have "q \<noteq> p" if "k' \<noteq> k" "om_objects s k' = Some q" for k' q
    using object_invD(4) [OF inv p(1)] object_invD(4) [OF inv that(2)] that(1) by auto
  ultimately show thesis
    using assms(4) p by (intro that [of ?s1 p]) (auto simp: refreshing_def unlocked_def object_for_def fun_eq_iff)
next
  case False
  let ?p = "om_next s"
  let ?s0 = "(object_goes s i (ObjectFound ?p))\<lparr>om_objects := (om_objects s)(k \<mapsto> ?p),
    om_cell := (om_cell s)(?p := new_object_entry mode), om_owner := (om_owner s)(?p := k), om_next := Suc ?p\<rparr>"
  let ?s1 = "(object_goes ?s0 i (ObjectWriting ?p))\<lparr>om_writer := (om_writer ?s0)(?p := Some i),
           om_cell := (om_cell ?s0)(?p := (om_cell ?s0 ?p)\<lparr>oe_fetcher := Some f\<rparr>)\<rparr>"
  have "object_step calls s ?s0"
    using False by (intro object_step.new_entry [of calls i k mode f s, OF i]) (auto split: option.split)
  moreover have "object_step calls ?s0 ?s1"
    by (rule object_step.lock [of calls i k mode f ?s0 ?p, OF i(1)]) (use assms(4) in \<open>simp_all add: unlocked_def\<close>)
  ultimately have "(object_step calls)\<^sup>*\<^sup>* s ?s1" by (rule two_steps)
  moreover have "q \<noteq> ?p" if "om_objects s k' = Some q" for k' q
    using object_invD(4) [OF inv that] by auto
  ultimately show thesis
    using assms(4) False
    by (intro that [of ?s1 ?p]) (auto simp: refreshing_def unlocked_def object_for_def fun_eq_iff split: option.split)
qed

lemma refreshing_step:
  assumes "refreshing s i k a p e s1" and "om_at s2 = (om_at s1)(i := a')" and "om_cell s2 = (om_cell s1)(p := e')"
    and "om_objects s2 = om_objects s1" and "om_writer s2 = om_writer s1" and "om_readers s2 = om_readers s1"
  shows "refreshing s i k a' p e' s2"
  using assms by (simp add: refreshing_def)

lemma refresh_finishes:
  assumes at: "refreshing s i k (ObjectWriting p) p e s1" and i: "calls i = EnsureObject k mode f"
    and ends: "refresh_ends mode e0 e' r"
    and e: "oe_mode e = mode" "oe_fetcher e = oe_fetcher e'" "oe_etag e = oe_etag e0" "oe_content e = oe_content e0"
    and e': "oe_mode e' = mode"
  obtains s2 x where "(object_step calls)\<^sup>*\<^sup>* s1 s2" and "refreshing s i k (ObjectLeaving p r) p x s2"
    and "clock_free x = clock_free e'"
proof (cases "mode = ObjectModeURL \<and> r = RefreshOk (oe_etag e')")
  case True
  let ?b = "oe_content e'" and ?t = "oe_etag e'"
  let ?e2 = "e\<lparr>oe_etag := ?t\<rparr>"
  let ?e3 = "?e2\<lparr>oe_content := ?b\<rparr>"
  let ?a = "(object_goes s1 i (ObjectFetched p ?b ?t))\<lparr>om_fetched := insert (k, ?b, ?t) (om_fetched s1)\<rparr>"
  let ?b = "(object_goes ?a i (ETagStored p ?b ?t))\<lparr>om_cell := (om_cell ?a)(p := (om_cell ?a p)\<lparr>oe_etag := ?t\<rparr>)\<rparr>"
  let ?c = "(object_goes ?b i (ObjectLeaving p (RefreshOk ?t)))\<lparr>om_cell := (om_cell ?b)(p := (om_cell ?b p)\<lparr>oe_content := oe_content e'\<rparr>)\<rparr>"
  have ats: "om_at s1 i = ObjectWriting p" and cell: "om_cell s1 p = e" using at by (simp_all add: refreshing_def)
  have "object_step calls s1 ?a"
    using i True ats by (intro object_step.fetched [of calls i k f s1 p]) simp_all
  moreover have "object_step calls ?a ?b"
    by (rule object_step.store_etag [of calls i k mode f ?a p, OF i]) simp
  moreover have "object_step calls ?b ?c"
    by (rule object_step.store_content [of calls i k mode f ?b p, OF i]) simp
  ultimately have steps: "(object_step calls)\<^sup>*\<^sup>* s1 ?c" by (rule three_steps)
  have "refreshing s i k (ObjectLeaving p r) p ?e3 ?c"
    using True cell by (intro refreshing_step [OF at]) (simp_all add: fun_eq_iff)
  with steps show thesis by (rule that) (simp add: clock_free_eq_iff e e')
next
  case False
  with ends have same: "oe_content e' = oe_content e0" "oe_etag e' = oe_etag e0"
    and r: "r = Failed \<or> mode = ObjectModeBucket \<and> r = RefreshOk []" by (auto simp: refresh_ends_def)
  let ?a = "object_goes s1 i (ObjectLeaving p r)"
  have ats: "om_at s1 i = ObjectWriting p" and cell: "om_cell s1 p = e" using at by (simp_all add: refreshing_def)
  have "object_step calls s1 ?a"
    using r i ats object_step.refresh_failed [of calls i k mode f s1 p] object_step.probed [of calls i k f s1 p] by auto
  moreover have "refreshing s i k (ObjectLeaving p r) p e ?a"
    using cell by (intro refreshing_step [OF at]) (simp_all add: fun_eq_iff)
  ultimately show thesis by (intro that [of ?a e]) (auto simp: clock_free_eq_iff e e' same)
qed

text \<open>What serving one call is in the machine.\<close>

definition served :: "(nat \<Rightarrow> object_call) \<Rightarrow> object_machine \<Rightarrow> nat \<Rightarrow> call_result \<Rightarrow> ('w, 'x) op_state_scheme \<Rightarrow> object_machine \<Rightarrow> bool" where
  "served calls s i r st s' \<longleftrightarrow> (object_step calls)\<^sup>*\<^sup>* s s' \<and> om_at s' = (om_at s)(i := ObjectDone r)
     \<and> unlocked s' \<and> same_objects s' st"

lemma serve_ensure:
  fixes st :: "('w, 'x) op_state_scheme"
  assumes inv: "object_inv calls s" and i: "calls i = EnsureObject k mode f" "om_at s i = ObjectStart"
    and free: "unlocked s" and same: "same_objects s st"
    and run: "run_state (serve X path (EnsureObject k mode f)) st = (r, st')"
  shows "\<exists>s'. served calls s i r st' s'"
proof -
  let ?e0 = "object_for (map_option (om_cell s) (om_objects s k)) mode"
  from serve_refresh [OF run] obtain e' where e': "objects st' = (objects st)(k \<mapsto> e')" "oe_mode e' = mode"
    "oe_fetcher e' = Some f" and ends: "refresh_ends mode (object_for (objects st k) mode) e' r" .
  have "clock_free (object_for (objects st k) mode) = clock_free ?e0"
    using same by (intro object_for_clock_free) (simp add: same_objects_def option.map_comp o_def)
  with ends have ends: "refresh_ends mode ?e0 e' r"
    by (simp add: refresh_ends_def clock_free_eq_iff)
  from refresh_begins [OF inv i free] obtain p s1 where s1: "(object_step calls)\<^sup>*\<^sup>* s s1"
    "refreshing s i k (ObjectWriting p) p (?e0\<lparr>oe_fetcher := Some f\<rparr>) s1" .
  from refresh_finishes [of s i k p "?e0\<lparr>oe_fetcher := Some f\<rparr>" s1 calls mode f ?e0 e' r, OF s1(2) i(1) ends] e' obtain s2 x where s2: "(object_step calls)\<^sup>*\<^sup>* s1 s2"
    "refreshing s i k (ObjectLeaving p r) p x s2" and x: "clock_free x = clock_free e'"
    by auto
  let ?s3 = "(object_goes s2 i (ObjectDone r))\<lparr>om_writer := (om_writer s2)(p := None)\<rparr>"
  have "om_at s2 i = ObjectLeaving p r" using s2(2) by (simp add: refreshing_def)
  then have "object_step calls s2 ?s3" by (rule object_step.unlock [of calls i k mode f s2 p r, OF i(1)])
  with s1(1) s2(1) have "(object_step calls)\<^sup>*\<^sup>* s ?s3" by (meson rtranclp.simps rtranclp_trans)
  moreover have "same_objects ?s3 st'"
    unfolding same_objects_def
  proof
    fix k'
    show "map_option clock_free (objects st' k') = map_option (\<lambda>p. clock_free (om_cell ?s3 p)) (om_objects ?s3 k')"
    proof (cases "k' = k")
      case True
      with s2(2) x e'(1) show ?thesis by (simp add: refreshing_def)
    next
      case False
      with s2(2) have "map_option (\<lambda>p. clock_free (om_cell ?s3 p)) (om_objects ?s3 k')
          = map_option (\<lambda>p. clock_free (om_cell s p)) (om_objects s k')"
        by (cases "om_objects s k'") (auto simp: refreshing_def)
      with False e'(1) same show ?thesis by (simp add: same_objects_def)
    qed
  qed
  moreover have "unlocked ?s3" "om_at ?s3 = (om_at s)(i := ObjectDone r)"
    using s2(2) by (auto simp: refreshing_def unlocked_def)
  ultimately show ?thesis unfolding served_def by blast
qed

text \<open>Reading: call \<open>i\<close> is at \<open>a\<close> and holds the entry \<open>p\<close>, which it does not change.\<close>

definition reading :: "object_machine \<Rightarrow> nat \<Rightarrow> object_at \<Rightarrow> nat \<Rightarrow> object_machine \<Rightarrow> bool" where
  "reading s i a p s1 \<longleftrightarrow>
     om_at s1 = (om_at s)(i := a) \<and> om_objects s1 = om_objects s \<and> om_cell s1 = om_cell s
     \<and> om_writer s1 = (\<lambda>_. None) \<and> om_readers s1 = (\<lambda>q. if q = p then {i} else {})"

lemma reading_step:
  assumes "reading s i a p s1" and "om_at s2 = (om_at s1)(i := a')"
    and "om_objects s2 = om_objects s1" "om_cell s2 = om_cell s1" "om_writer s2 = om_writer s1" "om_readers s2 = om_readers s1"
  shows "reading s i a' p s2"
  using assms by (simp add: reading_def)

lemma read_begins:
  assumes i: "calls i = ReadObject k" "om_at s i = ObjectStart" and p: "om_objects s k = Some p" and "unlocked s"
  obtains s1 where "(object_step calls)\<^sup>*\<^sup>* s s1" and "reading s i (ObjectReading p) p s1"
proof -
  let ?s0 = "object_goes s i (ObjectFound p)"
  let ?s1 = "(object_goes ?s0 i (ObjectReading p))\<lparr>om_readers := (om_readers ?s0)(p := insert i (om_readers ?s0 p))\<rparr>"
  have "object_step calls s ?s0"
    using object_step.find [of calls i k s, OF i] p by simp
  moreover have "object_step calls ?s0 ?s1"
    by (rule object_step.read_lock [of calls i k ?s0 p, OF i(1)]) (use assms(4) in \<open>simp_all add: unlocked_def\<close>)
  ultimately have "(object_step calls)\<^sup>*\<^sup>* s ?s1" by (rule two_steps)
  then show thesis
    using assms(4) by (intro that [of ?s1]) (auto simp: reading_def unlocked_def fun_eq_iff)
qed

text \<open>What a read may answer, given the entry on record.\<close>

definition read_answers :: "object_entry \<Rightarrow> call_result \<Rightarrow> bool" where
  "read_answers e r \<longleftrightarrow> (case oe_mode e of
       ObjectModeURL \<Rightarrow> r = (if oe_content e = [] then Failed else ReadOk (oe_content e) (oe_etag e))
     | ObjectModeBucket \<Rightarrow> r = Failed \<or> oe_fetcher e \<noteq> None \<and> (\<exists>body etag. r = ReadOk body etag)
     | ObjectModeOther n \<Rightarrow> r = Failed)"

lemma read_answers_clock_free: "clock_free e = clock_free e' \<Longrightarrow> read_answers e r = read_answers e' r"
  by (auto simp: read_answers_def clock_free_eq_iff split: object_mode.split)

lemma serve_read_answers:
  fixes st :: "('w, 'x) op_state_scheme"
  assumes run: "run_state (serve X path (ReadObject k)) st = (r, st')"
  shows "objects st' = objects st" and "case objects st k of None \<Rightarrow> r = Failed | Some e \<Rightarrow> read_answers e r"
proof -
  obtain q where q: "run_state (read_object X k path) st = (q, st')"
    and r: "r = (case q of Inl e \<Rightarrow> Failed | Inr (body, etag) \<Rightarrow> ReadOk body etag)"
    using run by (cases "run_state (read_object X k path) st") auto
  show "objects st' = objects st"
    using same_more_op [OF frame_run [OF same_more_read_object q]] by simp
  show "case objects st k of None \<Rightarrow> r = Failed | Some e \<Rightarrow> read_answers e r"
  proof (cases "objects st k")
    case None
    with q r show ?thesis by (auto simp: read_object_def)
  next
    case (Some e)
    with q r show ?thesis
      by (cases "oe_mode e"; cases "oe_fetcher e")
        (auto simp: read_object_def read_answers_def split: if_splits sum.splits prod.splits)
  qed
qed

lemma read_finishes:
  assumes at: "reading s i (ObjectReading p) p s1" and i: "calls i = ReadObject k" and answers: "read_answers (om_cell s p) r"
  obtains s2 where "(object_step calls)\<^sup>*\<^sup>* s1 s2" and "reading s i (ObjectLeaving p r) p s2"
proof -
  have pos: "om_at s1 i = ObjectReading p" and cell: "om_cell s1 = om_cell s" using at by (simp_all add: reading_def)
  let ?leaving = "object_goes s1 i (ObjectLeaving p r)"
  have leaving: "reading s i (ObjectLeaving p r) p ?leaving"
    by (rule reading_step [OF at]) simp_all
  show thesis
  proof (cases "oe_mode (om_cell s p)")
    case ObjectModeURL
    then have "oe_mode (om_cell s1 p) = ObjectModeURL" by (simp add: cell)
    let ?body = "oe_content (om_cell s p)"
    from object_step.read_content [of calls i k s1 p, OF i pos \<open>oe_mode (om_cell s1 p) = ObjectModeURL\<close>]
    have step: "object_step calls s1 (object_goes s1 i (if ?body = [] then ObjectLeaving p Failed else ContentRead p ?body))"
      unfolding cell .
    show thesis
    proof (cases "?body = []")
      case True
      with step answers ObjectModeURL leaving show thesis by (intro that [of ?leaving]) (auto simp: read_answers_def)
    next
      case False
      let ?s0 = "object_goes s1 i (ContentRead p ?body)"
      let ?s2 = "object_goes ?s0 i (ObjectLeaving p (ReadOk ?body (oe_etag (om_cell ?s0 p))))"
      have "object_step calls ?s0 ?s2" by (rule object_step.read_etag [of calls i k ?s0 p, OF i]) simp
      with step False have steps: "(object_step calls)\<^sup>*\<^sup>* s1 ?s2" by (auto intro: two_steps)
      have "reading s i (ObjectLeaving p r) p ?s2"
        using answers ObjectModeURL False cell
        by (intro reading_step [OF at]) (simp_all add: read_answers_def fun_eq_iff)
      with steps show thesis by (rule that)
    qed
  next
    case ObjectModeBucket
    with answers consider "r = Failed"
      | body etag where "oe_fetcher (om_cell s p) \<noteq> None" "r = ReadOk body etag" by (auto simp: read_answers_def)
    then show thesis
    proof cases
      case 1
      with object_step.read_failed [of calls i k s1 p, OF i pos] ObjectModeBucket cell leaving show thesis
        by (intro that [of ?leaving]) auto
    next
      case 2
      let ?s2 = "?leaving\<lparr>om_fetched := insert (k, body, etag) (om_fetched s1)\<rparr>"
      have "object_step calls s1 ?s2"
        using object_step.read_bucket [of calls i k s1 p body etag, OF i pos] ObjectModeBucket cell 2 by simp
      moreover have "reading s i (ObjectLeaving p r) p ?s2" by (rule reading_step [OF at]) simp_all
      ultimately show thesis by (intro that [of ?s2]) auto
    qed
  next
    case (ObjectModeOther n)
    with answers object_step.read_failed [of calls i k s1 p, OF i pos] cell leaving show thesis
      by (intro that [of ?leaving]) (auto simp: read_answers_def)
  qed
qed

lemma same_objects_at:
  assumes "same_objects s st"
  shows "om_objects s k = None \<longleftrightarrow> objects st k = None"
    and "om_objects s k = Some p \<Longrightarrow> objects st k = Some e \<Longrightarrow> clock_free (om_cell s p) = clock_free e"
  using assms [unfolded same_objects_def, rule_format, of k] by auto

lemma serve_read:
  fixes st :: "('w, 'x) op_state_scheme"
  assumes i: "calls i = ReadObject k" "om_at s i = ObjectStart"
    and free: "unlocked s" and same: "same_objects s st"
    and run: "run_state (serve X path (ReadObject k)) st = (r, st')"
  shows "\<exists>s'. served calls s i r st' s'"
proof (cases "om_objects s k")
  case None
  with same_objects_at [OF same] serve_read_answers [OF run] have "r = Failed" by simp
  with None serve_read_answers(1) [OF run] object_step.find [of calls i k s, OF i] same free show ?thesis
    by (intro exI [of _ "object_goes s i (ObjectDone r)"]) (auto simp: served_def same_objects_def unlocked_def)
next
  case (Some p)
  with same_objects_at(1) [OF same, of k] obtain e where e: "objects st k = Some e" by auto
  have "read_answers e r" using serve_read_answers(2) [OF run] e by simp
  then have "read_answers (om_cell s p) r"
    by (simp add: read_answers_clock_free [OF same_objects_at(2) [OF same Some e]])
  from read_begins [of calls i k s p, OF i Some free] obtain s1 where s1: "(object_step calls)\<^sup>*\<^sup>* s s1" "reading s i (ObjectReading p) p s1" .
  from read_finishes [of s i p s1 calls k r, OF s1(2) i(1) \<open>read_answers (om_cell s p) r\<close>]
  obtain s2 where s2: "(object_step calls)\<^sup>*\<^sup>* s1 s2" "reading s i (ObjectLeaving p r) p s2" .
  let ?s3 = "(object_goes s2 i (ObjectDone r))\<lparr>om_readers := (om_readers s2)(p := om_readers s2 p - {i})\<rparr>"
  have "om_at s2 i = ObjectLeaving p r" using s2(2) by (simp add: reading_def)
  then have "object_step calls s2 ?s3" by (rule object_step.read_unlock [of calls i k s2 p r, OF i(1)])
  from rtranclp.rtrancl_into_rtrancl [OF rtranclp_trans [OF s1(1) s2(1)] this]
  have "(object_step calls)\<^sup>*\<^sup>* s ?s3" .
  moreover have "same_objects ?s3 st'"
    using s2(2) same serve_read_answers(1) [OF run] by (simp add: same_objects_def reading_def)
  moreover have "unlocked ?s3" "om_at ?s3 = (om_at s)(i := ObjectDone r)"
    using s2(2) by (auto simp: reading_def unlocked_def)
  ultimately show ?thesis unfolding served_def by blast
qed

lemma serve_one:
  fixes st :: "('w, 'x) op_state_scheme"
  assumes inv: "object_inv calls s" and i: "om_at s i = ObjectStart" and free: "unlocked s" and same: "same_objects s st"
    and run: "run_state (serve X path (calls i)) st = (r, st')"
  shows "\<exists>s'. served calls s i r st' s'"
proof (cases "calls i")
  case (EnsureObject k mode f)
  with serve_ensure [of calls s i k mode f st X path r st', OF inv _ i free same] run show ?thesis by simp
next
  case (ReadObject k)
  with serve_read [of calls i k s st X path r st', OF _ i free same] run show ?thesis by simp
next
  case (ForgetObject k)
  with run have "r = Forgotten" "objects st' = (objects st)(k := None)" by (auto simp: forget_object_def)
  with object_step.forget [of calls i k s, OF ForgetObject i] same free show ?thesis
    by (intro exI [of _ "(object_goes s i (ObjectDone r))\<lparr>om_objects := (om_objects s)(k := None)\<rparr>"])
      (auto simp: served_def same_objects_def unlocked_def)
qed

section \<open>Calls one after another\<close>

lemma serve_all_served:
  fixes st :: "('w, 'x) op_state_scheme"
  assumes "(object_step calls)\<^sup>*\<^sup>* object_machine_start s" and "unlocked s" and "same_objects s st"
    and "\<And>j. j < length cs \<Longrightarrow> om_at s (n + j) = ObjectStart \<and> calls (n + j) = cs ! j"
    and "run_state (serve_all X path cs) st = (rs, st')"
  shows "\<exists>s'. (object_step calls)\<^sup>*\<^sup>* object_machine_start s' \<and> same_objects s' st' \<and> length rs = length cs
    \<and> (\<forall>j < length cs. om_at s' (n + j) = ObjectDone (rs ! j)) \<and> (\<forall>i < n. om_at s' i = om_at s i)"
  using assms
proof (induction cs arbitrary: s st n rs)
  case Nil
  then show ?case by auto
next
  case (Cons c cs)
  obtain r st1 where first: "run_state (serve X path c) st = (r, st1)" by fastforce
  obtain rs' where rest: "run_state (serve_all X path cs) st1 = (rs', st')" and rs: "rs = r # rs'"
    using Cons.prems(5) first by (cases "run_state (serve_all X path cs) st1") auto
  have n: "om_at s n = ObjectStart" "calls n = c" using Cons.prems(4) [of 0] by simp_all
  from serve_one [of calls s n st X path r st1, OF object_inv_reachable [OF Cons.prems(1)] n(1) Cons.prems(2,3)] first n(2)
  obtain s1 where s1: "served calls s n r st1 s1" by blast
  then have reached: "(object_step calls)\<^sup>*\<^sup>* object_machine_start s1" and at: "om_at s1 = (om_at s)(n := ObjectDone r)"
    and "unlocked s1" "same_objects s1 st1" using Cons.prems(1) by (auto simp: served_def)
  moreover have "om_at s1 (Suc n + j) = ObjectStart \<and> calls (Suc n + j) = cs ! j" if "j < length cs" for j
    using Cons.prems(4) [of "Suc j"] that at by simp
  ultimately obtain s' where s': "(object_step calls)\<^sup>*\<^sup>* object_machine_start s'" "same_objects s' st'" "length rs' = length cs"
    "\<forall>j < length cs. om_at s' (Suc n + j) = ObjectDone (rs' ! j)" "\<forall>i < Suc n. om_at s' i = om_at s1 i"
    using Cons.IH [of s1 st1 "Suc n" rs'] rest by blast
  have "om_at s' (n + j) = ObjectDone (rs ! j)" if "j < Suc (length cs)" for j
    using s'(4,5) that at by (cases j) (auto simp: rs)
  with s' at show ?case by (intro exI [of _ s']) (auto simp: rs)
qed

section \<open>Property\<close>

text \<open>
C30: What the registry does when its object operations are called one after another is one of the
executions of the concurrent model: with as many calls and the same answers, ending in the same cache
up to the time of the last refresh.
\<close>

theorem serial_calls_are_executions:
  fixes st' :: "('w, 'x) op_state_scheme"
  assumes "run_state (serve_all X path cs) st = (rs, st')" and "objects st = Map.empty"
    and "\<And>i. i < length cs \<Longrightarrow> calls i = cs ! i"
  shows "\<exists>s. (object_step calls)\<^sup>*\<^sup>* object_machine_start s \<and> same_objects s st'
    \<and> length rs = length cs \<and> (\<forall>i < length cs. om_at s i = ObjectDone (rs ! i))"
  using serve_all_served [of calls object_machine_start st cs 0 X path rs st'] assms
  by (auto simp: unlocked_def same_objects_def object_machine_start_def)

theorem serial_calls_are_executions_witness:
  "\<exists>s. (object_step refresh_and_read)\<^sup>*\<^sup>* object_machine_start s
    \<and> om_at s 0 = ObjectDone (RefreshOk ''v1'') \<and> om_at s 1 = ObjectDone (ReadOk ''body'' ''v1'')"
proof -
  let ?X = "mem_remote [(''u'', ''body'', ''v1'')] []" and ?st = "new_registry remote_start"
  let ?cs = "[refresh_and_read 0, refresh_and_read 1]"
  have "fst (run_state (serve_all ?X [] ?cs) ?st) = [RefreshOk ''v1'', ReadOk ''body'' ''v1'']"
    by code_simp
  then obtain st' where run: "run_state (serve_all ?X [] ?cs) ?st = ([RefreshOk ''v1'', ReadOk ''body'' ''v1''], st')"
    by (metis prod.collapse)
  have "objects ?st = Map.empty" by (simp add: new_registry_def op_state.defs os_state.defs)
  moreover have "refresh_and_read i = ?cs ! i" if "i < length ?cs" for i
    using that by (cases i) auto
  ultimately obtain s where "(object_step refresh_and_read)\<^sup>*\<^sup>* object_machine_start s"
    and at: "\<forall>i < length ?cs. om_at s i = ObjectDone ([RefreshOk ''v1'', ReadOk ''body'' ''v1''] ! i)"
    using serial_calls_are_executions [OF run] by metis
  with at [rule_format, of 0] at [rule_format, of 1] show ?thesis by auto
qed

end
