(* ===== verification/GoMemory.thy ===== *)
theory GoMemory
  imports ApiTypes "HOL-Library.Sublist"
begin

text \<open>
  Go values with pointers: a memory of cells, and what it means that a copy of a structure shares
  nothing with the original. The generated \<open>DeepCopy\<close> functions of \<open>api/v1alpha1\<close> and
  \<open>api/v1alpha2\<close> (\<open>DeepCopy1\<close>, \<open>DeepCopy2\<close>) are built from the copying schemes below. All other
  theories treat objects as values; this is justified by the deep copies being copies.

  A memory is the list of its cells, an address an index; \<open>new\<close> appends a cell. \<open>'c\<close> is the sum of
  the Go types that can be pointed to, \<open>wrap\<close> and \<open>unwrap\<close> put a type into it and out of it.
\<close>

section \<open>Memory\<close>

type_synonym ('c, 'a) mem_prog = "('c list, 'a) state"

definition peek :: "'c list \<Rightarrow> nat \<Rightarrow> 'c option" where
  "peek M a = (if a < length M then Some (M ! a) else None)"

definition alloc :: "'c \<Rightarrow> ('c, nat) mem_prog" where
  "alloc c = State (\<lambda>M. (length M, M @ [c]))"

definition store :: "nat \<Rightarrow> 'c \<Rightarrow> ('c, unit) mem_prog" where
  "store a c = modify (\<lambda>M. M[a := c])"

definition deref :: "('c \<Rightarrow> 'm option) \<Rightarrow> 'c list \<Rightarrow> nat \<Rightarrow> 'm option" where
  "deref unwrap M a = Option.bind (peek M a) unwrap"

lemma run_alloc [simp]: "run_state (alloc c) M = (length M, M @ [c])"
  by (simp add: alloc_def)

lemma run_store [simp]: "run_state (store a c) M = ((), M[a := c])"
  by (simp add: store_def)

text \<open>A slice: \<open>nil\<close>, or an offset and a length in an array, which is one cell.\<close>

datatype slice = NilSlice | Slice nat nat nat

section \<open>Copying schemes\<close>

text \<open>
  \<open>*out = new(T); (*in).DeepCopyInto(*out)\<close> unless \<open>in\<close> is nil; also the body of every \<open>DeepCopy\<close>. Each
  \<open>DeepCopyInto\<close> starts with \<open>*out = *in\<close>, so the new cell first holds what \<open>in\<close> points to; \<open>into\<close> makes
  the value that \<open>DeepCopyInto\<close> leaves in it.
\<close>

definition new_copy ::
  "('m \<Rightarrow> 'c) \<Rightarrow> ('c \<Rightarrow> 'm option) \<Rightarrow> ('m \<Rightarrow> ('c, 'm) mem_prog) \<Rightarrow> nat option \<Rightarrow> ('c, nat option) mem_prog" where
  "new_copy wrap unwrap into p = (case p of
       None \<Rightarrow> State_Monad.return None
     | Some a \<Rightarrow> do {
         x \<leftarrow> gets (\<lambda>M. deref unwrap M a);
         case x of
           None \<Rightarrow> State_Monad.return None  \<comment> \<open>no such cell: not in Go\<close>
         | Some v \<Rightarrow> do {
             b \<leftarrow> alloc (wrap v);
             w \<leftarrow> into v;
             store b (wrap w);
             State_Monad.return (Some b)
           }
       })"

definition elements :: "('c \<Rightarrow> 'm list option) \<Rightarrow> 'c list \<Rightarrow> nat \<Rightarrow> nat \<Rightarrow> nat \<Rightarrow> 'm list option" where
  "elements unwrap M a off n =
     (case deref unwrap M a of
        None \<Rightarrow> None
      | Some xs \<Rightarrow> if off + n \<le> length xs then Some (take n (drop off xs)) else None)"

text \<open>\<open>for i := range *in { (*in)[i].DeepCopyInto(&(*out)[i]) }\<close>, from \<open>i\<close> on.\<close>

fun copy_elements ::
  "('m list \<Rightarrow> 'c) \<Rightarrow> ('c \<Rightarrow> 'm list option) \<Rightarrow> ('m \<Rightarrow> ('c, 'm) mem_prog) \<Rightarrow> nat \<Rightarrow> nat \<Rightarrow> 'm list \<Rightarrow> ('c, unit) mem_prog" where
  "copy_elements wrap unwrap into b i [] = State_Monad.return ()"
| "copy_elements wrap unwrap into b i (x # xs) = do {
     y \<leftarrow> into x;
     out \<leftarrow> gets (\<lambda>M. deref unwrap M b);
     store b (wrap (case out of None \<Rightarrow> [] | Some ys \<Rightarrow> ys[i := y]));
     copy_elements wrap unwrap into b (Suc i) xs
   }"

definition copy_slice ::
  "('m list \<Rightarrow> 'c) \<Rightarrow> ('c \<Rightarrow> 'm list option) \<Rightarrow> ('m \<Rightarrow> ('c, 'm) mem_prog) \<Rightarrow> slice \<Rightarrow> ('c, slice) mem_prog" where
  "copy_slice wrap unwrap into s = (case s of
       NilSlice \<Rightarrow> State_Monad.return NilSlice
     | Slice a off n \<Rightarrow> do {
         found \<leftarrow> gets (\<lambda>M. elements unwrap M a off n);
         case found of
           None \<Rightarrow> State_Monad.return NilSlice  \<comment> \<open>no such array: not in Go\<close>
         | Some xs \<Rightarrow> do {
             b \<leftarrow> alloc (wrap xs);
             copy_elements wrap unwrap into b 0 xs;
             State_Monad.return (Slice b 0 n)
           }
       })"

text \<open>\<open>*out = make([]T, len(*in)); copy(*out, *in)\<close>\<close>

definition copy_values :: "('m list \<Rightarrow> 'c) \<Rightarrow> ('c \<Rightarrow> 'm list option) \<Rightarrow> slice \<Rightarrow> ('c, slice) mem_prog" where
  "copy_values wrap unwrap s = (case s of
       NilSlice \<Rightarrow> State_Monad.return NilSlice
     | Slice a off n \<Rightarrow> do {
         found \<leftarrow> gets (\<lambda>M. elements unwrap M a off n);
         case found of
           None \<Rightarrow> State_Monad.return NilSlice
         | Some xs \<Rightarrow> do {
             b \<leftarrow> alloc (wrap xs);
             State_Monad.return (Slice b 0 n)
           }
       })"

section \<open>What a structure in memory stands for\<close>

text \<open>
  \<open>means M x = Some v\<close>: with memory \<open>M\<close> the structure \<open>x\<close> stands for the value \<open>v\<close>; \<open>None\<close> if a pointer
  in it points to no cell of its type. \<open>cells M x\<close> are the addresses that this depends on.
\<close>

definition ptr_means :: "('c \<Rightarrow> 'm option) \<Rightarrow> ('c list \<Rightarrow> 'm \<Rightarrow> 'v option) \<Rightarrow> 'c list \<Rightarrow> nat option \<Rightarrow> 'v option option" where
  "ptr_means unwrap means M p = (case p of
       None \<Rightarrow> Some None
     | Some a \<Rightarrow> map_option Some (Option.bind (deref unwrap M a) (means M)))"

definition ptr_cells :: "('c \<Rightarrow> 'm option) \<Rightarrow> ('c list \<Rightarrow> 'm \<Rightarrow> nat set) \<Rightarrow> 'c list \<Rightarrow> nat option \<Rightarrow> nat set" where
  "ptr_cells unwrap cells M p = (case p of
       None \<Rightarrow> {}
     | Some a \<Rightarrow> insert a (case deref unwrap M a of None \<Rightarrow> {} | Some x \<Rightarrow> cells M x))"

definition slice_means ::
  "('c \<Rightarrow> 'm list option) \<Rightarrow> ('c list \<Rightarrow> 'm \<Rightarrow> 'v option) \<Rightarrow> 'c list \<Rightarrow> slice \<Rightarrow> 'v list option option" where
  "slice_means unwrap means M s = (case s of
       NilSlice \<Rightarrow> Some None
     | Slice a off n \<Rightarrow> map_option Some (Option.bind (elements unwrap M a off n) (\<lambda>xs. those (map (means M) xs))))"

definition slice_cells ::
  "('c \<Rightarrow> 'm list option) \<Rightarrow> ('c list \<Rightarrow> 'm \<Rightarrow> nat set) \<Rightarrow> 'c list \<Rightarrow> slice \<Rightarrow> nat set" where
  "slice_cells unwrap cells M s = (case s of
       NilSlice \<Rightarrow> {}
     | Slice a off n \<Rightarrow> insert a (case elements unwrap M a off n of None \<Rightarrow> {} | Some xs \<Rightarrow> \<Union>(cells M ` set xs)))"

section \<open>Deep copies\<close>

locale deep_copy =
  fixes copy :: "'m \<Rightarrow> ('c, 'm) mem_prog" and means :: "'c list \<Rightarrow> 'm \<Rightarrow> 'v option" and cells :: "'c list \<Rightarrow> 'm \<Rightarrow> nat set"
  assumes present: "means M x = Some v \<Longrightarrow> a \<in> cells M x \<Longrightarrow> a < length M"
    and local: "means M x = Some v \<Longrightarrow> (\<And>a. a \<in> cells M x \<Longrightarrow> peek N a = peek M a)
      \<Longrightarrow> means N x = Some v \<and> cells N x = cells M x"
    and copied: "means M x = Some v \<Longrightarrow> run_state (copy x) M = (y, N)
      \<Longrightarrow> prefix M N \<and> means N y = Some v \<and> cells N y \<subseteq> {length M..<length N}"
begin

lemma still_means:
  assumes "means M x = Some v" and "prefix M N"
  shows "means N x = Some v" and "cells N x = cells M x"
proof -
  have "peek N a = peek M a" if "a \<in> cells M x" for a
    using assms(2) present [OF assms(1) that] by (auto simp: peek_def prefix_def nth_append)
  from local [OF assms(1) this] show "means N x = Some v" "cells N x = cells M x" by blast+
qed

text \<open>Writing to the cells of the one never changes what the other stands for.\<close>

lemma apart:
  assumes "means M x = Some v" and "run_state (copy x) M = (y, N)"
  shows "(\<And>a. length M \<le> a \<Longrightarrow> a < length N \<Longrightarrow> peek N' a = peek N a) \<Longrightarrow> means N' y = Some v"
    and "(\<And>a. a < length M \<Longrightarrow> peek N' a = peek M a) \<Longrightarrow> means N' x = Some v"
proof -
  from copied [OF assms] have y: "means N y = Some v" "cells N y \<subseteq> {length M..<length N}" by blast+
  show "means N' y = Some v" if "\<And>a. length M \<le> a \<Longrightarrow> a < length N \<Longrightarrow> peek N' a = peek N a"
    using local [OF y(1), of N'] y(2) that by fastforce
  show "means N' x = Some v" if "\<And>a. a < length M \<Longrightarrow> peek N' a = peek M a"
    using local [OF assms(1), of N'] present [OF assms(1)] that by blast
qed

end

text \<open>
  The contract of a deep copy, without reference to the cells: the copy stands for the same value,
  whatever is written to memory that existed before leaves the copy as it is, and whatever is written
  to memory that the copy allocated leaves the original as it is.
\<close>

definition isolated_copy :: "('m \<Rightarrow> ('c, 'm) mem_prog) \<Rightarrow> ('c list \<Rightarrow> 'm \<Rightarrow> 'v option) \<Rightarrow> bool" where
  "isolated_copy copy means \<longleftrightarrow>
     (\<forall>M x v y N. means M x = Some v \<and> run_state (copy x) M = (y, N) \<longrightarrow>
        prefix M N \<and> means N y = Some v
        \<and> (\<forall>N'. (\<forall>a. length M \<le> a \<and> a < length N \<longrightarrow> peek N' a = peek N a) \<longrightarrow> means N' y = Some v)
        \<and> (\<forall>N'. (\<forall>a < length M. peek N' a = peek M a) \<longrightarrow> means N' x = Some v))"

lemma deep_copy_isolated: "deep_copy copy means cells \<Longrightarrow> isolated_copy copy means"
  unfolding isolated_copy_def
proof (intro allI impI conjI; elim conjE)
  assume deep: "deep_copy copy means cells"
  fix M x v y N assume x: "means M x = Some v" "run_state (copy x) M = (y, N)"
  from deep_copy.copied [OF deep x] show "prefix M N" "means N y = Some v" by blast+
  show "means N' y = Some v" if "\<forall>a. length M \<le> a \<and> a < length N \<longrightarrow> peek N' a = peek N a" for N'
    by (rule deep_copy.apart(1) [OF deep x]) (use that in blast)
  show "means N' x = Some v" if "\<forall>a < length M. peek N' a = peek M a" for N'
    by (rule deep_copy.apart(2) [OF deep x]) (use that in blast)
qed

lemma isolated_overwrite:
  assumes "isolated_copy copy means" and "means M x = Some v" and "run_state (copy x) M = (y, N)" and "a < length M"
  shows "means (N[a := c]) y = Some v"
proof -
  have "peek (N[a := c]) b = peek N b" if "length M \<le> b" for b
    using that assms(4) by (simp add: peek_def)
  with assms(1-3) show ?thesis unfolding isolated_copy_def by blast
qed

section \<open>The schemes copy deeply\<close>

lemma peek_prefix: "prefix M N \<Longrightarrow> a < length M \<Longrightarrow> peek N a = peek M a"
  by (auto simp: peek_def prefix_def nth_append)

lemma deref_peek: "peek N a = peek M a \<Longrightarrow> deref unwrap N a = deref unwrap M a"
  by (simp add: deref_def)

lemma deref_SomeD: "deref unwrap M a = Some x \<Longrightarrow> a < length M"
  by (auto simp: deref_def peek_def split: if_splits)

lemma elements_peek: "peek N a = peek M a \<Longrightarrow> elements unwrap N a off n = elements unwrap M a off n"
  by (simp only: elements_def deref_peek [of N a M])

lemma elements_SomeD: "elements unwrap M a off n = Some xs \<Longrightarrow> a < length M"
  by (auto simp: elements_def split: option.splits dest: deref_SomeD)

lemma those_Some_iff: "those (map f xs) = Some vs \<longleftrightarrow> list_all2 (\<lambda>x v. f x = Some v) xs vs"
proof (induction xs arbitrary: vs)
  case (Cons x xs)
  show ?case
  proof (cases "f x")
    case (Some v)
    with Cons.IH show ?thesis by (cases vs) (auto simp: map_option_eq_Some)
  qed (simp add: list_all2_Cons1)
qed (simp add: eq_commute)

lemma list_all2_leftD: "list_all2 P xs ys \<Longrightarrow> x \<in> set xs \<Longrightarrow> \<exists>y. P x y"
  by (induction rule: list_all2_induct) auto

text \<open>Structures without pointers.\<close>

lemma deep_copy_value:
  fixes f :: "'m \<Rightarrow> 'v"
  shows "deep_copy (State_Monad.return :: 'm \<Rightarrow> ('c, 'm) mem_prog) (\<lambda>M x. Some (f x)) (\<lambda>M x. {})"
proof
  fix M N :: "'c list" and x y :: 'm and v
  assume "Some (f x) = Some v" and "run_state (State_Monad.return x) M = (y, N)"
  then have "y = x" "N = M" "f x = v" by simp_all
  then show "prefix M N \<and> Some (f y) = Some v \<and> {} \<subseteq> {length M..<length N}" by simp
qed simp_all

text \<open>A structure in which one part is copied, the rest is as in the original.\<close>

lemma deep_copy_part:
  assumes deep: "deep_copy copy means cells" and put: "\<And>x y. get (put y x) = y" "\<And>x y v. build (put y x) v = build x v"
  shows "deep_copy (\<lambda>x. do { y \<leftarrow> copy (get x); State_Monad.return (put y x) })
    (\<lambda>M x. map_option (build x) (means M (get x))) (\<lambda>M x. cells M (get x))"
proof
  fix M x v a assume "map_option (build x) (means M (get x)) = Some v" "a \<in> cells M (get x)"
  then show "a < length M" using deep_copy.present [OF deep] by blast
next
  fix M N x v assume v: "map_option (build x) (means M (get x)) = Some v"
    and same: "\<And>a. a \<in> cells M (get x) \<Longrightarrow> peek N a = peek M a"
  from v obtain w where "means M (get x) = Some w" "v = build x w" by auto
  with deep_copy.local [OF deep this(1) same]
  show "map_option (build x) (means N (get x)) = Some v \<and> cells N (get x) = cells M (get x)" by simp
next
  fix M x v y N assume "map_option (build x) (means M (get x)) = Some v"
    and run: "run_state (do { y \<leftarrow> copy (get x); State_Monad.return (put y x) }) M = (y, N)"
  then obtain w z where "means M (get x) = Some w" "v = build x w" "run_state (copy (get x)) M = (z, N)" "y = put z x"
    by (auto split: prod.splits)
  with deep_copy.copied [OF deep this(1,3)] put
  show "prefix M N \<and> map_option (build y) (means N (get y)) = Some v \<and> cells N (get y) \<subseteq> {length M..<length N}"
    by simp
qed

text \<open>Two parts, one after the other.\<close>

definition copy_both :: "('m \<Rightarrow> ('c, 'm) mem_prog) \<Rightarrow> ('n \<Rightarrow> ('c, 'n) mem_prog) \<Rightarrow> 'm \<times> 'n \<Rightarrow> ('c, 'm \<times> 'n) mem_prog" where
  "copy_both copy1 copy2 p = do {
     x \<leftarrow> copy1 (fst p);
     y \<leftarrow> copy2 (snd p);
     State_Monad.return (x, y)
   }"

definition both_mean :: "('c list \<Rightarrow> 'm \<Rightarrow> 'v option) \<Rightarrow> ('c list \<Rightarrow> 'n \<Rightarrow> 'w option) \<Rightarrow> 'c list \<Rightarrow> 'm \<times> 'n \<Rightarrow> ('v \<times> 'w) option" where
  "both_mean means1 means2 M p =
     Option.bind (means1 M (fst p)) (\<lambda>v. map_option (Pair v) (means2 M (snd p)))"

lemma both_mean_Some_iff:
  "both_mean means1 means2 M p = Some vw \<longleftrightarrow> means1 M (fst p) = Some (fst vw) \<and> means2 M (snd p) = Some (snd vw)"
  by (cases vw) (auto simp: both_mean_def bind_eq_Some_conv)

lemma deep_copy_both:
  assumes deep1: "deep_copy copy1 means1 cells1" and deep2: "deep_copy copy2 means2 cells2"
  shows "deep_copy (copy_both copy1 copy2) (both_mean means1 means2) (\<lambda>M p. cells1 M (fst p) \<union> cells2 M (snd p))"
proof
  fix M p v a assume "both_mean means1 means2 M p = Some v" "a \<in> cells1 M (fst p) \<union> cells2 M (snd p)"
  then show "a < length M"
    using deep_copy.present [OF deep1] deep_copy.present [OF deep2] by (auto simp: both_mean_Some_iff)
next
  fix M N p v assume v: "both_mean means1 means2 M p = Some v"
    and same: "\<And>a. a \<in> cells1 M (fst p) \<union> cells2 M (snd p) \<Longrightarrow> peek N a = peek M a"
  with deep_copy.local [OF deep1, of M "fst p" _ N] deep_copy.local [OF deep2, of M "snd p" _ N]
  show "both_mean means1 means2 N p = Some v
      \<and> cells1 N (fst p) \<union> cells2 N (snd p) = cells1 M (fst p) \<union> cells2 M (snd p)"
    by (simp add: both_mean_Some_iff)
next
  fix M p v q N assume v: "both_mean means1 means2 M p = Some v" and run: "run_state (copy_both copy1 copy2 p) M = (q, N)"
  from v have v1: "means1 M (fst p) = Some (fst v)" and v2: "means2 M (snd p) = Some (snd v)"
    by (simp_all add: both_mean_Some_iff)
  from run obtain x y M1 where x: "run_state (copy1 (fst p)) M = (x, M1)" and y: "run_state (copy2 (snd p)) M1 = (y, N)"
    and q: "q = (x, y)" by (auto simp: copy_both_def split: prod.splits)
  note x' = deep_copy.copied [OF deep1 v1 x]
  note y' = deep_copy.copied [OF deep2 deep_copy.still_means(1) [OF deep2 v2] y]
  from x' y' have "prefix M N" by (meson prefix_order.trans)
  moreover from x' y' have "means1 N x = Some (fst v)" "cells1 N x = cells1 M1 x"
    using deep_copy.still_means [OF deep1, of M1 x "fst v" N] by blast+
  moreover have "length M \<le> length M1" "length M1 \<le> length N"
    using x' y' by (auto dest: prefix_length_le)
  ultimately show "prefix M N \<and> both_mean means1 means2 N q = Some v
      \<and> cells1 N (fst q) \<union> cells2 N (snd q) \<subseteq> {length M..<length N}"
    using x' y' by (fastforce simp: q both_mean_Some_iff)
qed

text \<open>A pointer to a structure.\<close>

lemma ptr_means_Some_iff:
  "ptr_means unwrap means M p = Some v \<longleftrightarrow>
     (p = None \<and> v = None) \<or> (\<exists>a x w. p = Some a \<and> deref unwrap M a = Some x \<and> means M x = Some w \<and> v = Some w)"
  by (cases p) (auto simp: ptr_means_def bind_eq_Some_conv)

lemma deep_copy_pointer:
  assumes deep: "deep_copy copy means cells" and unwrap: "\<And>x. unwrap (wrap x) = Some x"
  shows "deep_copy (new_copy wrap unwrap copy) (ptr_means unwrap means) (ptr_cells unwrap cells)"
proof
  fix M p v a assume "ptr_means unwrap means M p = Some v" "a \<in> ptr_cells unwrap cells M p"
  then show "a < length M"
    using deep_copy.present [OF deep] by (auto simp: ptr_means_Some_iff ptr_cells_def dest: deref_SomeD)
next
  fix M N p v assume v: "ptr_means unwrap means M p = Some v"
    and same: "\<And>a. a \<in> ptr_cells unwrap cells M p \<Longrightarrow> peek N a = peek M a"
  show "ptr_means unwrap means N p = Some v \<and> ptr_cells unwrap cells N p = ptr_cells unwrap cells M p"
  proof (cases p)
    case None
    with v show ?thesis by (simp add: ptr_means_def ptr_cells_def)
  next
    case (Some a)
    with v obtain x w where x: "deref unwrap M a = Some x" "means M x = Some w" "v = Some w"
      by (auto simp: ptr_means_Some_iff)
    have a: "ptr_cells unwrap cells M p = insert a (cells M x)" using Some x(1) by (simp add: ptr_cells_def)
    have "deref unwrap N a = Some x" using deref_peek [OF same, of a unwrap] a x(1) by simp
    moreover have "means N x = Some w \<and> cells N x = cells M x"
      by (rule deep_copy.local [OF deep x(2)]) (use same a in blast)
    ultimately show ?thesis using Some x by (simp add: ptr_means_def ptr_cells_def)
  qed
next
  fix M p v q N assume v: "ptr_means unwrap means M p = Some v" and run: "run_state (new_copy wrap unwrap copy p) M = (q, N)"
  show "prefix M N \<and> ptr_means unwrap means N q = Some v \<and> ptr_cells unwrap cells N q \<subseteq> {length M..<length N}"
  proof (cases p)
    case None
    with v run show ?thesis by (auto simp: new_copy_def ptr_means_def ptr_cells_def)
  next
    case (Some a)
    with v obtain x w where x: "deref unwrap M a = Some x" "means M x = Some w" "v = Some w"
      by (auto simp: ptr_means_Some_iff)
    obtain y N1 where y: "run_state (copy x) (M @ [wrap x]) = (y, N1)" by fastforce
    with run Some x have q: "q = Some (length M)" "N = N1[length M := wrap y]"
      by (auto simp: new_copy_def)
    note y' = deep_copy.copied [OF deep deep_copy.still_means(1) [OF deep x(2)] y]
    then obtain zs where zs: "N1 = M @ wrap x # zs" by (auto simp: prefix_def)
    then have len: "length M < length N1" and "prefix M N" by (simp_all add: q)
    moreover have cell: "deref unwrap N (length M) = Some y"
      using len by (simp add: q deref_def peek_def unwrap)
    moreover have "peek N b = peek N1 b" if "b \<in> cells N1 y" for b
      using that y' by (auto simp: q peek_def)
    with deep_copy.local [OF deep, of N1 y w N] y' have "means N y = Some w" "cells N y = cells N1 y" by auto
    ultimately show ?thesis
      using y' len by (auto simp: q x ptr_means_def ptr_cells_def)
  qed
qed

text \<open>A slice of structures: the loop keeps what it has copied, and writes to no cell but the new array.\<close>

lemma copy_elements_copies:
  assumes deep: "deep_copy copy means cells" and unwrap: "\<And>xs. unwrap (wrap xs) = Some xs"
    and "prefix M N" and "deref unwrap N (length M) = Some (ys @ xs)"
    and "\<And>y. y \<in> set ys \<Longrightarrow> cells N y \<subseteq> {Suc (length M)..<length N}"
    and "list_all2 (\<lambda>y v. means N y = Some v) ys vs" and "list_all2 (\<lambda>x v. means M x = Some v) xs ws"
    and "run_state (copy_elements wrap unwrap copy (length M) (length ys) xs) N = (u, N')"
  shows "\<exists>zs. prefix M N' \<and> deref unwrap N' (length M) = Some zs \<and> length zs = length ys + length xs
    \<and> (\<forall>z \<in> set zs. cells N' z \<subseteq> {Suc (length M)..<length N'}) \<and> list_all2 (\<lambda>y v. means N' y = Some v) zs (vs @ ws)"
  using assms(3-)
proof (induction xs arbitrary: N ys vs ws)
  case Nil
  then show ?case by (intro exI [of _ ys]) auto
next
  case (Cons x xs)
  from Cons.prems(5) obtain w ws' where ws: "ws = w # ws'" "means M x = Some w" "list_all2 (\<lambda>x v. means M x = Some v) xs ws'"
    by (auto simp: list_all2_Cons1)
  obtain y N1 where y: "run_state (copy x) N = (y, N1)" by fastforce
  note y' = deep_copy.copied [OF deep deep_copy.still_means(1) [OF deep ws(2) Cons.prems(1)] y]
  have b: "length M < length N" using Cons.prems(2) by (rule deref_SomeD)
  from y' have N1: "prefix N N1" "length N \<le> length N1" by (auto dest: prefix_length_le)
  have cell: "deref unwrap N1 (length M) = Some (ys @ x # xs)"
    using Cons.prems(2) deref_peek [OF peek_prefix [OF N1(1) b], of unwrap] by simp
  define N2 where "N2 = N1[length M := wrap (ys @ y # xs)]"
  have other: "peek N2 a = peek N1 a" if "a \<noteq> length M" for a
    using that by (auto simp: N2_def peek_def)
  have keep: "means N2 z = Some v \<and> cells N2 z = cells N1 z"
    if "means N1 z = Some v" "cells N1 z \<subseteq> {Suc (length M)..<length N1}" for z v
    by (rule deep_copy.local [OF deep that(1)]) (use that(2) other in fastforce)
  have step: "run_state (copy_elements wrap unwrap copy (length M) (length (ys @ [y])) xs) N2 = (u, N')"
    using Cons.prems(6) y cell by (simp add: N2_def)
  have new: "means N1 y = Some w" "cells N1 y \<subseteq> {Suc (length M)..<length N1}"
    using y' b by auto
  have old: "means N1 z = Some v \<and> cells N1 z = cells N z" if "means N z = Some v" for z v
    using deep_copy.still_means [OF deep that N1(1)] by blast
  have kept: "means N2 z = Some v \<and> cells N2 z \<subseteq> {Suc (length M)..<length N2}"
    if z: "z \<in> set ys" "means N z = Some v" for z v
  proof -
    have "cells N1 z \<subseteq> {Suc (length M)..<length N1}"
      using old [OF z(2)] Cons.prems(3) [OF z(1)] N1(2) by fastforce
    with keep [of z v] old [OF z(2)] show ?thesis by (simp add: N2_def)
  qed
  have "prefix M N2"
    using Cons.prems(1) N1(1) b by (auto simp: N2_def prefix_def list_update_append)
  moreover have "deref unwrap N2 (length M) = Some ((ys @ [y]) @ xs)"
    using b N1(2) by (simp add: N2_def deref_def peek_def unwrap)
  moreover have "list_all2 (\<lambda>y v. means N2 y = Some v) (ys @ [y]) (vs @ [w])"
  proof (rule list_all2_appendI)
    show "list_all2 (\<lambda>y v. means N2 y = Some v) ys vs"
      by (rule list.rel_mono_strong [OF Cons.prems(4)]) (use kept in blast)
    show "list_all2 (\<lambda>y v. means N2 y = Some v) [y] [w]" using keep [OF new] by simp
  qed
  moreover have "cells N2 z \<subseteq> {Suc (length M)..<length N2}" if "z \<in> set (ys @ [y])" for z
  proof (cases "z \<in> set ys")
    case True
    with list_all2_leftD [OF Cons.prems(4)] obtain v where "means N z = Some v" by blast
    with kept True show ?thesis by blast
  next
    case False
    with that keep [OF new] new(2) show ?thesis by (simp add: N2_def)
  qed
  ultimately obtain zs where zs: "prefix M N'" "deref unwrap N' (length M) = Some zs"
    "length zs = length (ys @ [y]) + length xs" "\<forall>z \<in> set zs. cells N' z \<subseteq> {Suc (length M)..<length N'}"
    "list_all2 (\<lambda>y v. means N' y = Some v) zs ((vs @ [w]) @ ws')"
    using Cons.IH [of N2 "ys @ [y]" "vs @ [w]" ws'] step ws(3) by blast
  then show ?case by (intro exI [of _ zs]) (simp add: ws(1))
qed

lemma slice_means_Some_iff:
  "slice_means unwrap means M s = Some v \<longleftrightarrow> (s = NilSlice \<and> v = None)
     \<or> (\<exists>a off n xs vs. s = Slice a off n \<and> elements unwrap M a off n = Some xs
          \<and> list_all2 (\<lambda>x v. means M x = Some v) xs vs \<and> v = Some vs)"
  by (cases s) (auto simp: slice_means_def bind_eq_Some_conv those_Some_iff)

lemma elements_length: "elements unwrap M a off n = Some xs \<Longrightarrow> length xs = n"
  by (auto simp: elements_def split: option.splits if_splits)

lemma elements_whole: "deref unwrap M a = Some xs \<Longrightarrow> elements unwrap M a 0 (length xs) = Some xs"
  by (simp add: elements_def)

text \<open>What a slice stands for depends only on its array and the cells of its elements.\<close>

lemma slice_local:
  assumes deep: "deep_copy copy means cells" and v: "slice_means unwrap means M s = Some v"
    and same: "\<And>a. a \<in> slice_cells unwrap cells M s \<Longrightarrow> peek N a = peek M a"
  shows "slice_means unwrap means N s = Some v \<and> slice_cells unwrap cells N s = slice_cells unwrap cells M s"
proof (cases s)
  case NilSlice
  with v show ?thesis by (simp add: slice_means_def slice_cells_def)
next
  case (Slice a off n)
  with v obtain xs vs where xs: "elements unwrap M a off n = Some xs" "list_all2 (\<lambda>x v. means M x = Some v) xs vs" "v = Some vs"
    by (auto simp: slice_means_Some_iff)
  have cells: "slice_cells unwrap cells M s = insert a (\<Union>(cells M ` set xs))" using Slice xs(1) by (simp add: slice_cells_def)
  have elems: "elements unwrap N a off n = Some xs" using elements_peek [OF same, of a unwrap off n] cells xs(1) by simp
  have each: "means N x = Some w \<and> cells N x = cells M x" if "x \<in> set xs" "means M x = Some w" for x w
    by (rule deep_copy.local [OF deep that(2)]) (use same cells that(1) in blast)
  have "list_all2 (\<lambda>x v. means N x = Some v) xs vs"
    by (rule list.rel_mono_strong [OF xs(2)]) (use each in blast)
  moreover have "cells N x = cells M x" if "x \<in> set xs" for x
    using each [OF that] list_all2_leftD [OF xs(2) that] by blast
  then have "\<Union>(cells N ` set xs) = \<Union>(cells M ` set xs)" by simp
  ultimately show ?thesis
    using Slice elems xs(3) cells by (simp add: slice_means_Some_iff slice_cells_def)
qed

lemma slice_present:
  assumes deep: "deep_copy copy means cells" and "slice_means unwrap means M s = Some v" and "a \<in> slice_cells unwrap cells M s"
  shows "a < length M"
proof -
  from assms(2,3) obtain b off n xs vs where xs: "elements unwrap M b off n = Some xs" "a \<in> insert b (\<Union>(cells M ` set xs))"
    "list_all2 (\<lambda>x v. means M x = Some v) xs vs"
    by (auto simp: slice_means_Some_iff slice_cells_def)
  from xs(2) show ?thesis
  proof
    assume "a = b"
    with elements_SomeD [OF xs(1)] show ?thesis by simp
  next
    assume "a \<in> \<Union>(cells M ` set xs)"
    then obtain x where x: "x \<in> set xs" "a \<in> cells M x" by blast
    from list_all2_leftD [OF xs(3) x(1)] obtain w where "means M x = Some w" by blast
    from deep_copy.present [OF deep this x(2)] show ?thesis .
  qed
qed

lemma deep_copy_slice:
  assumes deep: "deep_copy copy means cells" and unwrap: "\<And>xs. unwrap (wrap xs) = Some xs"
  shows "deep_copy (copy_slice wrap unwrap copy) (slice_means unwrap means) (slice_cells unwrap cells)"
proof
  fix M s v t N assume v: "slice_means unwrap means M s = Some v" and run: "run_state (copy_slice wrap unwrap copy s) M = (t, N)"
  show "prefix M N \<and> slice_means unwrap means N t = Some v \<and> slice_cells unwrap cells N t \<subseteq> {length M..<length N}"
  proof (cases s)
    case NilSlice
    with v run show ?thesis by (auto simp: copy_slice_def slice_means_def slice_cells_def)
  next
    case (Slice a off n)
    with v obtain xs vs where xs: "elements unwrap M a off n = Some xs" "list_all2 (\<lambda>x v. means M x = Some v) xs vs" "v = Some vs"
      by (auto simp: slice_means_Some_iff)
    obtain u where loop: "run_state (copy_elements wrap unwrap copy (length M) 0 xs) (M @ [wrap xs]) = (u, N)"
      and t: "t = Slice (length M) 0 n"
      using run Slice xs(1) by (auto simp: copy_slice_def split: prod.splits)
    have "deref unwrap (M @ [wrap xs]) (length M) = Some xs" by (simp add: deref_def peek_def unwrap)
    with copy_elements_copies [OF deep unwrap, where M = M and ys = "[]" and vs = "[]" and ws = vs and N = "M @ [wrap xs]" and xs = xs and N' = N and u = u]
      xs(2) loop obtain zs where zs: "prefix M N" "deref unwrap N (length M) = Some zs" "length zs = length xs"
        "\<forall>z \<in> set zs. cells N z \<subseteq> {Suc (length M)..<length N}" "list_all2 (\<lambda>y v. means N y = Some v) zs vs"
      by auto
    have "elements unwrap N (length M) 0 n = Some zs"
      using elements_whole [OF zs(2)] zs(3) elements_length [OF xs(1)] by simp
    with zs deref_SomeD [OF zs(2)] show ?thesis
      by (fastforce simp: t xs(3) slice_means_Some_iff slice_cells_def)
  qed
qed (use slice_local [OF deep] slice_present [OF deep] in blast)+

lemma deep_copy_values:
  assumes unwrap: "\<And>xs. unwrap (wrap xs) = Some xs"
  shows "deep_copy (copy_values wrap unwrap) (slice_means unwrap (\<lambda>M x. Some (f x))) (slice_cells unwrap (\<lambda>M x. {}))"
proof
  fix M s v t N assume v: "slice_means unwrap (\<lambda>M x. Some (f x)) M s = Some v" and run: "run_state (copy_values wrap unwrap s) M = (t, N)"
  show "prefix M N \<and> slice_means unwrap (\<lambda>M x. Some (f x)) N t = Some v \<and> slice_cells unwrap (\<lambda>M x. {}) N t \<subseteq> {length M..<length N}"
  proof (cases s)
    case NilSlice
    with v run show ?thesis by (auto simp: copy_values_def slice_means_def slice_cells_def)
  next
    case (Slice a off n)
    with v obtain xs vs where xs: "elements unwrap M a off n = Some xs" "list_all2 (\<lambda>x v. Some (f x) = Some v) xs vs" "v = Some vs"
      by (auto simp: slice_means_Some_iff)
    with run Slice have t: "t = Slice (length M) 0 n" "N = M @ [wrap xs]" by (auto simp: copy_values_def)
    have "deref unwrap N (length M) = Some xs" by (simp add: t deref_def peek_def unwrap)
    from elements_whole [OF this] elements_length [OF xs(1)] have "elements unwrap N (length M) 0 n = Some xs" by simp
    with xs show ?thesis by (auto simp: t(1) slice_means_Some_iff slice_cells_def) (simp_all add: t(2))
  qed
qed (use slice_local [OF deep_copy_value] slice_present [OF deep_copy_value] in blast)+

section \<open>Structures with several parts\<close>

lemma deep_copy_two_parts:
  assumes "deep_copy copy1 means1 cells1" and "deep_copy copy2 means2 cells2"
    and put: "\<And>x y z. get1 (put y z x) = y" "\<And>x y z. get2 (put y z x) = z" "\<And>x y z. build (put y z x) = build x"
  shows "deep_copy (\<lambda>x. do { y \<leftarrow> copy1 (get1 x); z \<leftarrow> copy2 (get2 x); State_Monad.return (put y z x) })
    (\<lambda>M x. map_option (build x) (both_mean means1 means2 M (get1 x, get2 x)))
    (\<lambda>M x. cells1 M (get1 x) \<union> cells2 M (get2 x))"
  using deep_copy_part [OF deep_copy_both [OF assms(1,2)],
      where get = "\<lambda>x. (get1 x, get2 x)" and put = "\<lambda>p x. put (fst p) (snd p) x" and build = build] put
  by (simp add: copy_both_def)

lemma deep_copy_three_parts:
  assumes "deep_copy copy1 means1 cells1" and "deep_copy copy2 means2 cells2" and "deep_copy copy3 means3 cells3"
    and put: "\<And>x y z w. get1 (put y z w x) = y" "\<And>x y z w. get2 (put y z w x) = z" "\<And>x y z w. get3 (put y z w x) = w"
      "\<And>x y z w. build (put y z w x) = build x"
  shows "deep_copy (\<lambda>x. do { y \<leftarrow> copy1 (get1 x); z \<leftarrow> copy2 (get2 x); w \<leftarrow> copy3 (get3 x); State_Monad.return (put y z w x) })
    (\<lambda>M x. map_option (build x) (both_mean means1 (both_mean means2 means3) M (get1 x, get2 x, get3 x)))
    (\<lambda>M x. cells1 M (get1 x) \<union> (cells2 M (get2 x) \<union> cells3 M (get3 x)))"
  using deep_copy_part [OF deep_copy_both [OF assms(1) deep_copy_both [OF assms(2,3)]],
      where get = "\<lambda>x. (get1 x, get2 x, get3 x)" and put = "\<lambda>p x. put (fst p) (fst (snd p)) (snd (snd p)) x" and build = build] put
  by (simp add: copy_both_def)

section \<open>API objects and lists of them\<close>

record type_meta =
  tm_kind :: string
  tm_api_version :: string

record list_meta =
  lm_resource_version :: string
  lm_continue :: string
  lm_remaining_item_count :: "int option"

text \<open>A resource: \<open>TypeMeta\<close>, \<open>ObjectMeta\<close>, spec and status. A list: \<open>TypeMeta\<close>, \<open>ListMeta\<close>, items.\<close>

record ('om, 's, 't) go_object =
  go_type_meta :: type_meta
  go_meta :: 'om
  go_spec :: 's
  go_status :: 't

record 'lm go_list =
  gl_type_meta :: type_meta
  gl_meta :: 'lm
  gl_items :: slice

text \<open>
  The copying functions of apimachinery are not part of the repository: \<open>ObjectMeta.DeepCopyInto\<close>,
  \<open>ListMeta.DeepCopyInto\<close>, \<open>Condition.DeepCopyInto\<close> and \<open>Time.DeepCopy\<close>, with what the structures
  of the two metadata types and a time stand for. They are documented as deep copies.
\<close>

record ('c, 'om, 'lm) meta_ext =
  mx_object_meta :: "'om \<Rightarrow> ('c, 'om) mem_prog"
  mx_object_meta_means :: "'c list \<Rightarrow> 'om \<Rightarrow> object_meta option"
  mx_object_meta_cells :: "'c list \<Rightarrow> 'om \<Rightarrow> nat set"
  mx_list_meta :: "'lm \<Rightarrow> ('c, 'lm) mem_prog"
  mx_list_meta_means :: "'c list \<Rightarrow> 'lm \<Rightarrow> list_meta option"
  mx_list_meta_cells :: "'c list \<Rightarrow> 'lm \<Rightarrow> nat set"
  mx_condition :: "condition \<Rightarrow> ('c, condition) mem_prog"
  mx_time :: "nat option \<Rightarrow> ('c, nat option) mem_prog"
  mx_time_means :: "'c list \<Rightarrow> nat option \<Rightarrow> int option option"
  mx_time_cells :: "'c list \<Rightarrow> nat option \<Rightarrow> nat set"

definition meta_deep :: "('c, 'om, 'lm) meta_ext \<Rightarrow> bool" where
  "meta_deep X \<longleftrightarrow>
     deep_copy (mx_object_meta X) (mx_object_meta_means X) (mx_object_meta_cells X)
     \<and> deep_copy (mx_list_meta X) (mx_list_meta_means X) (mx_list_meta_cells X)
     \<and> deep_copy (mx_condition X) (\<lambda>M c. Some c) (\<lambda>M c. {})
     \<and> deep_copy (mx_time X) (mx_time_means X) (mx_time_cells X)"

lemma meta_deepD:
  assumes "meta_deep X"
  shows "deep_copy (mx_object_meta X) (mx_object_meta_means X) (mx_object_meta_cells X)"
    and "deep_copy (mx_list_meta X) (mx_list_meta_means X) (mx_list_meta_cells X)"
    and "deep_copy (mx_condition X) (\<lambda>M c. Some c) (\<lambda>M c. {})"
    and "deep_copy (mx_time X) (mx_time_means X) (mx_time_cells X)"
  using assms by (auto simp: meta_deep_def)

text \<open>
  \<open>*out = *in; out.TypeMeta = in.TypeMeta; in.ObjectMeta.DeepCopyInto(&out.ObjectMeta);
  in.Spec.DeepCopyInto(&out.Spec); in.Status.DeepCopyInto(&out.Status)\<close>
\<close>

definition object_copy ::
  "('c, 'om, 'lm) meta_ext \<Rightarrow> ('s \<Rightarrow> ('c, 's) mem_prog) \<Rightarrow> ('t \<Rightarrow> ('c, 't) mem_prog)
    \<Rightarrow> ('om, 's, 't) go_object \<Rightarrow> ('c, ('om, 's, 't) go_object) mem_prog" where
  "object_copy X spec status x = do {
     m \<leftarrow> mx_object_meta X (go_meta x);
     s \<leftarrow> spec (go_spec x);
     t \<leftarrow> status (go_status x);
     State_Monad.return (x\<lparr>go_type_meta := go_type_meta x, go_meta := m, go_spec := s, go_status := t\<rparr>)
   }"

definition object_means ::
  "('c, 'om, 'lm) meta_ext \<Rightarrow> ('c list \<Rightarrow> 's \<Rightarrow> 'v option) \<Rightarrow> ('c list \<Rightarrow> 't \<Rightarrow> 'w option)
    \<Rightarrow> (object_meta \<Rightarrow> 'v \<Rightarrow> 'w \<Rightarrow> 'r) \<Rightarrow> 'c list \<Rightarrow> ('om, 's, 't) go_object \<Rightarrow> (type_meta \<times> 'r) option" where
  "object_means X spec status object_of M x =
     map_option (\<lambda>(m, s, t). (go_type_meta x, object_of m s t))
       (both_mean (mx_object_meta_means X) (both_mean spec status) M (go_meta x, go_spec x, go_status x))"

definition object_cells ::
  "('c, 'om, 'lm) meta_ext \<Rightarrow> ('c list \<Rightarrow> 's \<Rightarrow> nat set) \<Rightarrow> ('c list \<Rightarrow> 't \<Rightarrow> nat set)
    \<Rightarrow> 'c list \<Rightarrow> ('om, 's, 't) go_object \<Rightarrow> nat set" where
  "object_cells X spec status M x =
     mx_object_meta_cells X M (go_meta x) \<union> (spec M (go_spec x) \<union> status M (go_status x))"

lemma deep_copy_object:
  assumes "meta_deep X" and "deep_copy spec spec_means spec_cells" and "deep_copy status status_means status_cells"
  shows "deep_copy (object_copy X spec status) (object_means X spec_means status_means object_of) (object_cells X spec_cells status_cells)"
  unfolding object_copy_def [abs_def] object_means_def [abs_def] object_cells_def [abs_def]
  by (rule deep_copy_three_parts [OF meta_deepD(1) [OF assms(1)] assms(2,3),
      where put = "\<lambda>m s t x. x\<lparr>go_type_meta := go_type_meta x, go_meta := m, go_spec := s, go_status := t\<rparr>"
        and build = "\<lambda>x (m, s, t). (go_type_meta x, object_of m s t)"]) simp_all

text \<open>
  \<open>*out = *in; out.TypeMeta = in.TypeMeta; in.ListMeta.DeepCopyInto(&out.ListMeta)\<close>, and the items
  with \<open>DeepCopyInto\<close> one by one.
\<close>

definition list_copy ::
  "('c, 'om, 'lm) meta_ext \<Rightarrow> ('m list \<Rightarrow> 'c) \<Rightarrow> ('c \<Rightarrow> 'm list option) \<Rightarrow> ('m \<Rightarrow> ('c, 'm) mem_prog)
    \<Rightarrow> 'lm go_list \<Rightarrow> ('c, 'lm go_list) mem_prog" where
  "list_copy X wrap unwrap item x = do {
     m \<leftarrow> mx_list_meta X (gl_meta x);
     items \<leftarrow> copy_slice wrap unwrap item (gl_items x);
     State_Monad.return (x\<lparr>gl_type_meta := gl_type_meta x, gl_meta := m, gl_items := items\<rparr>)
   }"

definition list_means ::
  "('c, 'om, 'lm) meta_ext \<Rightarrow> ('c \<Rightarrow> 'm list option) \<Rightarrow> ('c list \<Rightarrow> 'm \<Rightarrow> 'v option)
    \<Rightarrow> 'c list \<Rightarrow> 'lm go_list \<Rightarrow> (type_meta \<times> list_meta \<times> 'v list option) option" where
  "list_means X unwrap item M x =
     map_option (Pair (gl_type_meta x)) (both_mean (mx_list_meta_means X) (slice_means unwrap item) M (gl_meta x, gl_items x))"

definition list_cells ::
  "('c, 'om, 'lm) meta_ext \<Rightarrow> ('c \<Rightarrow> 'm list option) \<Rightarrow> ('c list \<Rightarrow> 'm \<Rightarrow> nat set) \<Rightarrow> 'c list \<Rightarrow> 'lm go_list \<Rightarrow> nat set" where
  "list_cells X unwrap item M x = mx_list_meta_cells X M (gl_meta x) \<union> slice_cells unwrap item M (gl_items x)"

lemma deep_copy_list:
  assumes "meta_deep X" and "deep_copy item item_means item_cells" and "\<And>xs. unwrap (wrap xs) = Some xs"
  shows "deep_copy (list_copy X wrap unwrap item) (list_means X unwrap item_means) (list_cells X unwrap item_cells)"
  unfolding list_copy_def [abs_def] list_means_def [abs_def] list_cells_def [abs_def]
  by (rule deep_copy_two_parts [OF meta_deepD(2) [OF assms(1)] deep_copy_slice [OF assms(2,3)],
      where put = "\<lambda>m s x. x\<lparr>gl_type_meta := gl_type_meta x, gl_meta := m, gl_items := s\<rparr>"
        and build = "\<lambda>x. Pair (gl_type_meta x)"]) simp_all

text \<open>The conditions of a status; nil and empty stand for the same.\<close>

definition condition_list :: "condition list option \<Rightarrow> condition list" where
  "condition_list cs = (case cs of None \<Rightarrow> [] | Some xs \<Rightarrow> xs)"

section \<open>Apimachinery in memory\<close>

text \<open>
  An instance of the parameter for the witnesses: the labels of an \<open>ObjectMeta\<close> are a map in a cell of
  its own, everything else is in the structure; \<open>wrap\<close> makes cells of \<open>'c\<close> from maps and times.
\<close>

datatype meta_cell = LabelsCell "string gomap" | TimeCell int

definition labels_of :: "meta_cell \<Rightarrow> string gomap option" where
  "labels_of c = (case c of LabelsCell m \<Rightarrow> Some m | _ \<Rightarrow> None)"

definition time_of :: "meta_cell \<Rightarrow> int option" where
  "time_of c = (case c of TimeCell t \<Rightarrow> Some t | _ \<Rightarrow> None)"

record mem_meta =
  mm_plain :: object_meta
  mm_labels :: "nat option"

definition mem_meta_ext :: "(meta_cell \<Rightarrow> 'c) \<Rightarrow> ('c \<Rightarrow> meta_cell option) \<Rightarrow> ('c, mem_meta, list_meta) meta_ext" where
  "mem_meta_ext wrap unwrap =
     (let labels = (\<lambda>c. Option.bind (unwrap c) labels_of); time = (\<lambda>c. Option.bind (unwrap c) time_of) in
      \<lparr>mx_object_meta = (\<lambda>x. do {
         p \<leftarrow> new_copy (wrap \<circ> LabelsCell) labels State_Monad.return (mm_labels x);
         State_Monad.return (x\<lparr>mm_labels := p\<rparr>)
       }),
       mx_object_meta_means = (\<lambda>M x. map_option (\<lambda>l. (mm_plain x)\<lparr>om_labels := Option.bind l id\<rparr>)
         (ptr_means labels (\<lambda>M m. Some m) M (mm_labels x))),
       mx_object_meta_cells = (\<lambda>M x. ptr_cells labels (\<lambda>M m. {}) M (mm_labels x)),
       mx_list_meta = State_Monad.return, mx_list_meta_means = (\<lambda>M l. Some l), mx_list_meta_cells = (\<lambda>M l. {}),
       mx_condition = State_Monad.return,
       mx_time = new_copy (wrap \<circ> TimeCell) time State_Monad.return,
       mx_time_means = ptr_means time (\<lambda>M t. Some t), mx_time_cells = ptr_cells time (\<lambda>M t. {})\<rparr>)"

lemma mem_meta_deep:
  assumes "\<And>c. unwrap (wrap c) = Some c"
  shows "meta_deep (mem_meta_ext wrap unwrap)"
proof -
  let ?labels = "\<lambda>c. Option.bind (unwrap c) labels_of" and ?time = "\<lambda>c. Option.bind (unwrap c) time_of"
  have labels: "deep_copy (new_copy (wrap \<circ> LabelsCell) ?labels State_Monad.return)
      (ptr_means ?labels (\<lambda>M m. Some m)) (ptr_cells ?labels (\<lambda>M m. {}))"
    by (rule deep_copy_pointer [OF deep_copy_value]) (simp add: assms labels_of_def)
  have time: "deep_copy (new_copy (wrap \<circ> TimeCell) ?time State_Monad.return)
      (ptr_means ?time (\<lambda>M t. Some t)) (ptr_cells ?time (\<lambda>M t. {}))"
    by (rule deep_copy_pointer [OF deep_copy_value]) (simp add: assms time_of_def)
  show ?thesis
    unfolding meta_deep_def mem_meta_ext_def Let_def meta_ext.simps
    by (intro conjI time deep_copy_value deep_copy_part [OF labels,
          where get = mm_labels and put = "\<lambda>p x. x\<lparr>mm_labels := p\<rparr>"
            and build = "\<lambda>x l. (mm_plain x)\<lparr>om_labels := Option.bind l id\<rparr>"]) simp_all
qed

end
