(* ===== verification/DeepCopy1.thy ===== *)
theory DeepCopy1
  imports GoMemory
begin

text \<open>
  \<open>api/v1alpha1/zz_generated.deepcopy.go\<close>: \<open>DeepCopyInto\<close>,
    \<open>DeepCopy\<close> and \<open>DeepCopyObject\<close> of every
  type of the version, over the memory of \<open>GoMemory\<close>. A structure without pointers is the value of
  \<open>ApiTypes\<close>; one with pointers has a record here (prefix \<open>m1_\<close>) with addresses and slices in their
  place. \<open>DeepCopyInto\<close> gives the value that it leaves in \<open>*out\<close>. \<open>X\<close> is apimachinery.
\<close>

section \<open>Structures in memory\<close>

record m1_git_auth =
  m1_ga_type :: string
  m1_ga_secret_ref :: "nat option"

record m1_git_repository_status =
  m1_grt_last_synced_commit :: string
  m1_grt_cache_ready :: bool
  m1_grt_last_token :: string
  m1_grt_observed_generation :: int
  m1_grt_conditions :: slice

record m1_inline_sops_secret_spec =
  m1_iss_mode :: string
  m1_iss_encrypted_yaml :: string
  m1_iss_decryption :: "nat option"
  m1_iss_target :: v1_inline_target
  m1_iss_data :: slice

record m1_inline_sops_secret_status =
  m1_ist_last_applied_hash :: string
  m1_ist_last_token :: string
  m1_ist_observed_generation :: int
  m1_ist_conditions :: slice

record m1_sops_secret_manifest_spec =
  m1_sms_source :: v1_source_ref
  m1_sms_decryption :: "nat option"
  m1_sms_target :: v1_manifest_target

record m1_sops_secret_manifest_status =
  m1_smt_last_applied_hash :: string
  m1_smt_last_synced_commit :: string
  m1_smt_last_token :: string
  m1_smt_observed_generation :: int
  m1_smt_conditions :: slice

record m1_sops_secret_spec =
  m1_sss_source :: v1_source_ref
  m1_sss_decryption :: "nat option"
  m1_sss_target :: v1_mapping_target
  m1_sss_data :: slice

record m1_sops_secret_status =
  m1_sst_last_applied_hash :: string
  m1_sst_last_synced_commit :: string
  m1_sst_last_token :: string
  m1_sst_observed_generation :: int
  m1_sst_conditions :: slice

record m1_git_repository_spec =
  m1_grs_url :: string
  m1_grs_branch :: string
  m1_grs_revision :: string
  m1_grs_interval :: int
  m1_grs_auth :: "nat option"

type_synonym 'om m1_git_repository = "('om, m1_git_repository_spec, m1_git_repository_status) go_object"
type_synonym 'om m1_inline_sops_secret = "('om, m1_inline_sops_secret_spec, m1_inline_sops_secret_status) go_object"
type_synonym 'om m1_sops_secret = "('om, m1_sops_secret_spec, m1_sops_secret_status) go_object"
type_synonym 'om m1_sops_secret_manifest = "('om, m1_sops_secret_manifest_spec, m1_sops_secret_manifest_status) go_object"

text \<open>The types that a pointer can point to; \<open>'f\<close> are the cells of apimachinery.\<close>

datatype v1_plain =
    V1DataMapping v1_data_mapping
  | V1DecryptionSpec v1_decryption_spec
  | V1InlineTarget v1_inline_target
  | V1LocalObjectReference v1_local_object_reference
  | V1ManifestTarget v1_manifest_target
  | V1MappingTarget v1_mapping_target
  | V1SecretKeyRef v1_secret_key_ref
  | V1SecretReference v1_secret_reference
  | V1SourceRef v1_source_ref

datatype 'om v1_struct =
    V1GitAuth m1_git_auth
  | V1GitRepository "'om m1_git_repository"
  | V1GitRepositorySpec m1_git_repository_spec
  | V1GitRepositoryStatus m1_git_repository_status
  | V1InlineSopsSecret "'om m1_inline_sops_secret"
  | V1InlineSopsSecretSpec m1_inline_sops_secret_spec
  | V1InlineSopsSecretStatus m1_inline_sops_secret_status
  | V1SopsSecret "'om m1_sops_secret"
  | V1SopsSecretManifest "'om m1_sops_secret_manifest"
  | V1SopsSecretManifestSpec m1_sops_secret_manifest_spec
  | V1SopsSecretManifestStatus m1_sops_secret_manifest_status
  | V1SopsSecretSpec m1_sops_secret_spec
  | V1SopsSecretStatus m1_sops_secret_status

datatype ('om, 'lm) v1_collection =
    V1GitRepositoryList "'lm go_list"
  | V1InlineSopsSecretList "'lm go_list"
  | V1SopsSecretList "'lm go_list"
  | V1SopsSecretManifestList "'lm go_list"
  | V1Conditions "condition list"
  | V1DataMappings "v1_data_mapping list"
  | V1GitRepositoryArray "'om m1_git_repository list"
  | V1InlineSopsSecretArray "'om m1_inline_sops_secret list"
  | V1SopsSecretArray "'om m1_sops_secret list"
  | V1SopsSecretManifestArray "'om m1_sops_secret_manifest list"

datatype ('f, 'om, 'lm) v1_cell =
    V1Foreign 'f
  | V1Plain v1_plain
  | V1Struct "'om v1_struct"
  | V1Collection "('om, 'lm) v1_collection"

type_synonym ('f, 'om, 'lm) v1_ext = "(('f, 'om, 'lm) v1_cell, 'om, 'lm) meta_ext"

definition v1_as_foreign :: "('f, 'om, 'lm) v1_cell \<Rightarrow> 'f option" where
  "v1_as_foreign c = (case c of V1Foreign x \<Rightarrow> Some x | _ \<Rightarrow> None)"

definition v1_as_data_mapping :: "('f, 'om, 'lm) v1_cell \<Rightarrow> v1_data_mapping option" where
  "v1_as_data_mapping c = (case c of V1Plain (V1DataMapping x) \<Rightarrow> Some x | _ \<Rightarrow> None)"

definition v1_as_decryption_spec :: "('f, 'om, 'lm) v1_cell \<Rightarrow> v1_decryption_spec option" where
  "v1_as_decryption_spec c = (case c of V1Plain (V1DecryptionSpec x) \<Rightarrow> Some x | _ \<Rightarrow> None)"

definition v1_as_inline_target :: "('f, 'om, 'lm) v1_cell \<Rightarrow> v1_inline_target option" where
  "v1_as_inline_target c = (case c of V1Plain (V1InlineTarget x) \<Rightarrow> Some x | _ \<Rightarrow> None)"

definition v1_as_local_object_reference ::
  "('f, 'om, 'lm) v1_cell \<Rightarrow> v1_local_object_reference option" where
  "v1_as_local_object_reference c = (case c of V1Plain (V1LocalObjectReference x) \<Rightarrow> Some x | _
     \<Rightarrow> None)"

definition v1_as_manifest_target :: "('f, 'om, 'lm) v1_cell \<Rightarrow> v1_manifest_target option" where
  "v1_as_manifest_target c = (case c of V1Plain (V1ManifestTarget x) \<Rightarrow> Some x | _ \<Rightarrow> None)"

definition v1_as_mapping_target :: "('f, 'om, 'lm) v1_cell \<Rightarrow> v1_mapping_target option" where
  "v1_as_mapping_target c = (case c of V1Plain (V1MappingTarget x) \<Rightarrow> Some x | _ \<Rightarrow> None)"

definition v1_as_secret_key_ref :: "('f, 'om, 'lm) v1_cell \<Rightarrow> v1_secret_key_ref option" where
  "v1_as_secret_key_ref c = (case c of V1Plain (V1SecretKeyRef x) \<Rightarrow> Some x | _ \<Rightarrow> None)"

definition v1_as_secret_reference :: "('f, 'om, 'lm) v1_cell \<Rightarrow> v1_secret_reference option" where
  "v1_as_secret_reference c = (case c of V1Plain (V1SecretReference x) \<Rightarrow> Some x | _ \<Rightarrow> None)"

definition v1_as_source_ref :: "('f, 'om, 'lm) v1_cell \<Rightarrow> v1_source_ref option" where
  "v1_as_source_ref c = (case c of V1Plain (V1SourceRef x) \<Rightarrow> Some x | _ \<Rightarrow> None)"

definition v1_as_git_auth :: "('f, 'om, 'lm) v1_cell \<Rightarrow> m1_git_auth option" where
  "v1_as_git_auth c = (case c of V1Struct (V1GitAuth x) \<Rightarrow> Some x | _ \<Rightarrow> None)"

definition v1_as_git_repository :: "('f, 'om, 'lm) v1_cell \<Rightarrow> ('om m1_git_repository) option" where
  "v1_as_git_repository c = (case c of V1Struct (V1GitRepository x) \<Rightarrow> Some x | _ \<Rightarrow> None)"

definition v1_as_git_repository_spec :: "('f, 'om, 'lm) v1_cell \<Rightarrow> m1_git_repository_spec option" where
  "v1_as_git_repository_spec c = (case c of V1Struct (V1GitRepositorySpec x) \<Rightarrow> Some x | _ \<Rightarrow> None)"

definition v1_as_git_repository_status :: "('f, 'om, 'lm) v1_cell \<Rightarrow> m1_git_repository_status option" where
  "v1_as_git_repository_status c = (case c of V1Struct (V1GitRepositoryStatus x) \<Rightarrow> Some x | _
     \<Rightarrow> None)"

definition v1_as_inline_sops_secret :: "('f, 'om, 'lm) v1_cell \<Rightarrow> ('om m1_inline_sops_secret) option" where
  "v1_as_inline_sops_secret c = (case c of V1Struct (V1InlineSopsSecret x) \<Rightarrow> Some x | _ \<Rightarrow> None)"

definition v1_as_inline_sops_secret_spec ::
  "('f, 'om, 'lm) v1_cell \<Rightarrow> m1_inline_sops_secret_spec option" where
  "v1_as_inline_sops_secret_spec c = (case c of V1Struct (V1InlineSopsSecretSpec x) \<Rightarrow> Some x | _
     \<Rightarrow> None)"

definition v1_as_inline_sops_secret_status ::
  "('f, 'om, 'lm) v1_cell \<Rightarrow> m1_inline_sops_secret_status option" where
  "v1_as_inline_sops_secret_status c = (case c of V1Struct (V1InlineSopsSecretStatus x) \<Rightarrow> Some x | _
     \<Rightarrow> None)"

definition v1_as_sops_secret :: "('f, 'om, 'lm) v1_cell \<Rightarrow> ('om m1_sops_secret) option" where
  "v1_as_sops_secret c = (case c of V1Struct (V1SopsSecret x) \<Rightarrow> Some x | _ \<Rightarrow> None)"

definition v1_as_sops_secret_manifest ::
  "('f, 'om, 'lm) v1_cell \<Rightarrow> ('om m1_sops_secret_manifest) option" where
  "v1_as_sops_secret_manifest c = (case c of V1Struct (V1SopsSecretManifest x) \<Rightarrow> Some x | _ \<Rightarrow> None)"

definition v1_as_sops_secret_manifest_spec ::
  "('f, 'om, 'lm) v1_cell \<Rightarrow> m1_sops_secret_manifest_spec option" where
  "v1_as_sops_secret_manifest_spec c = (case c of V1Struct (V1SopsSecretManifestSpec x) \<Rightarrow> Some x | _
     \<Rightarrow> None)"

definition v1_as_sops_secret_manifest_status ::
  "('f, 'om, 'lm) v1_cell \<Rightarrow> m1_sops_secret_manifest_status option" where
  "v1_as_sops_secret_manifest_status c = (case c of V1Struct (V1SopsSecretManifestStatus x) \<Rightarrow> Some x | _
     \<Rightarrow> None)"

definition v1_as_sops_secret_spec :: "('f, 'om, 'lm) v1_cell \<Rightarrow> m1_sops_secret_spec option" where
  "v1_as_sops_secret_spec c = (case c of V1Struct (V1SopsSecretSpec x) \<Rightarrow> Some x | _ \<Rightarrow> None)"

definition v1_as_sops_secret_status :: "('f, 'om, 'lm) v1_cell \<Rightarrow> m1_sops_secret_status option" where
  "v1_as_sops_secret_status c = (case c of V1Struct (V1SopsSecretStatus x) \<Rightarrow> Some x | _ \<Rightarrow> None)"

definition v1_as_git_repository_list :: "('f, 'om, 'lm) v1_cell \<Rightarrow> ('lm go_list) option" where
  "v1_as_git_repository_list c = (case c of V1Collection (V1GitRepositoryList x) \<Rightarrow> Some x | _
     \<Rightarrow> None)"

definition v1_as_inline_sops_secret_list :: "('f, 'om, 'lm) v1_cell \<Rightarrow> ('lm go_list) option" where
  "v1_as_inline_sops_secret_list c = (case c of V1Collection (V1InlineSopsSecretList x) \<Rightarrow> Some x | _
     \<Rightarrow> None)"

definition v1_as_sops_secret_list :: "('f, 'om, 'lm) v1_cell \<Rightarrow> ('lm go_list) option" where
  "v1_as_sops_secret_list c = (case c of V1Collection (V1SopsSecretList x) \<Rightarrow> Some x | _ \<Rightarrow> None)"

definition v1_as_sops_secret_manifest_list :: "('f, 'om, 'lm) v1_cell \<Rightarrow> ('lm go_list) option" where
  "v1_as_sops_secret_manifest_list c = (case c of V1Collection (V1SopsSecretManifestList x) \<Rightarrow> Some x | _
     \<Rightarrow> None)"

definition v1_as_conditions :: "('f, 'om, 'lm) v1_cell \<Rightarrow> (condition list) option" where
  "v1_as_conditions c = (case c of V1Collection (V1Conditions x) \<Rightarrow> Some x | _ \<Rightarrow> None)"

definition v1_as_data_mappings :: "('f, 'om, 'lm) v1_cell \<Rightarrow> (v1_data_mapping list) option" where
  "v1_as_data_mappings c = (case c of V1Collection (V1DataMappings x) \<Rightarrow> Some x | _ \<Rightarrow> None)"

definition v1_as_git_repository_array ::
  "('f, 'om, 'lm) v1_cell \<Rightarrow> ('om m1_git_repository list) option" where
  "v1_as_git_repository_array c = (case c of V1Collection (V1GitRepositoryArray x) \<Rightarrow> Some x | _
     \<Rightarrow> None)"

definition v1_as_inline_sops_secret_array ::
  "('f, 'om, 'lm) v1_cell \<Rightarrow> ('om m1_inline_sops_secret list) option" where
  "v1_as_inline_sops_secret_array c = (case c of V1Collection (V1InlineSopsSecretArray x) \<Rightarrow> Some x | _
     \<Rightarrow> None)"

definition v1_as_sops_secret_array :: "('f, 'om, 'lm) v1_cell \<Rightarrow> ('om m1_sops_secret list) option" where
  "v1_as_sops_secret_array c = (case c of V1Collection (V1SopsSecretArray x) \<Rightarrow> Some x | _ \<Rightarrow> None)"

definition v1_as_sops_secret_manifest_array ::
  "('f, 'om, 'lm) v1_cell \<Rightarrow> ('om m1_sops_secret_manifest list) option" where
  "v1_as_sops_secret_manifest_array c = (case c of V1Collection (V1SopsSecretManifestArray x) \<Rightarrow> Some x | _
     \<Rightarrow> None)"

lemma v1_as_simps [simp]:
  "v1_as_foreign (V1Foreign x0) = Some x0"
  "v1_as_data_mapping (V1Plain (V1DataMapping x1)) = Some x1"
  "v1_as_decryption_spec (V1Plain (V1DecryptionSpec x2)) = Some x2"
  "v1_as_inline_target (V1Plain (V1InlineTarget x3)) = Some x3"
  "v1_as_local_object_reference (V1Plain (V1LocalObjectReference x4)) = Some x4"
  "v1_as_manifest_target (V1Plain (V1ManifestTarget x5)) = Some x5"
  "v1_as_mapping_target (V1Plain (V1MappingTarget x6)) = Some x6"
  "v1_as_secret_key_ref (V1Plain (V1SecretKeyRef x7)) = Some x7"
  "v1_as_secret_reference (V1Plain (V1SecretReference x8)) = Some x8"
  "v1_as_source_ref (V1Plain (V1SourceRef x9)) = Some x9"
  "v1_as_git_auth (V1Struct (V1GitAuth x10)) = Some x10"
  "v1_as_git_repository (V1Struct (V1GitRepository x11)) = Some x11"
  "v1_as_git_repository_spec (V1Struct (V1GitRepositorySpec x12)) = Some x12"
  "v1_as_git_repository_status (V1Struct (V1GitRepositoryStatus x13)) = Some x13"
  "v1_as_inline_sops_secret (V1Struct (V1InlineSopsSecret x14)) = Some x14"
  "v1_as_inline_sops_secret_spec (V1Struct (V1InlineSopsSecretSpec x15)) = Some x15"
  "v1_as_inline_sops_secret_status (V1Struct (V1InlineSopsSecretStatus x16)) = Some x16"
  "v1_as_sops_secret (V1Struct (V1SopsSecret x17)) = Some x17"
  "v1_as_sops_secret_manifest (V1Struct (V1SopsSecretManifest x18)) = Some x18"
  "v1_as_sops_secret_manifest_spec (V1Struct (V1SopsSecretManifestSpec x19)) = Some x19"
  "v1_as_sops_secret_manifest_status (V1Struct (V1SopsSecretManifestStatus x20)) = Some x20"
  "v1_as_sops_secret_spec (V1Struct (V1SopsSecretSpec x21)) = Some x21"
  "v1_as_sops_secret_status (V1Struct (V1SopsSecretStatus x22)) = Some x22"
  "v1_as_git_repository_list (V1Collection (V1GitRepositoryList x23)) = Some x23"
  "v1_as_inline_sops_secret_list (V1Collection (V1InlineSopsSecretList x24)) = Some x24"
  "v1_as_sops_secret_list (V1Collection (V1SopsSecretList x25)) = Some x25"
  "v1_as_sops_secret_manifest_list (V1Collection (V1SopsSecretManifestList x26)) = Some x26"
  "v1_as_conditions (V1Collection (V1Conditions x27)) = Some x27"
  "v1_as_data_mappings (V1Collection (V1DataMappings x28)) = Some x28"
  "v1_as_git_repository_array (V1Collection (V1GitRepositoryArray x29)) = Some x29"
  "v1_as_inline_sops_secret_array (V1Collection (V1InlineSopsSecretArray x30)) = Some x30"
  "v1_as_sops_secret_array (V1Collection (V1SopsSecretArray x31)) = Some x31"
  "v1_as_sops_secret_manifest_array (V1Collection (V1SopsSecretManifestArray x32)) = Some x32"
  by (simp_all add: v1_as_foreign_def v1_as_data_mapping_def v1_as_decryption_spec_def v1_as_inline_target_def
    v1_as_local_object_reference_def v1_as_manifest_target_def v1_as_mapping_target_def v1_as_secret_key_ref_def
    v1_as_secret_reference_def v1_as_source_ref_def v1_as_git_auth_def v1_as_git_repository_def
    v1_as_git_repository_spec_def v1_as_git_repository_status_def v1_as_inline_sops_secret_def
    v1_as_inline_sops_secret_spec_def v1_as_inline_sops_secret_status_def v1_as_sops_secret_def
    v1_as_sops_secret_manifest_def v1_as_sops_secret_manifest_spec_def v1_as_sops_secret_manifest_status_def
    v1_as_sops_secret_spec_def v1_as_sops_secret_status_def v1_as_git_repository_list_def
    v1_as_inline_sops_secret_list_def v1_as_sops_secret_list_def v1_as_sops_secret_manifest_list_def
    v1_as_conditions_def v1_as_data_mappings_def v1_as_git_repository_array_def v1_as_inline_sops_secret_array_def
    v1_as_sops_secret_array_def v1_as_sops_secret_manifest_array_def)

section \<open>\<open>DeepCopyInto\<close>\<close>

text \<open>Structures without pointers: \<open>*out = *in\<close>.\<close>

definition v1_data_mapping_deep_copy_into ::
  "v1_data_mapping \<Rightarrow> (('f, 'om, 'lm) v1_cell, v1_data_mapping) mem_prog" where
  "v1_data_mapping_deep_copy_into x = State_Monad.return x"

definition v1_decryption_spec_deep_copy_into ::
  "v1_decryption_spec \<Rightarrow> (('f, 'om, 'lm) v1_cell, v1_decryption_spec) mem_prog" where
  "v1_decryption_spec_deep_copy_into x = State_Monad.return (x\<lparr>v1_dec_key_ref := v1_dec_key_ref x\<rparr>)"

definition v1_inline_target_deep_copy_into ::
  "v1_inline_target \<Rightarrow> (('f, 'om, 'lm) v1_cell, v1_inline_target) mem_prog" where
  "v1_inline_target_deep_copy_into x = State_Monad.return x"

definition v1_local_object_reference_deep_copy_into ::
  "v1_local_object_reference \<Rightarrow> (('f, 'om, 'lm) v1_cell, v1_local_object_reference) mem_prog" where
  "v1_local_object_reference_deep_copy_into x = State_Monad.return x"

definition v1_manifest_target_deep_copy_into ::
  "v1_manifest_target \<Rightarrow> (('f, 'om, 'lm) v1_cell, v1_manifest_target) mem_prog" where
  "v1_manifest_target_deep_copy_into x = State_Monad.return x"

definition v1_mapping_target_deep_copy_into ::
  "v1_mapping_target \<Rightarrow> (('f, 'om, 'lm) v1_cell, v1_mapping_target) mem_prog" where
  "v1_mapping_target_deep_copy_into x = State_Monad.return x"

definition v1_secret_key_ref_deep_copy_into ::
  "v1_secret_key_ref \<Rightarrow> (('f, 'om, 'lm) v1_cell, v1_secret_key_ref) mem_prog" where
  "v1_secret_key_ref_deep_copy_into x = State_Monad.return x"

definition v1_secret_reference_deep_copy_into ::
  "v1_secret_reference \<Rightarrow> (('f, 'om, 'lm) v1_cell, v1_secret_reference) mem_prog" where
  "v1_secret_reference_deep_copy_into x = State_Monad.return x"

definition v1_source_ref_deep_copy_into ::
  "v1_source_ref \<Rightarrow> (('f, 'om, 'lm) v1_cell, v1_source_ref) mem_prog" where
  "v1_source_ref_deep_copy_into x =
     State_Monad.return (x\<lparr>v1_src_repository_ref := v1_src_repository_ref x\<rparr>)"

text \<open>Structures with pointers: what is pointed to is copied to new cells.\<close>

definition v1_git_auth_deep_copy_into ::
  "m1_git_auth \<Rightarrow> (('f, 'om, 'lm) v1_cell, m1_git_auth) mem_prog" where
  "v1_git_auth_deep_copy_into x = do {
     r \<leftarrow> new_copy (V1Plain \<circ> V1SecretReference) v1_as_secret_reference State_Monad.return (m1_ga_secret_ref x);
     State_Monad.return (x\<lparr>m1_ga_secret_ref := r\<rparr>)
   }"

definition v1_git_repository_status_deep_copy_into ::
  "('f, 'om, 'lm) v1_ext \<Rightarrow> m1_git_repository_status
     \<Rightarrow> (('f, 'om, 'lm) v1_cell, m1_git_repository_status) mem_prog" where
  "v1_git_repository_status_deep_copy_into X x = do {
     cs \<leftarrow> copy_slice (V1Collection \<circ> V1Conditions) v1_as_conditions (mx_condition X) (m1_grt_conditions x);
     State_Monad.return (x\<lparr>m1_grt_conditions := cs\<rparr>)
   }"

definition v1_inline_sops_secret_spec_deep_copy_into ::
  "m1_inline_sops_secret_spec \<Rightarrow> (('f, 'om, 'lm) v1_cell, m1_inline_sops_secret_spec) mem_prog" where
  "v1_inline_sops_secret_spec_deep_copy_into x = do {
     d \<leftarrow> new_copy (V1Plain \<circ> V1DecryptionSpec) v1_as_decryption_spec State_Monad.return (m1_iss_decryption x);
     mappings \<leftarrow> copy_values (V1Collection \<circ> V1DataMappings) v1_as_data_mappings (m1_iss_data x);
     State_Monad.return (x\<lparr>m1_iss_target := m1_iss_target x, m1_iss_decryption := d, m1_iss_data := mappings\<rparr>)
   }"

definition v1_inline_sops_secret_status_deep_copy_into ::
  "('f, 'om, 'lm) v1_ext \<Rightarrow> m1_inline_sops_secret_status
     \<Rightarrow> (('f, 'om, 'lm) v1_cell, m1_inline_sops_secret_status) mem_prog" where
  "v1_inline_sops_secret_status_deep_copy_into X x = do {
     cs \<leftarrow> copy_slice (V1Collection \<circ> V1Conditions) v1_as_conditions (mx_condition X) (m1_ist_conditions x);
     State_Monad.return (x\<lparr>m1_ist_conditions := cs\<rparr>)
   }"

definition v1_sops_secret_manifest_spec_deep_copy_into ::
  "m1_sops_secret_manifest_spec \<Rightarrow> (('f, 'om, 'lm) v1_cell, m1_sops_secret_manifest_spec) mem_prog" where
  "v1_sops_secret_manifest_spec_deep_copy_into x = do {
     d \<leftarrow> new_copy (V1Plain \<circ> V1DecryptionSpec) v1_as_decryption_spec State_Monad.return (m1_sms_decryption x);
     State_Monad.return (x\<lparr>m1_sms_source := m1_sms_source x, m1_sms_target := m1_sms_target x,
       m1_sms_decryption := d\<rparr>)
   }"

definition v1_sops_secret_manifest_status_deep_copy_into ::
  "('f, 'om, 'lm) v1_ext \<Rightarrow> m1_sops_secret_manifest_status
     \<Rightarrow> (('f, 'om, 'lm) v1_cell, m1_sops_secret_manifest_status) mem_prog" where
  "v1_sops_secret_manifest_status_deep_copy_into X x = do {
     cs \<leftarrow> copy_slice (V1Collection \<circ> V1Conditions) v1_as_conditions (mx_condition X) (m1_smt_conditions x);
     State_Monad.return (x\<lparr>m1_smt_conditions := cs\<rparr>)
   }"

definition v1_sops_secret_spec_deep_copy_into ::
  "m1_sops_secret_spec \<Rightarrow> (('f, 'om, 'lm) v1_cell, m1_sops_secret_spec) mem_prog" where
  "v1_sops_secret_spec_deep_copy_into x = do {
     d \<leftarrow> new_copy (V1Plain \<circ> V1DecryptionSpec) v1_as_decryption_spec State_Monad.return (m1_sss_decryption x);
     mappings \<leftarrow> copy_values (V1Collection \<circ> V1DataMappings) v1_as_data_mappings (m1_sss_data x);
     State_Monad.return (x\<lparr>m1_sss_source := m1_sss_source x, m1_sss_target := m1_sss_target x,
       m1_sss_decryption := d, m1_sss_data := mappings\<rparr>)
   }"

definition v1_sops_secret_status_deep_copy_into ::
  "('f, 'om, 'lm) v1_ext \<Rightarrow> m1_sops_secret_status
     \<Rightarrow> (('f, 'om, 'lm) v1_cell, m1_sops_secret_status) mem_prog" where
  "v1_sops_secret_status_deep_copy_into X x = do {
     cs \<leftarrow> copy_slice (V1Collection \<circ> V1Conditions) v1_as_conditions (mx_condition X) (m1_sst_conditions x);
     State_Monad.return (x\<lparr>m1_sst_conditions := cs\<rparr>)
   }"

definition v1_git_repository_spec_deep_copy_into ::
  "m1_git_repository_spec \<Rightarrow> (('f, 'om, 'lm) v1_cell, m1_git_repository_spec) mem_prog" where
  "v1_git_repository_spec_deep_copy_into x = do {
     a \<leftarrow> new_copy (V1Struct \<circ> V1GitAuth) v1_as_git_auth v1_git_auth_deep_copy_into (m1_grs_auth x);
     State_Monad.return (x\<lparr>m1_grs_interval := m1_grs_interval x, m1_grs_auth := a\<rparr>)
   }"

definition v1_git_repository_deep_copy_into ::
  "('f, 'om, 'lm) v1_ext \<Rightarrow> 'om m1_git_repository
     \<Rightarrow> (('f, 'om, 'lm) v1_cell, 'om m1_git_repository) mem_prog" where
  "v1_git_repository_deep_copy_into X =
     object_copy X v1_git_repository_spec_deep_copy_into (v1_git_repository_status_deep_copy_into X)"

definition v1_inline_sops_secret_deep_copy_into ::
  "('f, 'om, 'lm) v1_ext \<Rightarrow> 'om m1_inline_sops_secret
     \<Rightarrow> (('f, 'om, 'lm) v1_cell, 'om m1_inline_sops_secret) mem_prog" where
  "v1_inline_sops_secret_deep_copy_into X =
     object_copy X v1_inline_sops_secret_spec_deep_copy_into (v1_inline_sops_secret_status_deep_copy_into X)"

definition v1_sops_secret_deep_copy_into ::
  "('f, 'om, 'lm) v1_ext \<Rightarrow> 'om m1_sops_secret
     \<Rightarrow> (('f, 'om, 'lm) v1_cell, 'om m1_sops_secret) mem_prog" where
  "v1_sops_secret_deep_copy_into X =
     object_copy X v1_sops_secret_spec_deep_copy_into (v1_sops_secret_status_deep_copy_into X)"

definition v1_sops_secret_manifest_deep_copy_into ::
  "('f, 'om, 'lm) v1_ext \<Rightarrow> 'om m1_sops_secret_manifest
     \<Rightarrow> (('f, 'om, 'lm) v1_cell, 'om m1_sops_secret_manifest) mem_prog" where
  "v1_sops_secret_manifest_deep_copy_into X =
     object_copy X v1_sops_secret_manifest_spec_deep_copy_into (v1_sops_secret_manifest_status_deep_copy_into X)"

definition v1_git_repository_list_deep_copy_into ::
  "('f, 'om, 'lm) v1_ext \<Rightarrow> 'lm go_list \<Rightarrow> (('f, 'om, 'lm) v1_cell, 'lm go_list) mem_prog" where
  "v1_git_repository_list_deep_copy_into X =
     list_copy X (V1Collection \<circ> V1GitRepositoryArray) v1_as_git_repository_array (v1_git_repository_deep_copy_into X)"

definition v1_inline_sops_secret_list_deep_copy_into ::
  "('f, 'om, 'lm) v1_ext \<Rightarrow> 'lm go_list \<Rightarrow> (('f, 'om, 'lm) v1_cell, 'lm go_list) mem_prog" where
  "v1_inline_sops_secret_list_deep_copy_into X =
     list_copy X (V1Collection \<circ> V1InlineSopsSecretArray) v1_as_inline_sops_secret_array (v1_inline_sops_secret_deep_copy_into X)"

definition v1_sops_secret_list_deep_copy_into ::
  "('f, 'om, 'lm) v1_ext \<Rightarrow> 'lm go_list \<Rightarrow> (('f, 'om, 'lm) v1_cell, 'lm go_list) mem_prog" where
  "v1_sops_secret_list_deep_copy_into X =
     list_copy X (V1Collection \<circ> V1SopsSecretArray) v1_as_sops_secret_array (v1_sops_secret_deep_copy_into X)"

definition v1_sops_secret_manifest_list_deep_copy_into ::
  "('f, 'om, 'lm) v1_ext \<Rightarrow> 'lm go_list \<Rightarrow> (('f, 'om, 'lm) v1_cell, 'lm go_list) mem_prog" where
  "v1_sops_secret_manifest_list_deep_copy_into X =
     list_copy X (V1Collection \<circ> V1SopsSecretManifestArray) v1_as_sops_secret_manifest_array (v1_sops_secret_manifest_deep_copy_into X)"

section \<open>\<open>DeepCopy\<close>\<close>

text \<open>A nil receiver gives nil; otherwise \<open>new\<close>, and \<open>DeepCopyInto\<close>.\<close>

definition v1_data_mapping_deep_copy :: "nat option \<Rightarrow> (('f, 'om, 'lm) v1_cell, nat option) mem_prog" where
  "v1_data_mapping_deep_copy =
     new_copy (V1Plain \<circ> V1DataMapping) v1_as_data_mapping v1_data_mapping_deep_copy_into"

definition v1_decryption_spec_deep_copy ::
  "nat option \<Rightarrow> (('f, 'om, 'lm) v1_cell, nat option) mem_prog" where
  "v1_decryption_spec_deep_copy =
     new_copy (V1Plain \<circ> V1DecryptionSpec) v1_as_decryption_spec v1_decryption_spec_deep_copy_into"

definition v1_git_auth_deep_copy :: "nat option \<Rightarrow> (('f, 'om, 'lm) v1_cell, nat option) mem_prog" where
  "v1_git_auth_deep_copy = new_copy (V1Struct \<circ> V1GitAuth) v1_as_git_auth v1_git_auth_deep_copy_into"

definition v1_git_repository_deep_copy ::
  "('f, 'om, 'lm) v1_ext \<Rightarrow> nat option \<Rightarrow> (('f, 'om, 'lm) v1_cell, nat option) mem_prog" where
  "v1_git_repository_deep_copy X =
     new_copy (V1Struct \<circ> V1GitRepository) v1_as_git_repository (v1_git_repository_deep_copy_into X)"

definition v1_git_repository_list_deep_copy ::
  "('f, 'om, 'lm) v1_ext \<Rightarrow> nat option \<Rightarrow> (('f, 'om, 'lm) v1_cell, nat option) mem_prog" where
  "v1_git_repository_list_deep_copy X =
     new_copy (V1Collection \<circ> V1GitRepositoryList) v1_as_git_repository_list (v1_git_repository_list_deep_copy_into X)"

definition v1_git_repository_spec_deep_copy ::
  "nat option \<Rightarrow> (('f, 'om, 'lm) v1_cell, nat option) mem_prog" where
  "v1_git_repository_spec_deep_copy =
     new_copy (V1Struct \<circ> V1GitRepositorySpec) v1_as_git_repository_spec v1_git_repository_spec_deep_copy_into"

definition v1_git_repository_status_deep_copy ::
  "('f, 'om, 'lm) v1_ext \<Rightarrow> nat option \<Rightarrow> (('f, 'om, 'lm) v1_cell, nat option) mem_prog" where
  "v1_git_repository_status_deep_copy X =
     new_copy (V1Struct \<circ> V1GitRepositoryStatus) v1_as_git_repository_status (v1_git_repository_status_deep_copy_into X)"

definition v1_inline_sops_secret_deep_copy ::
  "('f, 'om, 'lm) v1_ext \<Rightarrow> nat option \<Rightarrow> (('f, 'om, 'lm) v1_cell, nat option) mem_prog" where
  "v1_inline_sops_secret_deep_copy X =
     new_copy (V1Struct \<circ> V1InlineSopsSecret) v1_as_inline_sops_secret (v1_inline_sops_secret_deep_copy_into X)"

definition v1_inline_sops_secret_list_deep_copy ::
  "('f, 'om, 'lm) v1_ext \<Rightarrow> nat option \<Rightarrow> (('f, 'om, 'lm) v1_cell, nat option) mem_prog" where
  "v1_inline_sops_secret_list_deep_copy X =
     new_copy (V1Collection \<circ> V1InlineSopsSecretList) v1_as_inline_sops_secret_list (v1_inline_sops_secret_list_deep_copy_into X)"

definition v1_inline_sops_secret_spec_deep_copy ::
  "nat option \<Rightarrow> (('f, 'om, 'lm) v1_cell, nat option) mem_prog" where
  "v1_inline_sops_secret_spec_deep_copy =
     new_copy (V1Struct \<circ> V1InlineSopsSecretSpec) v1_as_inline_sops_secret_spec v1_inline_sops_secret_spec_deep_copy_into"

definition v1_inline_sops_secret_status_deep_copy ::
  "('f, 'om, 'lm) v1_ext \<Rightarrow> nat option \<Rightarrow> (('f, 'om, 'lm) v1_cell, nat option) mem_prog" where
  "v1_inline_sops_secret_status_deep_copy X =
     new_copy (V1Struct \<circ> V1InlineSopsSecretStatus) v1_as_inline_sops_secret_status (v1_inline_sops_secret_status_deep_copy_into X)"

definition v1_inline_target_deep_copy ::
  "nat option \<Rightarrow> (('f, 'om, 'lm) v1_cell, nat option) mem_prog" where
  "v1_inline_target_deep_copy =
     new_copy (V1Plain \<circ> V1InlineTarget) v1_as_inline_target v1_inline_target_deep_copy_into"

definition v1_local_object_reference_deep_copy ::
  "nat option \<Rightarrow> (('f, 'om, 'lm) v1_cell, nat option) mem_prog" where
  "v1_local_object_reference_deep_copy =
     new_copy (V1Plain \<circ> V1LocalObjectReference) v1_as_local_object_reference v1_local_object_reference_deep_copy_into"

definition v1_manifest_target_deep_copy ::
  "nat option \<Rightarrow> (('f, 'om, 'lm) v1_cell, nat option) mem_prog" where
  "v1_manifest_target_deep_copy =
     new_copy (V1Plain \<circ> V1ManifestTarget) v1_as_manifest_target v1_manifest_target_deep_copy_into"

definition v1_mapping_target_deep_copy ::
  "nat option \<Rightarrow> (('f, 'om, 'lm) v1_cell, nat option) mem_prog" where
  "v1_mapping_target_deep_copy =
     new_copy (V1Plain \<circ> V1MappingTarget) v1_as_mapping_target v1_mapping_target_deep_copy_into"

definition v1_secret_key_ref_deep_copy ::
  "nat option \<Rightarrow> (('f, 'om, 'lm) v1_cell, nat option) mem_prog" where
  "v1_secret_key_ref_deep_copy =
     new_copy (V1Plain \<circ> V1SecretKeyRef) v1_as_secret_key_ref v1_secret_key_ref_deep_copy_into"

definition v1_secret_reference_deep_copy ::
  "nat option \<Rightarrow> (('f, 'om, 'lm) v1_cell, nat option) mem_prog" where
  "v1_secret_reference_deep_copy =
     new_copy (V1Plain \<circ> V1SecretReference) v1_as_secret_reference v1_secret_reference_deep_copy_into"

definition v1_sops_secret_deep_copy ::
  "('f, 'om, 'lm) v1_ext \<Rightarrow> nat option \<Rightarrow> (('f, 'om, 'lm) v1_cell, nat option) mem_prog" where
  "v1_sops_secret_deep_copy X =
     new_copy (V1Struct \<circ> V1SopsSecret) v1_as_sops_secret (v1_sops_secret_deep_copy_into X)"

definition v1_sops_secret_list_deep_copy ::
  "('f, 'om, 'lm) v1_ext \<Rightarrow> nat option \<Rightarrow> (('f, 'om, 'lm) v1_cell, nat option) mem_prog" where
  "v1_sops_secret_list_deep_copy X =
     new_copy (V1Collection \<circ> V1SopsSecretList) v1_as_sops_secret_list (v1_sops_secret_list_deep_copy_into X)"

definition v1_sops_secret_manifest_deep_copy ::
  "('f, 'om, 'lm) v1_ext \<Rightarrow> nat option \<Rightarrow> (('f, 'om, 'lm) v1_cell, nat option) mem_prog" where
  "v1_sops_secret_manifest_deep_copy X =
     new_copy (V1Struct \<circ> V1SopsSecretManifest) v1_as_sops_secret_manifest (v1_sops_secret_manifest_deep_copy_into X)"

definition v1_sops_secret_manifest_list_deep_copy ::
  "('f, 'om, 'lm) v1_ext \<Rightarrow> nat option \<Rightarrow> (('f, 'om, 'lm) v1_cell, nat option) mem_prog" where
  "v1_sops_secret_manifest_list_deep_copy X =
     new_copy (V1Collection \<circ> V1SopsSecretManifestList) v1_as_sops_secret_manifest_list (v1_sops_secret_manifest_list_deep_copy_into X)"

definition v1_sops_secret_manifest_spec_deep_copy ::
  "nat option \<Rightarrow> (('f, 'om, 'lm) v1_cell, nat option) mem_prog" where
  "v1_sops_secret_manifest_spec_deep_copy =
     new_copy (V1Struct \<circ> V1SopsSecretManifestSpec) v1_as_sops_secret_manifest_spec v1_sops_secret_manifest_spec_deep_copy_into"

definition v1_sops_secret_manifest_status_deep_copy ::
  "('f, 'om, 'lm) v1_ext \<Rightarrow> nat option \<Rightarrow> (('f, 'om, 'lm) v1_cell, nat option) mem_prog" where
  "v1_sops_secret_manifest_status_deep_copy X =
     new_copy (V1Struct \<circ> V1SopsSecretManifestStatus) v1_as_sops_secret_manifest_status (v1_sops_secret_manifest_status_deep_copy_into X)"

definition v1_sops_secret_spec_deep_copy ::
  "nat option \<Rightarrow> (('f, 'om, 'lm) v1_cell, nat option) mem_prog" where
  "v1_sops_secret_spec_deep_copy =
     new_copy (V1Struct \<circ> V1SopsSecretSpec) v1_as_sops_secret_spec v1_sops_secret_spec_deep_copy_into"

definition v1_sops_secret_status_deep_copy ::
  "('f, 'om, 'lm) v1_ext \<Rightarrow> nat option \<Rightarrow> (('f, 'om, 'lm) v1_cell, nat option) mem_prog" where
  "v1_sops_secret_status_deep_copy X =
     new_copy (V1Struct \<circ> V1SopsSecretStatus) v1_as_sops_secret_status (v1_sops_secret_status_deep_copy_into X)"

definition v1_source_ref_deep_copy :: "nat option \<Rightarrow> (('f, 'om, 'lm) v1_cell, nat option) mem_prog" where
  "v1_source_ref_deep_copy = new_copy (V1Plain \<circ> V1SourceRef) v1_as_source_ref v1_source_ref_deep_copy_into"

text \<open>As a \<open>runtime.Object\<close>: an interface value that holds the pointer, or the nil interface.\<close>

datatype v1_runtime_object =
    V1GitRepositoryPointer nat
  | V1InlineSopsSecretPointer nat
  | V1SopsSecretPointer nat
  | V1SopsSecretManifestPointer nat
  | V1GitRepositoryListPointer nat
  | V1InlineSopsSecretListPointer nat
  | V1SopsSecretListPointer nat
  | V1SopsSecretManifestListPointer nat

definition v1_git_repository_deep_copy_object ::
  "('f, 'om, 'lm) v1_ext \<Rightarrow> nat option
     \<Rightarrow> (('f, 'om, 'lm) v1_cell, v1_runtime_object option) mem_prog" where
  "v1_git_repository_deep_copy_object X p = do {
     c \<leftarrow> v1_git_repository_deep_copy X p;
     State_Monad.return (map_option V1GitRepositoryPointer c)
   }"

definition v1_inline_sops_secret_deep_copy_object ::
  "('f, 'om, 'lm) v1_ext \<Rightarrow> nat option
     \<Rightarrow> (('f, 'om, 'lm) v1_cell, v1_runtime_object option) mem_prog" where
  "v1_inline_sops_secret_deep_copy_object X p = do {
     c \<leftarrow> v1_inline_sops_secret_deep_copy X p;
     State_Monad.return (map_option V1InlineSopsSecretPointer c)
   }"

definition v1_sops_secret_deep_copy_object ::
  "('f, 'om, 'lm) v1_ext \<Rightarrow> nat option
     \<Rightarrow> (('f, 'om, 'lm) v1_cell, v1_runtime_object option) mem_prog" where
  "v1_sops_secret_deep_copy_object X p = do {
     c \<leftarrow> v1_sops_secret_deep_copy X p;
     State_Monad.return (map_option V1SopsSecretPointer c)
   }"

definition v1_sops_secret_manifest_deep_copy_object ::
  "('f, 'om, 'lm) v1_ext \<Rightarrow> nat option
     \<Rightarrow> (('f, 'om, 'lm) v1_cell, v1_runtime_object option) mem_prog" where
  "v1_sops_secret_manifest_deep_copy_object X p = do {
     c \<leftarrow> v1_sops_secret_manifest_deep_copy X p;
     State_Monad.return (map_option V1SopsSecretManifestPointer c)
   }"

definition v1_git_repository_list_deep_copy_object ::
  "('f, 'om, 'lm) v1_ext \<Rightarrow> nat option
     \<Rightarrow> (('f, 'om, 'lm) v1_cell, v1_runtime_object option) mem_prog" where
  "v1_git_repository_list_deep_copy_object X p = do {
     c \<leftarrow> v1_git_repository_list_deep_copy X p;
     State_Monad.return (map_option V1GitRepositoryListPointer c)
   }"

definition v1_inline_sops_secret_list_deep_copy_object ::
  "('f, 'om, 'lm) v1_ext \<Rightarrow> nat option
     \<Rightarrow> (('f, 'om, 'lm) v1_cell, v1_runtime_object option) mem_prog" where
  "v1_inline_sops_secret_list_deep_copy_object X p = do {
     c \<leftarrow> v1_inline_sops_secret_list_deep_copy X p;
     State_Monad.return (map_option V1InlineSopsSecretListPointer c)
   }"

definition v1_sops_secret_list_deep_copy_object ::
  "('f, 'om, 'lm) v1_ext \<Rightarrow> nat option
     \<Rightarrow> (('f, 'om, 'lm) v1_cell, v1_runtime_object option) mem_prog" where
  "v1_sops_secret_list_deep_copy_object X p = do {
     c \<leftarrow> v1_sops_secret_list_deep_copy X p;
     State_Monad.return (map_option V1SopsSecretListPointer c)
   }"

definition v1_sops_secret_manifest_list_deep_copy_object ::
  "('f, 'om, 'lm) v1_ext \<Rightarrow> nat option
     \<Rightarrow> (('f, 'om, 'lm) v1_cell, v1_runtime_object option) mem_prog" where
  "v1_sops_secret_manifest_list_deep_copy_object X p = do {
     c \<leftarrow> v1_sops_secret_manifest_list_deep_copy X p;
     State_Monad.return (map_option V1SopsSecretManifestListPointer c)
   }"

section \<open>What the structures stand for\<close>

definition v1_git_auth_of :: "m1_git_auth \<Rightarrow> (v1_secret_reference option) \<Rightarrow> v1_git_auth" where
  "v1_git_auth_of x r =
     \<lparr>v1_ga_type = m1_ga_type x, v1_ga_secret_ref = r\<rparr>"

definition v1_git_auth_means ::
  "('f, 'om, 'lm) v1_cell list \<Rightarrow> m1_git_auth \<Rightarrow> v1_git_auth option" where
  "v1_git_auth_means M x = map_option (v1_git_auth_of x)
     (ptr_means v1_as_secret_reference (\<lambda>M y. Some y) M (m1_ga_secret_ref x))"

definition v1_git_auth_cells :: "('f, 'om, 'lm) v1_cell list \<Rightarrow> m1_git_auth \<Rightarrow> nat set" where
  "v1_git_auth_cells M x = ptr_cells v1_as_secret_reference (\<lambda>M y. {}) M (m1_ga_secret_ref x)"

lemma v1_git_auth_deep:
  "deep_copy v1_git_auth_deep_copy_into v1_git_auth_means v1_git_auth_cells"
  unfolding v1_git_auth_deep_copy_into_def [abs_def] v1_git_auth_means_def [abs_def] v1_git_auth_cells_def [abs_def]
  by (rule deep_copy_part [OF deep_copy_pointer [OF deep_copy_value],
    where put = "\<lambda>y x. x\<lparr>m1_ga_secret_ref := y\<rparr>"
      and build = v1_git_auth_of]) (simp_all add: v1_git_auth_of_def)

definition v1_git_repository_status_of ::
  "m1_git_repository_status \<Rightarrow> (condition list option) \<Rightarrow> v1_git_repository_status" where
  "v1_git_repository_status_of x cs =
     \<lparr>v1_grt_last_synced_commit = m1_grt_last_synced_commit x, v1_grt_cache_ready = m1_grt_cache_ready x,
       v1_grt_last_token = m1_grt_last_token x, v1_grt_observed_generation = m1_grt_observed_generation x,
         v1_grt_conditions = condition_list cs\<rparr>"

definition v1_git_repository_status_means ::
  "('f, 'om, 'lm) v1_cell list \<Rightarrow> m1_git_repository_status \<Rightarrow> v1_git_repository_status option" where
  "v1_git_repository_status_means M x = map_option (v1_git_repository_status_of x)
     (slice_means v1_as_conditions (\<lambda>M y. Some y) M (m1_grt_conditions x))"

definition v1_git_repository_status_cells ::
  "('f, 'om, 'lm) v1_cell list \<Rightarrow> m1_git_repository_status \<Rightarrow> nat set" where
  "v1_git_repository_status_cells M x = slice_cells v1_as_conditions (\<lambda>M y. {}) M (m1_grt_conditions x)"

lemma v1_git_repository_status_deep:
  assumes "meta_deep X"
  shows "deep_copy (v1_git_repository_status_deep_copy_into X) v1_git_repository_status_means v1_git_repository_status_cells"
  unfolding v1_git_repository_status_deep_copy_into_def [abs_def]
    v1_git_repository_status_means_def [abs_def] v1_git_repository_status_cells_def [abs_def]
  by (rule deep_copy_part [OF deep_copy_slice [OF meta_deepD(3) [OF assms]],
    where put = "\<lambda>y x. x\<lparr>m1_grt_conditions := y\<rparr>"
      and build = v1_git_repository_status_of]) (simp_all add: v1_git_repository_status_of_def)

definition v1_inline_sops_secret_spec_of ::
  "m1_inline_sops_secret_spec \<Rightarrow> (v1_decryption_spec option) \<Rightarrow> (v1_data_mapping list option)
     \<Rightarrow> v1_inline_sops_secret_spec" where
  "v1_inline_sops_secret_spec_of x d mappings =
     \<lparr>v1_iss_mode = m1_iss_mode x, v1_iss_encrypted_yaml = m1_iss_encrypted_yaml x, v1_iss_decryption = d,
       v1_iss_target = m1_iss_target x, v1_iss_data = mappings\<rparr>"

definition v1_inline_sops_secret_spec_means ::
  "('f, 'om, 'lm) v1_cell list \<Rightarrow> m1_inline_sops_secret_spec
     \<Rightarrow> v1_inline_sops_secret_spec option" where
  "v1_inline_sops_secret_spec_means M x = map_option (\<lambda>(v, w). v1_inline_sops_secret_spec_of x v w)
     (both_mean (ptr_means v1_as_decryption_spec (\<lambda>M y. Some y)) (slice_means v1_as_data_mappings (\<lambda>M y. Some y)) M
       (m1_iss_decryption x, m1_iss_data x))"

definition v1_inline_sops_secret_spec_cells ::
  "('f, 'om, 'lm) v1_cell list \<Rightarrow> m1_inline_sops_secret_spec \<Rightarrow> nat set" where
  "v1_inline_sops_secret_spec_cells M x = ptr_cells v1_as_decryption_spec (\<lambda>M y. {}) M (m1_iss_decryption x)
     \<union> slice_cells v1_as_data_mappings (\<lambda>M y. {}) M (m1_iss_data x)"

lemma v1_inline_sops_secret_spec_deep:
  "deep_copy v1_inline_sops_secret_spec_deep_copy_into v1_inline_sops_secret_spec_means v1_inline_sops_secret_spec_cells"
  unfolding v1_inline_sops_secret_spec_deep_copy_into_def [abs_def]
    v1_inline_sops_secret_spec_means_def [abs_def] v1_inline_sops_secret_spec_cells_def [abs_def]
  by (rule deep_copy_two_parts [OF deep_copy_pointer [OF deep_copy_value] deep_copy_values,
      where put = "\<lambda>y z x. x\<lparr>m1_iss_target := m1_iss_target x, m1_iss_decryption := y,
        m1_iss_data := z\<rparr>"
      and build = "\<lambda>x (v, w). v1_inline_sops_secret_spec_of x v w"]) (simp_all add:
        v1_inline_sops_secret_spec_of_def)

definition v1_inline_sops_secret_status_of ::
  "m1_inline_sops_secret_status \<Rightarrow> (condition list option) \<Rightarrow> v1_inline_sops_secret_status" where
  "v1_inline_sops_secret_status_of x cs =
     \<lparr>v1_ist_last_applied_hash = m1_ist_last_applied_hash x, v1_ist_last_token = m1_ist_last_token x,
       v1_ist_observed_generation = m1_ist_observed_generation x, v1_ist_conditions = condition_list cs\<rparr>"

definition v1_inline_sops_secret_status_means ::
  "('f, 'om, 'lm) v1_cell list \<Rightarrow> m1_inline_sops_secret_status
     \<Rightarrow> v1_inline_sops_secret_status option" where
  "v1_inline_sops_secret_status_means M x = map_option (v1_inline_sops_secret_status_of x)
     (slice_means v1_as_conditions (\<lambda>M y. Some y) M (m1_ist_conditions x))"

definition v1_inline_sops_secret_status_cells ::
  "('f, 'om, 'lm) v1_cell list \<Rightarrow> m1_inline_sops_secret_status \<Rightarrow> nat set" where
  "v1_inline_sops_secret_status_cells M x = slice_cells v1_as_conditions (\<lambda>M y. {}) M (m1_ist_conditions x)"

lemma v1_inline_sops_secret_status_deep:
  assumes "meta_deep X"
  shows "deep_copy (v1_inline_sops_secret_status_deep_copy_into X) v1_inline_sops_secret_status_means v1_inline_sops_secret_status_cells"
  unfolding v1_inline_sops_secret_status_deep_copy_into_def [abs_def]
    v1_inline_sops_secret_status_means_def [abs_def] v1_inline_sops_secret_status_cells_def [abs_def]
  by (rule deep_copy_part [OF deep_copy_slice [OF meta_deepD(3) [OF assms]],
    where put = "\<lambda>y x. x\<lparr>m1_ist_conditions := y\<rparr>"
      and build = v1_inline_sops_secret_status_of]) (simp_all add: v1_inline_sops_secret_status_of_def)

definition v1_sops_secret_manifest_spec_of ::
  "m1_sops_secret_manifest_spec \<Rightarrow> (v1_decryption_spec option) \<Rightarrow> v1_sops_secret_manifest_spec" where
  "v1_sops_secret_manifest_spec_of x d =
     \<lparr>v1_sms_source = m1_sms_source x, v1_sms_decryption = d, v1_sms_target = m1_sms_target x\<rparr>"

definition v1_sops_secret_manifest_spec_means ::
  "('f, 'om, 'lm) v1_cell list \<Rightarrow> m1_sops_secret_manifest_spec
     \<Rightarrow> v1_sops_secret_manifest_spec option" where
  "v1_sops_secret_manifest_spec_means M x = map_option (v1_sops_secret_manifest_spec_of x)
     (ptr_means v1_as_decryption_spec (\<lambda>M y. Some y) M (m1_sms_decryption x))"

definition v1_sops_secret_manifest_spec_cells ::
  "('f, 'om, 'lm) v1_cell list \<Rightarrow> m1_sops_secret_manifest_spec \<Rightarrow> nat set" where
  "v1_sops_secret_manifest_spec_cells M x =
     ptr_cells v1_as_decryption_spec (\<lambda>M y. {}) M (m1_sms_decryption x)"

lemma v1_sops_secret_manifest_spec_deep:
  "deep_copy v1_sops_secret_manifest_spec_deep_copy_into v1_sops_secret_manifest_spec_means v1_sops_secret_manifest_spec_cells"
  unfolding v1_sops_secret_manifest_spec_deep_copy_into_def [abs_def]
    v1_sops_secret_manifest_spec_means_def [abs_def] v1_sops_secret_manifest_spec_cells_def [abs_def]
  by (rule deep_copy_part [OF deep_copy_pointer [OF deep_copy_value],
    where put = "\<lambda>y x. x\<lparr>m1_sms_source := m1_sms_source x, m1_sms_target := m1_sms_target x,
      m1_sms_decryption := y\<rparr>"
      and build = v1_sops_secret_manifest_spec_of]) (simp_all add: v1_sops_secret_manifest_spec_of_def)

definition v1_sops_secret_manifest_status_of ::
  "m1_sops_secret_manifest_status \<Rightarrow> (condition list option) \<Rightarrow> v1_sops_secret_manifest_status" where
  "v1_sops_secret_manifest_status_of x cs =
     \<lparr>v1_smt_last_applied_hash = m1_smt_last_applied_hash x,
       v1_smt_last_synced_commit = m1_smt_last_synced_commit x, v1_smt_last_token = m1_smt_last_token x,
         v1_smt_observed_generation = m1_smt_observed_generation x, v1_smt_conditions = condition_list cs\<rparr>"

definition v1_sops_secret_manifest_status_means ::
  "('f, 'om, 'lm) v1_cell list \<Rightarrow> m1_sops_secret_manifest_status
     \<Rightarrow> v1_sops_secret_manifest_status option" where
  "v1_sops_secret_manifest_status_means M x = map_option (v1_sops_secret_manifest_status_of x)
     (slice_means v1_as_conditions (\<lambda>M y. Some y) M (m1_smt_conditions x))"

definition v1_sops_secret_manifest_status_cells ::
  "('f, 'om, 'lm) v1_cell list \<Rightarrow> m1_sops_secret_manifest_status \<Rightarrow> nat set" where
  "v1_sops_secret_manifest_status_cells M x = slice_cells v1_as_conditions (\<lambda>M y. {}) M (m1_smt_conditions x)"

lemma v1_sops_secret_manifest_status_deep:
  assumes "meta_deep X"
  shows "deep_copy (v1_sops_secret_manifest_status_deep_copy_into X) v1_sops_secret_manifest_status_means v1_sops_secret_manifest_status_cells"
  unfolding v1_sops_secret_manifest_status_deep_copy_into_def [abs_def]
    v1_sops_secret_manifest_status_means_def [abs_def] v1_sops_secret_manifest_status_cells_def [abs_def]
  by (rule deep_copy_part [OF deep_copy_slice [OF meta_deepD(3) [OF assms]],
    where put = "\<lambda>y x. x\<lparr>m1_smt_conditions := y\<rparr>"
      and build = v1_sops_secret_manifest_status_of]) (simp_all add: v1_sops_secret_manifest_status_of_def)

definition v1_sops_secret_spec_of ::
  "m1_sops_secret_spec \<Rightarrow> (v1_decryption_spec option) \<Rightarrow> (v1_data_mapping list option)
     \<Rightarrow> v1_sops_secret_spec" where
  "v1_sops_secret_spec_of x d mappings =
     \<lparr>v1_sss_source = m1_sss_source x, v1_sss_decryption = d, v1_sss_target = m1_sss_target x,
       v1_sss_data = mappings\<rparr>"

definition v1_sops_secret_spec_means ::
  "('f, 'om, 'lm) v1_cell list \<Rightarrow> m1_sops_secret_spec \<Rightarrow> v1_sops_secret_spec option" where
  "v1_sops_secret_spec_means M x = map_option (\<lambda>(v, w). v1_sops_secret_spec_of x v w)
     (both_mean (ptr_means v1_as_decryption_spec (\<lambda>M y. Some y)) (slice_means v1_as_data_mappings (\<lambda>M y. Some y)) M
       (m1_sss_decryption x, m1_sss_data x))"

definition v1_sops_secret_spec_cells ::
  "('f, 'om, 'lm) v1_cell list \<Rightarrow> m1_sops_secret_spec \<Rightarrow> nat set" where
  "v1_sops_secret_spec_cells M x = ptr_cells v1_as_decryption_spec (\<lambda>M y. {}) M (m1_sss_decryption x)
     \<union> slice_cells v1_as_data_mappings (\<lambda>M y. {}) M (m1_sss_data x)"

lemma v1_sops_secret_spec_deep:
  "deep_copy v1_sops_secret_spec_deep_copy_into v1_sops_secret_spec_means v1_sops_secret_spec_cells"
  unfolding v1_sops_secret_spec_deep_copy_into_def [abs_def]
    v1_sops_secret_spec_means_def [abs_def] v1_sops_secret_spec_cells_def [abs_def]
  by (rule deep_copy_two_parts [OF deep_copy_pointer [OF deep_copy_value] deep_copy_values,
      where put = "\<lambda>y z x. x\<lparr>m1_sss_source := m1_sss_source x, m1_sss_target := m1_sss_target x,
        m1_sss_decryption := y, m1_sss_data := z\<rparr>"
      and build = "\<lambda>x (v, w). v1_sops_secret_spec_of x v w"]) (simp_all add: v1_sops_secret_spec_of_def)

definition v1_sops_secret_status_of ::
  "m1_sops_secret_status \<Rightarrow> (condition list option) \<Rightarrow> v1_sops_secret_status" where
  "v1_sops_secret_status_of x cs =
     \<lparr>v1_sst_last_applied_hash = m1_sst_last_applied_hash x,
       v1_sst_last_synced_commit = m1_sst_last_synced_commit x, v1_sst_last_token = m1_sst_last_token x,
         v1_sst_observed_generation = m1_sst_observed_generation x, v1_sst_conditions = condition_list cs\<rparr>"

definition v1_sops_secret_status_means ::
  "('f, 'om, 'lm) v1_cell list \<Rightarrow> m1_sops_secret_status \<Rightarrow> v1_sops_secret_status option" where
  "v1_sops_secret_status_means M x = map_option (v1_sops_secret_status_of x)
     (slice_means v1_as_conditions (\<lambda>M y. Some y) M (m1_sst_conditions x))"

definition v1_sops_secret_status_cells ::
  "('f, 'om, 'lm) v1_cell list \<Rightarrow> m1_sops_secret_status \<Rightarrow> nat set" where
  "v1_sops_secret_status_cells M x = slice_cells v1_as_conditions (\<lambda>M y. {}) M (m1_sst_conditions x)"

lemma v1_sops_secret_status_deep:
  assumes "meta_deep X"
  shows "deep_copy (v1_sops_secret_status_deep_copy_into X) v1_sops_secret_status_means v1_sops_secret_status_cells"
  unfolding v1_sops_secret_status_deep_copy_into_def [abs_def]
    v1_sops_secret_status_means_def [abs_def] v1_sops_secret_status_cells_def [abs_def]
  by (rule deep_copy_part [OF deep_copy_slice [OF meta_deepD(3) [OF assms]],
    where put = "\<lambda>y x. x\<lparr>m1_sst_conditions := y\<rparr>"
      and build = v1_sops_secret_status_of]) (simp_all add: v1_sops_secret_status_of_def)

definition v1_git_repository_spec_of ::
  "m1_git_repository_spec \<Rightarrow> (v1_git_auth option) \<Rightarrow> v1_git_repository_spec" where
  "v1_git_repository_spec_of x a =
     \<lparr>v1_grs_url = m1_grs_url x, v1_grs_branch = m1_grs_branch x, v1_grs_revision = m1_grs_revision x,
       v1_grs_interval = m1_grs_interval x, v1_grs_auth = a\<rparr>"

definition v1_git_repository_spec_means ::
  "('f, 'om, 'lm) v1_cell list \<Rightarrow> m1_git_repository_spec \<Rightarrow> v1_git_repository_spec option" where
  "v1_git_repository_spec_means M x = map_option (v1_git_repository_spec_of x)
     (ptr_means v1_as_git_auth v1_git_auth_means M (m1_grs_auth x))"

definition v1_git_repository_spec_cells ::
  "('f, 'om, 'lm) v1_cell list \<Rightarrow> m1_git_repository_spec \<Rightarrow> nat set" where
  "v1_git_repository_spec_cells M x = ptr_cells v1_as_git_auth v1_git_auth_cells M (m1_grs_auth x)"

lemma v1_git_repository_spec_deep:
  "deep_copy v1_git_repository_spec_deep_copy_into v1_git_repository_spec_means v1_git_repository_spec_cells"
  unfolding v1_git_repository_spec_deep_copy_into_def [abs_def]
    v1_git_repository_spec_means_def [abs_def] v1_git_repository_spec_cells_def [abs_def]
  by (rule deep_copy_part [OF deep_copy_pointer [OF v1_git_auth_deep],
    where put = "\<lambda>y x. x\<lparr>m1_grs_interval := m1_grs_interval x, m1_grs_auth := y\<rparr>"
      and build = v1_git_repository_spec_of]) (simp_all add: v1_git_repository_spec_of_def)

definition v1_git_repository_means ::
  "('f, 'om, 'lm) v1_ext \<Rightarrow> ('f, 'om, 'lm) v1_cell list \<Rightarrow> 'om m1_git_repository
     \<Rightarrow> (type_meta \<times> v1_git_repository) option" where
  "v1_git_repository_means X = object_means X v1_git_repository_spec_means v1_git_repository_status_means
     (\<lambda>m s t. \<lparr>v1_gr_meta = m, v1_gr_spec = s, v1_gr_status = t\<rparr>)"

definition v1_git_repository_cells ::
  "('f, 'om, 'lm) v1_ext \<Rightarrow> ('f, 'om, 'lm) v1_cell list \<Rightarrow> 'om m1_git_repository
     \<Rightarrow> nat set" where
  "v1_git_repository_cells X = object_cells X v1_git_repository_spec_cells v1_git_repository_status_cells"

definition v1_git_repository_list_means ::
  "('f, 'om, 'lm) v1_ext \<Rightarrow> ('f, 'om, 'lm) v1_cell list \<Rightarrow> 'lm go_list
     \<Rightarrow> (type_meta \<times> list_meta \<times> (type_meta \<times> v1_git_repository) list option) option" where
  "v1_git_repository_list_means X = list_means X v1_as_git_repository_array (v1_git_repository_means X)"

lemma v1_git_repository_deep:
  assumes "meta_deep X"
  shows "deep_copy (v1_git_repository_deep_copy_into X) (v1_git_repository_means X) (v1_git_repository_cells X)"
  unfolding v1_git_repository_deep_copy_into_def v1_git_repository_means_def v1_git_repository_cells_def
  by (rule deep_copy_object [OF assms v1_git_repository_spec_deep v1_git_repository_status_deep [OF assms]])

lemma v1_git_repository_list_deep:
  assumes "meta_deep X"
  shows "deep_copy (v1_git_repository_list_deep_copy_into X) (v1_git_repository_list_means X)
    (list_cells X v1_as_git_repository_array (v1_git_repository_cells X))"
  unfolding v1_git_repository_list_deep_copy_into_def v1_git_repository_list_means_def
  by (rule deep_copy_list [OF assms v1_git_repository_deep [OF assms]]) simp

definition v1_inline_sops_secret_means ::
  "('f, 'om, 'lm) v1_ext \<Rightarrow> ('f, 'om, 'lm) v1_cell list \<Rightarrow> 'om m1_inline_sops_secret
     \<Rightarrow> (type_meta \<times> v1_inline_sops_secret) option" where
  "v1_inline_sops_secret_means X = object_means X v1_inline_sops_secret_spec_means v1_inline_sops_secret_status_means
     (\<lambda>m s t. \<lparr>v1_is_meta = m, v1_is_spec = s, v1_is_status = t\<rparr>)"

definition v1_inline_sops_secret_cells ::
  "('f, 'om, 'lm) v1_ext \<Rightarrow> ('f, 'om, 'lm) v1_cell list \<Rightarrow> 'om m1_inline_sops_secret
     \<Rightarrow> nat set" where
  "v1_inline_sops_secret_cells X = object_cells X v1_inline_sops_secret_spec_cells v1_inline_sops_secret_status_cells"

definition v1_inline_sops_secret_list_means ::
  "('f, 'om, 'lm) v1_ext \<Rightarrow> ('f, 'om, 'lm) v1_cell list \<Rightarrow> 'lm go_list
     \<Rightarrow> (type_meta \<times> list_meta \<times> (type_meta \<times> v1_inline_sops_secret) list option) option" where
  "v1_inline_sops_secret_list_means X = list_means X v1_as_inline_sops_secret_array (v1_inline_sops_secret_means X)"

lemma v1_inline_sops_secret_deep:
  assumes "meta_deep X"
  shows "deep_copy (v1_inline_sops_secret_deep_copy_into X) (v1_inline_sops_secret_means X) (v1_inline_sops_secret_cells X)"
  unfolding v1_inline_sops_secret_deep_copy_into_def v1_inline_sops_secret_means_def v1_inline_sops_secret_cells_def
  by (rule deep_copy_object [OF assms v1_inline_sops_secret_spec_deep v1_inline_sops_secret_status_deep [OF assms]])

lemma v1_inline_sops_secret_list_deep:
  assumes "meta_deep X"
  shows "deep_copy (v1_inline_sops_secret_list_deep_copy_into X) (v1_inline_sops_secret_list_means X)
    (list_cells X v1_as_inline_sops_secret_array (v1_inline_sops_secret_cells X))"
  unfolding v1_inline_sops_secret_list_deep_copy_into_def v1_inline_sops_secret_list_means_def
  by (rule deep_copy_list [OF assms v1_inline_sops_secret_deep [OF assms]]) simp

definition v1_sops_secret_means ::
  "('f, 'om, 'lm) v1_ext \<Rightarrow> ('f, 'om, 'lm) v1_cell list \<Rightarrow> 'om m1_sops_secret
     \<Rightarrow> (type_meta \<times> v1_sops_secret) option" where
  "v1_sops_secret_means X = object_means X v1_sops_secret_spec_means v1_sops_secret_status_means
     (\<lambda>m s t. \<lparr>v1_ss_meta = m, v1_ss_spec = s, v1_ss_status = t\<rparr>)"

definition v1_sops_secret_cells ::
  "('f, 'om, 'lm) v1_ext \<Rightarrow> ('f, 'om, 'lm) v1_cell list \<Rightarrow> 'om m1_sops_secret
     \<Rightarrow> nat set" where
  "v1_sops_secret_cells X = object_cells X v1_sops_secret_spec_cells v1_sops_secret_status_cells"

definition v1_sops_secret_list_means ::
  "('f, 'om, 'lm) v1_ext \<Rightarrow> ('f, 'om, 'lm) v1_cell list \<Rightarrow> 'lm go_list
     \<Rightarrow> (type_meta \<times> list_meta \<times> (type_meta \<times> v1_sops_secret) list option) option" where
  "v1_sops_secret_list_means X = list_means X v1_as_sops_secret_array (v1_sops_secret_means X)"

lemma v1_sops_secret_deep:
  assumes "meta_deep X"
  shows "deep_copy (v1_sops_secret_deep_copy_into X) (v1_sops_secret_means X) (v1_sops_secret_cells X)"
  unfolding v1_sops_secret_deep_copy_into_def v1_sops_secret_means_def v1_sops_secret_cells_def
  by (rule deep_copy_object [OF assms v1_sops_secret_spec_deep v1_sops_secret_status_deep [OF assms]])

lemma v1_sops_secret_list_deep:
  assumes "meta_deep X"
  shows "deep_copy (v1_sops_secret_list_deep_copy_into X) (v1_sops_secret_list_means X)
    (list_cells X v1_as_sops_secret_array (v1_sops_secret_cells X))"
  unfolding v1_sops_secret_list_deep_copy_into_def v1_sops_secret_list_means_def
  by (rule deep_copy_list [OF assms v1_sops_secret_deep [OF assms]]) simp

definition v1_sops_secret_manifest_means ::
  "('f, 'om, 'lm) v1_ext \<Rightarrow> ('f, 'om, 'lm) v1_cell list \<Rightarrow> 'om m1_sops_secret_manifest
     \<Rightarrow> (type_meta \<times> v1_sops_secret_manifest) option" where
  "v1_sops_secret_manifest_means X =
     object_means X v1_sops_secret_manifest_spec_means v1_sops_secret_manifest_status_means
     (\<lambda>m s t. \<lparr>v1_sm_meta = m, v1_sm_spec = s, v1_sm_status = t\<rparr>)"

definition v1_sops_secret_manifest_cells ::
  "('f, 'om, 'lm) v1_ext \<Rightarrow> ('f, 'om, 'lm) v1_cell list \<Rightarrow> 'om m1_sops_secret_manifest
     \<Rightarrow> nat set" where
  "v1_sops_secret_manifest_cells X =
     object_cells X v1_sops_secret_manifest_spec_cells v1_sops_secret_manifest_status_cells"

definition v1_sops_secret_manifest_list_means ::
  "('f, 'om, 'lm) v1_ext \<Rightarrow> ('f, 'om, 'lm) v1_cell list \<Rightarrow> 'lm go_list
     \<Rightarrow> (type_meta \<times> list_meta \<times> (type_meta \<times> v1_sops_secret_manifest) list option) option" where
  "v1_sops_secret_manifest_list_means X =
     list_means X v1_as_sops_secret_manifest_array (v1_sops_secret_manifest_means X)"

lemma v1_sops_secret_manifest_deep:
  assumes "meta_deep X"
  shows "deep_copy (v1_sops_secret_manifest_deep_copy_into X) (v1_sops_secret_manifest_means X) (v1_sops_secret_manifest_cells X)"
  unfolding v1_sops_secret_manifest_deep_copy_into_def v1_sops_secret_manifest_means_def v1_sops_secret_manifest_cells_def
  by (rule deep_copy_object [OF assms v1_sops_secret_manifest_spec_deep v1_sops_secret_manifest_status_deep [OF assms]])

lemma v1_sops_secret_manifest_list_deep:
  assumes "meta_deep X"
  shows "deep_copy (v1_sops_secret_manifest_list_deep_copy_into X) (v1_sops_secret_manifest_list_means X)
    (list_cells X v1_as_sops_secret_manifest_array (v1_sops_secret_manifest_cells X))"
  unfolding v1_sops_secret_manifest_list_deep_copy_into_def v1_sops_secret_manifest_list_means_def
  by (rule deep_copy_list [OF assms v1_sops_secret_manifest_deep [OF assms]]) simp

text \<open>A pointer to a resource, and to a list.\<close>

definition v1_git_repository_at ::
  "('f, 'om, 'lm) v1_ext \<Rightarrow> ('f, 'om, 'lm) v1_cell list \<Rightarrow> nat option
     \<Rightarrow> (type_meta \<times> v1_git_repository) option option" where
  "v1_git_repository_at X = ptr_means v1_as_git_repository (v1_git_repository_means X)"

lemma v1_git_repository_isolated:
  assumes "meta_deep X"
  shows "isolated_copy (v1_git_repository_deep_copy X) (v1_git_repository_at X)"
  unfolding v1_git_repository_deep_copy_def v1_git_repository_at_def
  by (rule deep_copy_isolated [OF deep_copy_pointer [OF v1_git_repository_deep [OF assms]]]) simp

definition v1_inline_sops_secret_at ::
  "('f, 'om, 'lm) v1_ext \<Rightarrow> ('f, 'om, 'lm) v1_cell list \<Rightarrow> nat option
     \<Rightarrow> (type_meta \<times> v1_inline_sops_secret) option option" where
  "v1_inline_sops_secret_at X = ptr_means v1_as_inline_sops_secret (v1_inline_sops_secret_means X)"

lemma v1_inline_sops_secret_isolated:
  assumes "meta_deep X"
  shows "isolated_copy (v1_inline_sops_secret_deep_copy X) (v1_inline_sops_secret_at X)"
  unfolding v1_inline_sops_secret_deep_copy_def v1_inline_sops_secret_at_def
  by (rule deep_copy_isolated [OF deep_copy_pointer [OF v1_inline_sops_secret_deep [OF assms]]]) simp

definition v1_sops_secret_at ::
  "('f, 'om, 'lm) v1_ext \<Rightarrow> ('f, 'om, 'lm) v1_cell list \<Rightarrow> nat option
     \<Rightarrow> (type_meta \<times> v1_sops_secret) option option" where
  "v1_sops_secret_at X = ptr_means v1_as_sops_secret (v1_sops_secret_means X)"

lemma v1_sops_secret_isolated:
  assumes "meta_deep X"
  shows "isolated_copy (v1_sops_secret_deep_copy X) (v1_sops_secret_at X)"
  unfolding v1_sops_secret_deep_copy_def v1_sops_secret_at_def
  by (rule deep_copy_isolated [OF deep_copy_pointer [OF v1_sops_secret_deep [OF assms]]]) simp

definition v1_sops_secret_manifest_at ::
  "('f, 'om, 'lm) v1_ext \<Rightarrow> ('f, 'om, 'lm) v1_cell list \<Rightarrow> nat option
     \<Rightarrow> (type_meta \<times> v1_sops_secret_manifest) option option" where
  "v1_sops_secret_manifest_at X = ptr_means v1_as_sops_secret_manifest (v1_sops_secret_manifest_means X)"

lemma v1_sops_secret_manifest_isolated:
  assumes "meta_deep X"
  shows "isolated_copy (v1_sops_secret_manifest_deep_copy X) (v1_sops_secret_manifest_at X)"
  unfolding v1_sops_secret_manifest_deep_copy_def v1_sops_secret_manifest_at_def
  by (rule deep_copy_isolated [OF deep_copy_pointer [OF v1_sops_secret_manifest_deep [OF assms]]]) simp

definition v1_git_repository_list_at ::
  "('f, 'om, 'lm) v1_ext \<Rightarrow> ('f, 'om, 'lm) v1_cell list \<Rightarrow> nat option
     \<Rightarrow> (type_meta \<times> list_meta \<times> (type_meta \<times> v1_git_repository) list option) option option" where
  "v1_git_repository_list_at X = ptr_means v1_as_git_repository_list (v1_git_repository_list_means X)"

lemma v1_git_repository_list_isolated:
  assumes "meta_deep X"
  shows "isolated_copy (v1_git_repository_list_deep_copy X) (v1_git_repository_list_at X)"
  unfolding v1_git_repository_list_deep_copy_def v1_git_repository_list_at_def
  by (rule deep_copy_isolated [OF deep_copy_pointer [OF v1_git_repository_list_deep [OF assms]]]) simp

definition v1_inline_sops_secret_list_at ::
  "('f, 'om, 'lm) v1_ext \<Rightarrow> ('f, 'om, 'lm) v1_cell list \<Rightarrow> nat option
     \<Rightarrow> (type_meta \<times> list_meta \<times> (type_meta \<times> v1_inline_sops_secret) list option) option option" where
  "v1_inline_sops_secret_list_at X = ptr_means v1_as_inline_sops_secret_list (v1_inline_sops_secret_list_means X)"

lemma v1_inline_sops_secret_list_isolated:
  assumes "meta_deep X"
  shows "isolated_copy (v1_inline_sops_secret_list_deep_copy X) (v1_inline_sops_secret_list_at X)"
  unfolding v1_inline_sops_secret_list_deep_copy_def v1_inline_sops_secret_list_at_def
  by (rule deep_copy_isolated [OF deep_copy_pointer [OF v1_inline_sops_secret_list_deep [OF assms]]]) simp

definition v1_sops_secret_list_at ::
  "('f, 'om, 'lm) v1_ext \<Rightarrow> ('f, 'om, 'lm) v1_cell list \<Rightarrow> nat option
     \<Rightarrow> (type_meta \<times> list_meta \<times> (type_meta \<times> v1_sops_secret) list option) option option" where
  "v1_sops_secret_list_at X = ptr_means v1_as_sops_secret_list (v1_sops_secret_list_means X)"

lemma v1_sops_secret_list_isolated:
  assumes "meta_deep X"
  shows "isolated_copy (v1_sops_secret_list_deep_copy X) (v1_sops_secret_list_at X)"
  unfolding v1_sops_secret_list_deep_copy_def v1_sops_secret_list_at_def
  by (rule deep_copy_isolated [OF deep_copy_pointer [OF v1_sops_secret_list_deep [OF assms]]]) simp

definition v1_sops_secret_manifest_list_at ::
  "('f, 'om, 'lm) v1_ext \<Rightarrow> ('f, 'om, 'lm) v1_cell list \<Rightarrow> nat option
     \<Rightarrow> (type_meta \<times> list_meta \<times> (type_meta \<times> v1_sops_secret_manifest) list option) option option" where
  "v1_sops_secret_manifest_list_at X =
     ptr_means v1_as_sops_secret_manifest_list (v1_sops_secret_manifest_list_means X)"

lemma v1_sops_secret_manifest_list_isolated:
  assumes "meta_deep X"
  shows "isolated_copy (v1_sops_secret_manifest_list_deep_copy X) (v1_sops_secret_manifest_list_at X)"
  unfolding v1_sops_secret_manifest_list_deep_copy_def v1_sops_secret_manifest_list_at_def
  by (rule deep_copy_isolated [OF deep_copy_pointer [OF v1_sops_secret_manifest_list_deep [OF assms]]]) simp

text \<open>The specs that need nothing of apimachinery are deep copies as they stand.\<close>

interpretation v1_git_auth: deep_copy v1_git_auth_deep_copy_into v1_git_auth_means v1_git_auth_cells
  by (rule v1_git_auth_deep)

interpretation v1_inline_sops_secret_spec:
  deep_copy v1_inline_sops_secret_spec_deep_copy_into v1_inline_sops_secret_spec_means v1_inline_sops_secret_spec_cells
  by (rule v1_inline_sops_secret_spec_deep)

interpretation v1_sops_secret_manifest_spec:
  deep_copy v1_sops_secret_manifest_spec_deep_copy_into v1_sops_secret_manifest_spec_means v1_sops_secret_manifest_spec_cells
  by (rule v1_sops_secret_manifest_spec_deep)

interpretation v1_sops_secret_spec:
  deep_copy v1_sops_secret_spec_deep_copy_into v1_sops_secret_spec_means v1_sops_secret_spec_cells
  by (rule v1_sops_secret_spec_deep)

interpretation v1_git_repository_spec:
  deep_copy v1_git_repository_spec_deep_copy_into v1_git_repository_spec_means v1_git_repository_spec_cells
  by (rule v1_git_repository_spec_deep)

section \<open>Resources and lists\<close>

text \<open>
A deep copy of a v1alpha1 resource, or of a list of them, stands for the same value and shares no
memory with the original: whatever is written through the one leaves what the other stands for as it
is.
\<close>

lemma v1alpha1_deep_copies_isolated:
  assumes "meta_deep X"
  shows "isolated_copy (v1_git_repository_deep_copy X) (v1_git_repository_at X)
    \<and> isolated_copy (v1_inline_sops_secret_deep_copy X) (v1_inline_sops_secret_at X)
    \<and> isolated_copy (v1_sops_secret_deep_copy X) (v1_sops_secret_at X)
    \<and> isolated_copy (v1_sops_secret_manifest_deep_copy X) (v1_sops_secret_manifest_at X)
    \<and> isolated_copy (v1_git_repository_list_deep_copy X) (v1_git_repository_list_at X)
    \<and> isolated_copy (v1_inline_sops_secret_list_deep_copy X) (v1_inline_sops_secret_list_at X)
    \<and> isolated_copy (v1_sops_secret_list_deep_copy X) (v1_sops_secret_list_at X)
    \<and> isolated_copy (v1_sops_secret_manifest_list_deep_copy X) (v1_sops_secret_manifest_list_at X)"
  using v1_git_repository_isolated [OF assms]
    v1_inline_sops_secret_isolated [OF assms]
    v1_sops_secret_isolated [OF assms]
    v1_sops_secret_manifest_isolated [OF assms]
    v1_git_repository_list_isolated [OF assms]
    v1_inline_sops_secret_list_isolated [OF assms]
    v1_sops_secret_list_isolated [OF assms]
    v1_sops_secret_manifest_list_isolated [OF assms]
  by blast

text \<open>
A repository whose auth points to a Secret reference, and its labels and conditions in cells of their
own: after the reference is overwritten the copy is what it was.
\<close>

definition v1_sample_ext :: "(meta_cell, mem_meta, list_meta) v1_ext" where
  "v1_sample_ext = mem_meta_ext V1Foreign v1_as_foreign"

definition v1_sample_memory :: "(meta_cell, mem_meta, list_meta) v1_cell list" where
  "v1_sample_memory =
     [V1Plain (V1SecretReference \<lparr>v1_sr_name = ''token'', v1_sr_namespace = []\<rparr>),
      V1Struct (V1GitAuth \<lparr>m1_ga_type = ''basic'', m1_ga_secret_ref = Some 0\<rparr>),
      V1Foreign (LabelsCell (Some [(''app'', ''x'')])),
      V1Collection (V1Conditions [\<lparr>c_type = ''SourceReady'', c_status = ''True'', c_reason = ''Cloned'',
        c_message = []\<rparr>]),
      V1Struct (V1GitRepository \<lparr>go_type_meta = \<lparr>tm_kind = ''GitRepository'',
        tm_api_version = ''sops/v1alpha1''\<rparr>,
        go_meta = \<lparr>mm_plain = empty_meta, mm_labels = Some 2\<rparr>,
        go_spec = \<lparr>m1_grs_url = ''u'', m1_grs_branch = ''main'', m1_grs_revision = [], m1_grs_interval = 0,
          m1_grs_auth = Some 1\<rparr>,
        go_status = \<lparr>m1_grt_last_synced_commit = [], m1_grt_cache_ready = True, m1_grt_last_token = [],
          m1_grt_observed_generation = 1, m1_grt_conditions = Slice 3 0 1\<rparr>\<rparr>)]"

definition v1_sample_value :: v1_git_repository where
  "v1_sample_value =
     \<lparr>v1_gr_meta = empty_meta\<lparr>om_labels := Some [(''app'', ''x'')]\<rparr>,
      v1_gr_spec = \<lparr>v1_grs_url = ''u'', v1_grs_branch = ''main'', v1_grs_revision = [], v1_grs_interval = 0,
        v1_grs_auth = Some \<lparr>v1_ga_type = ''basic'', v1_ga_secret_ref = Some \<lparr>v1_sr_name = ''token'',
          v1_sr_namespace = []\<rparr>\<rparr>\<rparr>,
      v1_gr_status = \<lparr>v1_grt_last_synced_commit = [], v1_grt_cache_ready = True, v1_grt_last_token = [],
        v1_grt_observed_generation = 1,
        v1_grt_conditions = [\<lparr>c_type = ''SourceReady'', c_status = ''True'', c_reason = ''Cloned'',
          c_message = []\<rparr>]\<rparr>\<rparr>"

lemma v1_sample_ext_deep: "meta_deep v1_sample_ext"
  unfolding v1_sample_ext_def by (rule mem_meta_deep) simp

lemma v1_sample_means:
  "v1_git_repository_at v1_sample_ext v1_sample_memory (Some 4)
    = Some (Some (\<lparr>tm_kind = ''GitRepository'', tm_api_version = ''sops/v1alpha1''\<rparr>, v1_sample_value))"
  by code_simp

end
