(* ===== verification/DeepCopy2.thy ===== *)
theory DeepCopy2
  imports GoMemory
begin

text \<open>
  \<open>api/v1alpha2/zz_generated.deepcopy.go\<close>: \<open>DeepCopyInto\<close>,
    \<open>DeepCopy\<close> and \<open>DeepCopyObject\<close> of every
  type of the version, over the memory of \<open>GoMemory\<close>. A structure without pointers is the value of
  \<open>ApiTypes\<close>; one with pointers has a record here (prefix \<open>m2_\<close>) with addresses and slices in their
  place. \<open>DeepCopyInto\<close> gives the value that it leaves in \<open>*out\<close>. \<open>X\<close> is apimachinery.
\<close>

section \<open>Structures in memory\<close>

record m2_git_auth =
  m2_ga_type :: string
  m2_ga_secret_ref :: "nat option"

record m2_git_repository_status =
  m2_grt_last_synced_commit :: string
  m2_grt_cache_ready :: bool
  m2_grt_last_token :: string
  m2_grt_observed_generation :: int
  m2_grt_conditions :: slice

record m2_inline_sops_secret_spec =
  m2_iss_mode :: string
  m2_iss_encrypted_yaml :: string
  m2_iss_decryption :: "nat option"
  m2_iss_target :: v2_inline_target
  m2_iss_data :: slice

record m2_inline_sops_secret_status =
  m2_ist_last_applied_hash :: string
  m2_ist_last_token :: string
  m2_ist_observed_generation :: int
  m2_ist_conditions :: slice

record m2_object_auth =
  m2_oa_type :: string
  m2_oa_secret_ref :: "nat option"

record m2_object_source_status =
  m2_ost_last_synced_etag :: string
  m2_ost_last_synced_at :: "nat option"
  m2_ost_cache_ready :: bool
  m2_ost_last_token :: string
  m2_ost_observed_generation :: int
  m2_ost_conditions :: slice

record m2_sops_secret_manifest_spec =
  m2_sms_source :: v2_source_ref
  m2_sms_decryption :: "nat option"
  m2_sms_target :: v2_manifest_target

record m2_sops_secret_manifest_status =
  m2_smt_last_applied_hash :: string
  m2_smt_last_synced_commit :: string
  m2_smt_last_token :: string
  m2_smt_observed_generation :: int
  m2_smt_conditions :: slice

record m2_sops_secret_spec =
  m2_sss_source :: v2_source_ref
  m2_sss_decryption :: "nat option"
  m2_sss_target :: v2_mapping_target
  m2_sss_data :: slice

record m2_sops_secret_status =
  m2_sst_last_applied_hash :: string
  m2_sst_last_synced_commit :: string
  m2_sst_last_token :: string
  m2_sst_observed_generation :: int
  m2_sst_conditions :: slice

record m2_git_repository_spec =
  m2_grs_url :: string
  m2_grs_branch :: string
  m2_grs_revision :: string
  m2_grs_interval :: int
  m2_grs_auth :: "nat option"

record m2_object_source_spec =
  m2_oss_url :: string
  m2_oss_bucket :: "nat option"
  m2_oss_interval :: int
  m2_oss_auth :: "nat option"

type_synonym 'om m2_git_repository = "('om, m2_git_repository_spec, m2_git_repository_status) go_object"
type_synonym 'om m2_inline_sops_secret = "('om, m2_inline_sops_secret_spec, m2_inline_sops_secret_status) go_object"
type_synonym 'om m2_object_source = "('om, m2_object_source_spec, m2_object_source_status) go_object"
type_synonym 'om m2_sops_secret = "('om, m2_sops_secret_spec, m2_sops_secret_status) go_object"
type_synonym 'om m2_sops_secret_manifest = "('om, m2_sops_secret_manifest_spec, m2_sops_secret_manifest_status) go_object"

text \<open>The types that a pointer can point to; \<open>'f\<close> are the cells of apimachinery.\<close>

datatype v2_plain =
    V2BucketSpec v2_bucket_spec
  | V2DataMapping v2_data_mapping
  | V2DecryptionSpec v2_decryption_spec
  | V2InlineTarget v2_inline_target
  | V2LocalObjectReference v2_local_object_reference
  | V2ManifestTarget v2_manifest_target
  | V2MappingTarget v2_mapping_target
  | V2SecretKeyRef v2_secret_key_ref
  | V2SecretReference v2_secret_reference
  | V2SourceKindRef v2_source_kind_ref
  | V2SourceRef v2_source_ref

datatype 'om v2_struct =
    V2GitAuth m2_git_auth
  | V2GitRepository "'om m2_git_repository"
  | V2GitRepositorySpec m2_git_repository_spec
  | V2GitRepositoryStatus m2_git_repository_status
  | V2InlineSopsSecret "'om m2_inline_sops_secret"
  | V2InlineSopsSecretSpec m2_inline_sops_secret_spec
  | V2InlineSopsSecretStatus m2_inline_sops_secret_status
  | V2ObjectAuth m2_object_auth
  | V2ObjectSource "'om m2_object_source"
  | V2ObjectSourceSpec m2_object_source_spec
  | V2ObjectSourceStatus m2_object_source_status
  | V2SopsSecret "'om m2_sops_secret"
  | V2SopsSecretManifest "'om m2_sops_secret_manifest"
  | V2SopsSecretManifestSpec m2_sops_secret_manifest_spec
  | V2SopsSecretManifestStatus m2_sops_secret_manifest_status
  | V2SopsSecretSpec m2_sops_secret_spec
  | V2SopsSecretStatus m2_sops_secret_status

datatype ('om, 'lm) v2_collection =
    V2GitRepositoryList "'lm go_list"
  | V2InlineSopsSecretList "'lm go_list"
  | V2ObjectSourceList "'lm go_list"
  | V2SopsSecretList "'lm go_list"
  | V2SopsSecretManifestList "'lm go_list"
  | V2Conditions "condition list"
  | V2DataMappings "v2_data_mapping list"
  | V2GitRepositoryArray "'om m2_git_repository list"
  | V2InlineSopsSecretArray "'om m2_inline_sops_secret list"
  | V2ObjectSourceArray "'om m2_object_source list"
  | V2SopsSecretArray "'om m2_sops_secret list"
  | V2SopsSecretManifestArray "'om m2_sops_secret_manifest list"

datatype ('f, 'om, 'lm) v2_cell =
    V2Foreign 'f
  | V2Plain v2_plain
  | V2Struct "'om v2_struct"
  | V2Collection "('om, 'lm) v2_collection"

type_synonym ('f, 'om, 'lm) v2_ext = "(('f, 'om, 'lm) v2_cell, 'om, 'lm) meta_ext"

definition v2_as_foreign :: "('f, 'om, 'lm) v2_cell \<Rightarrow> 'f option" where
  "v2_as_foreign c = (case c of V2Foreign x \<Rightarrow> Some x | _ \<Rightarrow> None)"

definition v2_as_bucket_spec :: "('f, 'om, 'lm) v2_cell \<Rightarrow> v2_bucket_spec option" where
  "v2_as_bucket_spec c = (case c of V2Plain (V2BucketSpec x) \<Rightarrow> Some x | _ \<Rightarrow> None)"

definition v2_as_data_mapping :: "('f, 'om, 'lm) v2_cell \<Rightarrow> v2_data_mapping option" where
  "v2_as_data_mapping c = (case c of V2Plain (V2DataMapping x) \<Rightarrow> Some x | _ \<Rightarrow> None)"

definition v2_as_decryption_spec :: "('f, 'om, 'lm) v2_cell \<Rightarrow> v2_decryption_spec option" where
  "v2_as_decryption_spec c = (case c of V2Plain (V2DecryptionSpec x) \<Rightarrow> Some x | _ \<Rightarrow> None)"

definition v2_as_inline_target :: "('f, 'om, 'lm) v2_cell \<Rightarrow> v2_inline_target option" where
  "v2_as_inline_target c = (case c of V2Plain (V2InlineTarget x) \<Rightarrow> Some x | _ \<Rightarrow> None)"

definition v2_as_local_object_reference ::
  "('f, 'om, 'lm) v2_cell \<Rightarrow> v2_local_object_reference option" where
  "v2_as_local_object_reference c = (case c of V2Plain (V2LocalObjectReference x) \<Rightarrow> Some x | _
     \<Rightarrow> None)"

definition v2_as_manifest_target :: "('f, 'om, 'lm) v2_cell \<Rightarrow> v2_manifest_target option" where
  "v2_as_manifest_target c = (case c of V2Plain (V2ManifestTarget x) \<Rightarrow> Some x | _ \<Rightarrow> None)"

definition v2_as_mapping_target :: "('f, 'om, 'lm) v2_cell \<Rightarrow> v2_mapping_target option" where
  "v2_as_mapping_target c = (case c of V2Plain (V2MappingTarget x) \<Rightarrow> Some x | _ \<Rightarrow> None)"

definition v2_as_secret_key_ref :: "('f, 'om, 'lm) v2_cell \<Rightarrow> v2_secret_key_ref option" where
  "v2_as_secret_key_ref c = (case c of V2Plain (V2SecretKeyRef x) \<Rightarrow> Some x | _ \<Rightarrow> None)"

definition v2_as_secret_reference :: "('f, 'om, 'lm) v2_cell \<Rightarrow> v2_secret_reference option" where
  "v2_as_secret_reference c = (case c of V2Plain (V2SecretReference x) \<Rightarrow> Some x | _ \<Rightarrow> None)"

definition v2_as_source_kind_ref :: "('f, 'om, 'lm) v2_cell \<Rightarrow> v2_source_kind_ref option" where
  "v2_as_source_kind_ref c = (case c of V2Plain (V2SourceKindRef x) \<Rightarrow> Some x | _ \<Rightarrow> None)"

definition v2_as_source_ref :: "('f, 'om, 'lm) v2_cell \<Rightarrow> v2_source_ref option" where
  "v2_as_source_ref c = (case c of V2Plain (V2SourceRef x) \<Rightarrow> Some x | _ \<Rightarrow> None)"

definition v2_as_git_auth :: "('f, 'om, 'lm) v2_cell \<Rightarrow> m2_git_auth option" where
  "v2_as_git_auth c = (case c of V2Struct (V2GitAuth x) \<Rightarrow> Some x | _ \<Rightarrow> None)"

definition v2_as_git_repository :: "('f, 'om, 'lm) v2_cell \<Rightarrow> ('om m2_git_repository) option" where
  "v2_as_git_repository c = (case c of V2Struct (V2GitRepository x) \<Rightarrow> Some x | _ \<Rightarrow> None)"

definition v2_as_git_repository_spec :: "('f, 'om, 'lm) v2_cell \<Rightarrow> m2_git_repository_spec option" where
  "v2_as_git_repository_spec c = (case c of V2Struct (V2GitRepositorySpec x) \<Rightarrow> Some x | _ \<Rightarrow> None)"

definition v2_as_git_repository_status :: "('f, 'om, 'lm) v2_cell \<Rightarrow> m2_git_repository_status option" where
  "v2_as_git_repository_status c = (case c of V2Struct (V2GitRepositoryStatus x) \<Rightarrow> Some x | _
     \<Rightarrow> None)"

definition v2_as_inline_sops_secret :: "('f, 'om, 'lm) v2_cell \<Rightarrow> ('om m2_inline_sops_secret) option" where
  "v2_as_inline_sops_secret c = (case c of V2Struct (V2InlineSopsSecret x) \<Rightarrow> Some x | _ \<Rightarrow> None)"

definition v2_as_inline_sops_secret_spec ::
  "('f, 'om, 'lm) v2_cell \<Rightarrow> m2_inline_sops_secret_spec option" where
  "v2_as_inline_sops_secret_spec c = (case c of V2Struct (V2InlineSopsSecretSpec x) \<Rightarrow> Some x | _
     \<Rightarrow> None)"

definition v2_as_inline_sops_secret_status ::
  "('f, 'om, 'lm) v2_cell \<Rightarrow> m2_inline_sops_secret_status option" where
  "v2_as_inline_sops_secret_status c = (case c of V2Struct (V2InlineSopsSecretStatus x) \<Rightarrow> Some x | _
     \<Rightarrow> None)"

definition v2_as_object_auth :: "('f, 'om, 'lm) v2_cell \<Rightarrow> m2_object_auth option" where
  "v2_as_object_auth c = (case c of V2Struct (V2ObjectAuth x) \<Rightarrow> Some x | _ \<Rightarrow> None)"

definition v2_as_object_source :: "('f, 'om, 'lm) v2_cell \<Rightarrow> ('om m2_object_source) option" where
  "v2_as_object_source c = (case c of V2Struct (V2ObjectSource x) \<Rightarrow> Some x | _ \<Rightarrow> None)"

definition v2_as_object_source_spec :: "('f, 'om, 'lm) v2_cell \<Rightarrow> m2_object_source_spec option" where
  "v2_as_object_source_spec c = (case c of V2Struct (V2ObjectSourceSpec x) \<Rightarrow> Some x | _ \<Rightarrow> None)"

definition v2_as_object_source_status :: "('f, 'om, 'lm) v2_cell \<Rightarrow> m2_object_source_status option" where
  "v2_as_object_source_status c = (case c of V2Struct (V2ObjectSourceStatus x) \<Rightarrow> Some x | _ \<Rightarrow> None)"

definition v2_as_sops_secret :: "('f, 'om, 'lm) v2_cell \<Rightarrow> ('om m2_sops_secret) option" where
  "v2_as_sops_secret c = (case c of V2Struct (V2SopsSecret x) \<Rightarrow> Some x | _ \<Rightarrow> None)"

definition v2_as_sops_secret_manifest ::
  "('f, 'om, 'lm) v2_cell \<Rightarrow> ('om m2_sops_secret_manifest) option" where
  "v2_as_sops_secret_manifest c = (case c of V2Struct (V2SopsSecretManifest x) \<Rightarrow> Some x | _ \<Rightarrow> None)"

definition v2_as_sops_secret_manifest_spec ::
  "('f, 'om, 'lm) v2_cell \<Rightarrow> m2_sops_secret_manifest_spec option" where
  "v2_as_sops_secret_manifest_spec c = (case c of V2Struct (V2SopsSecretManifestSpec x) \<Rightarrow> Some x | _
     \<Rightarrow> None)"

definition v2_as_sops_secret_manifest_status ::
  "('f, 'om, 'lm) v2_cell \<Rightarrow> m2_sops_secret_manifest_status option" where
  "v2_as_sops_secret_manifest_status c = (case c of V2Struct (V2SopsSecretManifestStatus x) \<Rightarrow> Some x | _
     \<Rightarrow> None)"

definition v2_as_sops_secret_spec :: "('f, 'om, 'lm) v2_cell \<Rightarrow> m2_sops_secret_spec option" where
  "v2_as_sops_secret_spec c = (case c of V2Struct (V2SopsSecretSpec x) \<Rightarrow> Some x | _ \<Rightarrow> None)"

definition v2_as_sops_secret_status :: "('f, 'om, 'lm) v2_cell \<Rightarrow> m2_sops_secret_status option" where
  "v2_as_sops_secret_status c = (case c of V2Struct (V2SopsSecretStatus x) \<Rightarrow> Some x | _ \<Rightarrow> None)"

definition v2_as_git_repository_list :: "('f, 'om, 'lm) v2_cell \<Rightarrow> ('lm go_list) option" where
  "v2_as_git_repository_list c = (case c of V2Collection (V2GitRepositoryList x) \<Rightarrow> Some x | _
     \<Rightarrow> None)"

definition v2_as_inline_sops_secret_list :: "('f, 'om, 'lm) v2_cell \<Rightarrow> ('lm go_list) option" where
  "v2_as_inline_sops_secret_list c = (case c of V2Collection (V2InlineSopsSecretList x) \<Rightarrow> Some x | _
     \<Rightarrow> None)"

definition v2_as_object_source_list :: "('f, 'om, 'lm) v2_cell \<Rightarrow> ('lm go_list) option" where
  "v2_as_object_source_list c = (case c of V2Collection (V2ObjectSourceList x) \<Rightarrow> Some x | _ \<Rightarrow> None)"

definition v2_as_sops_secret_list :: "('f, 'om, 'lm) v2_cell \<Rightarrow> ('lm go_list) option" where
  "v2_as_sops_secret_list c = (case c of V2Collection (V2SopsSecretList x) \<Rightarrow> Some x | _ \<Rightarrow> None)"

definition v2_as_sops_secret_manifest_list :: "('f, 'om, 'lm) v2_cell \<Rightarrow> ('lm go_list) option" where
  "v2_as_sops_secret_manifest_list c = (case c of V2Collection (V2SopsSecretManifestList x) \<Rightarrow> Some x | _
     \<Rightarrow> None)"

definition v2_as_conditions :: "('f, 'om, 'lm) v2_cell \<Rightarrow> (condition list) option" where
  "v2_as_conditions c = (case c of V2Collection (V2Conditions x) \<Rightarrow> Some x | _ \<Rightarrow> None)"

definition v2_as_data_mappings :: "('f, 'om, 'lm) v2_cell \<Rightarrow> (v2_data_mapping list) option" where
  "v2_as_data_mappings c = (case c of V2Collection (V2DataMappings x) \<Rightarrow> Some x | _ \<Rightarrow> None)"

definition v2_as_git_repository_array ::
  "('f, 'om, 'lm) v2_cell \<Rightarrow> ('om m2_git_repository list) option" where
  "v2_as_git_repository_array c = (case c of V2Collection (V2GitRepositoryArray x) \<Rightarrow> Some x | _
     \<Rightarrow> None)"

definition v2_as_inline_sops_secret_array ::
  "('f, 'om, 'lm) v2_cell \<Rightarrow> ('om m2_inline_sops_secret list) option" where
  "v2_as_inline_sops_secret_array c = (case c of V2Collection (V2InlineSopsSecretArray x) \<Rightarrow> Some x | _
     \<Rightarrow> None)"

definition v2_as_object_source_array ::
  "('f, 'om, 'lm) v2_cell \<Rightarrow> ('om m2_object_source list) option" where
  "v2_as_object_source_array c = (case c of V2Collection (V2ObjectSourceArray x) \<Rightarrow> Some x | _
     \<Rightarrow> None)"

definition v2_as_sops_secret_array :: "('f, 'om, 'lm) v2_cell \<Rightarrow> ('om m2_sops_secret list) option" where
  "v2_as_sops_secret_array c = (case c of V2Collection (V2SopsSecretArray x) \<Rightarrow> Some x | _ \<Rightarrow> None)"

definition v2_as_sops_secret_manifest_array ::
  "('f, 'om, 'lm) v2_cell \<Rightarrow> ('om m2_sops_secret_manifest list) option" where
  "v2_as_sops_secret_manifest_array c = (case c of V2Collection (V2SopsSecretManifestArray x) \<Rightarrow> Some x | _
     \<Rightarrow> None)"

lemma v2_as_simps [simp]:
  "v2_as_foreign (V2Foreign x0) = Some x0"
  "v2_as_bucket_spec (V2Plain (V2BucketSpec x1)) = Some x1"
  "v2_as_data_mapping (V2Plain (V2DataMapping x2)) = Some x2"
  "v2_as_decryption_spec (V2Plain (V2DecryptionSpec x3)) = Some x3"
  "v2_as_inline_target (V2Plain (V2InlineTarget x4)) = Some x4"
  "v2_as_local_object_reference (V2Plain (V2LocalObjectReference x5)) = Some x5"
  "v2_as_manifest_target (V2Plain (V2ManifestTarget x6)) = Some x6"
  "v2_as_mapping_target (V2Plain (V2MappingTarget x7)) = Some x7"
  "v2_as_secret_key_ref (V2Plain (V2SecretKeyRef x8)) = Some x8"
  "v2_as_secret_reference (V2Plain (V2SecretReference x9)) = Some x9"
  "v2_as_source_kind_ref (V2Plain (V2SourceKindRef x10)) = Some x10"
  "v2_as_source_ref (V2Plain (V2SourceRef x11)) = Some x11"
  "v2_as_git_auth (V2Struct (V2GitAuth x12)) = Some x12"
  "v2_as_git_repository (V2Struct (V2GitRepository x13)) = Some x13"
  "v2_as_git_repository_spec (V2Struct (V2GitRepositorySpec x14)) = Some x14"
  "v2_as_git_repository_status (V2Struct (V2GitRepositoryStatus x15)) = Some x15"
  "v2_as_inline_sops_secret (V2Struct (V2InlineSopsSecret x16)) = Some x16"
  "v2_as_inline_sops_secret_spec (V2Struct (V2InlineSopsSecretSpec x17)) = Some x17"
  "v2_as_inline_sops_secret_status (V2Struct (V2InlineSopsSecretStatus x18)) = Some x18"
  "v2_as_object_auth (V2Struct (V2ObjectAuth x19)) = Some x19"
  "v2_as_object_source (V2Struct (V2ObjectSource x20)) = Some x20"
  "v2_as_object_source_spec (V2Struct (V2ObjectSourceSpec x21)) = Some x21"
  "v2_as_object_source_status (V2Struct (V2ObjectSourceStatus x22)) = Some x22"
  "v2_as_sops_secret (V2Struct (V2SopsSecret x23)) = Some x23"
  "v2_as_sops_secret_manifest (V2Struct (V2SopsSecretManifest x24)) = Some x24"
  "v2_as_sops_secret_manifest_spec (V2Struct (V2SopsSecretManifestSpec x25)) = Some x25"
  "v2_as_sops_secret_manifest_status (V2Struct (V2SopsSecretManifestStatus x26)) = Some x26"
  "v2_as_sops_secret_spec (V2Struct (V2SopsSecretSpec x27)) = Some x27"
  "v2_as_sops_secret_status (V2Struct (V2SopsSecretStatus x28)) = Some x28"
  "v2_as_git_repository_list (V2Collection (V2GitRepositoryList x29)) = Some x29"
  "v2_as_inline_sops_secret_list (V2Collection (V2InlineSopsSecretList x30)) = Some x30"
  "v2_as_object_source_list (V2Collection (V2ObjectSourceList x31)) = Some x31"
  "v2_as_sops_secret_list (V2Collection (V2SopsSecretList x32)) = Some x32"
  "v2_as_sops_secret_manifest_list (V2Collection (V2SopsSecretManifestList x33)) = Some x33"
  "v2_as_conditions (V2Collection (V2Conditions x34)) = Some x34"
  "v2_as_data_mappings (V2Collection (V2DataMappings x35)) = Some x35"
  "v2_as_git_repository_array (V2Collection (V2GitRepositoryArray x36)) = Some x36"
  "v2_as_inline_sops_secret_array (V2Collection (V2InlineSopsSecretArray x37)) = Some x37"
  "v2_as_object_source_array (V2Collection (V2ObjectSourceArray x38)) = Some x38"
  "v2_as_sops_secret_array (V2Collection (V2SopsSecretArray x39)) = Some x39"
  "v2_as_sops_secret_manifest_array (V2Collection (V2SopsSecretManifestArray x40)) = Some x40"
  by (simp_all add: v2_as_foreign_def v2_as_bucket_spec_def v2_as_data_mapping_def v2_as_decryption_spec_def
    v2_as_inline_target_def v2_as_local_object_reference_def v2_as_manifest_target_def v2_as_mapping_target_def
    v2_as_secret_key_ref_def v2_as_secret_reference_def v2_as_source_kind_ref_def v2_as_source_ref_def
    v2_as_git_auth_def v2_as_git_repository_def v2_as_git_repository_spec_def v2_as_git_repository_status_def
    v2_as_inline_sops_secret_def v2_as_inline_sops_secret_spec_def v2_as_inline_sops_secret_status_def
    v2_as_object_auth_def v2_as_object_source_def v2_as_object_source_spec_def v2_as_object_source_status_def
    v2_as_sops_secret_def v2_as_sops_secret_manifest_def v2_as_sops_secret_manifest_spec_def
    v2_as_sops_secret_manifest_status_def v2_as_sops_secret_spec_def v2_as_sops_secret_status_def
    v2_as_git_repository_list_def v2_as_inline_sops_secret_list_def v2_as_object_source_list_def
    v2_as_sops_secret_list_def v2_as_sops_secret_manifest_list_def v2_as_conditions_def v2_as_data_mappings_def
    v2_as_git_repository_array_def v2_as_inline_sops_secret_array_def v2_as_object_source_array_def
    v2_as_sops_secret_array_def v2_as_sops_secret_manifest_array_def)

section \<open>\<open>DeepCopyInto\<close>\<close>

text \<open>Structures without pointers: \<open>*out = *in\<close>.\<close>

definition v2_bucket_spec_deep_copy_into ::
  "v2_bucket_spec \<Rightarrow> (('f, 'om, 'lm) v2_cell, v2_bucket_spec) mem_prog" where
  "v2_bucket_spec_deep_copy_into x = State_Monad.return x"

definition v2_data_mapping_deep_copy_into ::
  "v2_data_mapping \<Rightarrow> (('f, 'om, 'lm) v2_cell, v2_data_mapping) mem_prog" where
  "v2_data_mapping_deep_copy_into x = State_Monad.return x"

definition v2_decryption_spec_deep_copy_into ::
  "v2_decryption_spec \<Rightarrow> (('f, 'om, 'lm) v2_cell, v2_decryption_spec) mem_prog" where
  "v2_decryption_spec_deep_copy_into x = State_Monad.return (x\<lparr>v2_dec_key_ref := v2_dec_key_ref x\<rparr>)"

definition v2_inline_target_deep_copy_into ::
  "v2_inline_target \<Rightarrow> (('f, 'om, 'lm) v2_cell, v2_inline_target) mem_prog" where
  "v2_inline_target_deep_copy_into x = State_Monad.return x"

definition v2_local_object_reference_deep_copy_into ::
  "v2_local_object_reference \<Rightarrow> (('f, 'om, 'lm) v2_cell, v2_local_object_reference) mem_prog" where
  "v2_local_object_reference_deep_copy_into x = State_Monad.return x"

definition v2_manifest_target_deep_copy_into ::
  "v2_manifest_target \<Rightarrow> (('f, 'om, 'lm) v2_cell, v2_manifest_target) mem_prog" where
  "v2_manifest_target_deep_copy_into x = State_Monad.return x"

definition v2_mapping_target_deep_copy_into ::
  "v2_mapping_target \<Rightarrow> (('f, 'om, 'lm) v2_cell, v2_mapping_target) mem_prog" where
  "v2_mapping_target_deep_copy_into x = State_Monad.return x"

definition v2_secret_key_ref_deep_copy_into ::
  "v2_secret_key_ref \<Rightarrow> (('f, 'om, 'lm) v2_cell, v2_secret_key_ref) mem_prog" where
  "v2_secret_key_ref_deep_copy_into x = State_Monad.return x"

definition v2_secret_reference_deep_copy_into ::
  "v2_secret_reference \<Rightarrow> (('f, 'om, 'lm) v2_cell, v2_secret_reference) mem_prog" where
  "v2_secret_reference_deep_copy_into x = State_Monad.return x"

definition v2_source_kind_ref_deep_copy_into ::
  "v2_source_kind_ref \<Rightarrow> (('f, 'om, 'lm) v2_cell, v2_source_kind_ref) mem_prog" where
  "v2_source_kind_ref_deep_copy_into x = State_Monad.return x"

definition v2_source_ref_deep_copy_into ::
  "v2_source_ref \<Rightarrow> (('f, 'om, 'lm) v2_cell, v2_source_ref) mem_prog" where
  "v2_source_ref_deep_copy_into x = State_Monad.return (x\<lparr>v2_src_source_ref := v2_src_source_ref x\<rparr>)"

text \<open>Structures with pointers: what is pointed to is copied to new cells.\<close>

definition v2_git_auth_deep_copy_into ::
  "m2_git_auth \<Rightarrow> (('f, 'om, 'lm) v2_cell, m2_git_auth) mem_prog" where
  "v2_git_auth_deep_copy_into x = do {
     r \<leftarrow> new_copy (V2Plain \<circ> V2SecretReference) v2_as_secret_reference State_Monad.return (m2_ga_secret_ref x);
     State_Monad.return (x\<lparr>m2_ga_secret_ref := r\<rparr>)
   }"

definition v2_git_repository_status_deep_copy_into ::
  "('f, 'om, 'lm) v2_ext \<Rightarrow> m2_git_repository_status
     \<Rightarrow> (('f, 'om, 'lm) v2_cell, m2_git_repository_status) mem_prog" where
  "v2_git_repository_status_deep_copy_into X x = do {
     cs \<leftarrow> copy_slice (V2Collection \<circ> V2Conditions) v2_as_conditions (mx_condition X) (m2_grt_conditions x);
     State_Monad.return (x\<lparr>m2_grt_conditions := cs\<rparr>)
   }"

definition v2_inline_sops_secret_spec_deep_copy_into ::
  "m2_inline_sops_secret_spec \<Rightarrow> (('f, 'om, 'lm) v2_cell, m2_inline_sops_secret_spec) mem_prog" where
  "v2_inline_sops_secret_spec_deep_copy_into x = do {
     d \<leftarrow> new_copy (V2Plain \<circ> V2DecryptionSpec) v2_as_decryption_spec State_Monad.return (m2_iss_decryption x);
     mappings \<leftarrow> copy_values (V2Collection \<circ> V2DataMappings) v2_as_data_mappings (m2_iss_data x);
     State_Monad.return (x\<lparr>m2_iss_target := m2_iss_target x, m2_iss_decryption := d, m2_iss_data := mappings\<rparr>)
   }"

definition v2_inline_sops_secret_status_deep_copy_into ::
  "('f, 'om, 'lm) v2_ext \<Rightarrow> m2_inline_sops_secret_status
     \<Rightarrow> (('f, 'om, 'lm) v2_cell, m2_inline_sops_secret_status) mem_prog" where
  "v2_inline_sops_secret_status_deep_copy_into X x = do {
     cs \<leftarrow> copy_slice (V2Collection \<circ> V2Conditions) v2_as_conditions (mx_condition X) (m2_ist_conditions x);
     State_Monad.return (x\<lparr>m2_ist_conditions := cs\<rparr>)
   }"

definition v2_object_auth_deep_copy_into ::
  "m2_object_auth \<Rightarrow> (('f, 'om, 'lm) v2_cell, m2_object_auth) mem_prog" where
  "v2_object_auth_deep_copy_into x = do {
     r \<leftarrow> new_copy (V2Plain \<circ> V2SecretReference) v2_as_secret_reference State_Monad.return (m2_oa_secret_ref x);
     State_Monad.return (x\<lparr>m2_oa_secret_ref := r\<rparr>)
   }"

definition v2_object_source_status_deep_copy_into ::
  "('f, 'om, 'lm) v2_ext \<Rightarrow> m2_object_source_status
     \<Rightarrow> (('f, 'om, 'lm) v2_cell, m2_object_source_status) mem_prog" where
  "v2_object_source_status_deep_copy_into X x = do {
     t \<leftarrow> mx_time X (m2_ost_last_synced_at x);
     cs \<leftarrow> copy_slice (V2Collection \<circ> V2Conditions) v2_as_conditions (mx_condition X) (m2_ost_conditions x);
     State_Monad.return (x\<lparr>m2_ost_last_synced_at := t, m2_ost_conditions := cs\<rparr>)
   }"

definition v2_sops_secret_manifest_spec_deep_copy_into ::
  "m2_sops_secret_manifest_spec \<Rightarrow> (('f, 'om, 'lm) v2_cell, m2_sops_secret_manifest_spec) mem_prog" where
  "v2_sops_secret_manifest_spec_deep_copy_into x = do {
     d \<leftarrow> new_copy (V2Plain \<circ> V2DecryptionSpec) v2_as_decryption_spec State_Monad.return (m2_sms_decryption x);
     State_Monad.return (x\<lparr>m2_sms_source := m2_sms_source x, m2_sms_target := m2_sms_target x,
       m2_sms_decryption := d\<rparr>)
   }"

definition v2_sops_secret_manifest_status_deep_copy_into ::
  "('f, 'om, 'lm) v2_ext \<Rightarrow> m2_sops_secret_manifest_status
     \<Rightarrow> (('f, 'om, 'lm) v2_cell, m2_sops_secret_manifest_status) mem_prog" where
  "v2_sops_secret_manifest_status_deep_copy_into X x = do {
     cs \<leftarrow> copy_slice (V2Collection \<circ> V2Conditions) v2_as_conditions (mx_condition X) (m2_smt_conditions x);
     State_Monad.return (x\<lparr>m2_smt_conditions := cs\<rparr>)
   }"

definition v2_sops_secret_spec_deep_copy_into ::
  "m2_sops_secret_spec \<Rightarrow> (('f, 'om, 'lm) v2_cell, m2_sops_secret_spec) mem_prog" where
  "v2_sops_secret_spec_deep_copy_into x = do {
     d \<leftarrow> new_copy (V2Plain \<circ> V2DecryptionSpec) v2_as_decryption_spec State_Monad.return (m2_sss_decryption x);
     mappings \<leftarrow> copy_values (V2Collection \<circ> V2DataMappings) v2_as_data_mappings (m2_sss_data x);
     State_Monad.return (x\<lparr>m2_sss_source := m2_sss_source x, m2_sss_target := m2_sss_target x,
       m2_sss_decryption := d, m2_sss_data := mappings\<rparr>)
   }"

definition v2_sops_secret_status_deep_copy_into ::
  "('f, 'om, 'lm) v2_ext \<Rightarrow> m2_sops_secret_status
     \<Rightarrow> (('f, 'om, 'lm) v2_cell, m2_sops_secret_status) mem_prog" where
  "v2_sops_secret_status_deep_copy_into X x = do {
     cs \<leftarrow> copy_slice (V2Collection \<circ> V2Conditions) v2_as_conditions (mx_condition X) (m2_sst_conditions x);
     State_Monad.return (x\<lparr>m2_sst_conditions := cs\<rparr>)
   }"

definition v2_git_repository_spec_deep_copy_into ::
  "m2_git_repository_spec \<Rightarrow> (('f, 'om, 'lm) v2_cell, m2_git_repository_spec) mem_prog" where
  "v2_git_repository_spec_deep_copy_into x = do {
     a \<leftarrow> new_copy (V2Struct \<circ> V2GitAuth) v2_as_git_auth v2_git_auth_deep_copy_into (m2_grs_auth x);
     State_Monad.return (x\<lparr>m2_grs_interval := m2_grs_interval x, m2_grs_auth := a\<rparr>)
   }"

definition v2_object_source_spec_deep_copy_into ::
  "m2_object_source_spec \<Rightarrow> (('f, 'om, 'lm) v2_cell, m2_object_source_spec) mem_prog" where
  "v2_object_source_spec_deep_copy_into x = do {
     b \<leftarrow> new_copy (V2Plain \<circ> V2BucketSpec) v2_as_bucket_spec State_Monad.return (m2_oss_bucket x);
     a \<leftarrow> new_copy (V2Struct \<circ> V2ObjectAuth) v2_as_object_auth v2_object_auth_deep_copy_into (m2_oss_auth x);
     State_Monad.return (x\<lparr>m2_oss_interval := m2_oss_interval x, m2_oss_bucket := b, m2_oss_auth := a\<rparr>)
   }"

definition v2_git_repository_deep_copy_into ::
  "('f, 'om, 'lm) v2_ext \<Rightarrow> 'om m2_git_repository
     \<Rightarrow> (('f, 'om, 'lm) v2_cell, 'om m2_git_repository) mem_prog" where
  "v2_git_repository_deep_copy_into X =
     object_copy X v2_git_repository_spec_deep_copy_into (v2_git_repository_status_deep_copy_into X)"

definition v2_inline_sops_secret_deep_copy_into ::
  "('f, 'om, 'lm) v2_ext \<Rightarrow> 'om m2_inline_sops_secret
     \<Rightarrow> (('f, 'om, 'lm) v2_cell, 'om m2_inline_sops_secret) mem_prog" where
  "v2_inline_sops_secret_deep_copy_into X =
     object_copy X v2_inline_sops_secret_spec_deep_copy_into (v2_inline_sops_secret_status_deep_copy_into X)"

definition v2_object_source_deep_copy_into ::
  "('f, 'om, 'lm) v2_ext \<Rightarrow> 'om m2_object_source
     \<Rightarrow> (('f, 'om, 'lm) v2_cell, 'om m2_object_source) mem_prog" where
  "v2_object_source_deep_copy_into X =
     object_copy X v2_object_source_spec_deep_copy_into (v2_object_source_status_deep_copy_into X)"

definition v2_sops_secret_deep_copy_into ::
  "('f, 'om, 'lm) v2_ext \<Rightarrow> 'om m2_sops_secret
     \<Rightarrow> (('f, 'om, 'lm) v2_cell, 'om m2_sops_secret) mem_prog" where
  "v2_sops_secret_deep_copy_into X =
     object_copy X v2_sops_secret_spec_deep_copy_into (v2_sops_secret_status_deep_copy_into X)"

definition v2_sops_secret_manifest_deep_copy_into ::
  "('f, 'om, 'lm) v2_ext \<Rightarrow> 'om m2_sops_secret_manifest
     \<Rightarrow> (('f, 'om, 'lm) v2_cell, 'om m2_sops_secret_manifest) mem_prog" where
  "v2_sops_secret_manifest_deep_copy_into X =
     object_copy X v2_sops_secret_manifest_spec_deep_copy_into (v2_sops_secret_manifest_status_deep_copy_into X)"

definition v2_git_repository_list_deep_copy_into ::
  "('f, 'om, 'lm) v2_ext \<Rightarrow> 'lm go_list \<Rightarrow> (('f, 'om, 'lm) v2_cell, 'lm go_list) mem_prog" where
  "v2_git_repository_list_deep_copy_into X =
     list_copy X (V2Collection \<circ> V2GitRepositoryArray) v2_as_git_repository_array (v2_git_repository_deep_copy_into X)"

definition v2_inline_sops_secret_list_deep_copy_into ::
  "('f, 'om, 'lm) v2_ext \<Rightarrow> 'lm go_list \<Rightarrow> (('f, 'om, 'lm) v2_cell, 'lm go_list) mem_prog" where
  "v2_inline_sops_secret_list_deep_copy_into X =
     list_copy X (V2Collection \<circ> V2InlineSopsSecretArray) v2_as_inline_sops_secret_array (v2_inline_sops_secret_deep_copy_into X)"

definition v2_object_source_list_deep_copy_into ::
  "('f, 'om, 'lm) v2_ext \<Rightarrow> 'lm go_list \<Rightarrow> (('f, 'om, 'lm) v2_cell, 'lm go_list) mem_prog" where
  "v2_object_source_list_deep_copy_into X =
     list_copy X (V2Collection \<circ> V2ObjectSourceArray) v2_as_object_source_array (v2_object_source_deep_copy_into X)"

definition v2_sops_secret_list_deep_copy_into ::
  "('f, 'om, 'lm) v2_ext \<Rightarrow> 'lm go_list \<Rightarrow> (('f, 'om, 'lm) v2_cell, 'lm go_list) mem_prog" where
  "v2_sops_secret_list_deep_copy_into X =
     list_copy X (V2Collection \<circ> V2SopsSecretArray) v2_as_sops_secret_array (v2_sops_secret_deep_copy_into X)"

definition v2_sops_secret_manifest_list_deep_copy_into ::
  "('f, 'om, 'lm) v2_ext \<Rightarrow> 'lm go_list \<Rightarrow> (('f, 'om, 'lm) v2_cell, 'lm go_list) mem_prog" where
  "v2_sops_secret_manifest_list_deep_copy_into X =
     list_copy X (V2Collection \<circ> V2SopsSecretManifestArray) v2_as_sops_secret_manifest_array (v2_sops_secret_manifest_deep_copy_into X)"

section \<open>\<open>DeepCopy\<close>\<close>

text \<open>A nil receiver gives nil; otherwise \<open>new\<close>, and \<open>DeepCopyInto\<close>.\<close>

definition v2_bucket_spec_deep_copy :: "nat option \<Rightarrow> (('f, 'om, 'lm) v2_cell, nat option) mem_prog" where
  "v2_bucket_spec_deep_copy = new_copy (V2Plain \<circ> V2BucketSpec) v2_as_bucket_spec v2_bucket_spec_deep_copy_into"

definition v2_data_mapping_deep_copy :: "nat option \<Rightarrow> (('f, 'om, 'lm) v2_cell, nat option) mem_prog" where
  "v2_data_mapping_deep_copy =
     new_copy (V2Plain \<circ> V2DataMapping) v2_as_data_mapping v2_data_mapping_deep_copy_into"

definition v2_decryption_spec_deep_copy ::
  "nat option \<Rightarrow> (('f, 'om, 'lm) v2_cell, nat option) mem_prog" where
  "v2_decryption_spec_deep_copy =
     new_copy (V2Plain \<circ> V2DecryptionSpec) v2_as_decryption_spec v2_decryption_spec_deep_copy_into"

definition v2_git_auth_deep_copy :: "nat option \<Rightarrow> (('f, 'om, 'lm) v2_cell, nat option) mem_prog" where
  "v2_git_auth_deep_copy = new_copy (V2Struct \<circ> V2GitAuth) v2_as_git_auth v2_git_auth_deep_copy_into"

definition v2_git_repository_deep_copy ::
  "('f, 'om, 'lm) v2_ext \<Rightarrow> nat option \<Rightarrow> (('f, 'om, 'lm) v2_cell, nat option) mem_prog" where
  "v2_git_repository_deep_copy X =
     new_copy (V2Struct \<circ> V2GitRepository) v2_as_git_repository (v2_git_repository_deep_copy_into X)"

definition v2_git_repository_list_deep_copy ::
  "('f, 'om, 'lm) v2_ext \<Rightarrow> nat option \<Rightarrow> (('f, 'om, 'lm) v2_cell, nat option) mem_prog" where
  "v2_git_repository_list_deep_copy X =
     new_copy (V2Collection \<circ> V2GitRepositoryList) v2_as_git_repository_list (v2_git_repository_list_deep_copy_into X)"

definition v2_git_repository_spec_deep_copy ::
  "nat option \<Rightarrow> (('f, 'om, 'lm) v2_cell, nat option) mem_prog" where
  "v2_git_repository_spec_deep_copy =
     new_copy (V2Struct \<circ> V2GitRepositorySpec) v2_as_git_repository_spec v2_git_repository_spec_deep_copy_into"

definition v2_git_repository_status_deep_copy ::
  "('f, 'om, 'lm) v2_ext \<Rightarrow> nat option \<Rightarrow> (('f, 'om, 'lm) v2_cell, nat option) mem_prog" where
  "v2_git_repository_status_deep_copy X =
     new_copy (V2Struct \<circ> V2GitRepositoryStatus) v2_as_git_repository_status (v2_git_repository_status_deep_copy_into X)"

definition v2_inline_sops_secret_deep_copy ::
  "('f, 'om, 'lm) v2_ext \<Rightarrow> nat option \<Rightarrow> (('f, 'om, 'lm) v2_cell, nat option) mem_prog" where
  "v2_inline_sops_secret_deep_copy X =
     new_copy (V2Struct \<circ> V2InlineSopsSecret) v2_as_inline_sops_secret (v2_inline_sops_secret_deep_copy_into X)"

definition v2_inline_sops_secret_list_deep_copy ::
  "('f, 'om, 'lm) v2_ext \<Rightarrow> nat option \<Rightarrow> (('f, 'om, 'lm) v2_cell, nat option) mem_prog" where
  "v2_inline_sops_secret_list_deep_copy X =
     new_copy (V2Collection \<circ> V2InlineSopsSecretList) v2_as_inline_sops_secret_list (v2_inline_sops_secret_list_deep_copy_into X)"

definition v2_inline_sops_secret_spec_deep_copy ::
  "nat option \<Rightarrow> (('f, 'om, 'lm) v2_cell, nat option) mem_prog" where
  "v2_inline_sops_secret_spec_deep_copy =
     new_copy (V2Struct \<circ> V2InlineSopsSecretSpec) v2_as_inline_sops_secret_spec v2_inline_sops_secret_spec_deep_copy_into"

definition v2_inline_sops_secret_status_deep_copy ::
  "('f, 'om, 'lm) v2_ext \<Rightarrow> nat option \<Rightarrow> (('f, 'om, 'lm) v2_cell, nat option) mem_prog" where
  "v2_inline_sops_secret_status_deep_copy X =
     new_copy (V2Struct \<circ> V2InlineSopsSecretStatus) v2_as_inline_sops_secret_status (v2_inline_sops_secret_status_deep_copy_into X)"

definition v2_inline_target_deep_copy ::
  "nat option \<Rightarrow> (('f, 'om, 'lm) v2_cell, nat option) mem_prog" where
  "v2_inline_target_deep_copy =
     new_copy (V2Plain \<circ> V2InlineTarget) v2_as_inline_target v2_inline_target_deep_copy_into"

definition v2_local_object_reference_deep_copy ::
  "nat option \<Rightarrow> (('f, 'om, 'lm) v2_cell, nat option) mem_prog" where
  "v2_local_object_reference_deep_copy =
     new_copy (V2Plain \<circ> V2LocalObjectReference) v2_as_local_object_reference v2_local_object_reference_deep_copy_into"

definition v2_manifest_target_deep_copy ::
  "nat option \<Rightarrow> (('f, 'om, 'lm) v2_cell, nat option) mem_prog" where
  "v2_manifest_target_deep_copy =
     new_copy (V2Plain \<circ> V2ManifestTarget) v2_as_manifest_target v2_manifest_target_deep_copy_into"

definition v2_mapping_target_deep_copy ::
  "nat option \<Rightarrow> (('f, 'om, 'lm) v2_cell, nat option) mem_prog" where
  "v2_mapping_target_deep_copy =
     new_copy (V2Plain \<circ> V2MappingTarget) v2_as_mapping_target v2_mapping_target_deep_copy_into"

definition v2_object_auth_deep_copy :: "nat option \<Rightarrow> (('f, 'om, 'lm) v2_cell, nat option) mem_prog" where
  "v2_object_auth_deep_copy =
     new_copy (V2Struct \<circ> V2ObjectAuth) v2_as_object_auth v2_object_auth_deep_copy_into"

definition v2_object_source_deep_copy ::
  "('f, 'om, 'lm) v2_ext \<Rightarrow> nat option \<Rightarrow> (('f, 'om, 'lm) v2_cell, nat option) mem_prog" where
  "v2_object_source_deep_copy X =
     new_copy (V2Struct \<circ> V2ObjectSource) v2_as_object_source (v2_object_source_deep_copy_into X)"

definition v2_object_source_list_deep_copy ::
  "('f, 'om, 'lm) v2_ext \<Rightarrow> nat option \<Rightarrow> (('f, 'om, 'lm) v2_cell, nat option) mem_prog" where
  "v2_object_source_list_deep_copy X =
     new_copy (V2Collection \<circ> V2ObjectSourceList) v2_as_object_source_list (v2_object_source_list_deep_copy_into X)"

definition v2_object_source_spec_deep_copy ::
  "nat option \<Rightarrow> (('f, 'om, 'lm) v2_cell, nat option) mem_prog" where
  "v2_object_source_spec_deep_copy =
     new_copy (V2Struct \<circ> V2ObjectSourceSpec) v2_as_object_source_spec v2_object_source_spec_deep_copy_into"

definition v2_object_source_status_deep_copy ::
  "('f, 'om, 'lm) v2_ext \<Rightarrow> nat option \<Rightarrow> (('f, 'om, 'lm) v2_cell, nat option) mem_prog" where
  "v2_object_source_status_deep_copy X =
     new_copy (V2Struct \<circ> V2ObjectSourceStatus) v2_as_object_source_status (v2_object_source_status_deep_copy_into X)"

definition v2_secret_key_ref_deep_copy ::
  "nat option \<Rightarrow> (('f, 'om, 'lm) v2_cell, nat option) mem_prog" where
  "v2_secret_key_ref_deep_copy =
     new_copy (V2Plain \<circ> V2SecretKeyRef) v2_as_secret_key_ref v2_secret_key_ref_deep_copy_into"

definition v2_secret_reference_deep_copy ::
  "nat option \<Rightarrow> (('f, 'om, 'lm) v2_cell, nat option) mem_prog" where
  "v2_secret_reference_deep_copy =
     new_copy (V2Plain \<circ> V2SecretReference) v2_as_secret_reference v2_secret_reference_deep_copy_into"

definition v2_sops_secret_deep_copy ::
  "('f, 'om, 'lm) v2_ext \<Rightarrow> nat option \<Rightarrow> (('f, 'om, 'lm) v2_cell, nat option) mem_prog" where
  "v2_sops_secret_deep_copy X =
     new_copy (V2Struct \<circ> V2SopsSecret) v2_as_sops_secret (v2_sops_secret_deep_copy_into X)"

definition v2_sops_secret_list_deep_copy ::
  "('f, 'om, 'lm) v2_ext \<Rightarrow> nat option \<Rightarrow> (('f, 'om, 'lm) v2_cell, nat option) mem_prog" where
  "v2_sops_secret_list_deep_copy X =
     new_copy (V2Collection \<circ> V2SopsSecretList) v2_as_sops_secret_list (v2_sops_secret_list_deep_copy_into X)"

definition v2_sops_secret_manifest_deep_copy ::
  "('f, 'om, 'lm) v2_ext \<Rightarrow> nat option \<Rightarrow> (('f, 'om, 'lm) v2_cell, nat option) mem_prog" where
  "v2_sops_secret_manifest_deep_copy X =
     new_copy (V2Struct \<circ> V2SopsSecretManifest) v2_as_sops_secret_manifest (v2_sops_secret_manifest_deep_copy_into X)"

definition v2_sops_secret_manifest_list_deep_copy ::
  "('f, 'om, 'lm) v2_ext \<Rightarrow> nat option \<Rightarrow> (('f, 'om, 'lm) v2_cell, nat option) mem_prog" where
  "v2_sops_secret_manifest_list_deep_copy X =
     new_copy (V2Collection \<circ> V2SopsSecretManifestList) v2_as_sops_secret_manifest_list (v2_sops_secret_manifest_list_deep_copy_into X)"

definition v2_sops_secret_manifest_spec_deep_copy ::
  "nat option \<Rightarrow> (('f, 'om, 'lm) v2_cell, nat option) mem_prog" where
  "v2_sops_secret_manifest_spec_deep_copy =
     new_copy (V2Struct \<circ> V2SopsSecretManifestSpec) v2_as_sops_secret_manifest_spec v2_sops_secret_manifest_spec_deep_copy_into"

definition v2_sops_secret_manifest_status_deep_copy ::
  "('f, 'om, 'lm) v2_ext \<Rightarrow> nat option \<Rightarrow> (('f, 'om, 'lm) v2_cell, nat option) mem_prog" where
  "v2_sops_secret_manifest_status_deep_copy X =
     new_copy (V2Struct \<circ> V2SopsSecretManifestStatus) v2_as_sops_secret_manifest_status (v2_sops_secret_manifest_status_deep_copy_into X)"

definition v2_sops_secret_spec_deep_copy ::
  "nat option \<Rightarrow> (('f, 'om, 'lm) v2_cell, nat option) mem_prog" where
  "v2_sops_secret_spec_deep_copy =
     new_copy (V2Struct \<circ> V2SopsSecretSpec) v2_as_sops_secret_spec v2_sops_secret_spec_deep_copy_into"

definition v2_sops_secret_status_deep_copy ::
  "('f, 'om, 'lm) v2_ext \<Rightarrow> nat option \<Rightarrow> (('f, 'om, 'lm) v2_cell, nat option) mem_prog" where
  "v2_sops_secret_status_deep_copy X =
     new_copy (V2Struct \<circ> V2SopsSecretStatus) v2_as_sops_secret_status (v2_sops_secret_status_deep_copy_into X)"

definition v2_source_kind_ref_deep_copy ::
  "nat option \<Rightarrow> (('f, 'om, 'lm) v2_cell, nat option) mem_prog" where
  "v2_source_kind_ref_deep_copy =
     new_copy (V2Plain \<circ> V2SourceKindRef) v2_as_source_kind_ref v2_source_kind_ref_deep_copy_into"

definition v2_source_ref_deep_copy :: "nat option \<Rightarrow> (('f, 'om, 'lm) v2_cell, nat option) mem_prog" where
  "v2_source_ref_deep_copy = new_copy (V2Plain \<circ> V2SourceRef) v2_as_source_ref v2_source_ref_deep_copy_into"

text \<open>As a \<open>runtime.Object\<close>: an interface value that holds the pointer, or the nil interface.\<close>

datatype v2_runtime_object =
    V2GitRepositoryPointer nat
  | V2InlineSopsSecretPointer nat
  | V2ObjectSourcePointer nat
  | V2SopsSecretPointer nat
  | V2SopsSecretManifestPointer nat
  | V2GitRepositoryListPointer nat
  | V2InlineSopsSecretListPointer nat
  | V2ObjectSourceListPointer nat
  | V2SopsSecretListPointer nat
  | V2SopsSecretManifestListPointer nat

definition v2_git_repository_deep_copy_object ::
  "('f, 'om, 'lm) v2_ext \<Rightarrow> nat option
     \<Rightarrow> (('f, 'om, 'lm) v2_cell, v2_runtime_object option) mem_prog" where
  "v2_git_repository_deep_copy_object X p = do {
     c \<leftarrow> v2_git_repository_deep_copy X p;
     State_Monad.return (map_option V2GitRepositoryPointer c)
   }"

definition v2_inline_sops_secret_deep_copy_object ::
  "('f, 'om, 'lm) v2_ext \<Rightarrow> nat option
     \<Rightarrow> (('f, 'om, 'lm) v2_cell, v2_runtime_object option) mem_prog" where
  "v2_inline_sops_secret_deep_copy_object X p = do {
     c \<leftarrow> v2_inline_sops_secret_deep_copy X p;
     State_Monad.return (map_option V2InlineSopsSecretPointer c)
   }"

definition v2_object_source_deep_copy_object ::
  "('f, 'om, 'lm) v2_ext \<Rightarrow> nat option
     \<Rightarrow> (('f, 'om, 'lm) v2_cell, v2_runtime_object option) mem_prog" where
  "v2_object_source_deep_copy_object X p = do {
     c \<leftarrow> v2_object_source_deep_copy X p;
     State_Monad.return (map_option V2ObjectSourcePointer c)
   }"

definition v2_sops_secret_deep_copy_object ::
  "('f, 'om, 'lm) v2_ext \<Rightarrow> nat option
     \<Rightarrow> (('f, 'om, 'lm) v2_cell, v2_runtime_object option) mem_prog" where
  "v2_sops_secret_deep_copy_object X p = do {
     c \<leftarrow> v2_sops_secret_deep_copy X p;
     State_Monad.return (map_option V2SopsSecretPointer c)
   }"

definition v2_sops_secret_manifest_deep_copy_object ::
  "('f, 'om, 'lm) v2_ext \<Rightarrow> nat option
     \<Rightarrow> (('f, 'om, 'lm) v2_cell, v2_runtime_object option) mem_prog" where
  "v2_sops_secret_manifest_deep_copy_object X p = do {
     c \<leftarrow> v2_sops_secret_manifest_deep_copy X p;
     State_Monad.return (map_option V2SopsSecretManifestPointer c)
   }"

definition v2_git_repository_list_deep_copy_object ::
  "('f, 'om, 'lm) v2_ext \<Rightarrow> nat option
     \<Rightarrow> (('f, 'om, 'lm) v2_cell, v2_runtime_object option) mem_prog" where
  "v2_git_repository_list_deep_copy_object X p = do {
     c \<leftarrow> v2_git_repository_list_deep_copy X p;
     State_Monad.return (map_option V2GitRepositoryListPointer c)
   }"

definition v2_inline_sops_secret_list_deep_copy_object ::
  "('f, 'om, 'lm) v2_ext \<Rightarrow> nat option
     \<Rightarrow> (('f, 'om, 'lm) v2_cell, v2_runtime_object option) mem_prog" where
  "v2_inline_sops_secret_list_deep_copy_object X p = do {
     c \<leftarrow> v2_inline_sops_secret_list_deep_copy X p;
     State_Monad.return (map_option V2InlineSopsSecretListPointer c)
   }"

definition v2_object_source_list_deep_copy_object ::
  "('f, 'om, 'lm) v2_ext \<Rightarrow> nat option
     \<Rightarrow> (('f, 'om, 'lm) v2_cell, v2_runtime_object option) mem_prog" where
  "v2_object_source_list_deep_copy_object X p = do {
     c \<leftarrow> v2_object_source_list_deep_copy X p;
     State_Monad.return (map_option V2ObjectSourceListPointer c)
   }"

definition v2_sops_secret_list_deep_copy_object ::
  "('f, 'om, 'lm) v2_ext \<Rightarrow> nat option
     \<Rightarrow> (('f, 'om, 'lm) v2_cell, v2_runtime_object option) mem_prog" where
  "v2_sops_secret_list_deep_copy_object X p = do {
     c \<leftarrow> v2_sops_secret_list_deep_copy X p;
     State_Monad.return (map_option V2SopsSecretListPointer c)
   }"

definition v2_sops_secret_manifest_list_deep_copy_object ::
  "('f, 'om, 'lm) v2_ext \<Rightarrow> nat option
     \<Rightarrow> (('f, 'om, 'lm) v2_cell, v2_runtime_object option) mem_prog" where
  "v2_sops_secret_manifest_list_deep_copy_object X p = do {
     c \<leftarrow> v2_sops_secret_manifest_list_deep_copy X p;
     State_Monad.return (map_option V2SopsSecretManifestListPointer c)
   }"

section \<open>What the structures stand for\<close>

definition v2_git_auth_of :: "m2_git_auth \<Rightarrow> (v2_secret_reference option) \<Rightarrow> v2_git_auth" where
  "v2_git_auth_of x r =
     \<lparr>v2_ga_type = m2_ga_type x, v2_ga_secret_ref = r\<rparr>"

definition v2_git_auth_means ::
  "('f, 'om, 'lm) v2_cell list \<Rightarrow> m2_git_auth \<Rightarrow> v2_git_auth option" where
  "v2_git_auth_means M x = map_option (v2_git_auth_of x)
     (ptr_means v2_as_secret_reference (\<lambda>M y. Some y) M (m2_ga_secret_ref x))"

definition v2_git_auth_cells :: "('f, 'om, 'lm) v2_cell list \<Rightarrow> m2_git_auth \<Rightarrow> nat set" where
  "v2_git_auth_cells M x = ptr_cells v2_as_secret_reference (\<lambda>M y. {}) M (m2_ga_secret_ref x)"

lemma v2_git_auth_deep:
  "deep_copy v2_git_auth_deep_copy_into v2_git_auth_means v2_git_auth_cells"
  unfolding v2_git_auth_deep_copy_into_def [abs_def] v2_git_auth_means_def [abs_def] v2_git_auth_cells_def [abs_def]
  by (rule deep_copy_part [OF deep_copy_pointer [OF deep_copy_value],
    where put = "\<lambda>y x. x\<lparr>m2_ga_secret_ref := y\<rparr>"
      and build = v2_git_auth_of]) (simp_all add: v2_git_auth_of_def)

definition v2_git_repository_status_of ::
  "m2_git_repository_status \<Rightarrow> (condition list option) \<Rightarrow> v2_git_repository_status" where
  "v2_git_repository_status_of x cs =
     \<lparr>v2_grt_last_synced_commit = m2_grt_last_synced_commit x, v2_grt_cache_ready = m2_grt_cache_ready x,
       v2_grt_last_token = m2_grt_last_token x, v2_grt_observed_generation = m2_grt_observed_generation x,
         v2_grt_conditions = condition_list cs\<rparr>"

definition v2_git_repository_status_means ::
  "('f, 'om, 'lm) v2_cell list \<Rightarrow> m2_git_repository_status \<Rightarrow> v2_git_repository_status option" where
  "v2_git_repository_status_means M x = map_option (v2_git_repository_status_of x)
     (slice_means v2_as_conditions (\<lambda>M y. Some y) M (m2_grt_conditions x))"

definition v2_git_repository_status_cells ::
  "('f, 'om, 'lm) v2_cell list \<Rightarrow> m2_git_repository_status \<Rightarrow> nat set" where
  "v2_git_repository_status_cells M x = slice_cells v2_as_conditions (\<lambda>M y. {}) M (m2_grt_conditions x)"

lemma v2_git_repository_status_deep:
  assumes "meta_deep X"
  shows "deep_copy (v2_git_repository_status_deep_copy_into X) v2_git_repository_status_means v2_git_repository_status_cells"
  unfolding v2_git_repository_status_deep_copy_into_def [abs_def]
    v2_git_repository_status_means_def [abs_def] v2_git_repository_status_cells_def [abs_def]
  by (rule deep_copy_part [OF deep_copy_slice [OF meta_deepD(3) [OF assms]],
    where put = "\<lambda>y x. x\<lparr>m2_grt_conditions := y\<rparr>"
      and build = v2_git_repository_status_of]) (simp_all add: v2_git_repository_status_of_def)

definition v2_inline_sops_secret_spec_of ::
  "m2_inline_sops_secret_spec \<Rightarrow> (v2_decryption_spec option) \<Rightarrow> (v2_data_mapping list option)
     \<Rightarrow> v2_inline_sops_secret_spec" where
  "v2_inline_sops_secret_spec_of x d mappings =
     \<lparr>v2_iss_mode = m2_iss_mode x, v2_iss_encrypted_yaml = m2_iss_encrypted_yaml x, v2_iss_decryption = d,
       v2_iss_target = m2_iss_target x, v2_iss_data = mappings\<rparr>"

definition v2_inline_sops_secret_spec_means ::
  "('f, 'om, 'lm) v2_cell list \<Rightarrow> m2_inline_sops_secret_spec
     \<Rightarrow> v2_inline_sops_secret_spec option" where
  "v2_inline_sops_secret_spec_means M x = map_option (\<lambda>(v, w). v2_inline_sops_secret_spec_of x v w)
     (both_mean (ptr_means v2_as_decryption_spec (\<lambda>M y. Some y)) (slice_means v2_as_data_mappings (\<lambda>M y. Some y)) M
       (m2_iss_decryption x, m2_iss_data x))"

definition v2_inline_sops_secret_spec_cells ::
  "('f, 'om, 'lm) v2_cell list \<Rightarrow> m2_inline_sops_secret_spec \<Rightarrow> nat set" where
  "v2_inline_sops_secret_spec_cells M x = ptr_cells v2_as_decryption_spec (\<lambda>M y. {}) M (m2_iss_decryption x)
     \<union> slice_cells v2_as_data_mappings (\<lambda>M y. {}) M (m2_iss_data x)"

lemma v2_inline_sops_secret_spec_deep:
  "deep_copy v2_inline_sops_secret_spec_deep_copy_into v2_inline_sops_secret_spec_means v2_inline_sops_secret_spec_cells"
  unfolding v2_inline_sops_secret_spec_deep_copy_into_def [abs_def]
    v2_inline_sops_secret_spec_means_def [abs_def] v2_inline_sops_secret_spec_cells_def [abs_def]
  by (rule deep_copy_two_parts [OF deep_copy_pointer [OF deep_copy_value] deep_copy_values,
      where put = "\<lambda>y z x. x\<lparr>m2_iss_target := m2_iss_target x, m2_iss_decryption := y,
        m2_iss_data := z\<rparr>"
      and build = "\<lambda>x (v, w). v2_inline_sops_secret_spec_of x v w"]) (simp_all add:
        v2_inline_sops_secret_spec_of_def)

definition v2_inline_sops_secret_status_of ::
  "m2_inline_sops_secret_status \<Rightarrow> (condition list option) \<Rightarrow> v2_inline_sops_secret_status" where
  "v2_inline_sops_secret_status_of x cs =
     \<lparr>v2_ist_last_applied_hash = m2_ist_last_applied_hash x, v2_ist_last_token = m2_ist_last_token x,
       v2_ist_observed_generation = m2_ist_observed_generation x, v2_ist_conditions = condition_list cs\<rparr>"

definition v2_inline_sops_secret_status_means ::
  "('f, 'om, 'lm) v2_cell list \<Rightarrow> m2_inline_sops_secret_status
     \<Rightarrow> v2_inline_sops_secret_status option" where
  "v2_inline_sops_secret_status_means M x = map_option (v2_inline_sops_secret_status_of x)
     (slice_means v2_as_conditions (\<lambda>M y. Some y) M (m2_ist_conditions x))"

definition v2_inline_sops_secret_status_cells ::
  "('f, 'om, 'lm) v2_cell list \<Rightarrow> m2_inline_sops_secret_status \<Rightarrow> nat set" where
  "v2_inline_sops_secret_status_cells M x = slice_cells v2_as_conditions (\<lambda>M y. {}) M (m2_ist_conditions x)"

lemma v2_inline_sops_secret_status_deep:
  assumes "meta_deep X"
  shows "deep_copy (v2_inline_sops_secret_status_deep_copy_into X) v2_inline_sops_secret_status_means v2_inline_sops_secret_status_cells"
  unfolding v2_inline_sops_secret_status_deep_copy_into_def [abs_def]
    v2_inline_sops_secret_status_means_def [abs_def] v2_inline_sops_secret_status_cells_def [abs_def]
  by (rule deep_copy_part [OF deep_copy_slice [OF meta_deepD(3) [OF assms]],
    where put = "\<lambda>y x. x\<lparr>m2_ist_conditions := y\<rparr>"
      and build = v2_inline_sops_secret_status_of]) (simp_all add: v2_inline_sops_secret_status_of_def)

definition v2_object_auth_of ::
  "m2_object_auth \<Rightarrow> (v2_secret_reference option) \<Rightarrow> v2_object_auth" where
  "v2_object_auth_of x r =
     \<lparr>v2_oa_type = m2_oa_type x, v2_oa_secret_ref = r\<rparr>"

definition v2_object_auth_means ::
  "('f, 'om, 'lm) v2_cell list \<Rightarrow> m2_object_auth \<Rightarrow> v2_object_auth option" where
  "v2_object_auth_means M x = map_option (v2_object_auth_of x)
     (ptr_means v2_as_secret_reference (\<lambda>M y. Some y) M (m2_oa_secret_ref x))"

definition v2_object_auth_cells ::
  "('f, 'om, 'lm) v2_cell list \<Rightarrow> m2_object_auth \<Rightarrow> nat set" where
  "v2_object_auth_cells M x = ptr_cells v2_as_secret_reference (\<lambda>M y. {}) M (m2_oa_secret_ref x)"

lemma v2_object_auth_deep:
  "deep_copy v2_object_auth_deep_copy_into v2_object_auth_means v2_object_auth_cells"
  unfolding v2_object_auth_deep_copy_into_def [abs_def]
    v2_object_auth_means_def [abs_def] v2_object_auth_cells_def [abs_def]
  by (rule deep_copy_part [OF deep_copy_pointer [OF deep_copy_value],
    where put = "\<lambda>y x. x\<lparr>m2_oa_secret_ref := y\<rparr>"
      and build = v2_object_auth_of]) (simp_all add: v2_object_auth_of_def)

definition v2_object_source_status_of ::
  "m2_object_source_status \<Rightarrow> (int option) \<Rightarrow> (condition list option)
     \<Rightarrow> v2_object_source_status" where
  "v2_object_source_status_of x t cs =
     \<lparr>v2_ost_last_synced_etag = m2_ost_last_synced_etag x, v2_ost_last_synced_at = t,
       v2_ost_cache_ready = m2_ost_cache_ready x, v2_ost_last_token = m2_ost_last_token x,
         v2_ost_observed_generation = m2_ost_observed_generation x, v2_ost_conditions = condition_list cs\<rparr>"

definition v2_object_source_status_means ::
  "('f, 'om, 'lm) v2_ext \<Rightarrow> ('f, 'om, 'lm) v2_cell list \<Rightarrow> m2_object_source_status
     \<Rightarrow> v2_object_source_status option" where
  "v2_object_source_status_means X M x = map_option (\<lambda>(v, w). v2_object_source_status_of x v w)
     (both_mean (mx_time_means X) (slice_means v2_as_conditions (\<lambda>M y. Some y)) M
       (m2_ost_last_synced_at x, m2_ost_conditions x))"

definition v2_object_source_status_cells ::
  "('f, 'om, 'lm) v2_ext \<Rightarrow> ('f, 'om, 'lm) v2_cell list \<Rightarrow> m2_object_source_status
     \<Rightarrow> nat set" where
  "v2_object_source_status_cells X M x = mx_time_cells X M (m2_ost_last_synced_at x)
     \<union> slice_cells v2_as_conditions (\<lambda>M y. {}) M (m2_ost_conditions x)"

lemma v2_object_source_status_deep:
  assumes "meta_deep X"
  shows "deep_copy (v2_object_source_status_deep_copy_into X) (v2_object_source_status_means X) (v2_object_source_status_cells X)"
  unfolding v2_object_source_status_deep_copy_into_def [abs_def]
    v2_object_source_status_means_def [abs_def] v2_object_source_status_cells_def [abs_def]
  by (rule deep_copy_two_parts [OF meta_deepD(4) [OF assms] deep_copy_slice [OF meta_deepD(3) [OF assms]],
      where put = "\<lambda>y z x. x\<lparr>m2_ost_last_synced_at := y, m2_ost_conditions := z\<rparr>"
      and build = "\<lambda>x (v, w). v2_object_source_status_of x v w"]) (simp_all add: v2_object_source_status_of_def)

definition v2_sops_secret_manifest_spec_of ::
  "m2_sops_secret_manifest_spec \<Rightarrow> (v2_decryption_spec option) \<Rightarrow> v2_sops_secret_manifest_spec" where
  "v2_sops_secret_manifest_spec_of x d =
     \<lparr>v2_sms_source = m2_sms_source x, v2_sms_decryption = d, v2_sms_target = m2_sms_target x\<rparr>"

definition v2_sops_secret_manifest_spec_means ::
  "('f, 'om, 'lm) v2_cell list \<Rightarrow> m2_sops_secret_manifest_spec
     \<Rightarrow> v2_sops_secret_manifest_spec option" where
  "v2_sops_secret_manifest_spec_means M x = map_option (v2_sops_secret_manifest_spec_of x)
     (ptr_means v2_as_decryption_spec (\<lambda>M y. Some y) M (m2_sms_decryption x))"

definition v2_sops_secret_manifest_spec_cells ::
  "('f, 'om, 'lm) v2_cell list \<Rightarrow> m2_sops_secret_manifest_spec \<Rightarrow> nat set" where
  "v2_sops_secret_manifest_spec_cells M x =
     ptr_cells v2_as_decryption_spec (\<lambda>M y. {}) M (m2_sms_decryption x)"

lemma v2_sops_secret_manifest_spec_deep:
  "deep_copy v2_sops_secret_manifest_spec_deep_copy_into v2_sops_secret_manifest_spec_means v2_sops_secret_manifest_spec_cells"
  unfolding v2_sops_secret_manifest_spec_deep_copy_into_def [abs_def]
    v2_sops_secret_manifest_spec_means_def [abs_def] v2_sops_secret_manifest_spec_cells_def [abs_def]
  by (rule deep_copy_part [OF deep_copy_pointer [OF deep_copy_value],
    where put = "\<lambda>y x. x\<lparr>m2_sms_source := m2_sms_source x, m2_sms_target := m2_sms_target x,
      m2_sms_decryption := y\<rparr>"
      and build = v2_sops_secret_manifest_spec_of]) (simp_all add: v2_sops_secret_manifest_spec_of_def)

definition v2_sops_secret_manifest_status_of ::
  "m2_sops_secret_manifest_status \<Rightarrow> (condition list option) \<Rightarrow> v2_sops_secret_manifest_status" where
  "v2_sops_secret_manifest_status_of x cs =
     \<lparr>v2_smt_last_applied_hash = m2_smt_last_applied_hash x,
       v2_smt_last_synced_commit = m2_smt_last_synced_commit x, v2_smt_last_token = m2_smt_last_token x,
         v2_smt_observed_generation = m2_smt_observed_generation x, v2_smt_conditions = condition_list cs\<rparr>"

definition v2_sops_secret_manifest_status_means ::
  "('f, 'om, 'lm) v2_cell list \<Rightarrow> m2_sops_secret_manifest_status
     \<Rightarrow> v2_sops_secret_manifest_status option" where
  "v2_sops_secret_manifest_status_means M x = map_option (v2_sops_secret_manifest_status_of x)
     (slice_means v2_as_conditions (\<lambda>M y. Some y) M (m2_smt_conditions x))"

definition v2_sops_secret_manifest_status_cells ::
  "('f, 'om, 'lm) v2_cell list \<Rightarrow> m2_sops_secret_manifest_status \<Rightarrow> nat set" where
  "v2_sops_secret_manifest_status_cells M x = slice_cells v2_as_conditions (\<lambda>M y. {}) M (m2_smt_conditions x)"

lemma v2_sops_secret_manifest_status_deep:
  assumes "meta_deep X"
  shows "deep_copy (v2_sops_secret_manifest_status_deep_copy_into X) v2_sops_secret_manifest_status_means v2_sops_secret_manifest_status_cells"
  unfolding v2_sops_secret_manifest_status_deep_copy_into_def [abs_def]
    v2_sops_secret_manifest_status_means_def [abs_def] v2_sops_secret_manifest_status_cells_def [abs_def]
  by (rule deep_copy_part [OF deep_copy_slice [OF meta_deepD(3) [OF assms]],
    where put = "\<lambda>y x. x\<lparr>m2_smt_conditions := y\<rparr>"
      and build = v2_sops_secret_manifest_status_of]) (simp_all add: v2_sops_secret_manifest_status_of_def)

definition v2_sops_secret_spec_of ::
  "m2_sops_secret_spec \<Rightarrow> (v2_decryption_spec option) \<Rightarrow> (v2_data_mapping list option)
     \<Rightarrow> v2_sops_secret_spec" where
  "v2_sops_secret_spec_of x d mappings =
     \<lparr>v2_sss_source = m2_sss_source x, v2_sss_decryption = d, v2_sss_target = m2_sss_target x,
       v2_sss_data = mappings\<rparr>"

definition v2_sops_secret_spec_means ::
  "('f, 'om, 'lm) v2_cell list \<Rightarrow> m2_sops_secret_spec \<Rightarrow> v2_sops_secret_spec option" where
  "v2_sops_secret_spec_means M x = map_option (\<lambda>(v, w). v2_sops_secret_spec_of x v w)
     (both_mean (ptr_means v2_as_decryption_spec (\<lambda>M y. Some y)) (slice_means v2_as_data_mappings (\<lambda>M y. Some y)) M
       (m2_sss_decryption x, m2_sss_data x))"

definition v2_sops_secret_spec_cells ::
  "('f, 'om, 'lm) v2_cell list \<Rightarrow> m2_sops_secret_spec \<Rightarrow> nat set" where
  "v2_sops_secret_spec_cells M x = ptr_cells v2_as_decryption_spec (\<lambda>M y. {}) M (m2_sss_decryption x)
     \<union> slice_cells v2_as_data_mappings (\<lambda>M y. {}) M (m2_sss_data x)"

lemma v2_sops_secret_spec_deep:
  "deep_copy v2_sops_secret_spec_deep_copy_into v2_sops_secret_spec_means v2_sops_secret_spec_cells"
  unfolding v2_sops_secret_spec_deep_copy_into_def [abs_def]
    v2_sops_secret_spec_means_def [abs_def] v2_sops_secret_spec_cells_def [abs_def]
  by (rule deep_copy_two_parts [OF deep_copy_pointer [OF deep_copy_value] deep_copy_values,
      where put = "\<lambda>y z x. x\<lparr>m2_sss_source := m2_sss_source x, m2_sss_target := m2_sss_target x,
        m2_sss_decryption := y, m2_sss_data := z\<rparr>"
      and build = "\<lambda>x (v, w). v2_sops_secret_spec_of x v w"]) (simp_all add: v2_sops_secret_spec_of_def)

definition v2_sops_secret_status_of ::
  "m2_sops_secret_status \<Rightarrow> (condition list option) \<Rightarrow> v2_sops_secret_status" where
  "v2_sops_secret_status_of x cs =
     \<lparr>v2_sst_last_applied_hash = m2_sst_last_applied_hash x,
       v2_sst_last_synced_commit = m2_sst_last_synced_commit x, v2_sst_last_token = m2_sst_last_token x,
         v2_sst_observed_generation = m2_sst_observed_generation x, v2_sst_conditions = condition_list cs\<rparr>"

definition v2_sops_secret_status_means ::
  "('f, 'om, 'lm) v2_cell list \<Rightarrow> m2_sops_secret_status \<Rightarrow> v2_sops_secret_status option" where
  "v2_sops_secret_status_means M x = map_option (v2_sops_secret_status_of x)
     (slice_means v2_as_conditions (\<lambda>M y. Some y) M (m2_sst_conditions x))"

definition v2_sops_secret_status_cells ::
  "('f, 'om, 'lm) v2_cell list \<Rightarrow> m2_sops_secret_status \<Rightarrow> nat set" where
  "v2_sops_secret_status_cells M x = slice_cells v2_as_conditions (\<lambda>M y. {}) M (m2_sst_conditions x)"

lemma v2_sops_secret_status_deep:
  assumes "meta_deep X"
  shows "deep_copy (v2_sops_secret_status_deep_copy_into X) v2_sops_secret_status_means v2_sops_secret_status_cells"
  unfolding v2_sops_secret_status_deep_copy_into_def [abs_def]
    v2_sops_secret_status_means_def [abs_def] v2_sops_secret_status_cells_def [abs_def]
  by (rule deep_copy_part [OF deep_copy_slice [OF meta_deepD(3) [OF assms]],
    where put = "\<lambda>y x. x\<lparr>m2_sst_conditions := y\<rparr>"
      and build = v2_sops_secret_status_of]) (simp_all add: v2_sops_secret_status_of_def)

definition v2_git_repository_spec_of ::
  "m2_git_repository_spec \<Rightarrow> (v2_git_auth option) \<Rightarrow> v2_git_repository_spec" where
  "v2_git_repository_spec_of x a =
     \<lparr>v2_grs_url = m2_grs_url x, v2_grs_branch = m2_grs_branch x, v2_grs_revision = m2_grs_revision x,
       v2_grs_interval = m2_grs_interval x, v2_grs_auth = a\<rparr>"

definition v2_git_repository_spec_means ::
  "('f, 'om, 'lm) v2_cell list \<Rightarrow> m2_git_repository_spec \<Rightarrow> v2_git_repository_spec option" where
  "v2_git_repository_spec_means M x = map_option (v2_git_repository_spec_of x)
     (ptr_means v2_as_git_auth v2_git_auth_means M (m2_grs_auth x))"

definition v2_git_repository_spec_cells ::
  "('f, 'om, 'lm) v2_cell list \<Rightarrow> m2_git_repository_spec \<Rightarrow> nat set" where
  "v2_git_repository_spec_cells M x = ptr_cells v2_as_git_auth v2_git_auth_cells M (m2_grs_auth x)"

lemma v2_git_repository_spec_deep:
  "deep_copy v2_git_repository_spec_deep_copy_into v2_git_repository_spec_means v2_git_repository_spec_cells"
  unfolding v2_git_repository_spec_deep_copy_into_def [abs_def]
    v2_git_repository_spec_means_def [abs_def] v2_git_repository_spec_cells_def [abs_def]
  by (rule deep_copy_part [OF deep_copy_pointer [OF v2_git_auth_deep],
    where put = "\<lambda>y x. x\<lparr>m2_grs_interval := m2_grs_interval x, m2_grs_auth := y\<rparr>"
      and build = v2_git_repository_spec_of]) (simp_all add: v2_git_repository_spec_of_def)

definition v2_object_source_spec_of ::
  "m2_object_source_spec \<Rightarrow> (v2_bucket_spec option) \<Rightarrow> (v2_object_auth option)
     \<Rightarrow> v2_object_source_spec" where
  "v2_object_source_spec_of x b a =
     \<lparr>v2_oss_url = m2_oss_url x, v2_oss_bucket = b, v2_oss_interval = m2_oss_interval x, v2_oss_auth = a\<rparr>"

definition v2_object_source_spec_means ::
  "('f, 'om, 'lm) v2_cell list \<Rightarrow> m2_object_source_spec \<Rightarrow> v2_object_source_spec option" where
  "v2_object_source_spec_means M x = map_option (\<lambda>(v, w). v2_object_source_spec_of x v w)
     (both_mean (ptr_means v2_as_bucket_spec (\<lambda>M y. Some y)) (ptr_means v2_as_object_auth v2_object_auth_means) M
       (m2_oss_bucket x, m2_oss_auth x))"

definition v2_object_source_spec_cells ::
  "('f, 'om, 'lm) v2_cell list \<Rightarrow> m2_object_source_spec \<Rightarrow> nat set" where
  "v2_object_source_spec_cells M x = ptr_cells v2_as_bucket_spec (\<lambda>M y. {}) M (m2_oss_bucket x)
     \<union> ptr_cells v2_as_object_auth v2_object_auth_cells M (m2_oss_auth x)"

lemma v2_object_source_spec_deep:
  "deep_copy v2_object_source_spec_deep_copy_into v2_object_source_spec_means v2_object_source_spec_cells"
  unfolding v2_object_source_spec_deep_copy_into_def [abs_def]
    v2_object_source_spec_means_def [abs_def] v2_object_source_spec_cells_def [abs_def]
  by (rule deep_copy_two_parts [OF deep_copy_pointer [OF deep_copy_value] deep_copy_pointer [OF v2_object_auth_deep],
      where put = "\<lambda>y z x. x\<lparr>m2_oss_interval := m2_oss_interval x, m2_oss_bucket := y,
        m2_oss_auth := z\<rparr>"
      and build = "\<lambda>x (v, w). v2_object_source_spec_of x v w"]) (simp_all add: v2_object_source_spec_of_def)

definition v2_git_repository_means ::
  "('f, 'om, 'lm) v2_ext \<Rightarrow> ('f, 'om, 'lm) v2_cell list \<Rightarrow> 'om m2_git_repository
     \<Rightarrow> (type_meta \<times> v2_git_repository) option" where
  "v2_git_repository_means X = object_means X v2_git_repository_spec_means v2_git_repository_status_means
     (\<lambda>m s t. \<lparr>v2_gr_meta = m, v2_gr_spec = s, v2_gr_status = t\<rparr>)"

definition v2_git_repository_cells ::
  "('f, 'om, 'lm) v2_ext \<Rightarrow> ('f, 'om, 'lm) v2_cell list \<Rightarrow> 'om m2_git_repository
     \<Rightarrow> nat set" where
  "v2_git_repository_cells X = object_cells X v2_git_repository_spec_cells v2_git_repository_status_cells"

definition v2_git_repository_list_means ::
  "('f, 'om, 'lm) v2_ext \<Rightarrow> ('f, 'om, 'lm) v2_cell list \<Rightarrow> 'lm go_list
     \<Rightarrow> (type_meta \<times> list_meta \<times> (type_meta \<times> v2_git_repository) list option) option" where
  "v2_git_repository_list_means X = list_means X v2_as_git_repository_array (v2_git_repository_means X)"

lemma v2_git_repository_deep:
  assumes "meta_deep X"
  shows "deep_copy (v2_git_repository_deep_copy_into X) (v2_git_repository_means X) (v2_git_repository_cells X)"
  unfolding v2_git_repository_deep_copy_into_def v2_git_repository_means_def v2_git_repository_cells_def
  by (rule deep_copy_object [OF assms v2_git_repository_spec_deep v2_git_repository_status_deep [OF assms]])

lemma v2_git_repository_list_deep:
  assumes "meta_deep X"
  shows "deep_copy (v2_git_repository_list_deep_copy_into X) (v2_git_repository_list_means X)
    (list_cells X v2_as_git_repository_array (v2_git_repository_cells X))"
  unfolding v2_git_repository_list_deep_copy_into_def v2_git_repository_list_means_def
  by (rule deep_copy_list [OF assms v2_git_repository_deep [OF assms]]) simp

definition v2_inline_sops_secret_means ::
  "('f, 'om, 'lm) v2_ext \<Rightarrow> ('f, 'om, 'lm) v2_cell list \<Rightarrow> 'om m2_inline_sops_secret
     \<Rightarrow> (type_meta \<times> v2_inline_sops_secret) option" where
  "v2_inline_sops_secret_means X = object_means X v2_inline_sops_secret_spec_means v2_inline_sops_secret_status_means
     (\<lambda>m s t. \<lparr>v2_is_meta = m, v2_is_spec = s, v2_is_status = t\<rparr>)"

definition v2_inline_sops_secret_cells ::
  "('f, 'om, 'lm) v2_ext \<Rightarrow> ('f, 'om, 'lm) v2_cell list \<Rightarrow> 'om m2_inline_sops_secret
     \<Rightarrow> nat set" where
  "v2_inline_sops_secret_cells X = object_cells X v2_inline_sops_secret_spec_cells v2_inline_sops_secret_status_cells"

definition v2_inline_sops_secret_list_means ::
  "('f, 'om, 'lm) v2_ext \<Rightarrow> ('f, 'om, 'lm) v2_cell list \<Rightarrow> 'lm go_list
     \<Rightarrow> (type_meta \<times> list_meta \<times> (type_meta \<times> v2_inline_sops_secret) list option) option" where
  "v2_inline_sops_secret_list_means X = list_means X v2_as_inline_sops_secret_array (v2_inline_sops_secret_means X)"

lemma v2_inline_sops_secret_deep:
  assumes "meta_deep X"
  shows "deep_copy (v2_inline_sops_secret_deep_copy_into X) (v2_inline_sops_secret_means X) (v2_inline_sops_secret_cells X)"
  unfolding v2_inline_sops_secret_deep_copy_into_def v2_inline_sops_secret_means_def v2_inline_sops_secret_cells_def
  by (rule deep_copy_object [OF assms v2_inline_sops_secret_spec_deep v2_inline_sops_secret_status_deep [OF assms]])

lemma v2_inline_sops_secret_list_deep:
  assumes "meta_deep X"
  shows "deep_copy (v2_inline_sops_secret_list_deep_copy_into X) (v2_inline_sops_secret_list_means X)
    (list_cells X v2_as_inline_sops_secret_array (v2_inline_sops_secret_cells X))"
  unfolding v2_inline_sops_secret_list_deep_copy_into_def v2_inline_sops_secret_list_means_def
  by (rule deep_copy_list [OF assms v2_inline_sops_secret_deep [OF assms]]) simp

definition v2_object_source_means ::
  "('f, 'om, 'lm) v2_ext \<Rightarrow> ('f, 'om, 'lm) v2_cell list \<Rightarrow> 'om m2_object_source
     \<Rightarrow> (type_meta \<times> v2_object_source) option" where
  "v2_object_source_means X = object_means X v2_object_source_spec_means (v2_object_source_status_means X)
     (\<lambda>m s t. \<lparr>v2_os_meta = m, v2_os_spec = s, v2_os_status = t\<rparr>)"

definition v2_object_source_cells ::
  "('f, 'om, 'lm) v2_ext \<Rightarrow> ('f, 'om, 'lm) v2_cell list \<Rightarrow> 'om m2_object_source
     \<Rightarrow> nat set" where
  "v2_object_source_cells X = object_cells X v2_object_source_spec_cells (v2_object_source_status_cells X)"

definition v2_object_source_list_means ::
  "('f, 'om, 'lm) v2_ext \<Rightarrow> ('f, 'om, 'lm) v2_cell list \<Rightarrow> 'lm go_list
     \<Rightarrow> (type_meta \<times> list_meta \<times> (type_meta \<times> v2_object_source) list option) option" where
  "v2_object_source_list_means X = list_means X v2_as_object_source_array (v2_object_source_means X)"

lemma v2_object_source_deep:
  assumes "meta_deep X"
  shows "deep_copy (v2_object_source_deep_copy_into X) (v2_object_source_means X) (v2_object_source_cells X)"
  unfolding v2_object_source_deep_copy_into_def v2_object_source_means_def v2_object_source_cells_def
  by (rule deep_copy_object [OF assms v2_object_source_spec_deep v2_object_source_status_deep [OF assms]])

lemma v2_object_source_list_deep:
  assumes "meta_deep X"
  shows "deep_copy (v2_object_source_list_deep_copy_into X) (v2_object_source_list_means X)
    (list_cells X v2_as_object_source_array (v2_object_source_cells X))"
  unfolding v2_object_source_list_deep_copy_into_def v2_object_source_list_means_def
  by (rule deep_copy_list [OF assms v2_object_source_deep [OF assms]]) simp

definition v2_sops_secret_means ::
  "('f, 'om, 'lm) v2_ext \<Rightarrow> ('f, 'om, 'lm) v2_cell list \<Rightarrow> 'om m2_sops_secret
     \<Rightarrow> (type_meta \<times> v2_sops_secret) option" where
  "v2_sops_secret_means X = object_means X v2_sops_secret_spec_means v2_sops_secret_status_means
     (\<lambda>m s t. \<lparr>v2_ss_meta = m, v2_ss_spec = s, v2_ss_status = t\<rparr>)"

definition v2_sops_secret_cells ::
  "('f, 'om, 'lm) v2_ext \<Rightarrow> ('f, 'om, 'lm) v2_cell list \<Rightarrow> 'om m2_sops_secret
     \<Rightarrow> nat set" where
  "v2_sops_secret_cells X = object_cells X v2_sops_secret_spec_cells v2_sops_secret_status_cells"

definition v2_sops_secret_list_means ::
  "('f, 'om, 'lm) v2_ext \<Rightarrow> ('f, 'om, 'lm) v2_cell list \<Rightarrow> 'lm go_list
     \<Rightarrow> (type_meta \<times> list_meta \<times> (type_meta \<times> v2_sops_secret) list option) option" where
  "v2_sops_secret_list_means X = list_means X v2_as_sops_secret_array (v2_sops_secret_means X)"

lemma v2_sops_secret_deep:
  assumes "meta_deep X"
  shows "deep_copy (v2_sops_secret_deep_copy_into X) (v2_sops_secret_means X) (v2_sops_secret_cells X)"
  unfolding v2_sops_secret_deep_copy_into_def v2_sops_secret_means_def v2_sops_secret_cells_def
  by (rule deep_copy_object [OF assms v2_sops_secret_spec_deep v2_sops_secret_status_deep [OF assms]])

lemma v2_sops_secret_list_deep:
  assumes "meta_deep X"
  shows "deep_copy (v2_sops_secret_list_deep_copy_into X) (v2_sops_secret_list_means X)
    (list_cells X v2_as_sops_secret_array (v2_sops_secret_cells X))"
  unfolding v2_sops_secret_list_deep_copy_into_def v2_sops_secret_list_means_def
  by (rule deep_copy_list [OF assms v2_sops_secret_deep [OF assms]]) simp

definition v2_sops_secret_manifest_means ::
  "('f, 'om, 'lm) v2_ext \<Rightarrow> ('f, 'om, 'lm) v2_cell list \<Rightarrow> 'om m2_sops_secret_manifest
     \<Rightarrow> (type_meta \<times> v2_sops_secret_manifest) option" where
  "v2_sops_secret_manifest_means X =
     object_means X v2_sops_secret_manifest_spec_means v2_sops_secret_manifest_status_means
     (\<lambda>m s t. \<lparr>v2_sm_meta = m, v2_sm_spec = s, v2_sm_status = t\<rparr>)"

definition v2_sops_secret_manifest_cells ::
  "('f, 'om, 'lm) v2_ext \<Rightarrow> ('f, 'om, 'lm) v2_cell list \<Rightarrow> 'om m2_sops_secret_manifest
     \<Rightarrow> nat set" where
  "v2_sops_secret_manifest_cells X =
     object_cells X v2_sops_secret_manifest_spec_cells v2_sops_secret_manifest_status_cells"

definition v2_sops_secret_manifest_list_means ::
  "('f, 'om, 'lm) v2_ext \<Rightarrow> ('f, 'om, 'lm) v2_cell list \<Rightarrow> 'lm go_list
     \<Rightarrow> (type_meta \<times> list_meta \<times> (type_meta \<times> v2_sops_secret_manifest) list option) option" where
  "v2_sops_secret_manifest_list_means X =
     list_means X v2_as_sops_secret_manifest_array (v2_sops_secret_manifest_means X)"

lemma v2_sops_secret_manifest_deep:
  assumes "meta_deep X"
  shows "deep_copy (v2_sops_secret_manifest_deep_copy_into X) (v2_sops_secret_manifest_means X) (v2_sops_secret_manifest_cells X)"
  unfolding v2_sops_secret_manifest_deep_copy_into_def v2_sops_secret_manifest_means_def v2_sops_secret_manifest_cells_def
  by (rule deep_copy_object [OF assms v2_sops_secret_manifest_spec_deep v2_sops_secret_manifest_status_deep [OF assms]])

lemma v2_sops_secret_manifest_list_deep:
  assumes "meta_deep X"
  shows "deep_copy (v2_sops_secret_manifest_list_deep_copy_into X) (v2_sops_secret_manifest_list_means X)
    (list_cells X v2_as_sops_secret_manifest_array (v2_sops_secret_manifest_cells X))"
  unfolding v2_sops_secret_manifest_list_deep_copy_into_def v2_sops_secret_manifest_list_means_def
  by (rule deep_copy_list [OF assms v2_sops_secret_manifest_deep [OF assms]]) simp

text \<open>A pointer to a resource, and to a list.\<close>

definition v2_git_repository_at ::
  "('f, 'om, 'lm) v2_ext \<Rightarrow> ('f, 'om, 'lm) v2_cell list \<Rightarrow> nat option
     \<Rightarrow> (type_meta \<times> v2_git_repository) option option" where
  "v2_git_repository_at X = ptr_means v2_as_git_repository (v2_git_repository_means X)"

lemma v2_git_repository_isolated:
  assumes "meta_deep X"
  shows "isolated_copy (v2_git_repository_deep_copy X) (v2_git_repository_at X)"
  unfolding v2_git_repository_deep_copy_def v2_git_repository_at_def
  by (rule deep_copy_isolated [OF deep_copy_pointer [OF v2_git_repository_deep [OF assms]]]) simp

definition v2_inline_sops_secret_at ::
  "('f, 'om, 'lm) v2_ext \<Rightarrow> ('f, 'om, 'lm) v2_cell list \<Rightarrow> nat option
     \<Rightarrow> (type_meta \<times> v2_inline_sops_secret) option option" where
  "v2_inline_sops_secret_at X = ptr_means v2_as_inline_sops_secret (v2_inline_sops_secret_means X)"

lemma v2_inline_sops_secret_isolated:
  assumes "meta_deep X"
  shows "isolated_copy (v2_inline_sops_secret_deep_copy X) (v2_inline_sops_secret_at X)"
  unfolding v2_inline_sops_secret_deep_copy_def v2_inline_sops_secret_at_def
  by (rule deep_copy_isolated [OF deep_copy_pointer [OF v2_inline_sops_secret_deep [OF assms]]]) simp

definition v2_object_source_at ::
  "('f, 'om, 'lm) v2_ext \<Rightarrow> ('f, 'om, 'lm) v2_cell list \<Rightarrow> nat option
     \<Rightarrow> (type_meta \<times> v2_object_source) option option" where
  "v2_object_source_at X = ptr_means v2_as_object_source (v2_object_source_means X)"

lemma v2_object_source_isolated:
  assumes "meta_deep X"
  shows "isolated_copy (v2_object_source_deep_copy X) (v2_object_source_at X)"
  unfolding v2_object_source_deep_copy_def v2_object_source_at_def
  by (rule deep_copy_isolated [OF deep_copy_pointer [OF v2_object_source_deep [OF assms]]]) simp

definition v2_sops_secret_at ::
  "('f, 'om, 'lm) v2_ext \<Rightarrow> ('f, 'om, 'lm) v2_cell list \<Rightarrow> nat option
     \<Rightarrow> (type_meta \<times> v2_sops_secret) option option" where
  "v2_sops_secret_at X = ptr_means v2_as_sops_secret (v2_sops_secret_means X)"

lemma v2_sops_secret_isolated:
  assumes "meta_deep X"
  shows "isolated_copy (v2_sops_secret_deep_copy X) (v2_sops_secret_at X)"
  unfolding v2_sops_secret_deep_copy_def v2_sops_secret_at_def
  by (rule deep_copy_isolated [OF deep_copy_pointer [OF v2_sops_secret_deep [OF assms]]]) simp

definition v2_sops_secret_manifest_at ::
  "('f, 'om, 'lm) v2_ext \<Rightarrow> ('f, 'om, 'lm) v2_cell list \<Rightarrow> nat option
     \<Rightarrow> (type_meta \<times> v2_sops_secret_manifest) option option" where
  "v2_sops_secret_manifest_at X = ptr_means v2_as_sops_secret_manifest (v2_sops_secret_manifest_means X)"

lemma v2_sops_secret_manifest_isolated:
  assumes "meta_deep X"
  shows "isolated_copy (v2_sops_secret_manifest_deep_copy X) (v2_sops_secret_manifest_at X)"
  unfolding v2_sops_secret_manifest_deep_copy_def v2_sops_secret_manifest_at_def
  by (rule deep_copy_isolated [OF deep_copy_pointer [OF v2_sops_secret_manifest_deep [OF assms]]]) simp

definition v2_git_repository_list_at ::
  "('f, 'om, 'lm) v2_ext \<Rightarrow> ('f, 'om, 'lm) v2_cell list \<Rightarrow> nat option
     \<Rightarrow> (type_meta \<times> list_meta \<times> (type_meta \<times> v2_git_repository) list option) option option" where
  "v2_git_repository_list_at X = ptr_means v2_as_git_repository_list (v2_git_repository_list_means X)"

lemma v2_git_repository_list_isolated:
  assumes "meta_deep X"
  shows "isolated_copy (v2_git_repository_list_deep_copy X) (v2_git_repository_list_at X)"
  unfolding v2_git_repository_list_deep_copy_def v2_git_repository_list_at_def
  by (rule deep_copy_isolated [OF deep_copy_pointer [OF v2_git_repository_list_deep [OF assms]]]) simp

definition v2_inline_sops_secret_list_at ::
  "('f, 'om, 'lm) v2_ext \<Rightarrow> ('f, 'om, 'lm) v2_cell list \<Rightarrow> nat option
     \<Rightarrow> (type_meta \<times> list_meta \<times> (type_meta \<times> v2_inline_sops_secret) list option) option option" where
  "v2_inline_sops_secret_list_at X = ptr_means v2_as_inline_sops_secret_list (v2_inline_sops_secret_list_means X)"

lemma v2_inline_sops_secret_list_isolated:
  assumes "meta_deep X"
  shows "isolated_copy (v2_inline_sops_secret_list_deep_copy X) (v2_inline_sops_secret_list_at X)"
  unfolding v2_inline_sops_secret_list_deep_copy_def v2_inline_sops_secret_list_at_def
  by (rule deep_copy_isolated [OF deep_copy_pointer [OF v2_inline_sops_secret_list_deep [OF assms]]]) simp

definition v2_object_source_list_at ::
  "('f, 'om, 'lm) v2_ext \<Rightarrow> ('f, 'om, 'lm) v2_cell list \<Rightarrow> nat option
     \<Rightarrow> (type_meta \<times> list_meta \<times> (type_meta \<times> v2_object_source) list option) option option" where
  "v2_object_source_list_at X = ptr_means v2_as_object_source_list (v2_object_source_list_means X)"

lemma v2_object_source_list_isolated:
  assumes "meta_deep X"
  shows "isolated_copy (v2_object_source_list_deep_copy X) (v2_object_source_list_at X)"
  unfolding v2_object_source_list_deep_copy_def v2_object_source_list_at_def
  by (rule deep_copy_isolated [OF deep_copy_pointer [OF v2_object_source_list_deep [OF assms]]]) simp

definition v2_sops_secret_list_at ::
  "('f, 'om, 'lm) v2_ext \<Rightarrow> ('f, 'om, 'lm) v2_cell list \<Rightarrow> nat option
     \<Rightarrow> (type_meta \<times> list_meta \<times> (type_meta \<times> v2_sops_secret) list option) option option" where
  "v2_sops_secret_list_at X = ptr_means v2_as_sops_secret_list (v2_sops_secret_list_means X)"

lemma v2_sops_secret_list_isolated:
  assumes "meta_deep X"
  shows "isolated_copy (v2_sops_secret_list_deep_copy X) (v2_sops_secret_list_at X)"
  unfolding v2_sops_secret_list_deep_copy_def v2_sops_secret_list_at_def
  by (rule deep_copy_isolated [OF deep_copy_pointer [OF v2_sops_secret_list_deep [OF assms]]]) simp

definition v2_sops_secret_manifest_list_at ::
  "('f, 'om, 'lm) v2_ext \<Rightarrow> ('f, 'om, 'lm) v2_cell list \<Rightarrow> nat option
     \<Rightarrow> (type_meta \<times> list_meta \<times> (type_meta \<times> v2_sops_secret_manifest) list option) option option" where
  "v2_sops_secret_manifest_list_at X =
     ptr_means v2_as_sops_secret_manifest_list (v2_sops_secret_manifest_list_means X)"

lemma v2_sops_secret_manifest_list_isolated:
  assumes "meta_deep X"
  shows "isolated_copy (v2_sops_secret_manifest_list_deep_copy X) (v2_sops_secret_manifest_list_at X)"
  unfolding v2_sops_secret_manifest_list_deep_copy_def v2_sops_secret_manifest_list_at_def
  by (rule deep_copy_isolated [OF deep_copy_pointer [OF v2_sops_secret_manifest_list_deep [OF assms]]]) simp

text \<open>The specs that need nothing of apimachinery are deep copies as they stand.\<close>

interpretation v2_git_auth: deep_copy v2_git_auth_deep_copy_into v2_git_auth_means v2_git_auth_cells
  by (rule v2_git_auth_deep)

interpretation v2_inline_sops_secret_spec:
  deep_copy v2_inline_sops_secret_spec_deep_copy_into v2_inline_sops_secret_spec_means v2_inline_sops_secret_spec_cells
  by (rule v2_inline_sops_secret_spec_deep)

interpretation v2_object_auth: deep_copy v2_object_auth_deep_copy_into v2_object_auth_means v2_object_auth_cells
  by (rule v2_object_auth_deep)

interpretation v2_sops_secret_manifest_spec:
  deep_copy v2_sops_secret_manifest_spec_deep_copy_into v2_sops_secret_manifest_spec_means v2_sops_secret_manifest_spec_cells
  by (rule v2_sops_secret_manifest_spec_deep)

interpretation v2_sops_secret_spec:
  deep_copy v2_sops_secret_spec_deep_copy_into v2_sops_secret_spec_means v2_sops_secret_spec_cells
  by (rule v2_sops_secret_spec_deep)

interpretation v2_git_repository_spec:
  deep_copy v2_git_repository_spec_deep_copy_into v2_git_repository_spec_means v2_git_repository_spec_cells
  by (rule v2_git_repository_spec_deep)

interpretation v2_object_source_spec:
  deep_copy v2_object_source_spec_deep_copy_into v2_object_source_spec_means v2_object_source_spec_cells
  by (rule v2_object_source_spec_deep)

section \<open>Resources and lists\<close>

text \<open>
A deep copy of a v1alpha2 resource, or of a list of them, stands for the same value and shares no
memory with the original: whatever is written through the one leaves what the other stands for as it
is.
\<close>

lemma v1alpha2_deep_copies_isolated:
  assumes "meta_deep X"
  shows "isolated_copy (v2_git_repository_deep_copy X) (v2_git_repository_at X)
    \<and> isolated_copy (v2_inline_sops_secret_deep_copy X) (v2_inline_sops_secret_at X)
    \<and> isolated_copy (v2_object_source_deep_copy X) (v2_object_source_at X)
    \<and> isolated_copy (v2_sops_secret_deep_copy X) (v2_sops_secret_at X)
    \<and> isolated_copy (v2_sops_secret_manifest_deep_copy X) (v2_sops_secret_manifest_at X)
    \<and> isolated_copy (v2_git_repository_list_deep_copy X) (v2_git_repository_list_at X)
    \<and> isolated_copy (v2_inline_sops_secret_list_deep_copy X) (v2_inline_sops_secret_list_at X)
    \<and> isolated_copy (v2_object_source_list_deep_copy X) (v2_object_source_list_at X)
    \<and> isolated_copy (v2_sops_secret_list_deep_copy X) (v2_sops_secret_list_at X)
    \<and> isolated_copy (v2_sops_secret_manifest_list_deep_copy X) (v2_sops_secret_manifest_list_at X)"
  using v2_git_repository_isolated [OF assms]
    v2_inline_sops_secret_isolated [OF assms]
    v2_object_source_isolated [OF assms]
    v2_sops_secret_isolated [OF assms]
    v2_sops_secret_manifest_isolated [OF assms]
    v2_git_repository_list_isolated [OF assms]
    v2_inline_sops_secret_list_isolated [OF assms]
    v2_object_source_list_isolated [OF assms]
    v2_sops_secret_list_isolated [OF assms]
    v2_sops_secret_manifest_list_isolated [OF assms]
  by blast

text \<open>
An object source with a bucket, an auth and a time, all behind pointers.
\<close>

definition v2_sample_ext :: "(meta_cell, mem_meta, list_meta) v2_ext" where
  "v2_sample_ext = mem_meta_ext V2Foreign v2_as_foreign"

definition v2_sample_memory :: "(meta_cell, mem_meta, list_meta) v2_cell list" where
  "v2_sample_memory =
     [V2Plain (V2BucketSpec \<lparr>v2_b_endpoint = ''s3'', v2_b_name = ''b'', v2_b_region = [],
       v2_b_insecure = False\<rparr>),
      V2Plain (V2SecretReference \<lparr>v2_sr_name = ''keys'', v2_sr_namespace = []\<rparr>),
      V2Struct (V2ObjectAuth \<lparr>m2_oa_type = ''s3'', m2_oa_secret_ref = Some 1\<rparr>),
      V2Foreign (TimeCell 7),
      V2Struct (V2ObjectSource \<lparr>go_type_meta = \<lparr>tm_kind = ''ObjectSource'',
        tm_api_version = ''sops/v1alpha2''\<rparr>,
        go_meta = \<lparr>mm_plain = empty_meta, mm_labels = None\<rparr>,
        go_spec = \<lparr>m2_oss_url = [], m2_oss_bucket = Some 0, m2_oss_interval = 0, m2_oss_auth = Some 2\<rparr>,
        go_status = \<lparr>m2_ost_last_synced_etag = [], m2_ost_last_synced_at = Some 3, m2_ost_cache_ready = True,
          m2_ost_last_token = [], m2_ost_observed_generation = 1, m2_ost_conditions = NilSlice\<rparr>\<rparr>)]"

definition v2_sample_value :: v2_object_source where
  "v2_sample_value =
     \<lparr>v2_os_meta = empty_meta,
      v2_os_spec = \<lparr>v2_oss_url = [],
        v2_oss_bucket = Some \<lparr>v2_b_endpoint = ''s3'', v2_b_name = ''b'', v2_b_region = [],
          v2_b_insecure = False\<rparr>,
        v2_oss_interval = 0,
        v2_oss_auth = Some \<lparr>v2_oa_type = ''s3'', v2_oa_secret_ref = Some \<lparr>v2_sr_name = ''keys'',
          v2_sr_namespace = []\<rparr>\<rparr>\<rparr>,
      v2_os_status = \<lparr>v2_ost_last_synced_etag = [], v2_ost_last_synced_at = Some 7, v2_ost_cache_ready = True,
        v2_ost_last_token = [], v2_ost_observed_generation = 1, v2_ost_conditions = []\<rparr>\<rparr>"

lemma v2_sample_ext_deep: "meta_deep v2_sample_ext"
  unfolding v2_sample_ext_def by (rule mem_meta_deep) simp

lemma v2_sample_means:
  "v2_object_source_at v2_sample_ext v2_sample_memory (Some 4)
    = Some (Some (\<lparr>tm_kind = ''ObjectSource'', tm_api_version = ''sops/v1alpha2''\<rparr>, v2_sample_value))"
  by code_simp

end
