(* ===== verification/Spec2Isabelle.thy ===== *)
theory Spec2Isabelle
  imports SecretRef Conversion Transform Git Fetcher Registry Tracker Decrypt ErrorText Kube Credentials Target
    System Startup Scheme Locking GitLocking RepoMutex Progress Serial GoMemory DeepCopy1 DeepCopy2
begin

text \<open>
  A verification development for sops-secrets-operator, a Kubernetes operator that decrypts
  SOPS-encrypted files with age keys and keeps the plaintext in Secrets.

  \<^bold>\<open>The program.\<close> Two controllers keep sources in a local cache: \<open>GitRepository\<close> clones a repository,
  \<open>ObjectSource\<close> fetches a document by URL or checks a bucket. Three controllers write Secrets:
  \<open>SopsSecret\<close> selects keys from an encrypted file of a source, \<open>SopsSecretManifest\<close> applies an
  encrypted Secret manifest of a source, and \<open>InlineSopsSecret\<close> does either with a document that it
  carries itself. They meet in the source registry (filled by the first two, read by the
  SopsSecret and SopsSecretManifest controllers), in the API server, and in the process environment
  through which SOPS gets its key.

  \<^bold>\<open>The theories\<close>, bottom up; the Go file of each is named in its opening text.

  \<^item> \<open>Prelude\<close>, \<open>GoLib\<close>, \<open>GoFloat\<close>, \<open>Sha256\<close>: byte strings, Go maps that may be nil, the frame
    calculus for state-passing code, and what the code uses of Go's standard library.
  \<^item> \<open>ApiTypes\<close>, \<open>Conversion\<close>: the custom resources of \<open>api/v1alpha1\<close> and \<open>api/v1alpha2\<close>, and the
    conversion webhook. The locale \<open>hub_spoke\<close> is the contract of a pair of conversions.
  \<^item> \<open>GoMemory\<close>, \<open>DeepCopy1\<close>, \<open>DeepCopy2\<close>: pointers, slices and maps in an explicit memory, and every
    function of the two \<open>zz_generated.deepcopy.go\<close> over it (locale \<open>deep_copy\<close>).
  \<^item> \<open>SecretRef\<close>, \<open>Credentials\<close>: which Secret a reference means (\<open>internal/secretref\<close>, locale
    \<open>credential_resolver\<close>), and the age key (\<open>internal/keyresolve\<close>, \<open>credentials.go\<close>).
  \<^item> \<open>Transform\<close>: flat YAML, data mappings, the manifest whitelist and the content hashes
    (\<open>internal/transform\<close>).
  \<^item> \<open>OsModel\<close>, \<open>Git\<close>, \<open>Fetcher\<close>, \<open>Registry\<close>: the file system and environment of the process; the
    clone (\<open>internal/git\<close>), the fetchers (\<open>internal/object\<close>, locale \<open>conditional_fetcher\<close>) and the
    caches (\<open>internal/source\<close>).
  \<^item> \<open>Locking\<close>, \<open>GitLocking\<close>: the same caches when calls overlap: step relations whose steps lie
    between the operations on \<open>r.mu\<close> and the \<open>RWMutex\<close> of an entry (locale \<open>call_locks\<close>).
    \<open>RepoMutex\<close>: at most one call at a time is inside \<open>EnsureCloned\<close> of a directory.
    \<open>Serial\<close> relates them to the calls of \<open>Registry\<close>; \<open>Progress\<close> shows that calls come to an end, also
    those of \<open>Decrypt\<close> (locale \<open>progress\<close>).
  \<^item> \<open>Decrypt\<close>: \<open>DecryptAge\<close> as one call, and its mutex protocol as the step relation \<open>decrypt_step\<close>.
  \<^item> \<open>Telemetry\<close>, \<open>Tracker\<close>, \<open>ErrorText\<close>: metrics, spans and the outcome of a reconcile; error texts.
  \<^item> \<open>Kube\<close>, \<open>Target\<close>, \<open>Effects\<close>: the API client; markers, adoption check and removal of owned Secrets
    (locale \<open>target_mutator\<close>, interpreted for the four mutate functions in their controllers); what
    each operation does to the stored Secrets.
  \<^item> \<open>GitRepositoryCtl\<close>, \<open>ObjectSourceCtl\<close>, \<open>Pipeline\<close>, \<open>SopsSecretCtl\<close>, \<open>SopsSecretManifestCtl\<close>,
    \<open>InlineSopsSecretCtl\<close>: the five reconcilers, statement by statement, and the steps that three of
    them repeat. \<open>Samples\<close> holds the clusters in memory that the witnesses use.
  \<^item> \<open>System\<close>: the five as one program, and sequences of reconciles and foreign writes.
  \<^item> \<open>Startup\<close>: the flags and \<open>main\<close>, up to and after \<open>mgr.Start\<close>. \<open>Scheme\<close>: the types that \<open>init\<close>
    registers, among them all that the controllers and the conversion webhook handle.

  \<^bold>\<open>State.\<close> A reconcile is a \<open>State_Monad\<close> program over \<open>op_state\<close>: the opaque outside world (API
  server, remotes, clock), the file system, the environment, the caches of the registry, and the
  log of metric and span events. An error is a value of a sum type whose constructors are the
  \<open>fmt.Errorf\<close> calls; an early return is a branch.

  \<^bold>\<open>Parameters and what is assumed of them.\<close> Third-party code is a record of functions:
  \<open>'w kube\<close> (controller-runtime and apimachinery), \<open>'w git_ext\<close> (go-git, SSH), \<open>'w remote_ext\<close>
  (net/http, minio-go), \<open>'w sops_lib\<close>, \<open>yaml_lib\<close>, \<open>'w startup_ext\<close>. Where a property needs more, a
  named hypothesis states documented behaviour: \<open>kube_ok\<close> and \<open>env_ok\<close> (the API server stores what it
  is sent and nothing else changes a Secret during a call), \<open>git_ok\<close> (go-git writes below the given
  directory), \<open>indexed\<close> (a field index lists what its function says), \<open>honest_etags\<close> (RFC 9110),
  \<open>meta_deep\<close> (the \<open>DeepCopy\<close> functions of apimachinery's own types copy deeply). Each is shown to hold
  for an instance in memory (\<open>mem_kube\<close>, \<open>mem_git\<close>, \<open>mem_remote\<close>, \<open>mem_meta_ext\<close>).

  \<^bold>\<open>What is shown.\<close>

  \<^item> Every reconcile refines one step of a contract over the stored Secrets, so whatever sequence of
    reconciles and foreign writes happens, a Secret that no one manages and a Secret that another
    resource owns stay as they are (\<open>System\<close>); each controller stays within its target.
  \<^item> A successful reconcile has written the right Secret, from the source's file to the stored data;
    deleting a resource removes its Secret; repeating a reconcile settles; a resource that is alive
    is always looked at again, unless it is a source with a negative interval; each reconcile is
    counted once.
  \<^item> Credentials: references stay in the resource's namespace unless the policy permits more, the key
    used is one of those, concurrent decryptions never see each other's key, and with SSH credentials
    go-git is never asked to act without checking host keys.
  \<^item> Caches: content and ETag stay paired, also while calls overlap; so do a commit and its files, as
    long as no two entries have one directory (\<open>own_dirs\<close>) and a failing update cleans up (\<open>half\<close> is
    false). Conditional refreshes are equivalent to full ones, a failed clone leaves nothing behind
    but what the OS refuses to remove, a read stays below its clone. Calls that share locks never wait for each other in a circle: as
    long as one is unfinished some call can move, and each makes at most six steps. Calls made one
    after another are among the interleaved executions.
  \<^item> Data: a file is read completely or not at all, and numbers between -2^63 and 2^63 are rendered
    without loss; the whitelist is complete, conversions
    round-trip, hashes determine contents. A deep copy of an API object means the same object and
    shares no memory with it, which is why every other theory may treat objects as values.
  \<^item> Startup: invalid credential flags stop the process before it has done anything; the manager runs
    only with every controller, index and watch in place.

  The theories also hold lemmas that exhibit defects of the code, such as \<open>rotated_credentials_ignored\<close>,
  \<open>forget_breaks_twin\<close>, \<open>stale_content_after_url_edit\<close>, \<open>hash_ambiguous_with_nul\<close>,
  \<open>negative_interval_goes_idle\<close>, \<open>recreated_entry_misreports_commit\<close>,
  \<open>read_before_first_refresh\<close> and \<open>failed_read_counted_as_success\<close>.

  \<^bold>\<open>Bounds.\<close> Path resolution follows at most 40 symbolic links, as the Linux kernel does, and fails
  beyond; no other definition has fuel. SHA-256 is computed on byte strings with 32-bit words;
  properties of hashes are up to a collision. A \<open>float64\<close> is a rational number rounded to a double.

  \<^bold>\<open>Not modelled.\<close> Helpers of the tests (\<open>internal/testutil\<close>, \<open>test/utils\<close>: they build fixtures with
  go-git, age and \<open>kubectl\<close> and are not part of the operator), the queues, caches
  and leader election of controller-runtime (a reconcile runs to its end as one step; concurrency is
  modelled where the code itself guards it, in \<open>Decrypt\<close>, \<open>Locking\<close>, \<open>GitLocking\<close> and \<open>RepoMutex\<close>), measured
  durations and timestamps, log messages other than that of the credential policy, and zap's flags.
  In \<open>GoMemory\<close> a nil slice of conditions or mappings means the same value as an empty one, as it does
  in the other theories.
\<close>

text \<open>
C27: Every \<open>DeepCopy\<close> of a kind and of its list, in both versions, returns an object that means what the
original means, writes to no cell that was there before, and shares no memory: the copy keeps its
meaning whatever happens to the cells that existed before, and the original whatever happens to the
new ones. Hypothesis: the copies that apimachinery makes of its own types are deep.
\<close>

theorem api_deep_copies_isolated:
  fixes X1 :: "('f1, 'om1, 'lm1) v1_ext" and X2 :: "('f2, 'om2, 'lm2) v2_ext"
  assumes "meta_deep X1" and "meta_deep X2"
  shows "isolated_copy (v1_git_repository_deep_copy X1) (v1_git_repository_at X1)
    \<and> isolated_copy (v1_inline_sops_secret_deep_copy X1) (v1_inline_sops_secret_at X1)
    \<and> isolated_copy (v1_sops_secret_deep_copy X1) (v1_sops_secret_at X1)
    \<and> isolated_copy (v1_sops_secret_manifest_deep_copy X1) (v1_sops_secret_manifest_at X1)
    \<and> isolated_copy (v1_git_repository_list_deep_copy X1) (v1_git_repository_list_at X1)
    \<and> isolated_copy (v1_inline_sops_secret_list_deep_copy X1) (v1_inline_sops_secret_list_at X1)
    \<and> isolated_copy (v1_sops_secret_list_deep_copy X1) (v1_sops_secret_list_at X1)
    \<and> isolated_copy (v1_sops_secret_manifest_list_deep_copy X1) (v1_sops_secret_manifest_list_at X1)
    \<and> isolated_copy (v2_git_repository_deep_copy X2) (v2_git_repository_at X2)
    \<and> isolated_copy (v2_inline_sops_secret_deep_copy X2) (v2_inline_sops_secret_at X2)
    \<and> isolated_copy (v2_object_source_deep_copy X2) (v2_object_source_at X2)
    \<and> isolated_copy (v2_sops_secret_deep_copy X2) (v2_sops_secret_at X2)
    \<and> isolated_copy (v2_sops_secret_manifest_deep_copy X2) (v2_sops_secret_manifest_at X2)
    \<and> isolated_copy (v2_git_repository_list_deep_copy X2) (v2_git_repository_list_at X2)
    \<and> isolated_copy (v2_inline_sops_secret_list_deep_copy X2) (v2_inline_sops_secret_list_at X2)
    \<and> isolated_copy (v2_object_source_list_deep_copy X2) (v2_object_source_list_at X2)
    \<and> isolated_copy (v2_sops_secret_list_deep_copy X2) (v2_sops_secret_list_at X2)
    \<and> isolated_copy (v2_sops_secret_manifest_list_deep_copy X2) (v2_sops_secret_manifest_list_at X2)"
  using v1alpha1_deep_copies_isolated [OF assms(1)] v1alpha2_deep_copies_isolated [OF assms(2)] by blast

text \<open>
A repository and an object source whose parts lie behind pointers: after the original's Secret
reference, or its bucket, is overwritten, the copy is what it was.
\<close>

theorem api_deep_copies_isolated_witness:
  "(\<exists>q N. run_state (v1_git_repository_deep_copy v1_sample_ext (Some 4)) v1_sample_memory = (q, N)
      \<and> v1_git_repository_at v1_sample_ext
          (N[0 := V1Plain (V1SecretReference \<lparr>v1_sr_name = ''other'', v1_sr_namespace = []\<rparr>)]) q
        = Some (Some (\<lparr>tm_kind = ''GitRepository'', tm_api_version = ''sops/v1alpha1''\<rparr>, v1_sample_value)))
    \<and> (\<exists>q N. run_state (v2_object_source_deep_copy v2_sample_ext (Some 4)) v2_sample_memory = (q, N)
      \<and> v2_object_source_at v2_sample_ext
          (N[0 := V2Plain (V2BucketSpec \<lparr>v2_b_endpoint = ''else'', v2_b_name = [], v2_b_region = [],
            v2_b_insecure = True\<rparr>)]) q
        = Some (Some (\<lparr>tm_kind = ''ObjectSource'', tm_api_version = ''sops/v1alpha2''\<rparr>, v2_sample_value)))"
proof -
  note copies = api_deep_copies_isolated [OF v1_sample_ext_deep v2_sample_ext_deep]
  obtain q M where q: "run_state (v1_git_repository_deep_copy v1_sample_ext (Some 4)) v1_sample_memory = (q, M)"
    by (meson surj_pair)
  obtain r N where r: "run_state (v2_object_source_deep_copy v2_sample_ext (Some 4)) v2_sample_memory = (r, N)"
    by (meson surj_pair)
  from copies have "isolated_copy (v1_git_repository_deep_copy v1_sample_ext) (v1_git_repository_at v1_sample_ext)"
    by (elim conjE)
  from isolated_overwrite [OF this v1_sample_means q] have one:
    "v1_git_repository_at v1_sample_ext (M[0 := c]) q
      = Some (Some (\<lparr>tm_kind = ''GitRepository'', tm_api_version = ''sops/v1alpha1''\<rparr>, v1_sample_value))" for c
    by (simp add: v1_sample_memory_def)
  from copies have "isolated_copy (v2_object_source_deep_copy v2_sample_ext) (v2_object_source_at v2_sample_ext)"
    by (elim conjE)
  from isolated_overwrite [OF this v2_sample_means r] have two:
    "v2_object_source_at v2_sample_ext (N[0 := c]) r
      = Some (Some (\<lparr>tm_kind = ''ObjectSource'', tm_api_version = ''sops/v1alpha2''\<rparr>, v2_sample_value))" for c
    by (simp add: v2_sample_memory_def)
  from q r one two show ?thesis by blast
qed

end
